(* ===== verification/Prelude.thy ===== *)
theory Prelude
  imports Complex_Main "HOL-Library.Multiset"
begin

text \<open>
  Shared vocabulary of the development.  Python features that many modules of the
  repository use are given one definition here: insertion-ordered dictionaries (as
  association lists), slices with Python's index rules, stable sorting by a key, and
  computations that thread the process state and may raise.  The lemmas about them are
  collected in \<open>dict_simps\<close>, \<open>comp_simps\<close> and \<open>py_defs\<close>, so that component proofs are
  \<open>simp add:\<close> of a collection.
\<close>

named_theorems dict_simps "lookup, update and deletion on insertion-ordered dictionaries"
named_theorems comp_simps "evaluation of computations (state and exceptions)"
named_theorems py_defs "definitions of Python primitives"

section \<open>Insertion-ordered dictionaries\<close>

text \<open>
  A Python \<open>dict\<close> keeps insertion order: assigning to a present key keeps its place,
  assigning to a new key appends, \<open>pop(k, None)\<close> removes.  Several modules of the
  repository iterate over dictionaries, so the order is kept in the model.
\<close>

type_synonym ('k, 'v) dict = "('k \<times> 'v) list"

fun dict_get :: "('k, 'v) dict \<Rightarrow> 'k \<Rightarrow> 'v option" where
  "dict_get [] k = None"
| "dict_get ((k', v) # d) k = (if k' = k then Some v else dict_get d k)"

fun dict_set :: "'k \<Rightarrow> 'v \<Rightarrow> ('k, 'v) dict \<Rightarrow> ('k, 'v) dict" where
  "dict_set k v [] = [(k, v)]"
| "dict_set k v ((k', v') # d) = (if k' = k then (k', v) # d else (k', v') # dict_set k v d)"

definition dict_pop :: "'k \<Rightarrow> ('k, 'v) dict \<Rightarrow> ('k, 'v) dict" where
  "dict_pop k d = filter (\<lambda>p. fst p \<noteq> k) d"

definition dict_getd :: "('k, 'v) dict \<Rightarrow> 'k \<Rightarrow> 'v \<Rightarrow> 'v" where
  "dict_getd d k v = (case dict_get d k of None \<Rightarrow> v | Some x \<Rightarrow> x)"

abbreviation dict_keys :: "('k, 'v) dict \<Rightarrow> 'k list" where
  "dict_keys d \<equiv> map fst d"

abbreviation dict_values :: "('k, 'v) dict \<Rightarrow> 'v list" where
  "dict_values d \<equiv> map snd d"

abbreviation wf_dict :: "('k, 'v) dict \<Rightarrow> bool" where
  "wf_dict d \<equiv> distinct (map fst d)"

lemma dict_get_set [dict_simps, simp]:
  "dict_get (dict_set k v d) k' = (if k = k' then Some v else dict_get d k')"
  by (induction d) auto

lemma dict_keys_set [dict_simps]:
  "dict_keys (dict_set k v d) = (if k \<in> set (dict_keys d) then dict_keys d else dict_keys d @ [k])"
proof (induction d)
  case (Cons p d)
  then show ?case by (cases p) (auto simp: rev_image_eqI)
qed simp

lemma wf_dict_set [simp, intro]: "wf_dict d \<Longrightarrow> wf_dict (dict_set k v d)"
  by (simp add: dict_keys_set)

lemma dict_get_None_iff [dict_simps]: "dict_get d k = None \<longleftrightarrow> k \<notin> set (dict_keys d)"
proof (induction d)
  case (Cons p d)
  then show ?case by (cases p) (auto simp: rev_image_eqI)
qed simp

lemma dict_get_SomeD: "dict_get d k = Some v \<Longrightarrow> (k, v) \<in> set d"
  by (induction d) (auto split: if_splits)

lemma dict_get_Some_iff: "wf_dict d \<Longrightarrow> dict_get d k = Some v \<longleftrightarrow> (k, v) \<in> set d"
  by (induction d) (auto simp: rev_image_eqI split: if_splits)

lemma dict_get_pop [dict_simps, simp]:
  "dict_get (dict_pop k d) k' = (if k = k' then None else dict_get d k')"
  by (induction d) (auto simp: dict_pop_def)

lemma dict_keys_pop [dict_simps]: "dict_keys (dict_pop k d) = filter (\<lambda>x. x \<noteq> k) (dict_keys d)"
  by (induction d) (auto simp: dict_pop_def)

lemma wf_dict_pop [simp, intro]: "wf_dict d \<Longrightarrow> wf_dict (dict_pop k d)"
  by (simp add: dict_keys_pop)

lemma dict_pop_subset: "set (dict_pop k d) \<subseteq> set d"
  by (auto simp: dict_pop_def)

lemma dict_set_in: "p \<in> set (dict_set k v d) \<Longrightarrow> p = (k, v) \<or> p \<in> set d"
  by (induction d) (auto split: if_splits)

lemma fst_dict_set [dict_simps, simp]: "fst ` set (dict_set k v d) = insert k (fst ` set d)"
proof (induction d)
  case (Cons p d)
  then show ?case by (cases p) auto
qed simp

lemma snd_dict_set: "snd ` set (dict_set k v d) \<subseteq> insert v (snd ` set d)"
  by (auto dest: dict_set_in)

lemma dict_set_nonempty [simp]: "dict_set k v d \<noteq> []"
  by (cases d) (auto split: if_splits)

text \<open>
  The interface of a keyed table, as the in-memory stores offer it: writing a key makes it
  readable and leaves the other keys alone.
\<close>

locale keyed_table =
  fixes tput :: "'k \<Rightarrow> 'v \<Rightarrow> 't \<Rightarrow> 't"
    and tget :: "'t \<Rightarrow> 'k \<Rightarrow> 'v option"
  assumes get_put_same: "tget (tput k v t) k = Some v"
    and get_put_other: "k \<noteq> k' \<Longrightarrow> tget (tput k v t) k' = tget t k'"
begin

lemma get_put: "tget (tput k v t) k' = (if k = k' then Some v else tget t k')"
  by (simp add: get_put_same get_put_other)

lemma put_twice: "tget (tput k v (tput k w t)) k' = tget (tput k v t) k'"
  by (simp add: get_put)

lemma put_commute:
  "k \<noteq> k' \<Longrightarrow> tget (tput k v (tput k' w t)) j = tget (tput k' w (tput k v t)) j"
  by (auto simp: get_put)

lemma fold_put_get:
  "tget (fold (\<lambda>p. tput (fst p) (snd p)) ps t) k =
     (case map_of (rev ps) k of None \<Rightarrow> tget t k | Some v \<Rightarrow> Some v)"
proof (induction ps arbitrary: t)
  case Nil
  then show ?case by simp
next
  case (Cons p ps)
  then show ?case
    by (simp add: get_put map_add_def split: option.splits)
qed

end

interpretation dict_tbl: keyed_table dict_set dict_get
  by unfold_locales auto

section \<open>Slices, stable sorting, filters\<close>

text \<open>\<open>xs[i:]\<close>, \<open>xs[:i]\<close> for any integer \<open>i\<close>: negative indices count from the end and both
  ends are clamped.\<close>

definition py_index :: "nat \<Rightarrow> int \<Rightarrow> nat" where
  [py_defs]: "py_index n i = (if i < 0 then nat (max 0 (int n + i)) else min n (nat i))"

definition py_take :: "int \<Rightarrow> 'a list \<Rightarrow> 'a list" where
  [py_defs]: "py_take i xs = take (py_index (length xs) i) xs"

definition py_drop :: "int \<Rightarrow> 'a list \<Rightarrow> 'a list" where
  [py_defs]: "py_drop i xs = drop (py_index (length xs) i) xs"

definition py_slice :: "int \<Rightarrow> int \<Rightarrow> 'a list \<Rightarrow> 'a list" where
  [py_defs]: "py_slice i j xs =
     drop (py_index (length xs) i) (take (py_index (length xs) j) xs)"

text \<open>The last \<open>n\<close> elements, \<open>xs[-n:]\<close> for a positive \<open>n\<close>.\<close>

definition lastn :: "nat \<Rightarrow> 'a list \<Rightarrow> 'a list" where
  "lastn n xs = drop (length xs - n) xs"

lemma py_drop_neg: "0 < n \<Longrightarrow> py_drop (- int n) xs = lastn n xs"
  by (auto simp: py_drop_def py_index_def lastn_def intro!: arg_cong2 [where f = drop])

lemma length_py_take: "length (py_take i xs) \<le> length xs"
  by (simp add: py_take_def)

lemma length_py_take_nonneg: "0 \<le> i \<Longrightarrow> length (py_take i xs) = min (length xs) (nat i)"
  by (simp add: py_take_def py_index_def)

lemma set_py_slice: "set (py_slice i j xs) \<subseteq> set xs"
  by (auto simp: py_slice_def dest: in_set_dropD in_set_takeD)

lemma length_lastn: "length (lastn n xs) = min n (length xs)"
  by (simp add: lastn_def)

text \<open>\<open>sorted(xs, key=f)\<close> and \<open>xs.sort(key=f)\<close> are stable, as \<open>sort_key\<close> is.\<close>

lemma sorted_sort_key: "sorted (map f (sort_key f xs))"
  by simp

text \<open>\<open>xs[-1]\<close> where the source has tested that \<open>xs\<close> is not empty.\<close>

definition last_opt :: "'a list \<Rightarrow> 'a option" where
  "last_opt xs = (if xs = [] then None else Some (last xs))"

lemma last_opt_append [simp]: "last_opt (xs @ [x]) = Some x"
  by (simp add: last_opt_def)

lemma last_opt_None_iff [simp]: "last_opt xs = None \<longleftrightarrow> xs = []"
  by (simp add: last_opt_def)

lemma last_opt_in: "last_opt xs = Some x \<Longrightarrow> x \<in> set xs"
  by (auto simp: last_opt_def split: if_splits)

text \<open>\<open>if q in text\<close> for strings: \<open>q\<close> occurs as a contiguous part.\<close>

fun prefix_of :: "'a list \<Rightarrow> 'a list \<Rightarrow> bool" where
  "prefix_of [] ys = True"
| "prefix_of (x # xs) [] = False"
| "prefix_of (x # xs) (y # ys) = (x = y \<and> prefix_of xs ys)"

fun substr :: "'a list \<Rightarrow> 'a list \<Rightarrow> bool" where
  "substr q [] = (q = [])"
| "substr q (y # ys) = (prefix_of q (y # ys) \<or> substr q ys)"

lemma prefix_of_iff: "prefix_of xs ys \<longleftrightarrow> (\<exists>zs. ys = xs @ zs)"
  by (induction xs ys rule: prefix_of.induct) auto

lemma substr_iff: "substr q ys \<longleftrightarrow> (\<exists>a b. ys = a @ q @ b)"
proof (induction ys)
  case Nil
  then show ?case by auto
next
  case (Cons y ys)
  have "(\<exists>a b. y # ys = a @ q @ b) \<longleftrightarrow>
        (\<exists>b. y # ys = q @ b) \<or> (\<exists>a b. ys = a @ q @ b)"
    by (metis append_Cons append_Nil list.inject neq_Nil_conv)
  then show ?case using Cons by (simp add: prefix_of_iff)
qed

lemma substr_refl [simp]: "substr q q"
  by (auto simp: substr_iff intro: exI [of _ "[]"])

text \<open>\<open>s.lower()\<close> on ASCII text.\<close>

definition lower_char :: "char \<Rightarrow> char" where
  "lower_char c = (if (65::nat) \<le> of_char c \<and> (of_char c :: nat) \<le> 90
     then char_of (of_char c + (32::nat)) else c)"

definition lower :: "string \<Rightarrow> string" where
  "lower s = map lower_char s"

section \<open>Computations: state and exceptions\<close>

text \<open>
  A call of the source that reads or writes the process state and may raise is a function
  from the state to a result and the state after it.  As in Python, a raise does not undo
  the writes made before it.
\<close>

type_synonym ('s, 'e, 'a) comp = "'s \<Rightarrow> ('e + 'a) \<times> 's"

definition ret :: "'a \<Rightarrow> ('s, 'e, 'a) comp" where
  [comp_simps]: "ret x s = (Inr x, s)"

definition raise :: "'e \<Rightarrow> ('s, 'e, 'a) comp" where
  [comp_simps]: "raise e s = (Inl e, s)"

definition bnd :: "('s, 'e, 'a) comp \<Rightarrow> ('a \<Rightarrow> ('s, 'e, 'b) comp) \<Rightarrow> ('s, 'e, 'b) comp" where
  "bnd m f s = (case m s of (Inl e, s') \<Rightarrow> (Inl e, s') | (Inr x, s') \<Rightarrow> f x s')"

definition seqc :: "('s, 'e, 'a) comp \<Rightarrow> ('s, 'e, 'b) comp \<Rightarrow> ('s, 'e, 'b) comp" where
  [comp_simps]: "seqc m n = bnd m (\<lambda>_. n)"

definition reads :: "('s \<Rightarrow> 'a) \<Rightarrow> ('s, 'e, 'a) comp" where
  [comp_simps]: "reads f s = (Inr (f s), s)"

definition mods :: "('s \<Rightarrow> 's) \<Rightarrow> ('s, 'e, unit) comp" where
  [comp_simps]: "mods f s = (Inr (), f s)"

definition lift_res :: "'e + 'a \<Rightarrow> ('s, 'e, 'a) comp" where
  [comp_simps]: "lift_res r s = (r, s)"

text \<open>\<open>try: m except e if p(e): h(e)\<close>\<close>

definition catch :: "('s, 'e, 'a) comp \<Rightarrow> ('e \<Rightarrow> bool) \<Rightarrow> ('e \<Rightarrow> ('s, 'e, 'a) comp) \<Rightarrow> ('s, 'e, 'a) comp" where
  "catch m p h s = (case m s of (Inl e, s') \<Rightarrow> (if p e then h e s' else (Inl e, s')) | (Inr x, s') \<Rightarrow> (Inr x, s'))"

text \<open>\<open>try: m finally: f\<close> for a cleanup \<open>f\<close> that does not raise.\<close>

definition finally_do :: "('s, 'e, 'a) comp \<Rightarrow> ('s \<Rightarrow> 's) \<Rightarrow> ('s, 'e, 'a) comp" where
  [comp_simps]: "finally_do m f s = (case m s of (r, s') \<Rightarrow> (r, f s'))"

definition unless :: "bool \<Rightarrow> ('s, 'e, unit) comp \<Rightarrow> ('s, 'e, unit) comp" where
  [comp_simps]: "unless b m = (if b then ret () else m)"

fun for_each :: "'a list \<Rightarrow> ('a \<Rightarrow> ('s, 'e, unit) comp) \<Rightarrow> ('s, 'e, unit) comp" where
  "for_each [] f = ret ()"
| "for_each (x # xs) f = seqc (f x) (for_each xs f)"

fun collect :: "'a list \<Rightarrow> ('a \<Rightarrow> ('s, 'e, 'b) comp) \<Rightarrow> ('s, 'e, 'b list) comp" where
  "collect [] f = ret []"
| "collect (x # xs) f = bnd (f x) (\<lambda>y. bnd (collect xs f) (\<lambda>ys. ret (y # ys)))"

lemma bnd_Inl [comp_simps]: "m s = (Inl e, s') \<Longrightarrow> bnd m f s = (Inl e, s')"
  and bnd_Inr [comp_simps]: "m s = (Inr x, s') \<Longrightarrow> bnd m f s = f x s'"
  by (simp_all add: bnd_def)

lemma bnd_ret [comp_simps]: "bnd (ret x) f = f x"
  by (rule ext) (simp add: bnd_def ret_def)

lemma bnd_raise [comp_simps]: "bnd (raise e) f = raise e"
  by (rule ext) (simp add: bnd_def raise_def)

lemma bnd_reads [comp_simps]: "bnd (reads g) f s = f (g s) s"
  by (simp add: bnd_def reads_def)

lemma bnd_mods [comp_simps]: "bnd (mods g) f s = f () (g s)"
  by (simp add: bnd_def mods_def)

lemma bnd_lift_res [comp_simps]:
  "bnd (lift_res r) f s = (case r of Inl e \<Rightarrow> (Inl e, s) | Inr x \<Rightarrow> f x s)"
  by (simp add: bnd_def lift_res_def split: sum.splits)

lemma bnd_assoc: "bnd (bnd m f) g = bnd m (\<lambda>x. bnd (f x) g)"
  by (rule ext) (simp add: bnd_def split: prod.splits sum.splits)

lemma bnd_InrE:
  assumes "bnd m f s = (Inr y, t)"
  obtains x s' where "m s = (Inr x, s')" and "f x s' = (Inr y, t)"
  using assms by (auto simp: bnd_def split: prod.splits sum.splits)

lemma bnd_cases:
  assumes "bnd m f s = (r, t)"
  obtains (raised) e where "m s = (Inl e, t)" and "r = Inl e"
    | (went_on) x s' where "m s = (Inr x, s')" and "f x s' = (r, t)"
  using assms by (auto simp: bnd_def split: prod.splits sum.splits)

lemma catch_Inr [comp_simps]: "m s = (Inr x, s') \<Longrightarrow> catch m p h s = (Inr x, s')"
  and catch_Inl [comp_simps]:
    "m s = (Inl e, s') \<Longrightarrow> catch m p h s = (if p e then h e s' else (Inl e, s'))"
  by (simp_all add: catch_def)

text \<open>
  What a computation keeps: if every part keeps a property of the state, so does the whole,
  on the raising paths too.
\<close>

definition keeps :: "('s \<Rightarrow> bool) \<Rightarrow> ('s, 'e, 'a) comp \<Rightarrow> bool" where
  "keeps P m \<longleftrightarrow> (\<forall>s. P s \<longrightarrow> P (snd (m s)))"

lemma keepsI: "(\<And>s. P s \<Longrightarrow> P (snd (m s))) \<Longrightarrow> keeps P m"
  by (simp add: keeps_def)

lemma keepsD: "keeps P m \<Longrightarrow> P s \<Longrightarrow> m s = (r, t) \<Longrightarrow> P t"
  by (metis keeps_def snd_conv)

lemma keeps_ret [intro]: "keeps P (ret x)"
  by (simp add: keeps_def ret_def)

lemma keeps_raise [intro]: "keeps P (raise e)"
  by (simp add: keeps_def raise_def)

lemma keeps_reads [intro]: "keeps P (reads f)"
  by (simp add: keeps_def reads_def)

lemma keeps_lift_res [intro]: "keeps P (lift_res r)"
  by (simp add: keeps_def lift_res_def)

lemma keeps_mods [intro]: "(\<And>s. P s \<Longrightarrow> P (f s)) \<Longrightarrow> keeps P (mods f)"
  by (simp add: keeps_def mods_def)

lemma keeps_bnd [intro]:
  assumes "keeps P m" and "\<And>x. keeps P (f x)"
  shows "keeps P (bnd m f)"
proof (rule keepsI)
  fix s
  assume "P s"
  then show "P (snd (bnd m f s))"
    using assms by (fastforce simp: bnd_def keeps_def split: prod.splits sum.splits)
qed

lemma keeps_seqc [intro]: "keeps P m \<Longrightarrow> keeps P n \<Longrightarrow> keeps P (seqc m n)"
  by (auto simp: seqc_def)

lemma keeps_catch [intro]: "keeps P m \<Longrightarrow> (\<And>e. keeps P (h e)) \<Longrightarrow> keeps P (catch m p h)"
  unfolding keeps_def catch_def
  by (fastforce split: prod.splits sum.splits)

lemma keeps_if [intro]: "keeps P m \<Longrightarrow> keeps P n \<Longrightarrow> keeps P (if b then m else n)"
  by simp

lemma keeps_unless [intro]: "keeps P m \<Longrightarrow> keeps P (unless b m)"
  by (auto simp: unless_def)

lemma keeps_for_each [intro]: "(\<And>x. keeps P (f x)) \<Longrightarrow> keeps P (for_each xs f)"
  by (induction xs) auto

lemma keeps_collect [intro]: "(\<And>x. keeps P (f x)) \<Longrightarrow> keeps P (collect xs f)"
  by (induction xs) auto

end
