(* ===== verification/PyFloat.thy ===== *)
theory PyFloat
  imports Prelude "HOL-Library.Log_Nat"
begin

text \<open>
  Python's \<open>float\<close> is IEEE binary64.  A finite float is modelled by the rational number it
  denotes, and every arithmetic operation of the source is the exact operation followed by
  \<open>fl\<close>, rounding to the nearest representable number with ties to even: 53 significant
  bits, and the fixed quantum \<open>2^(-1074)\<close> below the normal range.  Infinities, NaN and the sign
  of zero are not modelled: the scores of this program are bounded, no operation on them
  overflows, and its divisions are guarded.  \<open>fround d x\<close> is the built-in \<open>round(x, d)\<close>, which rounds the
  exact value half-to-even at \<open>d\<close> decimals and converts back.  A decimal literal of the source is \<open>fl\<close>
  of the decimal.
\<close>

section \<open>Rounding half to even\<close>

definition rhe :: "rat \<Rightarrow> int" where
  "rhe x = (let n = \<lfloor>x\<rfloor>; d = x - of_int n in
     if d < 1/2 then n else if 1/2 < d then n + 1 else if even n then n else n + 1)"

lemma rhe_of_int [simp]: "rhe (of_int n) = n"
  by (simp add: rhe_def)

lemma rhe_bounds: "\<lfloor>x\<rfloor> \<le> rhe x" "rhe x \<le> \<lfloor>x\<rfloor> + 1"
  by (simp_all add: rhe_def Let_def)

lemma rhe_mono:
  assumes "x \<le> y"
  shows "rhe x \<le> rhe y"
proof (cases "\<lfloor>x\<rfloor> = \<lfloor>y\<rfloor>")
  case True
  then show ?thesis using assms by (auto simp: rhe_def Let_def)
next
  case False
  then have "\<lfloor>x\<rfloor> + 1 \<le> \<lfloor>y\<rfloor>" using floor_mono [OF assms] by linarith
  then show ?thesis using rhe_bounds(2) [of x] rhe_bounds(1) [of y] by linarith
qed

lemma floor_frac: "x = of_int \<lfloor>x\<rfloor> + (x - of_int \<lfloor>x\<rfloor>)" "0 \<le> x - of_int \<lfloor>x\<rfloor>" "x - of_int \<lfloor>x\<rfloor> < 1"
  for x :: rat
  by linarith+

lemma rhe_minus: "rhe (- x) = - rhe x"
proof (cases "x = of_int \<lfloor>x\<rfloor>")
  case True
  then show ?thesis by (metis of_int_minus rhe_of_int)
next
  case False
  define n where "n = \<lfloor>x\<rfloor>"
  have "\<lfloor>- x\<rfloor> = - n - 1"
  proof (intro floor_unique)
    have "of_int n < x" using False floor_frac(2) [of x] unfolding n_def by linarith
    then show "of_int (- n - 1) \<le> - x" and "- x < of_int (- n - 1) + 1"
      using floor_frac(3) [of x] by (simp_all add: n_def)
  qed
  then show ?thesis
    by (auto simp: rhe_def Let_def n_def [symmetric])
qed

section \<open>Powers of two and the binary exponent\<close>

abbreviation pow2 :: "int \<Rightarrow> rat" where "pow2 k \<equiv> 2 powi k"

lemma pow2_pos [simp]: "0 < pow2 k"
  by (simp add: zero_less_power_int)

lemma pow2_ne0 [simp]: "pow2 k \<noteq> 0"
  by (simp add: power_int_eq_0_iff)

lemma pow2_add: "pow2 (a + b) = pow2 a * pow2 b"
  by (simp add: power_int_add)

lemma pow2_mono: "a \<le> b \<Longrightarrow> pow2 a \<le> pow2 b"
  by (intro power_int_increasing) auto

lemma pow2_less: "a < b \<Longrightarrow> pow2 a < pow2 b"
  by (rule power_int_strict_increasing) auto

lemma pow2_less_iff: "pow2 a < pow2 b \<longleftrightarrow> a < b"
  by (meson linorder_not_less pow2_less pow2_mono)

lemma pow2_int: "0 \<le> k \<Longrightarrow> pow2 k = of_int (2 ^ nat k)"
  by (simp add: power_int_def)

definition ilog2 :: "rat \<Rightarrow> int" where
  "ilog2 x = (case quotient_of x of (p, q) \<Rightarrow>
     let k = bitlen p - bitlen q in if x < pow2 k then k - 1 else k)"

lemma bitlen_pow2_bounds:
  assumes "0 < p"
  shows "pow2 (bitlen p - 1) \<le> of_int p" and "of_int p < pow2 (bitlen p)"
proof -
  have b: "2 ^ nat (bitlen p - 1) \<le> p" "p < 2 ^ nat (bitlen p)"
    using bitlen_bounds [OF assms] by simp_all
  have pos: "0 < bitlen p" using assms by (simp add: bitlen_eq_zero_iff order_less_le bitlen_nonneg)
  have "pow2 (bitlen p - 1) = of_int (2 ^ nat (bitlen p - 1))"
    using pos by (intro pow2_int) simp
  with b(1) show "pow2 (bitlen p - 1) \<le> of_int p" by (simp only: of_int_le_iff)
  have "pow2 (bitlen p) = of_int (2 ^ nat (bitlen p))"
    using pos by (intro pow2_int) simp
  with b(2) show "of_int p < pow2 (bitlen p)" by (simp only: of_int_less_iff)
qed

lemma ilog2_bounds:
  assumes "0 < x"
  shows "pow2 (ilog2 x) \<le> x" and "x < pow2 (ilog2 x + 1)"
proof -
  obtain p q where pq: "quotient_of x = (p, q)" by force
  have q: "0 < q" using quotient_of_denom_pos [OF pq] .
  have x: "x = of_int p / of_int q" using quotient_of_div [OF pq] .
  have p: "0 < p" using assms q x by (simp add: zero_less_divide_iff)
  let ?k = "bitlen p - bitlen q"
  note P = bitlen_pow2_bounds [OF p] and Q = bitlen_pow2_bounds [OF q]
  have qr: "0 < (of_int q :: rat)" using q by simp
  have "pow2 (?k - 1) * of_int q \<le> pow2 (?k - 1) * pow2 (bitlen q)"
    using Q(2) by (intro mult_left_mono) auto
  also have "\<dots> = pow2 (bitlen p - 1)" by (simp flip: pow2_add)
  also have "\<dots> \<le> of_int p" by (rule P(1))
  finally have lo: "pow2 (?k - 1) \<le> x" using qr by (simp add: x pos_le_divide_eq)
  have "of_int p < pow2 (bitlen p)" by (rule P(2))
  also have "\<dots> = pow2 (?k + 1) * pow2 (bitlen q - 1)" by (simp flip: pow2_add)
  also have "\<dots> \<le> pow2 (?k + 1) * of_int q" using Q(1) by (intro mult_left_mono) auto
  finally have hi: "x < pow2 (?k + 1)" using qr by (simp add: x pos_divide_less_eq)
  have "ilog2 x = (if x < pow2 ?k then ?k - 1 else ?k)"
    by (simp add: ilog2_def pq Let_def)
  then show "pow2 (ilog2 x) \<le> x" and "x < pow2 (ilog2 x + 1)"
    using lo hi by (auto split: if_splits)
qed

lemma ilog2_unique: "pow2 e \<le> x \<Longrightarrow> x < pow2 (e + 1) \<Longrightarrow> ilog2 x = e"
proof -
  assume a: "pow2 e \<le> x" "x < pow2 (e + 1)"
  then have x: "0 < x" using pow2_pos [of e] by linarith
  have "pow2 e < pow2 (ilog2 x + 1)" "pow2 (ilog2 x) < pow2 (e + 1)"
    using a ilog2_bounds [OF x] by linarith+
  then show ?thesis by (simp add: pow2_less_iff)
qed

lemma ilog2_mono:
  assumes "0 < x" and "x \<le> y"
  shows "ilog2 x \<le> ilog2 y"
proof -
  have "pow2 (ilog2 x) < pow2 (ilog2 y + 1)"
    using ilog2_bounds(1) [of x] ilog2_bounds(2) [of y] assms by linarith
  then show ?thesis by (simp add: pow2_less_iff)
qed

section \<open>Rounding to binary64\<close>

definition qexp :: "rat \<Rightarrow> int" where
  "qexp x = max (ilog2 x - 52) (-1074)"

definition fl :: "rat \<Rightarrow> rat" where
  "fl x = (if x = 0 then 0 else
     let u = pow2 (qexp \<bar>x\<bar>) in of_int (rhe (x / u)) * u)"

lemma fl_0 [simp]: "fl 0 = 0"
  by (simp add: fl_def)

lemma fl_minus: "fl (- x) = - fl x"
  by (simp add: fl_def Let_def rhe_minus)

lemma qexp_mono: "0 < x \<Longrightarrow> x \<le> y \<Longrightarrow> qexp x \<le> qexp y"
  using ilog2_mono [of x y] by (simp add: qexp_def)

text \<open>A number on the grid that \<open>x\<close> is rounded to bounds the rounded value.\<close>

lemma grid_multiple: "k \<le> e \<Longrightarrow> pow2 e = of_int (2 ^ nat (e - k)) * pow2 k"
  using pow2_add [of "e - k" k] pow2_int [of "e - k"] by simp

lemma round_grid_le:
  assumes "x \<le> of_int m * u" and "0 < u"
  shows "of_int (rhe (x / u)) * u \<le> of_int m * u"
proof -
  have "x / u \<le> of_int m" using assms by (simp add: pos_divide_le_eq)
  then have "rhe (x / u) \<le> m" using rhe_mono [of "x / u" "of_int m"] by simp
  then show ?thesis using assms(2) by (intro mult_right_mono) auto
qed

lemma round_grid_ge:
  assumes "of_int m * u \<le> x" and "0 < u"
  shows "of_int m * u \<le> of_int (rhe (x / u)) * u"
proof -
  have "of_int m \<le> x / u" using assms by (simp add: pos_le_divide_eq)
  then have "m \<le> rhe (x / u)" using rhe_mono [of "of_int m" "x / u"] by simp
  then show ?thesis using assms(2) by (intro mult_right_mono) auto
qed

lemma fl_mono_pos:
  assumes "0 < x" and "x \<le> y"
  shows "fl x \<le> fl y"
proof (cases "qexp x = qexp y")
  case True
  have "rhe (x / pow2 (qexp y)) \<le> rhe (y / pow2 (qexp y))"
    using assms(2) by (intro rhe_mono divide_right_mono) (auto simp: less_imp_le)
  then show ?thesis using assms True by (simp add: fl_def Let_def)
next
  case False
  with qexp_mono [OF assms] have lt: "qexp x < qexp y" by simp
  let ?e = "ilog2 y"
  have y: "0 < y" using assms by simp
  have e: "qexp y = ?e - 52" using lt by (auto simp: qexp_def)
  have exy: "ilog2 x < ?e" using lt by (auto simp: qexp_def)
  have "x < pow2 (ilog2 x + 1)" by (rule ilog2_bounds(2) [OF assms(1)])
  also have "\<dots> \<le> pow2 ?e" using exy by (intro pow2_mono) simp
  finally have xe: "x \<le> pow2 ?e" by simp
  have gx: "pow2 ?e = of_int (2 ^ nat (?e - qexp x)) * pow2 (qexp x)"
    using lt e by (intro grid_multiple) simp
  have gy: "pow2 ?e = of_int (2 ^ nat (?e - qexp y)) * pow2 (qexp y)"
    using e by (intro grid_multiple) simp
  have "fl x = of_int (rhe (x / pow2 (qexp x))) * pow2 (qexp x)"
    using assms by (simp add: fl_def Let_def)
  also have "\<dots> \<le> pow2 ?e"
    using round_grid_le [of x _ "pow2 (qexp x)"] xe gx by (metis pow2_pos)
  also have "\<dots> \<le> of_int (rhe (y / pow2 (qexp y))) * pow2 (qexp y)"
    using round_grid_ge [of _ "pow2 (qexp y)" y] ilog2_bounds(1) [OF y] gy by (metis pow2_pos)
  also have "\<dots> = fl y" using y by (simp add: fl_def Let_def)
  finally show ?thesis .
qed

lemma fl_nonneg_pos: "0 < x \<Longrightarrow> 0 \<le> fl x"
  using round_grid_ge [of 0 "pow2 (qexp x)" x] by (simp add: fl_def Let_def)

lemma fl_mono: "x \<le> y \<Longrightarrow> fl x \<le> fl y"
proof -
  assume le: "x \<le> y"
  consider "0 < x" | "x = 0" | "x < 0" "0 \<le> y" | "x < 0" "y < 0" by linarith
  then show ?thesis
  proof cases
    case 1
    then show ?thesis using le by (rule fl_mono_pos)
  next
    case 2
    then show ?thesis using le fl_nonneg_pos [of y] by (cases "y = 0") auto
  next
    case 3
    have "fl x \<le> 0" using 3(1) fl_nonneg_pos [of "- x"] by (simp add: fl_minus)
    moreover have "0 \<le> fl y" using 3(2) fl_nonneg_pos [of y] by (cases "y = 0") auto
    ultimately show ?thesis by simp
  next
    case 4
    then have "fl (- y) \<le> fl (- x)" using le by (intro fl_mono_pos) auto
    then show ?thesis by (simp add: fl_minus)
  qed
qed

text \<open>Numbers with at most 53 significant bits above the quantum are exact.\<close>

lemma fl_exact_pos:
  assumes n: "0 < n" "n < 2 ^ 53" and k: "-1074 \<le> k"
  shows "fl (of_int n * pow2 k) = of_int n * pow2 k"
proof -
  let ?x = "of_int n * pow2 k"
  have x: "0 < ?x" using n by simp
  have "of_int n < (of_int (2 ^ 53) :: rat)" using n(2) by (simp only: of_int_less_iff)
  then have "?x < of_int (2 ^ 53) * pow2 k" by (intro mult_strict_right_mono) auto
  also have "\<dots> = pow2 (53 + k)" by (simp add: pow2_add)
  finally have "pow2 (ilog2 ?x) < pow2 (53 + k)" using ilog2_bounds(1) [OF x] by linarith
  then have "ilog2 ?x \<le> 52 + k" by (simp add: pow2_less_iff)
  then have q: "qexp ?x \<le> k" using k by (simp add: qexp_def)
  let ?u = "pow2 (qexp ?x)"
  have "?x = of_int (n * 2 ^ nat (k - qexp ?x)) * ?u"
    using grid_multiple [OF q] by simp
  then have "?x / ?u = of_int (n * 2 ^ nat (k - qexp ?x))"
    by (metis nonzero_mult_div_cancel_right pow2_ne0)
  then have "rhe (?x / ?u) = n * 2 ^ nat (k - qexp ?x)" by (metis rhe_of_int)
  then have "of_int (rhe (?x / ?u)) * ?u = ?x"
    using grid_multiple [OF q] by simp
  then show ?thesis using x by (simp add: fl_def Let_def)
qed

lemma fl_exact:
  assumes "\<bar>n\<bar> < 2 ^ 53" and "-1074 \<le> k"
  shows "fl (of_int n * pow2 k) = of_int n * pow2 k"
proof (cases "n = 0")
  case False
  show ?thesis
  proof (cases "0 < n")
    case True
    then show ?thesis using assms by (intro fl_exact_pos) auto
  next
    case neg: False
    then have "fl (of_int (- n) * pow2 k) = of_int (- n) * pow2 k"
      using assms False by (intro fl_exact_pos) auto
    then show ?thesis using fl_minus [of "of_int n * pow2 k"] by simp
  qed
qed simp

lemma fl_of_int [simp]: "\<bar>n\<bar> < 2 ^ 53 \<Longrightarrow> fl (of_int n) = of_int n"
  using fl_exact [of n 0] by simp

lemma fl_1 [simp]: "fl 1 = 1"
  using fl_of_int [of 1] by simp

lemma fl_numeral [simp]: "numeral n < (2 ^ 53 :: int) \<Longrightarrow> fl (numeral n) = numeral n"
  using fl_of_int [of "numeral n"] by simp

lemma fl_half [simp]: "fl (1 / 2) = 1 / 2"
  using fl_exact [of 1 "-1"] by (simp add: power_int_minus)

lemma fl_quarter [simp]: "fl (1 / 4) = 1 / 4"
  using fl_exact [of 1 "-2"] by (simp add: power_int_minus)

text \<open>Rounded values are floats: rounding them again changes nothing.\<close>

lemma fl_idem_pos:
  assumes "0 < x"
  shows "fl (fl x) = fl x"
proof -
  let ?q = "qexp x" and ?n = "rhe (x / pow2 (qexp x))"
  have q: "-1074 \<le> ?q" by (simp add: qexp_def)
  have f: "fl x = of_int ?n * pow2 ?q" using assms by (simp add: fl_def Let_def)
  have n0: "0 \<le> ?n" using rhe_mono [of 0 "x / pow2 ?q"] assms rhe_of_int [of 0] by simp
  have "x < pow2 (ilog2 x + 1)" by (rule ilog2_bounds(2) [OF assms])
  also have "\<dots> \<le> pow2 (53 + ?q)" by (intro pow2_mono) (simp add: qexp_def)
  also have "\<dots> = of_int (2 ^ 53) * pow2 ?q" by (simp add: pow2_add)
  finally have "of_int ?n * pow2 ?q \<le> of_int (2 ^ 53) * pow2 ?q"
    by (intro round_grid_le) auto
  then have n1: "?n \<le> 2 ^ 53"
    by (metis mult_le_cancel_right_pos of_int_le_iff pow2_pos)
  show ?thesis
  proof (cases "?n = 2 ^ 53")
    case True
    then have "fl x = of_int 1 * pow2 (53 + ?q)" unfolding f by (simp add: pow2_add)
    then show ?thesis using fl_exact [of 1 "53 + ?q"] q by simp
  next
    case False
    then show ?thesis unfolding f using n0 n1 q by (intro fl_exact) auto
  qed
qed

lemma fl_idem [simp]: "fl (fl x) = fl x"
proof (cases "x < 0")
  case True
  then have "fl (fl (- x)) = fl (- x)" by (intro fl_idem_pos) simp
  then show ?thesis by (simp add: fl_minus)
next
  case False
  then show ?thesis using fl_idem_pos [of x] by (cases "x = 0") auto
qed

section \<open>The laws clients rely on\<close>

text \<open>
  The program's scores only need that rounding is monotone, odd, and exact at 0 and 1: every
  clamp into the unit interval survives it.
\<close>

locale rounding =
  fixes rnd :: "rat \<Rightarrow> rat"
  assumes rnd_mono: "x \<le> y \<Longrightarrow> rnd x \<le> rnd y"
    and rnd_0: "rnd 0 = 0"
    and rnd_1: "rnd 1 = 1"
    and rnd_minus: "rnd (- x) = - rnd x"
begin

lemma rnd_nonneg: "0 \<le> x \<Longrightarrow> 0 \<le> rnd x"
  using rnd_mono [of 0 x] by (simp add: rnd_0)

lemma rnd_nonpos: "x \<le> 0 \<Longrightarrow> rnd x \<le> 0"
  using rnd_mono [of x 0] by (simp add: rnd_0)

lemma rnd_le_1: "x \<le> 1 \<Longrightarrow> rnd x \<le> 1"
  using rnd_mono [of x 1] by (simp add: rnd_1)

lemma rnd_ge_1: "1 \<le> x \<Longrightarrow> 1 \<le> rnd x"
  using rnd_mono [of 1 x] by (simp add: rnd_1)

lemma rnd_unit: "0 \<le> x \<Longrightarrow> x \<le> 1 \<Longrightarrow> 0 \<le> rnd x \<and> rnd x \<le> 1"
  by (simp add: rnd_nonneg rnd_le_1)

lemma rnd_fix_le: "rnd a = a \<Longrightarrow> x \<le> a \<Longrightarrow> rnd x \<le> a"
  using rnd_mono [of x a] by simp

lemma rnd_fix_ge: "rnd a = a \<Longrightarrow> a \<le> x \<Longrightarrow> a \<le> rnd x"
  using rnd_mono [of a x] by simp

lemma rnd_sub_unit: "0 \<le> x \<Longrightarrow> x \<le> 1 \<Longrightarrow> 0 \<le> rnd (1 - x) \<and> rnd (1 - x) \<le> 1"
  by (intro rnd_unit) auto

lemma rnd_mult_unit:
  "0 \<le> x \<Longrightarrow> x \<le> 1 \<Longrightarrow> 0 \<le> y \<Longrightarrow> y \<le> 1 \<Longrightarrow> 0 \<le> rnd (x * y) \<and> rnd (x * y) \<le> 1"
  by (intro rnd_unit) (auto intro: mult_le_one)

end

interpretation b64: rounding fl
  by unfold_locales (auto simp: fl_minus intro: fl_mono)

section \<open>Decimal rounding and conversions\<close>

definition fround :: "nat \<Rightarrow> rat \<Rightarrow> rat" where
  "fround d x = fl (of_int (rhe (x * 10 ^ d)) / 10 ^ d)"

definition round4 :: "rat \<Rightarrow> rat" where "round4 x = fround 4 x"
definition round2 :: "rat \<Rightarrow> rat" where "round2 x = fround 2 x"

lemma fround_mono: "x \<le> y \<Longrightarrow> fround d x \<le> fround d y"
  unfolding fround_def
  by (intro fl_mono divide_right_mono) (auto intro: rhe_mono mult_right_mono)

lemma rhe_0 [simp]: "rhe 0 = 0"
  using rhe_of_int [of 0] by simp

lemma rhe_pow10 [simp]: "rhe (10 ^ d) = 10 ^ d"
  using rhe_of_int [of "10 ^ d"] by simp

lemma fround_0 [simp]: "fround d 0 = 0"
  by (simp add: fround_def)

lemma fround_1 [simp]: "fround d 1 = 1"
  by (simp add: fround_def)

lemma fround_minus: "fround d (- x) = - fround d x"
  by (simp add: fround_def rhe_minus fl_minus)

interpretation dec: rounding "fround d" for d
  by unfold_locales (auto simp: fround_minus intro: fround_mono)

interpretation dec4: rounding round4
  unfolding round4_def by unfold_locales (auto simp: fround_minus intro: fround_mono)

text \<open>\<open>int(x)\<close> of a float truncates toward zero; \<open>int(round(x))\<close> is half-to-even.\<close>

definition trunc :: "rat \<Rightarrow> int" where
  "trunc x = (if 0 \<le> x then \<lfloor>x\<rfloor> else \<lceil>x\<rceil>)"

lemma trunc_mono: "x \<le> y \<Longrightarrow> trunc x \<le> trunc y"
proof -
  assume le: "x \<le> y"
  show ?thesis
  proof (cases "x < 0 \<and> 0 \<le> y")
    case True
    then have "\<lceil>x\<rceil> \<le> 0" and "0 \<le> \<lfloor>y\<rfloor>" by (simp_all add: ceiling_le_iff)
    then have "\<lceil>x\<rceil> \<le> \<lfloor>y\<rfloor>" by linarith
    then show ?thesis using True by (simp add: trunc_def)
  next
    case False
    then show ?thesis
      using floor_mono [OF le] ceiling_mono [OF le] le by (auto simp: trunc_def)
  qed
qed

lemma trunc_nonneg: "0 \<le> x \<Longrightarrow> 0 \<le> trunc x"
  by (simp add: trunc_def)

lemma trunc_of_int [simp]: "trunc (of_int n) = n"
  by (simp add: trunc_def)

text \<open>Float operations on ints and floats mixed: the int operand is converted first.\<close>

definition fdiv :: "rat \<Rightarrow> rat \<Rightarrow> rat" where "fdiv x y = fl (x / y)"
definition fadd :: "rat \<Rightarrow> rat \<Rightarrow> rat" where "fadd x y = fl (x + y)"
definition fsub :: "rat \<Rightarrow> rat \<Rightarrow> rat" where "fsub x y = fl (x - y)"
definition fmul :: "rat \<Rightarrow> rat \<Rightarrow> rat" where "fmul x y = fl (x * y)"

lemmas float_ops = fdiv_def fadd_def fsub_def fmul_def

definition in_unit :: "rat \<Rightarrow> bool" where
  "in_unit x \<longleftrightarrow> 0 \<le> x \<and> x \<le> 1"

named_theorems unit_intros "closure of the unit interval under the float operations"

lemma in_unitI: "0 \<le> x \<Longrightarrow> x \<le> 1 \<Longrightarrow> in_unit x"
  by (simp add: in_unit_def)

lemma in_unit_01 [unit_intros, simp]: "in_unit 0" "in_unit 1"
  by (simp_all add: in_unit_def)

lemma in_unit_fl [unit_intros]: "in_unit x \<Longrightarrow> in_unit (fl x)"
  by (simp add: in_unit_def b64.rnd_unit)

lemma in_unit_round4 [unit_intros]: "in_unit x \<Longrightarrow> in_unit (round4 x)"
  by (simp add: in_unit_def dec4.rnd_unit)

lemma in_unit_fmul [unit_intros]: "in_unit x \<Longrightarrow> in_unit y \<Longrightarrow> in_unit (fmul x y)"
  by (simp add: in_unit_def fmul_def b64.rnd_mult_unit)

lemma in_unit_compl [unit_intros]: "in_unit x \<Longrightarrow> in_unit (fsub 1 x)"
  by (simp add: in_unit_def fsub_def b64.rnd_sub_unit)

lemma in_unit_max [unit_intros]: "in_unit x \<Longrightarrow> in_unit y \<Longrightarrow> in_unit (max x y)"
  by (simp add: in_unit_def max_def)

lemma in_unit_min [unit_intros]: "in_unit x \<Longrightarrow> in_unit y \<Longrightarrow> in_unit (min x y)"
  by (simp add: in_unit_def min_def)

lemma in_unit_clamp [unit_intros]: "in_unit (max 0 (min 1 x))" "in_unit (min 1 (max 0 x))"
  by (auto simp: in_unit_def)

lemma in_unit_cap [unit_intros]: "0 \<le> x \<Longrightarrow> in_unit (min 1 x)"
  by (auto simp: in_unit_def)

text \<open>A float shrunk by a factor in the unit interval does not grow.\<close>

lemma fmul_shrink: "fl x = x \<Longrightarrow> 0 \<le> x \<Longrightarrow> c \<le> 1 \<Longrightarrow> fmul x c \<le> x"
  unfolding fmul_def using mult_left_mono [of c 1 x] by (intro b64.rnd_fix_le) auto

lemma fmul_mono: "x \<le> y \<Longrightarrow> 0 \<le> c \<Longrightarrow> fmul x c \<le> fmul y c"
  unfolding fmul_def by (intro fl_mono mult_right_mono)

lemma fadd_mono: "x \<le> x' \<Longrightarrow> y \<le> y' \<Longrightarrow> fadd x y \<le> fadd x' y'"
  unfolding fadd_def by (intro fl_mono add_mono)

lemma fl_fmul [simp]: "fl (fmul x y) = fmul x y" and fl_fadd [simp]: "fl (fadd x y) = fadd x y"
  and fl_fsub [simp]: "fl (fsub x y) = fsub x y" and fl_fdiv [simp]: "fl (fdiv x y) = fdiv x y"
  by (simp_all add: float_ops)

lemma fl_max [simp]: "fl (max x y) = max (fl x) (fl y)"
  using fl_mono [of x y] fl_mono [of y x] by (auto simp: max_def)

lemma fl_min [simp]: "fl (min x y) = min (fl x) (fl y)"
  using fl_mono [of x y] fl_mono [of y x] by (auto simp: min_def)

lemma in_unit_ratio: "0 \<le> a \<Longrightarrow> a \<le> b \<Longrightarrow> 0 < b \<Longrightarrow> in_unit (fdiv a b)"
  unfolding fdiv_def by (intro in_unit_fl in_unitI) auto

end
