(* ===== verification/Values.thy ===== *)
theory Values
  imports PyFloat "HOL-Library.Char_ord" "HOL-Library.List_Lexorder"
begin

text \<open>
  Dynamically typed data (\<open>dict\<close> payloads, tool results, replay snapshots) and
  \<open>core/canonical.py\<close>: the canonical form that hashes, replay fingerprints and approval
  bindings are computed from.  \<open>sha256\<close> over the JSON text of a canonical value is a
  parameter (\<open>digest\<close>); everything before it is modelled.
\<close>

section \<open>Python values\<close>

datatype pykey = KStr string | KInt int | KBool bool | KNone | KOther string

datatype pyval =
    PNone
  | PBool bool
  | PInt int
  | PFloat rat
  | PStr string
  | PDate string
  | PUuid string
  | PDecimal string
  | PEnum pyval
  | PDict "(pykey \<times> pyval) list"
  | PList "pyval list"
  | PTuple "pyval list"
  | PModel pyval
  | POther string

fun digits_of :: "nat \<Rightarrow> string" where
  "digits_of n = (if n < 10 then [char_of (48 + n)]
     else digits_of (n div 10) @ [char_of (48 + n mod 10)])"

declare digits_of.simps [simp del]

definition show_int :: "int \<Rightarrow> string" where
  "show_int i = (if i < 0 then CHR ''-'' # digits_of (nat (- i)) else digits_of (nat i))"

definition show_nat :: "nat \<Rightarrow> string" where
  "show_nat n = digits_of n"

text \<open>\<open>str(k)\<close> of a dictionary key.\<close>

fun key_str :: "pykey \<Rightarrow> string" where
  "key_str (KStr s) = s"
| "key_str (KInt i) = show_int i"
| "key_str (KBool b) = (if b then ''True'' else ''False'')"
| "key_str KNone = ''None''"
| "key_str (KOther s) = s"

abbreviation pdict :: "(string \<times> pyval) list \<Rightarrow> pyval" where
  "pdict d \<equiv> PDict (map (\<lambda>p. (KStr (fst p), snd p)) d)"

text \<open>\<open>d.get(k)\<close> with a string key, \<open>bool(v)\<close>, and the pydantic coercions of fields.\<close>

fun vget :: "pyval \<Rightarrow> string \<Rightarrow> pyval option" where
  "vget (PDict d) k = dict_get d (KStr k)"
| "vget _ k = None"

definition vgetd :: "pyval \<Rightarrow> string \<Rightarrow> pyval \<Rightarrow> pyval" where
  "vgetd d k v = (case vget d k of None \<Rightarrow> v | Some x \<Rightarrow> x)"

fun truthy :: "pyval \<Rightarrow> bool" where
  "truthy PNone = False"
| "truthy (PBool b) = b"
| "truthy (PInt i) = (i \<noteq> 0)"
| "truthy (PFloat x) = (x \<noteq> 0)"
| "truthy (PStr s) = (s \<noteq> [])"
| "truthy (PDict d) = (d \<noteq> [])"
| "truthy (PList xs) = (xs \<noteq> [])"
| "truthy (PTuple xs) = (xs \<noteq> [])"
| "truthy (PEnum v) = truthy v"
| "truthy _ = True"

definition opt_truthy :: "pyval option \<Rightarrow> bool" where
  "opt_truthy v = (case v of None \<Rightarrow> False | Some x \<Rightarrow> truthy x)"

fun is_dict :: "pyval \<Rightarrow> bool" where
  "is_dict (PDict _) = True"
| "is_dict _ = False"

fun as_str :: "pyval \<Rightarrow> string option" where
  "as_str (PStr s) = Some s"
| "as_str (PEnum (PStr s)) = Some s"
| "as_str _ = None"

fun as_int :: "pyval \<Rightarrow> int option" where
  "as_int (PInt i) = Some i"
| "as_int _ = None"

fun as_list :: "pyval \<Rightarrow> pyval list option" where
  "as_list (PList xs) = Some xs"
| "as_list (PTuple xs) = Some xs"
| "as_list _ = None"

fun pstrs :: "string list \<Rightarrow> pyval" where
  "pstrs xs = PList (map PStr xs)"

fun popt :: "string option \<Rightarrow> pyval" where
  "popt None = PNone"
| "popt (Some s) = PStr s"

text \<open>\<open>a or b\<close> for an optional string \<open>a\<close>.\<close>

definition str_or :: "string option \<Rightarrow> string \<Rightarrow> string" where
  "str_or a b = (case a of None \<Rightarrow> b | Some s \<Rightarrow> if s = [] then b else s)"

section \<open>core/canonical.py\<close>

definition VOLATILE_KEYS :: "string set" where
  "VOLATILE_KEYS = {''timestamp'', ''created_at'', ''updated_at'', ''approved_at'', ''iat'', ''exp'', ''latency_ms''}"

text \<open>
  The dictionary comprehension of \<open>_normalize\<close> visits the items in the order of their key
  strings and assigns them one by one, so that of two keys with one string the later wins.
\<close>

definition build_dict :: "(string \<times> pyval) list \<Rightarrow> (pykey \<times> pyval) list" where
  "build_dict items = fold (\<lambda>p. dict_set (KStr (fst p)) (snd p)) items []"

fun normalize_val :: "bool \<Rightarrow> pyval \<Rightarrow> pyval" where
  "normalize_val sv PNone = PNone"
| "normalize_val sv (PBool b) = PBool b"
| "normalize_val sv (PInt i) = PInt i"
| "normalize_val sv (PFloat x) = PFloat x"
| "normalize_val sv (PStr s) = PStr s"
| "normalize_val sv (PDate s) = PStr s"
| "normalize_val sv (PUuid s) = PStr s"
| "normalize_val sv (PDecimal s) = PStr s"
| "normalize_val sv (PEnum v) = v"
| "normalize_val sv (PDict d) =
     PDict (build_dict (filter (\<lambda>p. \<not> (sv \<and> fst p \<in> VOLATILE_KEYS))
       (sort_key fst (map (\<lambda>(k, v). (key_str k, normalize_val sv v)) d))))"
| "normalize_val sv (PList xs) = PList (map (normalize_val sv) xs)"
| "normalize_val sv (PTuple xs) = PList (map (normalize_val sv) xs)"
| "normalize_val sv (PModel v) = normalize_val sv v"
| "normalize_val sv (POther s) = PStr s"

text \<open>
  What the program uses of the standard library and does not define itself: the digest of a
  canonical value (SHA-256 of its compact, key-sorted JSON text) and of a plain string.
\<close>

record env =
  digest :: "pyval \<Rightarrow> string"
  sha256 :: "string \<Rightarrow> string"

definition stable_hash :: "env \<Rightarrow> pyval \<Rightarrow> string" where
  "stable_hash E v = digest E (normalize_val True v)"

text \<open>\<open>json.loads(canonical_json(v, strip_volatile=False))\<close>: the canonical value itself.\<close>

definition canonical_params :: "pyval option \<Rightarrow> pyval" where
  "canonical_params p = (case p of None \<Rightarrow> PDict []
     | Some v \<Rightarrow> if truthy v then normalize_val False v else PDict [])"

section \<open>Facts about the canonical form\<close>

lemma build_dict_keys_distinct:
  "distinct (map fst items) \<Longrightarrow> build_dict items = map (\<lambda>p. (KStr (fst p), snd p)) items"
proof -
  have step: "dict_set k v d = d @ [(k, v)]" if "k \<notin> set (dict_keys d)" for k v and d :: "(pykey \<times> pyval) list"
    using that by (induction d) auto
  have "fold (\<lambda>p. dict_set (KStr (fst p)) (snd p)) items acc =
      acc @ map (\<lambda>p. (KStr (fst p), snd p)) items"
    if "distinct (map fst items)" "\<forall>p \<in> set items. KStr (fst p) \<notin> set (dict_keys acc)" for acc
    using that
  proof (induction items arbitrary: acc)
    case Nil
    then show ?case by simp
  next
    case (Cons p items)
    have "dict_set (KStr (fst p)) (snd p) acc = acc @ [(KStr (fst p), snd p)]"
      using Cons.prems(2) by (intro step) simp
    then show ?case
      using Cons.prems Cons.IH [of "acc @ [(KStr (fst p), snd p)]"] by (force simp: image_iff)
  qed
  then show "distinct (map fst items) \<Longrightarrow> ?thesis" by (simp add: build_dict_def)
qed

lemma wf_build_dict: "wf_dict (build_dict items)"
proof -
  have "wf_dict acc \<Longrightarrow> wf_dict (fold (\<lambda>p. dict_set (KStr (fst p)) (snd p)) items acc)" for acc
    by (induction items arbitrary: acc) auto
  then show ?thesis by (simp add: build_dict_def)
qed

text \<open>Reordering the items of a dictionary whose key strings are distinct changes nothing.\<close>

lemma sort_key_perm_distinct:
  fixes f :: "'a \<Rightarrow> 'b :: linorder"
  assumes "mset xs = mset ys" and "distinct (map f xs)"
  shows "sort_key f xs = sort_key f ys"
proof (rule sort_key_eq_sort_key)
  show "mset xs = mset ys" by (rule assms(1))
  show "inj_on f (set xs)" using assms(2) by (simp add: distinct_map)
qed

lemma keys_build_dict_set:
  "set (dict_keys (build_dict items)) = KStr ` fst ` set items"
proof -
  have "set (dict_keys (fold (\<lambda>p. dict_set (KStr (fst p)) (snd p)) items acc)) =
      set (dict_keys acc) \<union> KStr ` fst ` set items" for acc
    by (induction items arbitrary: acc) auto
  from this [of "[]"] show ?thesis by (simp add: build_dict_def)
qed

lemma build_dict_sorted:
  assumes "sorted (map fst items)"
  shows "sorted (map (\<lambda>p. key_str (fst p)) (build_dict items))"
proof -
  have "sorted (map (\<lambda>p. key_str (fst p)) (fold (\<lambda>p. dict_set (KStr (fst p)) (snd p)) items acc))"
    if "sorted (map fst items)" "sorted (map (\<lambda>p. key_str (fst p)) acc)"
      "\<forall>p \<in> set items. \<forall>q \<in> set acc. key_str (fst q) \<le> fst p" for acc
    using that
  proof (induction items arbitrary: acc)
    case Nil
    then show ?case by simp
  next
    case (Cons p items)
    let ?acc = "dict_set (KStr (fst p)) (snd p) acc"
    have "map (\<lambda>p. key_str (fst p)) ?acc = map key_str (dict_keys ?acc)" by simp
    also have "\<dots> = (if KStr (fst p) \<in> set (dict_keys acc)
        then map (\<lambda>p. key_str (fst p)) acc else map (\<lambda>p. key_str (fst p)) acc @ [fst p])"
      unfolding dict_keys_set by simp
    finally have keys: "map (\<lambda>p. key_str (fst p)) ?acc = \<dots>" .
    have "sorted (map (\<lambda>p. key_str (fst p)) acc @ [fst p])"
      unfolding sorted_append using Cons.prems by simp
    then have "sorted (map (\<lambda>p. key_str (fst p)) ?acc)"
      using Cons.prems(2) unfolding keys by simp
    moreover have "key_str (fst q) \<le> fst r" if "q \<in> set ?acc" "r \<in> set items" for q r
      using dict_set_in [OF that(1)] that(2) Cons.prems by auto
    ultimately show ?case using Cons.prems(1) by (simp add: Cons.IH)
  qed
  from this [of "[]"] assms show ?thesis by (simp add: build_dict_def)
qed

lemma build_dict_values: "p \<in> set (build_dict items) \<Longrightarrow> snd p \<in> snd ` set items"
proof -
  have "snd ` set (fold (\<lambda>p. dict_set (KStr (fst p)) (snd p)) items acc) \<subseteq>
      snd ` set acc \<union> snd ` set items" for acc
  proof (induction items arbitrary: acc)
    case Nil
    then show ?case by simp
  next
    case (Cons q items)
    show ?case
      using Cons.IH [of "dict_set (KStr (fst q)) (snd q) acc"]
        snd_dict_set [of "KStr (fst q)" "snd q" acc] by simp blast
  qed
  from this [of "[]"] show "p \<in> set (build_dict items) \<Longrightarrow> ?thesis"
    by (simp add: build_dict_def image_subset_iff)
qed

text \<open>The canonical values: plain JSON data, dictionaries with strictly sorted string keys.\<close>

fun canonical :: "bool \<Rightarrow> pyval \<Rightarrow> bool" where
  "canonical sv (PDict d) =
     ((\<forall>p \<in> set d. \<exists>s. fst p = KStr s) \<and> distinct (map (\<lambda>p. key_str (fst p)) d) \<and>
      sorted (map (\<lambda>p. key_str (fst p)) d) \<and>
      (sv \<longrightarrow> (\<forall>p \<in> set d. key_str (fst p) \<notin> VOLATILE_KEYS)) \<and>
      (\<forall>p \<in> set d. canonical sv (snd p)))"
| "canonical sv (PList xs) = (\<forall>x \<in> set xs. canonical sv x)"
| "canonical sv (PDate s) = False"
| "canonical sv (PUuid s) = False"
| "canonical sv (PDecimal s) = False"
| "canonical sv (PEnum v) = False"
| "canonical sv (PTuple xs) = False"
| "canonical sv (PModel v) = False"
| "canonical sv (POther s) = False"
| "canonical sv _ = True"

fun scalar :: "pyval \<Rightarrow> bool" where
  "scalar (PStr s) = True"
| "scalar (PInt i) = True"
| "scalar (PBool b) = True"
| "scalar PNone = True"
| "scalar (PFloat x) = True"
| "scalar _ = False"

fun plain_enums :: "pyval \<Rightarrow> bool" where
  "plain_enums (PEnum v) = scalar v"
| "plain_enums (PDict d) = (\<forall>p \<in> set d. plain_enums (snd p))"
| "plain_enums (PList xs) = (\<forall>x \<in> set xs. plain_enums x)"
| "plain_enums (PTuple xs) = (\<forall>x \<in> set xs. plain_enums x)"
| "plain_enums (PModel v) = plain_enums v"
| "plain_enums _ = True"

lemma scalar_canonical: "scalar v \<Longrightarrow> canonical sv v"
  by (cases v) auto

lemma normalize_canonical: "plain_enums v \<Longrightarrow> canonical sv (normalize_val sv v)"
proof (induction sv v rule: normalize_val.induct)
  case (9 sv v)
  then show ?case by (simp add: scalar_canonical)
next
  case (10 sv d)
  let ?ns = "map (\<lambda>(k, v). (key_str k, normalize_val sv v)) d"
  let ?items = "filter (\<lambda>p. \<not> (sv \<and> fst p \<in> VOLATILE_KEYS)) (sort_key fst ?ns)"
  have keys: "\<exists>s \<in> fst ` set ?items. fst p = KStr s" if "p \<in> set (build_dict ?items)" for p
  proof -
    have "fst p \<in> set (dict_keys (build_dict ?items))" using that by simp
    then show ?thesis unfolding keys_build_dict_set by blast
  qed
  have "canonical sv (snd p)" if "p \<in> set (build_dict ?items)" for p
    using build_dict_values [OF that] "10.IH" "10.prems" by fastforce
  moreover have "sorted (map (\<lambda>p. key_str (fst p)) (build_dict ?items))"
    by (intro build_dict_sorted sorted_filter) simp
  moreover have "distinct (map (\<lambda>p. key_str (fst p)) (build_dict ?items))"
  proof -
    have "inj_on key_str (set (dict_keys (build_dict ?items)))"
      unfolding keys_build_dict_set by (auto intro!: inj_onI)
    then show ?thesis
      using wf_build_dict [of ?items] distinct_map [of key_str "dict_keys (build_dict ?items)"]
      by (simp add: comp_def)
  qed
  moreover have "\<exists>s. fst p = KStr s \<and> (sv \<longrightarrow> s \<notin> VOLATILE_KEYS)"
    if "p \<in> set (build_dict ?items)" for p
    using keys [OF that] by auto
  ultimately show ?case
    unfolding normalize_val.simps canonical.simps by (intro conjI ballI impI) fastforce+
qed auto

lemma sort_key_sorted_id: "sorted (map f xs) \<Longrightarrow> sort_key f xs = xs"
  by (rule properties_for_sort_key) auto

lemma canonical_normalize: "canonical sv v \<Longrightarrow> normalize_val sv v = v"
proof (induction sv v rule: normalize_val.induct)
  case (10 sv d)
  let ?f = "\<lambda>p :: pykey \<times> pyval. (key_str (fst p), snd p)"
  have ns: "map (\<lambda>(k, v). (key_str k, normalize_val sv v)) d = map ?f d"
    using "10.IH" "10.prems" by (intro map_cong) force+
  have sk: "sort_key fst (map ?f d) = map ?f d"
    using "10.prems" by (intro sort_key_sorted_id) (simp add: comp_def)
  have fi: "filter (\<lambda>p. \<not> (sv \<and> fst p \<in> VOLATILE_KEYS)) (map ?f d) = map ?f d"
    using "10.prems" by (intro filter_True) auto
  have "build_dict (map ?f d) = map (\<lambda>p. (KStr (fst p), snd p)) (map ?f d)"
    using "10.prems" by (intro build_dict_keys_distinct) (simp add: comp_def)
  also have "\<dots> = d" using "10.prems" by (auto simp: comp_def intro!: map_idI)
  finally show ?case by (simp only: normalize_val.simps ns sk fi)
qed (auto intro: map_idI)

lemma normalize_dict_perm:
  assumes "mset d = mset d'" and "distinct (map (\<lambda>p. key_str (fst p)) d)"
  shows "normalize_val sv (PDict d) = normalize_val sv (PDict d')"
proof -
  let ?g = "\<lambda>(k, v). (key_str k, normalize_val sv v)"
  have "mset (map ?g d) = mset (map ?g d')" using assms(1) by simp
  moreover have "map fst (map ?g d) = map (\<lambda>p. key_str (fst p)) d" by auto
  ultimately have "sort_key fst (map ?g d) = sort_key fst (map ?g d')"
    using assms(2) by (metis sort_key_perm_distinct)
  then show ?thesis by simp
qed

text \<open>Items under a volatile key do not reach the canonical form that is hashed.\<close>

lemma filter_sort_key_drop:
  "filter P (sort_key f (xs @ [x] @ ys)) = filter P (sort_key f (xs @ ys))" if "\<not> P x"
  using that by (simp add: filter_sort)

lemma normalize_volatile_key:
  assumes "key_str k \<in> VOLATILE_KEYS"
  shows "normalize_val True (PDict (d1 @ [(k, v)] @ d2)) = normalize_val True (PDict (d1 @ d2))"
  using assms by (simp add: filter_sort)

end
