(* ===== verification/Schemas.thy ===== *)
theory Schemas
  imports Values
begin

text \<open>
  The data model: the classes of \<open>schemas/\<close> as records and datatypes, in the order of the
  files.  Field names carry a prefix per class, since records share one name space.  A
  timestamp (\<open>datetime.now(timezone.utc)\<close>) is a number of microseconds.  Enumerations come
  with the string value that the code reads with \<open>.value\<close>.
\<close>

type_synonym time = int

section \<open>schemas/runtime.py\<close>

datatype runtime_state = IDLE | PERCEIVING | REASONING | WAITING_TOOL | WAITING_APPROVAL
  | EXECUTING | OBSERVING | REPLANNING | ESCALATED | FAILED | COMPLETED

fun state_value :: "runtime_state \<Rightarrow> string" where
  "state_value IDLE = ''idle''"
| "state_value PERCEIVING = ''perceiving''"
| "state_value REASONING = ''reasoning''"
| "state_value WAITING_TOOL = ''waiting_tool''"
| "state_value WAITING_APPROVAL = ''waiting_approval''"
| "state_value EXECUTING = ''executing''"
| "state_value OBSERVING = ''observing''"
| "state_value REPLANNING = ''replanning''"
| "state_value ESCALATED = ''escalated''"
| "state_value FAILED = ''failed''"
| "state_value COMPLETED = ''completed''"

definition all_states :: "runtime_state list" where
  "all_states = [IDLE, PERCEIVING, REASONING, WAITING_TOOL, WAITING_APPROVAL, EXECUTING,
     OBSERVING, REPLANNING, ESCALATED, FAILED, COMPLETED]"

text \<open>\<open>RuntimeState(s)\<close>: the member with that value, or a \<open>ValueError\<close>.\<close>

definition state_of_value :: "string \<Rightarrow> runtime_state option" where
  "state_of_value s = List.find (\<lambda>st. state_value st = s) all_states"

lemma state_of_value_value [simp]: "state_of_value (state_value st) = Some st"
  by (cases st) (simp_all add: state_of_value_def all_states_def)

lemma state_of_value_Some: "state_of_value s = Some st \<Longrightarrow> state_value st = s"
  by (auto simp: state_of_value_def find_Some_iff)

lemma state_value_inj [simp]: "state_value a = state_value b \<longleftrightarrow> a = b"
  by (metis option.inject state_of_value_value)

fun valid_targets :: "runtime_state \<Rightarrow> runtime_state set" where
  "valid_targets IDLE = {PERCEIVING}"
| "valid_targets PERCEIVING = {REASONING, WAITING_TOOL, ESCALATED, FAILED}"
| "valid_targets REASONING = {WAITING_TOOL, WAITING_APPROVAL, EXECUTING, REPLANNING, FAILED, COMPLETED}"
| "valid_targets WAITING_TOOL = {OBSERVING, FAILED, REPLANNING}"
| "valid_targets WAITING_APPROVAL = {EXECUTING, FAILED, ESCALATED}"
| "valid_targets EXECUTING = {OBSERVING, FAILED, COMPLETED}"
| "valid_targets OBSERVING = {REASONING, REPLANNING, COMPLETED, FAILED}"
| "valid_targets REPLANNING = {REASONING, ESCALATED, FAILED}"
| "valid_targets ESCALATED = {REASONING, FAILED, COMPLETED}"
| "valid_targets FAILED = {}"
| "valid_targets COMPLETED = {}"

datatype context_layer = L1_ACTIVE_TASK | L2_WORLD_STATE | L3_RECENT_DECISIONS | L4_LONG_TERM | L5_ARCHIVED

fun layer_value :: "context_layer \<Rightarrow> string" where
  "layer_value L1_ACTIVE_TASK = ''l1''"
| "layer_value L2_WORLD_STATE = ''l2''"
| "layer_value L3_RECENT_DECISIONS = ''l3''"
| "layer_value L4_LONG_TERM = ''l4''"
| "layer_value L5_ARCHIVED = ''l5''"

record retry_policy =
  rp_max_retries :: nat
  rp_backoff_ms :: nat
  rp_retry_on :: "string list"
  rp_escalation_after :: nat

definition default_retry_policy :: retry_policy where
  "default_retry_policy = \<lparr>rp_max_retries = 2, rp_backoff_ms = 500,
     rp_retry_on = [''timeout'', ''503'', ''connection_error''], rp_escalation_after = 2\<rparr>"

record cognitive_budget =
  cb_reasoning_budget :: int
  cb_planning_budget :: int
  cb_tool_budget :: int
  cb_memory_budget :: int
  cb_debate_budget :: int
  cb_max_cost_usd :: rat
  cb_fallback_model :: string
  cb_max_retries :: int
  cb_force_deterministic :: bool

definition default_budget :: cognitive_budget where
  "default_budget = \<lparr>cb_reasoning_budget = 4000, cb_planning_budget = 2000, cb_tool_budget = 5,
     cb_memory_budget = 8000, cb_debate_budget = 0, cb_max_cost_usd = 1,
     cb_fallback_model = ''gpt-4o-mini'', cb_max_retries = 3, cb_force_deterministic = False\<rparr>"

record outbox_event =
  ev_id :: string
  ev_key :: string
  ev_correlation :: string
  ev_causation :: "string option"
  ev_type :: string
  ev_payload :: pyval
  ev_world_version :: int
  ev_processed :: bool
  ev_created :: time

datatype replay_mode = FROZEN | LIVE

section \<open>schemas/world.py\<close>

record company =
  co_id :: string
  co_name :: string
  co_mrr_usd :: rat
  co_churn_rate :: rat
  co_burn_rate_usd :: rat
  co_runway_months :: rat

datatype incident_severity = SevLow | SevMedium | SevHigh | SevCritical
datatype incident_status = Open | Investigating | Resolved
datatype deploy_status = DepHealthy | DepDegraded | DepFailed

record incident =
  in_id :: string
  in_title :: string
  in_severity :: incident_severity
  in_status :: incident_status
  in_service :: string

record deployment =
  de_id :: string
  de_service :: string
  de_version :: string
  de_status :: deploy_status
  de_deployed_at :: time

record world_state =
  ws_version :: int
  ws_company :: company
  ws_incidents :: "incident list"
  ws_deployments :: "deployment list"

record world_snapshot =
  sn_version :: int
  sn_timestamp :: time
  sn_changed :: "string list"
  sn_checksum :: string
  sn_state :: world_state

definition default_world_state :: "time \<Rightarrow> world_state" where
  "default_world_state now = \<lparr>ws_version = 1,
     ws_company = \<lparr>co_id = ''company-1'', co_name = ''Demo SaaS'', co_mrr_usd = 45000,
       co_churn_rate = fl (32/1000), co_burn_rate_usd = 82000, co_runway_months = 14\<rparr>,
     ws_incidents = [\<lparr>in_id = ''inc-1'', in_title = ''Deployment latency spike'',
       in_severity = SevHigh, in_status = Investigating, in_service = ''api-gateway''\<rparr>],
     ws_deployments = [\<lparr>de_id = ''dep-1'', de_service = ''api-gateway'', de_version = ''v2.4.1'',
       de_status = DepDegraded, de_deployed_at = now\<rparr>]\<rparr>"

section \<open>schemas/decisions.py, schemas/effects.py\<close>

record confidence =
  cf_score :: rat
  cf_factors :: "(string, rat) dict"

record decision_record =
  dr_id :: string
  dr_correlation :: string
  dr_causation :: "string option"
  dr_objective :: string
  dr_context_used :: "string list"
  dr_policies :: "string list"
  dr_tools :: "string list"
  dr_summary :: string
  dr_confidence :: confidence
  dr_final_action :: string
  dr_outcome :: "string option"
  dr_agent :: string
  dr_state :: runtime_state
  dr_created :: time

datatype mutation_status = MutPending | MutPartial | MutComplete | MutFailed

record side_effect =
  se_id :: string
  se_action_id :: string
  se_correlation :: string
  se_systems :: "string list"
  se_status :: mutation_status
  se_rollback_available :: bool
  se_rollback_executed :: bool
  se_created :: time

section \<open>schemas/approvals.py\<close>

datatype approval_status = APPENDING | APPROVED | REJECTED | EXPIRED

datatype side_effect_level = READ | PLAN | EXECUTE_SAFE | EXECUTE_CRITICAL

fun level_value :: "side_effect_level \<Rightarrow> string" where
  "level_value READ = ''READ''"
| "level_value PLAN = ''PLAN''"
| "level_value EXECUTE_SAFE = ''EXECUTE_SAFE''"
| "level_value EXECUTE_CRITICAL = ''EXECUTE_CRITICAL''"

record action_proposal =
  ap_task_id :: string
  ap_agent :: string
  ap_action :: string
  ap_level :: side_effect_level
  ap_impact :: string

text \<open>\<open>expires_at\<close> comes from the client and may lack a time zone.\<close>

datatype datetime = Aware time | Naive time

record proposal =
  pr_id :: string
  pr_correlation :: string
  pr_task_id :: string
  pr_agent :: string
  pr_action :: string
  pr_parameters :: pyval
  pr_level :: side_effect_level
  pr_impact :: string
  pr_proposed_by :: string
  pr_approval_level :: int
  pr_checksum :: string
  pr_expires :: datetime

record binding =
  bi_approval_id :: string
  bi_correlation :: string
  bi_tool_name :: string
  bi_action_hash :: string
  bi_parameters_hash :: string
  bi_world_version :: "int option"
  bi_created :: time
  bi_expires :: datetime

record approval =
  av_id :: string
  av_task_id :: string
  av_proposal :: action_proposal
  av_requester :: string
  av_risk_level :: int
  av_status :: approval_status
  av_correlation :: string
  av_expires :: datetime
  av_immutable :: "proposal option"
  av_approved_by :: "string option"
  av_approved_at :: "time option"
  av_binding :: "binding option"

section \<open>schemas/crisis.py\<close>

datatype crisis_type = INFRASTRUCTURE | FINANCIAL | SECURITY | CUSTOMER | COMPLIANCE

record crisis_override =
  cr_budget_multiplier :: rat
  cr_approval_delta :: int
  cr_routing :: "string list"
  cr_expansion :: "context_layer list"
  cr_max_bypass :: int

fun CRISIS_OVERRIDES :: "crisis_type \<Rightarrow> crisis_override" where
  "CRISIS_OVERRIDES INFRASTRUCTURE = \<lparr>cr_budget_multiplier = 2, cr_approval_delta = -1,
     cr_routing = [''cto'', ''coo''], cr_expansion = [L3_RECENT_DECISIONS], cr_max_bypass = 2\<rparr>"
| "CRISIS_OVERRIDES FINANCIAL = \<lparr>cr_budget_multiplier = 3/2, cr_approval_delta = 0,
     cr_routing = [''cfo'', ''ceo''], cr_expansion = [L3_RECENT_DECISIONS], cr_max_bypass = 2\<rparr>"
| "CRISIS_OVERRIDES SECURITY = \<lparr>cr_budget_multiplier = 2, cr_approval_delta = 0,
     cr_routing = [''cto'', ''ceo''], cr_expansion = [L3_RECENT_DECISIONS, L4_LONG_TERM], cr_max_bypass = 2\<rparr>"
| "CRISIS_OVERRIDES CUSTOMER = \<lparr>cr_budget_multiplier = 3/2, cr_approval_delta = 0,
     cr_routing = [''cmo'', ''coo''], cr_expansion = [L3_RECENT_DECISIONS], cr_max_bypass = 2\<rparr>"
| "CRISIS_OVERRIDES COMPLIANCE = \<lparr>cr_budget_multiplier = 1, cr_approval_delta = 1,
     cr_routing = [''ceo''], cr_expansion = [L4_LONG_TERM], cr_max_bypass = 1\<rparr>"

section \<open>schemas/runtime_health.py, schemas/adaptive.py, schemas/tools.py\<close>

datatype health_band = HEALTHY | WARNING | DEGRADED | CRITICAL
datatype anomaly_severity = LOW | MEDIUM | HIGH | ANOM_CRITICAL

record runtime_health =
  rh_correlation :: string
  rh_session :: string
  rh_orchestration :: rat
  rh_stability :: rat
  rh_replay_confidence :: rat
  rh_context_pressure :: rat
  rh_retry_pressure :: rat
  rh_tool_failure :: rat
  rh_band :: health_band
  rh_degraded :: bool
  rh_generated :: time

record anomaly =
  an_type :: string
  an_severity :: anomaly_severity
  an_correlation :: string
  an_session :: string
  an_detected :: time
  an_metadata :: "(string \<times> rat) list"

record adaptive_policy =
  po_max_retry_depth :: int
  po_context_ratio :: rat
  po_delegation :: bool
  po_deterministic :: bool
  po_parallelism :: int
  po_approval_bias :: rat

definition default_policy :: adaptive_policy where
  "default_policy = \<lparr>po_max_retry_depth = 3, po_context_ratio = 1, po_delegation = True,
     po_deterministic = False, po_parallelism = 3, po_approval_bias = 0\<rparr>"

record adaptive_signals =
  sg_correlation :: string
  sg_session :: string
  sg_retry_density :: rat
  sg_replay_confidence :: rat
  sg_drift_severity :: rat
  sg_context_pressure :: rat
  sg_tool_failure_rate :: rat
  sg_health_band :: health_band
  sg_degraded :: bool
  sg_session_age :: int
  sg_latency_pressure :: rat
  sg_stability_pressure :: rat
  sg_governance_pressure :: rat

record policy_snapshot =
  ps_session :: string
  ps_correlation :: string
  ps_policy :: adaptive_policy
  ps_signals_hash :: string
  ps_policy_hash :: string
  ps_created :: time

datatype routing_band = TRUSTED | BAND_DEGRADED

record tool_profile =
  tp_name :: string
  tp_success_rate :: rat
  tp_replay_stability :: rat
  tp_avg_latency :: rat
  tp_timeout_rate :: rat
  tp_drift_rate :: rat
  tp_confidence :: rat
  tp_band :: routing_band
  tp_samples :: nat
  tp_updated :: time

record tool_result =
  tr_success :: bool
  tr_data :: "pyval option"
  tr_errors :: "string list"
  tr_source :: string
  tr_latency_ms :: int
  tr_cached :: bool
  tr_tool_name :: string
  tr_correlation :: string

section \<open>schemas/spans.py, schemas/cognition.py, schemas/context.py\<close>

datatype span_type = ORCHESTRATION | TRANSITION | TOOL_EXECUTION | CONTEXT_BUILD
  | AGENT_REASONING | APPROVAL | REPLAY | RETRY

fun span_type_value :: "span_type \<Rightarrow> string" where
  "span_type_value ORCHESTRATION = ''orchestration''"
| "span_type_value TRANSITION = ''transition''"
| "span_type_value TOOL_EXECUTION = ''tool_execution''"
| "span_type_value CONTEXT_BUILD = ''context_build''"
| "span_type_value AGENT_REASONING = ''agent_reasoning''"
| "span_type_value APPROVAL = ''approval''"
| "span_type_value REPLAY = ''replay''"
| "span_type_value RETRY = ''retry''"

datatype span_status = SP_STARTED | SP_OK | SP_ERROR

record span =
  sp_id :: string
  sp_trace :: string
  sp_correlation :: string
  sp_session :: string
  sp_parent :: "string option"
  sp_type :: span_type
  sp_runtime_state :: string
  sp_started :: time
  sp_completed :: "time option"
  sp_status :: span_status
  sp_metadata :: "(string \<times> pyval) list"

record retry_trace =
  rt_correlation :: string
  rt_session :: string
  rt_agent :: string
  rt_step :: nat
  rt_validation_error :: "string option"
  rt_repair_attempts :: nat
  rt_llm_retry :: bool
  rt_final_failure :: "string option"

record telemetry =
  te_correlation :: string
  te_session :: string
  te_agent :: string
  te_latency_ms :: int
  te_retry_count :: nat
  te_token_estimate :: int
  te_context_pressure :: rat
  te_replay_confidence :: rat
  te_created :: time

record lineage =
  li_prompt_hash :: string
  li_session :: string
  li_correlation :: string
  li_parent :: "string option"
  li_context_hash :: "string option"
  li_strategy :: "string option"

record priority_score =
  pc_source :: string
  pc_relevance :: rat
  pc_freshness :: rat
  pc_replay :: rat
  pc_operational :: rat

definition composite :: "priority_score \<Rightarrow> rat" where
  "composite p = fadd (fadd (fadd (fmul (pc_relevance p) (fl (3/10))) (fmul (pc_freshness p) (fl (2/10))))
     (fmul (pc_replay p) (1/4))) (fmul (pc_operational p) (1/4))"

record fingerprint =
  fp_context_hash :: string
  fp_sources :: "string list"
  fp_scores :: "(string, rat) dict"
  fp_utilization :: rat
  fp_compression :: rat
  fp_age :: int
  fp_chain :: "string list"
  fp_strategy :: "string option"

section \<open>schemas/replay.py, schemas/diagnostics.py, schemas/governance_runtime.py\<close>

record persisted_transition =
  pt_correlation :: string
  pt_session :: string
  pt_from :: string
  pt_to :: string

record step_bundle =
  sb_step :: nat
  sb_state :: string
  sb_tool_results :: "pyval list"
  sb_prompt :: string
  sb_response :: pyval
  sb_world_version :: int

record snapshot_bundle =
  bu_session :: string
  bu_correlation :: string
  bu_version :: string
  bu_world_version :: int
  bu_policy_snapshot :: "pyval list"
  bu_steps :: "step_bundle list"
  bu_transitions :: "persisted_transition list"
  bu_intent_tool :: "string option"

record canonical_outcome =
  oc_final_state :: string
  oc_tools :: "string list"
  oc_decisions :: "string list"
  oc_effects :: "string list"
  oc_approvals :: "string list"

definition outcome_dump :: "canonical_outcome \<Rightarrow> pyval" where
  "outcome_dump oc = pdict [(''final_runtime_state'', PStr (oc_final_state oc)),
     (''tool_sequence'', pstrs (oc_tools oc)), (''decision_sequence'', pstrs (oc_decisions oc)),
     (''side_effects'', pstrs (oc_effects oc)), (''approvals'', pstrs (oc_approvals oc))]"

definition outcome_fingerprint :: "env \<Rightarrow> canonical_outcome \<Rightarrow> string" where
  "outcome_fingerprint E oc = stable_hash E (outcome_dump oc)"

record replay_analytics =
  ra_session :: string
  ra_correlation :: string
  ra_confidence :: rat
  ra_drift_severity :: rat
  ra_version :: string
  ra_context_divergence :: rat
  ra_tool_divergence :: rat
  ra_outcome_match :: bool
  ra_drift_fields :: "string list"

record stability_event =
  sv_session :: string
  sv_correlation :: string
  sv_type :: string
  sv_severity :: string
  sv_metadata :: pyval
  sv_created :: time

datatype governance_action = ESCALATE_APPROVAL | DISABLE_DELEGATION | FORCE_DETERMINISTIC | REPLAY_DRIFT_DETECTED

record governance_event =
  gv_session :: string
  gv_correlation :: string
  gv_action :: governance_action
  gv_bias_delta :: rat
  gv_drift_fields :: "string list"
  gv_created :: time

text \<open>
  The summaries of \<open>SessionDiagnostics\<close> are dictionaries with fixed keys; each key is a field.
\<close>

record baseline_meta =
  bm_correlation :: string
  bm_fingerprint :: string
  bm_version :: string

record diagnostics =
  dg_session :: string
  dg_correlation :: string
  dg_health :: "runtime_health option"
  dg_span_total :: nat
  dg_span_by_type :: "(string, nat) dict"
  dg_span_orphans :: nat
  dg_tel_records :: nat
  dg_tel_tokens :: int
  dg_tel_avg_pressure :: rat
  dg_tel_retries :: nat
  dg_snapshot_count :: nat
  dg_baseline :: "baseline_meta option"
  dg_fingerprints :: "pyval list"
  dg_anomalies :: "anomaly list"
  dg_policy :: "adaptive_policy option"
  dg_stability_count :: nat
  dg_stability_events :: "stability_event list"
  dg_governance_count :: nat
  dg_governance_events :: "governance_event list"

section \<open>Exceptions\<close>

text \<open>
  The exceptions that the modelled code raises, with what it puts in the message where a
  caller or a theorem looks at it.
\<close>

datatype exn =
    ValueError string
  | InvalidStateTransition runtime_state runtime_state
  | SessionLockError string
  | ReplayIntegrityError string
  | ReplayVersionMismatchError string string
  | AgentDisabledError string
  | HTTPException nat
  | ValidationError
  | AttributeError
  | TypeError
  | KeyError string
  | MCPValidationError string
  | JSONDecodeError
  | AgentError string
  | UniqueViolationError string

fun is_replay_error :: "exn \<Rightarrow> bool" where
  "is_replay_error (ReplayIntegrityError _) = True"
| "is_replay_error (ReplayVersionMismatchError _ _) = True"
| "is_replay_error _ = False"

fun is_value_error :: "exn \<Rightarrow> bool" where
  "is_value_error (ValueError _) = True"
| "is_value_error ValidationError = True"
| "is_value_error JSONDecodeError = True"
| "is_value_error _ = False"

text \<open>Outcomes whose fields differ have different canonical values.\<close>

lemma outcome_dump_inj: "outcome_dump a = outcome_dump b \<Longrightarrow> a = b"
  by (cases a; cases b) (auto simp: outcome_dump_def inj_map_eq_map inj_def)

lemma scalar_list_canonical: "canonical sv (pstrs xs)"
  by simp

lemma normalize_outcome_dump:
  "normalize_val True (outcome_dump oc) = pdict [(''approvals'', pstrs (oc_approvals oc)),
     (''decision_sequence'', pstrs (oc_decisions oc)),
     (''final_runtime_state'', PStr (oc_final_state oc)),
     (''side_effects'', pstrs (oc_effects oc)), (''tool_sequence'', pstrs (oc_tools oc))]"
  by (simp add: outcome_dump_def build_dict_def VOLATILE_KEYS_def comp_def)

lemma outcome_norm_inj:
  "normalize_val True (outcome_dump a) = normalize_val True (outcome_dump b) \<Longrightarrow> a = b"
  unfolding normalize_outcome_dump
  by (cases a; cases b) (auto simp: inj_map_eq_map inj_def)

end
