(* ===== verification/Adaptive.thy ===== *)
theory Adaptive
  imports Schemas
begin

text \<open>
  The adaptive layer that derives policy and does not execute: \<open>core/adaptive_policy.py\<close>,
  \<open>core/replay_policy.py\<close>, \<open>core/adaptive_governance.py\<close>, \<open>core/cognitive_budget.py\<close> and
  \<open>core/delegation_policy.py\<close>, with the thresholds of \<open>core/config.py\<close> as a record whose
  default instance holds the values of the source.
\<close>

section \<open>core/config.py: adaptive thresholds\<close>

record settings =
  st_degraded_success :: rat
  st_health_enforcement :: bool
  st_retry_density_high :: rat
  st_context_pressure_high :: rat
  st_replay_confidence_low :: rat
  st_drift_severity_high :: rat
  st_latency_pressure_high :: rat
  st_session_age_long :: int
  st_tool_enter :: rat
  st_tool_exit :: rat
  st_bias_max :: rat
  st_budget_min :: rat
  st_budget_relaxed_max :: rat
  st_github_repo :: string
  st_mcp_url :: string
  st_allowed_hosts :: "string list"

definition default_settings :: settings where
  "default_settings = \<lparr>st_degraded_success = fl (7/10), st_health_enforcement = True,
     st_retry_density_high = fl (6/10), st_context_pressure_high = fl (85/100),
     st_replay_confidence_low = 1/2, st_drift_severity_high = 1/2,
     st_latency_pressure_high = fl (7/10), st_session_age_long = 3600,
     st_tool_enter = fl (70/100), st_tool_exit = fl (82/100), st_bias_max = 2,
     st_budget_min = 1/4, st_budget_relaxed_max = 1, st_github_repo = ''owner/repo'',
     st_mcp_url = ''http://localhost:8001'',
     st_allowed_hosts = [''localhost'', ''127.0.0.1'', ''github-mcp.internal'']\<rparr>"

text \<open>What the code relies on of configured thresholds.\<close>

definition wf_settings :: "settings \<Rightarrow> bool" where
  "wf_settings S \<longleftrightarrow> 0 \<le> st_budget_min S \<and> st_budget_min S \<le> 1/2 \<and>
     st_budget_min S \<le> st_budget_relaxed_max S \<and> st_budget_relaxed_max S \<le> 1 \<and>
     fl (st_budget_min S) = st_budget_min S \<and> fl (st_budget_relaxed_max S) = st_budget_relaxed_max S \<and>
     0 \<le> st_bias_max S \<and> st_tool_enter S \<le> st_tool_exit S"

lemma wf_default_settings: "wf_settings default_settings"
  by (simp add: wf_settings_def default_settings_def fl_mono)

section \<open>core/adaptive_policy.py\<close>

definition POLICY_VERSION :: string where "POLICY_VERSION = ''rrm3-v1''"
definition BASE_MEMORY_BUDGET :: int where "BASE_MEMORY_BUDGET = 8000"

definition policy_dump :: "adaptive_policy \<Rightarrow> pyval" where
  "policy_dump p = pdict [(''max_retry_depth'', PInt (po_max_retry_depth p)),
     (''context_budget_ratio'', PFloat (po_context_ratio p)), (''delegation_enabled'', PBool (po_delegation p)),
     (''deterministic_mode'', PBool (po_deterministic p)), (''tool_parallelism_limit'', PInt (po_parallelism p)),
     (''approval_escalation_bias'', PFloat (po_approval_bias p))]"

fun band_value :: "health_band \<Rightarrow> string" where
  "band_value HEALTHY = ''healthy''"
| "band_value WARNING = ''warning''"
| "band_value DEGRADED = ''degraded''"
| "band_value CRITICAL = ''critical''"

definition signals_dump :: "adaptive_signals \<Rightarrow> pyval" where
  "signals_dump g = pdict [(''correlation_id'', PStr (sg_correlation g)), (''session_id'', PStr (sg_session g)),
     (''retry_density'', PFloat (sg_retry_density g)), (''replay_confidence'', PFloat (sg_replay_confidence g)),
     (''drift_severity'', PFloat (sg_drift_severity g)), (''context_pressure'', PFloat (sg_context_pressure g)),
     (''tool_failure_rate'', PFloat (sg_tool_failure_rate g)), (''health_band'', PStr (band_value (sg_health_band g))),
     (''degraded_mode_active'', PBool (sg_degraded g)), (''session_age_seconds'', PInt (sg_session_age g)),
     (''latency_pressure'', PFloat (sg_latency_pressure g)), (''stability_pressure'', PFloat (sg_stability_pressure g)),
     (''governance_pressure'', PFloat (sg_governance_pressure g))]"

definition policy_hash :: "env \<Rightarrow> adaptive_policy \<Rightarrow> string" where
  "policy_hash E p = stable_hash E (pdict [(''version'', PStr POLICY_VERSION), (''policy'', policy_dump p)])"

definition signals_hash :: "env \<Rightarrow> adaptive_signals \<Rightarrow> string" where
  "signals_hash E g = stable_hash E (signals_dump g)"

text \<open>The steps of \<open>derive\<close>, in the order of the source; each is one \<open>if\<close> of the method.\<close>

definition step_retry :: "settings \<Rightarrow> adaptive_signals \<Rightarrow> adaptive_policy \<Rightarrow> adaptive_policy" where
  "step_retry S g p = (if sg_retry_density g \<ge> st_retry_density_high S
     then p\<lparr>po_max_retry_depth := max 0 (po_max_retry_depth p - 2)\<rparr> else p)"

definition step_replay :: "settings \<Rightarrow> adaptive_signals \<Rightarrow> adaptive_policy \<Rightarrow> adaptive_policy" where
  "step_replay S g p =
     (if sg_replay_confidence g < st_replay_confidence_low S \<or> sg_drift_severity g \<ge> st_drift_severity_high S
      then p\<lparr>po_deterministic := True, po_delegation := False,
             po_approval_bias := min (st_bias_max S) (fadd (po_approval_bias p) 1)\<rparr> else p)"

definition step_context :: "settings \<Rightarrow> adaptive_signals \<Rightarrow> adaptive_policy \<Rightarrow> adaptive_policy" where
  "step_context S g p = (if sg_context_pressure g \<ge> st_context_pressure_high S
     then p\<lparr>po_context_ratio := max (st_budget_min S) (fmul (po_context_ratio p) (1/2))\<rparr> else p)"

definition step_health :: "settings \<Rightarrow> adaptive_signals \<Rightarrow> adaptive_policy \<Rightarrow> adaptive_policy" where
  "step_health S g p = (if sg_health_band g \<in> {DEGRADED, CRITICAL} \<or> sg_degraded g
     then p\<lparr>po_delegation := False, po_max_retry_depth := 0, po_deterministic := True,
            po_context_ratio := min (po_context_ratio p) (1/2)\<rparr> else p)"

definition step_latency :: "settings \<Rightarrow> adaptive_signals \<Rightarrow> adaptive_policy \<Rightarrow> adaptive_policy" where
  "step_latency S g p = (if sg_latency_pressure g \<ge> st_latency_pressure_high S
     then p\<lparr>po_context_ratio := max (st_budget_min S) (fmul (po_context_ratio p) (3/4)), po_parallelism := 1\<rparr> else p)"

definition step_age :: "settings \<Rightarrow> adaptive_signals \<Rightarrow> adaptive_policy \<Rightarrow> adaptive_policy" where
  "step_age S g p = (if sg_session_age g \<ge> st_session_age_long S
     then p\<lparr>po_context_ratio := max (st_budget_min S) (fmul (po_context_ratio p) (fl (8/10)))\<rparr> else p)"

definition step_stability :: "settings \<Rightarrow> adaptive_signals \<Rightarrow> adaptive_policy \<Rightarrow> adaptive_policy" where
  "step_stability S g p = (if sg_stability_pressure g \<ge> 1/2
     then p\<lparr>po_deterministic := True, po_delegation := False, po_max_retry_depth := 0\<rparr> else p)"

definition step_governance :: "settings \<Rightarrow> adaptive_signals \<Rightarrow> adaptive_policy \<Rightarrow> adaptive_policy" where
  "step_governance S g p = (if sg_governance_pressure g \<ge> 1/2
     then p\<lparr>po_approval_bias := min (st_bias_max S) (fadd (po_approval_bias p) (1/2)), po_delegation := False\<rparr> else p)"

definition step_tools :: "settings \<Rightarrow> adaptive_signals \<Rightarrow> adaptive_policy \<Rightarrow> adaptive_policy" where
  "step_tools S g p = (if sg_tool_failure_rate g > 1/2
     then p\<lparr>po_deterministic := True, po_parallelism := 1\<rparr> else p)"

definition step_clamp :: "settings \<Rightarrow> adaptive_policy \<Rightarrow> adaptive_policy" where
  "step_clamp S p = p\<lparr>po_context_ratio := max (st_budget_min S) (min (st_budget_relaxed_max S) (po_context_ratio p)),
     po_approval_bias := max 0 (min (st_bias_max S) (po_approval_bias p))\<rparr>"

definition derive :: "settings \<Rightarrow> adaptive_signals \<Rightarrow> adaptive_policy" where
  "derive S g = step_clamp S (step_tools S g (step_governance S g (step_stability S g (step_age S g
     (step_latency S g (step_health S g (step_context S g (step_replay S g (step_retry S g default_policy)))))))))"

definition snapshot :: "env \<Rightarrow> settings \<Rightarrow> time \<Rightarrow> adaptive_signals \<Rightarrow> adaptive_policy option \<Rightarrow> policy_snapshot" where
  "snapshot E S now g policy =
     (let resolved = (case policy of Some p \<Rightarrow> p | None \<Rightarrow> derive S g) in
      \<lparr>ps_session = sg_session g, ps_correlation = sg_correlation g, ps_policy = resolved,
       ps_signals_hash = signals_hash E g, ps_policy_hash = policy_hash E resolved, ps_created = now\<rparr>)"

section \<open>core/replay_policy.py, core/adaptive_governance.py\<close>

definition replay_governance_pressure :: "replay_analytics \<Rightarrow> rat" where
  "replay_governance_pressure a =
     (if ra_drift_severity a \<ge> 1/2 \<or> ra_confidence a < 1/2
      then min 1 (fadd (ra_drift_severity a) (fmul (fsub 1 (ra_confidence a)) (1/2))) else 0)"

definition replay_cognition_relaxation :: "replay_analytics \<Rightarrow> rat" where
  "replay_cognition_relaxation a =
     (if ra_outcome_match a \<and> ra_confidence a \<ge> fl (9/10) \<and> ra_drift_severity a < fl (1/10)
      then fl (5/100) else 0)"

definition apply_replay_to_signals :: "adaptive_signals \<Rightarrow> replay_analytics \<Rightarrow> adaptive_signals" where
  "apply_replay_to_signals g a =
     g\<lparr>sg_governance_pressure := max (sg_governance_pressure g) (replay_governance_pressure a),
       sg_replay_confidence := ra_confidence a, sg_drift_severity := ra_drift_severity a\<rparr>"

definition events_from_analytics :: "settings \<Rightarrow> time \<Rightarrow> replay_analytics \<Rightarrow> governance_event list" where
  "events_from_analytics S now a =
     (if replay_governance_pressure a \<ge> 1/2 then
        [\<lparr>gv_session = ra_session a, gv_correlation = ra_correlation a, gv_action = REPLAY_DRIFT_DETECTED,
          gv_bias_delta = min (st_bias_max S) 1, gv_drift_fields = ra_drift_fields a, gv_created = now\<rparr>,
         \<lparr>gv_session = ra_session a, gv_correlation = ra_correlation a, gv_action = FORCE_DETERMINISTIC,
          gv_bias_delta = 0, gv_drift_fields = [], gv_created = now\<rparr>,
         \<lparr>gv_session = ra_session a, gv_correlation = ra_correlation a, gv_action = DISABLE_DELEGATION,
          gv_bias_delta = 0, gv_drift_fields = [], gv_created = now\<rparr>]
      else [])"

definition adjust_policy_cognition_only :: "settings \<Rightarrow> adaptive_policy \<Rightarrow> replay_analytics \<Rightarrow> adaptive_policy" where
  "adjust_policy_cognition_only S p a =
     (let relaxation = replay_cognition_relaxation a in
      if relaxation > 0
      then p\<lparr>po_context_ratio := min (st_budget_relaxed_max S) (fadd (po_context_ratio p) relaxation)\<rparr> else p)"

definition effective_approval_delta :: "adaptive_policy \<Rightarrow> int" where
  "effective_approval_delta p = max 0 (rhe (po_approval_bias p))"

section \<open>core/cognitive_budget.py, core/delegation_policy.py\<close>

definition adaptive_policy_to_budget :: "adaptive_policy \<Rightarrow> int \<Rightarrow> cognitive_budget" where
  "adaptive_policy_to_budget p base_memory =
     (let memory = trunc (fmul (of_int base_memory) (po_context_ratio p)) in
      default_budget\<lparr>cb_memory_budget := max 1000 memory, cb_max_retries := po_max_retry_depth p,
        cb_force_deterministic := po_deterministic p, cb_tool_budget := min 5 (po_parallelism p)\<rparr>)"

definition delegation_allowed :: "adaptive_policy \<Rightarrow> string \<Rightarrow> string list \<Rightarrow> bool" where
  "delegation_allowed p specialist ceo_delegations =
     (if \<not> po_delegation p then False else if specialist \<notin> set ceo_delegations then False else True)"

definition delegation_frozen :: "adaptive_policy \<Rightarrow> bool" where
  "delegation_frozen p \<longleftrightarrow> \<not> po_delegation p"

section \<open>The order of strictness\<close>

text \<open>
  \<open>worse g h\<close>: the signals \<open>h\<close> are at least as alarming as \<open>g\<close> in every component the policy reads.
  \<open>stricter p q\<close>: the policy \<open>q\<close> restricts at least as much as \<open>p\<close>.
\<close>

definition band_alarm :: "adaptive_signals \<Rightarrow> bool" where
  "band_alarm g \<longleftrightarrow> sg_health_band g \<in> {DEGRADED, CRITICAL} \<or> sg_degraded g"

definition worse :: "adaptive_signals \<Rightarrow> adaptive_signals \<Rightarrow> bool" where
  "worse g h \<longleftrightarrow> sg_retry_density g \<le> sg_retry_density h \<and> sg_replay_confidence h \<le> sg_replay_confidence g \<and>
     sg_drift_severity g \<le> sg_drift_severity h \<and> sg_context_pressure g \<le> sg_context_pressure h \<and>
     sg_tool_failure_rate g \<le> sg_tool_failure_rate h \<and> (band_alarm g \<longrightarrow> band_alarm h) \<and>
     sg_session_age g \<le> sg_session_age h \<and> sg_latency_pressure g \<le> sg_latency_pressure h \<and>
     sg_stability_pressure g \<le> sg_stability_pressure h \<and> sg_governance_pressure g \<le> sg_governance_pressure h"

definition stricter :: "adaptive_policy \<Rightarrow> adaptive_policy \<Rightarrow> bool" where
  "stricter p q \<longleftrightarrow> po_max_retry_depth q \<le> po_max_retry_depth p \<and> po_context_ratio q \<le> po_context_ratio p \<and>
     (po_delegation q \<longrightarrow> po_delegation p) \<and> (po_deterministic p \<longrightarrow> po_deterministic q) \<and>
     po_parallelism q \<le> po_parallelism p \<and> po_approval_bias p \<le> po_approval_bias q"

definition wf_policy :: "settings \<Rightarrow> adaptive_policy \<Rightarrow> bool" where
  "wf_policy S p \<longleftrightarrow> 0 \<le> po_max_retry_depth p \<and> po_max_retry_depth p \<le> 3 \<and>
     st_budget_min S \<le> po_context_ratio p \<and> po_context_ratio p \<le> 1 \<and> fl (po_context_ratio p) = po_context_ratio p \<and>
     1 \<le> po_parallelism p \<and> po_parallelism p \<le> 3 \<and> 0 \<le> po_approval_bias p \<and>
     (po_approval_bias p \<le> st_bias_max S) \<and> fl (po_approval_bias p) = po_approval_bias p"

named_theorems derive_steps "the single steps of derive"

lemmas [derive_steps] = step_retry_def step_replay_def step_context_def step_health_def step_latency_def
  step_age_def step_stability_def step_governance_def step_tools_def

text \<open>One lemma per step: it keeps well-formedness and only restricts, and it is monotone.\<close>

definition good_step :: "settings \<Rightarrow> (adaptive_signals \<Rightarrow> adaptive_policy \<Rightarrow> adaptive_policy) \<Rightarrow> bool" where
  "good_step S f \<longleftrightarrow>
     (\<forall>g p. wf_policy S p \<longrightarrow> wf_policy S (f g p) \<and> stricter p (f g p)) \<and>
     (\<forall>g h p q. worse g h \<longrightarrow> wf_policy S p \<longrightarrow> wf_policy S q \<longrightarrow> stricter p q \<longrightarrow> stricter (f g p) (f h q))"

lemma stricter_refl: "stricter p p"
  by (simp add: stricter_def)

lemma stricter_trans: "stricter p q \<Longrightarrow> stricter q r \<Longrightarrow> stricter p r"
  by (auto simp: stricter_def)

text \<open>A guarded step is good if its guard is upward closed and its body is good.\<close>

lemma good_guarded:
  assumes body_wf: "\<And>p. wf_policy S p \<Longrightarrow> wf_policy S (b p)"
    and body_strict: "\<And>p. wf_policy S p \<Longrightarrow> stricter p (b p)"
    and body_mono: "\<And>p q. wf_policy S p \<Longrightarrow> wf_policy S q \<Longrightarrow> stricter p q \<Longrightarrow> stricter (b p) (b q)"
    and guard: "\<And>g h. worse g h \<Longrightarrow> c g \<Longrightarrow> c h"
  shows "good_step S (\<lambda>g p. if c g then b p else p)"
  unfolding good_step_def
proof (intro conjI allI impI)
  fix g h p q
  assume w: "worse g h" and p: "wf_policy S p" and q: "wf_policy S q" and s: "stricter p q"
  show "stricter (if c g then b p else p) (if c h then b q else q)"
    using body_mono [OF p q s] guard [OF w] stricter_trans [OF s body_strict [OF q]] s by auto
qed (simp_all add: body_wf body_strict stricter_refl)

lemma bias_step:
  assumes "wf_settings S" "wf_policy S p" "0 \<le> c" "fl (st_bias_max S) = st_bias_max S"
  shows "po_approval_bias p \<le> min (st_bias_max S) (fadd (po_approval_bias p) c)"
proof -
  have "fl (po_approval_bias p) \<le> fl (po_approval_bias p + c)" using assms(3) by (intro fl_mono) simp
  then show ?thesis using assms by (simp add: wf_policy_def fadd_def)
qed

lemma ratio_step:
  assumes "wf_policy S p" "0 \<le> st_budget_min S" "c \<le> 1"
  shows "max (st_budget_min S) (fmul (po_context_ratio p) c) \<le> po_context_ratio p"
  using assms fmul_shrink [of "po_context_ratio p" c] by (simp add: wf_policy_def)

definition early_steps :: "settings \<Rightarrow> adaptive_signals \<Rightarrow> adaptive_policy \<Rightarrow> adaptive_policy" where
  "early_steps S g p = step_replay S g (step_retry S g p)"

definition late_steps :: "settings \<Rightarrow> adaptive_signals \<Rightarrow> adaptive_policy \<Rightarrow> adaptive_policy" where
  "late_steps S g p = step_tools S g (step_governance S g (step_stability S g (step_age S g (step_latency S g
     (step_health S g (step_context S g p))))))"

definition float_settings :: "settings \<Rightarrow> bool" where
  "float_settings S \<longleftrightarrow> wf_settings S \<and> fl (st_bias_max S) = st_bias_max S"

lemma float_default_settings: "float_settings default_settings"
  using wf_default_settings by (simp add: float_settings_def default_settings_def)

lemma fl_three_quarters: "fl (3/4) = 3/4"
  using fl_exact [of 3 "-2"] by (simp add: power_int_minus)

locale thresholds =
  fixes S :: settings
  assumes S: "float_settings S"
begin

lemma S_facts:
  "0 \<le> st_budget_min S" "st_budget_min S \<le> 1/2" "st_budget_min S \<le> st_budget_relaxed_max S"
  "st_budget_relaxed_max S \<le> 1" "fl (st_budget_min S) = st_budget_min S"
  "fl (st_budget_relaxed_max S) = st_budget_relaxed_max S" "0 \<le> st_bias_max S"
  "fl (st_bias_max S) = st_bias_max S" "wf_settings S"
  using S by (simp_all add: float_settings_def wf_settings_def)

lemma good_retry: "good_step S (step_retry S)"
  unfolding step_retry_def
  by (rule good_guarded) (auto simp: wf_policy_def stricter_def worse_def)

lemma good_replay: "good_step S (step_replay S)"
  unfolding step_replay_def
proof (rule good_guarded)
  fix p assume p: "wf_policy S p"
  have "po_approval_bias p \<le> min (st_bias_max S) (fadd (po_approval_bias p) 1)"
    using bias_step [OF S_facts(9) p] S_facts by simp
  moreover have "0 \<le> po_approval_bias p" using p by (simp add: wf_policy_def)
  ultimately show "wf_policy S (p\<lparr>po_deterministic := True, po_delegation := False,
      po_approval_bias := min (st_bias_max S) (fadd (po_approval_bias p) 1)\<rparr>)"
    and "stricter p (p\<lparr>po_deterministic := True, po_delegation := False,
      po_approval_bias := min (st_bias_max S) (fadd (po_approval_bias p) 1)\<rparr>)"
    using p S_facts by (auto simp: wf_policy_def stricter_def)
next
  fix p q assume "stricter p q"
  then show "stricter (p\<lparr>po_deterministic := True, po_delegation := False,
      po_approval_bias := min (st_bias_max S) (fadd (po_approval_bias p) 1)\<rparr>)
     (q\<lparr>po_deterministic := True, po_delegation := False,
      po_approval_bias := min (st_bias_max S) (fadd (po_approval_bias q) 1)\<rparr>)"
    using fadd_mono [of "po_approval_bias p" "po_approval_bias q" 1 1]
    by (auto simp: stricter_def min_le_iff_disj)
qed (auto simp: worse_def)

lemma shrink_wf:
  assumes p: "wf_policy S p" and c: "c \<le> 1"
  shows "wf_policy S (p\<lparr>po_context_ratio := max (st_budget_min S) (fmul (po_context_ratio p) c)\<rparr>)"
  using p ratio_step [OF p S_facts(1) c] S_facts(5) by (auto simp: wf_policy_def)

lemma shrink_mono:
  "stricter p q \<Longrightarrow> 0 \<le> c \<Longrightarrow>
     max (st_budget_min S) (fmul (po_context_ratio q) c) \<le> max (st_budget_min S) (fmul (po_context_ratio p) c)"
  using fmul_mono [of "po_context_ratio q" "po_context_ratio p" c] by (auto simp: stricter_def)

lemma good_context: "good_step S (step_context S)"
  unfolding step_context_def
proof (rule good_guarded)
  fix p assume p: "wf_policy S p"
  show "wf_policy S (p\<lparr>po_context_ratio := max (st_budget_min S) (fmul (po_context_ratio p) (1/2))\<rparr>)"
    using shrink_wf [OF p, of "1/2"] by simp
  show "stricter p (p\<lparr>po_context_ratio := max (st_budget_min S) (fmul (po_context_ratio p) (1/2))\<rparr>)"
    using ratio_step [OF p S_facts(1), of "1/2"] by (simp add: stricter_def)
next
  fix p q assume s: "stricter p q"
  then show "stricter (p\<lparr>po_context_ratio := max (st_budget_min S) (fmul (po_context_ratio p) (1/2))\<rparr>)
      (q\<lparr>po_context_ratio := max (st_budget_min S) (fmul (po_context_ratio q) (1/2))\<rparr>)"
    using shrink_mono [OF s, of "1/2"] by (simp add: stricter_def)
qed (auto simp: worse_def)

lemma good_health: "good_step S (step_health S)"
  unfolding step_health_def band_alarm_def [symmetric]
proof (rule good_guarded)
  fix p assume p: "wf_policy S p"
  let ?b = "p\<lparr>po_delegation := False, po_max_retry_depth := 0, po_deterministic := True,
      po_context_ratio := min (po_context_ratio p) (1/2)\<rparr>"
  show "wf_policy S ?b" using p S_facts(2) by (auto simp: wf_policy_def)
  show "stricter p ?b" using p by (auto simp: stricter_def wf_policy_def)
qed (auto simp: stricter_def worse_def)

lemma good_latency: "good_step S (step_latency S)"
  unfolding step_latency_def
proof (rule good_guarded)
  fix p assume p: "wf_policy S p"
  let ?b = "p\<lparr>po_context_ratio := max (st_budget_min S) (fmul (po_context_ratio p) (3/4)), po_parallelism := 1\<rparr>"
  show "wf_policy S ?b" using shrink_wf [OF p, of "3/4"] by (simp add: wf_policy_def)
  show "stricter p ?b" using ratio_step [OF p S_facts(1), of "3/4"] p by (simp add: stricter_def wf_policy_def)
next
  fix p q assume s: "stricter p q"
  then show "stricter (p\<lparr>po_context_ratio := max (st_budget_min S) (fmul (po_context_ratio p) (3/4)), po_parallelism := 1\<rparr>)
      (q\<lparr>po_context_ratio := max (st_budget_min S) (fmul (po_context_ratio q) (3/4)), po_parallelism := 1\<rparr>)"
    using shrink_mono [OF s, of "3/4"] by (simp add: stricter_def)
qed (auto simp: worse_def)

lemma fl_eight_tenths: "0 \<le> fl (8/10)" "fl (8/10) \<le> 1"
  by (intro b64.rnd_nonneg b64.rnd_le_1; simp)+

lemma good_age: "good_step S (step_age S)"
  unfolding step_age_def
proof (rule good_guarded)
  fix p assume p: "wf_policy S p"
  let ?b = "p\<lparr>po_context_ratio := max (st_budget_min S) (fmul (po_context_ratio p) (fl (8/10)))\<rparr>"
  show "wf_policy S ?b" using shrink_wf [OF p fl_eight_tenths(2)] by simp
  show "stricter p ?b" using ratio_step [OF p S_facts(1) fl_eight_tenths(2)] by (simp add: stricter_def)
next
  fix p q assume s: "stricter p q"
  then show "stricter (p\<lparr>po_context_ratio := max (st_budget_min S) (fmul (po_context_ratio p) (fl (8/10)))\<rparr>)
      (q\<lparr>po_context_ratio := max (st_budget_min S) (fmul (po_context_ratio q) (fl (8/10)))\<rparr>)"
    using shrink_mono [OF s fl_eight_tenths(1)] by (simp add: stricter_def)
qed (auto simp: worse_def)

lemma good_stability: "good_step S (step_stability S)"
  unfolding step_stability_def
  by (rule good_guarded) (auto simp: wf_policy_def stricter_def worse_def)

lemma good_governance: "good_step S (step_governance S)"
  unfolding step_governance_def
proof (rule good_guarded)
  fix p assume p: "wf_policy S p"
  let ?b = "p\<lparr>po_approval_bias := min (st_bias_max S) (fadd (po_approval_bias p) (1/2)), po_delegation := False\<rparr>"
  have "po_approval_bias p \<le> min (st_bias_max S) (fadd (po_approval_bias p) (1/2))"
    using bias_step [OF S_facts(9) p] S_facts by simp
  moreover have "0 \<le> po_approval_bias p" using p by (simp add: wf_policy_def)
  ultimately show "wf_policy S ?b" and "stricter p ?b"
    using p S_facts by (auto simp: wf_policy_def stricter_def)
next
  fix p q assume "stricter p q"
  then show "stricter (p\<lparr>po_approval_bias := min (st_bias_max S) (fadd (po_approval_bias p) (1/2)), po_delegation := False\<rparr>)
      (q\<lparr>po_approval_bias := min (st_bias_max S) (fadd (po_approval_bias q) (1/2)), po_delegation := False\<rparr>)"
    using fadd_mono [of "po_approval_bias p" "po_approval_bias q" "1/2" "1/2"]
    by (auto simp: stricter_def min_le_iff_disj)
qed (auto simp: worse_def)

lemma good_tools: "good_step S (step_tools S)"
  unfolding step_tools_def
  by (rule good_guarded) (auto simp: wf_policy_def stricter_def worse_def)

lemma good_compose:
  "good_step S f \<Longrightarrow> good_step S f' \<Longrightarrow> good_step S (\<lambda>g p. f' g (f g p))"
  unfolding good_step_def by (meson stricter_trans)

lemma good_late: "good_step S (late_steps S)"
  using good_compose [OF good_compose [OF good_compose [OF good_compose [OF good_compose
    [OF good_compose [OF good_context good_health] good_latency]
    good_age] good_stability] good_governance] good_tools]
  unfolding late_steps_def [abs_def] .

lemma good_early: "good_step S (early_steps S)"
  using good_compose [OF good_retry good_replay] unfolding early_steps_def [abs_def] .

lemma wf_default: "wf_policy S default_policy"
  using S_facts by (simp add: wf_policy_def default_policy_def)

lemma wf_early: "wf_policy S (early_steps S g default_policy)"
  using good_early wf_default by (simp add: good_step_def)

lemma wf_late: "wf_policy S (late_steps S g (early_steps S g default_policy))"
  using good_late wf_early by (simp add: good_step_def)

lemma derive_steps_eq: "derive S g = step_clamp S (late_steps S g (early_steps S g default_policy))"
  by (simp add: derive_def late_steps_def early_steps_def)

lemma clamp_mono: "stricter p q \<Longrightarrow> stricter (step_clamp S p) (step_clamp S q)"
  by (auto simp: stricter_def step_clamp_def)

lemma clamp_wf: "wf_policy S p \<Longrightarrow> wf_policy S (step_clamp S p)"
  using S_facts by (auto simp: wf_policy_def step_clamp_def)

lemma derive_wf: "wf_policy S (derive S g)"
  unfolding derive_steps_eq by (intro clamp_wf wf_late)

lemma derive_mono: "worse g h \<Longrightarrow> stricter (derive S g) (derive S h)"
proof -
  assume w: "worse g h"
  have "stricter (early_steps S g default_policy) (early_steps S h default_policy)"
    using good_early wf_default w stricter_refl by (simp add: good_step_def)
  then have "stricter (late_steps S g (early_steps S g default_policy))
      (late_steps S h (early_steps S h default_policy))"
    using good_late wf_early w by (simp add: good_step_def)
  then show ?thesis unfolding derive_steps_eq by (rule clamp_mono)
qed

lemma clamp_bias: "wf_policy S p \<Longrightarrow> po_approval_bias (step_clamp S p) = po_approval_bias p"
  by (simp add: step_clamp_def wf_policy_def)

lemma derive_after_early:
  "(po_deterministic (early_steps S g default_policy) \<longrightarrow> po_deterministic (derive S g)) \<and>
   (po_delegation (derive S g) \<longrightarrow> po_delegation (early_steps S g default_policy)) \<and>
   po_approval_bias (early_steps S g default_policy) \<le> po_approval_bias (derive S g)"
proof -
  have "stricter (early_steps S g default_policy) (late_steps S g (early_steps S g default_policy))"
    using good_late wf_early by (simp add: good_step_def)
  then show ?thesis
    unfolding derive_steps_eq clamp_bias [OF wf_late] by (simp add: stricter_def step_clamp_def)
qed

lemma derive_ratio_le_relaxed: "po_context_ratio (derive S g) \<le> st_budget_relaxed_max S"
  using S_facts(3) by (simp add: derive_def step_clamp_def)

end

interpretation dflt: thresholds default_settings
  by unfold_locales (rule float_default_settings)

section \<open>Properties\<close>

text \<open>C31: the derived policy is always within its bounds, for every signal and every
  configuration whose thresholds are consistent: the context ratio between the configured
  minimum and maximum, the retry depth between 0 and 3, the parallelism between 1 and 3, the
  approval bias between 0 and the configured maximum; the budget handed to the runtime then has
  at least 1000 and at most \<open>base\<close> tokens of memory and at most 3 tools.\<close>

theorem derive_within_bounds:
  assumes "float_settings S" and "1000 \<le> base" and "base < 2 ^ 53"
  shows "wf_policy S (derive S g) \<and> po_context_ratio (derive S g) \<le> st_budget_relaxed_max S \<and>
    1000 \<le> cb_memory_budget (adaptive_policy_to_budget (derive S g) base) \<and>
    cb_memory_budget (adaptive_policy_to_budget (derive S g) base) \<le> base \<and>
    cb_tool_budget (adaptive_policy_to_budget (derive S g) base) \<le> 3"
proof -
  note T = thresholds.intro [OF assms(1)]
  have wf: "wf_policy S (derive S g)" by (rule thresholds.derive_wf [OF T])
  have r: "po_context_ratio (derive S g) \<le> st_budget_relaxed_max S"
    by (rule thresholds.derive_ratio_le_relaxed [OF T])
  have "fmul (of_int base) (po_context_ratio (derive S g)) \<le> of_int base"
    using wf assms(2,3) by (intro fmul_shrink) (auto simp: wf_policy_def)
  then have "trunc (fmul (of_int base) (po_context_ratio (derive S g))) \<le> base"
    using trunc_mono [of _ "of_int base"] by fastforce
  then show ?thesis
    using wf r assms(2) by (auto simp: adaptive_policy_to_budget_def Let_def wf_policy_def)
qed

definition demo_signals :: adaptive_signals where
  "demo_signals = \<lparr>sg_correlation = ''c'', sg_session = ''s'', sg_retry_density = 0, sg_replay_confidence = 1,
     sg_drift_severity = 0, sg_context_pressure = 0, sg_tool_failure_rate = 0, sg_health_band = HEALTHY,
     sg_degraded = False, sg_session_age = 0, sg_latency_pressure = 0, sg_stability_pressure = 0,
     sg_governance_pressure = 0\<rparr>"

theorem derive_within_bounds_witness:
  "wf_policy default_settings (derive default_settings (demo_signals\<lparr>sg_context_pressure := 1\<rparr>)) \<and>
   1000 \<le> cb_memory_budget (adaptive_policy_to_budget (derive default_settings (demo_signals\<lparr>sg_context_pressure := 1\<rparr>)) 8000)"
  using derive_within_bounds [OF float_default_settings, of 8000 "demo_signals\<lparr>sg_context_pressure := 1\<rparr>"] by simp

text \<open>worse signals never relax the policy: if every signal is at least as alarming, the derived
  policy retries no deeper, gets no more context, delegates only if the other did, stays
  deterministic, uses no more tools in parallel and has no smaller approval bias.\<close>

theorem derive_monotone:
  assumes "float_settings S" and "worse g h"
  shows "stricter (derive S g) (derive S h)"
  by (rule thresholds.derive_mono [OF thresholds.intro [OF assms(1)] assms(2)])

theorem derive_monotone_witness:
  "worse demo_signals (demo_signals\<lparr>sg_drift_severity := 1, sg_health_band := CRITICAL\<rparr>) \<and>
   stricter (derive default_settings demo_signals)
     (derive default_settings (demo_signals\<lparr>sg_drift_severity := 1, sg_health_band := CRITICAL\<rparr>))"
proof -
  have w: "worse demo_signals (demo_signals\<lparr>sg_drift_severity := 1, sg_health_band := CRITICAL\<rparr>)"
    by (simp add: worse_def demo_signals_def band_alarm_def)
  then show ?thesis using derive_monotone [OF float_default_settings w] by simp
qed

lemma derive_replay_guard:
  assumes "float_settings S"
    and "sg_replay_confidence g < st_replay_confidence_low S \<or> sg_drift_severity g \<ge> st_drift_severity_high S"
  shows "po_deterministic (derive S g) \<and> \<not> po_delegation (derive S g) \<and>
    min (st_bias_max S) 1 \<le> po_approval_bias (derive S g)"
proof -
  have "po_deterministic (early_steps S g default_policy) \<and> \<not> po_delegation (early_steps S g default_policy) \<and>
      po_approval_bias (early_steps S g default_policy) = min (st_bias_max S) 1"
    using assms(2) by (auto simp: early_steps_def step_replay_def step_retry_def default_policy_def fadd_def)
  then show ?thesis
    using thresholds.derive_after_early [OF thresholds.intro [OF assms(1)], of g] by auto
qed

text \<open>replay evidence hardens approvals and never relaxes them: merging analytics into the signals
  never lowers the governance pressure; if the merged analytics report drift or low confidence the policy
  derived from them is deterministic, does not delegate and carries a positive approval bias; and the
  adjustment for a stable replay changes nothing but the context ratio, which it raises within
  the configured maximum.\<close>

theorem replay_only_hardens:
  assumes "float_settings S"
  shows "sg_governance_pressure g \<le> sg_governance_pressure (apply_replay_to_signals g a) \<and>
    (ra_drift_severity a \<ge> st_drift_severity_high S \<or> ra_confidence a < st_replay_confidence_low S \<longrightarrow>
      (let p = adjust_policy_cognition_only S (derive S (apply_replay_to_signals g a)) a in
       po_deterministic p \<and> \<not> po_delegation p \<and> min (st_bias_max S) 1 \<le> po_approval_bias p)) \<and>
    (let p' = adjust_policy_cognition_only S p a in
      po_approval_bias p' = po_approval_bias p \<and> po_delegation p' = po_delegation p \<and>
      po_deterministic p' = po_deterministic p \<and> po_max_retry_depth p' = po_max_retry_depth p \<and>
      po_parallelism p' = po_parallelism p \<and>
      (po_context_ratio p' \<noteq> po_context_ratio p \<longrightarrow> po_context_ratio p' \<le> st_budget_relaxed_max S))"
proof -
  have "sg_replay_confidence (apply_replay_to_signals g a) = ra_confidence a"
    "sg_drift_severity (apply_replay_to_signals g a) = ra_drift_severity a"
    by (simp_all add: apply_replay_to_signals_def)
  then have "ra_drift_severity a \<ge> st_drift_severity_high S \<or> ra_confidence a < st_replay_confidence_low S \<Longrightarrow>
      po_deterministic (derive S (apply_replay_to_signals g a)) \<and>
      \<not> po_delegation (derive S (apply_replay_to_signals g a)) \<and>
      min (st_bias_max S) 1 \<le> po_approval_bias (derive S (apply_replay_to_signals g a))"
    using derive_replay_guard [OF assms, of "apply_replay_to_signals g a"] by auto
  moreover have "po_approval_bias (adjust_policy_cognition_only S q a) = po_approval_bias q"
    "po_delegation (adjust_policy_cognition_only S q a) = po_delegation q"
    "po_deterministic (adjust_policy_cognition_only S q a) = po_deterministic q" for q
    by (simp_all add: adjust_policy_cognition_only_def Let_def)
  ultimately show ?thesis
    by (simp add: Let_def) (simp add: apply_replay_to_signals_def adjust_policy_cognition_only_def Let_def)
qed

definition demo_analytics :: replay_analytics where
  "demo_analytics = \<lparr>ra_session = ''s'', ra_correlation = ''c'', ra_confidence = 0, ra_drift_severity = 1,
     ra_version = ''v'', ra_context_divergence = 0, ra_tool_divergence = 0, ra_outcome_match = False,
     ra_drift_fields = []\<rparr>"

theorem replay_only_hardens_witness:
  "(let p = adjust_policy_cognition_only default_settings
      (derive default_settings (apply_replay_to_signals demo_signals demo_analytics)) demo_analytics in
    po_deterministic p \<and> \<not> po_delegation p \<and> 1 \<le> po_approval_bias p)"
proof -
  have "ra_drift_severity demo_analytics \<ge> st_drift_severity_high default_settings"
    by (simp add: demo_analytics_def default_settings_def)
  moreover have "min (st_bias_max default_settings) 1 = 1" by (simp add: default_settings_def)
  ultimately show ?thesis
    using replay_only_hardens [OF float_default_settings, of demo_signals demo_analytics default_policy]
    by (simp add: Let_def)
qed

text \<open>delegation: a specialist is called exactly when the policy enables delegation and the CEO
  named it, and a policy derived from signals of a degraded or critical runtime, of instability or of governance pressure
  freezes delegation whatever the CEO answered.\<close>

theorem delegation_gate:
  "delegation_allowed p s ds = (po_delegation p \<and> s \<in> set ds) \<and> delegation_frozen p = (\<not> po_delegation p) \<and>
   (band_alarm g \<or> sg_stability_pressure g \<ge> 1/2 \<or> sg_governance_pressure g \<ge> 1/2 \<longrightarrow>
     \<not> delegation_allowed (derive S g) s ds)"
proof -
  have off: "po_delegation (step_tools S g p) = po_delegation p" "po_delegation (step_age S g p) = po_delegation p"
    "po_delegation (step_latency S g p) = po_delegation p" "po_delegation (step_clamp S p) = po_delegation p"
    "po_delegation (step_governance S g p) = (po_delegation p \<and> \<not> sg_governance_pressure g \<ge> 1/2)"
    "po_delegation (step_stability S g p) = (po_delegation p \<and> \<not> sg_stability_pressure g \<ge> 1/2)"
    "po_delegation (step_health S g p) = (po_delegation p \<and> \<not> band_alarm g)" for p
    by (simp_all add: derive_steps step_clamp_def band_alarm_def)
  have "band_alarm g \<or> sg_stability_pressure g \<ge> 1/2 \<or> sg_governance_pressure g \<ge> 1/2 \<Longrightarrow>
      \<not> po_delegation (derive S g)"
    unfolding derive_def off by auto
  then show ?thesis by (auto simp: delegation_allowed_def delegation_frozen_def)
qed

theorem delegation_gate_witness:
  "\<not> delegation_allowed (derive default_settings (demo_signals\<lparr>sg_degraded := True\<rparr>)) ''cto'' [''cto'']"
proof -
  have "band_alarm (demo_signals\<lparr>sg_degraded := True\<rparr>)" by (simp add: band_alarm_def)
  then show ?thesis
    using delegation_gate [of default_policy "''cto''" "[''cto'']" "demo_signals\<lparr>sg_degraded := True\<rparr>" default_settings]
    by simp
qed

end
