(* ===== verification/Spans.thy ===== *)
theory Spans
  imports Adaptive
begin

text \<open>
  \<open>core/spans.py\<close>: the execution spans of a session.  Span objects are shared between the
  caller, the pending list and (in memory mode) the store, and \<open>end_span\<close> mutates them in
  place, so the model keeps the objects in a heap indexed by span id and the lists hold ids.
  The OpenTelemetry mirror of a span has no influence on the runtime and is left out.
\<close>

record span_ctx =
  sc_heap :: "(string, span) dict"
  sc_pending :: "string list"
  sc_parents :: "(span_type, string) dict"
  sc_session :: "(string \<times> string) option"

definition empty_span_ctx :: span_ctx where
  "empty_span_ctx = \<lparr>sc_heap = [], sc_pending = [], sc_parents = [], sc_session = None\<rparr>"

definition trace_id_from_correlation :: "env \<Rightarrow> string \<Rightarrow> string" where
  "trace_id_from_correlation E cid = stable_hash E (pdict [(''correlation_id'', PStr cid)])"

definition begin_session :: "string \<Rightarrow> string \<Rightarrow> span_ctx \<Rightarrow> span_ctx" where
  "begin_session sid cid c = c\<lparr>sc_pending := [], sc_parents := [], sc_session := Some (sid, cid)\<rparr>"

definition drain_pending_spans :: "span_ctx \<Rightarrow> string list \<times> span_ctx" where
  "drain_pending_spans c = (sc_pending c, c\<lparr>sc_pending := []\<rparr>)"

text \<open>The parent that \<open>start_span\<close> chooses when none is given.\<close>

definition default_parent :: "span_type \<Rightarrow> (span_type, string) dict \<Rightarrow> string option" where
  "default_parent ty parents =
     (if ty = ORCHESTRATION then None
      else if ty = RETRY then dict_get parents AGENT_REASONING
      else dict_get parents ORCHESTRATION)"

definition start_span ::
  "env \<Rightarrow> string \<Rightarrow> time \<Rightarrow> span_type \<Rightarrow> string \<Rightarrow> string option \<Rightarrow> (string \<times> pyval) list \<Rightarrow> span_ctx \<Rightarrow> string \<times> span_ctx" where
  "start_span E uid now ty runtime_state parent meta c =
     (let (sid, cid) = (case sc_session c of None \<Rightarrow> ('''', '''') | Some x \<Rightarrow> x);
          trace = (if cid = '''' then '''' else trace_id_from_correlation E cid);
          parent' = (case parent of Some p \<Rightarrow> Some p | None \<Rightarrow> default_parent ty (sc_parents c));
          sp = \<lparr>sp_id = uid, sp_trace = trace, sp_correlation = cid, sp_session = sid, sp_parent = parent',
                sp_type = ty, sp_runtime_state = runtime_state, sp_started = now, sp_completed = None,
                sp_status = SP_STARTED, sp_metadata = meta\<rparr>
      in (uid, c\<lparr>sc_heap := dict_set uid sp (sc_heap c), sc_pending := sc_pending c @ [uid],
            sc_parents := (if ty = ORCHESTRATION then dict_set ORCHESTRATION uid (sc_parents c) else sc_parents c)\<rparr>))"

definition finish_span :: "time \<Rightarrow> span_status \<Rightarrow> (string \<times> pyval) list \<Rightarrow> span \<Rightarrow> span" where
  "finish_span now st meta s = s\<lparr>sp_completed := Some now, sp_status := st,
     sp_metadata := fold (\<lambda>p. dict_set (fst p) (snd p)) meta (sp_metadata s)\<rparr>"

text \<open>Replacing the pending entry of the same id by the object itself changes nothing: both are
  the object of that id.\<close>

definition end_span :: "string \<Rightarrow> time \<Rightarrow> span_status \<Rightarrow> (string \<times> pyval) list \<Rightarrow> span_ctx \<Rightarrow> span_ctx" where
  "end_span uid now st meta c = (case dict_get (sc_heap c) uid of None \<Rightarrow> c
     | Some s \<Rightarrow> c\<lparr>sc_heap := dict_set uid (finish_span now st meta s) (sc_heap c)\<rparr>)"

definition span_of :: "span_ctx \<Rightarrow> string \<Rightarrow> span option" where
  "span_of c uid = dict_get (sc_heap c) uid"

section \<open>Traces of span operations\<close>

datatype span_op = BeginS string string | StartS string time span_type "string option" | EndS string time span_status | DrainS

fun span_exec :: "env \<Rightarrow> span_op \<Rightarrow> span_ctx \<Rightarrow> span_ctx" where
  "span_exec E (BeginS sid cid) c = begin_session sid cid c"
| "span_exec E (StartS uid now ty parent) c = snd (start_span E uid now ty '''' parent [] c)"
| "span_exec E (EndS uid now st) c = end_span uid now st [] c"
| "span_exec E DrainS c = snd (drain_pending_spans c)"

text \<open>
  What holds in a session (\<open>s\<close>, \<open>k\<close>) between two \<open>begin_session\<close> calls: pending ids are distinct
  objects of this session and correlation; the only recorded parent is an orchestration span of it.
\<close>

definition pending_ok :: "span_ctx \<Rightarrow> string \<Rightarrow> bool" where
  "pending_ok c u \<longleftrightarrow> (\<exists>s. span_of c u = Some s \<and> sc_session c = Some (sp_session s, sp_correlation s))"

definition parent_ok :: "span_ctx \<Rightarrow> span_type \<Rightarrow> string \<Rightarrow> bool" where
  "parent_ok c ty u \<longleftrightarrow> ty = ORCHESTRATION \<and> (\<exists>s. span_of c u = Some s \<and> sp_type s = ORCHESTRATION \<and>
     sc_session c = Some (sp_session s, sp_correlation s))"

definition span_inv :: "span_ctx \<Rightarrow> bool" where
  "span_inv c \<longleftrightarrow> distinct (sc_pending c) \<and> (\<forall>u \<in> set (sc_pending c). pending_ok c u) \<and>
     (\<forall>ty u. dict_get (sc_parents c) ty = Some u \<longrightarrow> parent_ok c ty u) \<and>
     (\<forall>u s. span_of c u = Some s \<longrightarrow> sp_id s = u)"

fun fresh_op :: "span_op \<Rightarrow> span_ctx \<Rightarrow> bool" where
  "fresh_op (StartS uid now ty parent) c \<longleftrightarrow> span_of c uid = None \<and> sc_session c \<noteq> None"
| "fresh_op _ c \<longleftrightarrow> True"

inductive span_reachable :: "env \<Rightarrow> span_ctx \<Rightarrow> bool" for E where
  init: "span_reachable E empty_span_ctx"
| step: "span_reachable E c \<Longrightarrow> fresh_op opn c \<Longrightarrow> span_reachable E (span_exec E opn c)"

inductive_cases span_reachable_cases: "span_reachable E c"

lemma span_of_start:
  "span_of (snd (start_span E uid now ty rs parent meta c)) u =
     (if u = uid then Some \<lparr>sp_id = uid,
        sp_trace = (if snd (case sc_session c of None \<Rightarrow> ('''', '''') | Some x \<Rightarrow> x) = '''' then ''''
          else trace_id_from_correlation E (snd (case sc_session c of None \<Rightarrow> ('''', '''') | Some x \<Rightarrow> x))),
        sp_correlation = snd (case sc_session c of None \<Rightarrow> ('''', '''') | Some x \<Rightarrow> x),
        sp_session = fst (case sc_session c of None \<Rightarrow> ('''', '''') | Some x \<Rightarrow> x),
        sp_parent = (case parent of Some p \<Rightarrow> Some p | None \<Rightarrow> default_parent ty (sc_parents c)),
        sp_type = ty, sp_runtime_state = rs, sp_started = now, sp_completed = None,
        sp_status = SP_STARTED, sp_metadata = meta\<rparr> else span_of c u)"
  by (simp add: start_span_def span_of_def Let_def split: prod.split)

lemma start_fields:
  "sc_pending (snd (start_span E uid now ty rs parent meta c)) = sc_pending c @ [uid]"
  "sc_session (snd (start_span E uid now ty rs parent meta c)) = sc_session c"
  "sc_parents (snd (start_span E uid now ty rs parent meta c)) =
     (if ty = ORCHESTRATION then dict_set ORCHESTRATION uid (sc_parents c) else sc_parents c)"
  by (simp_all add: start_span_def Let_def split: prod.split)

lemma span_of_end:
  "span_of (end_span uid now st meta c) u =
     (if u = uid then map_option (finish_span now st meta) (span_of c u) else span_of c u)"
  by (auto simp: end_span_def span_of_def split: option.split)

lemma end_fields:
  "sc_pending (end_span uid now st meta c) = sc_pending c" "sc_session (end_span uid now st meta c) = sc_session c"
  "sc_parents (end_span uid now st meta c) = sc_parents c"
  by (simp_all add: end_span_def split: option.split)

lemma finish_fields:
  "sp_id (finish_span now st meta s) = sp_id s" "sp_session (finish_span now st meta s) = sp_session s"
  "sp_correlation (finish_span now st meta s) = sp_correlation s" "sp_type (finish_span now st meta s) = sp_type s"
  "sp_parent (finish_span now st meta s) = sp_parent s" "sp_started (finish_span now st meta s) = sp_started s"
  by (simp_all add: finish_span_def)

lemma span_inv_start:
  assumes "span_inv c" and "span_of c uid = None" and "sc_session c \<noteq> None"
  shows "span_inv (snd (start_span E uid now ty rs parent meta c))"
proof -
  let ?c = "snd (start_span E uid now ty rs parent meta c)"
  obtain sid cid where s: "sc_session c = Some (sid, cid)" using assms(3) by (cases "sc_session c") auto
  have new: "pending_ok ?c uid"
    using s by (simp add: pending_ok_def span_of_start start_fields)
  have newp: "ty = ORCHESTRATION \<Longrightarrow> parent_ok ?c ORCHESTRATION uid"
    using s by (simp add: parent_ok_def span_of_start start_fields)
  have keep: "u \<noteq> uid \<and> pending_ok ?c u" if "pending_ok c u" for u
    using that assms(2) by (auto simp: pending_ok_def span_of_start start_fields)
  have keepp: "parent_ok ?c t u" if "parent_ok c t u" for t u
    using that assms(2) by (auto simp: parent_ok_def span_of_start start_fields)
  have "distinct (sc_pending ?c)" "\<forall>u \<in> set (sc_pending ?c). pending_ok ?c u"
    using assms(1) keep new by (auto simp: span_inv_def start_fields)
  moreover have "\<forall>t u. dict_get (sc_parents ?c) t = Some u \<longrightarrow> parent_ok ?c t u"
    using assms(1) keepp newp by (auto simp: span_inv_def start_fields)
  moreover have "\<forall>u s. span_of ?c u = Some s \<longrightarrow> sp_id s = u"
    using assms(1) by (auto simp: span_inv_def span_of_start)
  ultimately show ?thesis unfolding span_inv_def by blast
qed

lemma span_inv_end: assumes "span_inv c" shows "span_inv (end_span uid now st meta c)"
proof -
  let ?c = "end_span uid now st meta c"
  have keep: "pending_ok ?c u = pending_ok c u" "parent_ok ?c t u = parent_ok c t u" for t u
    by (auto simp: pending_ok_def parent_ok_def span_of_end end_fields finish_fields)
  have "\<forall>u s. span_of ?c u = Some s \<longrightarrow> sp_id s = u"
    using assms by (auto simp: span_inv_def span_of_end finish_fields)
  then show ?thesis using assms by (simp add: span_inv_def keep end_fields)
qed

lemma span_inv_step: "span_inv c \<Longrightarrow> fresh_op opn c \<Longrightarrow> span_inv (span_exec E opn c)"
proof (cases opn)
  case (StartS uid now ty parent)
  assume "span_inv c" "fresh_op opn c"
  then show ?thesis unfolding StartS by (simp add: span_inv_start)
next
  case (EndS uid now st)
  assume "span_inv c" "fresh_op opn c"
  then show ?thesis unfolding EndS by (simp add: span_inv_end)
qed (simp_all add: span_inv_def begin_session_def drain_pending_spans_def span_of_def parent_ok_def)

lemma span_reachable_inv: "span_reachable E c \<Longrightarrow> span_inv c"
  by (induction rule: span_reachable.induct)
    (simp_all add: span_inv_step, simp add: span_inv_def empty_span_ctx_def span_of_def)

section \<open>Properties\<close>

text \<open>C33: the span tree: in every reachable context the pending spans are distinct objects of the
  current session and correlation, and a span started without an explicit parent gets as parent an orchestration span of the
  same session and correlation, or none at all (always none for orchestration and retry spans).\<close>

theorem span_parents_well_formed:
  assumes "span_reachable E c" and "sc_session c = Some (sid, cid)" and "span_of c uid = None"
  shows "distinct (sc_pending c) \<and>
    (\<forall>u \<in> set (sc_pending c). \<exists>s. span_of c u = Some s \<and> sp_id s = u \<and> sp_session s = sid \<and> sp_correlation s = cid) \<and>
    (\<exists>s. span_of (snd (start_span E uid now ty rs None meta c)) uid = Some s \<and> sp_session s = sid \<and>
      sp_correlation s = cid \<and>
      (sp_parent s = None \<or> (ty \<notin> {ORCHESTRATION, RETRY} \<and> (\<exists>p q. sp_parent s = Some p \<and> span_of c p = Some q \<and>
         sp_type q = ORCHESTRATION \<and> sp_session q = sid \<and> sp_correlation q = cid))))"
proof -
  have inv: "span_inv c" using assms(1) by (rule span_reachable_inv)
  have par: "parent_ok c t u" if "dict_get (sc_parents c) t = Some u" for t u
    using inv that by (simp add: span_inv_def)
  have pend: "distinct (sc_pending c)"
    "\<forall>u \<in> set (sc_pending c). \<exists>s. span_of c u = Some s \<and> sp_id s = u \<and> sp_session s = sid \<and> sp_correlation s = cid"
    using inv assms(2) by (auto simp: span_inv_def pending_ok_def)
  have "default_parent ty (sc_parents c) = None \<or> (ty \<notin> {ORCHESTRATION, RETRY} \<and>
      (\<exists>p q. default_parent ty (sc_parents c) = Some p \<and> span_of c p = Some q \<and>
         sp_type q = ORCHESTRATION \<and> sp_session q = sid \<and> sp_correlation q = cid))"
    using par [of AGENT_REASONING] par [of ORCHESTRATION] assms(2)
    by (cases "dict_get (sc_parents c) ORCHESTRATION"; cases "dict_get (sc_parents c) AGENT_REASONING")
      (auto simp: default_parent_def parent_ok_def)
  then show ?thesis using pend assms(2) by (simp add: span_of_start)
qed

definition demo_spans :: span_ctx where
  "demo_spans = span_exec \<lparr>digest = (\<lambda>_. ''d''), sha256 = (\<lambda>_. ''s'')\<rparr> (StartS ''o'' 1 ORCHESTRATION None)
     (span_exec \<lparr>digest = (\<lambda>_. ''d''), sha256 = (\<lambda>_. ''s'')\<rparr> (BeginS ''sess'' ''corr'') empty_span_ctx)"

theorem span_parents_well_formed_witness:
  "sc_pending demo_spans = [''o''] \<and> (\<exists>s. span_of demo_spans ''o'' = Some s \<and> sp_session s = ''sess'')"
proof -
  let ?E = "\<lparr>digest = (\<lambda>_. ''d''), sha256 = (\<lambda>_. ''s'')\<rparr>"
  have s: "sc_session demo_spans = Some (''sess'', ''corr'')" "span_of demo_spans ''x'' = None"
    "sc_pending demo_spans = [''o'']" by code_simp+
  have "span_reachable ?E demo_spans"
    unfolding demo_spans_def
    by (intro span_reachable.step span_reachable.init) (simp_all add: begin_session_def empty_span_ctx_def span_of_def)
  from span_parents_well_formed [OF this s(1,2), of 0 TRANSITION "''''" "[]"] show ?thesis using s(3) by auto
qed

end
