(* ===== verification/Policy.thy ===== *)
theory Policy
  imports Schemas
begin

text \<open>
  \<open>core/policy.py\<close> and \<open>core/adaptive_context.py\<close>: crisis detection, the effective approval
  level, and the decision on a proposal.  The engine's state is the active crisis and the
  approval bias that the adaptive layer sets per session.
\<close>

section \<open>core/adaptive_context.py\<close>

type_synonym bias_table = "(string, rat) dict"

definition set_session_approval_bias :: "string \<Rightarrow> rat \<Rightarrow> bias_table \<Rightarrow> bias_table" where
  "set_session_approval_bias sid bias t = dict_set sid (max 0 bias) t"

definition get_session_approval_bias :: "string \<Rightarrow> bias_table \<Rightarrow> rat" where
  "get_session_approval_bias sid t = (if sid = '''' then 0 else dict_getd t sid 0)"

definition clear_session_approval_bias :: "string \<Rightarrow> bias_table \<Rightarrow> bias_table" where
  "clear_session_approval_bias sid t = dict_pop sid t"

section \<open>core/policy.py\<close>

datatype policy_decision = ALLOW | DENY | ESCALATE

fun SIDE_EFFECT_LEVELS :: "side_effect_level \<Rightarrow> int" where
  "SIDE_EFFECT_LEVELS READ = 0"
| "SIDE_EFFECT_LEVELS PLAN = 1"
| "SIDE_EFFECT_LEVELS EXECUTE_SAFE = 2"
| "SIDE_EFFECT_LEVELS EXECUTE_CRITICAL = 3"

definition detect_crisis :: "world_state \<Rightarrow> crisis_type option" where
  "detect_crisis ws =
     (if \<exists>i \<in> set (ws_incidents ws). in_severity i = SevCritical \<and> in_status i \<noteq> Resolved
      then Some INFRASTRUCTURE
      else if co_runway_months (ws_company ws) < 3 then Some FINANCIAL
      else None)"

definition activate_crisis_if_needed :: "world_state \<Rightarrow> crisis_type option \<Rightarrow> crisis_type option" where
  "activate_crisis_if_needed ws active = detect_crisis ws"

definition effective_approval_level :: "crisis_type option \<Rightarrow> int \<Rightarrow> rat \<Rightarrow> int" where
  "effective_approval_level active base adaptive_bias =
     (let bias = max 0 adaptive_bias in
      case active of
        None \<Rightarrow> base + trunc bias
      | Some c \<Rightarrow>
          let ov = CRISIS_OVERRIDES c; adjusted = base + cr_approval_delta ov + trunc bias in
          max 0 (min (cr_max_bypass ov) adjusted))"

definition evaluate :: "crisis_type option \<Rightarrow> bias_table \<Rightarrow> action_proposal \<Rightarrow> string option \<Rightarrow> rat \<Rightarrow> policy_decision" where
  "evaluate active biases ap session_id extra =
     (let level = SIDE_EFFECT_LEVELS (ap_level ap);
          sid = str_or session_id (ap_task_id ap);
          bias = fadd (get_session_approval_bias sid biases) (max 0 extra);
          effective = effective_approval_level active level bias
      in if effective \<le> 1 then ALLOW else if effective \<ge> 2 then ESCALATE else DENY)"

section \<open>Lemmas\<close>

lemma effective_mono:
  assumes "base \<le> base'" and "b \<le> b'"
  shows "effective_approval_level active base b \<le> effective_approval_level active base' b'"
proof -
  have "trunc (max 0 b) \<le> trunc (max 0 b')" using assms(2) by (intro trunc_mono) auto
  then show ?thesis
    using assms(1) by (auto simp: effective_approval_level_def Let_def split: option.splits)
qed

lemma effective_compliance: "effective_approval_level (Some COMPLIANCE) base b \<le> 1"
  by (simp add: effective_approval_level_def Let_def)

lemma effective_crisis_cap: "effective_approval_level (Some c) base b \<le> 2"
  by (cases c) (simp_all add: effective_approval_level_def Let_def)

definition nonneg_biases :: "bias_table \<Rightarrow> bool" where
  "nonneg_biases t \<longleftrightarrow> (\<forall>p \<in> set t. 0 \<le> snd p)"

lemma set_bias_nonneg: "nonneg_biases t \<Longrightarrow> nonneg_biases (set_session_approval_bias sid b t)"
  by (auto simp: nonneg_biases_def set_session_approval_bias_def dest!: dict_set_in)

lemma clear_bias_nonneg: "nonneg_biases t \<Longrightarrow> nonneg_biases (clear_session_approval_bias sid t)"
  using dict_pop_subset [of sid t] by (auto simp: nonneg_biases_def clear_session_approval_bias_def)

lemma get_bias_nonneg: "nonneg_biases t \<Longrightarrow> 0 \<le> get_session_approval_bias sid t"
  by (auto simp: nonneg_biases_def get_session_approval_bias_def dict_getd_def
      dest!: dict_get_SomeD split: option.splits)

text \<open>Outside a crisis, level-2 actions always escalate.\<close>

lemma evaluate_escalates:
  assumes "nonneg_biases t" and "2 \<le> SIDE_EFFECT_LEVELS (ap_level ap)"
  shows "evaluate None t ap sid extra = ESCALATE"
proof -
  have "0 \<le> fadd (get_session_approval_bias (str_or sid (ap_task_id ap)) t) (max 0 extra)"
    using get_bias_nonneg [OF assms(1)] unfolding fadd_def by (intro b64.rnd_nonneg) simp
  then have "0 \<le> trunc (max 0 (fadd (get_session_approval_bias (str_or sid (ap_task_id ap)) t) (max 0 extra)))"
    by (intro trunc_nonneg) simp
  then show ?thesis using assms(2) by (simp add: evaluate_def effective_approval_level_def Let_def)
qed

section \<open>Properties\<close>

text \<open>the engine never denies: its decision is \<open>ALLOW\<close> or \<open>ESCALATE\<close> by whether the
  effective level is at most 1, for every crisis, bias and proposal, so that the denial branches
  of its callers are dead.\<close>

theorem evaluate_never_denies:
  "evaluate active biases ap sid extra \<noteq> DENY \<and>
   (evaluate active biases ap sid extra = ESCALATE \<longleftrightarrow>
     \<not> effective_approval_level active (SIDE_EFFECT_LEVELS (ap_level ap))
        (fadd (get_session_approval_bias
           (str_or sid (ap_task_id ap)) biases) (max 0 extra)) \<le> 1)"
  by (auto simp: evaluate_def Let_def)

text \<open>adaptive bias only escalates: raising a session's bias or the extra bias never turns an
  escalation into an allowance.\<close>

theorem evaluate_bias_monotone:
  assumes "get_session_approval_bias (str_or sid (ap_task_id ap)) t
        \<le> get_session_approval_bias (str_or sid (ap_task_id ap)) t'"
    and "extra \<le> extra'"
    and "evaluate active t ap sid extra = ESCALATE"
  shows "evaluate active t' ap sid extra' = ESCALATE"
proof -
  let ?s = "str_or sid (ap_task_id ap)"
  let ?b = "fadd (get_session_approval_bias ?s t) (max 0 extra)"
  let ?b' = "fadd (get_session_approval_bias ?s t') (max 0 extra')"
  have "?b \<le> ?b'" using assms(1,2) by (intro fadd_mono) auto
  then have "effective_approval_level active (SIDE_EFFECT_LEVELS (ap_level ap)) ?b
      \<le> effective_approval_level active (SIDE_EFFECT_LEVELS (ap_level ap)) ?b'"
    by (rule effective_mono [OF order_refl])
  then show ?thesis using assms(3) by (auto simp: evaluate_def Let_def split: if_splits)
qed

definition demo_proposal :: action_proposal where
  "demo_proposal = \<lparr>ap_task_id = ''t'', ap_agent = ''ceo'', ap_action = ''deploy'',
     ap_level = EXECUTE_SAFE, ap_impact = ''x''\<rparr>"

theorem evaluate_bias_monotone_witness:
  "evaluate None [] demo_proposal (Some ''s'') 0 = ESCALATE \<and>
   evaluate None [(''s'', 1)] demo_proposal (Some ''s'') (1/2) = ESCALATE"
proof -
  have e: "evaluate None [] demo_proposal (Some ''s'') 0 = ESCALATE" by code_simp
  have b: "get_session_approval_bias ''s'' [] \<le> get_session_approval_bias ''s'' [(''s'', 1)]" by code_simp
  show ?thesis
    using e evaluate_bias_monotone [where sid = "Some ''s''" and t = "[]" and t' = "[(''s'', 1)]"
        and extra = "0" and extra' = "1/2" and active = "None" and ap = demo_proposal] b by (simp add: str_or_def)
qed

text \<open>what the crises do to the decision: outside a crisis an action of side-effect level 2 or
  more always escalates; a compliance crisis, whose override is meant to raise the approval level, caps it at 1
  and so allows every action, critical ones included, under any bias; an infrastructure crisis without
  bias lets level-2 actions through and still escalates critical ones.\<close>

theorem crisis_decisions:
  assumes "nonneg_biases t"
  shows "(2 \<le> SIDE_EFFECT_LEVELS (ap_level ap) \<longrightarrow> evaluate None t ap sid extra = ESCALATE) \<and>
    evaluate (Some COMPLIANCE) t ap sid extra = ALLOW \<and>
    evaluate (Some INFRASTRUCTURE) [] (ap\<lparr>ap_level := EXECUTE_SAFE\<rparr>) sid 0 = ALLOW \<and>
    evaluate (Some INFRASTRUCTURE) t (ap\<lparr>ap_level := EXECUTE_CRITICAL\<rparr>) sid extra = ESCALATE"
proof -
  let ?b = "fadd (get_session_approval_bias
      (str_or sid (ap_task_id ap)) t) (max 0 extra)"
  have b: "0 \<le> ?b"
    using get_bias_nonneg [OF assms] by (simp add: fadd_def b64.rnd_nonneg)
  then have tb: "0 \<le> trunc ?b" by (rule trunc_nonneg)
  then have "effective_approval_level (Some INFRASTRUCTURE) 3 ?b = 2"
    using b by (simp add: effective_approval_level_def Let_def)
  moreover have "get_session_approval_bias s [] = 0" for s
    by (simp add: get_session_approval_bias_def dict_getd_def)
  moreover have "effective_approval_level (Some INFRASTRUCTURE) 2 0 = 1"
    by (simp add: effective_approval_level_def Let_def trunc_def)
  ultimately show ?thesis
    using tb b effective_compliance
    by (auto simp: evaluate_def Let_def effective_approval_level_def [of None] fadd_def [of 0 0])
qed

theorem crisis_decisions_witness:
  "evaluate (Some COMPLIANCE) [] (demo_proposal\<lparr>ap_level := EXECUTE_CRITICAL\<rparr>) None 2 = ALLOW \<and>
   evaluate None [] (demo_proposal\<lparr>ap_level := EXECUTE_CRITICAL\<rparr>) None 2 = ESCALATE"
proof -
  have n: "nonneg_biases []" by (simp add: nonneg_biases_def)
  show ?thesis
    using crisis_decisions [OF n, of "demo_proposal\<lparr>ap_level := EXECUTE_CRITICAL\<rparr>" None 2] by simp
qed

text \<open>crisis detection: an unresolved critical incident is an infrastructure crisis whatever the finances,
  otherwise a runway below three months is a financial one; no other crisis is ever detected,
  and activation overwrites whatever was active.\<close>

theorem detect_crisis_spec:
  "activate_crisis_if_needed ws old =
     (if \<exists>i \<in> set (ws_incidents ws). in_severity i = SevCritical \<and> in_status i \<in> {Open, Investigating}
      then Some INFRASTRUCTURE
      else if co_runway_months (ws_company ws) \<ge> 3 then None else Some FINANCIAL)"
proof -
  have "st \<noteq> Resolved \<longleftrightarrow> st \<in> {Open, Investigating}" for st by (cases st) simp_all
  then show ?thesis by (auto simp: activate_crisis_if_needed_def detect_crisis_def)
qed

end
