(* ===== verification/Stores.thy ===== *)
theory Stores
  imports Spans Policy
begin

text \<open>
  The in-memory stores that back the runtime: \<open>core/intelligence_store.py\<close>,
  \<open>core/replay_store.py\<close>, the memory half of \<open>core/governance_store.py\<close> and the tables of
  \<open>core/persistence.py\<close>.  Each module's globals are one record.
\<close>

section \<open>core/intelligence_store.py\<close>

record priority_row =
  pw_session :: string
  pw_correlation :: string
  pw_scores :: "priority_score list"

text \<open>Spans are stored as ids: the store and the pending list share the objects (\<open>sc_heap\<close>).\<close>

record intel_store =
  is_spans :: "string list"
  is_telemetry :: "telemetry list"
  is_health :: "runtime_health list"
  is_lineage :: "lineage list"
  is_anomalies :: "anomaly list"
  is_diagnostics :: "(string, diagnostics) dict"
  is_retries :: "retry_trace list"
  is_policies :: "policy_snapshot list"
  is_profiles :: "(string, tool_profile) dict"
  is_priorities :: "priority_row list"
  is_stability :: "stability_event list"
  is_governance :: "governance_event list"

definition reset_intelligence_store :: intel_store where
  "reset_intelligence_store = \<lparr>is_spans = [], is_telemetry = [], is_health = [], is_lineage = [],
     is_anomalies = [], is_diagnostics = [], is_retries = [], is_policies = [], is_profiles = [],
     is_priorities = [], is_stability = [], is_governance = []\<rparr>"

definition append_spans :: "string list \<Rightarrow> intel_store \<Rightarrow> intel_store" where
  "append_spans uids i = i\<lparr>is_spans := fold (\<lambda>u us. if u \<in> set us then us else us @ [u]) uids (is_spans i)\<rparr>"

definition append_telemetry :: "telemetry list \<Rightarrow> intel_store \<Rightarrow> intel_store" where
  "append_telemetry rows i = i\<lparr>is_telemetry := is_telemetry i @ rows\<rparr>"

definition append_health :: "runtime_health \<Rightarrow> intel_store \<Rightarrow> intel_store" where
  "append_health h i = i\<lparr>is_health := is_health i @ [h]\<rparr>"

definition replace_health :: "runtime_health \<Rightarrow> intel_store \<Rightarrow> intel_store" where
  "replace_health h i = i\<lparr>is_health := filter (\<lambda>x. \<not> (rh_session x = rh_session h \<and>
     rh_correlation x = rh_correlation h)) (is_health i) @ [h]\<rparr>"

definition append_lineage :: "lineage list \<Rightarrow> intel_store \<Rightarrow> intel_store" where
  "append_lineage rows i = i\<lparr>is_lineage := is_lineage i @ rows\<rparr>"

definition append_anomalies :: "anomaly list \<Rightarrow> intel_store \<Rightarrow> intel_store" where
  "append_anomalies rows i = i\<lparr>is_anomalies := is_anomalies i @ rows\<rparr>"

definition save_session_diagnostics :: "diagnostics \<Rightarrow> intel_store \<Rightarrow> intel_store" where
  "save_session_diagnostics d i = i\<lparr>is_diagnostics := dict_set (dg_session d) d (is_diagnostics i)\<rparr>"

definition append_retry_trace :: "retry_trace \<Rightarrow> intel_store \<Rightarrow> intel_store" where
  "append_retry_trace t i = i\<lparr>is_retries := is_retries i @ [t]\<rparr>"

text \<open>\<open>if correlation_id:\<close> is false for the empty string too.\<close>

definition by_correlation :: "('a \<Rightarrow> string) \<Rightarrow> string option \<Rightarrow> 'a list \<Rightarrow> 'a list" where
  "by_correlation f cid rows = (case cid of None \<Rightarrow> rows
     | Some c \<Rightarrow> if c = '''' then rows else filter (\<lambda>r. f r = c) rows)"

definition get_spans :: "span_ctx \<Rightarrow> intel_store \<Rightarrow> string \<Rightarrow> string option \<Rightarrow> span list" where
  "get_spans c i sid cid = sort_key sp_started (by_correlation sp_correlation cid
     (filter (\<lambda>s. sp_session s = sid) (List.map_filter (span_of c) (is_spans i))))"

definition get_telemetry :: "intel_store \<Rightarrow> string \<Rightarrow> string option \<Rightarrow> telemetry list" where
  "get_telemetry i sid cid = sort_key te_created (by_correlation te_correlation cid
     (filter (\<lambda>t. te_session t = sid) (is_telemetry i)))"

definition get_health_snapshots :: "intel_store \<Rightarrow> string \<Rightarrow> runtime_health list" where
  "get_health_snapshots i sid = sort_key rh_generated (filter (\<lambda>h. rh_session h = sid) (is_health i))"

definition get_lineage :: "intel_store \<Rightarrow> string \<Rightarrow> lineage list" where
  "get_lineage i sid = filter (\<lambda>p. li_session p = sid) (is_lineage i)"

definition get_anomalies :: "intel_store \<Rightarrow> string \<Rightarrow> anomaly list" where
  "get_anomalies i sid = sort_key an_detected (filter (\<lambda>a. an_session a = sid) (is_anomalies i))"

definition get_session_diagnostics :: "intel_store \<Rightarrow> string \<Rightarrow> diagnostics option" where
  "get_session_diagnostics i sid = dict_get (is_diagnostics i) sid"

definition list_all_session_diagnostics :: "intel_store \<Rightarrow> diagnostics list" where
  "list_all_session_diagnostics i = dict_values (is_diagnostics i)"

definition append_adaptive_policy :: "policy_snapshot \<Rightarrow> intel_store \<Rightarrow> intel_store" where
  "append_adaptive_policy p i = i\<lparr>is_policies := is_policies i @ [p]\<rparr>"

definition get_adaptive_policies :: "intel_store \<Rightarrow> string \<Rightarrow> policy_snapshot list" where
  "get_adaptive_policies i sid = filter (\<lambda>p. ps_session p = sid) (is_policies i)"

definition upsert_tool_profile :: "tool_profile \<Rightarrow> intel_store \<Rightarrow> intel_store" where
  "upsert_tool_profile p i = i\<lparr>is_profiles := dict_set (tp_name p) p (is_profiles i)\<rparr>"

definition get_tool_profiles :: "intel_store \<Rightarrow> tool_profile list" where
  "get_tool_profiles i = sort_key tp_name (dict_values (is_profiles i))"

definition get_tool_profile :: "intel_store \<Rightarrow> string \<Rightarrow> tool_profile option" where
  "get_tool_profile i name = dict_get (is_profiles i) name"

definition append_context_priority_snapshot :: "string \<Rightarrow> string \<Rightarrow> priority_score list \<Rightarrow> intel_store \<Rightarrow> intel_store" where
  "append_context_priority_snapshot sid cid scores i = i\<lparr>is_priorities := is_priorities i @
     [\<lparr>pw_session = sid, pw_correlation = cid, pw_scores = scores\<rparr>]\<rparr>"

definition get_context_priority_snapshots :: "intel_store \<Rightarrow> string \<Rightarrow> priority_row list" where
  "get_context_priority_snapshots i sid = filter (\<lambda>r. pw_session r = sid) (is_priorities i)"

definition append_stability_events :: "stability_event list \<Rightarrow> intel_store \<Rightarrow> intel_store" where
  "append_stability_events evs i = i\<lparr>is_stability := is_stability i @ evs\<rparr>"

definition get_stability_events :: "intel_store \<Rightarrow> string \<Rightarrow> stability_event list" where
  "get_stability_events i sid = filter (\<lambda>e. sv_session e = sid) (is_stability i)"

definition append_governance_events :: "governance_event list \<Rightarrow> intel_store \<Rightarrow> intel_store" where
  "append_governance_events evs i = i\<lparr>is_governance := is_governance i @ evs\<rparr>"

definition get_governance_events :: "intel_store \<Rightarrow> string \<Rightarrow> governance_event list" where
  "get_governance_events i sid = filter (\<lambda>e. gv_session e = sid) (is_governance i)"

section \<open>core/replay_store.py\<close>

record replay_store =
  rs_snaps :: "(string, pyval list) dict"
  rs_fingerprints :: "(string, string) dict"
  rs_records :: "(string, baseline_meta) dict"

definition reset_replay_store :: replay_store where
  "reset_replay_store = \<lparr>rs_snaps = [], rs_fingerprints = [], rs_records = []\<rparr>"

definition save_baseline_record_memory :: "string \<Rightarrow> string \<Rightarrow> string \<Rightarrow> string \<Rightarrow> replay_store \<Rightarrow> replay_store" where
  "save_baseline_record_memory sid cid fp version r =
     r\<lparr>rs_fingerprints := dict_set sid fp (rs_fingerprints r),
       rs_records := dict_set sid \<lparr>bm_correlation = cid, bm_fingerprint = fp, bm_version = version\<rparr> (rs_records r)\<rparr>"

definition save_baseline_fingerprint_memory :: "string \<Rightarrow> string \<Rightarrow> string \<Rightarrow> replay_store \<Rightarrow> replay_store" where
  "save_baseline_fingerprint_memory sid cid fp = save_baseline_record_memory sid cid fp ''rrm15-legacy''"

definition get_baseline_fingerprint_memory :: "replay_store \<Rightarrow> string \<Rightarrow> string option" where
  "get_baseline_fingerprint_memory r sid = dict_get (rs_fingerprints r) sid"

definition get_baseline_record_memory :: "replay_store \<Rightarrow> string \<Rightarrow> baseline_meta option" where
  "get_baseline_record_memory r sid = dict_get (rs_records r) sid"

text \<open>The list of a session is padded with empty dictionaries up to the step, then the step is assigned.\<close>

definition pad_to :: "nat \<Rightarrow> pyval list \<Rightarrow> pyval list" where
  "pad_to step xs = xs @ replicate (step + 1 - length xs) (PDict [])"

definition save_replay_snapshot_memory :: "string \<Rightarrow> nat \<Rightarrow> pyval \<Rightarrow> replay_store \<Rightarrow> replay_store" where
  "save_replay_snapshot_memory sid step data r =
     r\<lparr>rs_snaps := dict_set sid ((pad_to step (dict_getd (rs_snaps r) sid []))[step := data]) (rs_snaps r)\<rparr>"

definition get_replay_snapshots_memory :: "replay_store \<Rightarrow> string \<Rightarrow> pyval list" where
  "get_replay_snapshots_memory r sid = dict_getd (rs_snaps r) sid []"

section \<open>core/governance_store.py\<close>

record audit_event =
  ae_id :: string
  ae_type :: string
  ae_actor :: string
  ae_correlation :: string
  ae_payload_hash :: string
  ae_created :: time

record gov_store =
  go_approvals :: "(string, approval) dict"
  go_audit :: "audit_event list"

definition reset_governance_memory :: gov_store where
  "reset_governance_memory = \<lparr>go_approvals = [], go_audit = []\<rparr>"

definition append_audit_event :: "env \<Rightarrow> string \<Rightarrow> time \<Rightarrow> string \<Rightarrow> string \<Rightarrow> string \<Rightarrow> pyval \<Rightarrow> gov_store \<Rightarrow> gov_store" where
  "append_audit_event E uid now ty actor cid payload g =
     g\<lparr>go_audit := go_audit g @ [\<lparr>ae_id = uid, ae_type = ty, ae_actor = actor, ae_correlation = cid,
        ae_payload_hash = stable_hash E payload, ae_created = now\<rparr>]\<rparr>"

definition save_approval :: "approval \<Rightarrow> gov_store \<Rightarrow> gov_store" where
  "save_approval a g = g\<lparr>go_approvals := dict_set (av_id a) a (go_approvals g)\<rparr>"

definition load_approval :: "gov_store \<Rightarrow> string \<Rightarrow> approval option" where
  "load_approval g aid = dict_get (go_approvals g) aid"

definition update_approval_status ::
  "time \<Rightarrow> string \<Rightarrow> approval_status \<Rightarrow> string option \<Rightarrow> gov_store \<Rightarrow> approval option \<times> gov_store" where
  "update_approval_status now aid status approved_by g = (case load_approval g aid of None \<Rightarrow> (None, g)
     | Some a \<Rightarrow>
        (let a1 = a\<lparr>av_status := status\<rparr>;
             a2 = (if str_or approved_by '''' \<noteq> ''''
               then a1\<lparr>av_approved_by := approved_by, av_approved_at := Some now\<rparr> else a1)
         in (Some a2, save_approval a2 g)))"

definition list_approvals_by_correlation :: "gov_store \<Rightarrow> string \<Rightarrow> approval list" where
  "list_approvals_by_correlation g cid = filter (\<lambda>a. av_correlation a = cid) (dict_values (go_approvals g))"

definition list_pending_approvals :: "gov_store \<Rightarrow> approval list" where
  "list_pending_approvals g = filter (\<lambda>a. av_status a = APPENDING) (dict_values (go_approvals g))"

section \<open>core/persistence.py: tables and queries\<close>

record db =
  db_outbox :: "outbox_event list"
  db_decisions :: "decision_record list"
  db_effects :: "side_effect list"
  db_snapshots :: "world_snapshot list"
  db_transitions :: "persisted_transition list"
  db_processed :: "string list"
  db_world :: world_state

definition reset_db :: "time \<Rightarrow> db" where
  "reset_db now = \<lparr>db_outbox = [], db_decisions = [], db_effects = [], db_snapshots = [],
     db_transitions = [], db_processed = [], db_world = default_world_state now\<rparr>"

definition snapshot_from_state :: "(world_state \<Rightarrow> string) \<Rightarrow> time \<Rightarrow> world_state \<Rightarrow> string list \<Rightarrow> world_snapshot" where
  "snapshot_from_state checksum now ws changed = \<lparr>sn_version = ws_version ws, sn_timestamp = now,
     sn_changed = changed, sn_checksum = checksum ws, sn_state = ws\<rparr>"

definition update_world_state :: "(world_state \<Rightarrow> string) \<Rightarrow> time \<Rightarrow> world_state \<Rightarrow> string list \<Rightarrow> db \<Rightarrow> world_snapshot \<times> db" where
  "update_world_state checksum now ws changed d =
     (let ws' = ws\<lparr>ws_version := ws_version (db_world d) + 1\<rparr>;
          snap = snapshot_from_state checksum now ws' changed
      in (snap, d\<lparr>db_world := ws', db_snapshots := db_snapshots d @ [snap]\<rparr>))"

definition save_decision :: "decision_record \<Rightarrow> db \<Rightarrow> db" where
  "save_decision r d = d\<lparr>db_decisions := db_decisions d @ [r]\<rparr>"

definition save_side_effect :: "side_effect \<Rightarrow> db \<Rightarrow> db" where
  "save_side_effect r d = d\<lparr>db_effects := db_effects d @ [r]\<rparr>"

definition fetch_unprocessed_events :: "int \<Rightarrow> db \<Rightarrow> outbox_event list" where
  "fetch_unprocessed_events limit d = py_take limit (filter (\<lambda>e. \<not> ev_processed e) (db_outbox d))"

text \<open>Sets the flag of the first event with the key.\<close>

fun mark_first :: "string \<Rightarrow> outbox_event list \<Rightarrow> bool \<times> outbox_event list" where
  "mark_first key [] = (False, [])"
| "mark_first key (e # es) = (if ev_key e = key then (True, e\<lparr>ev_processed := True\<rparr> # es)
     else (case mark_first key es of (b, es') \<Rightarrow> (b, e # es')))"

definition mark_event_processed :: "string \<Rightarrow> db \<Rightarrow> bool \<times> db" where
  "mark_event_processed key d =
     (if key \<in> set (db_processed d) then (False, d)
      else case mark_first key (db_outbox d) of (b, es) \<Rightarrow>
        (b, d\<lparr>db_processed := db_processed d @ [key], db_outbox := es\<rparr>))"

definition get_events_by_correlation :: "db \<Rightarrow> string \<Rightarrow> outbox_event list" where
  "get_events_by_correlation d cid = sort_key ev_created (filter (\<lambda>e. ev_correlation e = cid) (db_outbox d))"

definition get_decisions_by_correlation :: "db \<Rightarrow> string \<Rightarrow> decision_record list" where
  "get_decisions_by_correlation d cid = filter (\<lambda>r. dr_correlation r = cid) (db_decisions d)"

definition get_effects_by_correlation :: "db \<Rightarrow> string \<Rightarrow> side_effect list" where
  "get_effects_by_correlation d cid = filter (\<lambda>r. se_correlation r = cid) (db_effects d)"

definition get_runtime_transitions :: "db \<Rightarrow> string \<Rightarrow> persisted_transition list" where
  "get_runtime_transitions d sid = filter (\<lambda>t. pt_session t = sid) (db_transitions d)"

definition get_memory_outbox_by_idempotency :: "db \<Rightarrow> string \<Rightarrow> outbox_event option" where
  "get_memory_outbox_by_idempotency d key = List.find (\<lambda>e. ev_key e = key) (rev (db_outbox d))"

definition query_adaptive_policy :: "intel_store \<Rightarrow> string \<Rightarrow> policy_snapshot option" where
  "query_adaptive_policy i sid = last_opt (get_adaptive_policies i sid)"

definition query_context_intelligence :: "intel_store \<Rightarrow> string \<Rightarrow> priority_row list \<times> rat" where
  "query_context_intelligence i sid = (get_context_priority_snapshots i sid,
     (case query_adaptive_policy i sid of None \<Rightarrow> 1 | Some p \<Rightarrow> po_context_ratio (ps_policy p)))"

section \<open>Lemmas\<close>

lemma find_rev_None: "List.find P (rev xs) = None \<longleftrightarrow> (\<forall>x \<in> set xs. \<not> P x)"
  by (auto simp: find_None_iff)

lemma outbox_lookup_None: "get_memory_outbox_by_idempotency d k = None \<longleftrightarrow> k \<notin> ev_key ` set (db_outbox d)"
  by (auto simp: get_memory_outbox_by_idempotency_def find_rev_None)

lemma find_SomeD: "List.find P xs = Some x \<Longrightarrow> x \<in> set xs \<and> P x"
  by (auto simp: find_Some_iff)

lemma outbox_lookup_Some: "get_memory_outbox_by_idempotency d k = Some e \<Longrightarrow> e \<in> set (db_outbox d) \<and> ev_key e = k"
  by (auto simp: get_memory_outbox_by_idempotency_def dest!: find_SomeD)

lemma length_pad_to: "length (pad_to n xs) = max (n + 1) (length xs)"
  by (simp add: pad_to_def)

lemma nth_pad_to: "n < length xs \<Longrightarrow> pad_to m xs ! n = xs ! n"
  by (simp add: pad_to_def nth_append)

lemma get_save_snapshot:
  "get_replay_snapshots_memory (save_replay_snapshot_memory sid step data r) sid' =
     (if sid = sid' then (pad_to step (get_replay_snapshots_memory r sid))[step := data]
      else get_replay_snapshots_memory r sid')"
  by (simp add: get_replay_snapshots_memory_def save_replay_snapshot_memory_def dict_getd_def)

lemma append_spans_set: "set (is_spans (append_spans us i)) = set (is_spans i) \<union> set us"
proof -
  have "set (fold (\<lambda>u us. if u \<in> set us then us else us @ [u]) us xs) = set xs \<union> set us" for xs :: "string list"
    by (induction us arbitrary: xs) auto
  then show ?thesis by (simp add: append_spans_def)
qed

lemma append_spans_distinct: "distinct (is_spans i) \<Longrightarrow> distinct (is_spans (append_spans us i))"
proof -
  have "distinct xs \<Longrightarrow> distinct (fold (\<lambda>u us. if u \<in> set us then us else us @ [u]) us xs)" for xs :: "string list"
    by (induction us arbitrary: xs) auto
  then show "distinct (is_spans i) \<Longrightarrow> ?thesis" by (simp add: append_spans_def)
qed

lemma mark_first_spec:
  "mark_first k es = (b, es') \<Longrightarrow>
     (b \<longleftrightarrow> k \<in> ev_key ` set es) \<and> map ev_key es' = map ev_key es \<and> length es' = length es"
  by (induction es arbitrary: b es') (auto split: if_splits prod.splits)

lemma update_approval_load:
  "update_approval_status now aid st by g = (r, g') \<Longrightarrow>
     load_approval g' a = (if a = aid \<and> load_approval g aid \<noteq> None then r else load_approval g a) \<and>
     go_audit g' = go_audit g"
  if "\<forall>x. load_approval g aid = Some x \<longrightarrow> av_id x = aid"
  using that by (auto simp: update_approval_status_def load_approval_def save_approval_def Let_def
      split: option.splits if_splits)

section \<open>Properties\<close>

text \<open>replay snapshots are addressed by session and step: after a save the list of the session
  is long enough to hold the step, reads the saved data there, keeps every other step and every
  other session, and pads with empty snapshots; a second save to one step replaces the first.\<close>

theorem replay_snapshot_store:
  assumes "r' = save_replay_snapshot_memory sid step data r"
  shows "get_replay_snapshots_memory r' sid ! step = data \<and>
    length (get_replay_snapshots_memory r' sid) = max (step + 1) (length (get_replay_snapshots_memory r sid)) \<and>
    (\<forall>n < length (get_replay_snapshots_memory r sid). n \<noteq> step \<longrightarrow>
      get_replay_snapshots_memory r' sid ! n = get_replay_snapshots_memory r sid ! n) \<and>
    (\<forall>n < step. length (get_replay_snapshots_memory r sid) \<le> n \<longrightarrow> get_replay_snapshots_memory r' sid ! n = PDict []) \<and>
    (\<forall>sid'. sid' \<noteq> sid \<longrightarrow> get_replay_snapshots_memory r' sid' = get_replay_snapshots_memory r sid') \<and>
    save_replay_snapshot_memory sid step data' r' = save_replay_snapshot_memory sid step data' r"
proof -
  let ?xs = "get_replay_snapshots_memory r sid"
  have len: "step < length (pad_to step ?xs)" by (simp add: length_pad_to)
  have mid: "pad_to step ?xs ! n = PDict []" if "n < step" "length ?xs \<le> n" for n
    using that by (simp add: pad_to_def nth_append)
  have set2: "dict_set k v (dict_set k w d) = dict_set k v d" for k :: string and v w :: "pyval list" and d
    by (induction d) auto
  have twice: "save_replay_snapshot_memory sid step data' r' = save_replay_snapshot_memory sid step data' r"
    by (simp add: assms save_replay_snapshot_memory_def dict_getd_def pad_to_def set2)
  show ?thesis
    using len mid twice by (simp add: assms get_save_snapshot length_pad_to nth_pad_to)
qed

theorem replay_snapshot_store_witness:
  "get_replay_snapshots_memory (save_replay_snapshot_memory ''s'' 2 (PInt 5) reset_replay_store) ''s'' ! 2 = PInt 5"
  using replay_snapshot_store [OF refl, of "''s''" 2 "PInt 5" reset_replay_store PNone] by simp

text \<open>marking an event: a key is marked at most once, a second call returns \<open>False\<close> and changes nothing, the
  answer is \<open>True\<close> exactly for a key of the outbox seen for the first time, and no key is
  added to or lost from the outbox.\<close>

theorem mark_event_once:
  assumes "mark_event_processed key d = (b, d')"
  shows "(b \<longleftrightarrow> key \<notin> set (db_processed d) \<and> key \<in> ev_key ` set (db_outbox d)) \<and>
    key \<in> set (db_processed d') \<and> mark_event_processed key d' = (False, d') \<and>
    map ev_key (db_outbox d') = map ev_key (db_outbox d)"
  using assms
  by (auto simp: mark_event_processed_def split: if_splits prod.splits dest!: mark_first_spec)

definition demo_event :: outbox_event where
  "demo_event = \<lparr>ev_id = ''1'', ev_key = ''k'', ev_correlation = ''c'', ev_causation = None, ev_type = ''t'',
     ev_payload = PDict [], ev_world_version = 1, ev_processed = False, ev_created = 0\<rparr>"

theorem mark_event_once_witness:
  "fst (mark_event_processed ''k'' ((reset_db 0)\<lparr>db_outbox := [demo_event]\<rparr>)) \<and>
   \<not> fst (mark_event_processed ''zz'' ((reset_db 0)\<lparr>db_outbox := [demo_event]\<rparr>))"
proof -
  note m = mark_event_once [OF prod.collapse [symmetric]]
  show ?thesis
    using m [of "''k''" "(reset_db 0)\<lparr>db_outbox := [demo_event]\<rparr>"]
      m [of "''zz''" "(reset_db 0)\<lparr>db_outbox := [demo_event]\<rparr>"]
    by (simp add: reset_db_def demo_event_def)
qed

end
