(* ===== verification/Stability.thy ===== *)
theory Stability
  imports Adaptive
begin

text \<open>
  Loop and storm detection at session boundaries: \<open>core/cognition_loops.py\<close>,
  \<open>core/retry_storms.py\<close> and \<open>core/session_stability.py\<close>.
\<close>

section \<open>core/cognition_loops.py\<close>

definition sequence_signature :: "env \<Rightarrow> string list \<Rightarrow> nat \<Rightarrow> string" where
  "sequence_signature E items window =
     (if length items < window then '''' else stable_hash E (pdict [(''seq'', pstrs (lastn window items))]))"

definition all_same :: "string list \<Rightarrow> bool" where
  "all_same xs \<longleftrightarrow> length (remdups xs) = 1"

definition detect_delegation_loop :: "nat \<Rightarrow> string list \<Rightarrow> bool" where
  "detect_delegation_loop threshold targets =
     (if length targets < threshold then False else all_same (lastn threshold targets))"

definition detect_tool_cycle :: "env \<Rightarrow> nat \<Rightarrow> string list \<Rightarrow> bool" where
  "detect_tool_cycle E threshold names =
     (let sig = sequence_signature E names threshold in
      if sig = '''' \<or> length names < threshold * 2 then False
      else let prev = sequence_signature E (py_take (- int threshold) names) threshold in
        prev \<noteq> '''' \<and> sig = prev)"

definition detect_retry_loop :: "nat \<Rightarrow> string list \<Rightarrow> bool" where
  "detect_retry_loop threshold sigs =
     (if length sigs < threshold then False else all_same (lastn threshold sigs))"

section \<open>core/retry_storms.py\<close>

definition retry_density :: "telemetry list \<Rightarrow> rat" where
  "retry_density ts = (if ts = [] then 0
     else min 1 (fdiv (of_nat (sum_list (map te_retry_count ts))) (of_nat (length ts * 3))))"

definition is_retry_storm :: "settings \<Rightarrow> rat \<Rightarrow> bool" where
  "is_retry_storm S d \<longleftrightarrow> d \<ge> st_retry_density_high S"

definition storm_mitigation_pressure :: "settings \<Rightarrow> rat \<Rightarrow> rat" where
  "storm_mitigation_pressure S d = (if \<not> is_retry_storm S d then 0 else min 1 d)"

section \<open>core/session_stability.py\<close>

record assessment =
  as_score :: rat
  as_pressure :: rat
  as_events :: "stability_event list"
  as_recompute :: bool

text \<open>Each of the four detectors contributes a pressure and an event.\<close>

definition stability_ev :: "string \<Rightarrow> string \<Rightarrow> time \<Rightarrow> string \<Rightarrow> string \<Rightarrow> pyval \<Rightarrow> stability_event" where
  "stability_ev sid cid now ty sev meta = \<lparr>sv_session = sid, sv_correlation = cid, sv_type = ty,
     sv_severity = sev, sv_metadata = meta, sv_created = now\<rparr>"

definition note_event :: "bool \<Rightarrow> rat \<Rightarrow> stability_event \<Rightarrow> rat \<times> stability_event list \<Rightarrow> rat \<times> stability_event list" where
  "note_event fires weight ev acc =
     (if fires then (max (fst acc) weight, snd acc @ [ev]) else acc)"

definition assess_at_boundary ::
  "env \<Rightarrow> settings \<Rightarrow> time \<Rightarrow> string \<Rightarrow> string \<Rightarrow> telemetry list \<Rightarrow> string list \<Rightarrow> string list \<Rightarrow>
   string list \<Rightarrow> assessment" where
  "assess_at_boundary E S now sid cid telemetry tools delegations retry_sigs =
     (let density = retry_density telemetry;
          ev = stability_ev sid cid now;
          a1 = note_event (is_retry_storm S density) density
                 (ev ''retry_storm'' ''high'' (pdict [(''retry_density'', PFloat density)])) (0, []);
          a2 = note_event (detect_delegation_loop 3 delegations) (fl (7/10))
                 (ev ''delegation_loop'' ''high'' (pdict [(''delegations'', pstrs (lastn 3 delegations))])) a1;
          a3 = note_event (detect_tool_cycle E 4 tools) (fl (6/10))
                 (ev ''tool_cycle'' ''medium'' (pdict [(''tools'', pstrs (lastn 8 tools))])) a2;
          a4 = note_event (detect_retry_loop 2 retry_sigs) (fl (65/100))
                 (ev ''retry_loop'' ''high'' (pdict [])) a3;
          pressure = fst a4
      in \<lparr>as_score = round4 (max 0 (fsub 1 pressure)), as_pressure = round4 pressure,
          as_events = snd a4, as_recompute = pressure \<ge> 1/2\<rparr>)"

section \<open>Lemmas\<close>

lemma lastn_split: "n \<le> length xs \<Longrightarrow> \<exists>a. xs = a @ lastn n xs \<and> length (lastn n xs) = n"
  by (rule exI [of _ "take (length xs - n) xs"]) (simp add: lastn_def)

lemma lastn_append [simp]: "length b = n \<Longrightarrow> lastn n (a @ b) = b"
  by (simp add: lastn_def)

lemma py_take_neg_append [simp]: "length b = n \<Longrightarrow> 0 < n \<Longrightarrow> py_take (- int n) (a @ b) = a"
  by (simp add: py_take_def py_index_def)

lemma all_same_replicate: "all_same xs \<longleftrightarrow> xs \<noteq> [] \<and> (\<exists>x. xs = replicate (length xs) x)"
proof
  assume "all_same xs"
  then have one: "card (set xs) = 1" by (simp add: all_same_def length_remdups_card_conv)
  then obtain x where "set xs = {x}" by (auto simp: card_1_singleton_iff)
  then show "xs \<noteq> [] \<and> (\<exists>x. xs = replicate (length xs) x)"
    by (metis empty_iff empty_set insertI1 replicate_eqI singletonD)
next
  assume "xs \<noteq> [] \<and> (\<exists>x. xs = replicate (length xs) x)"
  then obtain x where "xs = replicate (length xs) x" and "length xs \<noteq> 0" by auto
  then have "set xs = {x}" by (metis set_replicate)
  then show "all_same xs" by (simp add: all_same_def length_remdups_card_conv)
qed

lemma retry_density_unit [unit_intros]: "in_unit (retry_density ts)"
proof -
  have "0 \<le> fdiv (of_nat (sum_list (map te_retry_count ts))) (of_nat (length ts * 3))"
    unfolding fdiv_def by (intro b64.rnd_nonneg) simp
  then show ?thesis by (auto simp: retry_density_def intro: in_unit_cap)
qed

lemma note_event_inv:
  assumes "in_unit (fst acc)" and "in_unit w"
    and "fires \<Longrightarrow> 1/2 \<le> w" and "snd acc \<noteq> [] \<longleftrightarrow> 1/2 \<le> fst acc"
  shows "in_unit (fst (note_event fires w ev acc)) \<and>
    (snd (note_event fires w ev acc) \<noteq> [] \<longleftrightarrow> 1/2 \<le> fst (note_event fires w ev acc))"
  using assms by (auto simp: note_event_def intro: in_unit_max)

lemma weights_unit:
  "in_unit (fl (7/10))" "in_unit (fl (6/10))" "in_unit (fl (65/100))"
  "1/2 \<le> fl (7/10)" "1/2 \<le> fl (6/10)" "1/2 \<le> fl (65/100)"
proof -
  have half: "1/2 \<le> fl x" if "1/2 \<le> x" for x using fl_mono [OF that] by simp
  show "1/2 \<le> fl (7/10)" "1/2 \<le> fl (6/10)" "1/2 \<le> fl (65/100)" by (rule half; simp)+
  show "in_unit (fl (7/10))" "in_unit (fl (6/10))" "in_unit (fl (65/100))"
    by (rule in_unit_fl, rule in_unitI; simp)+
qed

text \<open>Signatures of different windows differ unless the digest collides.\<close>

definition collides :: "env \<Rightarrow> pyval \<Rightarrow> pyval \<Rightarrow> bool" where
  "collides E v w \<longleftrightarrow> v \<noteq> w \<and> digest E v = digest E w"

definition seq_form :: "string list \<Rightarrow> pyval" where
  "seq_form xs = pdict [(''seq'', pstrs xs)]"

lemma stable_hash_seq: "stable_hash E (PDict [(KStr ''seq'', pstrs xs)]) = digest E (seq_form xs)"
  by (simp add: stable_hash_def seq_form_def build_dict_def VOLATILE_KEYS_def comp_def)

lemma seq_form_inj [simp]: "seq_form xs = seq_form ys \<longleftrightarrow> xs = ys"
  by (auto simp: seq_form_def inj_map_eq_map inj_def)

section \<open>Properties\<close>

text \<open>loop detection: delegations and retries loop exactly when the last three (two)
  entries are one and the same; a tool cycle is reported whenever the last four tools repeat the
  four before them, and, unless the digest collides, only then.\<close>

theorem loop_detection_exact:
  assumes "\<forall>v. digest E v \<noteq> ''''"
  shows "(detect_delegation_loop 3 ds \<longleftrightarrow> (\<exists>a d. ds = a @ [d, d, d])) \<and>
    (detect_retry_loop 2 rs \<longleftrightarrow> (\<exists>a r. rs = a @ [r, r])) \<and>
    ((\<exists>a w. length w = 4 \<and> ts = a @ w @ w) \<longrightarrow> detect_tool_cycle E 4 ts) \<and>
    (detect_tool_cycle E 4 ts \<longrightarrow> (\<exists>a w. length w = 4 \<and> ts = a @ w @ w) \<or>
       (\<exists>v w. collides E (seq_form v) (seq_form w)))"
proof -
  have same: "(n \<le> length xs \<and> all_same (lastn n xs)) \<longleftrightarrow> (\<exists>a x. xs = a @ replicate n x)"
    if "0 < n" for n and xs :: "string list"
  proof
    assume l: "n \<le> length xs \<and> all_same (lastn n xs)"
    then show "\<exists>a x. xs = a @ replicate n x"
      using lastn_split [of n xs] by (metis all_same_replicate)
  next
    assume "\<exists>a x. xs = a @ replicate n x"
    then show "n \<le> length xs \<and> all_same (lastn n xs)"
      using that by (auto simp: all_same_replicate)
  qed
  have "detect_delegation_loop 3 ds \<longleftrightarrow> (\<exists>a d. ds = a @ [d, d, d])"
    using same [of 3 ds] by (auto simp: detect_delegation_loop_def numeral_3_eq_3)
  moreover have "detect_retry_loop 2 rs \<longleftrightarrow> (\<exists>a r. rs = a @ [r, r])"
    using same [of 2 rs] by (auto simp: detect_retry_loop_def numeral_2_eq_2)
  moreover have "detect_tool_cycle E 4 ts" if "length w = 4" "ts = a @ w @ w" for a w
    using that assms py_take_neg_append [of w 4 "a @ w"]
    by (simp add: detect_tool_cycle_def sequence_signature_def stable_hash_seq Let_def lastn_def del: pstrs.simps)
  moreover have "(\<exists>a w. length w = 4 \<and> ts = a @ w @ w) \<or> (\<exists>v w. collides E (seq_form v) (seq_form w))"
    if d: "detect_tool_cycle E 4 ts"
  proof -
    have l: "8 \<le> length ts" using d by (auto simp: detect_tool_cycle_def Let_def split: if_splits)
    obtain b w where w: "ts = b @ w" "length w = 4" using lastn_split [of 4 ts] l by auto
    obtain a v where v: "b = a @ v" "length v = 4" using lastn_split [of 4 b] l w by auto
    have "digest E (seq_form w) = digest E (seq_form v)"
      using d w v py_take_neg_append [of w 4 b]
      by (simp add: detect_tool_cycle_def sequence_signature_def stable_hash_seq Let_def lastn_def del: pstrs.simps split: if_splits)
    then show ?thesis using w v by (metis append.assoc collides_def seq_form_inj)
  qed
  ultimately show ?thesis by blast
qed

definition tag_env :: env where
  "tag_env = \<lparr>digest = (\<lambda>v. case v of PDict ((KStr k, PList (PStr s # xs)) # d) \<Rightarrow> CHR ''h'' # s | _ \<Rightarrow> ''h''),
     sha256 = (\<lambda>s. CHR ''s'' # s)\<rparr>"

theorem loop_detection_exact_witness:
  "detect_tool_cycle tag_env 4 [''z'', ''a'', ''b'', ''c'', ''d'', ''a'', ''b'', ''c'', ''d'']"
proof -
  have ne: "\<forall>v. digest tag_env v \<noteq> ''''"
    by (auto simp: tag_env_def split: pyval.splits list.splits prod.splits pykey.splits)
  have "\<exists>a w. length w = 4 \<and> [''z'', ''a'', ''b'', ''c'', ''d'', ''a'', ''b'', ''c'', ''d''] = a @ w @ w"
    by (rule exI [of _ "[''z'']"], rule exI [of _ "[''a'', ''b'', ''c'', ''d'']"]) simp
  then show ?thesis using loop_detection_exact [OF ne] by blast
qed

text \<open>the boundary assessment: score and pressure are in the unit interval, and (for a storm threshold of
  at least one half) the policy is to be recomputed exactly when some detector fired, that is
  when events are recorded.\<close>

theorem assessment_consistent:
  assumes "1/2 \<le> st_retry_density_high S"
  shows "in_unit (as_score (assess_at_boundary E S now sid cid tel tools dels rs)) \<and>
    in_unit (as_pressure (assess_at_boundary E S now sid cid tel tools dels rs)) \<and>
    (as_recompute (assess_at_boundary E S now sid cid tel tools dels rs) \<longleftrightarrow>
      is_retry_storm S (retry_density tel) \<or> detect_delegation_loop 3 dels \<or>
      detect_tool_cycle E 4 tools \<or> detect_retry_loop 2 rs) \<and>
    (as_recompute (assess_at_boundary E S now sid cid tel tools dels rs) \<longleftrightarrow>
      as_events (assess_at_boundary E S now sid cid tel tools dels rs) \<noteq> [])"
proof -
  have storm: "is_retry_storm S (retry_density tel) \<Longrightarrow> 1/2 \<le> retry_density tel"
    using assms by (simp add: is_retry_storm_def)
  have start: "in_unit (fst (0 :: rat, [] :: stability_event list))"
    "snd (0 :: rat, [] :: stability_event list) \<noteq> [] \<longleftrightarrow> 1/2 \<le> fst (0 :: rat, [] :: stability_event list)"
    by simp_all
  note s1 = note_event_inv [OF start(1) retry_density_unit storm start(2)]
  note s2 = note_event_inv [OF s1 [THEN conjunct1] weights_unit(1) weights_unit(4) s1 [THEN conjunct2]]
  note s3 = note_event_inv [OF s2 [THEN conjunct1] weights_unit(2) weights_unit(5) s2 [THEN conjunct2]]
  note s4 = note_event_inv [OF s3 [THEN conjunct1] weights_unit(3) weights_unit(6) s3 [THEN conjunct2]]
  have events: "snd (note_event f w ev acc) \<noteq> [] \<longleftrightarrow> f \<or> snd acc \<noteq> []" for f w ev and acc :: "rat \<times> stability_event list"
    by (simp add: note_event_def)
  show ?thesis
    unfolding assess_at_boundary_def Let_def assessment.simps
    using s4 by (auto simp: events intro!: in_unit_round4 in_unit_max in_unit_compl)
qed

theorem assessment_consistent_witness:
  "as_recompute (assess_at_boundary tag_env default_settings 0 ''s'' ''c'' [] [] [''cto'', ''cto'', ''cto''] [])"
proof -
  have t: "1/2 \<le> st_retry_density_high default_settings"
    using weights_unit(5) by (simp add: default_settings_def)
  have "detect_delegation_loop 3 [''cto'', ''cto'', ''cto'']" by code_simp
  then show ?thesis using assessment_consistent [OF t] by blast
qed

end
