(* ===== verification/Health.thy ===== *)
theory Health
  imports Adaptive Stability
begin

text \<open>
  Scores of the runtime and its parts: \<open>core/runtime_health.py\<close>, \<open>core/tool_reliability.py\<close>,
  \<open>core/tool_routing.py\<close>, \<open>core/health.py\<close> with \<open>schemas/health.py\<close>, \<open>core/confidence.py\<close> and
  \<open>core/agent_registry.py\<close>.  All arithmetic is binary64 in the order of the source.
\<close>

section \<open>core/runtime_health.py\<close>

text \<open>The bands are ordered from best to worst.\<close>

fun band_rank :: "health_band \<Rightarrow> nat" where
  "band_rank HEALTHY = 0"
| "band_rank WARNING = 1"
| "band_rank DEGRADED = 2"
| "band_rank CRITICAL = 3"

instantiation health_band :: linorder
begin

definition less_eq_health_band :: "health_band \<Rightarrow> health_band \<Rightarrow> bool" where
  "less_eq_health_band a b \<longleftrightarrow> band_rank a \<le> band_rank b"

definition less_health_band :: "health_band \<Rightarrow> health_band \<Rightarrow> bool" where
  "less_health_band a b \<longleftrightarrow> band_rank a < band_rank b"

instance
proof
  fix a b :: health_band
  show "a \<le> b \<Longrightarrow> b \<le> a \<Longrightarrow> a = b"
    by (cases a; cases b) (simp_all add: less_eq_health_band_def)
qed (auto simp: less_eq_health_band_def less_health_band_def)

end

definition band_of_score :: "rat \<Rightarrow> health_band" where
  "band_of_score score = (if score \<ge> fl (9/10) then HEALTHY else if score \<ge> fl (7/10) then WARNING
     else if score \<ge> fl (4/10) then DEGRADED else CRITICAL)"

definition error_spans :: "span list \<Rightarrow> nat" where
  "error_spans spans = length (filter (\<lambda>s. sp_status s = SP_ERROR) spans)"

definition span_penalty :: "span list \<Rightarrow> rat" where
  "span_penalty spans = min (1/2) (fdiv (of_nat (error_spans spans)) (of_nat (max (length spans) 1)))"

definition health_composite :: "rat \<Rightarrow> rat \<Rightarrow> rat \<Rightarrow> rat \<Rightarrow> rat \<Rightarrow> rat" where
  "health_composite orchestration stability replay pressure retry =
     fadd (fadd (fadd (fadd (fmul orchestration (fl (3/10))) (fmul stability (1/4))) (fmul replay (fl (2/10))))
       (fmul (max 0 (fsub 1 pressure)) (fl (15/100)))) (fmul (max 0 (fsub 1 retry)) (fl (1/10)))"

definition compute_health ::
  "string \<Rightarrow> string \<Rightarrow> time \<Rightarrow> telemetry list \<Rightarrow> span list \<Rightarrow> rat \<Rightarrow> rat \<Rightarrow> rat \<Rightarrow> runtime_health" where
  "compute_health cid sid now telemetry spans tool_failure replay_conf pressure =
     (let retry = retry_density telemetry;
          penalty = span_penalty spans;
          stability = max 0 (fsub (fsub 1 retry) penalty);
          orchestration = max 0 (fsub (fsub 1 tool_failure) (fmul penalty (1/2)));
          band = band_of_score (health_composite orchestration stability replay_conf pressure retry)
      in \<lparr>rh_correlation = cid, rh_session = sid, rh_orchestration = round4 orchestration,
          rh_stability = round4 stability, rh_replay_confidence = round4 replay_conf,
          rh_context_pressure = round4 pressure, rh_retry_pressure = round4 retry,
          rh_tool_failure = round4 tool_failure, rh_band = band,
          rh_degraded = (band \<in> {DEGRADED, CRITICAL}), rh_generated = now\<rparr>)"

definition anomaly_if :: "bool \<Rightarrow> string \<Rightarrow> anomaly_severity \<Rightarrow> runtime_health \<Rightarrow> time \<Rightarrow> (string \<times> rat) list \<Rightarrow> anomaly list" where
  "anomaly_if c ty sev h now meta = (if c then [\<lparr>an_type = ty, an_severity = sev,
     an_correlation = rh_correlation h, an_session = rh_session h, an_detected = now, an_metadata = meta\<rparr>] else [])"

definition detect_anomalies :: "runtime_health \<Rightarrow> time \<Rightarrow> anomaly list" where
  "detect_anomalies h now =
     anomaly_if (rh_retry_pressure h > fl (6/10)) ''excessive_retries'' HIGH h now
       [(''retry_pressure'', rh_retry_pressure h)] @
     anomaly_if (rh_context_pressure h > fl (9/10)) ''context_overflow'' MEDIUM h now
       [(''context_pressure'', rh_context_pressure h)] @
     anomaly_if (rh_replay_confidence h < 1/2) ''replay_divergence'' HIGH h now
       [(''replay_confidence'', rh_replay_confidence h)] @
     anomaly_if (rh_tool_failure h > 1/2) ''repeated_tool_failure'' HIGH h now
       [(''tool_failure_rate'', rh_tool_failure h)] @
     anomaly_if (rh_band h = CRITICAL) ''degraded_cognition'' ANOM_CRITICAL h now []"

section \<open>core/tool_reliability.py, core/tool_routing.py\<close>

definition compute_confidence_score :: "rat \<Rightarrow> rat \<Rightarrow> rat \<Rightarrow> rat \<Rightarrow> rat \<Rightarrow> rat" where
  "compute_confidence_score success timeout replay_stability drift latency =
     (let penalty = min (fl (2/10)) (fdiv latency 10000);
          score = fsub (fadd (fadd (fadd (fmul success (fl (35/100))) (fmul replay_stability (1/4)))
            (fmul (fsub 1 timeout) (fl (2/10)))) (fmul (fsub 1 drift) (fl (15/100)))) penalty
      in round4 (max 0 (min 1 score)))"

definition apply_hysteresis :: "rat \<Rightarrow> rat \<Rightarrow> tool_profile \<Rightarrow> routing_band" where
  "apply_hysteresis enter exit_th p =
     (if tp_band p = BAND_DEGRADED
      then (if tp_confidence p \<ge> exit_th then TRUSTED else BAND_DEGRADED)
      else if tp_confidence p < enter then BAND_DEGRADED else TRUSTED)"

text \<open>\<open>((prev * (n - 1)) + x) / n\<close>: the mean after the \<open>n\<close>-th sample, as the code updates it.\<close>

definition running_mean :: "rat \<Rightarrow> nat \<Rightarrow> rat \<Rightarrow> rat" where
  "running_mean prev n x = fdiv (fadd (fmul prev (of_nat (n - 1))) x) (of_nat n)"

text \<open>The profile that \<open>update_from_result\<close> constructs, still with the band it had.\<close>

definition sampled_profile ::
  "time \<Rightarrow> tool_profile option \<Rightarrow> tool_result \<Rightarrow> rat \<Rightarrow> rat \<Rightarrow> tool_profile" where
  "sampled_profile now profile result replay_stability drift =
     (let n = (case profile of None \<Rightarrow> 0 | Some p \<Rightarrow> tp_samples p) + 1;
          prev_success = (case profile of None \<Rightarrow> 1 | Some p \<Rightarrow> tp_success_rate p);
          prev_timeout = (case profile of None \<Rightarrow> 0 | Some p \<Rightarrow> tp_timeout_rate p);
          prev_latency = (case profile of None \<Rightarrow> 0 | Some p \<Rightarrow> tp_avg_latency p);
          success = (if tr_success result then 1 else 0);
          timeout = (if \<exists>e \<in> set (tr_errors result). substr ''timeout'' (lower e) then 1 else 0);
          success_rate = running_mean prev_success n success;
          timeout_rate = running_mean prev_timeout n timeout;
          latency = running_mean prev_latency n (of_int (tr_latency_ms result));
          confidence = compute_confidence_score success_rate timeout_rate replay_stability drift latency
      in \<lparr>tp_name = tr_tool_name result, tp_success_rate = round4 success_rate,
            tp_replay_stability = round4 replay_stability, tp_avg_latency = round2 latency,
            tp_timeout_rate = round4 timeout_rate, tp_drift_rate = round4 drift, tp_confidence = confidence,
            tp_band = (case profile of None \<Rightarrow> TRUSTED | Some p \<Rightarrow> tp_band p), tp_samples = n, tp_updated = now\<rparr>)"

definition update_from_result ::
  "settings \<Rightarrow> time \<Rightarrow> tool_profile option \<Rightarrow> tool_result \<Rightarrow> rat \<Rightarrow> rat \<Rightarrow> tool_profile" where
  "update_from_result S now profile result replay_stability drift =
     (let updated = sampled_profile now profile result replay_stability drift
      in updated\<lparr>tp_band := apply_hysteresis (st_tool_enter S) (st_tool_exit S) updated\<rparr>)"

record routing_decision =
  rd_allow_parallel :: bool
  rd_require_escalation :: bool
  rd_deterministic_fallback :: bool
  rd_skip_optional :: bool

definition decide_routing :: "settings \<Rightarrow> tool_profile option \<Rightarrow> adaptive_policy \<Rightarrow> routing_decision" where
  "decide_routing S profile p = (case profile of
     None \<Rightarrow> \<lparr>rd_allow_parallel = po_parallelism p > 1, rd_require_escalation = False,
       rd_deterministic_fallback = po_deterministic p, rd_skip_optional = False\<rparr>
   | Some t \<Rightarrow>
       (let degraded = (tp_band t = BAND_DEGRADED); low = tp_confidence t < st_tool_enter S in
        \<lparr>rd_allow_parallel = (\<not> degraded \<and> po_parallelism p > 1), rd_require_escalation = (degraded \<or> low),
         rd_deterministic_fallback = (po_deterministic p \<or> degraded),
         rd_skip_optional = (degraded \<and> tp_confidence t < 1/2)\<rparr>))"

section \<open>schemas/health.py, core/health.py\<close>

record agent_health =
  ah_agent :: string
  ah_success_rate :: rat
  ah_avg_latency :: rat
  ah_hallucination :: rat
  ah_violations :: nat
  ah_retries :: rat
  ah_degraded :: bool
  ah_total :: nat
  ah_ok :: nat

definition new_agent_health :: "string \<Rightarrow> agent_health" where
  "new_agent_health aid = \<lparr>ah_agent = aid, ah_success_rate = 1, ah_avg_latency = 0, ah_hallucination = 0,
     ah_violations = 0, ah_retries = 0, ah_degraded = False, ah_total = 0, ah_ok = 0\<rparr>"

definition health_record_run :: "bool \<Rightarrow> rat \<Rightarrow> bool \<Rightarrow> agent_health \<Rightarrow> agent_health" where
  "health_record_run success latency structured_failure h =
     (let n = ah_total h + 1;
          ok = (if success then ah_ok h + 1 else ah_ok h);
          hall = (if structured_failure
            then running_mean (ah_hallucination h) n 1 else ah_hallucination h);
          rate = fdiv (of_nat ok) (of_nat n);
          lat = running_mean (ah_avg_latency h) n latency
      in h\<lparr>ah_total := n, ah_ok := ok, ah_hallucination := hall, ah_success_rate := rate,
           ah_avg_latency := lat, ah_degraded := rate < fl (7/10)\<rparr>)"

text \<open>The registry: its cache and the stored table behind it (\<open>core/persistence.py\<close>).\<close>

record health_registry =
  hr_cache :: "(string, agent_health) dict"
  hr_stored :: "(string, agent_health) dict"

definition save_agent_health :: "string \<Rightarrow> agent_health \<Rightarrow> health_registry \<Rightarrow> health_registry" where
  "save_agent_health aid h r = r\<lparr>hr_stored := dict_set aid h (hr_stored r)\<rparr>"

definition load_agent_health :: "string \<Rightarrow> health_registry \<Rightarrow> agent_health option" where
  "load_agent_health aid r = dict_get (hr_stored r) aid"

definition load_all_agent_health :: "health_registry \<Rightarrow> (string, agent_health) dict" where
  "load_all_agent_health r = hr_stored r"

definition registry_get :: "string \<Rightarrow> health_registry \<Rightarrow> agent_health \<times> health_registry" where
  "registry_get aid r = (case dict_get (hr_cache r) aid of
     Some h \<Rightarrow> (h, r)
   | None \<Rightarrow> (let h = (case load_agent_health aid r of Some s \<Rightarrow> s | None \<Rightarrow> new_agent_health aid)
              in (h, r\<lparr>hr_cache := dict_set aid h (hr_cache r)\<rparr>)))"

definition registry_record_run ::
  "settings \<Rightarrow> string \<Rightarrow> bool \<Rightarrow> rat \<Rightarrow> bool \<Rightarrow> bool \<Rightarrow> nat \<Rightarrow> health_registry \<Rightarrow> agent_health \<times> health_registry" where
  "registry_record_run S aid success latency structured_failure violation retries r =
     (let (h0, r1) = registry_get aid r;
          h1 = health_record_run success latency structured_failure h0;
          h2 = (if violation then h1\<lparr>ah_violations := ah_violations h1 + 1\<rparr> else h1);
          h3 = (if retries \<noteq> 0 then h2\<lparr>ah_retries := running_mean (ah_retries h2) (ah_total h2) (of_nat retries)\<rparr> else h2);
          h4 = h3\<lparr>ah_degraded := ah_success_rate h3 < st_degraded_success S\<rparr>
      in (h4, save_agent_health aid h4 (r1\<lparr>hr_cache := dict_set aid h4 (hr_cache r1)\<rparr>)))"

definition registry_is_degraded :: "string \<Rightarrow> health_registry \<Rightarrow> bool \<times> health_registry" where
  "registry_is_degraded aid r = (case registry_get aid r of (h, r') \<Rightarrow> (ah_degraded h, r'))"

definition all_agents :: "health_registry \<Rightarrow> (string, agent_health) dict \<times> health_registry" where
  "all_agents r = (let cache = fold (\<lambda>p. dict_set (fst p) (snd p)) (load_all_agent_health r) (hr_cache r)
     in (cache, r\<lparr>hr_cache := cache\<rparr>))"

definition health_sync :: "string \<Rightarrow> health_registry \<Rightarrow> agent_health \<times> health_registry" where
  "health_sync aid r = (case dict_get (hr_cache r) aid of Some h \<Rightarrow> (h, r)
     | None \<Rightarrow> (new_agent_health aid, r\<lparr>hr_cache := dict_set aid (new_agent_health aid) (hr_cache r)\<rparr>))"

definition record_run_sync :: "settings \<Rightarrow> string \<Rightarrow> bool \<Rightarrow> rat \<Rightarrow> health_registry \<Rightarrow> health_registry" where
  "record_run_sync S aid success latency r =
     (let (h, r1) = health_sync aid r; h1 = health_record_run success latency False h;
          h2 = h1\<lparr>ah_degraded := ah_success_rate h1 < st_degraded_success S\<rparr>
      in r1\<lparr>hr_cache := dict_set aid h2 (hr_cache r1)\<rparr>)"

definition registry_clear :: "health_registry \<Rightarrow> health_registry" where
  "registry_clear r = r\<lparr>hr_cache := []\<rparr>"

section \<open>core/confidence.py\<close>

text \<open>
  \<open>sum\<close> of floats as CPython 3.12 computes it (the version of the repository's pipeline): the
  rounding error of each addition is accumulated and added at the end.
\<close>

fun fsum_step :: "rat \<Rightarrow> rat \<times> rat \<Rightarrow> rat \<times> rat" where
  "fsum_step x (s, c) = (let t = fadd s x in
     (t, if \<bar>s\<bar> \<ge> \<bar>x\<bar> then fadd c (fadd (fsub s t) x) else fadd c (fadd (fsub x t) s)))"

definition py_fsum :: "rat list \<Rightarrow> rat" where
  "py_fsum xs = (let (s, c) = fold fsum_step xs (0, 0) in if c = 0 then s else fadd s c)"

definition calibrate_confidence :: "rat \<Rightarrow> rat \<Rightarrow> rat \<Rightarrow> rat \<Rightarrow> nat \<Rightarrow> confidence" where
  "calibrate_confidence checks policy historical tools retries =
     (let penalty = max 0 (fsub 1 (fmul (of_nat retries) (fl (15/100))));
          factors = [(''deterministic_checks'', checks), (''policy_validation'', policy),
            (''historical_success_rate'', historical), (''tool_reliability'', tools), (''retry_penalty'', penalty)];
          weights = [(''deterministic_checks'', 1/4), (''policy_validation'', 1/4),
            (''historical_success_rate'', fl (20/100)), (''tool_reliability'', fl (20/100)), (''retry_penalty'', fl (10/100))];
          score = py_fsum (map (\<lambda>k. fmul (dict_getd factors k 0) (dict_getd weights k 0)) (dict_keys factors))
      in \<lparr>cf_score = min 1 (max 0 score), cf_factors = factors\<rparr>)"

section \<open>core/agent_registry.py\<close>

datatype availability = ACTIVE | EXPERIMENTAL | DISABLED

definition AGENT_RUNTIME_STATUS :: "(string, availability) dict" where
  "AGENT_RUNTIME_STATUS = [(''ceo'', ACTIVE), (''cto'', ACTIVE), (''cfo'', DISABLED), (''coo'', DISABLED), (''cmo'', DISABLED)]"

definition assert_agent_active :: "string \<Rightarrow> exn + unit" where
  "assert_agent_active aid = (if dict_getd AGENT_RUNTIME_STATUS aid DISABLED \<noteq> ACTIVE
     then Inl (AgentDisabledError aid) else Inr ())"

definition is_agent_active :: "string \<Rightarrow> bool" where
  "is_agent_active aid \<longleftrightarrow> dict_get AGENT_RUNTIME_STATUS aid = Some ACTIVE"

lemma assert_agent_active_iff: "assert_agent_active aid = Inr () \<longleftrightarrow> aid \<in> {''ceo'', ''cto''}"
  by (auto simp: assert_agent_active_def AGENT_RUNTIME_STATUS_def dict_getd_def)

section \<open>Lemmas: means, composites, bands\<close>

lemma fl_of_nat [simp]: "n < 2 ^ 53 \<Longrightarrow> fl (of_nat n) = of_nat n"
  using fl_of_int [of "int n"] by simp

text \<open>A running mean of values in the unit interval stays there, rounding included.\<close>

lemma running_mean_unit:
  assumes "in_unit m" and "in_unit x" and "0 < n" and "n < 2 ^ 53"
  shows "in_unit (running_mean m n x)"
proof -
  have k: "fl (of_nat (n - 1)) = of_nat (n - 1)" using assms(4) by (intro fl_of_nat) simp
  have "m * of_nat (n - 1) \<le> of_nat (n - 1)" using assms(1) by (simp add: in_unit_def mult_left_le_one_le)
  then have le: "fmul m (of_nat (n - 1)) \<le> of_nat (n - 1)"
    unfolding fmul_def using fl_mono [of _ "of_nat (n - 1)"] k by metis
  have ge: "0 \<le> fmul m (of_nat (n - 1))"
    unfolding fmul_def using assms(1) by (intro b64.rnd_nonneg) (simp add: in_unit_def)
  have "fmul m (of_nat (n - 1)) + x \<le> of_nat n"
    using le assms(2,3) by (simp add: in_unit_def of_nat_diff)
  then have "fadd (fmul m (of_nat (n - 1))) x \<le> of_nat n"
    unfolding fadd_def using fl_mono [of _ "of_nat n"] fl_of_nat [OF assms(4)] by metis
  moreover have "0 \<le> fadd (fmul m (of_nat (n - 1))) x"
    unfolding fadd_def using ge assms(2) by (intro b64.rnd_nonneg) (simp add: in_unit_def)
  ultimately show ?thesis unfolding running_mean_def using assms(3) by (intro in_unit_ratio) auto
qed

lemma span_penalty_unit [unit_intros]: "in_unit (span_penalty spans)"
proof -
  have "0 \<le> fdiv (of_nat (error_spans spans)) (of_nat (max (length spans) 1))"
    unfolding fdiv_def by (intro b64.rnd_nonneg) simp
  then show ?thesis by (simp add: span_penalty_def in_unit_def min_def)
qed

lemma fsub_mono: "x \<le> x' \<Longrightarrow> y' \<le> y \<Longrightarrow> fsub x y \<le> fsub x' y'"
  by (simp add: fsub_def fl_mono)

lemma fsub_le: "fl x = x \<Longrightarrow> 0 \<le> y \<Longrightarrow> fsub x y \<le> x"
  using fl_mono [of "x - y" x] by (simp add: fsub_def)

lemma fl_fsub [simp]: "fl (fsub x y) = fsub x y"
  by (simp add: fsub_def)

lemma penalised_unit:
  "in_unit a \<Longrightarrow> 0 \<le> b \<Longrightarrow> in_unit (max 0 (fsub (fsub 1 a) b))"
proof -
  assume a: "in_unit a" and b: "0 \<le> b"
  have "fsub (fsub 1 a) b \<le> fsub 1 a" using b by (intro fsub_le) simp_all
  moreover have "fsub 1 a \<le> 1" using a by (intro fsub_le) (simp_all add: in_unit_def)
  ultimately show ?thesis by (auto simp: in_unit_def)
qed

lemma pos_weights: "0 \<le> fl (3/10)" "0 \<le> fl (2/10)" "0 \<le> fl (15/100)" "0 \<le> fl (1/10)"
  by (rule b64.rnd_nonneg; simp)+

lemma composite_mono:
  assumes "o1 \<le> o2" "s1 \<le> s2" "r1 \<le> r2" "p2 \<le> p1" "t2 \<le> t1"
  shows "health_composite o1 s1 r1 p1 t1 \<le> health_composite o2 s2 r2 p2 t2"
  unfolding health_composite_def
  by (intro fadd_mono fmul_mono max.mono fsub_mono order.refl assms pos_weights) simp

lemma band_of_score_mono: "x \<le> y \<Longrightarrow> band_of_score y \<le> band_of_score x"
  by (auto simp: band_of_score_def less_eq_health_band_def)

lemma degraded_iff: "b = DEGRADED \<or> b = CRITICAL \<longleftrightarrow> DEGRADED \<le> (b :: health_band)"
  by (cases b) (simp_all add: less_eq_health_band_def)

text \<open>The routing band as a function of the score alone, and over a sequence of scores.\<close>

definition next_band :: "settings \<Rightarrow> routing_band \<Rightarrow> rat \<Rightarrow> routing_band" where
  "next_band S b c = (if b = BAND_DEGRADED then (if c \<ge> st_tool_exit S then TRUSTED else BAND_DEGRADED)
     else if c < st_tool_enter S then BAND_DEGRADED else TRUSTED)"

lemma sampled_band: "tp_band (sampled_profile now (Some p) r rs d) = tp_band p"
  and sampled_count: "tp_samples (sampled_profile now (Some p) r rs d) = tp_samples p + 1"
  by (simp_all add: sampled_profile_def Let_def)

lemma update_band:
  "tp_band (update_from_result S now (Some p) r rs d) =
     next_band S (tp_band p) (tp_confidence (update_from_result S now (Some p) r rs d))"
  by (simp add: update_from_result_def next_band_def apply_hysteresis_def sampled_band Let_def)

definition good_profile :: "tool_profile \<Rightarrow> bool" where
  "good_profile p \<longleftrightarrow> in_unit (tp_success_rate p) \<and> in_unit (tp_timeout_rate p) \<and> in_unit (tp_confidence p)"

lemma sampled_rates:
  assumes "n = (case profile of None \<Rightarrow> 0 | Some p \<Rightarrow> tp_samples p) + 1"
  shows "tp_success_rate (sampled_profile now profile r rs d) =
      round4 (running_mean (case profile of None \<Rightarrow> 1 | Some p \<Rightarrow> tp_success_rate p) n (if tr_success r then 1 else 0))"
    and "tp_timeout_rate (sampled_profile now profile r rs d) =
      round4 (running_mean (case profile of None \<Rightarrow> 0 | Some p \<Rightarrow> tp_timeout_rate p) n
        (if \<exists>e \<in> set (tr_errors r). substr ''timeout'' (lower e) then 1 else 0))"
  unfolding assms sampled_profile_def Let_def tool_profile.simps by (rule refl)+

lemma confidence_unit: "in_unit (compute_confidence_score a b c d e)"
  unfolding compute_confidence_score_def Let_def by (intro in_unit_round4 in_unit_clamp)

lemma sampled_confidence: "in_unit (tp_confidence (sampled_profile now profile r rs d))"
  unfolding sampled_profile_def Let_def tool_profile.simps by (rule confidence_unit)

lemma update_good:
  assumes "case profile of None \<Rightarrow> True | Some p \<Rightarrow> good_profile p \<and> tp_samples p + 1 < 2 ^ 53"
  shows "good_profile (update_from_result S now profile r rs d)"
proof -
  define n where "n = (case profile of None \<Rightarrow> 0 | Some p \<Rightarrow> tp_samples p) + 1"
  have n: "0 < n" "n < 2 ^ 53" using assms by (auto simp: n_def split: option.splits)
  have prev: "in_unit (case profile of None \<Rightarrow> 1 | Some p \<Rightarrow> tp_success_rate p)"
    "in_unit (case profile of None \<Rightarrow> 0 | Some p \<Rightarrow> tp_timeout_rate p)"
    using assms by (auto simp: good_profile_def split: option.splits)
  have ite: "in_unit (if b then 1 else 0)" for b by simp
  have "in_unit (tp_success_rate (sampled_profile now profile r rs d))"
    "in_unit (tp_timeout_rate (sampled_profile now profile r rs d))"
    unfolding sampled_rates [OF n_def]
    by (rule in_unit_round4, rule running_mean_unit [OF _ ite n], rule prev)+
  then show ?thesis
    using sampled_confidence by (simp add: good_profile_def update_from_result_def Let_def)
qed

fun profile_run :: "settings \<Rightarrow> tool_profile \<Rightarrow> (tool_result \<times> rat \<times> rat) list \<Rightarrow> tool_profile list" where
  "profile_run S p [] = []"
| "profile_run S p ((r, rs, d) # xs) =
     (let q = update_from_result S 0 (Some p) r rs d in q # profile_run S q xs)"

lemma update_samples: "tp_samples (update_from_result S now (Some p) r rs d) = tp_samples p + 1"
  by (simp add: update_from_result_def sampled_count Let_def)

lemma profile_run_good:
  "good_profile p \<Longrightarrow> tp_samples p + length xs < 2 ^ 53 \<Longrightarrow> \<forall>q \<in> set (profile_run S p xs). good_profile q"
proof (induction xs arbitrary: p)
  case (Cons x xs)
  obtain r rs d where x: "x = (r, rs, d)" by (cases x)
  let ?q = "update_from_result S 0 (Some p) r rs d"
  have "good_profile ?q" using Cons.prems by (intro update_good) simp
  moreover have "tp_samples ?q + length xs < 2 ^ 53" using Cons.prems(2) by (simp add: update_samples)
  ultimately show ?case using Cons.IH [of ?q] by (simp add: x Let_def)
qed simp

lemma profile_run_band_stays:
  "\<forall>q \<in> set (profile_run S p xs). st_tool_enter S \<le> tp_confidence q \<and> tp_confidence q < st_tool_exit S \<Longrightarrow>
     \<forall>q \<in> set (profile_run S p xs). tp_band q = tp_band p"
proof (induction xs arbitrary: p)
  case (Cons x xs)
  obtain r rs d where x: "x = (r, rs, d)" by (cases x)
  let ?q = "update_from_result S 0 (Some p) r rs d"
  have gap: "st_tool_enter S \<le> tp_confidence ?q \<and> tp_confidence ?q < st_tool_exit S"
    using Cons.prems by (simp add: x Let_def)
  then have "tp_band ?q = tp_band p"
    by (cases "tp_band p") (simp_all add: update_band next_band_def)
  then show ?case using Cons.IH [of ?q] Cons.prems by (simp add: x Let_def)
qed simp

section \<open>Properties\<close>

text \<open>runtime health: for rates in the unit interval every score of the computed health is
  in the unit interval, the degraded flag is exactly a band of degraded or worse, and a critical anomaly is reported
  exactly in the critical band.\<close>

theorem health_scores_bounded:
  assumes "in_unit tf" and "in_unit rc" and "in_unit cp"
  shows "let h = compute_health cid sid now tel spans tf rc cp in
    (\<forall>x \<in> {rh_orchestration h, rh_stability h, rh_replay_confidence h, rh_context_pressure h,
        rh_retry_pressure h, rh_tool_failure h}. in_unit x) \<and>
    (rh_degraded h \<longleftrightarrow> DEGRADED \<le> rh_band h) \<and>
    ((\<exists>a \<in> set (detect_anomalies h t). an_severity a = ANOM_CRITICAL) \<longleftrightarrow> rh_band h = CRITICAL)"
proof -
  have "0 \<le> span_penalty spans" using span_penalty_unit [of spans] by (simp add: in_unit_def)
  moreover from this have "0 \<le> fmul (span_penalty spans) (1/2)"
    unfolding fmul_def by (intro b64.rnd_nonneg) simp
  moreover have crit: "(\<exists>a \<in> set (detect_anomalies h t). an_severity a = ANOM_CRITICAL) \<longleftrightarrow> rh_band h = CRITICAL" for h
    by (auto simp: detect_anomalies_def anomaly_if_def)
  ultimately show ?thesis
    unfolding Let_def crit using assms
    by (simp add: compute_health_def Let_def degraded_iff in_unit_round4 penalised_unit retry_density_unit)
qed

definition demo_span :: span where
  "demo_span = \<lparr>sp_id = ''1'', sp_trace = ''t'', sp_correlation = ''c'', sp_session = ''s'', sp_parent = None,
     sp_type = TOOL_EXECUTION, sp_runtime_state = '''', sp_started = 0, sp_completed = Some 1,
     sp_status = SP_ERROR, sp_metadata = []\<rparr>"

theorem health_scores_bounded_witness:
  "in_unit (rh_stability (compute_health ''c'' ''s'' 0 [] [demo_span] 1 0 1)) \<and>
   (rh_degraded (compute_health ''c'' ''s'' 0 [] [demo_span] 1 0 1) \<longleftrightarrow>
     DEGRADED \<le> rh_band (compute_health ''c'' ''s'' 0 [] [demo_span] 1 0 1))"
  using health_scores_bounded [of 1 0 1 "''c''" "''s''" 0 "[]" "[demo_span]"] by (simp add: Let_def)

text \<open>health is monotone: more retries, more failed spans, more tool failures, less
  confidence in the replay and more context pressure never give a better band, and a degraded
  runtime stays degraded.\<close>

theorem health_monotone:
  assumes "retry_density tel \<le> retry_density tel'" and "span_penalty spans \<le> span_penalty spans'"
    and "tf \<le> tf'" and "rc' \<le> rc" and "cp \<le> cp'"
  shows "rh_band (compute_health cid sid now tel spans tf rc cp) \<le>
      rh_band (compute_health cid' sid' now' tel' spans' tf' rc' cp') \<and>
    (rh_degraded (compute_health cid sid now tel spans tf rc cp) \<longrightarrow>
      rh_degraded (compute_health cid' sid' now' tel' spans' tf' rc' cp'))"
proof -
  have b: "rh_band (compute_health cid sid now tel spans tf rc cp) \<le>
      rh_band (compute_health cid' sid' now' tel' spans' tf' rc' cp')"
    unfolding compute_health_def Let_def runtime_health.simps
    by (intro band_of_score_mono composite_mono max.mono fsub_mono fmul_mono order.refl assms) simp
  have d: "rh_degraded (compute_health c s n x y a b k) \<longleftrightarrow> DEGRADED \<le> rh_band (compute_health c s n x y a b k)"
    for c s n x y a b k by (simp add: compute_health_def Let_def degraded_iff)
  show ?thesis using b order_trans [OF _ b] by (auto simp: d)
qed

theorem health_monotone_witness:
  "rh_band (compute_health ''c'' ''s'' 0 [] [] 0 1 0) \<le> rh_band (compute_health ''c'' ''s'' 0 [] [] 1 0 1)"
  using health_monotone [of "[]" "[]" "[]" "[]" 0 1 0 1 0 1 "''c''" "''s''" 0 "''c''" "''s''" 0] by simp

text \<open>tool profiles: over any sequence of results (below $2^{53}$ samples) the rates and the
  confidence stay in the unit interval, and hysteresis prevents flapping: while the scores stay
  between the two thresholds the routing band never changes.\<close>

theorem profile_hysteresis:
  assumes "good_profile p" and "tp_samples p + length xs < 2 ^ 53"
  shows "(\<forall>q \<in> set (profile_run S p xs). good_profile q) \<and>
    ((\<forall>q \<in> set (profile_run S p xs). st_tool_enter S \<le> tp_confidence q \<and> tp_confidence q < st_tool_exit S) \<longrightarrow>
      (\<forall>q \<in> set (profile_run S p xs). tp_band q = tp_band p))"
  using profile_run_good [OF assms] profile_run_band_stays by blast

definition demo_profile :: tool_profile where
  "demo_profile = \<lparr>tp_name = ''f'', tp_success_rate = 1, tp_replay_stability = 1, tp_avg_latency = 0,
     tp_timeout_rate = 0, tp_drift_rate = 0, tp_confidence = 1, tp_band = TRUSTED, tp_samples = 1, tp_updated = 0\<rparr>"

definition demo_failure :: tool_result where
  "demo_failure = \<lparr>tr_success = False, tr_data = None, tr_errors = [''Read Timeout''], tr_source = ''x'',
     tr_latency_ms = 100, tr_cached = False, tr_tool_name = ''f'', tr_correlation = ''c''\<rparr>"

theorem profile_hysteresis_witness:
  "good_profile (hd (profile_run default_settings demo_profile [(demo_failure, 1, 0)]))"
proof -
  have "good_profile demo_profile" by (simp add: demo_profile_def good_profile_def)
  moreover have "tp_samples demo_profile + length [(demo_failure, 1 :: rat, 0 :: rat)] < 2 ^ 53"
    by (simp add: demo_profile_def)
  ultimately show ?thesis
    using profile_hysteresis [of demo_profile "[(demo_failure, 1, 0)]" default_settings] by (simp add: Let_def)
qed

text \<open>routing follows the reliability profile: for a profile that was just updated, approval is
  escalated exactly when the tool is in the degraded band, the tool then runs without parallelism and in
  deterministic mode, and it is skipped only if it is degraded.\<close>

theorem routing_after_update:
  assumes "wf_settings S"
  shows "let t = update_from_result S now profile r rs d; w = decide_routing S (Some t) pol in
    (rd_require_escalation w \<longleftrightarrow> tp_band t = BAND_DEGRADED) \<and>
    (tp_band t = BAND_DEGRADED \<longrightarrow> \<not> rd_allow_parallel w \<and> rd_deterministic_fallback w) \<and>
    (rd_skip_optional w \<longrightarrow> rd_require_escalation w)"
proof -
  have "tp_band t = BAND_DEGRADED" if "t = update_from_result S now profile r rs d" "tp_confidence t < st_tool_enter S" for t
    using that assms by (auto simp: update_from_result_def apply_hysteresis_def wf_settings_def Let_def)
  then show ?thesis by (auto simp: decide_routing_def Let_def)
qed

theorem routing_after_update_witness:
  "rd_require_escalation (decide_routing default_settings
     (Some (update_from_result default_settings 0 None demo_failure 1 0)) default_policy) \<longleftrightarrow>
   tp_band (update_from_result default_settings 0 None demo_failure 1 0) = BAND_DEGRADED"
  using routing_after_update [OF wf_default_settings, of 0 None demo_failure 1 0 default_policy]
  by (simp add: Let_def)

section \<open>The agent registry\<close>

text \<open>
  What a record of an agent promises, and that the cache never disagrees with the stored copy
  of an agent that has run.
\<close>

definition good_health :: "settings \<Rightarrow> agent_health \<Rightarrow> bool" where
  "good_health S h \<longleftrightarrow> ah_ok h \<le> ah_total h \<and> in_unit (ah_hallucination h) \<and>
     (ah_total h = 0 \<longrightarrow> \<not> ah_degraded h \<and> ah_success_rate h = 1) \<and>
     (0 < ah_total h \<longrightarrow> ah_success_rate h = fdiv (of_nat (ah_ok h)) (of_nat (ah_total h)) \<and>
        (ah_degraded h \<longleftrightarrow> ah_success_rate h < st_degraded_success S))"

definition good_registry :: "settings \<Rightarrow> health_registry \<Rightarrow> bool" where
  "good_registry S r \<longleftrightarrow>
     (\<forall>a h. dict_get (hr_cache r) a = Some h \<longrightarrow> good_health S h \<and>
        dict_get (hr_stored r) a = (if ah_total h = 0 then None else Some h)) \<and>
     (\<forall>a h. dict_get (hr_stored r) a = Some h \<longrightarrow> good_health S h \<and> 0 < ah_total h)"

lemma good_new_health: "good_health S (new_agent_health a)"
  by (simp add: good_health_def new_agent_health_def)

lemma registry_get_good:
  assumes "good_registry S r" and "registry_get a r = (h, r')"
  shows "good_registry S r' \<and> good_health S h \<and> dict_get (hr_cache r') a = Some h \<and> hr_stored r' = hr_stored r"
proof (cases "dict_get (hr_cache r) a")
  case (Some g)
  then show ?thesis using assms by (auto simp: registry_get_def good_registry_def)
next
  case None
  define g where "g = (case load_agent_health a r of Some s \<Rightarrow> s | None \<Rightarrow> new_agent_health a)"
  have "h = g" "r' = r\<lparr>hr_cache := dict_set a g (hr_cache r)\<rparr>"
    using assms(2) None by (auto simp: registry_get_def g_def Let_def)
  moreover have "good_health S g \<and> dict_get (hr_stored r) a = (if ah_total g = 0 then None else Some g)"
    using assms(1) good_new_health
    by (auto simp: g_def load_agent_health_def good_registry_def new_agent_health_def split: option.splits)
  ultimately show ?thesis using assms(1) by (simp add: good_registry_def)
qed

datatype registry_call = GetHealth string | RecordRun string bool rat bool bool nat

fun registry_exec :: "settings \<Rightarrow> health_registry \<Rightarrow> registry_call \<Rightarrow> health_registry" where
  "registry_exec S r (GetHealth a) = snd (registry_get a r)"
| "registry_exec S r (RecordRun a ok lat sf v n) = snd (registry_record_run S a ok lat sf v n r)"

lemma record_run_health:
  assumes "good_health S h" and "ah_total h + 1 < 2 ^ 53"
  shows "let h' = health_record_run ok lat sf h in
    ah_ok h' \<le> ah_total h' \<and> in_unit (ah_hallucination h') \<and> ah_total h' = ah_total h + 1 \<and>
    ah_success_rate h' = fdiv (of_nat (ah_ok h')) (of_nat (ah_total h'))"
  using assms running_mean_unit [of "ah_hallucination h" 1 "ah_total h + 1"]
  by (auto simp: health_record_run_def good_health_def Let_def)

lemma registry_record_run_good:
  assumes r: "good_registry S r" and small: "\<forall>h. dict_get (hr_cache r) a = Some h \<or> dict_get (hr_stored r) a = Some h \<longrightarrow>
      ah_total h + 1 < 2 ^ 53"
  shows "good_registry S (snd (registry_record_run S a ok lat sf v n r))"
proof -
  obtain h r1 where g: "registry_get a r = (h, r1)" by (cases "registry_get a r")
  have h: "good_registry S r1" "good_health S h" using registry_get_good [OF r g] by auto
  have "ah_total h + 1 < 2 ^ 53"
    using g small by (auto simp: registry_get_def load_agent_health_def new_agent_health_def Let_def split: option.splits)
  note rr = record_run_health [OF h(2) this, of ok lat sf, unfolded Let_def]
  show ?thesis
    using h(1) rr unfolding registry_record_run_def g
    by (auto simp: good_registry_def good_health_def save_agent_health_def Let_def)
qed

text \<open>the agent registry: recording a run keeps the registry coherent for every agent (the cached record is the
  stored one, the success rate is the fraction of successful runs, the agent is degraded exactly
  below the configured threshold, the hallucination rate is in the unit interval) and counts exactly one run.\<close>

theorem registry_coherent:
  assumes "good_registry S r"
    and "\<forall>h. dict_get (hr_cache r) a = Some h \<or> dict_get (hr_stored r) a = Some h \<longrightarrow> ah_total h + 1 < 2 ^ 53"
  shows "good_registry S (registry_exec S r (RecordRun a ok lat sf v n)) \<and>
    good_registry S (registry_exec S r (GetHealth b)) \<and>
    ah_total (fst (registry_record_run S a ok lat sf v n r)) = ah_total (fst (registry_get a r)) + 1 \<and>
    dict_get (hr_stored (registry_exec S r (RecordRun a ok lat sf v n))) a =
      Some (fst (registry_record_run S a ok lat sf v n r))"
proof -
  have "good_registry S (snd (registry_get b r))"
    using registry_get_good [OF assms(1), of b] by (metis prod.collapse)
  moreover have "ah_total (health_record_run ok lat sf h) = ah_total h + 1" for h
    by (simp add: health_record_run_def Let_def)
  ultimately show ?thesis
    using registry_record_run_good [OF assms]
    by (auto simp: registry_record_run_def save_agent_health_def Let_def split: prod.splits)
qed

definition empty_registry :: health_registry where
  "empty_registry = \<lparr>hr_cache = [], hr_stored = []\<rparr>"

theorem registry_coherent_witness:
  "good_registry default_settings (registry_exec default_settings empty_registry (RecordRun ''ceo'' False 5 True False 2))"
  using registry_coherent [of default_settings empty_registry "''ceo''" False 5 True False 2 "''x''"]
  by (simp add: empty_registry_def good_registry_def)

text \<open>the recorded hallucination rate only moves on failures: after one malformed answer, any number of
  later well-formed runs leaves the rate at 1, so that it is not the fraction of malformed runs.\<close>

theorem hallucination_rate_never_falls:
  "ah_hallucination ((health_record_run True lat False ^^ k) (health_record_run False lat True (new_agent_health a))) = 1 \<and>
   ah_total ((health_record_run True lat False ^^ k) (health_record_run False lat True (new_agent_health a))) = k + 1"
proof (induction k)
  case 0
  show ?case by (simp add: health_record_run_def new_agent_health_def Let_def running_mean_def float_ops)
next
  case (Suc k)
  then show ?case by (simp add: health_record_run_def Let_def)
qed

end
