(* ===== verification/Context.thy ===== *)
theory Context
  imports Adaptive
begin

text \<open>
  The context window: \<open>core/context_lifecycle.py\<close>, \<open>core/context_priority.py\<close> and
  \<open>core/context.py\<close>.  The JSON text of a world state is a parameter (pydantic writes it), clock
  readings are arguments in the order the code takes them.
\<close>

type_synonym layer_map = "(string, string) dict"

section \<open>core/context_lifecycle.py\<close>

type_synonym session_starts = "(string, rat) dict"

definition register_session :: "rat \<Rightarrow> string \<Rightarrow> session_starts \<Rightarrow> session_starts" where
  "register_session now sid t = (if sid \<notin> set (dict_keys t) then dict_set sid now t else t)"

text \<open>\<open>time.time()\<close> is evaluated first as the default of the lookup, then for the difference.\<close>

definition context_age_seconds :: "rat \<Rightarrow> rat \<Rightarrow> string \<Rightarrow> session_starts \<Rightarrow> int" where
  "context_age_seconds t1 t2 sid t = trunc (fsub t2 (dict_getd t sid t1))"

definition enrich_fingerprint ::
  "rat \<Rightarrow> rat \<Rightarrow> session_starts \<Rightarrow> fingerprint \<Rightarrow> string \<Rightarrow> string \<Rightarrow> string option \<Rightarrow> fingerprint" where
  "enrich_fingerprint t1 t2 t fp sid strategy entry =
     fp\<lparr>fp_age := context_age_seconds t1 t2 sid t, fp_strategy := Some strategy,
        fp_chain := (case entry of None \<Rightarrow> fp_chain fp
          | Some e \<Rightarrow> if e \<noteq> '''' \<and> e \<notin> set (fp_chain fp) then fp_chain fp @ [e] else fp_chain fp)\<rparr>"

definition context_pressure :: "fingerprint \<Rightarrow> rat" where
  "context_pressure fp = fp_utilization fp"

definition should_summarize :: "fingerprint \<Rightarrow> bool" where
  "should_summarize fp \<longleftrightarrow> fp_utilization fp > fl (9/10)"

definition summarize_layer :: "env \<Rightarrow> string \<Rightarrow> string" where
  "summarize_layer E value =
     (if length value > 400
      then take 400 value @ ''...[truncated:'' @ take 8 (stable_hash E (PStr value)) @ '']'' else value)"

definition summarize_old_context :: "env \<Rightarrow> layer_map \<Rightarrow> layer_map \<times> string" where
  "summarize_old_context E layers =
     (let summarized = map (\<lambda>(k, v). (k, summarize_layer E v)) layers
      in (summarized, ''summarize:'' @ stable_hash E (pdict (map (\<lambda>(k, v). (k, PStr v)) summarized))))"

definition enforce_budget :: "rat \<Rightarrow> int \<Rightarrow> int \<Rightarrow> bool" where
  "enforce_budget utilization memory_budget tokens =
     (if utilization > 1 then False else tokens \<le> memory_budget)"

section \<open>core/context_priority.py\<close>

definition LAYER_BASE_PRIORITY :: "(string, rat) dict" where
  "LAYER_BASE_PRIORITY = [(''l1'', 1), (''l2'', fl (9/10)), (''l3'', fl (7/10)), (''l4'', fl (4/10)), (''l5'', fl (2/10))]"

definition GOVERNANCE_SOURCES :: "string list" where
  "GOVERNANCE_SOURCES = [''governance'', ''replay'', ''policy'', ''approval'']"

definition score_layer :: "string \<Rightarrow> rat \<Rightarrow> int \<Rightarrow> rat \<Rightarrow> priority_score" where
  "score_layer source utilization age replay_relevance =
     (let base = dict_getd LAYER_BASE_PRIORITY source (1/2);
          operational = (if \<exists>g \<in> set GOVERNANCE_SOURCES. substr g (lower source) then 1 else base);
          freshness = max (fl (1/10)) (fsub 1 (min 1 (fdiv (of_int age) 7200)));
          relevance = max (fl (2/10)) (fsub 1 (fmul utilization (fl (3/10))))
      in \<lparr>pc_source = source, pc_relevance = round4 relevance, pc_freshness = round4 freshness,
          pc_replay = round4 replay_relevance, pc_operational = round4 operational\<rparr>)"

definition protected_layers :: "string set" where
  "protected_layers = {''l1'', ''l2''}"

definition layers_tokens :: "layer_map \<Rightarrow> int" where
  "layers_tokens m = max 1 (int (sum_list (map (length \<circ> snd) m) div 4))"

fun drop_layers :: "int \<Rightarrow> string list \<Rightarrow> layer_map \<Rightarrow> layer_map" where
  "drop_layers budget [] result = result"
| "drop_layers budget (key # keys) result =
     (if key \<in> protected_layers \<or> key \<notin> set (dict_keys result) then drop_layers budget keys result
      else let result' = dict_pop key result in
        if layers_tokens result' \<le> budget then result' else drop_layers budget keys result')"

definition drop_order :: "layer_map \<Rightarrow> rat \<Rightarrow> int \<Rightarrow> string list" where
  "drop_order layers utilization age =
     sort_key (\<lambda>k. composite (score_layer k utilization age 1)) (dict_keys layers)"

definition select_layers :: "layer_map \<Rightarrow> int \<Rightarrow> int \<Rightarrow> rat \<Rightarrow> int \<Rightarrow> layer_map" where
  "select_layers layers memory_budget estimated utilization age =
     (if estimated \<le> memory_budget then layers
      else drop_layers memory_budget (drop_order layers utilization age) layers)"

section \<open>core/context.py\<close>

record context_bundle =
  cx_session :: string
  cx_task :: string
  cx_layers :: "(context_layer, string) dict"
  cx_tokens :: int
  cx_fp :: "fingerprint option"

record window_manager =
  wm_max_tokens :: int
  wm_compression :: string
  wm_rules :: "(string, int) dict"

definition default_manager :: window_manager where
  "default_manager = \<lparr>wm_max_tokens = 8000, wm_compression = ''selective'',
     wm_rules = [(''l1'', 100), (''l2'', 90), (''l3'', 70), (''l4'', 50), (''l5'', 30)]\<rparr>"

definition estimate_tokens :: "string \<Rightarrow> int" where
  "estimate_tokens s = max 1 (int (length s div 4))"

definition join_lines :: "string \<Rightarrow> string list \<Rightarrow> string" where
  "join_lines sep xs = (case xs of [] \<Rightarrow> '''' | x # xs \<Rightarrow> concat (x # map (\<lambda>y. sep @ y) xs))"

text \<open>The layers are filled one after the other, each against the budget that is left.\<close>

type_synonym fill = "(context_layer, string) dict \<times> int"

definition fill_l1 :: "string \<Rightarrow> fill \<Rightarrow> fill" where
  "fill_l1 active_task f = (let l1 = ''Active Task: '' @ active_task
     in (dict_set L1_ACTIVE_TASK l1 (fst f), snd f - estimate_tokens l1))"

definition fit_l2 :: "string \<Rightarrow> int \<Rightarrow> string" where
  "fit_l2 world budget = (if estimate_tokens world > budget then py_take (budget * 4) world else world)"

definition fill_l2 :: "string \<Rightarrow> fill \<Rightarrow> fill" where
  "fill_l2 world f = (let l2 = fit_l2 world (snd f)
     in (dict_set L2_WORLD_STATE l2 (fst f), snd f - estimate_tokens l2))"

definition fill_l3 :: "decision_record list \<Rightarrow> context_layer set \<Rightarrow> fill \<Rightarrow> fill" where
  "fill_l3 decisions requested f =
     (if decisions \<noteq> [] \<and> (L3_RECENT_DECISIONS \<in> requested \<or> snd f > 500)
      then let l3 = join_lines ''\<newline>'' (map dr_summary (lastn 5 decisions)) in
        if estimate_tokens l3 \<le> snd f
        then (dict_set L3_RECENT_DECISIONS l3 (fst f), snd f - estimate_tokens l3) else f
      else f)"

definition fill_l4 :: "string option \<Rightarrow> context_layer set \<Rightarrow> fill \<Rightarrow> fill" where
  "fill_l4 long_term requested f =
     (let text = str_or long_term '''' in
      if text \<noteq> '''' \<and> L4_LONG_TERM \<in> requested \<and> snd f > 300
      then let l4 = py_take (snd f * 4) text
           in (dict_set L4_LONG_TERM l4 (fst f), snd f - estimate_tokens l4)
      else f)"

definition fill_l5 :: "string option \<Rightarrow> context_layer set \<Rightarrow> fill \<Rightarrow> fill" where
  "fill_l5 archived requested f =
     (let text = str_or archived '''' in
      if text \<noteq> '''' \<and> L5_ARCHIVED \<in> requested \<and> snd f > 200
      then (dict_set L5_ARCHIVED (py_take (snd f * 4) text) (fst f), snd f) else f)"

definition fill_all :: "int \<Rightarrow> string \<Rightarrow> string \<Rightarrow> decision_record list \<Rightarrow> string option \<Rightarrow> string option \<Rightarrow>
    context_layer set \<Rightarrow> fill" where
  "fill_all max_tokens active_task world decisions long_term archived requested =
     fill_l5 archived requested (fill_l4 long_term requested (fill_l3 decisions requested
       (fill_l2 world (fill_l1 active_task ([], max_tokens)))))"

definition layer_names :: "(context_layer, string) dict \<Rightarrow> layer_map" where
  "layer_names ls = map (\<lambda>(k, v). (layer_value k, v)) ls"

definition base_fingerprint :: "env \<Rightarrow> window_manager \<Rightarrow> string \<Rightarrow> string \<Rightarrow> (context_layer, string) dict \<Rightarrow> int \<Rightarrow> fingerprint" where
  "base_fingerprint E W active_task l2 ls used =
     (let sources = map (layer_value \<circ> fst) ls in
      \<lparr>fp_context_hash = stable_hash E (pdict (map (\<lambda>(k, v). (k, PStr v)) (layer_names ls))),
       fp_sources = sources,
       fp_scores = map (\<lambda>s. (s, of_int (dict_getd (wm_rules W) s 50))) sources,
       fp_utilization = (if wm_max_tokens W \<noteq> 0 then fdiv (of_int used) (of_int (wm_max_tokens W)) else 0),
       fp_compression = fdiv (of_int used) (of_int (max (estimate_tokens (active_task @ l2)) 1)),
       fp_age = 0, fp_chain = [], fp_strategy = Some (wm_compression W)\<rparr>)"

text \<open>\<open>ContextLayer(k)\<close> for the keys of the summarised layers.\<close>

definition layer_of_value :: "string \<Rightarrow> context_layer" where
  "layer_of_value s = (if s = ''l1'' then L1_ACTIVE_TASK else if s = ''l2'' then L2_WORLD_STATE
     else if s = ''l3'' then L3_RECENT_DECISIONS else if s = ''l4'' then L4_LONG_TERM else L5_ARCHIVED)"

definition build_context ::
  "env \<Rightarrow> window_manager \<Rightarrow> rat \<Rightarrow> rat \<Rightarrow> session_starts \<Rightarrow> string \<Rightarrow> string \<Rightarrow> string \<Rightarrow> string \<Rightarrow>
   decision_record list \<Rightarrow> string option \<Rightarrow> string option \<Rightarrow> context_layer list \<Rightarrow> context_bundle \<times> session_starts" where
  "build_context E W now now' starts sid task active_task world decisions long_term archived extra =
     (let starts' = register_session now sid starts;
          filled = fill_all (wm_max_tokens W) active_task world decisions long_term archived (set extra);
          ls = fst filled; used = wm_max_tokens W - max 0 (snd filled);
          l2 = dict_getd ls L2_WORLD_STATE '''';
          fp = base_fingerprint E W active_task l2 ls used;
          bundle = \<lparr>cx_session = sid, cx_task = task, cx_layers = ls, cx_tokens = used, cx_fp = None\<rparr>
      in if should_summarize fp
         then let (new_layers, entry) = summarize_old_context E (layer_names ls) in
           (bundle\<lparr>cx_layers := map (\<lambda>(k, v). (layer_of_value k, v)) new_layers,
              cx_fp := Some (enrich_fingerprint now' now' starts' fp sid ''deterministic_summarize'' (Some entry))\<rparr>, starts')
         else (bundle\<lparr>cx_fp := Some (enrich_fingerprint now' now' starts' fp sid (wm_compression W) None)\<rparr>, starts'))"

definition within_budget :: "context_bundle \<Rightarrow> int \<Rightarrow> bool" where
  "within_budget b memory_budget =
     (if (case cx_fp b of None \<Rightarrow> False | Some fp \<Rightarrow> fp_utilization fp > 1) then False
      else cx_tokens b \<le> memory_budget)"

definition all_layers :: "context_layer list" where
  "all_layers = [L1_ACTIVE_TASK, L2_WORLD_STATE, L3_RECENT_DECISIONS, L4_LONG_TERM, L5_ARCHIVED]"

definition to_prompt :: "context_bundle \<Rightarrow> string" where
  "to_prompt b = join_lines ''\<newline>\<newline>'' (List.map_filter (\<lambda>l. case dict_get (cx_layers b) l of
     None \<Rightarrow> None | Some v \<Rightarrow> Some (''['' @ layer_value l @ '']\<newline>'' @ v)) all_layers)"

section \<open>Lemmas\<close>

lemma estimate_tokens_pos: "1 \<le> estimate_tokens s"
  by (simp add: estimate_tokens_def)

definition dict_tokens :: "('k, string) dict \<Rightarrow> int" where
  "dict_tokens d = sum_list (map (estimate_tokens \<circ> snd) d)"

lemma dict_tokens_new: "k \<notin> set (dict_keys d) \<Longrightarrow> dict_tokens (dict_set k v d) = dict_tokens d + estimate_tokens v"
proof (induction d)
  case (Cons p d)
  then show ?case by (cases p) (auto simp: dict_tokens_def)
qed (simp add: dict_tokens_def)

text \<open>What each filling step keeps: the estimates of the layers and the budget that is left add up
  to what there was, and only its own layer is added.\<close>

definition fill_inv :: "int \<Rightarrow> context_layer set \<Rightarrow> fill \<Rightarrow> bool" where
  "fill_inv m K f \<longleftrightarrow> set (dict_keys (fst f)) \<subseteq> K \<and> wf_dict (fst f) \<and> dict_tokens (fst f) + snd f = m"

lemma fill_inv_set:
  assumes "fill_inv m K f" and "k \<notin> K" and "insert k K \<subseteq> K'"
  shows "fill_inv m K' (dict_set k v (fst f), snd f - estimate_tokens v)"
proof -
  have "k \<notin> set (dict_keys (fst f))" using assms(1,2) by (auto simp: fill_inv_def)
  then show ?thesis using assms dict_tokens_new [of k "fst f" v] by (auto simp: fill_inv_def subset_iff)
qed

lemma fill_inv_weaken: "fill_inv m K f \<Longrightarrow> K \<subseteq> K' \<Longrightarrow> fill_inv m K' f"
  by (auto simp: fill_inv_def)

lemma fill_inv_l4:
  "fill_inv m {L1_ACTIVE_TASK, L2_WORLD_STATE, L3_RECENT_DECISIONS, L4_LONG_TERM}
     (fill_l4 lt req (fill_l3 ds req (fill_l2 w (fill_l1 a ([], m)))))"
proof -
  have l1: "fill_inv m {L1_ACTIVE_TASK} (fill_l1 a ([], m))"
    unfolding fill_l1_def Let_def by (rule fill_inv_set [where K = "{}"]) (auto simp: fill_inv_def dict_tokens_def)
  have l2: "fill_inv m {L1_ACTIVE_TASK, L2_WORLD_STATE} (fill_l2 w (fill_l1 a ([], m)))"
    unfolding fill_l2_def Let_def by (rule fill_inv_set [OF l1]) auto
  have l3: "fill_inv m {L1_ACTIVE_TASK, L2_WORLD_STATE, L3_RECENT_DECISIONS} (fill_l3 ds req f)"
    if "fill_inv m {L1_ACTIVE_TASK, L2_WORLD_STATE} f" for f
    using that unfolding fill_l3_def Let_def
    by (auto intro!: fill_inv_set [OF that] intro: fill_inv_weaken)
  have l4: "fill_inv m {L1_ACTIVE_TASK, L2_WORLD_STATE, L3_RECENT_DECISIONS, L4_LONG_TERM} (fill_l4 lt req f)"
    if "fill_inv m {L1_ACTIVE_TASK, L2_WORLD_STATE, L3_RECENT_DECISIONS} f" for f
    using that unfolding fill_l4_def Let_def
    by (auto intro!: fill_inv_set [OF that] intro: fill_inv_weaken)
  show ?thesis by (rule l4 [OF l3 [OF l2]])
qed

lemma estimate_take: "0 < b \<Longrightarrow> estimate_tokens (py_take (b * 4) s) \<le> b"
  by (auto simp: estimate_tokens_def py_take_def py_index_def)

lemma fill_l5_tokens:
  assumes "fill_inv m {L1_ACTIVE_TASK, L2_WORLD_STATE, L3_RECENT_DECISIONS, L4_LONG_TERM} f"
  shows "0 \<le> snd f \<Longrightarrow> dict_tokens (fst (fill_l5 ar req f)) \<le> m" and "snd (fill_l5 ar req f) = snd f"
proof -
  have new: "L5_ARCHIVED \<notin> set (dict_keys (fst f))" using assms by (auto simp: fill_inv_def)
  have sum: "dict_tokens (fst f) = m - snd f" using assms by (simp add: fill_inv_def)
  show "dict_tokens (fst (fill_l5 ar req f)) \<le> m" if "0 \<le> snd f"
    using that sum estimate_take [of "snd f" "str_or ar ''''"]
    by (auto simp: fill_l5_def Let_def dict_tokens_new [OF new])
  show "snd (fill_l5 ar req f) = snd f" by (simp add: fill_l5_def Let_def)
qed

lemma dict_tokens_nonneg: "0 \<le> dict_tokens d"
  by (induction d) (auto simp: dict_tokens_def estimate_tokens_def)

lemma fill_budget_le: "snd (fill_all m a w ds lt ar req) \<le> m"
  using fill_inv_l4 [of m lt req ds w a] dict_tokens_nonneg [of "fst (fill_l4 lt req (fill_l3 ds req (fill_l2 w (fill_l1 a ([], m)))))"]
  unfolding fill_all_def fill_l5_tokens(2) [OF fill_inv_l4] by (simp add: fill_inv_def)

lemma summarize_layer_length: "length (summarize_layer E v) \<le> 423"
  by (simp add: summarize_layer_def)

text \<open>The utilisation that the fingerprint reports is a fraction of the window.\<close>

lemma used_bounds: "0 \<le> m \<Longrightarrow> 0 \<le> m - max 0 (snd (fill_all m a w ds lt ar req)) \<and> m - max 0 (snd (fill_all m a w ds lt ar req)) \<le> m"
  using fill_budget_le [of m a w ds lt ar req] by auto

text \<open>The dropping loop.\<close>

lemma drop_layers_sub: "set (drop_layers b ks d) \<subseteq> set d"
  by (induction b ks d rule: drop_layers.induct) (auto simp: Let_def dest: subsetD [OF dict_pop_subset])

lemma drop_layers_get: "k \<in> protected_layers \<Longrightarrow> dict_get (drop_layers b ks d) k = dict_get d k"
  by (induction b ks d rule: drop_layers.induct) (auto simp: Let_def)

lemma drop_layers_end:
  "layers_tokens (drop_layers b ks d) \<le> b \<or> set (dict_keys (drop_layers b ks d)) \<inter> set ks \<subseteq> protected_layers"
proof (induction b ks d rule: drop_layers.induct)
  case (2 b key keys d)
  have gone: "key \<notin> set (dict_keys (drop_layers b keys (dict_pop key d)))"
    using drop_layers_sub [of b keys "dict_pop key d"] by (force simp: dict_pop_def)
  have absent: "key \<notin> set (dict_keys d) \<Longrightarrow> key \<notin> set (dict_keys (drop_layers b keys d))"
    using drop_layers_sub [of b keys d] by force
  consider "key \<in> protected_layers \<or> key \<notin> set (dict_keys d)"
    | "key \<notin> protected_layers" "key \<in> set (dict_keys d)" "layers_tokens (dict_pop key d) \<le> b"
    | "key \<notin> protected_layers" "key \<in> set (dict_keys d)" "\<not> layers_tokens (dict_pop key d) \<le> b"
    by blast
  then show ?case
  proof cases
    case 1
    then show ?thesis using "2.IH"(1) absent by (simp add: Let_def) blast
  next
    case 2
    then show ?thesis by (simp add: Let_def)
  next
    case 3
    then show ?thesis using "2.IH"(2) [of "dict_pop key d"] gone by (auto simp: Let_def)
  qed
qed simp

text \<open>Whatever is dropped comes before whatever unprotected is kept.\<close>

lemma drop_layers_prefix:
  "\<exists>done rest. ks = done @ rest \<and>
     set (dict_keys d) - set (dict_keys (drop_layers b ks d)) \<subseteq> set done \<and>
     set (dict_keys (drop_layers b ks d)) \<inter> set done \<subseteq> protected_layers"
proof (induction b ks d rule: drop_layers.induct)
  case (1 b d)
  then show ?case by simp
next
  case (2 b key keys d)
  have sub: "set (dict_keys (drop_layers b keys x)) \<subseteq> set (dict_keys x)" for x
    using drop_layers_sub [of b keys x] by force
  consider (skip) "key \<in> protected_layers \<or> key \<notin> set (dict_keys d)"
    | (stop) "key \<notin> protected_layers" "key \<in> set (dict_keys d)" "layers_tokens (dict_pop key d) \<le> b"
    | (go) "key \<notin> protected_layers" "key \<in> set (dict_keys d)" "\<not> layers_tokens (dict_pop key d) \<le> b"
    by blast
  then show ?case
  proof cases
    case skip
    then obtain dn rest where "keys = dn @ rest"
      "set (dict_keys d) - set (dict_keys (drop_layers b keys d)) \<subseteq> set dn"
      "set (dict_keys (drop_layers b keys d)) \<inter> set dn \<subseteq> protected_layers"
      using "2.IH"(1) by blast
    then show ?thesis
      using skip sub [of d] by (intro exI [of _ "key # dn"] exI [of _ rest]) auto
  next
    case stop
    then show ?thesis
      by (intro exI [of _ "[key]"] exI [of _ keys]) (auto simp: Let_def dict_keys_pop)
  next
    case go
    then obtain dn rest where "keys = dn @ rest"
      "set (dict_keys (dict_pop key d)) - set (dict_keys (drop_layers b keys (dict_pop key d))) \<subseteq> set dn"
      "set (dict_keys (drop_layers b keys (dict_pop key d))) \<inter> set dn \<subseteq> protected_layers"
      using "2.IH"(2) [of "dict_pop key d"] by auto
    then show ?thesis
      using go sub [of "dict_pop key d"]
      by (intro exI [of _ "key # dn"] exI [of _ rest]) (auto simp: Let_def dict_keys_pop)
  qed
qed

section \<open>Properties\<close>

lemma fl_nine_tenths: "fl (9/10) < 1"
  by code_simp

text \<open>the built context is bounded: for a positive window the reported utilisation is in the unit
  interval, the bundle is within the window's own budget, and either its layers were
  summarised to at most 423 characters each or their estimates add up to no more than the
  window, whatever the task, the world, the decisions and the archives are.\<close>

theorem context_size_bounded:
  assumes "0 < wm_max_tokens W" and "wm_max_tokens W < 2 ^ 53"
  shows "let b = fst (build_context E W t1 t2 starts sid task active world ds lt ar extra) in
    within_budget b (wm_max_tokens W) \<and>
    (\<exists>fp. cx_fp b = Some fp \<and> in_unit (fp_utilization fp)) \<and>
    (dict_tokens (cx_layers b) \<le> wm_max_tokens W \<or> (\<forall>v \<in> set (dict_values (cx_layers b)). length v \<le> 423))"
proof -
  define m where "m = wm_max_tokens W"
  define f where "f = fill_all m active world ds lt ar (set extra)"
  define used where "used = m - max 0 (snd f)"
  define fp where "fp = base_fingerprint E W active (dict_getd (fst f) L2_WORLD_STATE '''') (fst f) used"
  have m: "0 < m" "m < 2 ^ 53" using assms by (simp_all add: m_def)
  have used: "0 \<le> used" "used \<le> m" using used_bounds m(1) unfolding used_def f_def by auto
  have util: "fp_utilization fp = fdiv (of_int used) (of_int m)"
    using m(1) by (simp add: fp_def base_fingerprint_def m_def Let_def)
  then have unit: "in_unit (fp_utilization fp)" using used m(1) by (simp add: in_unit_ratio)
  have small: "dict_tokens (fst f) \<le> m" if "\<not> should_summarize fp"
  proof -
    have "0 \<le> snd f"
    proof (rule ccontr)
      assume "\<not> 0 \<le> snd f"
      then have "used = m" by (simp add: used_def)
      then show False using that util m(1) fl_nine_tenths by (simp add: should_summarize_def fdiv_def)
    qed
    then show ?thesis
      using fill_l5_tokens [OF fill_inv_l4] unfolding f_def fill_all_def by simp
  qed
  have short: "length v \<le> 423" if "v \<in> snd ` set (map (\<lambda>(k, v). (layer_of_value k, v)) (fst (summarize_old_context E ls)))" for v ls
    using that summarize_layer_length by (auto simp: summarize_old_context_def Let_def)
  have eq: "fst (build_context E W t1 t2 starts sid task active world ds lt ar extra) =
    (if should_summarize fp
     then \<lparr>cx_session = sid, cx_task = task,
        cx_layers = map (\<lambda>(k, v). (layer_of_value k, v)) (fst (summarize_old_context E (layer_names (fst f)))), cx_tokens = used,
        cx_fp = Some (enrich_fingerprint t2 t2 (register_session t1 sid starts) fp sid ''deterministic_summarize''
          (Some (snd (summarize_old_context E (layer_names (fst f))))))\<rparr>
     else \<lparr>cx_session = sid, cx_task = task, cx_layers = fst f, cx_tokens = used,
        cx_fp = Some (enrich_fingerprint t2 t2 (register_session t1 sid starts) fp sid (wm_compression W) None)\<rparr>)"
    by (simp add: build_context_def fp_def used_def f_def m_def Let_def split: prod.split)
  show ?thesis
    unfolding Let_def eq m_def [symmetric]
    using unit used small short
    by (auto simp: within_budget_def enrich_fingerprint_def in_unit_def)
qed

theorem context_size_bounded_witness:
  "within_budget (fst (build_context \<lparr>digest = (\<lambda>_. ''d''), sha256 = (\<lambda>_. ''s'')\<rparr> default_manager 0 1 [] ''s'' ''t''
     (replicate 100000 CHR ''x'') ''{}'' [] None None [])) 8000"
proof -
  have m: "0 < wm_max_tokens default_manager" "wm_max_tokens default_manager < 2 ^ 53" "8000 = wm_max_tokens default_manager"
    by (simp_all add: default_manager_def)
  show ?thesis
    unfolding m(3) by (rule context_size_bounded [OF m(1,2), unfolded Let_def, THEN conjunct1])
qed

text \<open>layer selection: within the budget nothing is dropped; otherwise the active task and the world
  state are always kept, nothing is added, every dropped layer scores no higher than every
  unprotected layer that is kept, and unless the rest fits the budget no unprotected layer is left.\<close>

theorem select_layers_spec:
  assumes "r = select_layers layers budget estimated util age"
    and "score = (\<lambda>k. composite (score_layer k util age 1))"
  shows "set r \<subseteq> set layers \<and> (estimated \<le> budget \<longrightarrow> r = layers) \<and>
    (\<forall>k \<in> {''l1'', ''l2''}. dict_get r k = dict_get layers k) \<and>
    (\<forall>k \<in> set (dict_keys layers) - set (dict_keys r).
       \<forall>k' \<in> set (dict_keys r) - {''l1'', ''l2''}. score k \<le> score k') \<and>
    (estimated \<le> budget \<or> layers_tokens r \<le> budget \<or> set (dict_keys r) \<subseteq> {''l1'', ''l2''})"
proof (cases "estimated \<le> budget")
  case True
  then show ?thesis by (simp add: assms select_layers_def)
next
  case False
  define ks where "ks = drop_order layers util age"
  have r: "r = drop_layers budget ks layers" using False by (simp add: assms(1) select_layers_def ks_def)
  have ks: "set ks = set (dict_keys layers)" "sorted (map score ks)"
    by (simp_all add: ks_def drop_order_def assms(2))
  have sub: "set r \<subseteq> set layers" unfolding r by (rule drop_layers_sub)
  obtain dn rest where d: "ks = dn @ rest" "set (dict_keys layers) - set (dict_keys r) \<subseteq> set dn"
      "set (dict_keys r) \<inter> set dn \<subseteq> protected_layers"
    using drop_layers_prefix [of ks layers budget] unfolding r by blast
  have "score k \<le> score k'"
    if k: "k \<in> set (dict_keys layers) - set (dict_keys r)" and k': "k' \<in> set (dict_keys r) - {''l1'', ''l2''}" for k k'
  proof -
    have "k \<in> set dn" using d(2) k by blast
    moreover have "k' \<in> set ks" using k' ks(1) sub by force
    then have "k' \<in> set rest"
      using k' d(3) unfolding d(1) protected_layers_def by auto
    ultimately show ?thesis using ks(2) unfolding d(1) by (auto simp: sorted_append)
  qed
  moreover have "dict_get r k = dict_get layers k" if "k \<in> {''l1'', ''l2''}" for k
    unfolding r using that by (intro drop_layers_get) (simp add: protected_layers_def)
  moreover have "layers_tokens r \<le> budget \<or> set (dict_keys r) \<subseteq> {''l1'', ''l2''}"
    using drop_layers_end [of budget ks layers] sub ks(1) unfolding r [symmetric] protected_layers_def by force
  ultimately show ?thesis using sub False by blast
qed

theorem select_layers_spec_witness:
  "dict_get (select_layers [(''l1'', ''a''), (''l2'', ''b''), (''l3'', replicate 40 CHR ''x'')] 1 9 0 0) ''l1'' = Some ''a''"
  using select_layers_spec [OF refl refl, of "[(''l1'', ''a''), (''l2'', ''b''), (''l3'', replicate 40 CHR ''x'')]" 1 9 0 0]
  by simp

end
