(* ===== verification/RuntimeSM.thy ===== *)
theory RuntimeSM
  imports Schemas
begin

text \<open>
  \<open>core/runtime.py\<close>: the runtime state machine.  A call is a computation over the machine,
  so that a raise keeps what was written before it; the timestamp that the code draws is an
  argument.  The locale \<open>lifecycle\<close> states what a table of allowed transitions promises
  (terminal states have no exit) and what follows for every history.
\<close>

section \<open>The machine\<close>

record state_machine =
  sm_correlation :: string
  sm_session :: string
  sm_state :: runtime_state
  sm_history :: "(runtime_state \<times> time) list"
  sm_stuck :: nat
  sm_max_stuck :: nat
  sm_policy :: "adaptive_policy option"
  sm_recompute :: bool
  sm_tool_names :: "string list"
  sm_delegations :: "string list"
  sm_event_keys :: "string list"

type_synonym 'a sm_comp = "(state_machine, exn, 'a) comp"

definition new_sm :: "string \<Rightarrow> string \<Rightarrow> state_machine" where
  "new_sm cid sid = \<lparr>sm_correlation = cid, sm_session = sid, sm_state = IDLE, sm_history = [],
     sm_stuck = 0, sm_max_stuck = 5, sm_policy = None, sm_recompute = False, sm_tool_names = [],
     sm_delegations = [], sm_event_keys = []\<rparr>"

definition transition :: "time \<Rightarrow> runtime_state \<Rightarrow> runtime_state sm_comp" where
  "transition now target sm =
     (if target \<notin> valid_targets (sm_state sm) \<and> sm_state sm \<noteq> target
      then (Inl (InvalidStateTransition (sm_state sm) target), sm)
      else (Inr target, sm\<lparr>sm_state := target, sm_history := sm_history sm @ [(target, now)]\<rparr>))"

definition start :: "time \<Rightarrow> runtime_state sm_comp" where
  "start now = transition now PERCEIVING"

definition detect_stuck :: "time \<Rightarrow> bool \<Rightarrow> runtime_state option sm_comp" where
  "detect_stuck now progressed sm =
     (if progressed then (Inr None, sm\<lparr>sm_stuck := 0\<rparr>)
      else let sm' = sm\<lparr>sm_stuck := sm_stuck sm + 1\<rparr> in
        if sm_stuck sm' \<ge> sm_max_stuck sm'
        then bnd (transition now REPLANNING) (\<lambda>st. ret (Some st)) sm'
        else (Inr None, sm'))"

definition fail :: "time \<Rightarrow> runtime_state sm_comp" where
  "fail now sm = (Inr FAILED, sm\<lparr>sm_history := sm_history sm @ [(FAILED, now)], sm_state := FAILED\<rparr>)"

definition complete :: "time \<Rightarrow> runtime_state sm_comp" where
  "complete now = transition now COMPLETED"

lemmas sm_op_defs = transition_def start_def fail_def complete_def

section \<open>Tables of allowed transitions\<close>

locale lifecycle =
  fixes edges :: "'st \<Rightarrow> 'st set" and initial :: 'st and terminal :: "'st \<Rightarrow> bool"
  assumes terminal_no_exit: "terminal s \<Longrightarrow> edges s = {}"
    and initial_live: "\<not> terminal initial"
begin

definition step_ok :: "'st \<Rightarrow> 'st \<Rightarrow> bool" where
  "step_ok a b \<longleftrightarrow> b \<in> edges a \<or> a = b"

fun path_from :: "'st \<Rightarrow> 'st list \<Rightarrow> bool" where
  "path_from a [] = True"
| "path_from a (b # bs) = (step_ok a b \<and> path_from b bs)"

lemma path_append: "path_from a (bs @ cs) \<longleftrightarrow> path_from a bs \<and> path_from (last (a # bs)) cs"
  by (induction bs arbitrary: a) auto

lemma path_snoc: "path_from a (bs @ [c]) \<longleftrightarrow> path_from a bs \<and> step_ok (last (a # bs)) c"
  by (simp add: path_append)

lemma terminal_stays: "terminal a \<Longrightarrow> path_from a bs \<Longrightarrow> set bs \<subseteq> {a}"
  by (induction bs) (auto simp: step_ok_def terminal_no_exit)

text \<open>After a terminal state, a path only repeats it.\<close>

lemma after_terminal:
  assumes "path_from initial (bs @ [t] @ cs)" and "terminal t"
  shows "set cs \<subseteq> {t}"
  using assms terminal_stays [of t cs] by (simp add: path_append)

end

interpretation lc: lifecycle valid_targets IDLE "\<lambda>s. s \<in> {FAILED, COMPLETED}"
  by unfold_locales auto

section \<open>Behaviour of the operations\<close>

lemma transition_Inr_iff:
  "fst (transition now t sm) = Inr st \<longleftrightarrow> st = t \<and> (t \<in> valid_targets (sm_state sm) \<or> sm_state sm = t)"
  by (auto simp: transition_def)

lemma transition_Inr:
  "transition now t sm = (Inr st, sm') \<Longrightarrow>
     st = t \<and> lc.step_ok (sm_state sm) t \<and>
     sm' = sm\<lparr>sm_state := t, sm_history := sm_history sm @ [(t, now)]\<rparr>"
  by (auto simp: transition_def lc.step_ok_def split: if_splits)

lemma transition_Inl:
  "transition now t sm = (Inl e, sm') \<Longrightarrow>
     sm' = sm \<and> e = InvalidStateTransition (sm_state sm) t \<and> \<not> lc.step_ok (sm_state sm) t"
  by (auto simp: transition_def lc.step_ok_def split: if_splits)

text \<open>The machine agrees with its history, and the history is a path through the table, up to
  the point where \<open>fail\<close> forced the machine out of it.\<close>

definition history_states :: "state_machine \<Rightarrow> runtime_state list" where
  "history_states sm = map fst (sm_history sm)"

definition wf_sm :: "state_machine \<Rightarrow> bool" where
  "wf_sm sm \<longleftrightarrow> sm_state sm = last (IDLE # history_states sm) \<and> lc.path_from IDLE (history_states sm)"

lemma wf_new_sm: "wf_sm (new_sm cid sid)"
  by (simp add: wf_sm_def new_sm_def history_states_def)

lemma keeps_wf_transition: "keeps wf_sm (transition now t)"
proof (rule keepsI)
  fix sm
  assume wf: "wf_sm sm"
  show "wf_sm (snd (transition now t sm))"
  proof (cases "lc.step_ok (sm_state sm) t")
    case True
    then have "transition now t sm =
        (Inr t, sm\<lparr>sm_state := t, sm_history := sm_history sm @ [(t, now)]\<rparr>)"
      by (auto simp: transition_def lc.step_ok_def)
    then show ?thesis using wf True by (auto simp: wf_sm_def history_states_def lc.path_append)
  next
    case False
    then have "snd (transition now t sm) = sm" by (auto simp: transition_def lc.step_ok_def)
    then show ?thesis using wf by simp
  qed
qed

lemma wf_sm_stuck: "wf_sm (sm\<lparr>sm_stuck := n\<rparr>) = wf_sm sm"
  by (simp add: wf_sm_def history_states_def)

lemma keeps_wf_detect_stuck: "keeps wf_sm (detect_stuck now p)"
proof (rule keepsI)
  fix sm
  assume wf: "wf_sm sm"
  have "keeps wf_sm (bnd (transition now REPLANNING) (\<lambda>st. ret (Some st)))"
    by (intro keeps_bnd keeps_wf_transition keeps_ret)
  then show "wf_sm (snd (detect_stuck now p sm))"
    using wf by (auto simp: detect_stuck_def Let_def wf_sm_stuck keeps_def)
qed

lemma keeps_wf_start: "keeps wf_sm (start now)" and keeps_wf_complete: "keeps wf_sm (complete now)"
  by (simp_all add: start_def complete_def keeps_wf_transition)

text \<open>Any sequence of calls, raising ones included.\<close>

datatype sm_call = CallTransition runtime_state | CallStart | CallStuck bool | CallFail | CallComplete

fun sm_exec :: "time \<Rightarrow> sm_call \<Rightarrow> state_machine \<Rightarrow> state_machine" where
  "sm_exec now (CallTransition t) sm = snd (transition now t sm)"
| "sm_exec now CallStart sm = snd (start now sm)"
| "sm_exec now (CallStuck p) sm = snd (detect_stuck now p sm)"
| "sm_exec now CallFail sm = snd (fail now sm)"
| "sm_exec now CallComplete sm = snd (complete now sm)"

inductive sm_reachable :: "state_machine \<Rightarrow> bool" where
  fresh: "sm_reachable (new_sm cid sid)"
| call: "sm_reachable sm \<Longrightarrow> sm_reachable (sm_exec now c sm)"

inductive sm_reachable_nofail :: "state_machine \<Rightarrow> bool" where
  fresh: "sm_reachable_nofail (new_sm cid sid)"
| call: "sm_reachable_nofail sm \<Longrightarrow> c \<noteq> CallFail \<Longrightarrow> sm_reachable_nofail (sm_exec now c sm)"

lemma nofail_wf: "sm_reachable_nofail sm \<Longrightarrow> wf_sm sm"
proof (induction rule: sm_reachable_nofail.induct)
  case (fresh cid sid)
  show ?case by (rule wf_new_sm)
next
  case (call sm c now)
  then show ?case
    using keeps_wf_transition keeps_wf_start keeps_wf_detect_stuck keeps_wf_complete
    by (cases c) (auto simp: keeps_def)
qed

section \<open>Properties\<close>

text \<open>whatever calls are made on a fresh machine other than \<open>fail\<close>, and whichever of them
  raise, its history is a path through \<open>VALID_TRANSITIONS\<close> (self-loops allowed) that ends in the
  current state, and once a history holds \<open>COMPLETED\<close> or \<open>FAILED\<close> only that state follows.\<close>

theorem sm_history_is_path:
  assumes "sm_reachable_nofail sm"
  shows "lc.path_from IDLE (history_states sm) \<and> sm_state sm = last (IDLE # history_states sm) \<and>
    (\<forall>before t after. history_states sm = before @ [t] @ after \<longrightarrow> t \<in> {FAILED, COMPLETED} \<longrightarrow> set after \<subseteq> {t})"
proof -
  have wf: "wf_sm sm" using assms by (rule nofail_wf)
  then have p: "lc.path_from IDLE (history_states sm)" by (simp add: wf_sm_def)
  have "set after \<subseteq> {t}"
    if "history_states sm = before @ [t] @ after" "t \<in> {FAILED, COMPLETED}" for before t after
    using p that by (intro lc.after_terminal [of before]) simp_all
  then show ?thesis using wf by (simp add: wf_sm_def)
qed

definition demo_sm :: state_machine where
  "demo_sm = sm_exec 3 CallComplete (sm_exec 2 (CallTransition REASONING) (sm_exec 1 CallStart (new_sm ''c'' ''s'')))"

theorem sm_history_is_path_witness:
  "sm_reachable_nofail demo_sm \<and> sm_state demo_sm = COMPLETED \<and>
   history_states demo_sm = [PERCEIVING, REASONING, COMPLETED] \<and>
   lc.path_from IDLE (history_states demo_sm)"
proof -
  have r: "sm_reachable_nofail demo_sm"
    unfolding demo_sm_def by (intro sm_reachable_nofail.call sm_reachable_nofail.fresh) simp_all
  then show ?thesis using sm_history_is_path [OF r]
    by (simp add: demo_sm_def sm_op_defs new_sm_def history_states_def)
qed

text \<open>\<open>complete\<close> returns exactly when the machine is in one of the five states that may
  finish; in the others it raises the transition error and leaves the machine as it was.  In
  particular a machine that waits for a tool cannot complete.\<close>

theorem complete_iff:
  "complete now sm =
     (if sm_state sm \<in> {REASONING, EXECUTING, OBSERVING, ESCALATED, COMPLETED}
      then (Inr COMPLETED, sm\<lparr>sm_state := COMPLETED, sm_history := sm_history sm @ [(COMPLETED, now)]\<rparr>)
      else (Inl (InvalidStateTransition (sm_state sm) COMPLETED), sm))"
  by (cases "sm_state sm") (simp_all add: complete_def transition_def)

text \<open>The machine after \<open>n\<close> iterations without progress, raising ones included.\<close>

fun stuck_n :: "nat \<Rightarrow> time \<Rightarrow> state_machine \<Rightarrow> state_machine" where
  "stuck_n 0 now sm = sm"
| "stuck_n (Suc n) now sm = snd (detect_stuck now False (stuck_n n now sm))"

lemma stuck_n_below:
  assumes "sm_stuck sm = 0" and "n < sm_max_stuck sm"
  shows "stuck_n n now sm = sm\<lparr>sm_stuck := n\<rparr>"
  using assms(2)
proof (induction n)
  case 0
  then show ?case using assms(1) by simp
next
  case (Suc n)
  then show ?case by (simp add: detect_stuck_def Let_def)
qed

text \<open>on a fresh counter, the calls of \<open>detect_stuck\<close> without progress only count until the
  limit (five); the call that reaches it moves to \<open>REPLANNING\<close> where the table allows that
  and raises where it does not, with the counter at the limit either way.\<close>

theorem detect_stuck_fires:
  assumes "sm_stuck sm = 0" and "0 < sm_max_stuck sm"
  shows "detect_stuck now False (stuck_n (sm_max_stuck sm - 1) now sm) =
    (let sm' = sm\<lparr>sm_stuck := sm_max_stuck sm\<rparr> in
     if REPLANNING \<in> valid_targets (sm_state sm) \<or> sm_state sm = REPLANNING
     then (Inr (Some REPLANNING), sm'\<lparr>sm_state := REPLANNING, sm_history := sm_history sm @ [(REPLANNING, now)]\<rparr>)
     else (Inl (InvalidStateTransition (sm_state sm) REPLANNING), sm'))"
proof -
  have "stuck_n (sm_max_stuck sm - 1) now sm = sm\<lparr>sm_stuck := sm_max_stuck sm - 1\<rparr>"
    using assms by (intro stuck_n_below) auto
  then show ?thesis
    using assms(2) by (auto simp: detect_stuck_def Let_def bnd_def transition_def ret_def)
qed

theorem detect_stuck_fires_witness:
  "fst (detect_stuck 9 False (stuck_n 4 9 (new_sm ''c'' ''s''\<lparr>sm_state := REASONING\<rparr>))) = Inr (Some REPLANNING) \<and>
   fst (detect_stuck 9 False (stuck_n 4 9 (new_sm ''c'' ''s''))) = Inl (InvalidStateTransition IDLE REPLANNING)"
  using detect_stuck_fires [of "new_sm ''c'' ''s''\<lparr>sm_state := REASONING\<rparr>" 9]
    detect_stuck_fires [of "new_sm ''c'' ''s''" 9]
  by (simp add: new_sm_def Let_def)

end
