(* ===== verification/System.thy ===== *)
theory System
  imports Stores Health Context RuntimeSM
begin

text \<open>
  The process state that the runtime modules share (their module globals, one field each) and
  what the process takes from outside: the clock, \<open>uuid4\<close>, HTTP, the language model (an agent run raises or returns its content, an instance of the
  response class as \<open>PModel\<close>), JSON and ISO texts, the text of an exception, the JSON
  text and checksum of a world state.  A module function is a computation over this state.
  Only the in-memory backend (\<open>use_in_memory_store\<close>) is modelled: a connection is then a bare
  marker object and is not an argument here.
\<close>

record rt_env =
  re_env :: env
  re_now :: "nat \<Rightarrow> time"
  re_uuid :: "nat \<Rightarrow> string"
  re_settings :: settings
  re_http :: "nat \<Rightarrow> string \<Rightarrow> pyval \<Rightarrow> (nat \<times> pyval) option"
  re_llm :: "nat \<Rightarrow> string \<Rightarrow> string \<Rightarrow> exn + pyval"
  re_has_model :: bool
  re_urlparse :: "string \<Rightarrow> string \<times> string option"
  re_private_ip :: "string \<Rightarrow> bool option"
  re_payload_size :: "pyval \<Rightarrow> nat"
  re_cache_key :: "string \<Rightarrow> pyval \<Rightarrow> string"
  re_repr :: "pyval \<Rightarrow> string"
  re_ws_json :: "world_state \<Rightarrow> string"
  re_ws_checksum :: "world_state \<Rightarrow> string"
  re_iso :: "time \<Rightarrow> string"
  re_dt_json :: "datetime \<Rightarrow> string"
  re_json_loads :: "string \<Rightarrow> pyval option"
  re_json_dumps :: "pyval \<Rightarrow> string"
  re_float_str :: "rat \<Rightarrow> string"
  re_exn_str :: "exn \<Rightarrow> string"

record sys =
  sy_clock :: nat
  sy_uuid :: nat
  sy_ext :: nat
  sy_spans :: span_ctx
  sy_intel :: intel_store
  sy_replay :: replay_store
  sy_gov :: gov_store
  sy_db :: db
  sy_biases :: bias_table
  sy_locks :: "string list"
  sy_crisis :: "crisis_type option"
  sy_health :: health_registry
  sy_starts :: session_starts
  sy_prompts :: "(string \<times> string, string) dict"
  sy_cache :: "(string, pyval \<times> rat) dict"
  sy_retries :: "(string, nat) dict"

type_synonym 'a rt = "(sys, exn, 'a) comp"

definition init_sys :: sys where
  "init_sys = \<lparr>sy_clock = 0, sy_uuid = 0, sy_ext = 0, sy_spans = empty_span_ctx,
     sy_intel = reset_intelligence_store, sy_replay = reset_replay_store, sy_gov = reset_governance_memory,
     sy_db = reset_db 0, sy_biases = [], sy_locks = [], sy_crisis = None, sy_health = empty_registry,
     sy_starts = [], sy_prompts = [], sy_cache = [], sy_retries = []\<rparr>"

definition reset_in_memory_store :: "time \<Rightarrow> sys \<Rightarrow> sys" where
  "reset_in_memory_store now s = s\<lparr>sy_biases := [], sy_intel := reset_intelligence_store, sy_prompts := [],
     sy_db := reset_db now, sy_health := (sy_health s)\<lparr>hr_stored := []\<rparr>, sy_replay := reset_replay_store,
     sy_gov := reset_governance_memory\<rparr>"

section \<open>Outside inputs\<close>

definition fresh_uuid :: "rt_env \<Rightarrow> string rt" where
  "fresh_uuid R s = (Inr (re_uuid R (sy_uuid s)), s\<lparr>sy_uuid := sy_uuid s + 1\<rparr>)"

definition clock :: "rt_env \<Rightarrow> time rt" where
  "clock R s = (Inr (re_now R (sy_clock s)), s\<lparr>sy_clock := sy_clock s + 1\<rparr>)"

definition seconds_of :: "time \<Rightarrow> rat" where
  "seconds_of t = fdiv (of_int t) 1000000"

definition outside :: "(nat \<Rightarrow> 'a) \<Rightarrow> 'a rt" where
  "outside f s = (Inr (f (sy_ext s)), s\<lparr>sy_ext := sy_ext s + 1\<rparr>)"

section \<open>Parts of the state\<close>

definition on_db :: "(db \<Rightarrow> db) \<Rightarrow> unit rt" where
  "on_db f = mods (\<lambda>s. s\<lparr>sy_db := f (sy_db s)\<rparr>)"

definition on_intel :: "(intel_store \<Rightarrow> intel_store) \<Rightarrow> unit rt" where
  "on_intel f = mods (\<lambda>s. s\<lparr>sy_intel := f (sy_intel s)\<rparr>)"

definition on_gov :: "(gov_store \<Rightarrow> gov_store) \<Rightarrow> unit rt" where
  "on_gov f = mods (\<lambda>s. s\<lparr>sy_gov := f (sy_gov s)\<rparr>)"

definition on_replay :: "(replay_store \<Rightarrow> replay_store) \<Rightarrow> unit rt" where
  "on_replay f = mods (\<lambda>s. s\<lparr>sy_replay := f (sy_replay s)\<rparr>)"

definition on_spans :: "(span_ctx \<Rightarrow> span_ctx) \<Rightarrow> unit rt" where
  "on_spans f = mods (\<lambda>s. s\<lparr>sy_spans := f (sy_spans s)\<rparr>)"

definition span_begin :: "string \<Rightarrow> string \<Rightarrow> unit rt" where
  "span_begin sid cid = on_spans (begin_session sid cid)"

definition span_start :: "rt_env \<Rightarrow> span_type \<Rightarrow> string \<Rightarrow> (string \<times> pyval) list \<Rightarrow> string rt" where
  "span_start R ty rs meta = bnd (fresh_uuid R) (\<lambda>u. bnd (clock R) (\<lambda>t.
     seqc (on_spans (\<lambda>c. snd (start_span (re_env R) u t ty rs None meta c))) (ret u)))"

definition span_end :: "rt_env \<Rightarrow> string \<Rightarrow> span_status \<Rightarrow> (string \<times> pyval) list \<Rightarrow> unit rt" where
  "span_end R u st meta = bnd (clock R) (\<lambda>t. on_spans (end_span u t st meta))"

definition drain_spans :: "string list rt" where
  "drain_spans s = (let (us, c) = drain_pending_spans (sy_spans s) in (Inr us, s\<lparr>sy_spans := c\<rparr>))"

text \<open>The queries of \<open>core/persistence.py\<close> in memory mode, on the process state.\<close>

definition query_execution_spans :: "sys \<Rightarrow> string \<Rightarrow> string option \<Rightarrow> span list" where
  "query_execution_spans s sid cid = get_spans (sy_spans s) (sy_intel s) sid cid"

definition query_cognitive_telemetry :: "sys \<Rightarrow> string \<Rightarrow> string option \<Rightarrow> telemetry list" where
  "query_cognitive_telemetry s sid cid = get_telemetry (sy_intel s) sid cid"

definition query_runtime_health :: "sys \<Rightarrow> string \<Rightarrow> runtime_health list" where
  "query_runtime_health s sid = get_health_snapshots (sy_intel s) sid"

definition get_replay_snapshots :: "sys \<Rightarrow> string \<Rightarrow> pyval list" where
  "get_replay_snapshots s sid = get_replay_snapshots_memory (sy_replay s) sid"

definition get_replay_baseline :: "sys \<Rightarrow> string \<Rightarrow> string option" where
  "get_replay_baseline s sid = get_baseline_fingerprint_memory (sy_replay s) sid"

definition get_replay_baseline_meta :: "sys \<Rightarrow> string \<Rightarrow> baseline_meta option" where
  "get_replay_baseline_meta s sid = get_baseline_record_memory (sy_replay s) sid"

definition query_tool_reliability_profiles :: "sys \<Rightarrow> tool_profile list" where
  "query_tool_reliability_profiles s = get_tool_profiles (sy_intel s)"

definition query_stability_events :: "sys \<Rightarrow> string \<Rightarrow> stability_event list" where
  "query_stability_events s sid = get_stability_events (sy_intel s) sid"

definition query_governance_events :: "sys \<Rightarrow> string \<Rightarrow> governance_event list" where
  "query_governance_events s sid = get_governance_events (sy_intel s) sid"

definition query_session_diagnostics_row :: "sys \<Rightarrow> string \<Rightarrow> diagnostics option" where
  "query_session_diagnostics_row s sid = get_session_diagnostics (sy_intel s) sid"

section \<open>core/adaptive_signals.py\<close>

definition latency_pressure :: "span list \<Rightarrow> rat" where
  "latency_pressure spans =
     (let lat = sort (List.map_filter (\<lambda>s. case sp_completed s of
            Some e \<Rightarrow> if sp_type s = AGENT_REASONING
              then Some (fmul (fdiv (of_int (e - sp_started s)) 1000000) 1000) else None
          | None \<Rightarrow> None) spans)
      in if lat = [] then 0
         else let i = min (length lat - 1) (nat (trunc (fmul (of_nat (length lat)) (fl (95/100)))))
           in min 1 (fdiv (lat ! i) 30000))"

text \<open>What the caller passes; the defaults of the keyword arguments are \<open>no_hints\<close>.\<close>

record signal_hints =
  hi_health :: "runtime_health option"
  hi_replay_confidence :: rat
  hi_drift :: rat
  hi_pressure :: rat
  hi_tool_failure :: rat
  hi_stability :: rat
  hi_governance :: rat

definition no_hints :: signal_hints where
  "no_hints = \<lparr>hi_health = None, hi_replay_confidence = 1, hi_drift = 0, hi_pressure = 0,
     hi_tool_failure = 0, hi_stability = 0, hi_governance = 0\<rparr>"

definition build_signals ::
  "int \<Rightarrow> string \<Rightarrow> string \<Rightarrow> runtime_health option \<Rightarrow> telemetry list \<Rightarrow> span list \<Rightarrow> signal_hints \<Rightarrow> adaptive_signals" where
  "build_signals age sid cid health telemetry spans hi =
     (let mine = (case health of Some h \<Rightarrow> if rh_correlation h = cid then Some h else None | None \<Rightarrow> None);
          retry = (case mine of None \<Rightarrow> retry_density telemetry | Some h \<Rightarrow> max (retry_density telemetry) (rh_retry_pressure h));
          pressure0 = (case mine of None \<Rightarrow> hi_pressure hi | Some h \<Rightarrow> max (hi_pressure hi) (rh_context_pressure h));
          confidence = (case mine of None \<Rightarrow> hi_replay_confidence hi
            | Some h \<Rightarrow> if hi_replay_confidence hi = 1 \<and> hi_drift hi = 0 then rh_replay_confidence h else hi_replay_confidence hi);
          failure = (case mine of None \<Rightarrow> hi_tool_failure hi | Some h \<Rightarrow> max (hi_tool_failure hi) (rh_tool_failure h));
          pressure = (if telemetry \<noteq> [] \<and> pressure0 = 0 then te_context_pressure (last telemetry) else pressure0)
      in \<lparr>sg_correlation = cid, sg_session = sid, sg_retry_density = round4 retry,
          sg_replay_confidence = round4 confidence, sg_drift_severity = round4 (hi_drift hi),
          sg_context_pressure = round4 pressure, sg_tool_failure_rate = round4 failure,
          sg_health_band = (case mine of None \<Rightarrow> HEALTHY | Some h \<Rightarrow> rh_band h),
          sg_degraded = (case mine of None \<Rightarrow> False | Some h \<Rightarrow> rh_degraded h),
          sg_session_age = age, sg_latency_pressure = round4 (latency_pressure spans),
          sg_stability_pressure = round4 (hi_stability hi), sg_governance_pressure = round4 (hi_governance hi)\<rparr>)"

definition collect_adaptive_signals :: "rt_env \<Rightarrow> string \<Rightarrow> string \<Rightarrow> signal_hints \<Rightarrow> adaptive_signals rt" where
  "collect_adaptive_signals R sid cid hi =
     bnd (reads (\<lambda>s. case hi_health hi of Some h \<Rightarrow> Some h | None \<Rightarrow> last_opt (query_runtime_health s sid))) (\<lambda>health.
     bnd (reads (\<lambda>s. query_cognitive_telemetry s sid (Some cid))) (\<lambda>telemetry.
     bnd (reads (\<lambda>s. query_execution_spans s sid (Some cid))) (\<lambda>spans.
     bnd (clock R) (\<lambda>t1. bnd (clock R) (\<lambda>t2.
     bnd (reads sy_starts) (\<lambda>starts.
     ret (build_signals (context_age_seconds (seconds_of t1) (seconds_of t2) sid starts) sid cid health telemetry spans hi)))))))"

section \<open>Lemmas\<close>

lemmas part_defs [comp_simps] = on_db_def on_intel_def on_gov_def on_replay_def on_spans_def

lemma fresh_uuid_run [comp_simps]: "bnd (fresh_uuid R) f s = f (re_uuid R (sy_uuid s)) (s\<lparr>sy_uuid := sy_uuid s + 1\<rparr>)"
  by (simp add: fresh_uuid_def bnd_def)

lemma clock_run [comp_simps]: "bnd (clock R) f s = f (re_now R (sy_clock s)) (s\<lparr>sy_clock := sy_clock s + 1\<rparr>)"
  by (simp add: clock_def bnd_def)

lemma outside_run [comp_simps]: "bnd (outside g) f s = f (g (sy_ext s)) (s\<lparr>sy_ext := sy_ext s + 1\<rparr>)"
  by (simp add: outside_def bnd_def)

text \<open>Properties of the state that only read some fields are kept by operations on the others.\<close>

named_theorems rt_keeps "computations that keep a property of the state"

lemma keeps_fresh_uuid [rt_keeps]: "(\<And>s n. P s \<Longrightarrow> P (s\<lparr>sy_uuid := n\<rparr>)) \<Longrightarrow> keeps P (fresh_uuid R)"
  by (simp add: keeps_def fresh_uuid_def)

lemma keeps_clock [rt_keeps]: "(\<And>s n. P s \<Longrightarrow> P (s\<lparr>sy_clock := n\<rparr>)) \<Longrightarrow> keeps P (clock R)"
  by (simp add: keeps_def clock_def)

lemma keeps_outside [rt_keeps]: "(\<And>s n. P s \<Longrightarrow> P (s\<lparr>sy_ext := n\<rparr>)) \<Longrightarrow> keeps P (outside f)"
  by (simp add: keeps_def outside_def)

lemma keeps_on_spans [rt_keeps]: "(\<And>s c. P s \<Longrightarrow> P (s\<lparr>sy_spans := c\<rparr>)) \<Longrightarrow> keeps P (on_spans f)"
  by (auto simp: on_spans_def)

lemma keeps_drain [rt_keeps]: "(\<And>s c. P s \<Longrightarrow> P (s\<lparr>sy_spans := c\<rparr>)) \<Longrightarrow> keeps P drain_spans"
  by (simp add: keeps_def drain_spans_def split: prod.split)

text \<open>Signals are always within their range: what the policy is derived from.\<close>

lemma latency_pressure_unit:
  assumes "\<forall>s \<in> set spans. \<forall>e. sp_completed s = Some e \<longrightarrow> sp_started s \<le> e"
  shows "in_unit (latency_pressure spans)"
proof -
  define f where "f = (\<lambda>s :: span. case sp_completed s of
            Some e \<Rightarrow> if sp_type s = AGENT_REASONING
              then Some (fmul (fdiv (of_int (e - sp_started s)) 1000000) 1000) else None
          | None \<Rightarrow> None)"
  define lat where "lat = sort (List.map_filter f spans)"
  have nonneg: "0 \<le> x" if xl: "x \<in> set lat" for x
  proof -
    obtain s where s: "s \<in> set spans" "f s = Some x"
      using xl by (auto simp: lat_def List.map_filter_def)
    then obtain e where se: "sp_completed s = Some e" "x = fmul (fdiv (of_int (e - sp_started s)) 1000000) 1000"
      by (cases "sp_completed s") (auto simp: f_def simp del: of_int_diff split: if_splits)
    then have "0 \<le> fdiv (of_int (e - sp_started s)) 1000000"
      using assms s unfolding fdiv_def by (intro b64.rnd_nonneg) auto
    then show ?thesis unfolding se(2) fmul_def by (intro b64.rnd_nonneg) simp
  qed
  have "in_unit (min 1 (fdiv (lat ! i) 30000))" if "i < length lat" for i
    using nonneg [OF nth_mem [OF that]] unfolding fdiv_def by (intro in_unit_cap b64.rnd_nonneg) simp
  moreover have "min (length lat - 1) j < length lat" if "lat \<noteq> []" for j
    using that by (cases lat) auto
  ultimately show ?thesis by (simp add: latency_pressure_def f_def [symmetric] lat_def [symmetric] Let_def)
qed

end
