(* ===== verification/Tools.thy ===== *)
theory Tools
  imports System
begin

text \<open>
  The tool layer: \<open>tools/registry.py\<close>, \<open>tools/stubs/business.py\<close>, \<open>tools/github/client.py\<close> with
  \<open>core/mcp_security.py\<close>, \<open>tools/normalizer.py\<close>, \<open>core/cache.py\<close>, \<open>tools/router.py\<close> and \<open>tools/retry.py\<close>.
  URL parsing, the size of a JSON text and the HTTP exchange are inputs of the environment.
  The cache is the in-process fallback; with Redis it is theory RedisCache.
\<close>

section \<open>tools/registry.py\<close>

record capability =
  ca_name :: string
  ca_class :: string
  ca_agents :: "string list"
  ca_level :: nat

type_synonym registry = "(string, capability) dict"

definition register_capability :: "capability \<Rightarrow> registry \<Rightarrow> registry" where
  "register_capability c r = dict_set (ca_name c) c r"

definition agents_for_capability :: "registry \<Rightarrow> string \<Rightarrow> string \<Rightarrow> string list" where
  "agents_for_capability r cls area = concat (map ca_agents
     (filter (\<lambda>c. ca_class c = cls \<and> (area = '''' \<or> substr area (ca_name c))) (dict_values r)))"

definition is_allowed :: "registry \<Rightarrow> string \<Rightarrow> string \<Rightarrow> bool" where
  "is_allowed r tool agent = (case dict_get r tool of None \<Rightarrow> False | Some c \<Rightarrow> agent \<in> set (ca_agents c))"

definition vs_tools :: "(string \<times> string \<times> string list \<times> nat) list" where
  "vs_tools =
    [(''list_github_prs'', ''READ'', [''cto''], 0), (''get_repo_health'', ''READ'', [''cto''], 0),
     (''analyze_incidents'', ''ANALYZE'', [''cto''], 0), (''prioritize_bugs'', ''PLAN'', [''cto''], 1),
     (''read_kpi_dashboard'', ''READ'', [''ceo''], 0), (''create_initiative'', ''PLAN'', [''ceo''], 1),
     (''escalate_to_human'', ''PLAN'', [''ceo''], 1), (''get_cashflow_summary'', ''READ'', [''cfo''], 0),
     (''calculate_runway'', ''ANALYZE'', [''cfo''], 0), (''detect_blockers'', ''ANALYZE'', [''coo''], 0),
     (''list_active_tasks'', ''READ'', [''coo''], 0), (''get_analytics_summary'', ''READ'', [''cmo''], 0),
     (''propose_campaign'', ''PLAN'', [''cmo''], 1)]"

definition build_vs_registry :: registry where
  "build_vs_registry = fold (\<lambda>(n, cls, ags, l). register_capability
     \<lparr>ca_name = n, ca_class = cls, ca_agents = ags, ca_level = l\<rparr>) vs_tools []"

section \<open>tools/stubs/business.py\<close>

text \<open>A handler gets its keyword arguments and returns a value or the text of the exception.\<close>

type_synonym handler = "(string, pyval) dict \<Rightarrow> (string + pyval) rt"

text \<open>How Python binds keyword arguments: an unknown name is reported first, then missing ones.\<close>

definition check_kwargs :: "string \<Rightarrow> string list \<Rightarrow> string list \<Rightarrow> (string, pyval) dict \<Rightarrow> string option" where
  "check_kwargs fname required optional kw =
     (case List.find (\<lambda>k. k \<notin> set (required @ optional)) (dict_keys kw) of
        Some k \<Rightarrow> Some (fname @ ''() got an unexpected keyword argument '' @ [CHR 39] @ k @ [CHR 39])
      | None \<Rightarrow> (case List.find (\<lambda>k. k \<notin> set (dict_keys kw)) required of
          Some k \<Rightarrow> Some (fname @ ''() missing 1 required positional argument: '' @ [CHR 39] @ k @ [CHR 39])
        | None \<Rightarrow> None))"

definition pure_handler :: "string \<Rightarrow> string list \<Rightarrow> string list \<Rightarrow> (sys \<Rightarrow> (string, pyval) dict \<Rightarrow> pyval) \<Rightarrow> handler" where
  "pure_handler fname required optional f kw = (case check_kwargs fname required optional kw of
     Some e \<Rightarrow> ret (Inl e) | None \<Rightarrow> reads (\<lambda>s. Inr (f s kw)))"

definition company_of :: "sys \<Rightarrow> company" where
  "company_of s = ws_company (db_world (sy_db s))"

definition read_kpi_dashboard :: handler where
  "read_kpi_dashboard = pure_handler ''read_kpi_dashboard'' [] [] (\<lambda>s kw. let c = company_of s in
     pdict [(''mrr_usd'', PFloat (co_mrr_usd c)), (''churn_rate'', PFloat (co_churn_rate c)),
       (''burn_rate_usd'', PFloat (co_burn_rate_usd c)), (''runway_months'', PFloat (co_runway_months c))])"

definition get_cashflow_summary :: handler where
  "get_cashflow_summary = pure_handler ''get_cashflow_summary'' [] [] (\<lambda>s kw. let c = company_of s in
     pdict [(''monthly_revenue'', PFloat (co_mrr_usd c)), (''monthly_burn'', PFloat (co_burn_rate_usd c)),
       (''net_cashflow'', PFloat (fsub (co_mrr_usd c) (co_burn_rate_usd c)))])"

definition calculate_runway :: handler where
  "calculate_runway = pure_handler ''calculate_runway'' [] [] (\<lambda>s kw. let c = company_of s in
     pdict [(''runway_months'', PFloat (co_runway_months c)), (''burn_rate_usd'', PFloat (co_burn_rate_usd c))])"

definition detect_blockers :: handler where
  "detect_blockers = pure_handler ''detect_blockers'' [] [] (\<lambda>s kw.
     pdict [(''blockers'', pstrs [''Auth middleware PR blocked'', ''CI pipeline failing on main'']), (''count'', PInt 2)])"

definition list_active_tasks :: handler where
  "list_active_tasks = pure_handler ''list_active_tasks'' [] [] (\<lambda>s kw. pdict [(''tasks'', PList
     [pdict [(''id'', PStr ''T-1''), (''title'', PStr ''Resolve deployment anomaly''), (''status'', PStr ''in_progress'')],
      pdict [(''id'', PStr ''T-2''), (''title'', PStr ''Review Q1 budget''), (''status'', PStr ''pending'')]])])"

definition get_analytics_summary :: handler where
  "get_analytics_summary = pure_handler ''get_analytics_summary'' [] [] (\<lambda>s kw.
     pdict [(''cac_usd'', PFloat 120), (''ltv_usd'', PFloat 980), (''conversion_rate'', PFloat (fl (34/1000))),
       (''active_campaigns'', PInt 2)])"

definition propose_campaign :: handler where
  "propose_campaign = pure_handler ''propose_campaign'' [] [''name''] (\<lambda>s kw.
     pdict [(''proposal'', dict_getd kw ''name'' (PStr ''Q2 Growth'')), (''estimated_cac'', PFloat 115),
       (''status'', PStr ''draft'')])"

definition create_initiative :: handler where
  "create_initiative = pure_handler ''create_initiative'' [''title''] [''owner''] (\<lambda>s kw.
     pdict [(''initiative_id'', PStr ''INIT-001''), (''title'', dict_getd kw ''title'' PNone),
       (''owner'', dict_getd kw ''owner'' (PStr ''ceo'')), (''status'', PStr ''created'')])"

definition escalate_to_human :: handler where
  "escalate_to_human = pure_handler ''escalate_to_human'' [''reason''] [] (\<lambda>s kw.
     pdict [(''escalated'', PBool True), (''reason'', dict_getd kw ''reason'' PNone), (''queue'', PStr ''human_board'')])"

section \<open>core/mcp_security.py, tools/github/client.py\<close>

definition validate_mcp_url :: "rt_env \<Rightarrow> string \<Rightarrow> exn + unit" where
  "validate_mcp_url R url =
     (let (scheme, host) = re_urlparse R url; allowed = st_allowed_hosts (re_settings R) in
      if scheme \<notin> {''http'', ''https''} then Inl (MCPValidationError ''scheme'')
      else case host of None \<Rightarrow> Inl (MCPValidationError ''missing hostname'')
      | Some h \<Rightarrow>
          if h = '''' then Inl (MCPValidationError ''missing hostname'')
          else if h \<notin> set allowed then Inl (MCPValidationError ''not allowlisted'')
          else (case re_private_ip R h of None \<Rightarrow> Inr ()
            | Some private \<Rightarrow> if private \<and> ''localhost'' \<notin> set allowed \<and> h \<noteq> ''127.0.0.1''
                then Inl (MCPValidationError ''private ip'') else Inr ()))"

definition validate_mcp_response :: "rt_env \<Rightarrow> pyval \<Rightarrow> nat \<Rightarrow> exn + pyval" where
  "validate_mcp_response R payload max_size =
     (if re_payload_size R payload > max_size then Inl (MCPValidationError ''size'')
      else if \<not> is_dict payload then Inl (MCPValidationError ''not a dict'') else Inr payload)"

text \<open>Whatever fails between the validated URL and the validated response gives \<open>None\<close>.\<close>

definition github_mcp_call :: "rt_env \<Rightarrow> string \<Rightarrow> pyval \<Rightarrow> pyval option rt" where
  "github_mcp_call R verb params =
     (case validate_mcp_url R (st_mcp_url (re_settings R)) of Inl e \<Rightarrow> ret None
      | Inr _ \<Rightarrow> bnd (outside (\<lambda>n. re_http R n (st_mcp_url (re_settings R) @ ''/tools/'' @ verb) params)) (\<lambda>resp.
          ret (case resp of None \<Rightarrow> None
            | Some (status, payload) \<Rightarrow>
                if status = 200 then (case validate_mcp_response R payload 512000 of Inl e \<Rightarrow> None | Inr p \<Rightarrow> Some p)
                else None)))"

text \<open>\<open>{"source": "github_mcp", **mcp_result}\<close>\<close>

fun with_source :: "pyval \<Rightarrow> pyval" where
  "with_source (PDict d) = PDict (fold (\<lambda>p. dict_set (fst p) (snd p)) d [(KStr ''source'', PStr ''github_mcp'')])"
| "with_source v = v"

definition repo_arg :: "rt_env \<Rightarrow> (string, pyval) dict \<Rightarrow> pyval" where
  "repo_arg R kw = (let v = dict_getd kw ''repo'' PNone in if truthy v then v else PStr (st_github_repo (re_settings R)))"

definition list_github_prs :: "rt_env \<Rightarrow> handler" where
  "list_github_prs R kw = (case check_kwargs ''list_github_prs'' [] [''status'', ''repo''] kw of
     Some e \<Rightarrow> ret (Inl e)
   | None \<Rightarrow> (let repo = repo_arg R kw; status = dict_getd kw ''status'' (PStr ''open'') in
       bnd (github_mcp_call R ''list_prs'' (pdict [(''repo'', repo), (''status'', status)])) (\<lambda>r.
         ret (Inr (if opt_truthy r then with_source (the r)
           else pdict [(''source'', PStr ''stub''), (''repo'', repo), (''status'', status), (''open_count'', PInt 7),
             (''blocked_count'', PInt 2), (''prs'', PList
               [pdict [(''number'', PInt 142), (''title'', PStr ''Fix auth middleware''), (''blocked'', PBool True)],
                pdict [(''number'', PInt 141), (''title'', PStr ''Add rate limiting''), (''blocked'', PBool False)]])])))))"

definition get_repo_health :: "rt_env \<Rightarrow> handler" where
  "get_repo_health R kw = (case check_kwargs ''get_repo_health'' [] [''repo''] kw of
     Some e \<Rightarrow> ret (Inl e)
   | None \<Rightarrow> (let repo = repo_arg R kw in
       bnd (github_mcp_call R ''repo_health'' (pdict [(''repo'', repo)])) (\<lambda>r. reads (\<lambda>s.
         let deps = ws_deployments (db_world (sy_db s)); degraded = (\<exists>d \<in> set deps. de_status d = DepDegraded) in
         Inr (if opt_truthy r then with_source (the r)
           else pdict [(''source'', PStr ''stub''), (''repo'', repo),
             (''health'', PStr (if degraded then ''degraded'' else ''healthy'')), (''open_issues'', PInt 12),
             (''last_deploy'', PStr (case deps of [] \<Rightarrow> ''unknown'' | d # _ \<Rightarrow> de_version d)),
             (''ci_status'', PStr (if degraded then ''failing'' else ''passing''))])))))"

fun severity_value :: "incident_severity \<Rightarrow> string" where
  "severity_value SevLow = ''low''" | "severity_value SevMedium = ''medium''"
| "severity_value SevHigh = ''high''" | "severity_value SevCritical = ''critical''"

fun incident_status_value :: "incident_status \<Rightarrow> string" where
  "incident_status_value Open = ''open''" | "incident_status_value Investigating = ''investigating''"
| "incident_status_value Resolved = ''resolved''"

definition incident_dump :: "incident \<Rightarrow> pyval" where
  "incident_dump i = pdict [(''id'', PStr (in_id i)), (''title'', PStr (in_title i)),
     (''severity'', PStr (severity_value (in_severity i))), (''status'', PStr (incident_status_value (in_status i))),
     (''service'', PStr (in_service i))]"

definition analyze_incidents :: handler where
  "analyze_incidents = pure_handler ''analyze_incidents'' [] [] (\<lambda>s kw. let is = ws_incidents (db_world (sy_db s)) in
     pdict [(''incidents'', PList (map incident_dump is)), (''count'', PInt (int (length is))),
       (''critical'', PInt (int (length (filter (\<lambda>i. in_severity i = SevCritical) is))))])"

definition prioritize_bugs :: handler where
  "prioritize_bugs = pure_handler ''prioritize_bugs'' [] [] (\<lambda>s kw. pdict [(''priority_bugs'', PList
     [pdict [(''id'', PStr ''BUG-101''), (''title'', PStr ''Auth token refresh failure''), (''priority'', PStr ''P0'')],
      pdict [(''id'', PStr ''BUG-98''), (''title'', PStr ''Webhook retry loop''), (''priority'', PStr ''P1'')]])])"

section \<open>core/cache.py\<close>

text \<open>\<open>json.loads(json.dumps(v))\<close>, with \<open>None\<close> where \<open>dumps\<close> raises.\<close>

fun json_key :: "pykey \<Rightarrow> string" where
  "json_key (KStr s) = s"
| "json_key (KInt i) = show_int i"
| "json_key (KBool b) = (if b then ''true'' else ''false'')"
| "json_key KNone = ''null''"
| "json_key (KOther s) = s"

definition all_some :: "'a option list \<Rightarrow> 'a list option" where
  "all_some xs = (if None \<in> set xs then None else Some (map the xs))"

fun json_rt :: "pyval \<Rightarrow> pyval option" where
  "json_rt (PDict d) = map_option (\<lambda>vs. PDict (fold (\<lambda>p. dict_set (fst p) (snd p)) (zip (map (\<lambda>p. KStr (json_key (fst p))) d) vs) []))
     (all_some (map (\<lambda>p. json_rt (snd p)) d))"
| "json_rt (PList xs) = map_option PList (all_some (map json_rt xs))"
| "json_rt (PTuple xs) = map_option PList (all_some (map json_rt xs))"
| "json_rt (PEnum v) = Some v"
| "json_rt PNone = Some PNone"
| "json_rt (PBool b) = Some (PBool b)"
| "json_rt (PInt i) = Some (PInt i)"
| "json_rt (PFloat x) = Some (PFloat x)"
| "json_rt (PStr x) = Some (PStr x)"
| "json_rt _ = None"

definition cache_get :: "rt_env \<Rightarrow> string \<Rightarrow> pyval \<Rightarrow> sys \<Rightarrow> pyval option" where
  "cache_get R tool params s = map_option fst (dict_get (sy_cache s) (re_cache_key R tool params))"

definition cache_set :: "rt_env \<Rightarrow> string \<Rightarrow> pyval \<Rightarrow> pyval \<Rightarrow> nat \<Rightarrow> unit rt" where
  "cache_set R tool params data ttl = (case json_rt data of None \<Rightarrow> raise TypeError
     | Some v \<Rightarrow> bnd (clock R) (\<lambda>t. mods (\<lambda>s. s\<lparr>sy_cache :=
         dict_set (re_cache_key R tool params) (v, fadd (seconds_of t) (of_nat ttl)) (sy_cache s)\<rparr>)))"

definition reset_cache :: "sys \<Rightarrow> sys" where
  "reset_cache s = s\<lparr>sy_cache := []\<rparr>"

section \<open>tools/normalizer.py\<close>

definition elapsed_ms :: "time \<Rightarrow> time \<Rightarrow> int" where
  "elapsed_ms t1 t2 = trunc (fmul (fsub (seconds_of t2) (seconds_of t1)) 1000)"

definition normalize_tool_call ::
  "rt_env \<Rightarrow> string \<Rightarrow> string \<Rightarrow> string \<Rightarrow> handler \<Rightarrow> (string, pyval) dict \<Rightarrow> tool_result rt" where
  "normalize_tool_call R tool cid source fn kw =
     bnd (clock R) (\<lambda>t1. bnd (fn kw) (\<lambda>r. bnd (clock R) (\<lambda>t2. ret (case r of
       Inr v \<Rightarrow> \<lparr>tr_success = True, tr_data = Some (if is_dict v then v else pdict [(''result'', v)]), tr_errors = [],
         tr_source = source, tr_latency_ms = elapsed_ms t1 t2, tr_cached = False, tr_tool_name = tool, tr_correlation = cid\<rparr>
     | Inl e \<Rightarrow> \<lparr>tr_success = False, tr_data = None, tr_errors = [e],
         tr_source = source, tr_latency_ms = elapsed_ms t1 t2, tr_cached = False, tr_tool_name = tool, tr_correlation = cid\<rparr>))))"

section \<open>tools/router.py\<close>

definition TOOL_HANDLERS :: "rt_env \<Rightarrow> (string, handler) dict" where
  "TOOL_HANDLERS R = [(''list_github_prs'', list_github_prs R), (''get_repo_health'', get_repo_health R),
     (''analyze_incidents'', analyze_incidents), (''prioritize_bugs'', prioritize_bugs),
     (''read_kpi_dashboard'', read_kpi_dashboard), (''get_cashflow_summary'', get_cashflow_summary),
     (''calculate_runway'', calculate_runway), (''detect_blockers'', detect_blockers),
     (''list_active_tasks'', list_active_tasks), (''get_analytics_summary'', get_analytics_summary),
     (''propose_campaign'', propose_campaign), (''create_initiative'', create_initiative),
     (''escalate_to_human'', escalate_to_human)]"

definition CACHEABLE :: "string set" where
  "CACHEABLE = {''list_github_prs'', ''get_repo_health'', ''read_kpi_dashboard'', ''calculate_runway'', ''get_cashflow_summary''}"

definition router_result :: "string \<Rightarrow> string \<Rightarrow> string \<Rightarrow> string list \<Rightarrow> pyval option \<Rightarrow> bool \<Rightarrow> tool_result" where
  "router_result tool cid source errors data success = \<lparr>tr_success = success, tr_data = data, tr_errors = errors,
     tr_source = source, tr_latency_ms = 0, tr_cached = success, tr_tool_name = tool, tr_correlation = cid\<rparr>"

definition proposal_dump :: "action_proposal \<Rightarrow> pyval" where
  "proposal_dump p = pdict [(''task_id'', PStr (ap_task_id p)), (''agent'', PStr (ap_agent p)), (''action'', PStr (ap_action p)),
     (''side_effect_level'', PStr (level_value (ap_level p))), (''impact_summary'', PStr (ap_impact p)),
     (''rollback_strategy'', PNone), (''estimated_cost_usd'', PFloat 0)]"

fun kwargs_of :: "pyval \<Rightarrow> (string, pyval) dict" where
  "kwargs_of (PDict d) = map (\<lambda>p. (key_str (fst p), snd p)) d"
| "kwargs_of _ = []"

text \<open>
  \<open>normalize_tool_call(tool_name, correlation_id, source, handler, **params)\<close>: the parameters must be a mapping, and none of its
  keys may be a parameter of \<open>normalize_tool_call\<close> itself; otherwise the call raises \<open>TypeError\<close> before the normalizer's \<open>try\<close>.
\<close>

definition NORMALIZER_PARAMETERS :: "string list" where
  "NORMALIZER_PARAMETERS = [''tool_name'', ''correlation_id'', ''source'', ''fn'']"

definition bind_kwargs :: "pyval \<Rightarrow> exn + (string, pyval) dict" where
  "bind_kwargs params = (if \<not> is_dict params \<or> (\<exists>k \<in> set NORMALIZER_PARAMETERS. k \<in> set (dict_keys (kwargs_of params)))
     then Inl TypeError else Inr (kwargs_of params))"

text \<open>The call of a handler and the write to the cache after it.\<close>

definition run_handler :: "rt_env \<Rightarrow> string \<Rightarrow> string \<Rightarrow> string \<Rightarrow> pyval \<Rightarrow> string option \<Rightarrow> tool_result rt" where
  "run_handler R spn tool cid params session_id = (case dict_get (TOOL_HANDLERS R) tool of
     None \<Rightarrow> seqc (span_end R spn SP_ERROR [])
       (ret (router_result tool cid ''router'' [''No handler for '' @ tool] None False))
   | Some fn \<Rightarrow>
       (let source = (if tool \<in> {''list_github_prs'', ''get_repo_health''} then ''github_mcp'' else ''stub'') in
        bnd (lift_res (bind_kwargs params)) (\<lambda>kw. bnd (normalize_tool_call R tool cid source fn kw) (\<lambda>r.
        seqc (if tr_success r \<and> tool \<in> CACHEABLE \<and> opt_truthy (tr_data r)
              then cache_set R tool params (the (tr_data r)) 300 else ret ())
        (seqc (span_end R spn (if tr_success r then SP_OK else SP_ERROR)
            [(''latency_ms'', PInt (tr_latency_ms r)), (''session_id'', PStr (str_or session_id ''''))])
          (ret r))))))"

definition tool_proposal :: "rt_env \<Rightarrow> capability \<Rightarrow> string \<Rightarrow> string \<Rightarrow> string \<Rightarrow> pyval \<Rightarrow> action_proposal" where
  "tool_proposal R cap tool agent cid params = \<lparr>ap_task_id = cid, ap_agent = agent, ap_action = tool,
     ap_level = (if ca_level cap = 2 then EXECUTE_SAFE else EXECUTE_CRITICAL),
     ap_impact = ''Execute '' @ tool @ '' with params '' @ re_repr R params\<rparr>"

text \<open>What \<open>execute_tool\<close> does once the span of the call is open.\<close>

definition tool_gate :: "rt_env \<Rightarrow> registry \<Rightarrow> string \<Rightarrow> string \<Rightarrow> string \<Rightarrow> pyval option \<Rightarrow> string option \<Rightarrow> rat \<Rightarrow> string \<Rightarrow> tool_result rt" where
  "tool_gate R reg tool agent cid raw session_id extra_bias spn =
    (let params = canonical_params raw in
     case dict_get reg tool of
       None \<Rightarrow> seqc (span_end R spn SP_ERROR [])
         (ret (router_result tool cid ''router'' [''Unknown tool: '' @ tool] None False))
     | Some cap \<Rightarrow>
         if \<not> is_allowed reg tool agent \<and> agent \<noteq> ''system''
         then seqc (span_end R spn SP_ERROR []) (ret (router_result tool cid ''router''
           [''Agent '' @ agent @ '' not allowed to use '' @ tool] None False))
         else bnd (reads (\<lambda>s. ca_level cap \<ge> 2 \<and> evaluate (sy_crisis s) (sy_biases s)
             (tool_proposal R cap tool agent cid params) (Some (str_or session_id cid)) extra_bias = ESCALATE)) (\<lambda>escalate.
           if escalate
           then seqc (span_end R spn SP_OK []) (ret (router_result tool cid ''policy'' [''WAITING_APPROVAL'']
             (Some (pdict [(''proposal'', proposal_dump (tool_proposal R cap tool agent cid params))])) False))
           else bnd (reads (\<lambda>s. if tool \<in> CACHEABLE then cache_get R tool params s else None)) (\<lambda>cached.
             if opt_truthy cached
             then seqc (span_end R spn SP_OK []) (ret (router_result tool cid ''cache'' [] cached True))
             else run_handler R spn tool cid params session_id)))"

definition execute_tool ::
  "rt_env \<Rightarrow> registry \<Rightarrow> string \<Rightarrow> string \<Rightarrow> string \<Rightarrow> pyval option \<Rightarrow> string option \<Rightarrow> rat \<Rightarrow> tool_result rt" where
  "execute_tool R reg tool agent cid raw session_id extra_bias =
     bnd (span_start R TOOL_EXECUTION [] [(''tool_name'', PStr tool), (''agent_id'', PStr agent)])
       (tool_gate R reg tool agent cid raw session_id extra_bias)"

section \<open>tools/retry.py\<close>

text \<open>
  \<open>any(err in str(errors) for err in policy.retry_on for err in errors)\<close>: the second \<open>err\<close>
  shadows the first.
\<close>

definition is_retryable :: "rt_env \<Rightarrow> retry_policy \<Rightarrow> tool_result \<Rightarrow> bool" where
  "is_retryable R p r \<longleftrightarrow> (\<exists>e \<in> set (rp_retry_on p). \<exists>err \<in> set (tr_errors r). substr err (re_repr R (pstrs (tr_errors r))))"

fun retry_loop :: "rt_env \<Rightarrow> retry_policy \<Rightarrow> tool_result rt \<Rightarrow> nat \<Rightarrow> nat \<Rightarrow> tool_result option \<Rightarrow> tool_result rt" where
  "retry_loop R p fn attempt 0 prev = ret (case prev of Some r \<Rightarrow> r | None \<Rightarrow>
     \<lparr>tr_success = False, tr_data = None, tr_errors = [''Retry exhausted''], tr_source = ''retry'', tr_latency_ms = 0,
      tr_cached = False, tr_tool_name = ''unknown'', tr_correlation = ''''\<rparr>)"
| "retry_loop R p fn attempt (Suc left) prev = bnd fn (\<lambda>r.
     if tr_success r then ret r
     else if \<not> is_retryable R p r \<and> attempt \<ge> rp_max_retries p then ret r
     else retry_loop R p fn (attempt + 1) left (Some r))"

definition with_retry :: "rt_env \<Rightarrow> tool_result rt \<Rightarrow> retry_policy option \<Rightarrow> tool_result rt" where
  "with_retry R fn policy = (let p = (case policy of None \<Rightarrow> default_retry_policy | Some p \<Rightarrow> p)
     in retry_loop R p fn 0 (rp_max_retries p + 1) None)"

section \<open>Lemmas\<close>

lemma span_start_run [comp_simps]:
  "bnd (span_start R ty rs meta) f s = f (re_uuid R (sy_uuid s))
     (s\<lparr>sy_uuid := sy_uuid s + 1, sy_clock := sy_clock s + 1, sy_spans :=
       snd (start_span (re_env R) (re_uuid R (sy_uuid s)) (re_now R (sy_clock s)) ty rs None meta (sy_spans s))\<rparr>)"
  by (simp add: span_start_def bnd_assoc seqc_def comp_simps)

lemma span_end_run [comp_simps]:
  "bnd (span_end R u st meta) f s = f () (s\<lparr>sy_clock := sy_clock s + 1,
     sy_spans := end_span u (re_now R (sy_clock s)) st meta (sy_spans s)\<rparr>)"
  by (simp add: span_end_def bnd_assoc comp_simps)

text \<open>What no tool call touches, and what a refused one leaves alone.\<close>

definition same_stores :: "sys \<Rightarrow> sys \<Rightarrow> bool" where
  "same_stores s t \<longleftrightarrow> sy_db t = sy_db s \<and> sy_gov t = sy_gov s \<and> sy_intel t = sy_intel s \<and> sy_replay t = sy_replay s \<and>
     sy_biases t = sy_biases s \<and> sy_locks t = sy_locks s \<and> sy_crisis t = sy_crisis s \<and> sy_health t = sy_health s \<and>
     sy_starts t = sy_starts s \<and> sy_prompts t = sy_prompts s"

definition refused :: "sys \<Rightarrow> sys \<Rightarrow> bool" where
  "refused s t \<longleftrightarrow> same_stores s t \<and> sy_ext t = sy_ext s \<and> sy_cache t = sy_cache s"

lemma same_stores_refl [simp]: "same_stores s s"
  by (simp add: same_stores_def)

lemma same_stores_trans: "same_stores s t \<Longrightarrow> same_stores t u \<Longrightarrow> same_stores s u"
  by (simp add: same_stores_def)

lemma same_stores_upd [simp]:
  "same_stores s (t\<lparr>sy_uuid := n\<rparr>) = same_stores s t" "same_stores s (t\<lparr>sy_clock := n\<rparr>) = same_stores s t"
  "same_stores s (t\<lparr>sy_spans := c\<rparr>) = same_stores s t" "same_stores s (t\<lparr>sy_ext := n\<rparr>) = same_stores s t"
  "same_stores s (t\<lparr>sy_cache := k\<rparr>) = same_stores s t"
  "same_stores (s\<lparr>sy_spans := c\<rparr>) t = same_stores s t" "same_stores (s\<lparr>sy_clock := n\<rparr>) t = same_stores s t"
  "same_stores (s\<lparr>sy_uuid := n\<rparr>) t = same_stores s t"
  by (simp_all add: same_stores_def)

lemma execute_tool_started:
  obtains u c where "execute_tool R reg tool agent cid raw sid xb s =
     tool_gate R reg tool agent cid raw sid xb u (s\<lparr>sy_uuid := sy_uuid s + 1, sy_clock := sy_clock s + 1, sy_spans := c\<rparr>)"
  unfolding execute_tool_def span_start_run by blast

lemma vs_levels: "dict_get build_vs_registry tool = Some cap \<Longrightarrow> ca_level cap < 2"
proof -
  have "\<forall>p \<in> set build_vs_registry. ca_level (snd p) < 2" by code_simp
  then show "dict_get build_vs_registry tool = Some cap \<Longrightarrow> ca_level cap < 2"
    by (fastforce dest: dict_get_SomeD)
qed

lemma normalize_source:
  "normalize_tool_call R tool cid src fn kw s = (Inr r, s') \<Longrightarrow> tr_source r = src"
  by (auto simp: normalize_tool_call_def comp_simps bnd_def split: sum.splits prod.splits)

lemma run_handler_source:
  assumes "run_handler R spn tool cid params sid s = (Inr r, s')"
  shows "tr_source r \<in> {''router'', ''github_mcp'', ''stub''}"
proof (cases "dict_get (TOOL_HANDLERS R) tool")
  case None
  then show ?thesis using assms by (auto simp: run_handler_def router_result_def seqc_def comp_simps)
next
  case (Some fn)
  then show ?thesis
    using assms unfolding run_handler_def option.case Let_def
    by (auto elim!: bnd_InrE simp: seqc_def ret_def dest!: normalize_source split: if_splits)
qed

text \<open>Whether the parameters of a call can be bound.\<close>

definition binds :: "pyval option \<Rightarrow> bool" where
  "binds raw = (case bind_kwargs (canonical_params raw) of Inl e \<Rightarrow> False | Inr kw \<Rightarrow> True)"

lemma binds_iff: "binds raw \<longleftrightarrow> bind_kwargs (canonical_params raw) = Inr (kwargs_of (canonical_params raw))"
  "\<not> binds raw \<longleftrightarrow> bind_kwargs (canonical_params raw) = Inl TypeError"
  by (auto simp: binds_def bind_kwargs_def)

lemma binds_empty [simp]: "binds None" "binds (Some (PDict []))"
  by (simp_all add: binds_def bind_kwargs_def canonical_params_def NORMALIZER_PARAMETERS_def)

lemma normalize_keeps_key:
  assumes "KStr k \<in> fst ` set d"
  shows "k \<in> set (dict_keys (kwargs_of (normalize_val False (PDict d))))"
proof -
  let ?items = "sort_key fst (map (\<lambda>(k, v). (key_str k, normalize_val False v)) d)"
  have "k \<in> fst ` set ?items" using assms by force
  then have "KStr k \<in> set (dict_keys (build_dict ?items))" unfolding keys_build_dict_set by simp
  then show ?thesis by (force simp: image_iff)
qed

lemma colliding_unbound:
  assumes "k \<in> {''tool_name'', ''correlation_id'', ''source'', ''fn''}" and "KStr k \<in> fst ` set d"
  shows "\<not> binds (Some (PDict d))"
proof -
  have "d \<noteq> []" using assms(2) by auto
  then have "canonical_params (Some (PDict d)) = normalize_val False (PDict d)" by (cases d) (simp_all add: canonical_params_def)
  moreover have "k \<in> set (dict_keys (kwargs_of (normalize_val False (PDict d))))" using assms(2) by (rule normalize_keeps_key)
  then have "\<exists>k \<in> set NORMALIZER_PARAMETERS. k \<in> set (dict_keys (kwargs_of (normalize_val False (PDict d))))"
    by (rule bexI) (use assms(1) in \<open>simp add: NORMALIZER_PARAMETERS_def insert_commute\<close>)
  ultimately show ?thesis by (simp only: binds_def bind_kwargs_def if_True simp_thms sum.case)
qed

text \<open>Parameters that cannot be bound end the call with \<open>TypeError\<close>, before the handler runs.\<close>

lemma unbound_raises:
  assumes "dict_get reg tool = Some cap" and "ca_level cap < 2" and "agent \<in> set (ca_agents cap)"
    and "dict_get (TOOL_HANDLERS R) tool = Some fn" and "tool \<notin> CACHEABLE" and "\<not> binds raw"
  shows "\<exists>s'. execute_tool R reg tool agent cid raw sid xb s = (Inl TypeError, s') \<and> refused s s'"
proof -
  obtain u c where g: "execute_tool R reg tool agent cid raw sid xb s =
     tool_gate R reg tool agent cid raw sid xb u (s\<lparr>sy_uuid := sy_uuid s + 1, sy_clock := sy_clock s + 1, sy_spans := c\<rparr>)"
    by (rule execute_tool_started)
  have "is_allowed reg tool agent" using assms(1,3) by (simp add: is_allowed_def)
  then show ?thesis
    unfolding g tool_gate_def Let_def assms(1) option.case using assms(2,5,6)
    by (simp add: comp_simps opt_truthy_def run_handler_def assms(4) binds_iff(2) raise_def refused_def)
qed

lemma disallowed_refused:
  assumes "\<not> is_allowed reg tool agent" and "agent \<noteq> ''system'' \<or> dict_get reg tool = None"
  shows "\<exists>r s'. execute_tool R reg tool agent cid raw sid xb s = (Inr r, s') \<and> \<not> tr_success r \<and>
    tr_source r = ''router'' \<and> tr_data r = None \<and> refused s s'"
proof -
  obtain u c where g: "execute_tool R reg tool agent cid raw sid xb s =
     tool_gate R reg tool agent cid raw sid xb u (s\<lparr>sy_uuid := sy_uuid s + 1, sy_clock := sy_clock s + 1, sy_spans := c\<rparr>)"
    by (rule execute_tool_started)
  show ?thesis
    using assms unfolding g
    by (cases "dict_get reg tool") (auto simp: tool_gate_def router_result_def seqc_def comp_simps refused_def)
qed

section \<open>Properties\<close>

text \<open>C30: tool permissions: an unknown tool, or a tool called by an agent that is neither among its
  allowed agents nor \<open>system\<close>, yields a failed result and touches nothing but the span of the call: no
  handler runs, nothing leaves the process, no store and no cache entry changes.\<close>

theorem tool_permission_enforced:
  assumes "\<not> is_allowed reg tool agent" and "agent \<noteq> ''system'' \<or> dict_get reg tool = None"
  shows "\<exists>r s'. execute_tool R reg tool agent cid raw sid xb s = (Inr r, s') \<and> \<not> tr_success r \<and>
    tr_source r = ''router'' \<and> tr_data r = None \<and> refused s s'"
  using assms by (rule disallowed_refused)

definition demo_env :: rt_env where
  "demo_env = \<lparr>re_env = \<lparr>digest = (\<lambda>_. ''d''), sha256 = (\<lambda>_. ''s'')\<rparr>, re_now = int, re_uuid = show_nat,
     re_settings = default_settings, re_http = (\<lambda>_ _ _. None), re_llm = (\<lambda>_ _ _. Inl (AgentError ''no model'')), re_has_model = False,
     re_urlparse = (\<lambda>_. (''http'', Some ''localhost'')), re_private_ip = (\<lambda>_. None), re_payload_size = (\<lambda>_. 2),
     re_cache_key = (\<lambda>t _. t), re_repr = (\<lambda>_. ''{}''), re_ws_json = (\<lambda>_. ''{}''), re_ws_checksum = (\<lambda>_. ''x''),
     re_iso = show_int, re_dt_json = (\<lambda>_. ''t''), re_json_loads = (\<lambda>_. None), re_json_dumps = (\<lambda>_. ''{}''),
     re_float_str = (\<lambda>_. ''0.0''), re_exn_str = (\<lambda>_. ''e'')\<rparr>"

theorem tool_permission_enforced_witness:
  "\<exists>r s'. execute_tool demo_env build_vs_registry ''get_repo_health'' ''ceo'' ''c'' None None 0 init_sys = (Inr r, s') \<and>
     \<not> tr_success r \<and> tr_source r = ''router'' \<and> tr_data r = None \<and> refused init_sys s'"
proof -
  have "\<not> is_allowed build_vs_registry ''get_repo_health'' ''ceo''"
    by (simp add: is_allowed_def build_vs_registry_def vs_tools_def register_capability_def)
  then show ?thesis by (rule tool_permission_enforced) simp
qed

text \<open>C27: with the tools that the program registers the approval gate of the router is never closed: no call, by any agent,
  in any state and under any crisis or approval bias, is answered \<open>WAITING_APPROVAL\<close> by the policy, and the bias that the adaptive
  policy passes to the call makes no difference to its result or its effects.\<close>

theorem registered_tools_never_wait:
  assumes "execute_tool R build_vs_registry tool agent cid raw sid xb s = (Inr r, s')"
  shows "tr_source r \<noteq> ''policy'' \<and> execute_tool R build_vs_registry tool agent cid raw sid xb2 s = (Inr r, s')"
proof -
  have "tool_gate R build_vs_registry tool agent cid raw sid xb2 = tool_gate R build_vs_registry tool agent cid raw sid xb"
  proof (cases "dict_get build_vs_registry tool")
    case (Some cap)
    then have l: "(2 \<le> ca_level cap) = False" using vs_levels by fastforce
    show ?thesis unfolding tool_gate_def Let_def Some option.case l simp_thms ..
  qed (intro ext, simp add: tool_gate_def)
  then have same: "execute_tool R build_vs_registry tool agent cid raw sid xb2 s = (Inr r, s')"
    using assms by (simp add: execute_tool_def)
  obtain u c where g: "execute_tool R build_vs_registry tool agent cid raw sid xb s =
     tool_gate R build_vs_registry tool agent cid raw sid xb u (s\<lparr>sy_uuid := sy_uuid s + 1, sy_clock := sy_clock s + 1, sy_spans := c\<rparr>)"
    by (rule execute_tool_started)
  show ?thesis
  proof (cases "dict_get build_vs_registry tool")
    case None
    then show ?thesis using assms same unfolding g
      by (auto simp: tool_gate_def router_result_def seqc_def comp_simps)
  next
    case (Some cap)
    then have l: "\<not> 2 \<le> ca_level cap" using vs_levels by fastforce
    show ?thesis
      using assms l same unfolding g tool_gate_def Let_def Some option.case
      by (auto simp: seqc_def comp_simps router_result_def dest!: run_handler_source split: if_splits)
  qed
qed

theorem registered_tools_never_wait_witness:
  "\<exists>r s'. execute_tool demo_env build_vs_registry ''detect_blockers'' ''coo'' ''c'' None None 5 init_sys = (Inr r, s') \<and>
     tr_source r \<noteq> ''policy''"
proof -
  have cap: "dict_get build_vs_registry ''detect_blockers'' =
      Some \<lparr>ca_name = ''detect_blockers'', ca_class = ''ANALYZE'', ca_agents = [''coo''], ca_level = 0\<rparr>"
    by (simp add: build_vs_registry_def vs_tools_def register_capability_def)
  have fn: "dict_get (TOOL_HANDLERS demo_env) ''detect_blockers'' = Some detect_blockers"
    by (simp add: TOOL_HANDLERS_def)
  have "\<exists>r s'. execute_tool demo_env build_vs_registry ''detect_blockers'' ''coo'' ''c'' None None 5 init_sys = (Inr r, s')"
    by (simp add: execute_tool_def span_start_run tool_gate_def cap is_allowed_def CACHEABLE_def comp_simps
        opt_truthy_def run_handler_def fn normalize_tool_call_def detect_blockers_def pure_handler_def
        check_kwargs_def canonical_params_def bind_kwargs_def NORMALIZER_PARAMETERS_def Let_def bnd_assoc span_end_run)
  then obtain r s' where run: "execute_tool demo_env build_vs_registry ''detect_blockers'' ''coo'' ''c'' None None 5 init_sys = (Inr r, s')"
    by blast
  from registered_tools_never_wait [OF run] run show ?thesis by blast
qed

text \<open>
  Outside a crisis a tool of side-effect level 2 or more is never executed: an allowed agent's
  call always answers \<open>WAITING_APPROVAL\<close>, whoever asks and whatever was approved before,
  since the router does not look at approvals.
\<close>

lemma critical_tools_wait:
  assumes "dict_get reg tool = Some cap" and "2 \<le> ca_level cap" and "agent \<in> set (ca_agents cap)"
    and "sy_crisis s = None" and "nonneg_biases (sy_biases s)"
  shows "\<exists>r s'. execute_tool R reg tool agent cid raw sid xb s = (Inr r, s') \<and> \<not> tr_success r \<and>
    tr_errors r = [''WAITING_APPROVAL''] \<and> refused s s'"
proof -
  obtain u c where g: "execute_tool R reg tool agent cid raw sid xb s =
     tool_gate R reg tool agent cid raw sid xb u (s\<lparr>sy_uuid := sy_uuid s + 1, sy_clock := sy_clock s + 1, sy_spans := c\<rparr>)"
    by (rule execute_tool_started)
  have "is_allowed reg tool agent" using assms(1,3) by (simp add: is_allowed_def)
  moreover have "evaluate None (sy_biases s) (tool_proposal R cap tool agent cid (canonical_params raw))
      (Some (str_or sid cid)) xb = ESCALATE"
    by (rule evaluate_escalates [OF assms(5)]) (simp add: tool_proposal_def)
  ultimately show ?thesis
    unfolding g tool_gate_def Let_def assms(1) option.case
    using assms(2,4) by (simp add: comp_simps span_end_run router_result_def refused_def)
qed

definition critical_registry :: registry where
  "critical_registry = register_capability
     \<lparr>ca_name = ''deploy'', ca_class = ''EXECUTE'', ca_agents = [''cto''], ca_level = 3\<rparr> build_vs_registry"

text \<open>cached results do not expire: once the result of a cacheable tool is stored, every later
  call with the same parameters answers it, whatever the clock says (the stored expiry is never read)
  and however the world has changed.\<close>

theorem cached_result_never_expires:
  assumes "tool \<in> CACHEABLE" and "dict_get reg tool = Some cap" and "ca_level cap < 2" and "agent \<in> set (ca_agents cap)"
    and "cache_set R tool (canonical_params raw) data ttl s = (Inr (), s1)" and "truthy data" and "json_rt data = Some data"
    and "sy_cache s2 = sy_cache s1"
  shows "\<exists>r s3. execute_tool R reg tool agent cid raw sid xb s2 = (Inr r, s3) \<and> tr_success r \<and>
    tr_cached r \<and> tr_data r = Some data \<and> sy_ext s3 = sy_ext s2"
proof -
  obtain u c where g: "execute_tool R reg tool agent cid raw sid xb s2 =
     tool_gate R reg tool agent cid raw sid xb u (s2\<lparr>sy_uuid := sy_uuid s2 + 1, sy_clock := sy_clock s2 + 1, sy_spans := c\<rparr>)"
    by (rule execute_tool_started)
  have "cache_get R tool (canonical_params raw) s2 = Some data"
    using assms(5,7,8) by (auto simp: cache_get_def cache_set_def comp_simps)
  then have hit: "cache_get R tool (canonical_params raw)
      (s2\<lparr>sy_uuid := sy_uuid s2 + 1, sy_clock := sy_clock s2 + 1, sy_spans := c\<rparr>) = Some data"
    by (simp add: cache_get_def)
  have allowed: "is_allowed reg tool agent" using assms(2,4) by (simp add: is_allowed_def)
  show ?thesis
    unfolding g tool_gate_def Let_def assms(2) option.case
    using allowed assms(1,3,6) hit
    by (simp add: comp_simps span_end_run router_result_def opt_truthy_def)
qed

theorem cached_result_never_expires_witness:
  "\<exists>r s3. execute_tool demo_env build_vs_registry ''read_kpi_dashboard'' ''ceo'' ''c'' None None 0
     ((snd (cache_set demo_env ''read_kpi_dashboard'' (PDict []) (pdict [(''mrr_usd'', PInt 1)]) 300 init_sys))
        \<lparr>sy_clock := 1000000000000\<rparr>) = (Inr r, s3) \<and> tr_success r \<and> tr_cached r \<and>
     tr_data r = Some (pdict [(''mrr_usd'', PInt 1)])"
proof -
  let ?s1 = "snd (cache_set demo_env ''read_kpi_dashboard'' (PDict []) (pdict [(''mrr_usd'', PInt 1)]) 300 init_sys)"
  have j: "json_rt (pdict [(''mrr_usd'', PInt 1)]) = Some (pdict [(''mrr_usd'', PInt 1)])"
    by (simp add: all_some_def)
  have c: "cache_set demo_env ''read_kpi_dashboard'' (canonical_params None) (pdict [(''mrr_usd'', PInt 1)]) 300 init_sys = (Inr (), ?s1)"
    unfolding cache_set_def j option.case canonical_params_def clock_run by (simp add: mods_def)
  have cap: "dict_get build_vs_registry ''read_kpi_dashboard'' =
      Some \<lparr>ca_name = ''read_kpi_dashboard'', ca_class = ''READ'', ca_agents = [''ceo''], ca_level = 0\<rparr>"
    by (simp add: build_vs_registry_def vs_tools_def register_capability_def)
  have "\<exists>r s3. execute_tool demo_env build_vs_registry ''read_kpi_dashboard'' ''ceo'' ''c'' None None 0
      (?s1\<lparr>sy_clock := 1000000000000\<rparr>) = (Inr r, s3) \<and> tr_success r \<and> tr_cached r \<and>
      tr_data r = Some (pdict [(''mrr_usd'', PInt 1)]) \<and> sy_ext s3 = sy_ext (?s1\<lparr>sy_clock := 1000000000000\<rparr>)"
    by (rule cached_result_never_expires [OF _ cap _ _ c _ j]) (simp_all add: CACHEABLE_def)
  then show ?thesis by auto
qed

text \<open>A tool whose results come from outside, one per call.\<close>

lemma retry_loop_outside:
  "left + attempt = rp_max_retries p + 1 \<Longrightarrow> 0 < left \<Longrightarrow>
   \<exists>k < left. retry_loop R p (outside rs) attempt left prev s = (Inr (rs (sy_ext s + k)), s\<lparr>sy_ext := sy_ext s + k + 1\<rparr>) \<and>
     (\<forall>j < k. \<not> tr_success (rs (sy_ext s + j))) \<and> (tr_success (rs (sy_ext s + k)) \<or> k + 1 = left)"
proof (induction left arbitrary: attempt prev s)
  case 0
  then show ?case by simp
next
  case (Suc left)
  let ?r = "rs (sy_ext s)" and ?s = "s\<lparr>sy_ext := sy_ext s + 1\<rparr>"
  show ?case
  proof (cases "tr_success ?r \<or> left = 0")
    case True
    then show ?thesis
      by (intro exI [of _ 0]) (cases left, auto simp: outside_run ret_def)
  next
    case False
    then have att: "\<not> attempt \<ge> rp_max_retries p" using Suc.prems(1) by auto
    obtain k where k: "k < left" "retry_loop R p (outside rs) (attempt + 1) left (Some ?r) ?s =
        (Inr (rs (sy_ext ?s + k)), ?s\<lparr>sy_ext := sy_ext ?s + k + 1\<rparr>)"
        "\<forall>j < k. \<not> tr_success (rs (sy_ext ?s + j))" "tr_success (rs (sy_ext ?s + k)) \<or> k + 1 = left"
      using Suc.IH [where attempt = "attempt + 1" and s = ?s and prev = "Some ?r"] Suc.prems False by auto
    have "\<not> tr_success (rs (sy_ext s + j))" if "j < k + 1" for j
      using that k(3) False by (cases j) auto
    then show ?thesis
      using k False att by (intro exI [of _ "k + 1"]) (auto simp: outside_run)
  qed
qed

text \<open>C34: retries: the tool is called until its first success and at most \<open>max_retries + 1\<close> times, and
  the last result is returned; which errors the policy names as retryable makes no difference.\<close>

theorem with_retry_calls:
  "\<exists>k \<le> rp_max_retries p. with_retry R (outside rs) (Some p) s = (Inr (rs (sy_ext s + k)), s\<lparr>sy_ext := sy_ext s + k + 1\<rparr>) \<and>
     (\<forall>j < k. \<not> tr_success (rs (sy_ext s + j))) \<and> (tr_success (rs (sy_ext s + k)) \<or> k = rp_max_retries p) \<and>
     with_retry R (outside rs) (Some (p\<lparr>rp_retry_on := es\<rparr>)) s = with_retry R (outside rs) (Some p) s"
proof -
  obtain k where k: "k < rp_max_retries p + 1" "retry_loop R p (outside rs) 0 (rp_max_retries p + 1) None s =
      (Inr (rs (sy_ext s + k)), s\<lparr>sy_ext := sy_ext s + k + 1\<rparr>)"
      "\<forall>j < k. \<not> tr_success (rs (sy_ext s + j))" "tr_success (rs (sy_ext s + k)) \<or> k + 1 = rp_max_retries p + 1"
    using retry_loop_outside [of "rp_max_retries p + 1" 0 p R rs None s] by auto
  let ?p = "p\<lparr>rp_retry_on := es\<rparr>"
  obtain k' where k': "k' < rp_max_retries p + 1" "retry_loop R ?p (outside rs) 0 (rp_max_retries p + 1) None s =
      (Inr (rs (sy_ext s + k')), s\<lparr>sy_ext := sy_ext s + k' + 1\<rparr>)"
      "\<forall>j < k'. \<not> tr_success (rs (sy_ext s + j))" "tr_success (rs (sy_ext s + k')) \<or> k' + 1 = rp_max_retries p + 1"
    using retry_loop_outside [of "rp_max_retries ?p + 1" 0 ?p R rs None s] by auto
  have "k' = k"
    using k k' by (metis add_right_cancel less_Suc_eq_le linorder_neqE_nat Suc_eq_plus1 leD)
  then show ?thesis
    using k k' by (intro exI [of _ k]) (simp add: with_retry_def Let_def less_Suc_eq_le del: retry_loop.simps)
qed

theorem with_retry_calls_witness:
  "\<exists>k \<le> 2. with_retry demo_env (outside (\<lambda>n. demo_failure)) (Some default_retry_policy) init_sys =
     (Inr demo_failure, init_sys\<lparr>sy_ext := sy_ext init_sys + k + 1\<rparr>) \<and> k = 2"
proof -
  have "\<not> tr_success demo_failure" "rp_max_retries default_retry_policy = 2"
    by (simp_all add: demo_failure_def default_retry_policy_def)
  then show ?thesis
    using with_retry_calls [of default_retry_policy demo_env "\<lambda>n. demo_failure" init_sys "[]"] by auto
qed

text \<open>requests to the MCP server: something leaves the process only if the configured URL is http or
  https and its host is allowlisted, and only a dictionary of at most 512000 bytes is ever
  used as an answer.\<close>

theorem mcp_guard:
  assumes "github_mcp_call R verb params s = (r, s')"
  shows "(s' \<noteq> s \<longrightarrow> (\<exists>scheme host. re_urlparse R (st_mcp_url (re_settings R)) = (scheme, Some host) \<and>
      scheme \<in> {''http'', ''https''} \<and> host \<in> set (st_allowed_hosts (re_settings R)))) \<and>
    (\<forall>v. r = Inr (Some v) \<longrightarrow> is_dict v \<and> re_payload_size R v \<le> 512000 \<and> sy_ext s' = sy_ext s + 1)"
proof (cases "validate_mcp_url R (st_mcp_url (re_settings R))")
  case (Inl e)
  then show ?thesis using assms by (auto simp: github_mcp_call_def ret_def)
next
  case (Inr x)
  then have ok: "\<exists>scheme host. re_urlparse R (st_mcp_url (re_settings R)) = (scheme, Some host) \<and>
      scheme \<in> {''http'', ''https''} \<and> host \<in> set (st_allowed_hosts (re_settings R))"
    by (auto simp: validate_mcp_url_def Let_def split: prod.splits option.splits if_splits)
  have "is_dict v \<and> re_payload_size R v \<le> 512000 \<and> sy_ext s' = sy_ext s + 1" if "r = Inr (Some v)" for v
    using assms that unfolding github_mcp_call_def Inr sum.case outside_run
    by (auto simp: ret_def validate_mcp_response_def split: option.splits if_splits sum.splits)
  then show ?thesis using ok by blast
qed

theorem mcp_guard_witness:
  "\<exists>r s'. github_mcp_call (demo_env\<lparr>re_http := (\<lambda>_ _ _. Some (200, PDict []))\<rparr>) ''list_prs'' (PDict []) init_sys = (r, s') \<and>
     s' \<noteq> init_sys \<and> (\<exists>host. snd (re_urlparse demo_env (st_mcp_url default_settings)) = Some host \<and>
       host \<in> set (st_allowed_hosts default_settings))"
proof -
  let ?R = "demo_env\<lparr>re_http := (\<lambda>_ _ _. Some (200, PDict []))\<rparr>"
  obtain r s' where c: "github_mcp_call ?R ''list_prs'' (PDict []) init_sys = (r, s')"
    by (cases "github_mcp_call ?R ''list_prs'' (PDict []) init_sys")
  have "s' \<noteq> init_sys"
    using c by (auto simp: github_mcp_call_def validate_mcp_url_def demo_env_def default_settings_def outside_run ret_def init_sys_def)
  then show ?thesis using c mcp_guard [OF c] by (auto simp: demo_env_def)
qed

end
