(* ===== verification/Replay.thy ===== *)
theory Replay
  imports Tools
begin

text \<open>
  Frozen and live replay: \<open>core/frozen_replay_executor.py\<close>, \<open>core/replay_validator.py\<close>,
  \<open>core/replay_diff.py\<close>, \<open>core/live_replay_adapter.py\<close>, \<open>core/replay_analytics.py\<close> and
  \<open>core/replay.py\<close>.  Frozen replay only reads the stores, so it is a function of the process state with
  an error or an outcome; live replay runs tools and is a computation.  Snapshots are of the form in which the program
  stores them: the name of a tool is a text and a version is an integer, so that validation has nothing to convert.
\<close>

declare keeps_ret [simp] keeps_raise [simp] keeps_reads [simp] keeps_lift_res [simp]

definition rbind :: "'e + 'a \<Rightarrow> ('a \<Rightarrow> 'e + 'b) \<Rightarrow> 'e + 'b" where
  "rbind r f = (case r of Inl e \<Rightarrow> Inl e | Inr x \<Rightarrow> f x)"

fun rmap :: "('a \<Rightarrow> 'e + 'b) \<Rightarrow> 'a list \<Rightarrow> 'e + 'b list" where
  "rmap f [] = Inr []"
| "rmap f (x # xs) = rbind (f x) (\<lambda>y. rbind (rmap f xs) (\<lambda>ys. Inr (y # ys)))"

lemma rbind_simps [simp]: "rbind (Inl e) f = Inl e" "rbind (Inr x) f = f x"
  by (simp_all add: rbind_def)

lemma rbind_Inr_iff: "rbind r f = Inr y \<longleftrightarrow> (\<exists>x. r = Inr x \<and> f x = Inr y)"
  by (cases r) auto

section \<open>core/frozen_replay_executor.py: the bundle\<close>

definition ORCHESTRATOR_VERSION :: string where "ORCHESTRATOR_VERSION = ''rrm15-1.0.0''"

text \<open>Typed reads of a snapshot dictionary; a value of the wrong type is what pydantic rejects.\<close>

definition get_int :: "pyval \<Rightarrow> string \<Rightarrow> int \<Rightarrow> exn + int" where
  "get_int v k d = (case vget v k of None \<Rightarrow> Inr d
     | Some x \<Rightarrow> (case as_int x of None \<Rightarrow> Inl ValidationError | Some i \<Rightarrow> Inr i))"

definition get_str :: "pyval \<Rightarrow> string \<Rightarrow> string \<Rightarrow> exn + string" where
  "get_str v k d = (case vget v k of None \<Rightarrow> Inr d
     | Some x \<Rightarrow> (case as_str x of None \<Rightarrow> Inl ValidationError | Some s \<Rightarrow> Inr s))"

definition get_dicts :: "pyval \<Rightarrow> string \<Rightarrow> exn + pyval list" where
  "get_dicts v k = (if \<not> opt_truthy (vget v k) then Inr []
     else case as_list (vgetd v k PNone) of None \<Rightarrow> Inl TypeError
       | Some xs \<Rightarrow> if \<forall>x \<in> set xs. is_dict x then Inr xs else Inl ValidationError)"

definition get_dict :: "pyval \<Rightarrow> string \<Rightarrow> exn + pyval" where
  "get_dict v k = (if \<not> opt_truthy (vget v k) then Inr (PDict [])
     else if is_dict (vgetd v k PNone) then Inr (vgetd v k PNone) else Inl TypeError)"

definition load_step :: "nat \<Rightarrow> int \<Rightarrow> pyval \<Rightarrow> exn + step_bundle" where
  "load_step i world snap =
     rbind (get_int snap ''world_state_version'' world) (\<lambda>w.
     rbind (get_dicts snap ''tool_results'') (\<lambda>trs.
     rbind (get_dict snap ''response'') (\<lambda>resp.
     rbind (get_str snap ''runtime_state'' ''completed'') (\<lambda>st.
     rbind (get_str snap ''prompt'' '''') (\<lambda>pr.
       Inr \<lparr>sb_step = i, sb_state = st, sb_tool_results = trs, sb_prompt = pr, sb_response = resp,
            sb_world_version = w\<rparr>)))))"

fun load_steps :: "nat \<Rightarrow> int \<Rightarrow> pyval list \<Rightarrow> exn + step_bundle list \<times> int" where
  "load_steps i world [] = Inr ([], world)"
| "load_steps i world (v # vs) = rbind (load_step i world v) (\<lambda>b.
     rbind (load_steps (i + 1) (sb_world_version b) vs) (\<lambda>(bs, w). Inr (b # bs, w)))"

text \<open>\<open>text.split(sep)[-1]\<close> for a separator that occurs in the text.\<close>

fun after_last :: "string \<Rightarrow> string \<Rightarrow> string" where
  "after_last sep [] = []"
| "after_last sep (c # cs) = (if substr sep cs then after_last sep cs
     else if prefix_of sep (c # cs) then drop (length sep) (c # cs) else c # cs)"

definition intent_of_payload :: "pyval \<Rightarrow> pyval" where
  "intent_of_payload payload =
     (if opt_truthy (vget payload ''tool'') then vgetd payload ''tool'' PNone
      else case as_str (vgetd payload ''message'' (PStr '''')) of
        Some m \<Rightarrow> if substr ''deterministic:'' m then PStr (after_last ''deterministic:'' m) else PNone
      | None \<Rightarrow> PNone)"

text \<open>The last intent event decides.\<close>

definition intent_tool_of :: "outbox_event list \<Rightarrow> exn + string option" where
  "intent_tool_of events = (case last_opt (filter (\<lambda>e. ev_type e = ''founder.intent'') events) of
     None \<Rightarrow> Inr None
   | Some e \<Rightarrow> (case intent_of_payload (ev_payload e) of PNone \<Rightarrow> Inr None
       | v \<Rightarrow> (case as_str v of None \<Rightarrow> Inl ValidationError | Some s \<Rightarrow> Inr (Some s))))"

definition policy_snapshot_of :: "outbox_event list \<Rightarrow> pyval list" where
  "policy_snapshot_of events = (case List.find (\<lambda>e. ev_type e = ''decision.recorded'') events of
     None \<Rightarrow> [] | Some e \<Rightarrow> if opt_truthy (vget (ev_payload e) ''policies_applied'')
       then [vgetd (ev_payload e) ''policies_applied'' PNone] else [])"

definition load_bundle :: "string \<Rightarrow> string \<Rightarrow> sys \<Rightarrow> exn + snapshot_bundle" where
  "load_bundle sid cid s =
     rbind (load_steps 0 0 (get_replay_snapshots s sid)) (\<lambda>(steps, w).
     let events = get_events_by_correlation (sy_db s) cid in
     rbind (intent_tool_of events) (\<lambda>intent.
       Inr \<lparr>bu_session = sid, bu_correlation = cid,
            bu_version = (case get_replay_baseline_meta s sid of None \<Rightarrow> ''rrm15-legacy''
              | Some m \<Rightarrow> str_or (Some (bm_version m)) ''rrm15-legacy''),
            bu_world_version = w, bu_policy_snapshot = policy_snapshot_of events, bu_steps = steps,
            bu_transitions = get_runtime_transitions (sy_db s) sid, bu_intent_tool = intent\<rparr>))"

section \<open>core/frozen_replay_executor.py: the run\<close>

text \<open>The clock of the machine's history does not matter to the outcome.\<close>

fun replay_each :: "persisted_transition list \<Rightarrow> unit sm_comp" where
  "replay_each [] = ret ()"
| "replay_each (tr # trs) = bnd (reads sm_state) (\<lambda>st.
     if state_value st \<noteq> pt_from tr then raise (ReplayIntegrityError ''Transition mismatch'')
     else case state_of_value (pt_to tr) of None \<Rightarrow> raise (ValueError (pt_to tr))
       | Some t \<Rightarrow> bnd (catch (transition 0 t) (\<lambda>e. True)
             (\<lambda>e. raise (ReplayIntegrityError ''Invalid replay transition''))) (\<lambda>_. replay_each trs))"

definition replay_transitions :: "persisted_transition list \<Rightarrow> unit sm_comp" where
  "replay_transitions trs = bnd (start 0) (\<lambda>_. replay_each trs)"

definition tool_name_of :: "pyval \<Rightarrow> string option" where
  "tool_name_of v = (case vget v ''tool_name'' of Some (PStr n) \<Rightarrow> if n = '''' then None else Some n | _ \<Rightarrow> None)"

definition collect_tool_sequence :: "snapshot_bundle \<Rightarrow> string list" where
  "collect_tool_sequence b =
     (let sq = concat (map (\<lambda>st. List.map_filter tool_name_of (sb_tool_results st)) (bu_steps b)) in
      if sq = [] then (case bu_intent_tool b of None \<Rightarrow> [] | Some t \<Rightarrow> if t = '''' then [] else [t]) else sq)"

definition CTO_TOOLS :: "string list" where
  "CTO_TOOLS = [''get_repo_health'', ''list_github_prs'', ''analyze_incidents'']"

text \<open>\<open>"cto" in delegations\<close> for a list (and a string) of delegations.\<close>

fun delegates_cto :: "pyval \<Rightarrow> bool" where
  "delegates_cto (PList xs) = (PStr ''cto'' \<in> set xs)"
| "delegates_cto (PTuple xs) = (PStr ''cto'' \<in> set xs)"
| "delegates_cto (PStr s) = substr ''cto'' s"
| "delegates_cto (PDict d) = (KStr ''cto'' \<in> set (dict_keys d))"
| "delegates_cto _ = False"

definition verify_delegation_routing :: "snapshot_bundle \<Rightarrow> string list \<Rightarrow> exn + unit" where
  "verify_delegation_routing b tools =
     (if (\<exists>st \<in> set (bu_steps b). delegates_cto (vgetd (sb_response st) ''delegations'' PNone)) \<and>
         \<not> (\<exists>t \<in> set CTO_TOOLS. t \<in> set tools)
      then Inl (ReplayIntegrityError ''CEO delegated to CTO but frozen tool sequence has no CTO tools'') else Inr ())"

definition verify_step_runtime_states :: "runtime_state \<Rightarrow> snapshot_bundle \<Rightarrow> exn + unit" where
  "verify_step_runtime_states st b = (case last_opt (bu_steps b) of None \<Rightarrow> Inr ()
     | Some l \<Rightarrow> if sb_state l \<noteq> state_value st \<and> st = COMPLETED \<and>
           sb_state l \<notin> {''completed'', ''observing''}
         then Inl (ReplayIntegrityError ''Final snapshot state inconsistent'') else Inr ())"

definition finish_replay :: "runtime_state \<Rightarrow> exn + runtime_state" where
  "finish_replay st = (if st = COMPLETED then Inr COMPLETED
     else if COMPLETED \<in> valid_targets st then Inr COMPLETED
     else Inl (ReplayIntegrityError ''State machine could not complete after replay''))"

definition frozen_run :: "snapshot_bundle \<Rightarrow> sys \<Rightarrow> exn + canonical_outcome" where
  "frozen_run b s =
     (if bu_version b \<noteq> ''rrm15-legacy'' \<and> bu_version b \<noteq> ORCHESTRATOR_VERSION
      then Inl (ReplayVersionMismatchError (bu_version b) ORCHESTRATOR_VERSION)
      else if bu_transitions b = [] \<and> bu_steps b = [] \<and> str_or (bu_intent_tool b) '''' = ''''
      then Inl (ReplayIntegrityError ''No replay bundle data for session'')
      else
        (let (r, sm) = replay_transitions (bu_transitions b) (new_sm (bu_correlation b) (bu_session b)) in
         rbind r (\<lambda>_. let tools = collect_tool_sequence b in
         rbind (verify_delegation_routing b tools) (\<lambda>_.
         rbind (verify_step_runtime_states (sm_state sm) b) (\<lambda>_.
         rbind (finish_replay (sm_state sm)) (\<lambda>final.
           Inr \<lparr>oc_final_state = state_value final, oc_tools = tools,
             oc_decisions = map dr_id (get_decisions_by_correlation (sy_db s) (bu_correlation b)),
             oc_effects = map se_id (get_effects_by_correlation (sy_db s) (bu_correlation b)),
             oc_approvals = sort (map av_id (list_approvals_by_correlation (sy_gov s) (bu_correlation b)))\<rparr>))))))"

definition run_from_session :: "string \<Rightarrow> string \<Rightarrow> sys \<Rightarrow> exn + canonical_outcome" where
  "run_from_session sid cid s = rbind (load_bundle sid cid s) (\<lambda>b. frozen_run b s)"

section \<open>core/replay_validator.py\<close>

definition prompt_hash :: "env \<Rightarrow> string \<Rightarrow> string" where
  "prompt_hash E p = sha256 E p"

definition replay_confidence_from_baseline :: "string \<Rightarrow> string option \<Rightarrow> rat" where
  "replay_confidence_from_baseline fp baseline = (case baseline of None \<Rightarrow> 1 | Some b \<Rightarrow> if fp = b then 1 else 0)"

definition build_canonical_outcome :: "string \<Rightarrow> string \<Rightarrow> string option \<Rightarrow> sys \<Rightarrow> exn + canonical_outcome" where
  "build_canonical_outcome sid cid final s = rbind (run_from_session sid cid s) (\<lambda>oc.
     Inr (case final of None \<Rightarrow> oc | Some f \<Rightarrow> oc\<lparr>oc_final_state := f\<rparr>))"

definition validate_frozen_replay :: "env \<Rightarrow> string \<Rightarrow> string \<Rightarrow> sys \<Rightarrow> exn + bool \<times> string \<times> string option" where
  "validate_frozen_replay E sid cid s = (case get_replay_baseline s sid of
     None \<Rightarrow> Inr (False, '''', None)
   | Some baseline \<Rightarrow>
       (let version = (case get_replay_baseline_meta s sid of None \<Rightarrow> '''' | Some m \<Rightarrow> bm_version m) in
        if version \<noteq> '''' \<and> version \<notin> {ORCHESTRATOR_VERSION, ''rrm15-legacy''} then Inr (False, '''', Some baseline)
        else case run_from_session sid cid s of
          Inl e \<Rightarrow> if is_replay_error e then Inr (False, '''', Some baseline) else Inl e
        | Inr oc \<Rightarrow> Inr (outcome_fingerprint E oc = baseline, outcome_fingerprint E oc, Some baseline)))"

section \<open>core/replay_diff.py\<close>

definition diff_canonical_outcomes :: "canonical_outcome \<Rightarrow> canonical_outcome \<Rightarrow> string list" where
  "diff_canonical_outcomes e a =
     (if oc_final_state e \<noteq> oc_final_state a then [''final_runtime_state''] else []) @
     (if oc_tools e \<noteq> oc_tools a then [''tool_sequence''] else []) @
     (if oc_decisions e \<noteq> oc_decisions a then [''decision_sequence''] else []) @
     (if oc_effects e \<noteq> oc_effects a then [''side_effects''] else []) @
     (if oc_approvals e \<noteq> oc_approvals a then [''approvals''] else [])"

section \<open>core/live_replay_adapter.py\<close>

definition default_agent_id :: "string \<Rightarrow> pyval \<Rightarrow> string" where
  "default_agent_id tool frozen =
     (if opt_truthy (vget frozen ''agent_id'') then (case as_str (vgetd frozen ''agent_id'' PNone) of Some a \<Rightarrow> a | None \<Rightarrow> '''')
      else if tool \<in> {''get_repo_health'', ''list_github_prs'', ''analyze_incidents'', ''prioritize_bugs''} then ''cto''
      else ''ceo'')"

definition result_dump :: "tool_result \<Rightarrow> pyval" where
  "result_dump r = pdict [(''success'', PBool (tr_success r)), (''data'', case tr_data r of None \<Rightarrow> PNone | Some v \<Rightarrow> v),
     (''errors'', pstrs (tr_errors r)), (''warnings'', PList []), (''source'', PStr (tr_source r)),
     (''latency_ms'', PInt (tr_latency_ms r)), (''cached'', PBool (tr_cached r)), (''tool_name'', PStr (tr_tool_name r)),
     (''correlation_id'', PStr (tr_correlation r))]"

definition refresh_result :: "rt_env \<Rightarrow> registry \<Rightarrow> string \<Rightarrow> pyval \<Rightarrow> pyval rt" where
  "refresh_result R reg cid frozen = (case tool_name_of frozen of None \<Rightarrow> ret frozen
     | Some tool \<Rightarrow> bnd (execute_tool R reg tool (default_agent_id tool frozen) cid
          (let p = vgetd frozen ''params'' PNone in if is_dict p then Some p else None) None 0)
          (\<lambda>r. ret (result_dump r)))"

definition refresh_tool_results :: "rt_env \<Rightarrow> registry \<Rightarrow> string \<Rightarrow> snapshot_bundle \<Rightarrow> snapshot_bundle rt" where
  "refresh_tool_results R reg cid b =
     (case (str_or (bu_intent_tool b) '''', bu_steps b) of
        (tool, []) \<Rightarrow> if tool = '''' then ret b
          else bnd (execute_tool R reg tool (default_agent_id tool (PDict [])) cid None None 0) (\<lambda>r.
            ret (b\<lparr>bu_steps := [\<lparr>sb_step = 0, sb_state = ''completed'', sb_tool_results = [result_dump r],
              sb_prompt = ''deterministic:'' @ tool, sb_response = PDict [], sb_world_version = 0\<rparr>]\<rparr>))
      | (tool, steps) \<Rightarrow> bnd (collect steps (\<lambda>st. bnd (collect (sb_tool_results st) (refresh_result R reg cid))
            (\<lambda>trs. ret (st\<lparr>sb_tool_results := trs\<rparr>)))) (\<lambda>steps'. ret (b\<lparr>bu_steps := steps'\<rparr>)))"

definition build_live_bundle :: "rt_env \<Rightarrow> registry \<Rightarrow> string \<Rightarrow> string \<Rightarrow> snapshot_bundle rt" where
  "build_live_bundle R reg sid cid = bnd (\<lambda>s. (load_bundle sid cid s, s)) (refresh_tool_results R reg cid)"

definition run_live_outcome :: "rt_env \<Rightarrow> registry \<Rightarrow> string \<Rightarrow> string \<Rightarrow> canonical_outcome rt" where
  "run_live_outcome R reg sid cid = bnd (build_live_bundle R reg sid cid) (\<lambda>b s. (frozen_run b s, s))"

section \<open>core/replay_analytics.py\<close>

definition context_hashes :: "pyval list \<Rightarrow> pyval list" where
  "context_hashes snaps = filter truthy (map (\<lambda>v. vgetd (vgetd v ''context_fingerprint'' PNone) ''context_hash'' PNone)
     (filter (\<lambda>v. opt_truthy (vget v ''context_fingerprint'')) snaps))"

definition analyze_replay :: "rt_env \<Rightarrow> registry \<Rightarrow> string \<Rightarrow> string \<Rightarrow> replay_mode \<Rightarrow> replay_analytics rt" where
  "analyze_replay R reg sid cid mode =
     bnd (\<lambda>s. (validate_frozen_replay (re_env R) sid cid s, s)) (\<lambda>(ok, fp, baseline).
     bnd (if mode = LIVE
          then bnd (\<lambda>s. (run_from_session sid cid s, s)) (\<lambda>expected.
               bnd (run_live_outcome R reg sid cid) (\<lambda>live.
               let drift = diff_canonical_outcomes expected live in
               ret (drift, drift = [], if ''tool_sequence'' \<in> set drift then 1 else 0,
                    if drift = [] then 1/2 else fl (2/10), fdiv (of_nat (length drift)) 5)))
          else ret ([], ok, 0, if ok then 1 else 0, if ok then 0 else 1))
       (\<lambda>(drift, match, tool_div, confidence, severity).
     reads (\<lambda>s. \<lparr>ra_session = sid, ra_correlation = cid, ra_confidence = confidence,
       ra_drift_severity = min 1 severity,
       ra_version = (case get_replay_baseline_meta s sid of None \<Rightarrow> ORCHESTRATOR_VERSION
         | Some m \<Rightarrow> str_or (Some (bm_version m)) ORCHESTRATOR_VERSION),
       ra_context_divergence = (if length (remdups (context_hashes (get_replay_snapshots s sid))) > 1 then 1/2 else 0),
       ra_tool_divergence = tool_div, ra_outcome_match = match, ra_drift_fields = drift\<rparr>)))"

section \<open>core/replay.py\<close>

record replay_snapshot_row =
  rw_step :: nat
  rw_state :: runtime_state
  rw_prompt_hash :: string
  rw_outputs :: "(pykey \<times> pyval) list"
  rw_world_version :: int

record replay_session =
  rq_session :: string
  rq_correlation :: string
  rq_mode :: replay_mode
  rq_world :: "(string, pyval) dict"
  rq_snaps :: "replay_snapshot_row list"
  rq_match :: "bool option"

fun mode_value :: "replay_mode \<Rightarrow> string" where
  "mode_value FROZEN = ''frozen''"
| "mode_value LIVE = ''live''"

definition tool_outputs_of :: "pyval \<Rightarrow> (pykey \<times> pyval) list" where
  "tool_outputs_of snap =
     (let trs = (case as_list (vgetd snap ''tool_results'' (PList [])) of Some xs \<Rightarrow> xs | None \<Rightarrow> []);
          own = fold (\<lambda>tr d. case vget tr ''tool_name'' of Some (PStr n) \<Rightarrow> dict_set (KStr n) tr d | _ \<Rightarrow> d) trs [];
          legacy = (case vgetd snap ''tool_outputs'' (PDict []) of PDict d \<Rightarrow> d | _ \<Rightarrow> [])
      in fold (\<lambda>p. dict_set (fst p) (snd p)) legacy own)"

definition replay_row :: "env \<Rightarrow> int \<Rightarrow> nat \<Rightarrow> pyval \<Rightarrow> exn + replay_snapshot_row" where
  "replay_row E ws i snap =
     rbind (get_str snap ''runtime_state'' ''completed'') (\<lambda>st.
     rbind (case state_of_value st of None \<Rightarrow> Inl (ValueError st) | Some x \<Rightarrow> Inr x) (\<lambda>state.
     rbind (get_str snap ''prompt'' '''') (\<lambda>pr.
     rbind (get_int snap ''world_state_version'' ws) (\<lambda>w.
       Inr \<lparr>rw_step = i, rw_state = state, rw_prompt_hash = prompt_hash E pr, rw_outputs = tool_outputs_of snap,
            rw_world_version = w\<rparr>))))"

fun replay_rows :: "env \<Rightarrow> int \<Rightarrow> nat \<Rightarrow> pyval list \<Rightarrow> exn + replay_snapshot_row list" where
  "replay_rows E ws i [] = Inr []"
| "replay_rows E ws i (v # vs) = rbind (replay_row E ws i v) (\<lambda>r.
     rbind (replay_rows E ws (i + 1) vs) (\<lambda>rs. Inr (r # rs)))"

definition replay_session :: "rt_env \<Rightarrow> registry \<Rightarrow> string \<Rightarrow> string \<Rightarrow> replay_mode \<Rightarrow> replay_session rt" where
  "replay_session R reg sid cid mode =
     seqc (span_begin sid cid) (bnd (span_start R REPLAY '''' [(''mode'', PStr (mode_value mode))]) (\<lambda>spn.
     bnd (reads (\<lambda>s. get_replay_snapshots s sid)) (\<lambda>snaps.
     if snaps = [] then seqc (span_end R spn SP_ERROR []) (ret \<lparr>rq_session = sid, rq_correlation = cid, rq_mode = mode,
       rq_world = [], rq_snaps = [], rq_match = Some False\<rparr>)
     else bnd (lift_res (get_int (hd snaps) ''world_state_version'' 0)) (\<lambda>ws.
     bnd (lift_res (replay_rows (re_env R) ws 0 snaps)) (\<lambda>rows.
     let base = \<lparr>rq_session = sid, rq_correlation = cid, rq_mode = mode,
       rq_world = [(''version'', PInt ws), (''source'', PStr ''historical_snapshot'')], rq_snaps = rows, rq_match = None\<rparr> in
     if mode = FROZEN then
       bnd (\<lambda>s. (validate_frozen_replay (re_env R) sid cid s, s)) (\<lambda>(match, fp, baseline).
       let ok = (match \<and> baseline \<noteq> None) in
       seqc (span_end R spn (if ok then SP_OK else SP_ERROR) [])
         (ret (base\<lparr>rq_match := Some ok, rq_world := rq_world base @
            [(''outcome_fingerprint'', PStr fp), (''baseline_fingerprint'', popt baseline)]\<rparr>)))
     else
       bnd (\<lambda>s. (run_from_session sid cid s, s)) (\<lambda>expected.
       bnd (run_live_outcome R reg sid cid) (\<lambda>live.
       let drift = diff_canonical_outcomes expected live in
       seqc (span_end R spn (if drift = [] then SP_OK else SP_ERROR) [])
         (ret (base\<lparr>rq_match := Some (drift = []), rq_world := rq_world base @
            [(''expected_fingerprint'', PStr (outcome_fingerprint (re_env R) expected)),
             (''live_fingerprint'', PStr (outcome_fingerprint (re_env R) live)),
             (''replay_source'', PStr ''live_tool_adapter''), (''drift_fields'', pstrs drift)]\<rparr>)))))))))"

section \<open>Lemmas: recorded transitions\<close>

text \<open>The transitions that a machine persists on its way through a list of states.\<close>

fun steps_of :: "runtime_state \<Rightarrow> runtime_state list \<Rightarrow> (string \<times> string) list" where
  "steps_of a [] = []"
| "steps_of a (b # bs) = (state_value a, state_value b) # steps_of b bs"

abbreviation edge :: "persisted_transition \<Rightarrow> string \<times> string" where
  "edge t \<equiv> (pt_from t, pt_to t)"

lemma catch_transition:
  "catch (transition now t) (\<lambda>e. True) (\<lambda>e. raise x) sm =
     (if lc.step_ok (sm_state sm) t
      then (Inr t, sm\<lparr>sm_state := t, sm_history := sm_history sm @ [(t, now)]\<rparr>) else (Inl x, sm))"
  by (auto simp: catch_def transition_def lc.step_ok_def raise_def)

lemma replay_each_state:
  "replay_each trs sm = (Inr (), sm') \<Longrightarrow>
     \<exists>states. lc.path_from (sm_state sm) states \<and> map edge trs = steps_of (sm_state sm) states \<and>
       sm_state sm' = last (sm_state sm # states)"
proof (induction trs arbitrary: sm)
  case Nil
  then show ?case by (intro exI [of _ "[]"]) (simp add: ret_def)
next
  case (Cons tr trs)
  from Cons.prems have from_ok: "state_value (sm_state sm) = pt_from tr"
    by (auto simp: comp_simps split: if_splits)
  then obtain t where t: "state_of_value (pt_to tr) = Some t"
    using Cons.prems by (auto simp: comp_simps split: option.splits)
  have ok: "lc.step_ok (sm_state sm) t"
  proof (rule ccontr)
    assume "\<not> lc.step_ok (sm_state sm) t"
    then show False
      using Cons.prems from_ok t by (simp add: comp_simps bnd_def catch_transition)
  qed
  let ?sm = "sm\<lparr>sm_state := t, sm_history := sm_history sm @ [(t, 0)]\<rparr>"
  have "replay_each trs ?sm = (Inr (), sm')"
    using Cons.prems from_ok t ok by (simp add: comp_simps bnd_def catch_transition)
  from Cons.IH [OF this] obtain states where
    "lc.path_from t states" "map edge trs = steps_of t states" "sm_state sm' = last (t # states)" by auto
  moreover have "pt_to tr = state_value t" using state_of_value_Some [OF t] by simp
  ultimately show ?case
    using ok from_ok by (intro exI [of _ "t # states"]) auto
qed

lemma replay_each_path:
  "lc.path_from (sm_state sm) states \<Longrightarrow> map edge trs = steps_of (sm_state sm) states \<Longrightarrow>
     \<exists>sm'. replay_each trs sm = (Inr (), sm') \<and> sm_state sm' = last (sm_state sm # states)"
proof (induction states arbitrary: trs sm)
  case Nil
  then show ?case by (simp add: ret_def)
next
  case (Cons t states)
  then obtain tr trs' where trs: "trs = tr # trs'" by (cases trs) auto
  let ?sm = "sm\<lparr>sm_state := t, sm_history := sm_history sm @ [(t, 0)]\<rparr>"
  have "lc.step_ok (sm_state sm) t" "pt_from tr = state_value (sm_state sm)" "pt_to tr = state_value t"
    "lc.path_from (sm_state ?sm) states" "map edge trs' = steps_of (sm_state ?sm) states"
    using Cons.prems by (simp_all add: trs)
  then show ?case
    using Cons.IH [of ?sm trs'] by (simp add: trs comp_simps bnd_def catch_transition)
qed

lemma replay_start: "replay_transitions trs (new_sm cid sid) =
    replay_each trs ((new_sm cid sid)\<lparr>sm_state := PERCEIVING, sm_history := [(PERCEIVING, 0)]\<rparr>)"
  by (simp add: replay_transitions_def start_def transition_def new_sm_def bnd_def)

lemma replay_each_error:
  "replay_each trs sm = (Inl e, sm') \<Longrightarrow> is_replay_error e \<or> (\<exists>x. e = ValueError x \<and> state_of_value x = None)"
proof (induction trs arbitrary: sm)
  case (Cons tr trs)
  then show ?case
    by (auto simp: comp_simps bnd_def catch_transition split: if_splits option.splits)
qed (simp add: ret_def)

text \<open>What a run reads; saving a baseline leaves it alone.\<close>

lemma load_bundle_baseline:
  assumes "load_bundle sid cid s = Inr b"
  shows "load_bundle sid cid (s\<lparr>sy_replay := save_baseline_record_memory sid c0 fp v (sy_replay s)\<rparr>) =
    Inr (b\<lparr>bu_version := str_or (Some v) ''rrm15-legacy''\<rparr>)"
  using assms
  by (auto simp: load_bundle_def rbind_Inr_iff get_replay_snapshots_def get_replay_snapshots_memory_def Let_def
      save_baseline_record_memory_def get_replay_baseline_meta_def get_baseline_record_memory_def)

lemma frozen_run_version:
  assumes "frozen_run b s = Inr oc"
  shows "frozen_run (b\<lparr>bu_version := ORCHESTRATOR_VERSION\<rparr>) (s\<lparr>sy_replay := x\<rparr>) = Inr oc"
proof -
  have v: "\<not> (bu_version b \<noteq> ''rrm15-legacy'' \<and> bu_version b \<noteq> ORCHESTRATOR_VERSION)"
  proof
    assume "bu_version b \<noteq> ''rrm15-legacy'' \<and> bu_version b \<noteq> ORCHESTRATOR_VERSION"
    then show False using assms by (simp add: frozen_run_def)
  qed
  have parts: "collect_tool_sequence (b\<lparr>bu_version := y\<rparr>) = collect_tool_sequence b"
    "verify_delegation_routing (b\<lparr>bu_version := y\<rparr>) ts = verify_delegation_routing b ts"
    "verify_step_runtime_states st (b\<lparr>bu_version := y\<rparr>) = verify_step_runtime_states st b" for y ts st
    by (simp_all add: collect_tool_sequence_def verify_delegation_routing_def verify_step_runtime_states_def)
  have "frozen_run (b\<lparr>bu_version := ORCHESTRATOR_VERSION\<rparr>) (s\<lparr>sy_replay := x\<rparr>) = frozen_run b s"
    unfolding frozen_run_def if_not_P [OF v] by (simp add: parts)
  then show ?thesis using assms by simp
qed

lemma run_after_baseline:
  assumes "run_from_session sid cid s = Inr oc"
  shows "run_from_session sid cid (s\<lparr>sy_replay := save_baseline_record_memory sid c0 fp ORCHESTRATOR_VERSION (sy_replay s)\<rparr>) = Inr oc"
proof -
  obtain b where b: "load_bundle sid cid s = Inr b" "frozen_run b s = Inr oc"
    using assms by (auto simp: run_from_session_def rbind_Inr_iff)
  have "str_or (Some ORCHESTRATOR_VERSION) ''rrm15-legacy'' = ORCHESTRATOR_VERSION"
    by (simp add: str_or_def ORCHESTRATOR_VERSION_def)
  then show ?thesis
    using load_bundle_baseline [OF b(1), of c0 fp ORCHESTRATOR_VERSION] frozen_run_version [OF b(2)]
    by (simp add: run_from_session_def)
qed

lemma frozen_run_final: "frozen_run b s = Inr oc \<Longrightarrow> oc_final_state oc = ''completed''"
  by (auto simp: frozen_run_def finish_replay_def rbind_Inr_iff Let_def split: if_splits prod.splits)

section \<open>Lemmas: tools and the stores\<close>

text \<open>Running tools changes no store: only spans, counters and the tool cache.\<close>

lemma keeps_same:
  "keeps (same_stores s0) (span_start R ty rs meta)" "keeps (same_stores s0) (span_end R u st meta)"
  "keeps (same_stores s0) (clock R)" "keeps (same_stores s0) (outside f)"
proof -
  show c: "keeps (same_stores s0) (clock R)" by (rule rt_keeps) simp
  show "keeps (same_stores s0) (outside f)" by (rule rt_keeps) simp
  have s: "keeps (same_stores s0) (on_spans f)" for f by (rule rt_keeps) simp
  have u: "keeps (same_stores s0) (fresh_uuid R)" by (rule rt_keeps) simp
  show "keeps (same_stores s0) (span_start R ty rs meta)" "keeps (same_stores s0) (span_end R u st meta)"
    unfolding span_start_def span_end_def by (intro keeps_bnd keeps_seqc keeps_ret c s u)+
qed

definition handler_ok :: "handler \<Rightarrow> bool" where
  "handler_ok f \<longleftrightarrow> (\<forall>s0 kw. keeps (same_stores s0) (f kw))"

lemma pure_handler_ok: "handler_ok (pure_handler n rq op f)"
  by (auto simp: handler_ok_def pure_handler_def split: option.split)

lemma github_call_keeps: "keeps (same_stores s0) (github_mcp_call R verb params)"
  unfolding github_mcp_call_def by (auto split: sum.split simp: keeps_same intro!: keeps_bnd)

lemma github_handlers_ok: "handler_ok (list_github_prs R)" "handler_ok (get_repo_health R)"
  unfolding handler_ok_def list_github_prs_def get_repo_health_def Let_def
  by (auto split: option.split intro!: keeps_bnd github_call_keeps)

lemma handlers_ok: "dict_get (TOOL_HANDLERS R) tool = Some fn \<Longrightarrow> handler_ok fn"
  by (drule dict_get_SomeD) (auto simp: TOOL_HANDLERS_def github_handlers_ok pure_handler_ok analyze_incidents_def
      prioritize_bugs_def read_kpi_dashboard_def get_cashflow_summary_def calculate_runway_def detect_blockers_def
      list_active_tasks_def get_analytics_summary_def propose_campaign_def create_initiative_def escalate_to_human_def)

lemma cache_set_keeps: "keeps (same_stores s0) (cache_set R tool params data ttl)"
  unfolding cache_set_def by (auto split: option.split simp: keeps_same intro!: keeps_bnd keeps_mods)

lemma run_handler_keeps: "keeps (same_stores s0) (run_handler R spn tool cid params sid)"
proof (cases "dict_get (TOOL_HANDLERS R) tool")
  case None
  then show ?thesis by (auto simp: run_handler_def keeps_same intro!: keeps_seqc)
next
  case (Some fn)
  have "keeps (same_stores s0) (fn kw)" for kw using handlers_ok [OF Some] by (simp add: handler_ok_def)
  then show ?thesis
    unfolding run_handler_def Some option.case Let_def normalize_tool_call_def
    by (auto simp: keeps_same cache_set_keeps intro!: keeps_bnd keeps_seqc)
qed

lemma execute_tool_keeps: "keeps (same_stores s0) (execute_tool R reg tool agent cid raw sid xb)"
  unfolding execute_tool_def tool_gate_def Let_def
  by (auto simp: keeps_same run_handler_keeps intro!: keeps_bnd keeps_seqc split: option.split)

lemma same_reader: "keeps P (\<lambda>s. (f s, s))"
  by (simp add: keeps_def)

lemma live_keeps: "keeps (same_stores s0) (run_live_outcome R reg sid cid)"
proof -
  have r: "keeps (same_stores s0) (refresh_result R reg cid v)" for v
    unfolding refresh_result_def by (auto simp: execute_tool_keeps intro!: keeps_bnd split: option.split)
  have "keeps (same_stores s0) (refresh_tool_results R reg cid b)" for b
    unfolding refresh_tool_results_def
    by (auto simp: execute_tool_keeps r intro!: keeps_bnd keeps_collect split: list.split)
  then show ?thesis
    unfolding run_live_outcome_def build_live_bundle_def by (intro keeps_bnd same_reader) auto
qed

section \<open>Properties\<close>

text \<open>C29: replaying recorded transitions: the replay succeeds exactly when the recorded transitions are the
  steps of a path through the transition table that starts in \<open>PERCEIVING\<close>, and then it ends in the path's last state.
  So whatever a machine recorded replays, and nothing else does.\<close>

theorem transitions_replay_iff:
  "(fst (replay_transitions trs (new_sm cid sid)) = Inr () \<longleftrightarrow>
     (\<exists>states. lc.path_from PERCEIVING states \<and> map edge trs = steps_of PERCEIVING states)) \<and>
   (\<forall>states. lc.path_from PERCEIVING states \<longrightarrow> map edge trs = steps_of PERCEIVING states \<longrightarrow>
     sm_state (snd (replay_transitions trs (new_sm cid sid))) = last (PERCEIVING # states))"
proof -
  let ?sm = "(new_sm cid sid)\<lparr>sm_state := PERCEIVING, sm_history := [(PERCEIVING, 0)]\<rparr>"
  have fwd: "\<exists>states. lc.path_from PERCEIVING states \<and> map edge trs = steps_of PERCEIVING states"
    if ok: "fst (replay_each trs ?sm) = Inr ()"
  proof -
    obtain sm' where "replay_each trs ?sm = (Inr (), sm')" using ok by (cases "replay_each trs ?sm") auto
    from replay_each_state [OF this] show ?thesis by auto
  qed
  have bwd: "\<exists>sm'. replay_each trs ?sm = (Inr (), sm') \<and> sm_state sm' = last (PERCEIVING # states)"
    if "lc.path_from PERCEIVING states" "map edge trs = steps_of PERCEIVING states" for states
    using replay_each_path [of ?sm states trs] that by simp
  have "fst (replay_each trs ?sm) = Inr ()" "sm_state (snd (replay_each trs ?sm)) = last (PERCEIVING # states)"
    if "lc.path_from PERCEIVING states" "map edge trs = steps_of PERCEIVING states" for states
    using bwd [OF that] by auto
  then show ?thesis unfolding replay_start using fwd by blast
qed

theorem transitions_replay_iff_witness:
  "fst (replay_transitions [\<lparr>pt_correlation = ''c'', pt_session = ''s'', pt_from = ''perceiving'', pt_to = ''reasoning''\<rparr>,
      \<lparr>pt_correlation = ''c'', pt_session = ''s'', pt_from = ''reasoning'', pt_to = ''completed''\<rparr>] (new_sm ''c'' ''s'')) = Inr ()"
proof -
  have "lc.path_from PERCEIVING [REASONING, COMPLETED]" by (simp add: lc.step_ok_def)
  then show ?thesis by (subst transitions_replay_iff [THEN conjunct1]) (intro exI [of _ "[REASONING, COMPLETED]"], simp)
qed

text \<open>a session that is used twice no longer replays: if the transitions of one run, which ended anywhere but
  in \<open>PERCEIVING\<close>, are followed in the same session by those of a second run, replay fails with the integrity
  error whatever the second run did.\<close>

theorem reused_session_breaks_replay:
  assumes "lc.path_from PERCEIVING run1" and "map edge trs1 = steps_of PERCEIVING run1"
    and "last (PERCEIVING # run1) \<noteq> PERCEIVING"
    and "map edge trs2 = steps_of PERCEIVING run2" and "run2 \<noteq> []"
  shows "\<exists>e. fst (replay_transitions (trs1 @ trs2) (new_sm cid sid)) = Inl (ReplayIntegrityError e)"
proof -
  let ?sm = "(new_sm cid sid)\<lparr>sm_state := PERCEIVING, sm_history := [(PERCEIVING, 0)]\<rparr>"
  have app: "replay_each xs sm = (Inr (), sm1) \<Longrightarrow> replay_each (xs @ ys) sm = replay_each ys sm1" for xs ys sm sm1
  proof (induction xs arbitrary: sm)
    case (Cons x xs)
    then show ?case
      by (auto simp: comp_simps bnd_def catch_transition split: option.splits if_splits)
  qed (simp add: ret_def)
  obtain sm' where r1: "replay_each trs1 ?sm = (Inr (), sm')" "sm_state sm' = last (PERCEIVING # run1)"
    using replay_each_path [of ?sm run1 trs1] assms(1,2) by auto
  obtain tr trs where trs2: "trs2 = tr # trs" "pt_from tr = state_value PERCEIVING"
    using assms(4,5) by (cases run2; cases trs2) auto
  have "state_value (sm_state sm') \<noteq> pt_from tr"
    using r1(2) assms(3) trs2(2) by (simp del: state_value.simps)
  then have "fst (replay_each trs2 sm') = Inl (ReplayIntegrityError ''Transition mismatch'')"
    by (simp add: trs2(1) comp_simps)
  then show ?thesis unfolding replay_start app [OF r1(1)] by simp
qed

theorem reused_session_breaks_replay_witness:
  "\<exists>e. fst (replay_transitions ([\<lparr>pt_correlation = ''c'', pt_session = ''s'', pt_from = ''perceiving'', pt_to = ''reasoning''\<rparr>] @
      [\<lparr>pt_correlation = ''d'', pt_session = ''s'', pt_from = ''perceiving'', pt_to = ''reasoning''\<rparr>]) (new_sm ''d'' ''s'')) =
     Inl (ReplayIntegrityError e)"
  by (rule reused_session_breaks_replay [where ?run1.0 = "[REASONING]" and ?run2.0 = "[REASONING]"])
    (simp_all add: lc.step_ok_def)

text \<open>a stored baseline validates and detects tampering: right after the fingerprint of a session's outcome is stored,
  validation answers true with that fingerprint and the confidence is 1; and in any later state whose baseline entry is unchanged, if
  validation answers true then the outcome of the session is the one that was stored, unless the digest collides.\<close>

theorem baseline_validates:
  assumes "run_from_session sid cid s = Inr oc" and "fp = outcome_fingerprint E oc"
    and "s' = s\<lparr>sy_replay := save_baseline_record_memory sid cid fp ORCHESTRATOR_VERSION (sy_replay s)\<rparr>"
  shows "validate_frozen_replay E sid cid s' = Inr (True, fp, Some fp) \<and>
    replay_confidence_from_baseline fp (get_replay_baseline s' sid) = 1 \<and>
    (\<forall>t g b. get_replay_baseline t sid = get_replay_baseline s' sid \<longrightarrow>
       validate_frozen_replay E sid cid t = Inr (True, g, b) \<longrightarrow>
       run_from_session sid cid t = Inr oc \<or> (\<exists>v w. collides E v w))"
proof -
  have base: "get_replay_baseline s' sid = Some fp"
    by (simp add: assms(3) get_replay_baseline_def get_baseline_fingerprint_memory_def save_baseline_record_memory_def)
  have meta: "get_replay_baseline_meta s' sid = Some \<lparr>bm_correlation = cid, bm_fingerprint = fp, bm_version = ORCHESTRATOR_VERSION\<rparr>"
    by (simp add: assms(3) get_replay_baseline_meta_def get_baseline_record_memory_def save_baseline_record_memory_def)
  have run: "run_from_session sid cid s' = Inr oc"
    unfolding assms(3) by (rule run_after_baseline [OF assms(1)])
  have "validate_frozen_replay E sid cid s' = Inr (True, fp, Some fp)"
    by (simp add: validate_frozen_replay_def base meta run assms(2))
  moreover have "run_from_session sid cid t = Inr oc \<or> (\<exists>v w. collides E v w)"
    if t: "get_replay_baseline t sid = Some fp" "validate_frozen_replay E sid cid t = Inr (True, g, b)" for t g b
  proof -
    obtain oc' where oc': "run_from_session sid cid t = Inr oc'" "outcome_fingerprint E oc' = fp"
      using t by (auto simp: validate_frozen_replay_def Let_def split: if_splits sum.splits)
    then have "digest E (normalize_val True (outcome_dump oc')) = digest E (normalize_val True (outcome_dump oc))"
      using assms(2) by (simp add: outcome_fingerprint_def stable_hash_def)
    then show ?thesis using oc' outcome_norm_inj by (auto simp: collides_def)
  qed
  ultimately show ?thesis using base by (auto simp: replay_confidence_from_baseline_def)
qed

definition intent_event :: outbox_event where
  "intent_event = \<lparr>ev_id = ''1'', ev_key = ''k'', ev_correlation = ''c'', ev_causation = None, ev_type = ''founder.intent'',
     ev_payload = pdict [(''message'', PStr ''deterministic:detect_blockers'')], ev_world_version = 1, ev_processed = False, ev_created = 0\<rparr>"

definition replay_demo :: sys where
  "replay_demo = init_sys\<lparr>sy_db := (reset_db 0)\<lparr>db_outbox := [intent_event], db_transitions :=
     [\<lparr>pt_correlation = ''c'', pt_session = ''s'', pt_from = ''perceiving'', pt_to = ''reasoning''\<rparr>]\<rparr>\<rparr>"

lemma replay_demo_run: "run_from_session ''s'' ''c'' replay_demo = Inr \<lparr>oc_final_state = ''completed'',
   oc_tools = [''detect_blockers''], oc_decisions = [], oc_effects = [], oc_approvals = []\<rparr>"
  by code_simp

theorem baseline_validates_witness:
  "validate_frozen_replay tag_env ''s'' ''c'' (replay_demo\<lparr>sy_replay := save_baseline_record_memory ''s'' ''c''
     (outcome_fingerprint tag_env \<lparr>oc_final_state = ''completed'', oc_tools = [''detect_blockers''], oc_decisions = [],
        oc_effects = [], oc_approvals = []\<rparr>) ORCHESTRATOR_VERSION (sy_replay replay_demo)\<rparr>) =
   Inr (True, outcome_fingerprint tag_env \<lparr>oc_final_state = ''completed'', oc_tools = [''detect_blockers''], oc_decisions = [],
        oc_effects = [], oc_approvals = []\<rparr>, Some (outcome_fingerprint tag_env \<lparr>oc_final_state = ''completed'',
        oc_tools = [''detect_blockers''], oc_decisions = [], oc_effects = [], oc_approvals = []\<rparr>))"
  using baseline_validates [OF replay_demo_run refl refl, of tag_env] by blast

text \<open>live replay and its analysis never change a persisted store: neither the live outcome, nor the analysis, nor
  a whole replayed session in either mode, failing or not, touches the database, the snapshots and baselines, the
  approvals and audit log, the intelligence store, the agents' health or the approval biases.\<close>

theorem replay_changes_no_store:
  "same_stores s (snd (run_live_outcome R reg sid cid s)) \<and>
   same_stores s (snd (analyze_replay R reg sid cid mode s)) \<and>
   same_stores s (snd (replay_session R reg sid cid mode s))"
proof -
  have live: "keeps (same_stores s) (run_live_outcome R reg sid cid)" by (rule live_keeps)
  have "keeps (same_stores s) (analyze_replay R reg sid cid mode)"
    unfolding analyze_replay_def Let_def
    by (auto simp: live same_reader intro!: keeps_bnd split: prod.split)
  moreover have sb: "keeps (same_stores s) (span_begin a b)" for a b
    unfolding span_begin_def by (rule rt_keeps) simp
  have "keeps (same_stores s) (replay_session R reg sid cid mode)"
    unfolding replay_session_def Let_def
    by (auto simp: live same_reader keeps_same sb intro!: keeps_bnd keeps_seqc split: prod.split)
  ultimately show ?thesis using live by (simp add: keeps_def)
qed

lemma diff_Nil_iff: "diff_canonical_outcomes e a = [] \<longleftrightarrow> e = a"
  by (cases e; cases a) (auto simp: diff_canonical_outcomes_def split: if_splits)

lemma diff_length: "length (diff_canonical_outcomes e a) \<le> 5"
  by (simp add: diff_canonical_outcomes_def)

text \<open>replay analytics: confidence and drift are in the unit interval, in frozen mode they are 1 and 0 exactly when the
  baseline validates, in live mode the outcomes match exactly when no field drifted, and a live analysis never reports more
  than one half of confidence.\<close>

theorem analytics_consistent:
  assumes "analyze_replay R reg sid cid mode s = (Inr a, s')"
  shows "in_unit (ra_confidence a) \<and> in_unit (ra_drift_severity a) \<and>
    (mode = FROZEN \<longrightarrow> (ra_outcome_match a \<longleftrightarrow> (\<exists>fp b. validate_frozen_replay (re_env R) sid cid s = Inr (True, fp, b))) \<and>
       ra_confidence a = (if ra_outcome_match a then 1 else 0) \<and> ra_drift_severity a = 1 - ra_confidence a) \<and>
    (mode = LIVE \<longrightarrow> (ra_outcome_match a \<longleftrightarrow> ra_drift_fields a = []) \<and> ra_confidence a \<le> 1/2)"
proof (cases "validate_frozen_replay (re_env R) sid cid s")
  case (Inl e)
  then show ?thesis using assms by (simp add: analyze_replay_def bnd_def)
next
  case (Inr x)
  obtain ok fp b where x: "x = (ok, fp, b)" by (cases x)
  show ?thesis
  proof (cases "mode = LIVE")
    case False
    then have "mode = FROZEN" by (cases mode) auto
    moreover from this have "ra_outcome_match a = ok \<and> ra_confidence a = (if ok then 1 else 0) \<and>
        ra_drift_severity a = (if ok then 0 else 1)"
      using assms by (auto simp: analyze_replay_def bnd_def Inr x ret_def reads_def)
    ultimately show ?thesis using Inr x by auto
  next
    case True
    obtain e l where el: "ra_confidence a = (if diff_canonical_outcomes e l = [] then 1/2 else fl (2/10))"
      "ra_drift_severity a = min 1 (fdiv (of_nat (length (diff_canonical_outcomes e l))) 5)"
      "ra_drift_fields a = diff_canonical_outcomes e l" "ra_outcome_match a \<longleftrightarrow> diff_canonical_outcomes e l = []"
      using assms True unfolding analyze_replay_def
      by (auto simp: bnd_def Inr x ret_def reads_def Let_def split: sum.splits prod.splits)
    have "0 \<le> fl (2/10)" "fl (2/10) \<le> 1/2" using fl_mono [of "2/10" "1/2"] by (auto intro: b64.rnd_nonneg)
    moreover have "0 \<le> fdiv (of_nat (length (diff_canonical_outcomes e l))) 5"
      unfolding fdiv_def by (intro b64.rnd_nonneg) simp
    ultimately show ?thesis using True by (auto simp: el in_unit_def)
  qed
qed

theorem analytics_consistent_witness:
  "\<exists>a s'. analyze_replay demo_env build_vs_registry ''s'' ''c'' FROZEN init_sys = (Inr a, s') \<and> \<not> ra_outcome_match a"
proof -
  have v: "validate_frozen_replay (re_env demo_env) ''s'' ''c'' init_sys = Inr (False, '''', None)"
    by (simp add: validate_frozen_replay_def get_replay_baseline_def get_baseline_fingerprint_memory_def
        init_sys_def reset_replay_store_def)
  obtain a s' where a: "analyze_replay demo_env build_vs_registry ''s'' ''c'' FROZEN init_sys = (Inr a, s')"
    by (simp add: analyze_replay_def bnd_def v ret_def reads_def)
  then show ?thesis using analytics_consistent [OF a] v by auto
qed

end
