(* ===== verification/AgentRunner.thy ===== *)
theory AgentRunner
  imports Replay
begin

text \<open>
  Runs of a language-model agent: the response classes and the parser of structured output
  (\<open>schemas/responses\<close>), \<open>core/agent_runner.py\<close>, \<open>core/cognition_metrics.py\<close> and \<open>core/prompt_lineage.py\<close>.
  The model is an input of the environment: a run raises, or returns a content of any kind.
  Validation is that of JSON data against the field types that the two classes use (\<open>str\<close>, \<open>list[str]\<close>, \<open>dict\<close>), for which pydantic
  converts nothing; messages of exceptions are kept without the correlation id and the last error that the source appends.
\<close>

section \<open>Response classes\<close>

text \<open>The two classes that the orchestrator asks for.\<close>

datatype response_class = CEOResponse | CTOResponse

datatype field_kind = FText | FTexts | FDict

definition response_fields :: "response_class \<Rightarrow> (string \<times> field_kind \<times> pyval option) list" where
  "response_fields cls = (case cls of
     CEOResponse \<Rightarrow> [(''summary'', FText, None), (''priorities'', FTexts, Some (PList [])), (''delegations'', FTexts, Some (PList [])),
       (''risks'', FTexts, Some (PList [])), (''kpis_snapshot'', FDict, Some (PDict [])), (''escalations'', FTexts, Some (PList [])),
       (''recommended_actions'', FTexts, Some (PList []))]
   | CTOResponse \<Rightarrow> [(''summary'', FText, None), (''incidents'', FTexts, Some (PList [])), (''deployment_status'', FText, Some (PStr '''')),
       (''tech_debt_items'', FTexts, Some (PList [])), (''bugs_priority'', FTexts, Some (PList [])), (''github_summary'', FDict, Some (PDict [])),
       (''recommended_actions'', FTexts, Some (PList []))])"

record response =
  rp_class :: response_class
  rp_fields :: "(string \<times> pyval) list"

definition response_dump :: "response \<Rightarrow> pyval" where
  "response_dump r = pdict (rp_fields r)"

text \<open>Validation of a field and of a whole response from JSON data; unknown keys are ignored.\<close>

fun is_text :: "pyval \<Rightarrow> bool" where
  "is_text (PStr s) = True"
| "is_text _ = False"

fun check_field :: "field_kind \<Rightarrow> pyval \<Rightarrow> pyval option" where
  "check_field FText (PStr s) = Some (PStr s)"
| "check_field FTexts (PList xs) = (if list_all is_text xs then Some (PList xs) else None)"
| "check_field FDict (PDict d) = Some (PDict d)"
| "check_field _ _ = None"

definition field_value :: "pyval \<Rightarrow> string \<times> field_kind \<times> pyval option \<Rightarrow> pyval option" where
  "field_value v f = (case f of (name, kind, dflt) \<Rightarrow>
     (case vget v name of None \<Rightarrow> dflt | Some x \<Rightarrow> check_field kind x))"

definition model_validate :: "response_class \<Rightarrow> pyval \<Rightarrow> exn + response" where
  "model_validate cls v = (if \<not> is_dict v then Inl ValidationError
     else case all_some (map (field_value v) (response_fields cls)) of
       None \<Rightarrow> Inl ValidationError
     | Some vs \<Rightarrow> Inr \<lparr>rp_class = cls, rp_fields = zip (map fst (response_fields cls)) vs\<rparr>)"

section \<open>schemas/responses/base.py\<close>

definition MAX_STRUCTURED_RETRIES_GLOBAL :: nat where
  "MAX_STRUCTURED_RETRIES_GLOBAL = 3"

definition MAX_REPAIR_ATTEMPTS :: nat where
  "MAX_REPAIR_ATTEMPTS = 2"

definition MAX_LLM_RETRIES :: nat where
  "MAX_LLM_RETRIES = 1"

definition is_space :: "char \<Rightarrow> bool" where
  "is_space c = (let n = (of_char c :: nat) in 9 \<le> n \<and> n \<le> 13 \<or> 28 \<le> n \<and> n \<le> 32)"

definition strip :: "string \<Rightarrow> string" where
  "strip s = rev (dropWhile is_space (rev (dropWhile is_space s)))"

text \<open>\<open>re.search\<close> for a brace, anything, a brace: from the first opening to the last closing one.\<close>

definition brace_span :: "string \<Rightarrow> string option" where
  "brace_span s = (let t = rev (dropWhile (\<lambda>c. c \<noteq> CHR ''}'') (rev (dropWhile (\<lambda>c. c \<noteq> CHR ''{'') s)))
     in if t = [] then None else Some t)"

definition extract_json :: "rt_env \<Rightarrow> string \<Rightarrow> pyval option" where
  "extract_json R text = (case re_json_loads R (strip text) of Some v \<Rightarrow> Some v
     | None \<Rightarrow> (case brace_span (strip text) of None \<Rightarrow> None | Some t \<Rightarrow> re_json_loads R t))"

definition model_validate_json :: "rt_env \<Rightarrow> response_class \<Rightarrow> string \<Rightarrow> exn + response" where
  "model_validate_json R cls raw = (case re_json_loads R raw of None \<Rightarrow> Inl ValidationError | Some v \<Rightarrow> model_validate cls v)"

text \<open>A payload of \<open>None\<close> (no JSON found, or JSON \<open>null\<close>) is a validation error.\<close>

definition repair :: "rt_env \<Rightarrow> response_class \<Rightarrow> string \<Rightarrow> exn + response" where
  "repair R cls raw = (case extract_json R raw of None \<Rightarrow> Inl ValidationError | Some v \<Rightarrow> model_validate cls v)"

definition set_counter :: "string \<Rightarrow> nat \<Rightarrow> unit rt" where
  "set_counter cid n = mods (\<lambda>s. s\<lparr>sy_retries := dict_set cid n (sy_retries s)\<rparr>)"

fun parse_rounds :: "rt_env \<Rightarrow> response_class \<Rightarrow> string \<Rightarrow> string \<Rightarrow> nat \<Rightarrow> nat \<Rightarrow> nat \<Rightarrow> response rt" where
  "parse_rounds R cls raw cid k 0 attempts = raise (ValueError ''Structured parse failed'')"
| "parse_rounds R cls raw cid k (Suc left) attempts =
     (if MAX_STRUCTURED_RETRIES_GLOBAL \<le> attempts then raise (ValueError ''Max structured retries exceeded'')
      else seqc (set_counter cid (attempts + 1))
        (case (if k = 0 then model_validate_json R cls raw else repair R cls raw) of
           Inr r \<Rightarrow> ret r
         | Inl e \<Rightarrow> parse_rounds R cls raw cid (k + 1) left (attempts + 1)))"

definition parse_structured_response :: "rt_env \<Rightarrow> string \<Rightarrow> response_class \<Rightarrow> string \<Rightarrow> response rt" where
  "parse_structured_response R raw cls cid = bnd (reads (\<lambda>s. dict_getd (sy_retries s) cid 0))
     (parse_rounds R cls raw cid 0 (MAX_REPAIR_ATTEMPTS + MAX_LLM_RETRIES + 1))"

definition reset_retry_counter :: "string \<Rightarrow> unit rt" where
  "reset_retry_counter cid = mods (\<lambda>s. s\<lparr>sy_retries := dict_pop cid (sy_retries s)\<rparr>)"

section \<open>core/cognition_metrics.py, core/prompt_lineage.py\<close>

definition prompt_tokens :: "string \<Rightarrow> int" where
  "prompt_tokens text = max 1 (int (length text) div 4)"

definition build_telemetry :: "string \<Rightarrow> string \<Rightarrow> string \<Rightarrow> retry_trace option \<Rightarrow> int \<Rightarrow> int \<Rightarrow> rat \<Rightarrow> rat \<Rightarrow> time \<Rightarrow> telemetry" where
  "build_telemetry cid sid agent trace tokens latency pressure confidence now =
     \<lparr>te_correlation = cid, te_session = sid, te_agent = agent, te_latency_ms = latency,
       te_retry_count = (case trace of None \<Rightarrow> 0 | Some t \<Rightarrow> rt_repair_attempts t + (if rt_llm_retry t then 1 else 0)),
       te_token_estimate = tokens, te_context_pressure = pressure, te_replay_confidence = confidence, te_created = now\<rparr>"

definition build_lineage :: "rt_env \<Rightarrow> string \<Rightarrow> string \<Rightarrow> string \<Rightarrow> fingerprint option \<Rightarrow> string option \<Rightarrow> lineage rt" where
  "build_lineage R prompt sid cid fp strategy =
     bnd (reads (\<lambda>s. dict_get (sy_prompts s) (sid, cid))) (\<lambda>parent.
     let ph = prompt_hash (re_env R) prompt in
     seqc (mods (\<lambda>s. s\<lparr>sy_prompts := dict_set (sid, cid) ph (sy_prompts s)\<rparr>))
       (ret \<lparr>li_prompt_hash = ph, li_session = sid, li_correlation = cid, li_parent = parent,
          li_context_hash = map_option fp_context_hash fp,
          li_strategy = (if str_or strategy '''' \<noteq> '''' then strategy
            else case fp of None \<Rightarrow> None | Some f \<Rightarrow> fp_strategy f)\<rparr>))"

definition reset_session_lineage :: "string \<Rightarrow> unit rt" where
  "reset_session_lineage sid = mods (\<lambda>s. s\<lparr>sy_prompts := filter (\<lambda>p. fst (fst p) \<noteq> sid) (sy_prompts s)\<rparr>)"

section \<open>core/agent_runner.py\<close>

definition runner_telemetry :: "rt_env \<Rightarrow> string \<Rightarrow> string \<Rightarrow> string \<Rightarrow> retry_trace \<Rightarrow> int \<Rightarrow> string \<Rightarrow> telemetry rt" where
  "runner_telemetry R cid sid agent trace latency prompt = bnd (clock R) (\<lambda>now.
     ret (build_telemetry cid (if sid = '''' then cid else sid) agent (Some trace) (prompt_tokens prompt) latency 0 1 now))"

definition ceo_fallback :: "cognitive_budget \<Rightarrow> string \<Rightarrow> response" where
  "ceo_fallback b prompt = \<lparr>rp_class = CEOResponse, rp_fields =
     [(''summary'', PStr (''Executive analysis for: '' @ py_take (cb_reasoning_budget b div 10) prompt)),
      (''priorities'', pstrs [''Resolve infrastructure incidents'', ''Protect runway'']),
      (''delegations'', pstrs (if \<exists>k \<in> {''incident'', ''deployment'', ''github''}. substr k (lower prompt) then [''cto''] else [])),
      (''risks'', PList []), (''kpis_snapshot'', PDict []), (''escalations'', PList []),
      (''recommended_actions'', pstrs (if substr ''incident'' (lower prompt) then [''Delegate technical analysis to CTO''] else []))]\<rparr>"

definition cto_fallback :: "string \<Rightarrow> response" where
  "cto_fallback prompt = \<lparr>rp_class = CTOResponse, rp_fields =
     [(''summary'', PStr (''Technical assessment: '' @ prompt)), (''incidents'', PList []), (''deployment_status'', PStr ''unknown''),
      (''tech_debt_items'', PList []), (''bugs_priority'', PList []), (''github_summary'', PDict []),
      (''recommended_actions'', pstrs [''Investigate blocked PRs''])]\<rparr>"

definition fallback_response :: "response_class \<Rightarrow> cognitive_budget \<Rightarrow> string \<Rightarrow> response" where
  "fallback_response cls b prompt = (case cls of CEOResponse \<Rightarrow> ceo_fallback b prompt | CTOResponse \<Rightarrow> cto_fallback prompt)"

definition deterministic_fallback :: "rt_env \<Rightarrow> string \<Rightarrow> response_class \<Rightarrow> cognitive_budget \<Rightarrow> string" where
  "deterministic_fallback R prompt cls b = re_json_dumps R (response_dump (fallback_response cls b prompt))"

definition new_trace :: "string \<Rightarrow> string \<Rightarrow> string \<Rightarrow> nat \<Rightarrow> retry_trace" where
  "new_trace cid sid agent step = \<lparr>rt_correlation = cid, rt_session = (if sid = '''' then cid else sid), rt_agent = agent, rt_step = step,
     rt_validation_error = None, rt_repair_attempts = 0, rt_llm_retry = False, rt_final_failure = None\<rparr>"

text \<open>\<open>try: ... except (ValidationError, ValueError)\<close> around the parser.\<close>

definition try_parse :: "rt_env \<Rightarrow> string \<Rightarrow> response_class \<Rightarrow> string \<Rightarrow> (exn + response) rt" where
  "try_parse R raw cls cid = catch (bnd (parse_structured_response R raw cls cid) (\<lambda>r. ret (Inr r))) is_value_error (\<lambda>e. ret (Inl e))"

text \<open>The text of a content that is not an instance of the class: itself, or its JSON.\<close>

definition content_text :: "rt_env \<Rightarrow> pyval \<Rightarrow> exn + string" where
  "content_text R c = (case c of PStr s \<Rightarrow> Inr s
     | _ \<Rightarrow> (case json_rt c of None \<Rightarrow> Inl TypeError | Some v \<Rightarrow> Inr (re_json_dumps R v)))"

definition model_instance :: "response_class \<Rightarrow> pyval \<Rightarrow> response option" where
  "model_instance cls c = (case c of PModel v \<Rightarrow> (case model_validate cls v of Inr r \<Rightarrow> Some r | Inl _ \<Rightarrow> None) | _ \<Rightarrow> None)"

text \<open>The part under \<open>try\<close>: what the language model contributes, and the trace of it; \<open>None\<close> falls through to the fallback.
  The number is \<open>llm_attempts\<close>.\<close>

definition llm_phase :: "rt_env \<Rightarrow> string \<Rightarrow> response_class \<Rightarrow> string \<Rightarrow> string \<Rightarrow> retry_trace \<Rightarrow> (response option \<times> nat \<times> retry_trace) rt" where
  "llm_phase R prompt cls cid agent tr =
     bnd (outside (\<lambda>n. re_llm R n agent prompt)) (\<lambda>res.
       let failed = (\<lambda>e n. ret (None, n, tr\<lparr>rt_validation_error := Some (re_exn_str R e), rt_final_failure := Some (re_exn_str R e),
             rt_llm_retry := False\<rparr>)) in
       case res of Inl e \<Rightarrow> failed e 0
       | Inr c \<Rightarrow> (case model_instance cls c of Some r \<Rightarrow> ret (Some r, 1, tr\<lparr>rt_llm_retry := False\<rparr>)
         | None \<Rightarrow> if c = PNone then ret (None, 1, tr)
           else (case content_text R c of Inl e \<Rightarrow> failed e 1
             | Inr raw \<Rightarrow> bnd (try_parse R raw cls cid) (\<lambda>p. case p of
                 Inr r \<Rightarrow> ret (Some r, 1, tr\<lparr>rt_llm_retry := False\<rparr>)
               | Inl e \<Rightarrow> ret (None, 1, tr\<lparr>rt_validation_error := Some (re_exn_str R e),
                   rt_repair_attempts := rt_repair_attempts tr + 1, rt_llm_retry := True\<rparr>)))))"

text \<open>\<open>timer.elapsed_ms\<close> is read inside the \<open>with\<close> block, whose exit sets it: it is still 0.\<close>

definition timer_elapsed_ms :: int where
  "timer_elapsed_ms = 0"

definition close_run :: "rt_env \<Rightarrow> string \<Rightarrow> string \<Rightarrow> string \<Rightarrow> string \<Rightarrow> string \<Rightarrow> span_status \<Rightarrow> retry_trace \<Rightarrow> telemetry rt" where
  "close_run R spn prompt cid sid agent st tr = bnd (runner_telemetry R cid sid agent tr timer_elapsed_ms prompt) (\<lambda>tel.
     seqc (span_end R spn st []) (ret tel))"

definition fallback_phase ::
  "rt_env \<Rightarrow> string \<Rightarrow> string \<Rightarrow> response_class \<Rightarrow> string \<Rightarrow> string \<Rightarrow> string \<Rightarrow> cognitive_budget \<Rightarrow> nat \<Rightarrow> retry_trace \<Rightarrow> (response \<times> retry_trace \<times> telemetry) rt" where
  "fallback_phase R spn prompt cls cid sid agent b n tr =
     (let fb = deterministic_fallback R prompt cls b in
      bnd (try_parse R fb cls cid) (\<lambda>p. case p of
        Inr r \<Rightarrow> bnd (close_run R spn prompt cid sid agent SP_OK tr) (\<lambda>tel. ret (r, tr, tel))
      | Inl e \<Rightarrow>
          (let tr2 = tr\<lparr>rt_validation_error := Some (re_exn_str R e), rt_repair_attempts := rt_repair_attempts tr + 1,
               rt_final_failure := Some (re_exn_str R e), rt_llm_retry := n > 0\<rparr> in
           bnd (close_run R spn prompt cid sid agent SP_ERROR tr2) (\<lambda>tel.
             case re_json_loads R fb of None \<Rightarrow> raise JSONDecodeError
             | Some v \<Rightarrow> bnd (lift_res (model_validate cls v)) (\<lambda>r. ret (r, tr2, tel))))))"

definition finish_run ::
  "rt_env \<Rightarrow> string \<Rightarrow> response_class \<Rightarrow> string \<Rightarrow> string \<Rightarrow> string \<Rightarrow> cognitive_budget \<Rightarrow> string \<Rightarrow> (response option \<times> nat \<times> retry_trace) \<Rightarrow>
   (response \<times> retry_trace \<times> telemetry) rt" where
  "finish_run R prompt cls cid sid agent b spn out = (case out of
     (Some r, n, tr) \<Rightarrow> bnd (close_run R spn prompt cid sid agent SP_OK tr) (\<lambda>tel. ret (r, tr, tel))
   | (None, n, tr) \<Rightarrow> fallback_phase R spn prompt cls cid sid agent b n tr)"

definition effective_budget :: "settings \<Rightarrow> cognitive_budget option \<Rightarrow> cognitive_budget" where
  "effective_budget S b = (let b0 = (case b of None \<Rightarrow> default_budget | Some x \<Rightarrow> x) in
     if st_health_enforcement S \<and> cb_force_deterministic b0 then b0\<lparr>cb_max_retries := 0, cb_force_deterministic := True\<rparr> else b0)"

definition run_structured ::
  "rt_env \<Rightarrow> string \<Rightarrow> response_class \<Rightarrow> string \<Rightarrow> string \<Rightarrow> string \<Rightarrow> nat \<Rightarrow> cognitive_budget option \<Rightarrow> (response \<times> retry_trace \<times> telemetry) rt" where
  "run_structured R prompt cls cid sid agent step budget =
     (let b = effective_budget (re_settings R) budget; tr = new_trace cid sid agent step in
      seqc (reset_retry_counter cid)
      (bnd (span_start R AGENT_REASONING ''reasoning'' [(''agent_id'', PStr agent), (''step_id'', PInt (int step))]) (\<lambda>spn.
       bnd (clock R) (\<lambda>_.
       bnd (if re_has_model R \<and> \<not> cb_force_deterministic b then llm_phase R prompt cls cid agent tr else ret (None, 0, tr))
         (finish_run R prompt cls cid sid agent b spn)))))"

section \<open>Lemmas\<close>

text \<open>The type of a response: the fields of its class, in order, each of its kind.\<close>

definition response_ok :: "response_class \<Rightarrow> response \<Rightarrow> bool" where
  "response_ok cls r \<longleftrightarrow> rp_class r = cls \<and> map fst (rp_fields r) = map fst (response_fields cls) \<and>
     list_all2 (\<lambda>p f. check_field (fst (snd f)) (snd p) = Some (snd p)) (rp_fields r) (response_fields cls)"

lemma check_field_id: "check_field k v = Some w \<Longrightarrow> w = v"
  by (induction k v rule: check_field.induct) (auto split: if_splits)

lemma defaults_ok: "(n, k, Some d) \<in> set (response_fields cls) \<Longrightarrow> check_field k d = Some d"
  by (cases cls) (auto simp: response_fields_def)

lemma field_names_distinct: "distinct (map fst (response_fields cls))"
  by (cases cls) (simp_all add: response_fields_def)

lemma field_value_ok:
  assumes "f \<in> set (response_fields cls)" and "field_value v f = Some x"
  shows "check_field (fst (snd f)) x = Some x"
proof (cases f)
  case (fields n k d)
  show ?thesis
  proof (cases "vget v n")
    case None
    then show ?thesis using assms defaults_ok [of n k x cls] by (simp add: field_value_def fields)
  next
    case (Some y)
    then have "check_field k y = Some x" using assms(2) by (simp add: field_value_def fields)
    then show ?thesis using check_field_id [of k y x] by (simp add: fields)
  qed
qed

lemma all_some_Some: "all_some xs = Some ys \<longleftrightarrow> xs = map Some ys"
proof
  assume "all_some xs = Some ys"
  then have "None \<notin> set xs" "ys = map the xs" by (auto simp: all_some_def split: if_splits)
  moreover have "map (Some \<circ> the) xs = map (\<lambda>x. x) xs"
    using \<open>None \<notin> set xs\<close> by (intro map_cong [OF refl]) (metis comp_apply option.collapse)
  ultimately show "xs = map Some ys" by simp
qed (auto simp: all_some_def)

lemma model_validate_ok:
  assumes "model_validate cls v = Inr r"
  shows "response_ok cls r"
proof -
  obtain vs where vs: "map (field_value v) (response_fields cls) = map Some vs"
      "r = \<lparr>rp_class = cls, rp_fields = zip (map fst (response_fields cls)) vs\<rparr>"
    using assms by (auto simp: model_validate_def all_some_Some split: if_splits option.splits)
  have len: "length vs = length (response_fields cls)" using vs(1) by (metis length_map)
  have "check_field (fst (snd (response_fields cls ! i))) (vs ! i) = Some (vs ! i)" if "i < length vs" for i
  proof (rule field_value_ok)
    show "response_fields cls ! i \<in> set (response_fields cls)" using that len by simp
    show "field_value v (response_fields cls ! i) = Some (vs ! i)"
      using arg_cong [OF vs(1), of "\<lambda>l. l ! i"] that len by simp
  qed
  then show ?thesis by (simp add: response_ok_def vs(2) len list_all2_conv_all_nth)
qed

lemma dict_get_nth:
  "distinct (map fst d) \<Longrightarrow> i < length d \<Longrightarrow> dict_get d (fst (d ! i)) = Some (snd (d ! i))"
  by (simp add: dict_get_Some_iff)

lemma vget_pdict: "vget (pdict d) k = dict_get d k"
  by (induction d) auto

lemma model_validate_dump:
  assumes "response_ok cls r"
  shows "model_validate cls (response_dump r) = Inr r"
proof -
  let ?d = "rp_fields r" and ?fs = "response_fields cls"
  have names: "map fst ?d = map fst ?fs" and len: "length ?d = length ?fs"
    using assms by (auto simp: response_ok_def dest: map_eq_imp_length_eq)
  have "field_value (response_dump r) (?fs ! i) = Some (snd (?d ! i))" if "i < length ?fs" for i
  proof -
    have "fst (?fs ! i) = fst (?d ! i)" using names that len by (metis nth_map)
    moreover have "distinct (map fst ?d)" unfolding names by (rule field_names_distinct)
    ultimately have "vget (response_dump r) (fst (?fs ! i)) = Some (snd (?d ! i))"
      unfolding response_dump_def vget_pdict using that len by (simp add: dict_get_nth)
    moreover have "check_field (fst (snd (?fs ! i))) (snd (?d ! i)) = Some (snd (?d ! i))"
      using assms that len by (simp add: response_ok_def list_all2_conv_all_nth)
    ultimately show ?thesis by (cases "?fs ! i") (simp add: field_value_def)
  qed
  then have "map (field_value (response_dump r)) ?fs = map Some (map snd ?d)"
    using len by (intro nth_equalityI) simp_all
  moreover have "zip (map fst ?fs) (map snd ?d) = ?d" unfolding names [symmetric] by (rule zip_map_fst_snd)
  ultimately show ?thesis
    using assms all_some_Some [of "map Some (map snd ?d)" "map snd ?d"]
    by (simp add: model_validate_def response_ok_def response_dump_def)
qed

lemma fallback_ok: "response_ok cls (fallback_response cls b prompt)"
  by (cases cls) (simp_all add: fallback_response_def ceo_fallback_def cto_fallback_def response_ok_def response_fields_def)

text \<open>What the parser does, without the rounds: it tries the text once as it is and once repaired.\<close>

definition parse_reference :: "rt_env \<Rightarrow> string \<Rightarrow> response_class \<Rightarrow> nat \<Rightarrow> (exn + response) \<times> nat" where
  "parse_reference R raw cls a =
     (let exceeded = Inl (ValueError ''Max structured retries exceeded'') in
      if 3 \<le> a then (exceeded, a)
      else case model_validate_json R cls raw of Inr r \<Rightarrow> (Inr r, a + 1)
      | Inl _ \<Rightarrow> if a = 2 then (exceeded, 3)
          else case repair R cls raw of Inr r \<Rightarrow> (Inr r, a + 2) | Inl _ \<Rightarrow> (exceeded, 3))"

lemma dict_set_twice: "dict_set k v (dict_set k w d) = dict_set k v d"
  by (induction d) auto

lemma parse_run:
  "parse_structured_response R raw cls cid s = (case parse_reference R raw cls (dict_getd (sy_retries s) cid 0) of
     (r, n) \<Rightarrow> (r, if 3 \<le> dict_getd (sy_retries s) cid 0 then s else s\<lparr>sy_retries := dict_set cid n (sy_retries s)\<rparr>))"
proof -
  let ?a = "dict_getd (sy_retries s) cid 0"
  note defs = parse_structured_response_def MAX_REPAIR_ATTEMPTS_def MAX_LLM_RETRIES_def MAX_STRUCTURED_RETRIES_GLOBAL_def
    parse_reference_def set_counter_def comp_simps dict_set_twice numeral_eq_Suc Let_def
  consider "?a = 0" | "?a = 1" | "?a = 2" | "3 \<le> ?a" by linarith
  then show ?thesis
    by cases (cases "model_validate_json R cls raw"; cases "repair R cls raw"; simp add: defs)+
qed

lemma parse_reference_bound: "a \<le> 3 \<Longrightarrow> parse_reference R raw cls a = (r, n) \<Longrightarrow> n \<le> 3"
  by (auto simp: parse_reference_def Let_def split: if_splits sum.splits)

lemma parse_reference_ok: "parse_reference R raw cls a = (Inr r, n) \<Longrightarrow> response_ok cls r"
  by (auto simp: parse_reference_def Let_def model_validate_json_def repair_def split: if_splits sum.splits option.splits
      dest: model_validate_ok)

lemma parse_reference_error: "parse_reference R raw cls a = (Inl e, n) \<Longrightarrow> e = ValueError ''Max structured retries exceeded''"
  by (auto simp: parse_reference_def Let_def split: if_splits sum.splits)

text \<open>The counter of a correlation.\<close>

definition retries_of :: "string \<Rightarrow> sys \<Rightarrow> nat" where
  "retries_of cid s = dict_getd (sy_retries s) cid 0"

lemma retries_upd [simp]:
  "retries_of cid (s\<lparr>sy_ext := n\<rparr>) = retries_of cid s" "retries_of cid (s\<lparr>sy_clock := n\<rparr>) = retries_of cid s"
  "retries_of cid (s\<lparr>sy_uuid := n\<rparr>) = retries_of cid s" "retries_of cid (s\<lparr>sy_spans := c\<rparr>) = retries_of cid s"
  "retries_of cid (s\<lparr>sy_retries := dict_set cid m d\<rparr>) = m" "retries_of cid (s\<lparr>sy_retries := dict_pop cid d\<rparr>) = 0"
  by (simp_all add: retries_of_def dict_getd_def)

lemma try_parse_run:
  obtains d where "try_parse R raw cls cid s = (Inr (fst (parse_reference R raw cls (retries_of cid s))), s\<lparr>sy_retries := d\<rparr>)"
    and "retries_of cid (s\<lparr>sy_retries := d\<rparr>) = snd (parse_reference R raw cls (retries_of cid s))"
proof -
  obtain r n where p: "parse_reference R raw cls (retries_of cid s) = (r, n)" by (cases "parse_reference R raw cls (retries_of cid s)")
  have n: "n = retries_of cid s" if "3 \<le> retries_of cid s" using p that by (auto simp: parse_reference_def Let_def)
  let ?d = "if 3 \<le> retries_of cid s then sy_retries s else dict_set cid n (sy_retries s)"
  have "parse_structured_response R raw cls cid s = (r, s\<lparr>sy_retries := ?d\<rparr>)"
    using parse_run [of R raw cls cid s] p by (simp add: retries_of_def)
  then have "try_parse R raw cls cid s = (Inr r, s\<lparr>sy_retries := ?d\<rparr>)"
    using parse_reference_error [of R raw cls "retries_of cid s"] p by (cases r) (simp_all add: try_parse_def catch_def bnd_def ret_def)
  moreover have "retries_of cid (s\<lparr>sy_retries := ?d\<rparr>) = n"
    using n by (simp add: retries_of_def dict_getd_def)
  ultimately show thesis using p that [of ?d] by simp
qed

lemma close_run_run:
  "\<exists>tel c. close_run R spn prompt cid sid agent st tr s = (Inr tel, s\<lparr>sy_clock := Suc (Suc (sy_clock s)), sy_spans := c\<rparr>) \<and>
     te_latency_ms tel = 0 \<and> te_retry_count tel = rt_repair_attempts tr + (if rt_llm_retry tr then 1 else 0)"
  by (simp add: close_run_def runner_telemetry_def bnd_assoc clock_run bnd_ret seqc_def span_end_run ret_def timer_elapsed_ms_def build_telemetry_def) (rule exI, rule refl)

text \<open>What a run of the model can lead to.\<close>

definition llm_outcome :: "string \<Rightarrow> response_class \<Rightarrow> retry_trace \<Rightarrow> sys \<Rightarrow> (exn + (response option \<times> nat \<times> retry_trace)) \<times> sys \<Rightarrow> bool" where
  "llm_outcome cid cls tr s out \<longleftrightarrow> (\<exists>res n tr1 d. out = (Inr (res, n, tr1), s\<lparr>sy_ext := Suc (sy_ext s), sy_retries := d\<rparr>) \<and>
    (\<forall>r. res = Some r \<longrightarrow> response_ok cls r) \<and> rt_repair_attempts tr1 \<le> rt_repair_attempts tr + 1 \<and>
    retries_of cid (s\<lparr>sy_retries := d\<rparr>) \<le> 3)"

lemma llm_phase_run:
  assumes "retries_of cid s \<le> 3"
  shows "llm_outcome cid cls tr s (llm_phase R prompt cls cid agent tr s)"
proof -
  let ?s = "s\<lparr>sy_ext := Suc (sy_ext s)\<rparr>"
  have u: "?s = s\<lparr>sy_ext := Suc (sy_ext s), sy_retries := sy_retries s\<rparr>" by simp
  have plain: "llm_outcome cid cls tr s (ret (res, n, tr1) ?s)"
    if "\<forall>r. res = Some r \<longrightarrow> response_ok cls r" "rt_repair_attempts tr1 \<le> rt_repair_attempts tr + 1" for res n tr1
    unfolding llm_outcome_def
    by (rule exI [of _ res], rule exI [of _ n], rule exI [of _ tr1], rule exI [of _ "sy_retries s"]) (use that assms in \<open>simp add: ret_def\<close>)
  show ?thesis
  proof (cases "re_llm R (sy_ext s) agent prompt")
    case (Inl e)
    have "llm_phase R prompt cls cid agent tr s = ret (None, 0, tr\<lparr>rt_validation_error := Some (re_exn_str R e),
        rt_final_failure := Some (re_exn_str R e), rt_llm_retry := False\<rparr>) ?s"
      by (simp add: llm_phase_def outside_run Inl)
    then show ?thesis using plain by simp
  next
    case (Inr c)
    show ?thesis
    proof (cases "model_instance cls c")
      case (Some r)
      have "response_ok cls r" using Some by (auto simp: model_instance_def model_validate_ok split: pyval.splits sum.splits)
      moreover have "llm_phase R prompt cls cid agent tr s = ret (Some r, 1, tr\<lparr>rt_llm_retry := False\<rparr>) ?s"
        by (simp add: llm_phase_def outside_run Inr Some)
      ultimately show ?thesis using plain by simp
    next
      case None
      consider "c = PNone" | e where "c \<noteq> PNone" "content_text R c = Inl e" | raw where "c \<noteq> PNone" "content_text R c = Inr raw"
        by (cases "content_text R c") auto
      then show ?thesis
      proof cases
        case 1
        then have "llm_phase R prompt cls cid agent tr s = ret (None, 1, tr) ?s"
          using Inr None by (simp add: llm_phase_def outside_run)
        then show ?thesis using plain by simp
      next
        case 2
        then have "llm_phase R prompt cls cid agent tr s = ret (None, 1, tr\<lparr>rt_validation_error := Some (re_exn_str R e),
            rt_final_failure := Some (re_exn_str R e), rt_llm_retry := False\<rparr>) ?s"
          using Inr None by (simp add: llm_phase_def outside_run)
        then show ?thesis using plain by simp
      next
        case 3
        obtain d where tp: "try_parse R raw cls cid ?s = (Inr (fst (parse_reference R raw cls (retries_of cid ?s))), ?s\<lparr>sy_retries := d\<rparr>)"
          and d: "retries_of cid (?s\<lparr>sy_retries := d\<rparr>) = snd (parse_reference R raw cls (retries_of cid ?s))"
          by (rule try_parse_run)
        obtain p n where pr: "parse_reference R raw cls (retries_of cid s) = (p, n)" by (cases "parse_reference R raw cls (retries_of cid s)")
        have n: "retries_of cid (s\<lparr>sy_retries := d\<rparr>) \<le> 3"
          using d parse_reference_bound [OF assms pr] pr by (simp add: retries_of_def)
        have run: "llm_phase R prompt cls cid agent tr s = (case p of Inr r \<Rightarrow> ret (Some r, 1, tr\<lparr>rt_llm_retry := False\<rparr>)
            | Inl e \<Rightarrow> ret (None, 1, tr\<lparr>rt_validation_error := Some (re_exn_str R e),
                   rt_repair_attempts := rt_repair_attempts tr + 1, rt_llm_retry := True\<rparr>)) (?s\<lparr>sy_retries := d\<rparr>)"
          using Inr None 3 tp pr by (cases p) (simp_all add: llm_phase_def outside_run bnd_def [of "try_parse _ _ _ _"])
        show ?thesis
        proof (cases p)
          case (Inl e)
          show ?thesis unfolding run Inl llm_outcome_def using n by (simp add: ret_def) blast
        next
          case (Inr r)
          then have "response_ok cls r" using parse_reference_ok [of R raw cls "retries_of cid s"] pr by simp
          then show ?thesis unfolding run Inr llm_outcome_def using n by (simp add: ret_def) blast
        qed
      qed
    qed
  qed
qed

lemma fallback_phase_run:
  assumes "re_json_loads R (deterministic_fallback R prompt cls b) = Some (response_dump (fallback_response cls b prompt))"
    and "retries_of cid s \<le> 3"
  shows "\<exists>tr2 tel t. fallback_phase R spn prompt cls cid sid agent b n tr s = (Inr (fallback_response cls b prompt, tr2, tel), t) \<and>
    te_latency_ms tel = 0 \<and> te_retry_count tel = rt_repair_attempts tr2 + (if rt_llm_retry tr2 then 1 else 0) \<and> retries_of cid t \<le> 3 \<and>
    (if retries_of cid s < 3 then tr2 = tr
     else tr2 = tr\<lparr>rt_validation_error := Some (re_exn_str R (ValueError ''Max structured retries exceeded'')),
       rt_repair_attempts := Suc (rt_repair_attempts tr),
       rt_final_failure := Some (re_exn_str R (ValueError ''Max structured retries exceeded'')), rt_llm_retry := n > 0\<rparr>)"
proof -
  let ?fb = "deterministic_fallback R prompt cls b" and ?r = "fallback_response cls b prompt"
  have v: "model_validate cls (response_dump ?r) = Inr ?r" by (rule model_validate_dump [OF fallback_ok])
  then have vj: "model_validate_json R cls ?fb = Inr ?r" by (simp add: model_validate_json_def assms(1))
  obtain d where tp: "try_parse R ?fb cls cid s = (Inr (fst (parse_reference R ?fb cls (retries_of cid s))), s\<lparr>sy_retries := d\<rparr>)"
    and d: "retries_of cid (s\<lparr>sy_retries := d\<rparr>) = snd (parse_reference R ?fb cls (retries_of cid s))"
    by (rule try_parse_run)
  let ?s = "s\<lparr>sy_retries := d\<rparr>"
  show ?thesis
  proof (cases "retries_of cid s < 3")
    case True
    then have p: "parse_reference R ?fb cls (retries_of cid s) = (Inr ?r, retries_of cid s + 1)"
      by (simp add: parse_reference_def vj)
    obtain tel c where c: "close_run R spn prompt cid sid agent SP_OK tr ?s = (Inr tel, ?s\<lparr>sy_clock := Suc (Suc (sy_clock ?s)), sy_spans := c\<rparr>)"
      "te_latency_ms tel = 0" "te_retry_count tel = rt_repair_attempts tr + (if rt_llm_retry tr then 1 else 0)"
      using close_run_run by blast
    show ?thesis
      using True d p c by (simp add: fallback_phase_def Let_def bnd_def [of "try_parse _ _ _ _"] tp bnd_def [of "close_run _ _ _ _ _ _ _ _"] c(1) ret_def)
  next
    case False
    then have p: "parse_reference R ?fb cls (retries_of cid s) = (Inl (ValueError ''Max structured retries exceeded''), retries_of cid s)"
      by (simp add: parse_reference_def)
    define tr2 where "tr2 = tr\<lparr>rt_validation_error := Some (re_exn_str R (ValueError ''Max structured retries exceeded'')),
       rt_repair_attempts := Suc (rt_repair_attempts tr),
       rt_final_failure := Some (re_exn_str R (ValueError ''Max structured retries exceeded'')), rt_llm_retry := n > 0\<rparr>"
    obtain tel c where c: "close_run R spn prompt cid sid agent SP_ERROR tr2 ?s = (Inr tel, ?s\<lparr>sy_clock := Suc (Suc (sy_clock ?s)), sy_spans := c\<rparr>)"
      "te_latency_ms tel = 0" "te_retry_count tel = rt_repair_attempts tr2 + (if rt_llm_retry tr2 then 1 else 0)"
      using close_run_run by blast
    have "fallback_phase R spn prompt cls cid sid agent b n tr s = (Inr (?r, tr2, tel), ?s\<lparr>sy_clock := Suc (Suc (sy_clock ?s)), sy_spans := c\<rparr>)"
      by (simp add: fallback_phase_def Let_def bnd_def [of "try_parse _ _ _ _"] tp p tr2_def [symmetric] bnd_def [of "close_run _ _ _ _ _ _ _ _"] c(1) assms(1) bnd_lift_res v ret_def)
    then show ?thesis using False d p c(2,3) assms(2) by (simp add: tr2_def [symmetric])
  qed
qed

lemma keeps_try_parse: "keeps (same_stores s0) (try_parse R raw cls cid)"
proof (rule keepsI)
  fix s :: sys assume "same_stores s0 s"
  obtain d where "try_parse R raw cls cid s = (Inr (fst (parse_reference R raw cls (retries_of cid s))), s\<lparr>sy_retries := d\<rparr>)"
    by (rule try_parse_run)
  then show "same_stores s0 (snd (try_parse R raw cls cid s))" using \<open>same_stores s0 s\<close> by (simp add: same_stores_def)
qed

lemma run_structured_keeps: "keeps (same_stores s0) (run_structured R prompt cls cid sid agent step budget)"
proof -
  have c: "keeps (same_stores s0) (clock R)" "keeps (same_stores s0) (fresh_uuid R)" "keeps (same_stores s0) (outside g)" "keeps (same_stores s0) (on_spans h)" for g h
    by (rule rt_keeps, simp)+
  have r: "keeps (same_stores s0) (reset_retry_counter cid)"
    unfolding reset_retry_counter_def by (rule keeps_mods) (simp add: same_stores_def)
  have e: "keeps (same_stores s0) (close_run R spn prompt cid sid agent st tr)" for spn st tr
    unfolding close_run_def runner_telemetry_def span_end_def by (intro keeps_bnd keeps_seqc keeps_ret c)
  have l: "keeps (same_stores s0) (llm_phase R prompt cls cid agent tr)" for tr
    unfolding llm_phase_def Let_def
    by (intro keeps_bnd c) (auto split: sum.split option.split intro!: keeps_bnd keeps_ret keeps_try_parse)
  have f: "keeps (same_stores s0) (fallback_phase R spn prompt cls cid sid agent b n tr)" for spn b n tr
    unfolding fallback_phase_def Let_def
    by (intro keeps_bnd keeps_try_parse) (auto split: sum.split option.split intro!: keeps_bnd keeps_ret keeps_raise keeps_lift_res e)
  show ?thesis
    unfolding run_structured_def Let_def span_start_def finish_run_def
    by (auto split: option.split intro!: keeps_bnd keeps_seqc keeps_ret keeps_if c r e l f)
qed

lemma run_structured_open:
  assumes "b = effective_budget (re_settings R) budget"
  obtains spn c where "run_structured R prompt cls cid sid agent step budget s =
    bnd (if re_has_model R \<and> \<not> cb_force_deterministic b then llm_phase R prompt cls cid agent (new_trace cid sid agent step)
        else ret (None, 0, new_trace cid sid agent step)) (finish_run R prompt cls cid sid agent b spn)
      (s\<lparr>sy_retries := dict_pop cid (sy_retries s), sy_uuid := Suc (sy_uuid s), sy_spans := c, sy_clock := Suc (Suc (sy_clock s))\<rparr>)"
proof -
  let ?u = "s\<lparr>sy_retries := dict_pop cid (sy_retries s)\<rparr>"
  let ?c = "snd (start_span (re_env R) (re_uuid R (sy_uuid s)) (re_now R (sy_clock s)) AGENT_REASONING ''reasoning'' None
      [(''agent_id'', PStr agent), (''step_id'', PInt (int step))] (sy_spans s))"
  show thesis
    by (rule that [of "re_uuid R (sy_uuid s)" ?c])
      (simp add: run_structured_def assms Let_def reset_retry_counter_def seqc_def bnd_mods span_start_run clock_run)
qed

section \<open>Properties\<close>

text \<open>C20: the parser is equivalent to a reference without rounds: a text is tried once as it is and, if the counter of the correlation
  allows, once repaired; the further rounds repeat the repair in vain, the counter never exceeds 3, and the only error that it
  ever raises is that the retries are exceeded.\<close>

theorem parser_equals_reference:
  assumes "retries_of cid s \<le> 3"
  shows "\<exists>t. parse_structured_response R raw cls cid s = (fst (parse_reference R raw cls (retries_of cid s)), t) \<and>
    retries_of cid t = snd (parse_reference R raw cls (retries_of cid s)) \<and> retries_of cid t \<le> 3 \<and>
    (\<forall>k. k \<noteq> cid \<longrightarrow> retries_of k t = retries_of k s) \<and>
    (\<forall>e. fst (parse_reference R raw cls (retries_of cid s)) = Inl e \<longrightarrow> e = ValueError ''Max structured retries exceeded'')"
proof -
  obtain r n where p: "parse_reference R raw cls (retries_of cid s) = (r, n)" by (cases "parse_reference R raw cls (retries_of cid s)")
  have n: "n = retries_of cid s" if "3 \<le> retries_of cid s" using p that by (auto simp: parse_reference_def Let_def)
  let ?t = "if 3 \<le> retries_of cid s then s else s\<lparr>sy_retries := dict_set cid n (sy_retries s)\<rparr>"
  have "parse_structured_response R raw cls cid s = (r, ?t)"
    using parse_run [of R raw cls cid s] p by (simp add: retries_of_def)
  then show ?thesis
    using n p parse_reference_bound [OF assms p] parse_reference_error [of R raw cls "retries_of cid s"]
    by (intro exI [of _ ?t]) (auto simp: retries_of_def dict_getd_def)
qed

text \<open>Where a parsed response comes from: the JSON data of the text, as it is or repaired.\<close>

lemma parsed_from_data:
  assumes "parse_structured_response R raw cls cid s = (Inr r, t)"
  obtains v where "re_json_loads R raw = Some v \<or> extract_json R raw = Some v" and "model_validate cls v = Inr r"
proof -
  have "fst (parse_reference R raw cls (dict_getd (sy_retries s) cid 0)) = Inr r"
    using assms parse_run [of R raw cls cid s] by (simp split: prod.splits)
  then have "model_validate_json R cls raw = Inr r \<or> repair R cls raw = Inr r"
    by (auto simp: parse_reference_def Let_def split: if_splits sum.splits)
  then show thesis by (auto simp: model_validate_json_def repair_def split: option.splits intro: that)
qed

lemma check_field_shape:
  "check_field FText v = Some w \<longleftrightarrow> (\<exists>x. v = PStr x \<and> w = v)" "check_field FDict v = Some w \<longleftrightarrow> (\<exists>d. v = PDict d \<and> w = v)"
  "check_field FTexts v = Some w \<longleftrightarrow> (\<exists>xs. v = pstrs xs \<and> w = v)"
proof -
  show "check_field FText v = Some w \<longleftrightarrow> (\<exists>x. v = PStr x \<and> w = v)" "check_field FDict v = Some w \<longleftrightarrow> (\<exists>d. v = PDict d \<and> w = v)"
    by (cases v; auto)+
  have "list_all is_text ys \<longleftrightarrow> (\<exists>xs. ys = map PStr xs)" for ys
  proof (induction ys)
    case (Cons y ys)
    then show ?case by (cases y) (auto simp: Cons_eq_map_conv)
  qed simp
  then show "check_field FTexts v = Some w \<longleftrightarrow> (\<exists>xs. v = pstrs xs \<and> w = v)"
    by (cases v) auto
qed

text \<open>A field of the data, or the default where the data does not have it.\<close>

definition text_of :: "pyval \<Rightarrow> string \<Rightarrow> string \<Rightarrow> bool" where
  "text_of v k x \<longleftrightarrow> vget v k = Some (PStr x) \<or> vget v k = None \<and> x = ''''"

definition texts_of :: "pyval \<Rightarrow> string \<Rightarrow> string list \<Rightarrow> bool" where
  "texts_of v k xs \<longleftrightarrow> vget v k = Some (pstrs xs) \<or> vget v k = None \<and> xs = []"

definition dict_of :: "pyval \<Rightarrow> string \<Rightarrow> (pykey, pyval) dict \<Rightarrow> bool" where
  "dict_of v k d \<longleftrightarrow> vget v k = Some (PDict d) \<or> vget v k = None \<and> d = []"

lemma field_value_shape:
  "field_value v (k, FText, None) = Some w \<longleftrightarrow> (\<exists>x. vget v k = Some (PStr x) \<and> w = PStr x)"
  "field_value v (k, FText, Some (PStr '''')) = Some w \<longleftrightarrow> (\<exists>x. text_of v k x \<and> w = PStr x)"
  "field_value v (k, FTexts, Some (PList [])) = Some w \<longleftrightarrow> (\<exists>xs. texts_of v k xs \<and> w = pstrs xs)"
  "field_value v (k, FDict, Some (PDict [])) = Some w \<longleftrightarrow> (\<exists>d. dict_of v k d \<and> w = PDict d)"
  by (cases "vget v k"; auto simp: field_value_def check_field_shape text_of_def texts_of_def dict_of_def)+

text \<open>C22: what a parsed response contains: if the parser accepts a text for the CEO, the response has exactly the seven fields of
  \<open>CEOResponse\<close>, and for the CTO exactly those of \<open>CTOResponse\<close>: the summary, which the JSON data of the text (as it is, or repaired) must have as a
  string, and six fields that are copied from the data or, where it lacks them, empty; lists hold strings only, and
  other keys of the data are dropped.\<close>

theorem parsed_response_fields:
  assumes "parse_structured_response R raw cls cid s = (Inr r, t)"
  shows "\<exists>v summary. (re_json_loads R raw = Some v \<or> extract_json R raw = Some v) \<and> vget v ''summary'' = Some (PStr summary) \<and>
    (case cls of
       CEOResponse \<Rightarrow> \<exists>priorities delegations risks kpis escalations actions.
         texts_of v ''priorities'' priorities \<and> texts_of v ''delegations'' delegations \<and> texts_of v ''risks'' risks \<and>
         dict_of v ''kpis_snapshot'' kpis \<and> texts_of v ''escalations'' escalations \<and> texts_of v ''recommended_actions'' actions \<and>
         response_dump r = pdict [(''summary'', PStr summary), (''priorities'', pstrs priorities), (''delegations'', pstrs delegations),
           (''risks'', pstrs risks), (''kpis_snapshot'', PDict kpis), (''escalations'', pstrs escalations), (''recommended_actions'', pstrs actions)]
     | CTOResponse \<Rightarrow> \<exists>incidents status debt bugs github actions.
         texts_of v ''incidents'' incidents \<and> text_of v ''deployment_status'' status \<and> texts_of v ''tech_debt_items'' debt \<and>
         texts_of v ''bugs_priority'' bugs \<and> dict_of v ''github_summary'' github \<and> texts_of v ''recommended_actions'' actions \<and>
         response_dump r = pdict [(''summary'', PStr summary), (''incidents'', pstrs incidents), (''deployment_status'', PStr status),
           (''tech_debt_items'', pstrs debt), (''bugs_priority'', pstrs bugs), (''github_summary'', PDict github), (''recommended_actions'', pstrs actions)])"
proof -
  obtain v where v: "re_json_loads R raw = Some v \<or> extract_json R raw = Some v" "model_validate cls v = Inr r"
    by (rule parsed_from_data [OF assms])
  obtain vs where vs: "map (field_value v) (response_fields cls) = map Some vs"
      "r = \<lparr>rp_class = cls, rp_fields = zip (map fst (response_fields cls)) vs\<rparr>"
    using v(2) by (auto simp: model_validate_def all_some_Some split: if_splits option.splits)
  show ?thesis
    by (rule exI [of _ v], use v(1) vs in \<open>cases cls\<close>)
      (clarsimp simp: response_fields_def Cons_eq_map_conv map_eq_Cons_conv field_value_shape response_dump_def; blast)+
qed

text \<open>C21: a structured run always returns a well-typed response: whether the model raises, is missing, answers garbage or
  answers well, the run returns a response of the class, touches no store, reports at most 3 retries and leaves the retry counter at
  3 or less, provided the JSON text of the deterministic fallback reads back.  The reported latency is always 0.\<close>

theorem structured_run_always_valid:
  assumes "b = effective_budget (re_settings R) budget"
    and "re_json_loads R (deterministic_fallback R prompt cls b) = Some (response_dump (fallback_response cls b prompt))"
  shows "\<exists>r tr tel t. run_structured R prompt cls cid sid agent step budget s = (Inr (r, tr, tel), t) \<and>
    response_ok cls r \<and> same_stores s t \<and> te_retry_count tel \<le> 3 \<and> retries_of cid t \<le> 3 \<and> te_latency_ms tel = 0"
proof -
  let ?tr = "new_trace cid sid agent step"
  have tr0: "rt_repair_attempts ?tr = 0" "\<not> rt_llm_retry ?tr" by (simp_all add: new_trace_def)
  obtain spn c where run: "run_structured R prompt cls cid sid agent step budget s =
    bnd (if re_has_model R \<and> \<not> cb_force_deterministic b then llm_phase R prompt cls cid agent ?tr
        else ret (None, 0, ?tr)) (finish_run R prompt cls cid sid agent b spn)
      (s\<lparr>sy_retries := dict_pop cid (sy_retries s), sy_uuid := Suc (sy_uuid s), sy_spans := c, sy_clock := Suc (Suc (sy_clock s))\<rparr>)"
    by (rule run_structured_open [OF assms(1)])
  let ?u = "s\<lparr>sy_retries := dict_pop cid (sy_retries s), sy_uuid := Suc (sy_uuid s), sy_spans := c, sy_clock := Suc (Suc (sy_clock s))\<rparr>"
  have u: "retries_of cid ?u \<le> 3" by (simp add: retries_of_def dict_getd_def)
  obtain res n tr1 v where ph: "(if re_has_model R \<and> \<not> cb_force_deterministic b then llm_phase R prompt cls cid agent ?tr
        else ret (None, 0, ?tr)) ?u = (Inr (res, n, tr1), v)" "\<forall>r. res = Some r \<longrightarrow> response_ok cls r"
      "rt_repair_attempts tr1 \<le> 1" "retries_of cid v \<le> 3"
  proof (cases "re_has_model R \<and> \<not> cb_force_deterministic b")
    case True
    obtain res n tr1 d where "llm_phase R prompt cls cid agent ?tr ?u = (Inr (res, n, tr1), ?u\<lparr>sy_ext := Suc (sy_ext ?u), sy_retries := d\<rparr>)"
      "\<forall>r. res = Some r \<longrightarrow> response_ok cls r" "rt_repair_attempts tr1 \<le> rt_repair_attempts ?tr + 1" "retries_of cid (?u\<lparr>sy_retries := d\<rparr>) \<le> 3"
      using llm_phase_run [OF u, of cls ?tr R prompt agent] unfolding llm_outcome_def by blast
    then show ?thesis using True tr0
      by (intro that [of res n tr1 "?u\<lparr>sy_ext := Suc (sy_ext ?u), sy_retries := d\<rparr>"]) (simp_all add: retries_of_def)
  next
    case False
    then show ?thesis using u tr0 by (intro that [of None 0 ?tr ?u]) (auto simp: ret_def)
  qed
  have "\<exists>r tr tel t. run_structured R prompt cls cid sid agent step budget s = (Inr (r, tr, tel), t) \<and>
    response_ok cls r \<and> te_retry_count tel \<le> 3 \<and> retries_of cid t \<le> 3 \<and> te_latency_ms tel = 0"
  proof (cases res)
    case (Some r)
    obtain tel c2 where cl: "close_run R spn prompt cid sid agent SP_OK tr1 v = (Inr tel, v\<lparr>sy_clock := Suc (Suc (sy_clock v)), sy_spans := c2\<rparr>)"
      "te_latency_ms tel = 0" "te_retry_count tel = rt_repair_attempts tr1 + (if rt_llm_retry tr1 then 1 else 0)"
      using close_run_run by blast
    have "run_structured R prompt cls cid sid agent step budget s = (Inr (r, tr1, tel), v\<lparr>sy_clock := Suc (Suc (sy_clock v)), sy_spans := c2\<rparr>)"
      unfolding run bnd_def [of "if _ then _ else _"] ph(1) by (simp add: Some finish_run_def bnd_def cl(1) ret_def)
    then show ?thesis using ph Some cl by (auto simp: retries_of_def)
  next
    case None
    have "run_structured R prompt cls cid sid agent step budget s = fallback_phase R spn prompt cls cid sid agent b n tr1 v"
      unfolding run bnd_def [of "if _ then _ else _"] ph(1) by (simp add: None finish_run_def)
    then show ?thesis
      using fallback_phase_run [OF assms(2) ph(4), where spn = spn and sid = sid and agent = agent and n = n and tr = tr1] ph(3) fallback_ok [of cls b prompt]
      by (auto split: if_splits)
  qed
  then show ?thesis
    using keepsD [OF run_structured_keeps same_stores_refl] by blast
qed

text \<open>garbage of the model spends the budget of the fallback: if the model answers a text that neither parses as it is nor after the
  repair, all three attempts are used up, and the deterministic fallback is returned without an attempt of its own: the trace
  reports two repairs and a final failure although the fallback is well typed.\<close>

theorem garbage_exhausts_retries:
  assumes "b = effective_budget (re_settings R) budget"
    and "re_json_loads R (deterministic_fallback R prompt cls b) = Some (response_dump (fallback_response cls b prompt))"
    and "re_has_model R" and "\<not> cb_force_deterministic b" and "re_llm R (sy_ext s) agent prompt = Inr (PStr raw)"
    and "model_validate_json R cls raw = Inl e" and "repair R cls raw = Inl e'"
  shows "\<exists>tr tel t. run_structured R prompt cls cid sid agent step budget s = (Inr (fallback_response cls b prompt, tr, tel), t) \<and>
    response_ok cls (fallback_response cls b prompt) \<and> rt_repair_attempts tr = 2 \<and> rt_llm_retry tr \<and> te_retry_count tel = 3 \<and>
    rt_final_failure tr = Some (re_exn_str R (ValueError ''Max structured retries exceeded''))"
proof -
  let ?tr = "new_trace cid sid agent step" and ?e = "ValueError ''Max structured retries exceeded''"
  let ?tr1 = "?tr\<lparr>rt_validation_error := Some (re_exn_str R ?e), rt_repair_attempts := rt_repair_attempts ?tr + 1, rt_llm_retry := True\<rparr>"
  obtain spn c where run: "run_structured R prompt cls cid sid agent step budget s =
    bnd (if re_has_model R \<and> \<not> cb_force_deterministic b then llm_phase R prompt cls cid agent ?tr
        else ret (None, 0, ?tr)) (finish_run R prompt cls cid sid agent b spn)
      (s\<lparr>sy_retries := dict_pop cid (sy_retries s), sy_uuid := Suc (sy_uuid s), sy_spans := c, sy_clock := Suc (Suc (sy_clock s))\<rparr>)"
    by (rule run_structured_open [OF assms(1)])
  let ?u = "s\<lparr>sy_retries := dict_pop cid (sy_retries s), sy_uuid := Suc (sy_uuid s), sy_spans := c, sy_clock := Suc (Suc (sy_clock s))\<rparr>"
  let ?v = "?u\<lparr>sy_ext := Suc (sy_ext ?u)\<rparr>"
  have z: "retries_of cid ?v = 0" by (simp add: retries_of_def dict_getd_def)
  have pr: "parse_reference R raw cls 0 = (Inl ?e, 3)" by (simp add: parse_reference_def assms)
  obtain d where tp: "try_parse R raw cls cid ?v = (Inr (fst (parse_reference R raw cls (retries_of cid ?v))), ?v\<lparr>sy_retries := d\<rparr>)"
    and d: "retries_of cid (?v\<lparr>sy_retries := d\<rparr>) = snd (parse_reference R raw cls (retries_of cid ?v))"
    by (rule try_parse_run)
  let ?w = "?v\<lparr>sy_retries := d\<rparr>"
  have w: "retries_of cid ?w = 3" using d unfolding z pr by simp
  have "llm_phase R prompt cls cid agent ?tr ?u = (Inr (None, 1, ?tr1), ?w)"
    using tp unfolding z pr
    by (simp add: llm_phase_def outside_run assms(5) model_instance_def content_text_def bnd_def [of "try_parse _ _ _ _"] ret_def)
  then have "run_structured R prompt cls cid sid agent step budget s = fallback_phase R spn prompt cls cid sid agent b 1 ?tr1 ?w"
    unfolding run by (simp add: assms(3,4) bnd_def finish_run_def)
  then show ?thesis
    using fallback_phase_run [OF assms(2), where cid = cid and s = ?w and spn = spn and sid = sid and agent = agent and n = 1 and tr = ?tr1] w fallback_ok [of cls b prompt]
    by (auto simp: new_trace_def)
qed

section \<open>Witnesses\<close>

definition llm_env :: "(nat \<Rightarrow> string \<Rightarrow> string \<Rightarrow> exn + pyval) \<Rightarrow> rt_env" where
  "llm_env f = demo_env\<lparr>re_has_model := True, re_llm := f, re_json_dumps := (\<lambda>_. ''{fallback}''),
     re_json_loads := (\<lambda>t. if t = ''{fallback}'' then Some (response_dump (cto_fallback ''hi'')) else None)\<rparr>"

lemma llm_env_fallback:
  "re_json_loads (llm_env f) (deterministic_fallback (llm_env f) ''hi'' CTOResponse b) = Some (response_dump (fallback_response CTOResponse b ''hi''))"
  by (simp add: llm_env_def deterministic_fallback_def fallback_response_def)

theorem parser_equals_reference_witness:
  "\<exists>t. parse_structured_response (llm_env (\<lambda>_ _ _. Inr PNone)) ''{fallback}'' CTOResponse ''c'' init_sys = (Inr (cto_fallback ''hi''), t) \<and> retries_of ''c'' t = 1"
proof -
  have z: "retries_of ''c'' init_sys = 0" by (simp add: retries_of_def dict_getd_def init_sys_def)
  have "model_validate CTOResponse (response_dump (cto_fallback ''hi'')) = Inr (cto_fallback ''hi'')"
    using model_validate_dump [OF fallback_ok [of CTOResponse default_budget "''hi''"]] by (simp add: fallback_response_def)
  then have "parse_reference (llm_env (\<lambda>_ _ _. Inr PNone)) ''{fallback}'' CTOResponse 0 = (Inr (cto_fallback ''hi''), 1)"
    by (simp add: parse_reference_def model_validate_json_def llm_env_def)
  with parser_equals_reference [of "''c''" init_sys "llm_env (\<lambda>_ _ _. Inr PNone)" "''{fallback}''" CTOResponse] z show ?thesis by auto
qed

theorem structured_run_always_valid_witness:
  "\<exists>r tr tel t. run_structured (llm_env (\<lambda>_ _ _. Inl (AgentError ''down''))) ''hi'' CTOResponse ''c'' '''' ''cto'' 0 None init_sys = (Inr (r, tr, tel), t) \<and>
     response_ok CTOResponse r"
  using structured_run_always_valid [where R = "llm_env (\<lambda>_ _ _. Inl (AgentError ''down''))" and budget = None and cls = CTOResponse and prompt = "''hi''",
      OF refl llm_env_fallback] by blast

theorem garbage_exhausts_retries_witness:
  "\<exists>r tr tel t. run_structured (llm_env (\<lambda>_ _ _. Inr (PStr ''garbage''))) ''hi'' CTOResponse ''c'' '''' ''cto'' 0 None init_sys = (Inr (r, tr, tel), t) \<and>
     rt_repair_attempts tr = 2 \<and> te_retry_count tel = 3"
proof -
  let ?R = "llm_env (\<lambda>_ _ _. Inr (PStr ''garbage''))"
  have g: "brace_span (strip ''garbage'') = None" "strip ''garbage'' \<noteq> ''{fallback}''"
    by (simp_all add: strip_def is_space_def brace_span_def)
  have "model_validate_json ?R CTOResponse ''garbage'' = Inl ValidationError" "repair ?R CTOResponse ''garbage'' = Inl ValidationError"
    using g by (simp_all add: model_validate_json_def repair_def extract_json_def llm_env_def)
  moreover have "re_has_model ?R" "re_llm ?R (sy_ext init_sys) ''cto'' ''hi'' = Inr (PStr ''garbage'')"
    by (simp_all add: llm_env_def)
  moreover have "\<not> cb_force_deterministic (effective_budget (re_settings ?R) None)"
    by (simp add: effective_budget_def default_budget_def)
  ultimately show ?thesis
    using garbage_exhausts_retries [where R = "llm_env (\<lambda>_ _ _. Inr (PStr ''garbage''))" and budget = None and cls = CTOResponse and prompt = "''hi''"
        and agent = "''cto''" and raw = "''garbage''", OF refl llm_env_fallback] by blast
qed


definition plain_env :: rt_env where
  "plain_env = demo_env\<lparr>re_json_loads := (\<lambda>_. Some (pdict [(''summary'', PStr ''ok''), (''risks'', pstrs [''x'']), (''mood'', PStr ''calm'')]))\<rparr>"

theorem parsed_response_fields_witness:
  "\<exists>r t. parse_structured_response plain_env ''text'' CEOResponse ''c'' init_sys = (Inr r, t) \<and>
     response_dump r = pdict [(''summary'', PStr ''ok''), (''priorities'', PList []), (''delegations'', PList []), (''risks'', pstrs [''x'']),
       (''kpis_snapshot'', PDict []), (''escalations'', PList []), (''recommended_actions'', PList [])]"
proof -
  have l: "re_json_loads plain_env t = Some (pdict [(''summary'', PStr ''ok''), (''risks'', pstrs [''x'']), (''mood'', PStr ''calm'')])" for t
    by (simp add: plain_env_def)
  have e: "extract_json plain_env t = Some (pdict [(''summary'', PStr ''ok''), (''risks'', pstrs [''x'']), (''mood'', PStr ''calm'')])" for t
    by (simp add: extract_json_def l)
  have "\<exists>r. model_validate_json plain_env CEOResponse ''text'' = Inr r"
    by (simp add: model_validate_json_def l model_validate_def response_fields_def field_value_def all_some_def)
  then obtain r t where run: "parse_structured_response plain_env ''text'' CEOResponse ''c'' init_sys = (Inr r, t)"
    by (auto simp: parse_run parse_reference_def dict_getd_def init_sys_def)
  from parsed_response_fields [OF run] show ?thesis
    using run by (auto simp: l e texts_of_def dict_of_def)
qed

end
