(* ===== verification/Transaction.thy ===== *)
theory Transaction
  imports Replay
begin

text \<open>
  \<open>core/transaction.py\<close> (in-memory branch; the other is theory Postgres), \<open>core/intelligence_persist.py\<close>,
  \<open>core/adaptive_persist.py\<close>, \<open>core/session_diagnostics.py\<close> and
  \<open>apply_memory_runtime_persist\<close> of \<open>core/persistence.py\<close>: the one way in which the runtime
  writes, a payload that becomes at most one outbox event together with its records.
\<close>

section \<open>The payload\<close>

record payload =
  pl_correlation :: string
  pl_session :: string
  pl_type :: string
  pl_body :: pyval
  pl_causation :: "string option"
  pl_decision :: "decision_record option"
  pl_effect :: "side_effect option"
  pl_snapshot :: "pyval option"
  pl_step :: "nat option"
  pl_transition :: "persisted_transition option"
  pl_retry :: "retry_trace option"
  pl_business :: "string option"
  pl_update_world :: bool
  pl_changed :: "string list"
  pl_baseline :: bool
  pl_spans :: "string list"
  pl_telemetry :: "telemetry list"
  pl_health :: "runtime_health option"
  pl_lineage :: "lineage list"
  pl_anomalies :: "anomaly list"
  pl_diagnostics :: "diagnostics option"
  pl_drain :: bool
  pl_tool_failure :: rat
  pl_policy :: "policy_snapshot option"
  pl_profiles :: "tool_profile list"
  pl_priorities :: "priority_score list"
  pl_stability :: "stability_event list"
  pl_governance :: "governance_event list"

text \<open>The defaults of the dataclass.\<close>

definition new_payload :: "string \<Rightarrow> string \<Rightarrow> string \<Rightarrow> pyval \<Rightarrow> payload" where
  "new_payload cid sid ty body = \<lparr>pl_correlation = cid, pl_session = sid, pl_type = ty, pl_body = body,
     pl_causation = None, pl_decision = None, pl_effect = None, pl_snapshot = None, pl_step = None,
     pl_transition = None, pl_retry = None, pl_business = None, pl_update_world = False, pl_changed = [],
     pl_baseline = False, pl_spans = [], pl_telemetry = [], pl_health = None, pl_lineage = [],
     pl_anomalies = [], pl_diagnostics = None, pl_drain = True, pl_tool_failure = 0, pl_policy = None,
     pl_profiles = [], pl_priorities = [], pl_stability = [], pl_governance = []\<rparr>"

definition key_material :: "string \<Rightarrow> string \<Rightarrow> pyval \<Rightarrow> string option \<Rightarrow> pyval" where
  "key_material cid ty body business = pdict [(''correlation_id'', PStr cid), (''event_type'', PStr ty),
     (''business_key'', PStr (str_or business ty)), (''payload'', body)]"

definition idempotency_key :: "env \<Rightarrow> string \<Rightarrow> string \<Rightarrow> pyval \<Rightarrow> string option \<Rightarrow> string" where
  "idempotency_key E cid ty body business = stable_hash E (key_material cid ty body business)"

definition payload_key :: "env \<Rightarrow> payload \<Rightarrow> string" where
  "payload_key E p = idempotency_key E (pl_correlation p) (pl_type p) (pl_body p) (pl_business p)"

definition is_session_close :: "payload \<Rightarrow> bool" where
  "is_session_close p \<longleftrightarrow> pl_baseline p \<and> pl_type p = ''session.completed''"

definition merge_pending_spans :: "payload \<Rightarrow> payload rt" where
  "merge_pending_spans p = (if \<not> pl_drain p then ret p
     else bnd drain_spans (\<lambda>pending. ret (if pending = [] then p else p\<lparr>pl_spans := pl_spans p @ pending\<rparr>)))"

section \<open>Writing the records\<close>

definition when_some :: "'a option \<Rightarrow> ('a \<Rightarrow> 'b \<Rightarrow> 'b) \<Rightarrow> 'b \<Rightarrow> 'b" where
  "when_some v f x = (case v of None \<Rightarrow> x | Some a \<Rightarrow> f a x)"

definition when_any :: "'a list \<Rightarrow> ('a list \<Rightarrow> 'b \<Rightarrow> 'b) \<Rightarrow> 'b \<Rightarrow> 'b" where
  "when_any xs f x = (if xs = [] then x else f xs x)"

definition apply_intelligence_memory :: "payload \<Rightarrow> intel_store \<Rightarrow> intel_store" where
  "apply_intelligence_memory p i =
     when_some (pl_diagnostics p) save_session_diagnostics
     (when_any (pl_anomalies p) append_anomalies
     (when_any (pl_lineage p) append_lineage
     (when_some (pl_health p) replace_health
     (when_any (pl_telemetry p) append_telemetry
     (when_any (pl_spans p) append_spans i)))))"

definition apply_adaptive_memory :: "payload \<Rightarrow> intel_store \<Rightarrow> intel_store" where
  "apply_adaptive_memory p i =
     when_any (pl_governance p) append_governance_events
     (when_any (pl_stability p) append_stability_events
     (when_any (pl_priorities p) (append_context_priority_snapshot (pl_session p) (pl_correlation p))
     (fold upsert_tool_profile (pl_profiles p)
     (when_some (pl_policy p) append_adaptive_policy i))))"

definition has_adaptive_data :: "payload \<Rightarrow> bool" where
  "has_adaptive_data p \<longleftrightarrow> pl_policy p \<noteq> None \<or> pl_profiles p \<noteq> [] \<or> pl_priorities p \<noteq> [] \<or>
     pl_stability p \<noteq> [] \<or> pl_governance p \<noteq> []"

definition has_intelligence_data :: "payload \<Rightarrow> bool" where
  "has_intelligence_data p \<longleftrightarrow> pl_spans p \<noteq> [] \<or> pl_telemetry p \<noteq> [] \<or> pl_health p \<noteq> None \<or>
     pl_lineage p \<noteq> [] \<or> pl_anomalies p \<noteq> [] \<or> pl_diagnostics p \<noteq> None \<or> pl_policy p \<noteq> None \<or>
     pl_profiles p \<noteq> [] \<or> pl_priorities p \<noteq> [] \<or> pl_stability p \<noteq> [] \<or> pl_governance p \<noteq> []"

definition persist_adaptive :: "payload \<Rightarrow> unit rt" where
  "persist_adaptive p = (if \<not> has_adaptive_data p then ret () else on_intel (apply_adaptive_memory p))"

definition persist_intelligence :: "payload \<Rightarrow> unit rt" where
  "persist_intelligence p = (if \<not> has_intelligence_data p then ret ()
     else seqc (on_intel (apply_intelligence_memory p)) (persist_adaptive p))"

definition write_db :: "payload \<Rightarrow> outbox_event \<Rightarrow> world_snapshot option \<Rightarrow> db \<Rightarrow> db" where
  "write_db p event snap d =
     (let d1 = when_some (pl_decision p) save_decision d;
          d2 = when_some (pl_effect p) save_side_effect d1;
          d3 = d2\<lparr>db_outbox := db_outbox d2 @ [event]\<rparr>;
          d4 = when_some snap (\<lambda>w d. d\<lparr>db_snapshots := db_snapshots d @ [w], db_world := sn_state w\<rparr>) d3
      in when_some (pl_transition p) (\<lambda>t d. d\<lparr>db_transitions := db_transitions d @ [t]\<rparr>) d4)"

definition write_snapshot :: "payload \<Rightarrow> replay_store \<Rightarrow> replay_store" where
  "write_snapshot p r = (case (pl_snapshot p, pl_step p) of
     (Some v, Some n) \<Rightarrow> save_replay_snapshot_memory (pl_session p) n v r | _ \<Rightarrow> r)"

definition apply_memory_runtime_persist :: "payload \<Rightarrow> outbox_event \<Rightarrow> world_snapshot option \<Rightarrow> unit rt" where
  "apply_memory_runtime_persist p event snap =
     seqc (on_db (write_db p event snap))
     (seqc (on_replay (write_snapshot p))
     (seqc (on_intel (when_some (pl_retry p) append_retry_trace))
     (seqc (on_intel (apply_intelligence_memory p)) (on_intel (apply_adaptive_memory p)))))"

section \<open>core/session_diagnostics.py\<close>

definition count_types :: "span list \<Rightarrow> (string, nat) dict" where
  "count_types spans = fold (\<lambda>s d. let k = span_type_value (sp_type s) in dict_set k (dict_getd d k 0 + 1) d) spans []"

text \<open>Spans whose parent is given (and not the empty string) but is not among the spans.\<close>

definition is_orphan :: "span list \<Rightarrow> span \<Rightarrow> bool" where
  "is_orphan spans s \<longleftrightarrow> str_or (sp_parent s) '''' \<noteq> '''' \<and>
     str_or (sp_parent s) '''' \<notin> set (map sp_id spans) \<and> sp_type s \<noteq> ORCHESTRATION"

definition diagnostics_of ::
  "string \<Rightarrow> string \<Rightarrow> runtime_health option \<Rightarrow> anomaly list option \<Rightarrow> sys \<Rightarrow> diagnostics" where
  "diagnostics_of sid cid health anomalies s =
     (let spans = query_execution_spans s sid (Some cid);
          tel = query_cognitive_telemetry s sid (Some cid);
          snaps = get_replay_snapshots s sid;
          stab = query_stability_events s sid;
          gov = query_governance_events s sid
      in \<lparr>dg_session = sid, dg_correlation = cid,
          dg_health = (case health of Some h \<Rightarrow> Some h | None \<Rightarrow> last_opt (query_runtime_health s sid)),
          dg_span_total = length spans, dg_span_by_type = count_types spans,
          dg_span_orphans = length (filter (is_orphan spans) spans),
          dg_tel_records = length tel, dg_tel_tokens = sum_list (map te_token_estimate tel),
          dg_tel_avg_pressure = (if tel = [] then 0
            else fdiv (py_fsum (map te_context_pressure tel)) (of_nat (length tel))),
          dg_tel_retries = sum_list (map te_retry_count tel),
          dg_snapshot_count = length snaps, dg_baseline = get_replay_baseline_meta s sid,
          dg_fingerprints = map (\<lambda>v. vgetd v ''context_fingerprint'' PNone)
            (filter (\<lambda>v. opt_truthy (vget v ''context_fingerprint'')) snaps),
          dg_anomalies = (case anomalies of Some a \<Rightarrow> a | None \<Rightarrow> get_anomalies (sy_intel s) sid),
          dg_policy = map_option ps_policy (query_adaptive_policy (sy_intel s) sid),
          dg_stability_count = length stab, dg_stability_events = py_drop (-5) stab,
          dg_governance_count = length gov, dg_governance_events = py_drop (-5) gov\<rparr>)"

definition build_session_diagnostics ::
  "string \<Rightarrow> string \<Rightarrow> runtime_health option \<Rightarrow> anomaly list option \<Rightarrow> diagnostics rt" where
  "build_session_diagnostics sid cid health anomalies = reads (diagnostics_of sid cid health anomalies)"

definition build_session_diagnostics_only :: "payload \<Rightarrow> payload rt" where
  "build_session_diagnostics_only p = (if pl_diagnostics p \<noteq> None then ret p
     else bnd (build_session_diagnostics (pl_session p) (pl_correlation p) (pl_health p)
         (if pl_anomalies p = [] then None else Some (pl_anomalies p)))
       (\<lambda>d. ret (p\<lparr>pl_diagnostics := Some d\<rparr>)))"

section \<open>Closing a session\<close>

definition merge_spans_for_health :: "span list \<Rightarrow> span list \<Rightarrow> span list" where
  "merge_spans_for_health stored pending =
     sort_key sp_started (dict_values (fold (\<lambda>s. dict_set (sp_id s) s) (stored @ pending) []))"

definition persist_replay_baseline :: "payload \<Rightarrow> string \<Rightarrow> unit rt" where
  "persist_replay_baseline p fp =
     on_replay (save_baseline_record_memory (pl_session p) (pl_correlation p) fp ORCHESTRATOR_VERSION)"

definition pressure_of :: "telemetry list \<Rightarrow> rat" where
  "pressure_of tel = (case last_opt tel of None \<Rightarrow> 0 | Some t \<Rightarrow> te_context_pressure t)"

definition compute_session_close_health :: "rt_env \<Rightarrow> payload \<Rightarrow> payload rt" where
  "compute_session_close_health R p =
     bnd (reads (\<lambda>s. get_replay_baseline s (pl_session p))) (\<lambda>baseline.
     bnd (\<lambda>s. (build_canonical_outcome (pl_session p) (pl_correlation p) None s, s)) (\<lambda>outcome.
     let fp = outcome_fingerprint (re_env R) outcome in
     seqc (persist_replay_baseline p fp)
     (bnd (reads (\<lambda>s. merge_spans_for_health (query_execution_spans s (pl_session p) (Some (pl_correlation p)))
         (List.map_filter (span_of (sy_spans s)) (pl_spans p)))) (\<lambda>spans.
      bnd (clock R) (\<lambda>t1. bnd (clock R) (\<lambda>t2.
      let health = compute_health (pl_correlation p) (pl_session p) t1 (pl_telemetry p) spans (pl_tool_failure p)
            (replay_confidence_from_baseline fp baseline) (pressure_of (pl_telemetry p))
      in ret (p\<lparr>pl_health := Some health, pl_anomalies := detect_anomalies health t2\<rparr>)))))))"

definition complete_session_close :: "rt_env \<Rightarrow> payload \<Rightarrow> payload rt" where
  "complete_session_close R p = bnd (compute_session_close_health R p) build_session_diagnostics_only"

section \<open>persist_runtime_tx\<close>

definition outbox_event_of :: "env \<Rightarrow> payload \<Rightarrow> int \<Rightarrow> string \<Rightarrow> time \<Rightarrow> outbox_event" where
  "outbox_event_of E p version uid now = \<lparr>ev_id = uid, ev_key = payload_key E p,
     ev_correlation = pl_correlation p, ev_causation = pl_causation p, ev_type = pl_type p,
     ev_payload = pl_body p, ev_world_version = version, ev_processed = False, ev_created = now\<rparr>"

definition next_world :: "rt_env \<Rightarrow> payload \<Rightarrow> world_state \<Rightarrow> world_snapshot option rt" where
  "next_world R p world = (if \<not> pl_update_world p then ret None
     else bnd (clock R) (\<lambda>t. ret (Some (snapshot_from_state (re_ws_checksum R) t
       (world\<lparr>ws_version := ws_version world + 1\<rparr>) (pl_changed p)))))"

text \<open>Both branches of the transaction merge the pending spans and, at a session close, compute its health first.\<close>

definition merge_and_close :: "rt_env \<Rightarrow> payload \<Rightarrow> payload rt" where
  "merge_and_close R p = bnd (merge_pending_spans p) (\<lambda>p1.
     if is_session_close p then complete_session_close R p1 else ret p1)"

definition persist_runtime_tx :: "rt_env \<Rightarrow> payload \<Rightarrow> (outbox_event \<times> bool) rt" where
  "persist_runtime_tx R p =
     bnd (reads (\<lambda>s. db_world (sy_db s))) (\<lambda>world.
     bnd (fresh_uuid R) (\<lambda>uid. bnd (clock R) (\<lambda>now.
     let event = outbox_event_of (re_env R) p (ws_version world) uid now in
     bnd (next_world R p world) (\<lambda>snap.
     bnd (reads (\<lambda>s. get_memory_outbox_by_idempotency (sy_db s) (ev_key event))) (\<lambda>existing.
     case existing of
       Some e \<Rightarrow> bnd (merge_and_close R p) (\<lambda>p2. seqc (persist_intelligence p2) (ret (e, False)))
     | None \<Rightarrow> bnd (merge_and_close R p) (\<lambda>p2. seqc (apply_memory_runtime_persist p2 event snap) (ret (event, True))))))))"

text \<open>The wrappers of \<open>core/persistence.py\<close>.\<close>

definition persist_execution_bundle ::
  "rt_env \<Rightarrow> string \<Rightarrow> string \<Rightarrow> pyval \<Rightarrow> decision_record option \<Rightarrow> side_effect option \<Rightarrow> string option \<Rightarrow> string option \<Rightarrow> outbox_event rt" where
  "persist_execution_bundle R cid ty body dec eff causation sid =
     bnd (persist_runtime_tx R ((new_payload cid (str_or sid cid) ty body)\<lparr>pl_causation := causation,
       pl_decision := dec, pl_effect := eff, pl_business := Some ty\<rparr>)) (\<lambda>(e, _). ret e)"

definition append_outbox_event ::
  "rt_env \<Rightarrow> string \<Rightarrow> string option \<Rightarrow> string \<Rightarrow> pyval \<Rightarrow> string option \<Rightarrow> outbox_event rt" where
  "append_outbox_event R cid causation ty body sid =
     bnd (persist_runtime_tx R ((new_payload cid (str_or sid cid) ty body)\<lparr>pl_causation := causation,
       pl_business := Some ty\<rparr>)) (\<lambda>(e, _). ret e)"

definition save_replay_snapshot :: "rt_env \<Rightarrow> string \<Rightarrow> string \<Rightarrow> nat \<Rightarrow> pyval \<Rightarrow> unit rt" where
  "save_replay_snapshot R sid cid step data =
     bnd (persist_runtime_tx R ((new_payload cid sid ''replay.snapshot'' (pdict [(''step'', PInt (int step))]))\<lparr>
       pl_snapshot := Some data, pl_step := Some step, pl_business := Some (''replay:'' @ show_nat step)\<rparr>)) (\<lambda>_. ret ())"

section \<open>Lemmas\<close>

text \<open>What the preparation of a payload leaves alone: everything but spans, counters and baselines.\<close>

definition same_ledger :: "sys \<Rightarrow> sys \<Rightarrow> bool" where
  "same_ledger s t \<longleftrightarrow> sy_db t = sy_db s \<and> sy_gov t = sy_gov s \<and> sy_intel t = sy_intel s \<and>
     rs_snaps (sy_replay t) = rs_snaps (sy_replay s) \<and> sy_biases t = sy_biases s \<and> sy_locks t = sy_locks s \<and>
     sy_crisis t = sy_crisis s \<and> sy_health t = sy_health s \<and> sy_starts t = sy_starts s \<and>
     sy_prompts t = sy_prompts s \<and> sy_cache t = sy_cache s \<and> sy_ext t = sy_ext s"

lemma same_ledger_refl [simp]: "same_ledger s s"
  by (simp add: same_ledger_def)

lemma same_ledger_upd [simp]:
  "same_ledger s (t\<lparr>sy_uuid := n\<rparr>) = same_ledger s t" "same_ledger s (t\<lparr>sy_clock := n\<rparr>) = same_ledger s t"
  "same_ledger s (t\<lparr>sy_spans := c\<rparr>) = same_ledger s t"
  "same_ledger s (t\<lparr>sy_replay := save_baseline_record_memory sid cid fp v (sy_replay t)\<rparr>) = same_ledger s t"
  by (simp_all add: same_ledger_def save_baseline_record_memory_def)

lemma keeps_reader: "keeps P (\<lambda>s. (f s, s))"
  by (simp add: keeps_def)

lemma merge_and_close_keeps: "keeps (same_ledger s0) (merge_and_close R p)"
proof -
  have c: "keeps (same_ledger s0) (clock R)" by (rule rt_keeps) simp
  have d: "keeps (same_ledger s0) drain_spans" by (rule rt_keeps) simp
  have b: "keeps (same_ledger s0) (persist_replay_baseline q fp)" for q fp
    unfolding persist_replay_baseline_def on_replay_def by (rule keeps_mods) simp
  show ?thesis
    unfolding merge_and_close_def merge_pending_spans_def complete_session_close_def compute_session_close_health_def
      build_session_diagnostics_only_def build_session_diagnostics_def Let_def
    by (intro keeps_bnd keeps_seqc keeps_if keeps_ret keeps_reads keeps_reader c d b)
qed

lemma merge_run:
  "merge_pending_spans p s = (Inr (p\<lparr>pl_spans := pl_spans p @ (if pl_drain p then sc_pending (sy_spans s) else [])\<rparr>),
     s\<lparr>sy_spans := (if pl_drain p then (sy_spans s)\<lparr>sc_pending := []\<rparr> else sy_spans s)\<rparr>)"
  by (simp add: merge_pending_spans_def comp_simps bnd_def drain_spans_def drain_pending_spans_def)

text \<open>A close that returns: the outcome of the session, its fingerprint as the baseline, the health from it.\<close>

lemma close_health_run:
  assumes "compute_session_close_health R p s = (Inr p2, t)"
  shows "\<exists>oc h an. run_from_session (pl_session p) (pl_correlation p) s = Inr oc \<and>
     p2 = p\<lparr>pl_health := Some h, pl_anomalies := an\<rparr> \<and>
     rh_session h = pl_session p \<and> rh_correlation h = pl_correlation p \<and>
     rh_replay_confidence h = round4 (replay_confidence_from_baseline (outcome_fingerprint (re_env R) oc) (get_replay_baseline s (pl_session p))) \<and>
     t = s\<lparr>sy_clock := sy_clock s + 2, sy_replay := save_baseline_record_memory (pl_session p) (pl_correlation p)
       (outcome_fingerprint (re_env R) oc) ORCHESTRATOR_VERSION (sy_replay s)\<rparr>"
proof -
  obtain oc where oc: "build_canonical_outcome (pl_session p) (pl_correlation p) None s = Inr oc"
    using assms by (cases "build_canonical_outcome (pl_session p) (pl_correlation p) None s")
      (auto simp: compute_session_close_health_def comp_simps bnd_def)
  then have run: "run_from_session (pl_session p) (pl_correlation p) s = Inr oc"
    by (auto simp: build_canonical_outcome_def rbind_Inr_iff)
  have fields: "rh_session (compute_health a b c d e f g h) = b" "rh_correlation (compute_health a b c d e f g h) = a"
    "rh_replay_confidence (compute_health a b c d e f g h) = round4 g" for a b c d e f g h
    by (simp_all add: compute_health_def Let_def)
  have step: "bnd (\<lambda>s. (build_canonical_outcome (pl_session p) (pl_correlation p) None s, s)) f s = f oc s" for f :: "canonical_outcome \<Rightarrow> payload rt"
    by (simp add: bnd_def oc)
  from assms show ?thesis
    unfolding compute_session_close_health_def bnd_reads step
    by (auto simp: Let_def comp_simps persist_replay_baseline_def fields run)
qed

lemma diagnostics_only_run:
  "\<exists>dg. build_session_diagnostics_only p s = (Inr (p\<lparr>pl_diagnostics := dg\<rparr>), s)"
proof (cases "pl_diagnostics p")
  case None
  then show ?thesis by (auto simp: build_session_diagnostics_only_def build_session_diagnostics_def comp_simps)
next
  case (Some d)
  then have "p\<lparr>pl_diagnostics := Some d\<rparr> = p" by simp
  then show ?thesis using Some by (metis build_session_diagnostics_only_def option.distinct(1) ret_def)
qed

lemma close_run:
  assumes "complete_session_close R p s = (Inr p2, t)"
  shows "\<exists>oc h an dg. run_from_session (pl_session p) (pl_correlation p) s = Inr oc \<and>
     p2 = p\<lparr>pl_health := Some h, pl_anomalies := an, pl_diagnostics := dg\<rparr> \<and>
     rh_session h = pl_session p \<and> rh_correlation h = pl_correlation p \<and>
     rh_replay_confidence h = round4 (replay_confidence_from_baseline (outcome_fingerprint (re_env R) oc) (get_replay_baseline s (pl_session p))) \<and>
     t = s\<lparr>sy_clock := sy_clock s + 2, sy_replay := save_baseline_record_memory (pl_session p) (pl_correlation p)
       (outcome_fingerprint (re_env R) oc) ORCHESTRATOR_VERSION (sy_replay s)\<rparr>"
proof -
  obtain p1 t1 where c: "compute_session_close_health R p s = (Inr p1, t1)" "build_session_diagnostics_only p1 t1 = (Inr p2, t)"
    using assms by (auto simp: complete_session_close_def elim: bnd_InrE)
  obtain dg where "p2 = p1\<lparr>pl_diagnostics := dg\<rparr>" "t = t1"
    using diagnostics_only_run [of p1 t1] c(2) by auto
  then show ?thesis using close_health_run [OF c(1)] by auto
qed

text \<open>The fields that the preparation does not touch.\<close>

lemma merge_and_close_payload:
  assumes "merge_and_close R p s = (Inr p2, t)"
  shows "\<exists>us h an dg. p2 = p\<lparr>pl_spans := us, pl_health := h, pl_anomalies := an, pl_diagnostics := dg\<rparr> \<and>
     (\<not> is_session_close p \<longrightarrow> h = pl_health p \<and> an = pl_anomalies p \<and> dg = pl_diagnostics p \<and> sy_replay t = sy_replay s)"
proof -
  obtain us t1 where u: "merge_pending_spans p s = (Inr (p\<lparr>pl_spans := us\<rparr>), t1)" "sy_replay t1 = sy_replay s"
    by (rule that [OF merge_run]) simp
  show ?thesis
  proof (cases "is_session_close p")
    case False
    then have "p2 = p\<lparr>pl_spans := us\<rparr>" "t = t1"
      using assms u by (auto simp: merge_and_close_def bnd_def ret_def)
    then show ?thesis
      using u(2) by (intro exI [of _ us] exI [of _ "pl_health p"] exI [of _ "pl_anomalies p"] exI [of _ "pl_diagnostics p"]) simp
  next
    case True
    have "complete_session_close R (p\<lparr>pl_spans := us\<rparr>) t1 = (Inr p2, t)"
      using assms u True by (simp add: merge_and_close_def bnd_def)
    from close_run [OF this] show ?thesis using True by auto
  qed
qed

lemma persist_intelligence_run:
  "persist_intelligence p s = (Inr (), s\<lparr>sy_intel := apply_adaptive_memory p (apply_intelligence_memory p (sy_intel s))\<rparr>)"
proof -
  have a: "apply_adaptive_memory p i = i" if "\<not> has_adaptive_data p" for i
    using that by (simp add: apply_adaptive_memory_def has_adaptive_data_def when_some_def when_any_def)
  have b: "apply_intelligence_memory p i = i \<and> \<not> has_adaptive_data p" if "\<not> has_intelligence_data p" for i
    using that by (simp add: apply_intelligence_memory_def has_intelligence_data_def has_adaptive_data_def
        when_some_def when_any_def)
  show ?thesis
    by (simp add: persist_intelligence_def persist_adaptive_def comp_simps a b)
qed

lemma apply_memory_run:
  "apply_memory_runtime_persist p e snap s = (Inr (), s\<lparr>sy_db := write_db p e snap (sy_db s),
     sy_replay := write_snapshot p (sy_replay s), sy_intel := apply_adaptive_memory p (apply_intelligence_memory p
       (when_some (pl_retry p) append_retry_trace (sy_intel s)))\<rparr>)"
  by (simp add: apply_memory_runtime_persist_def comp_simps)

definition snap_ok :: "payload \<Rightarrow> world_state \<Rightarrow> world_snapshot option \<Rightarrow> bool" where
  "snap_ok p world snap = (if pl_update_world p
     then \<exists>sn. snap = Some sn \<and> sn_state sn = world\<lparr>ws_version := ws_version world + 1\<rparr> \<and>
       sn_version sn = ws_version world + 1 \<and> sn_changed sn = pl_changed p
     else snap = None)"

lemma next_world_run:
  "\<exists>snap n. next_world R p world s = (Inr snap, s\<lparr>sy_clock := n\<rparr>) \<and> snap_ok p world snap"
proof (cases "pl_update_world p")
  case True
  then show ?thesis by (auto simp: next_world_def snap_ok_def comp_simps snapshot_from_state_def)
next
  case False
  then have "next_world R p world s = (Inr None, s\<lparr>sy_clock := sy_clock s\<rparr>)" "snap_ok p world None"
    by (simp_all add: next_world_def snap_ok_def ret_def)
  then show ?thesis by blast
qed

text \<open>A transaction that returns: the branch that was taken and the state it leaves.\<close>

lemma persist_tx_cases:
  assumes "persist_runtime_tx R p s = (Inr (e, ins), s')"
  obtains (replayed) p2 n m t where "\<not> ins"
      and "get_memory_outbox_by_idempotency (sy_db s) (payload_key (re_env R) p) = Some e"
      and "merge_and_close R p (s\<lparr>sy_uuid := n, sy_clock := m\<rparr>) = (Inr p2, t)" and "same_ledger s t"
      and "s' = t\<lparr>sy_intel := apply_adaptive_memory p2 (apply_intelligence_memory p2 (sy_intel t))\<rparr>"
    | (inserted) p2 n m t snap where "ins"
      and "get_memory_outbox_by_idempotency (sy_db s) (payload_key (re_env R) p) = None"
      and "merge_and_close R p (s\<lparr>sy_uuid := n, sy_clock := m\<rparr>) = (Inr p2, t)" and "same_ledger s t"
      and "e = outbox_event_of (re_env R) p (ws_version (db_world (sy_db s))) (re_uuid R (sy_uuid s)) (re_now R (sy_clock s))"
      and "snap_ok p (db_world (sy_db s)) snap"
      and "s' = t\<lparr>sy_db := write_db p2 e snap (sy_db t), sy_replay := write_snapshot p2 (sy_replay t),
        sy_intel := apply_adaptive_memory p2 (apply_intelligence_memory p2
          (when_some (pl_retry p2) append_retry_trace (sy_intel t)))\<rparr>"
proof -
  let ?w = "db_world (sy_db s)"
  let ?s1 = "s\<lparr>sy_uuid := sy_uuid s + 1, sy_clock := sy_clock s + 1\<rparr>"
  let ?e = "outbox_event_of (re_env R) p (ws_version ?w) (re_uuid R (sy_uuid s)) (re_now R (sy_clock s))"
  obtain snap m where nw: "next_world R p ?w ?s1 = (Inr snap, ?s1\<lparr>sy_clock := m\<rparr>)" "snap_ok p ?w snap"
    using next_world_run by metis
  let ?s2 = "s\<lparr>sy_uuid := sy_uuid s + 1, sy_clock := m\<rparr>"
  have key: "ev_key ?e = payload_key (re_env R) p" by (simp add: outbox_event_of_def)
  have run: "persist_runtime_tx R p s = (case get_memory_outbox_by_idempotency (sy_db s) (payload_key (re_env R) p) of
       Some e \<Rightarrow> bnd (merge_and_close R p) (\<lambda>p2. seqc (persist_intelligence p2) (ret (e, False))) ?s2
     | None \<Rightarrow> bnd (merge_and_close R p) (\<lambda>p2. seqc (apply_memory_runtime_persist p2 ?e snap) (ret (?e, True))) ?s2)"
    using nw(1) by (simp add: persist_runtime_tx_def Let_def comp_simps key bnd_Inr split: option.split)
  have same: "same_ledger s t" if "merge_and_close R p ?s2 = (r, t)" for r t
    by (rule keepsD [OF merge_and_close_keeps _ that]) simp
  show thesis
  proof (cases "get_memory_outbox_by_idempotency (sy_db s) (payload_key (re_env R) p)")
    case None
    then obtain p2 t where m2: "merge_and_close R p ?s2 = (Inr p2, t)"
      "seqc (apply_memory_runtime_persist p2 ?e snap) (ret (?e, True)) t = (Inr (e, ins), s')"
      using assms unfolding run by (auto elim: bnd_InrE)
    then have out: "e = ?e" "ins" "s' = t\<lparr>sy_db := write_db p2 ?e snap (sy_db t), sy_replay := write_snapshot p2 (sy_replay t),
        sy_intel := apply_adaptive_memory p2 (apply_intelligence_memory p2
          (when_some (pl_retry p2) append_retry_trace (sy_intel t)))\<rparr>"
      by (auto simp: comp_simps bnd_Inr apply_memory_run)
    show thesis
      by (rule inserted [OF out(2) None m2(1) same [OF m2(1)] out(1) nw(2)]) (simp only: out)
  next
    case (Some ev)
    then obtain p2 t where m2: "merge_and_close R p ?s2 = (Inr p2, t)"
      "seqc (persist_intelligence p2) (ret (ev, False)) t = (Inr (e, ins), s')"
      using assms unfolding run by (auto elim: bnd_InrE)
    then have out: "e = ev" "\<not> ins"
      "s' = t\<lparr>sy_intel := apply_adaptive_memory p2 (apply_intelligence_memory p2 (sy_intel t))\<rparr>"
      by (simp_all add: comp_simps bnd_Inr persist_intelligence_run)
    show thesis
      by (rule replayed [OF out(2) _ m2(1) same [OF m2(1)] out(3)]) (simp add: Some out)
  qed
qed

lemma persist_tx_run:
  obtains n m snap where "snap_ok p (db_world (sy_db s)) snap"
    and "persist_runtime_tx R p s = (case get_memory_outbox_by_idempotency (sy_db s) (payload_key (re_env R) p) of
       Some e \<Rightarrow> bnd (merge_and_close R p) (\<lambda>p2. seqc (persist_intelligence p2) (ret (e, False)))
     | None \<Rightarrow> bnd (merge_and_close R p) (\<lambda>p2. seqc (apply_memory_runtime_persist p2
         (outbox_event_of (re_env R) p (ws_version (db_world (sy_db s))) (re_uuid R (sy_uuid s)) (re_now R (sy_clock s))) snap)
         (ret (outbox_event_of (re_env R) p (ws_version (db_world (sy_db s))) (re_uuid R (sy_uuid s)) (re_now R (sy_clock s)), True))))
       (s\<lparr>sy_uuid := n, sy_clock := m\<rparr>)"
proof -
  let ?s1 = "s\<lparr>sy_uuid := sy_uuid s + 1, sy_clock := sy_clock s + 1\<rparr>"
  obtain snap m where nw: "next_world R p (db_world (sy_db s)) ?s1 = (Inr snap, ?s1\<lparr>sy_clock := m\<rparr>)" "snap_ok p (db_world (sy_db s)) snap"
    using next_world_run by metis
  have key: "ev_key (outbox_event_of (re_env R) p v u t) = payload_key (re_env R) p" for v u t
    by (simp add: outbox_event_of_def)
  show thesis
    by (rule that [OF nw(2), of m "sy_uuid s + 1"], cases "get_memory_outbox_by_idempotency (sy_db s) (payload_key (re_env R) p)")
      (use nw(1) in \<open>simp_all add: persist_runtime_tx_def Let_def comp_simps key bnd_Inr\<close>)
qed

text \<open>A transaction that does not close a session always returns.\<close>

lemma persist_tx_returns:
  assumes "merge_and_close R p = bnd (merge_pending_spans p) ret \<or>
    (\<forall>t. same_ledger s t \<and> sy_replay t = sy_replay s \<longrightarrow> (\<exists>oc. run_from_session (pl_session p) (pl_correlation p) t = Inr oc))"
  shows "\<exists>e ins s'. persist_runtime_tx R p s = (Inr (e, ins), s')"
proof -
  obtain n m snap where run: "persist_runtime_tx R p s = (case get_memory_outbox_by_idempotency (sy_db s) (payload_key (re_env R) p) of
       Some e \<Rightarrow> bnd (merge_and_close R p) (\<lambda>p2. seqc (persist_intelligence p2) (ret (e, False)))
     | None \<Rightarrow> bnd (merge_and_close R p) (\<lambda>p2. seqc (apply_memory_runtime_persist p2
         (outbox_event_of (re_env R) p (ws_version (db_world (sy_db s))) (re_uuid R (sy_uuid s)) (re_now R (sy_clock s))) snap)
         (ret (outbox_event_of (re_env R) p (ws_version (db_world (sy_db s))) (re_uuid R (sy_uuid s)) (re_now R (sy_clock s)), True))))
       (s\<lparr>sy_uuid := n, sy_clock := m\<rparr>)"
    by (rule persist_tx_run)
  have "\<exists>p2 t. merge_and_close R p (s\<lparr>sy_uuid := n, sy_clock := m\<rparr>) = (Inr p2, t)"
  proof (cases "merge_and_close R p = bnd (merge_pending_spans p) ret")
    case True
    then show ?thesis by (simp add: bnd_Inr [OF merge_run] ret_def)
  next
    case False
    let ?q = "\<lambda>us. p\<lparr>pl_spans := us\<rparr>"
    obtain us c where mc: "merge_and_close R p (s\<lparr>sy_uuid := n, sy_clock := m\<rparr>) = complete_session_close R (?q us) (s\<lparr>sy_uuid := n, sy_clock := m, sy_spans := c\<rparr>)"
      using False by (cases "is_session_close p") (auto simp: merge_and_close_def bnd_Inr [OF merge_run])
    obtain oc where "run_from_session (pl_session p) (pl_correlation p) (s\<lparr>sy_uuid := n, sy_clock := m, sy_spans := c\<rparr>) = Inr oc"
      using assms False by fastforce
    then have b: "build_canonical_outcome (pl_session p) (pl_correlation p) None (s\<lparr>sy_uuid := n, sy_clock := m, sy_spans := c\<rparr>) = Inr oc"
      by (simp add: build_canonical_outcome_def)
    obtain p1 t1 where "compute_session_close_health R (?q us) (s\<lparr>sy_uuid := n, sy_clock := m, sy_spans := c\<rparr>) = (Inr p1, t1)"
      by (simp add: compute_session_close_health_def comp_simps bnd_def b Let_def persist_replay_baseline_def clock_def)
    then show ?thesis
      using diagnostics_only_run [of p1 t1] by (auto simp: mc complete_session_close_def bnd_def)
  qed
  then show ?thesis
    by (auto simp: run comp_simps bnd_def persist_intelligence_run apply_memory_run split: option.split)
qed

lemma persist_tx_total:
  "\<not> is_session_close p \<Longrightarrow> \<exists>e ins s'. persist_runtime_tx R p s = (Inr (e, ins), s')"
  by (rule persist_tx_returns) (simp add: merge_and_close_def)

lemma write_db_fields [simp]:
  "db_outbox (write_db p e snap d) = db_outbox d @ [e]"
  "db_decisions (write_db p e snap d) = db_decisions d @ (case pl_decision p of None \<Rightarrow> [] | Some r \<Rightarrow> [r])"
  "db_effects (write_db p e snap d) = db_effects d @ (case pl_effect p of None \<Rightarrow> [] | Some r \<Rightarrow> [r])"
  "db_transitions (write_db p e snap d) = db_transitions d @ (case pl_transition p of None \<Rightarrow> [] | Some r \<Rightarrow> [r])"
  "db_snapshots (write_db p e snap d) = db_snapshots d @ (case snap of None \<Rightarrow> [] | Some r \<Rightarrow> [r])"
  "db_world (write_db p e snap d) = (case snap of None \<Rightarrow> db_world d | Some r \<Rightarrow> sn_state r)"
  "db_processed (write_db p e snap d) = db_processed d"
  by (simp_all add: write_db_def when_some_def save_decision_def save_side_effect_def Let_def split: option.split)


lemma map_of_intel [simp]:
  "is_telemetry (apply_adaptive_memory p i) = is_telemetry i"
  "is_telemetry (apply_intelligence_memory p i) = is_telemetry i @ pl_telemetry p"
  "is_policies (apply_adaptive_memory p i) = is_policies i @ (case pl_policy p of None \<Rightarrow> [] | Some x \<Rightarrow> [x])"
  "is_policies (apply_intelligence_memory p i) = is_policies i"
  "is_retries (apply_adaptive_memory p i) = is_retries i"
  "is_retries (apply_intelligence_memory p i) = is_retries i"
proof -
  have u: "is_telemetry (fold upsert_tool_profile ps i) = is_telemetry i \<and>
      is_policies (fold upsert_tool_profile ps i) = is_policies i \<and> is_retries (fold upsert_tool_profile ps i) = is_retries i" for ps i
    by (induction ps arbitrary: i) (simp_all add: upsert_tool_profile_def)
  note defs = apply_adaptive_memory_def apply_intelligence_memory_def when_some_def when_any_def
    append_governance_events_def append_stability_events_def append_context_priority_snapshot_def append_adaptive_policy_def
    save_session_diagnostics_def append_anomalies_def append_lineage_def replace_health_def append_telemetry_def append_spans_def
  show "is_telemetry (apply_adaptive_memory p i) = is_telemetry i"
    "is_telemetry (apply_intelligence_memory p i) = is_telemetry i @ pl_telemetry p"
    "is_policies (apply_adaptive_memory p i) = is_policies i @ (case pl_policy p of None \<Rightarrow> [] | Some x \<Rightarrow> [x])"
    "is_policies (apply_intelligence_memory p i) = is_policies i"
    "is_retries (apply_adaptive_memory p i) = is_retries i"
    "is_retries (apply_intelligence_memory p i) = is_retries i"
    by (simp_all add: defs u split: option.split)
qed

lemma write_db_prepared:
  "write_db (p\<lparr>pl_spans := us, pl_health := h, pl_anomalies := an, pl_diagnostics := dg\<rparr>) e snap d = write_db p e snap d"
  by (simp add: write_db_def)

lemma write_snapshot_prepared:
  "write_snapshot (p\<lparr>pl_spans := us, pl_health := h, pl_anomalies := an, pl_diagnostics := dg\<rparr>) r = write_snapshot p r"
  by (simp add: write_snapshot_def split: option.split)

lemma same_ledger_parts:
  assumes "same_ledger s t"
  shows "sy_db t = sy_db s" "sy_intel t = sy_intel s" "rs_snaps (sy_replay t) = rs_snaps (sy_replay s)"
  using assms by (simp_all add: same_ledger_def)

text \<open>A log to which operations append at most their own key, once.\<close>

locale keyed_log =
  fixes log_keys :: "'s \<Rightarrow> 'k list"
    and put :: "'p \<Rightarrow> 's \<Rightarrow> 's"
    and key_of :: "'p \<Rightarrow> 'k"
  assumes put_keys: "log_keys (put p s) = log_keys s \<or>
      key_of p \<notin> set (log_keys s) \<and> log_keys (put p s) = log_keys s @ [key_of p]"
begin

lemma put_distinct: "distinct (log_keys s) \<Longrightarrow> distinct (log_keys (put p s))"
  using put_keys [of p s] by auto

lemma run_distinct: "distinct (log_keys s) \<Longrightarrow> distinct (log_keys (fold put ps s))"
  by (induction ps arbitrary: s) (auto intro: put_distinct)

lemma run_extends: "\<exists>ys. log_keys (fold put ps s) = log_keys s @ ys \<and> set ys \<subseteq> key_of ` set ps"
proof (induction ps arbitrary: s)
  case Nil
  then show ?case by simp
next
  case (Cons p ps)
  obtain ys where ys: "log_keys (fold put ps (put p s)) = log_keys (put p s) @ ys" "set ys \<subseteq> key_of ` set ps"
    using Cons.IH by blast
  from put_keys [of p s] show ?case
  proof
    assume "log_keys (put p s) = log_keys s"
    then show ?thesis using ys by auto
  next
    assume "key_of p \<notin> set (log_keys s) \<and> log_keys (put p s) = log_keys s @ [key_of p]"
    then show ?thesis using ys by (intro exI [of _ "key_of p # ys"]) auto
  qed
qed

end

definition outbox_keys :: "sys \<Rightarrow> string list" where
  "outbox_keys s = map ev_key (db_outbox (sy_db s))"

lemma persist_tx_error_db:
  assumes "persist_runtime_tx R p s = (Inl e, s')"
  shows "sy_db s' = sy_db s \<and> sy_intel s' = sy_intel s"
proof -
  have m: "sy_db t = sy_db s0 \<and> sy_intel t = sy_intel s0" if "merge_and_close R p s0 = (r, t)" for s0 r t
    using keepsD [OF merge_and_close_keeps same_ledger_refl that] by (simp add: same_ledger_def)
  have n: "\<exists>snap n. next_world R p w s0 = (Inr snap, s0\<lparr>sy_clock := n\<rparr>)" for w s0
    using next_world_run by metis
  obtain snap k where k: "next_world R p (db_world (sy_db s)) (s\<lparr>sy_uuid := Suc (sy_uuid s), sy_clock := Suc (sy_clock s)\<rparr>) =
      (Inr snap, s\<lparr>sy_uuid := Suc (sy_uuid s), sy_clock := k\<rparr>)"
    using n [of "db_world (sy_db s)" "s\<lparr>sy_uuid := Suc (sy_uuid s), sy_clock := Suc (sy_clock s)\<rparr>"] by auto
  have "merge_and_close R p (s\<lparr>sy_uuid := Suc (sy_uuid s), sy_clock := k\<rparr>) = (Inl e, s')"
    using assms k
    by (auto simp: persist_runtime_tx_def Let_def comp_simps bnd_Inr persist_intelligence_run apply_memory_run
        split: option.splits elim!: bnd_cases)
  from m [OF this] show ?thesis by simp
qed

lemma persist_tx_outbox:
  assumes "persist_runtime_tx R p s = (r, s')"
  shows "outbox_keys s' = outbox_keys s \<or>
    payload_key (re_env R) p \<notin> set (outbox_keys s) \<and> outbox_keys s' = outbox_keys s @ [payload_key (re_env R) p]"
proof (cases r)
  case (Inl e)
  then show ?thesis using persist_tx_error_db assms by (simp add: outbox_keys_def)
next
  case (Inr x)
  then obtain e ins where "persist_runtime_tx R p s = (Inr (e, ins), s')" using assms by (cases x) auto
  then show ?thesis
  proof (cases rule: persist_tx_cases)
    case (replayed p2 n m t)
    then show ?thesis by (simp add: outbox_keys_def same_ledger_parts)
  next
    case (inserted p2 n m t snap)
    then show ?thesis
      by (simp add: outbox_keys_def same_ledger_parts outbox_lookup_None outbox_event_of_def)
  qed
qed

interpretation tx: keyed_log outbox_keys "\<lambda>p s. snd (persist_runtime_tx R p s)" "payload_key (re_env R)" for R
  by unfold_locales (metis persist_tx_outbox prod.collapse)


section \<open>Properties\<close>

text \<open>C1: the transaction writes at most one outbox event, under the key of its payload, and writes it exactly when no
  event with the key exists: if it returns, the returned event has the key and is in the outbox; it is reported as
  inserted iff the key was new; an inserted event goes to the end of the outbox together with exactly the
  decision, side effect and transition of the payload (a new world version only when asked for), and
  a key that is already there leaves the tables and the replay snapshots as they were.\<close>

theorem persist_exactly_once:
  assumes "persist_runtime_tx R p s = (Inr (e, ins), s')"
  shows "ev_key e = payload_key (re_env R) p \<and> e \<in> set (db_outbox (sy_db s')) \<and>
    (ins \<longleftrightarrow> payload_key (re_env R) p \<notin> set (outbox_keys s)) \<and>
    (if ins
     then db_outbox (sy_db s') = db_outbox (sy_db s) @ [e] \<and> ev_payload e = pl_body p \<and> \<not> ev_processed e \<and>
       db_decisions (sy_db s') = db_decisions (sy_db s) @ (case pl_decision p of None \<Rightarrow> [] | Some r \<Rightarrow> [r]) \<and>
       db_effects (sy_db s') = db_effects (sy_db s) @ (case pl_effect p of None \<Rightarrow> [] | Some r \<Rightarrow> [r]) \<and>
       db_transitions (sy_db s') = db_transitions (sy_db s) @ (case pl_transition p of None \<Rightarrow> [] | Some r \<Rightarrow> [r]) \<and>
       ws_version (db_world (sy_db s')) = ws_version (db_world (sy_db s)) + (if pl_update_world p then 1 else 0) \<and>
       rs_snaps (sy_replay s') = rs_snaps (write_snapshot p (sy_replay s))
     else sy_db s' = sy_db s \<and> rs_snaps (sy_replay s') = rs_snaps (sy_replay s))"
  using assms
proof (cases rule: persist_tx_cases)
  case (replayed p2 n m t)
  then have "payload_key (re_env R) p \<in> ev_key ` set (db_outbox (sy_db s))"
    using outbox_lookup_Some by (metis imageI)
  then show ?thesis
    using replayed outbox_lookup_Some [OF replayed(2)] same_ledger_parts [OF replayed(4)]
    by (auto simp: outbox_keys_def)
next
  case (inserted p2 n m t snap)
  obtain us h an dg where p2: "p2 = p\<lparr>pl_spans := us, pl_health := h, pl_anomalies := an, pl_diagnostics := dg\<rparr>"
    using merge_and_close_payload [OF inserted(3)] by blast
  have snaps: "rs_snaps (write_snapshot p r) = rs_snaps (write_snapshot p r')" if "rs_snaps r = rs_snaps r'" for r r'
    using that by (simp add: write_snapshot_def save_replay_snapshot_memory_def split: option.split)
  show ?thesis
    using inserted same_ledger_parts [OF inserted(4)] snaps [of "sy_replay t" "sy_replay s"]
    by (auto simp: outbox_lookup_None outbox_keys_def outbox_event_of_def p2 write_db_prepared write_snapshot_prepared
        snap_ok_def split: if_splits)
qed

text \<open>C3: from an empty store no sequence of transactions, whatever their payloads and whichever of them fail, ever puts
  two events with one idempotency key into the outbox, and every key in it is the key of one of the payloads.\<close>

theorem outbox_never_duplicates:
  "let s' = fold (\<lambda>p s. snd (persist_runtime_tx R p s)) ps init_sys
   in distinct (map ev_key (db_outbox (sy_db s'))) \<and>
      set (map ev_key (db_outbox (sy_db s'))) \<subseteq> payload_key (re_env R) ` set ps"
proof -
  have "outbox_keys init_sys = []" by (simp add: outbox_keys_def init_sys_def reset_db_def)
  then show ?thesis
    using tx.run_distinct [of init_sys R ps] tx.run_extends [of R ps init_sys] by (auto simp: outbox_keys_def)
qed

text \<open>C4: repeating a transaction is idempotent on the ledger and not on the telemetry: the second run of the same payload
  returns the event of the first, inserts nothing and leaves every table and the replay snapshots alone, while the telemetry rows
  and the policy snapshot of the payload are appended to the intelligence store a second time.\<close>

theorem retry_is_idempotent_on_ledger:
  assumes "persist_runtime_tx R p s = (Inr (e, ins), s1)" and "persist_runtime_tx R p s1 = (Inr (e2, ins2), s2)"
  shows "e2 = e \<and> \<not> ins2 \<and> sy_db s2 = sy_db s1 \<and> rs_snaps (sy_replay s2) = rs_snaps (sy_replay s1) \<and>
    is_telemetry (sy_intel s2) = is_telemetry (sy_intel s1) @ pl_telemetry p \<and>
    is_policies (sy_intel s2) = is_policies (sy_intel s1) @ (case pl_policy p of None \<Rightarrow> [] | Some x \<Rightarrow> [x]) \<and>
    is_retries (sy_intel s2) = is_retries (sy_intel s1)"
proof -
  have look: "get_memory_outbox_by_idempotency (sy_db s1) (payload_key (re_env R) p) = Some e"
    using assms(1)
  proof (cases rule: persist_tx_cases)
    case (replayed p2 n m t)
    then show ?thesis by (simp add: same_ledger_parts)
  next
    case (inserted p2 n m t snap)
    then show ?thesis by (simp add: get_memory_outbox_by_idempotency_def outbox_event_of_def)
  qed
  from assms(2) show ?thesis
  proof (cases rule: persist_tx_cases)
    case (replayed p2 n m t)
    obtain us h an dg where p2: "p2 = p\<lparr>pl_spans := us, pl_health := h, pl_anomalies := an, pl_diagnostics := dg\<rparr>"
      using merge_and_close_payload [OF replayed(3)] by blast
    show ?thesis using replayed look by (simp add: same_ledger_parts p2)
  next
    case (inserted p2 n m t snap)
    then show ?thesis using look by simp
  qed
qed

text \<open>The payload that closes a deterministic session, without anything else to write.\<close>

definition plain_close :: "payload \<Rightarrow> bool" where
  "plain_close p \<longleftrightarrow> is_session_close p \<and> pl_decision p = None \<and> pl_effect p = None \<and> pl_snapshot p = None \<and> pl_transition p = None"


text \<open>What a frozen run reads.\<close>

lemma find_hd_filter: "List.find P xs = (case filter P xs of [] \<Rightarrow> None | x # _ \<Rightarrow> Some x)"
  by (induction xs) auto

lemma run_from_session_cong:
  assumes "get_replay_snapshots t sid = get_replay_snapshots s sid"
    and "get_replay_baseline_meta t sid = get_replay_baseline_meta s sid"
    and "\<And>ty. ty \<in> {''founder.intent'', ''decision.recorded''} \<Longrightarrow>
      filter (\<lambda>e. ev_type e = ty) (get_events_by_correlation (sy_db t) cid) =
      filter (\<lambda>e. ev_type e = ty) (get_events_by_correlation (sy_db s) cid)"
    and "db_transitions (sy_db t) = db_transitions (sy_db s)"
    and "db_decisions (sy_db t) = db_decisions (sy_db s)" and "db_effects (sy_db t) = db_effects (sy_db s)"
    and "sy_gov t = sy_gov s"
  shows "run_from_session sid cid t = run_from_session sid cid s"
proof -
  have ev: "intent_tool_of (get_events_by_correlation (sy_db t) cid) = intent_tool_of (get_events_by_correlation (sy_db s) cid)"
    "policy_snapshot_of (get_events_by_correlation (sy_db t) cid) = policy_snapshot_of (get_events_by_correlation (sy_db s) cid)"
    using assms(3) by (simp_all add: intent_tool_of_def policy_snapshot_of_def find_hd_filter)
  have b: "load_bundle sid cid t = load_bundle sid cid s"
    by (simp add: load_bundle_def assms(1,2,4) ev get_runtime_transitions_def Let_def)
  have f: "frozen_run x t = frozen_run x s" for x
    by (simp add: frozen_run_def get_decisions_by_correlation_def get_effects_by_correlation_def assms(5,6,7))
  show ?thesis by (simp add: run_from_session_def b f)
qed

lemma events_append_other:
  "ev_type e \<noteq> ty \<Longrightarrow> db_outbox d' = db_outbox d @ [e] \<Longrightarrow>
     filter (\<lambda>e. ev_type e = ty) (get_events_by_correlation d' cid) = filter (\<lambda>e. ev_type e = ty) (get_events_by_correlation d cid)"
  by (simp add: get_events_by_correlation_def filter_sort)

lemma merge_and_close_run:
  assumes "merge_and_close R p s = (Inr p2, t)" and "is_session_close p"
  shows "\<exists>oc. run_from_session (pl_session p) (pl_correlation p) s = Inr oc \<and>
     (\<exists>us h an dg. p2 = p\<lparr>pl_spans := us, pl_health := Some h, pl_anomalies := an, pl_diagnostics := dg\<rparr> \<and>
       rh_session h = pl_session p \<and> rh_correlation h = pl_correlation p \<and>
       rh_replay_confidence h = round4 (replay_confidence_from_baseline (outcome_fingerprint (re_env R) oc) (get_replay_baseline s (pl_session p)))) \<and>
     (\<exists>n c. t = s\<lparr>sy_spans := c, sy_clock := n, sy_replay := save_baseline_record_memory (pl_session p) (pl_correlation p)
       (outcome_fingerprint (re_env R) oc) ORCHESTRATOR_VERSION (sy_replay s)\<rparr>)"
proof -
  obtain us c where "complete_session_close R (p\<lparr>pl_spans := us\<rparr>) (s\<lparr>sy_spans := c\<rparr>) = (Inr p2, t)"
    using assms by (simp add: merge_and_close_def bnd_Inr [OF merge_run])
  from close_run [OF this] obtain oc where "run_from_session (pl_session p) (pl_correlation p) (s\<lparr>sy_spans := c\<rparr>) = Inr oc"
    "\<exists>h an dg. p2 = p\<lparr>pl_spans := us, pl_health := Some h, pl_anomalies := an, pl_diagnostics := dg\<rparr> \<and>
       rh_session h = pl_session p \<and> rh_correlation h = pl_correlation p \<and>
       rh_replay_confidence h = round4 (replay_confidence_from_baseline (outcome_fingerprint (re_env R) oc) (get_replay_baseline (s\<lparr>sy_spans := c\<rparr>) (pl_session p)))"
    "t = s\<lparr>sy_spans := c, sy_clock := sy_clock s + 2, sy_replay := save_baseline_record_memory (pl_session p) (pl_correlation p)
       (outcome_fingerprint (re_env R) oc) ORCHESTRATOR_VERSION (sy_replay s)\<rparr>"
    by (auto simp del: One_nat_def)
  moreover have "run_from_session sid cid (s\<lparr>sy_spans := c\<rparr>) = run_from_session sid cid s" for sid cid
    by (rule run_from_session_cong) (simp_all add: get_replay_snapshots_def get_replay_baseline_meta_def)
  ultimately show ?thesis by (auto simp: get_replay_baseline_def)
qed

lemma health_after:
  "pl_health p = Some h \<Longrightarrow> filter (\<lambda>x. rh_session x = rh_session h \<and> rh_correlation x = rh_correlation h)
     (is_health (apply_adaptive_memory p (apply_intelligence_memory p i))) = [h]"
proof -
  have u: "is_health (fold upsert_tool_profile ps i) = is_health i" for ps i
    by (induction ps arbitrary: i) (simp_all add: upsert_tool_profile_def)
  have frames: "is_health (when_any x1 append_governance_events i) = is_health i"
    "is_health (when_any x2 append_stability_events i) = is_health i"
    "is_health (when_any x3 (append_context_priority_snapshot sid cid) i) = is_health i"
    "is_health (when_some x4 append_adaptive_policy i) = is_health i"
    "is_health (when_some x5 save_session_diagnostics i) = is_health i"
    "is_health (when_any x6 append_anomalies i) = is_health i"
    "is_health (when_any x7 append_lineage i) = is_health i"
    for i :: intel_store and x1 x2 x3 x4 x5 x6 x7 sid cid
    by (simp_all add: when_any_def when_some_def append_governance_events_def append_stability_events_def
        append_context_priority_snapshot_def append_adaptive_policy_def save_session_diagnostics_def append_anomalies_def
        append_lineage_def split: option.split)
  show "pl_health p = Some h \<Longrightarrow> ?thesis"
    unfolding apply_adaptive_memory_def apply_intelligence_memory_def frames u
    by (simp add: when_some_def replace_health_def filter_empty_conv)
qed

lemma round4_confidence: "round4 (replay_confidence_from_baseline fp b) = (if b = None \<or> b = Some fp then 1 else 0)"
  by (auto simp: replay_confidence_from_baseline_def round4_def split: option.split)

lemma close_tx:
  assumes "plain_close p" and "persist_runtime_tx R p s = (Inr (e, ins), s')"
  obtains oc h p2 i where "run_from_session (pl_session p) (pl_correlation p) s = Inr oc"
    and "sy_replay s' = save_baseline_record_memory (pl_session p) (pl_correlation p) (outcome_fingerprint (re_env R) oc) ORCHESTRATOR_VERSION (sy_replay s)"
    and "sy_gov s' = sy_gov s" and "sy_intel s' = apply_adaptive_memory p2 (apply_intelligence_memory p2 i)"
    and "pl_health p2 = Some h" and "rh_session h = pl_session p" and "rh_correlation h = pl_correlation p"
    and "rh_replay_confidence h = round4 (replay_confidence_from_baseline (outcome_fingerprint (re_env R) oc) (get_replay_baseline s (pl_session p)))"
    and "sy_db s' = sy_db s \<or> (\<exists>snap ev. sy_db s' = write_db p ev snap (sy_db s) \<and> ev_type ev = ''session.completed'')"
proof -
  have pc: "is_session_close p" "pl_snapshot p = None" "pl_type p = ''session.completed''"
    using assms(1) by (simp_all add: plain_close_def is_session_close_def)
  have run: "run_from_session sid cid (s\<lparr>sy_uuid := n, sy_clock := m\<rparr>) = run_from_session sid cid s" for sid cid n m
    by (rule run_from_session_cong) (simp_all add: get_replay_snapshots_def get_replay_baseline_meta_def)
  have base: "get_replay_baseline (s\<lparr>sy_uuid := n, sy_clock := m\<rparr>) sid = get_replay_baseline s sid" for n m sid
    by (simp add: get_replay_baseline_def)
  from assms(2) show thesis
  proof (cases rule: persist_tx_cases)
    case (replayed p2 n m t)
    from merge_and_close_run [OF replayed(3) pc(1)] obtain oc us h an dg k c where
      "run_from_session (pl_session p) (pl_correlation p) s = Inr oc"
      "p2 = p\<lparr>pl_spans := us, pl_health := Some h, pl_anomalies := an, pl_diagnostics := dg\<rparr>"
      "rh_session h = pl_session p" "rh_correlation h = pl_correlation p"
      "rh_replay_confidence h = round4 (replay_confidence_from_baseline (outcome_fingerprint (re_env R) oc) (get_replay_baseline s (pl_session p)))"
      "t = s\<lparr>sy_uuid := n, sy_clock := m, sy_spans := c, sy_clock := k, sy_replay := save_baseline_record_memory (pl_session p) (pl_correlation p)
         (outcome_fingerprint (re_env R) oc) ORCHESTRATOR_VERSION (sy_replay s)\<rparr>"
      unfolding run base by auto
    then show thesis using replayed by (intro that [of oc p2 "sy_intel t" h]) simp_all
  next
    case (inserted p2 n m t snap)
    from merge_and_close_run [OF inserted(3) pc(1)] obtain oc us h an dg k c where
      o: "run_from_session (pl_session p) (pl_correlation p) s = Inr oc"
      "p2 = p\<lparr>pl_spans := us, pl_health := Some h, pl_anomalies := an, pl_diagnostics := dg\<rparr>"
      "rh_session h = pl_session p" "rh_correlation h = pl_correlation p"
      "rh_replay_confidence h = round4 (replay_confidence_from_baseline (outcome_fingerprint (re_env R) oc) (get_replay_baseline s (pl_session p)))"
      "t = s\<lparr>sy_uuid := n, sy_clock := m, sy_spans := c, sy_clock := k, sy_replay := save_baseline_record_memory (pl_session p) (pl_correlation p)
         (outcome_fingerprint (re_env R) oc) ORCHESTRATOR_VERSION (sy_replay s)\<rparr>"
      unfolding run base by auto
    have ws: "write_snapshot p2 r = r" for r unfolding o(2) write_snapshot_prepared by (simp add: write_snapshot_def pc)
    have db: "sy_db s' = write_db p e snap (sy_db s) \<and> ev_type e = ''session.completed''"
      using inserted o(6) pc by (simp_all add: o(2) write_db_prepared outbox_event_of_def)
    show thesis
    proof (rule that [of oc p2 "when_some (pl_retry p2) append_retry_trace (sy_intel t)" h])
      show "sy_db s' = sy_db s \<or> (\<exists>snap ev. sy_db s' = write_db p ev snap (sy_db s) \<and> ev_type ev = ''session.completed'')"
        using db by blast
    qed (use inserted(7) o ws in simp_all)
  qed
qed

lemma close_validates:
  assumes "plain_close p" and "persist_runtime_tx R p s = (Inr r, s')"
  shows "\<exists>oc fp h. run_from_session (pl_session p) (pl_correlation p) s = Inr oc \<and>
    run_from_session (pl_session p) (pl_correlation p) s' = Inr oc \<and> fp = outcome_fingerprint (re_env R) oc \<and>
    get_replay_baseline s' (pl_session p) = Some fp \<and>
    validate_frozen_replay (re_env R) (pl_session p) (pl_correlation p) s' = Inr (True, fp, Some fp) \<and>
    filter (\<lambda>x. rh_session x = pl_session p \<and> rh_correlation x = pl_correlation p) (is_health (sy_intel s')) = [h] \<and>
    rh_replay_confidence h = (if get_replay_baseline s (pl_session p) \<in> {None, Some fp} then 1 else 0)"
proof -
  let ?sid = "pl_session p" and ?cid = "pl_correlation p"
  obtain e ins where r: "persist_runtime_tx R p s = (Inr (e, ins), s')" using assms(2) by (cases r) auto
  have pc: "is_session_close p" "pl_decision p = None" "pl_effect p = None" "pl_snapshot p = None" "pl_transition p = None"
    "pl_type p = ''session.completed''"
    using assms(1) by (simp_all add: plain_close_def is_session_close_def)
  from close_tx [OF assms(1) r] obtain oc h p2 i where c:
    "run_from_session ?sid ?cid s = Inr oc"
    "sy_replay s' = save_baseline_record_memory ?sid ?cid (outcome_fingerprint (re_env R) oc) ORCHESTRATOR_VERSION (sy_replay s)"
    "sy_gov s' = sy_gov s" "sy_intel s' = apply_adaptive_memory p2 (apply_intelligence_memory p2 i)"
    "pl_health p2 = Some h" "rh_session h = ?sid" "rh_correlation h = ?cid"
    "rh_replay_confidence h = round4 (replay_confidence_from_baseline (outcome_fingerprint (re_env R) oc) (get_replay_baseline s ?sid))"
    "sy_db s' = sy_db s \<or> (\<exists>snap ev. sy_db s' = write_db p ev snap (sy_db s) \<and> ev_type ev = ''session.completed'')" .
  let ?fp = "outcome_fingerprint (re_env R) oc"
  let ?s1 = "s\<lparr>sy_replay := save_baseline_record_memory ?sid ?cid ?fp ORCHESTRATOR_VERSION (sy_replay s)\<rparr>"
  have "run_from_session ?sid ?cid s' = run_from_session ?sid ?cid ?s1"
  proof (rule run_from_session_cong)
    show "filter (\<lambda>e. ev_type e = ty) (get_events_by_correlation (sy_db s') ?cid) =
        filter (\<lambda>e. ev_type e = ty) (get_events_by_correlation (sy_db ?s1) ?cid)"
      if "ty \<in> {''founder.intent'', ''decision.recorded''}" for ty
      using c(9)
    proof
      assume "\<exists>snap ev. sy_db s' = write_db p ev snap (sy_db s) \<and> ev_type ev = ''session.completed''"
      then obtain snap ev where w: "sy_db s' = write_db p ev snap (sy_db s)" "ev_type ev = ''session.completed''" by blast
      have "ev_type ev \<noteq> ty" using that w(2) by auto
      then show ?thesis using w(1) by (intro events_append_other [of ev]) simp_all
    qed simp
  qed (use c pc in \<open>auto simp: get_replay_snapshots_def get_replay_baseline_meta_def\<close>)
  also have "\<dots> = Inr oc" by (rule run_after_baseline [OF c(1)])
  finally have run: "run_from_session ?sid ?cid s' = Inr oc" .
  have base: "get_replay_baseline s' ?sid = Some ?fp" and meta: "get_replay_baseline_meta s' ?sid =
      Some \<lparr>bm_correlation = ?cid, bm_fingerprint = ?fp, bm_version = ORCHESTRATOR_VERSION\<rparr>"
    by (simp_all add: c(2) get_replay_baseline_def get_baseline_fingerprint_memory_def save_baseline_record_memory_def
        get_replay_baseline_meta_def get_baseline_record_memory_def)
  have valid: "validate_frozen_replay (re_env R) ?sid ?cid s' = Inr (True, ?fp, Some ?fp)"
    by (simp add: validate_frozen_replay_def base meta run)
  have health: "filter (\<lambda>x. rh_session x = ?sid \<and> rh_correlation x = ?cid) (is_health (sy_intel s')) = [h]"
    using health_after [OF c(5), of i] by (simp add: c(4,6,7))
  show ?thesis
    by (rule exI [of _ oc], rule exI [of _ ?fp], rule exI [of _ h])
      (simp add: c(1) run base valid health c(8) round4_confidence)
qed

text \<open>C2: closing a session leaves it replayable: if the transaction of a \<open>session.completed\<close> payload that only asks for a
  baseline returns, then the frozen run of the session succeeds before and after it with the same outcome, the fingerprint of its outcome is the stored baseline,
  and validating the session in the state after the transaction answers true with exactly that fingerprint;
  the session and correlation have exactly one health row, whose replay confidence is 1 when
  there was no baseline or the same one before and 0 when there was another.\<close>

theorem close_leaves_valid_baseline:
  assumes "plain_close p" and "persist_runtime_tx R p s = (Inr r, s')"
  shows "\<exists>oc fp h. run_from_session (pl_session p) (pl_correlation p) s = Inr oc \<and>
    run_from_session (pl_session p) (pl_correlation p) s' = Inr oc \<and> fp = outcome_fingerprint (re_env R) oc \<and>
    get_replay_baseline s' (pl_session p) = Some fp \<and>
    validate_frozen_replay (re_env R) (pl_session p) (pl_correlation p) s' = Inr (True, fp, Some fp) \<and>
    filter (\<lambda>x. rh_session x = pl_session p \<and> rh_correlation x = pl_correlation p) (is_health (sy_intel s')) = [h] \<and>
    rh_replay_confidence h = (if get_replay_baseline s (pl_session p) \<in> {None, Some fp} then 1 else 0)"
  by (rule close_validates [OF assms])


definition demo_payload :: payload where
  "demo_payload = (new_payload ''c'' ''s'' ''founder.intent'' (pdict [(''message'', PStr ''hello'')]))\<lparr>pl_business := Some ''founder.intent''\<rparr>"

definition demo_close :: payload where
  "demo_close = (new_payload ''c'' ''s'' ''session.completed'' (PDict []))\<lparr>pl_baseline := True\<rparr>"

lemma demo_persist: obtains e s' where "persist_runtime_tx demo_env demo_payload init_sys = (Inr (e, True), s')"
proof -
  have "\<not> is_session_close demo_payload" by (simp add: demo_payload_def new_payload_def is_session_close_def)
  from persist_tx_total [OF this] obtain e ins s' where r: "persist_runtime_tx demo_env demo_payload init_sys = (Inr (e, ins), s')"
    by blast
  from r have "ins"
    by (cases rule: persist_tx_cases)
      (simp_all add: init_sys_def reset_db_def get_memory_outbox_by_idempotency_def)
  then show thesis using r that by simp
qed

theorem persist_exactly_once_witness:
  "\<exists>e s'. persist_runtime_tx demo_env demo_payload init_sys = (Inr (e, True), s') \<and>
     db_outbox (sy_db s') = [e] \<and> ev_payload e = pdict [(''message'', PStr ''hello'')]"
proof -
  obtain e s' where r: "persist_runtime_tx demo_env demo_payload init_sys = (Inr (e, True), s')" by (rule demo_persist)
  then show ?thesis
    using persist_exactly_once [OF r] by (simp add: init_sys_def reset_db_def demo_payload_def new_payload_def)
qed

theorem retry_is_idempotent_on_ledger_witness:
  "\<exists>e s1 s2. persist_runtime_tx demo_env demo_payload init_sys = (Inr (e, True), s1) \<and>
     persist_runtime_tx demo_env demo_payload s1 = (Inr (e, False), s2) \<and> sy_db s2 = sy_db s1"
proof -
  obtain e s1 where r: "persist_runtime_tx demo_env demo_payload init_sys = (Inr (e, True), s1)" by (rule demo_persist)
  have "\<not> is_session_close demo_payload" by (simp add: demo_payload_def new_payload_def is_session_close_def)
  from persist_tx_total [OF this] obtain e2 i s2 where r2: "persist_runtime_tx demo_env demo_payload s1 = (Inr (e2, i), s2)"
    by blast
  show ?thesis using retry_is_idempotent_on_ledger [OF r r2] r r2 by auto
qed

theorem close_leaves_valid_baseline_witness:
  "\<exists>r s' fp. persist_runtime_tx demo_env demo_close replay_demo = (Inr r, s') \<and>
     validate_frozen_replay (re_env demo_env) ''s'' ''c'' s' = Inr (True, fp, Some fp)"
proof -
  have pc: "plain_close demo_close" by (simp add: plain_close_def is_session_close_def demo_close_def new_payload_def)
  have sc: "pl_session demo_close = ''s''" "pl_correlation demo_close = ''c''" by (simp_all add: demo_close_def new_payload_def)
  have "\<exists>oc. run_from_session ''s'' ''c'' t = Inr oc" if t: "same_ledger replay_demo t" "sy_replay t = sy_replay replay_demo" for t
  proof -
    have "run_from_session ''s'' ''c'' t = run_from_session ''s'' ''c'' replay_demo"
      by (rule run_from_session_cong)
        (use t in \<open>simp_all add: same_ledger_def get_replay_snapshots_def get_replay_baseline_meta_def\<close>)
    then show ?thesis by (simp add: replay_demo_run)
  qed
  then obtain e ins s' where r: "persist_runtime_tx demo_env demo_close replay_demo = (Inr (e, ins), s')"
    using persist_tx_returns [of demo_env demo_close replay_demo] by (auto simp: sc)
  show ?thesis using close_leaves_valid_baseline [OF pc r] r unfolding sc by blast
qed

end
