(* ===== verification/Session.thy ===== *)
theory Session
  imports System
begin

text \<open>
  \<open>core/runtime_session.py\<close>, in-memory branch (the Postgres branch is in theory Postgres): the session lock around every mutating request, the
  interleaving of requests at the entry and the exit of the lock, and the interface of a lock table.
\<close>

section \<open>The lock table\<close>

text \<open>\<open>_memory_session_locks\<close> is a set of session ids.\<close>

definition lock_enter :: "string \<Rightarrow> string list \<Rightarrow> string list option" where
  "lock_enter sid ls = (if sid \<in> set ls then None else Some (sid # ls))"

definition lock_leave :: "string \<Rightarrow> string list \<Rightarrow> string list" where
  "lock_leave sid ls = filter (\<lambda>x. x \<noteq> sid) ls"

definition acquire_session_lock :: "string \<Rightarrow> unit rt" where
  "acquire_session_lock sid = bnd (reads (\<lambda>s. lock_enter sid (sy_locks s))) (\<lambda>r. case r of
     None \<Rightarrow> raise (SessionLockError sid) | Some ls \<Rightarrow> mods (\<lambda>s. s\<lparr>sy_locks := ls\<rparr>))"

definition release_memory_session_lock :: "string \<Rightarrow> unit rt" where
  "release_memory_session_lock sid = mods (\<lambda>s. s\<lparr>sy_locks := lock_leave sid (sy_locks s)\<rparr>)"

definition reset_memory_session_locks :: "unit rt" where
  "reset_memory_session_locks = mods (\<lambda>s. s\<lparr>sy_locks := []\<rparr>)"

text \<open>\<open>async with mutative_session(sid)\<close> around a body: the lock is taken or the request refused, and the
  \<open>finally\<close> clause discards it on every way out of the body.\<close>

definition mutative_session :: "string \<Rightarrow> 'a rt \<Rightarrow> 'a rt" where
  "mutative_session sid body = seqc (acquire_session_lock sid)
     (finally_do body (\<lambda>s. s\<lparr>sy_locks := lock_leave sid (sy_locks s)\<rparr>))"

definition run_mutative_session :: "string \<Rightarrow> 'a rt \<Rightarrow> 'a rt" where
  "run_mutative_session sid fn = mutative_session sid fn"

section \<open>The interface of a lock table\<close>

locale lock_table =
  fixes enter :: "'k \<Rightarrow> 'l \<Rightarrow> 'l option"
    and leave :: "'k \<Rightarrow> 'l \<Rightarrow> 'l"
    and held :: "'l \<Rightarrow> 'k set"
  assumes enter_None: "enter k l = None \<longleftrightarrow> k \<in> held l"
    and enter_Some: "enter k l = Some l' \<Longrightarrow> held l' = insert k (held l)"
    and held_leave: "held (leave k l) = held l - {k}"
begin

lemma enter_leave: "enter k l = Some l' \<Longrightarrow> held (leave k l') = held l"
  using enter_None [of k l] by (auto simp: enter_Some held_leave)

lemma enter_twice: "enter k l = Some l' \<Longrightarrow> enter k l' = None"
  by (simp add: enter_None enter_Some)

lemma enter_other: "enter k l = Some l' \<Longrightarrow> k' \<noteq> k \<Longrightarrow> enter k' l' = None \<longleftrightarrow> enter k' l = None"
  by (simp add: enter_None enter_Some)

text \<open>An assignment of lock keys to the requests that are inside agrees with the table, and two requests with one key are never both inside.\<close>

definition consistent :: "('r \<Rightarrow> 'k) \<Rightarrow> 'r set \<Rightarrow> 'l \<Rightarrow> bool" where
  "consistent key ins l \<longleftrightarrow> held l = key ` ins \<and> inj_on key ins"

lemma consistent_enter:
  "consistent key ins l \<Longrightarrow> enter (key r) l = Some l' \<Longrightarrow> consistent key (insert r ins) l'"
  using enter_None [of "key r" l] by (auto simp: consistent_def enter_Some)

lemma consistent_leave:
  assumes "consistent key ins l" and "r \<in> ins"
  shows "consistent key (ins - {r}) (leave (key r) l)"
proof -
  have "key ` (ins - {r}) = key ` ins - {key r}"
    using assms by (auto simp: consistent_def inj_on_def)
  then show ?thesis using assms by (auto simp: consistent_def held_leave inj_on_def)
qed

end

interpretation locks: lock_table lock_enter lock_leave set
  by unfold_locales (auto simp: lock_enter_def lock_leave_def split: if_splits)

section \<open>Interleaved requests\<close>

text \<open>
  Requests are numbered and each names a session.  Between two awaits a coroutine runs alone,
  so that a request enters (or is refused) in one step and leaves in one step, and any other
  request may move in between.
\<close>

datatype phase = Waiting | Inside | Refused | Finished

record lock_state =
  lk_table :: "string list"
  lk_phase :: "nat \<Rightarrow> phase"

definition lock_init :: lock_state where
  "lock_init = \<lparr>lk_table = [], lk_phase = (\<lambda>_. Waiting)\<rparr>"

inductive lock_step :: "(nat \<Rightarrow> string) \<Rightarrow> lock_state \<Rightarrow> lock_state \<Rightarrow> bool" for sid where
  enter: "lk_phase st r = Waiting \<Longrightarrow> lock_enter (sid r) (lk_table st) = Some ls \<Longrightarrow>
     lock_step sid st \<lparr>lk_table = ls, lk_phase = (lk_phase st)(r := Inside)\<rparr>"
| refuse: "lk_phase st r = Waiting \<Longrightarrow> lock_enter (sid r) (lk_table st) = None \<Longrightarrow>
     lock_step sid st (st\<lparr>lk_phase := (lk_phase st)(r := Refused)\<rparr>)"
| leave: "lk_phase st r = Inside \<Longrightarrow>
     lock_step sid st \<lparr>lk_table = lock_leave (sid r) (lk_table st), lk_phase = (lk_phase st)(r := Finished)\<rparr>"

inductive lock_reachable :: "(nat \<Rightarrow> string) \<Rightarrow> lock_state \<Rightarrow> bool" for sid where
  init: "lock_reachable sid lock_init"
| step: "lock_reachable sid st \<Longrightarrow> lock_step sid st st' \<Longrightarrow> lock_reachable sid st'"

inductive_cases lock_stepE: "lock_step sid st st'"

definition inside :: "lock_state \<Rightarrow> nat set" where
  "inside st = {r. lk_phase st r = Inside}"

lemma inside_upd [simp]:
  "inside \<lparr>lk_table = ls, lk_phase = f(r := Inside)\<rparr> = insert r {x. f x = Inside}"
  "p \<noteq> Inside \<Longrightarrow> inside \<lparr>lk_table = ls, lk_phase = f(r := p)\<rparr> = {x. f x = Inside} - {r}"
  "inside (st\<lparr>lk_phase := (lk_phase st)(r := Refused)\<rparr>) = inside st - {r}"
  by (auto simp: inside_def)

lemma lock_inv: "lock_reachable sid st \<Longrightarrow> locks.consistent sid (inside st) (lk_table st)"
proof (induction rule: lock_reachable.induct)
  case init
  then show ?case by (simp add: locks.consistent_def lock_init_def inside_def)
next
  case (step st st')
  from step.hyps(2) show ?case
  proof (cases rule: lock_step.cases)
    case (enter r ls)
    then show ?thesis
      using locks.consistent_enter [OF step.IH enter(3)] by (simp add: inside_def [symmetric])
  next
    case (refuse r)
    then have "inside st - {r} = inside st" by (auto simp: inside_def)
    then show ?thesis using step.IH refuse by simp
  next
    case (leave r)
    then have "r \<in> inside st" by (simp add: inside_def)
    then show ?thesis
      using locks.consistent_leave [OF step.IH] leave by (simp add: inside_def [symmetric])
  qed
qed

section \<open>Runs under the lock\<close>

lemma run_locked: "sid \<in> set (sy_locks s) \<Longrightarrow> run_mutative_session sid m s = (Inl (SessionLockError sid), s)"
  by (simp add: run_mutative_session_def mutative_session_def acquire_session_lock_def lock_enter_def comp_simps)

lemma run_free:
  assumes "sid \<notin> set (sy_locks s)"
  shows "run_mutative_session sid m s = (case m (s\<lparr>sy_locks := sid # sy_locks s\<rparr>) of
     (r, t) \<Rightarrow> (r, t\<lparr>sy_locks := lock_leave sid (sy_locks t)\<rparr>))"
  using assms
  by (simp add: run_mutative_session_def mutative_session_def acquire_session_lock_def lock_enter_def seqc_def
      comp_simps finally_do_def bnd_def)

text \<open>C18: a session never has two requests inside its lock: in every state that interleaved requests can reach, two
  requests for one session that are both inside are the same request, the lock table holds exactly the sessions of the requests inside, and
  so a request is refused exactly when another one for its session is inside.\<close>

theorem session_mutual_exclusion:
  assumes "lock_reachable sid st"
  shows "(\<forall>a b. lk_phase st a = Inside \<longrightarrow> lk_phase st b = Inside \<longrightarrow> sid a = sid b \<longrightarrow> a = b) \<and>
    set (lk_table st) = sid ` {r. lk_phase st r = Inside} \<and>
    (lock_enter (sid c) (lk_table st) = None \<longleftrightarrow> (\<exists>r. lk_phase st r = Inside \<and> sid r = sid c))"
proof -
  have c: "set (lk_table st) = sid ` {r. lk_phase st r = Inside}" "inj_on sid {r. lk_phase st r = Inside}"
    using lock_inv [OF assms] by (simp_all add: locks.consistent_def inside_def)
  have "lock_enter (sid c) (lk_table st) = None \<longleftrightarrow> (\<exists>r. lk_phase st r = Inside \<and> sid r = sid c)"
    unfolding locks.enter_None c(1) by (auto simp: image_iff)
  then show ?thesis using c by (auto simp: inj_on_def)
qed

theorem session_mutual_exclusion_witness:
  "lock_enter ''s'' (lk_table \<lparr>lk_table = [''s''], lk_phase = (\<lambda>_. Waiting)(0 := Inside)\<rparr>) = None \<and>
   lk_phase \<lparr>lk_table = [''s''], lk_phase = (\<lambda>_. Waiting)(0 := Inside)\<rparr> 1 = Waiting"
proof -
  have "lock_step (\<lambda>_. ''s'') lock_init \<lparr>lk_table = [''s''], lk_phase = (lk_phase lock_init)(0 := Inside)\<rparr>"
    by (rule lock_step.enter) (simp_all add: lock_init_def lock_enter_def)
  then have "lock_reachable (\<lambda>_. ''s'') \<lparr>lk_table = [''s''], lk_phase = (\<lambda>_. Waiting)(0 := Inside)\<rparr>"
    using lock_reachable.step [OF lock_reachable.init] by (simp add: lock_init_def)
  then have "lock_enter ''s'' (lk_table \<lparr>lk_table = [''s''], lk_phase = (\<lambda>_. Waiting)(0 := Inside)\<rparr>) = None \<longleftrightarrow>
      (\<exists>r. lk_phase \<lparr>lk_table = [''s''], lk_phase = (\<lambda>_. Waiting)(0 := Inside)\<rparr> r = Inside \<and> ''s'' = ''s'')"
    by (rule session_mutual_exclusion [THEN conjunct2, THEN conjunct2])
  moreover have "lk_phase \<lparr>lk_table = [''s''], lk_phase = (\<lambda>_. Waiting)(0 := Inside)\<rparr> 0 = Inside" by simp
  ultimately show ?thesis by (simp only: simp_thms) auto
qed

text \<open>C28: a session's lock cannot leak: a request whose session is locked is refused and changes nothing; any other request, whatever its
  body does, runs the body with the lock held, has the body's result, returned or raised, and leaves the session unlocked and every other
  lock as the body left it; so if the body leaves the lock table alone, the table is afterwards what it was before.\<close>

theorem session_lock_never_leaks:
  assumes "run_mutative_session sid m s = (r, t)"
  shows "if sid \<in> set (sy_locks s) then r = Inl (SessionLockError sid) \<and> t = s
    else (case m (s\<lparr>sy_locks := sid # sy_locks s\<rparr>) of (r', t') \<Rightarrow>
      r = r' \<and> sid \<notin> set (sy_locks t) \<and> (\<forall>k. k \<noteq> sid \<longrightarrow> k \<in> set (sy_locks t) \<longleftrightarrow> k \<in> set (sy_locks t')) \<and>
      t = t'\<lparr>sy_locks := sy_locks t\<rparr> \<and> (sy_locks t' = sid # sy_locks s \<longrightarrow> sy_locks t = sy_locks s))"
proof (cases "sid \<in> set (sy_locks s)")
  case True
  then show ?thesis using run_locked [OF True, of m] assms by simp
next
  case False
  obtain r' t' where m: "m (s\<lparr>sy_locks := sid # sy_locks s\<rparr>) = (r', t')" by fastforce
  have f: "filter (\<lambda>x. x \<noteq> sid) (sy_locks s) = sy_locks s" using False by (auto intro: filter_True)
  have "r = r'" "t = t'\<lparr>sy_locks := lock_leave sid (sy_locks t')\<rparr>" using run_free [OF False, of m] assms m by auto
  then show ?thesis using False f m by (auto simp: lock_leave_def)
qed

theorem session_lock_never_leaks_witness:
  "sy_locks (snd (run_mutative_session ''s'' (raise (ValueError ''x'') :: unit rt) init_sys)) = [] \<and>
   fst (run_mutative_session ''s'' (raise (ValueError ''x'') :: unit rt) init_sys) = Inl (ValueError ''x'')"
proof -
  from session_lock_never_leaks [OF prod.collapse [symmetric], where sid = "''s''" and m = "raise (ValueError ''x'') :: unit rt" and s = init_sys]
  show ?thesis by (simp add: init_sys_def raise_def)
qed

end
