(* ===== verification/Orchestrator.thy ===== *)
theory Orchestrator
  imports AgentRunner Transaction Session
begin

text \<open>
  \<open>core/orchestrator.py\<close>: a founder request from its intent to the close of its session.  The state machine of
  the request is a local object of the code and is threaded explicitly; where a call raises, the machine
  is dropped, since nothing reads it after an error.  Every reading of the clock is an arbitrary time.
\<close>

section \<open>Helpers\<close>

fun crisis_value :: "crisis_type \<Rightarrow> string" where
  "crisis_value INFRASTRUCTURE = ''infrastructure''" | "crisis_value FINANCIAL = ''financial''"
| "crisis_value SECURITY = ''security''" | "crisis_value CUSTOMER = ''customer''"
| "crisis_value COMPLIANCE = ''compliance''"

fun layer_enum_name :: "context_layer \<Rightarrow> string" where
  "layer_enum_name L1_ACTIVE_TASK = ''ContextLayer.L1_ACTIVE_TASK''"
| "layer_enum_name L2_WORLD_STATE = ''ContextLayer.L2_WORLD_STATE''"
| "layer_enum_name L3_RECENT_DECISIONS = ''ContextLayer.L3_RECENT_DECISIONS''"
| "layer_enum_name L4_LONG_TERM = ''ContextLayer.L4_LONG_TERM''"
| "layer_enum_name L5_ARCHIVED = ''ContextLayer.L5_ARCHIVED''"

definition text_field :: "response \<Rightarrow> string \<Rightarrow> string" where
  "text_field r k = (case dict_get (rp_fields r) k of Some (PStr s) \<Rightarrow> s | _ \<Rightarrow> '''')"

definition texts_field :: "response \<Rightarrow> string \<Rightarrow> string list" where
  "texts_field r k = (case dict_get (rp_fields r) k of Some (PList xs) \<Rightarrow> List.map_filter as_str xs | _ \<Rightarrow> [])"

definition fingerprint_dump :: "fingerprint \<Rightarrow> pyval" where
  "fingerprint_dump f = pdict [(''context_hash'', PStr (fp_context_hash f)), (''retrieval_sources'', pstrs (fp_sources f)),
     (''retrieval_scores'', pdict (map (\<lambda>(k, v). (k, PFloat v)) (fp_scores f))), (''token_utilization'', PFloat (fp_utilization f)),
     (''compression_ratio'', PFloat (fp_compression f)), (''context_age_seconds'', PInt (fp_age f)),
     (''provenance_chain'', pstrs (fp_chain f)), (''compression_strategy'', popt (fp_strategy f))]"

definition opt_fingerprint_dump :: "fingerprint option \<Rightarrow> pyval" where
  "opt_fingerprint_dump f = (case f of None \<Rightarrow> PDict [] | Some x \<Rightarrow> fingerprint_dump x)"

text \<open>\<open>decision.model_dump(mode="json")\<close>\<close>

definition decision_json :: "rt_env \<Rightarrow> decision_record \<Rightarrow> pyval" where
  "decision_json R d = pdict [(''id'', PStr (dr_id d)), (''correlation_id'', PStr (dr_correlation d)), (''causation_id'', popt (dr_causation d)),
     (''objective'', PStr (dr_objective d)), (''context_used'', pstrs (dr_context_used d)), (''policies_applied'', pstrs (dr_policies d)),
     (''tools_used'', pstrs (dr_tools d)), (''reasoning_summary'', PStr (dr_summary d)),
     (''confidence'', pdict [(''score'', PFloat (cf_score (dr_confidence d))),
        (''factors'', pdict (map (\<lambda>(k, v). (k, PFloat v)) (cf_factors (dr_confidence d))))]),
     (''final_action'', PStr (dr_final_action d)), (''outcome'', popt (dr_outcome d)), (''agent'', PStr (dr_agent d)),
     (''runtime_state'', PStr (state_value (dr_state d))), (''created_at'', PStr (re_dt_json R (Aware (dr_created d))))]"

section \<open>State of the agents, the crisis, the bias\<close>

definition agent_degraded :: "string \<Rightarrow> bool rt" where
  "agent_degraded aid s = (case registry_is_degraded aid (sy_health s) of (b, r) \<Rightarrow> (Inr b, s\<lparr>sy_health := r\<rparr>))"

definition record_run :: "rt_env \<Rightarrow> string \<Rightarrow> bool \<Rightarrow> int \<Rightarrow> unit rt" where
  "record_run R aid success latency = mods (\<lambda>s. s\<lparr>sy_health :=
     snd (registry_record_run (re_settings R) aid success (of_int latency) False False 0 (sy_health s))\<rparr>)"

definition set_bias :: "string \<Rightarrow> rat \<Rightarrow> unit rt" where
  "set_bias sid b = mods (\<lambda>s. s\<lparr>sy_biases := set_session_approval_bias sid b (sy_biases s)\<rparr>)"

definition activate_crisis :: "unit rt" where
  "activate_crisis = mods (\<lambda>s. s\<lparr>sy_crisis := activate_crisis_if_needed (db_world (sy_db s)) (sy_crisis s)\<rparr>)"

definition session_health_degraded :: "string \<Rightarrow> bool rt" where
  "session_health_degraded sid = bnd (reads (\<lambda>s. query_runtime_health s sid)) (\<lambda>rows.
     if rows \<noteq> [] \<and> rh_degraded (last rows) then ret True else agent_degraded ''ceo'')"

definition session_age :: "rt_env \<Rightarrow> string \<Rightarrow> int rt" where
  "session_age R sid = bnd (clock R) (\<lambda>t1. bnd (clock R) (\<lambda>t2.
     reads (\<lambda>s. context_age_seconds (seconds_of t1) (seconds_of t2) sid (sy_starts s))))"

definition cognitive_budget_from_policy :: "adaptive_policy \<Rightarrow> cognitive_budget" where
  "cognitive_budget_from_policy p = adaptive_policy_to_budget p BASE_MEMORY_BUDGET"

definition cognitive_budget_for :: "bool \<Rightarrow> adaptive_policy option \<Rightarrow> cognitive_budget" where
  "cognitive_budget_for degraded policy = (case policy of Some p \<Rightarrow> cognitive_budget_from_policy p
     | None \<Rightarrow> if degraded then default_budget\<lparr>cb_memory_budget := 4000, cb_max_retries := 0, cb_force_deterministic := True\<rparr>
         else default_budget)"

section \<open>Transitions\<close>

definition transition_payload :: "state_machine \<Rightarrow> string \<Rightarrow> string \<Rightarrow> string \<Rightarrow> payload" where
  "transition_payload sm from to sid =
     (new_payload (sm_correlation sm) sid ''runtime.transition'' (pdict [(''from'', PStr from), (''to'', PStr to)]))\<lparr>
       pl_transition := Some \<lparr>pt_correlation = sm_correlation sm, pt_session = sid, pt_from = from, pt_to = to\<rparr>,
       pl_business := Some (''transition:'' @ from @ '':'' @ to @ '':'' @ show_nat (length (sm_history sm)))\<rparr>"

definition sm_call_at :: "rt_env \<Rightarrow> (time \<Rightarrow> runtime_state sm_comp) \<Rightarrow> state_machine \<Rightarrow> state_machine rt" where
  "sm_call_at R f sm = bnd (clock R) (\<lambda>t. case f t sm of (Inl e, _) \<Rightarrow> raise e | (Inr _, sm') \<Rightarrow> ret sm')"

definition record_transition :: "rt_env \<Rightarrow> state_machine \<Rightarrow> runtime_state \<Rightarrow> string \<Rightarrow> state_machine rt" where
  "record_transition R sm to sid =
     (let from = state_value (sm_state sm) in
      bnd (span_start R TRANSITION from [(''to'', PStr (state_value to))]) (\<lambda>tspan.
      bnd (sm_call_at R (\<lambda>t. transition t to) sm) (\<lambda>sm'.
      seqc (span_end R tspan SP_OK [])
      (bnd (persist_runtime_tx R (transition_payload sm' from (state_value to) sid)) (\<lambda>_. ret sm')))))"

section \<open>The adaptive policy of a session\<close>

definition event_key :: "env \<Rightarrow> stability_event \<Rightarrow> string" where
  "event_key E ev = sv_type ev @ '':'' @ stable_hash E (sv_metadata ev)"

fun filter_new_stability_events :: "env \<Rightarrow> stability_event list \<Rightarrow> state_machine \<Rightarrow> stability_event list \<times> state_machine" where
  "filter_new_stability_events E [] sm = ([], sm)"
| "filter_new_stability_events E (ev # evs) sm =
     (if event_key E ev \<in> set (sm_event_keys sm) then filter_new_stability_events E evs sm
      else case filter_new_stability_events E evs (sm\<lparr>sm_event_keys := sm_event_keys sm @ [event_key E ev]\<rparr>) of
        (new, sm') \<Rightarrow> (ev # new, sm'))"

definition persist_context_priorities :: "rt_env \<Rightarrow> string \<Rightarrow> string \<Rightarrow> priority_score list \<Rightarrow> string \<Rightarrow> unit rt" where
  "persist_context_priorities R sid cid scores suffix = (if scores = [] then ret ()
     else bnd (persist_runtime_tx R ((new_payload cid sid ''context.priority'' (pdict [(''layers'', pstrs (map pc_source scores))]))\<lparr>
       pl_business := Some (''context.priority:'' @ suffix), pl_priorities := scores\<rparr>)) (\<lambda>_. ret ()))"

text \<open>The replay analytics of a forced recomputation; replay errors are ignored.\<close>

definition replay_feedback ::
  "rt_env \<Rightarrow> registry \<Rightarrow> string \<Rightarrow> string \<Rightarrow> bool \<Rightarrow> adaptive_signals \<Rightarrow> (adaptive_signals \<times> governance_event list \<times> replay_analytics option) rt" where
  "replay_feedback R reg sid cid force g = (if \<not> force then ret (g, [], None)
     else catch (bnd (analyze_replay R reg sid cid FROZEN) (\<lambda>a. bnd (clock R) (\<lambda>now.
         ret (apply_replay_to_signals g a, events_from_analytics (re_settings R) now a, Some a))))
       is_replay_error (\<lambda>_. ret (g, [], None)))"

definition policy_payload :: "env \<Rightarrow> string \<Rightarrow> string \<Rightarrow> adaptive_policy \<Rightarrow> adaptive_signals \<Rightarrow> policy_snapshot \<Rightarrow> stability_event list \<Rightarrow> governance_event list \<Rightarrow> payload" where
  "policy_payload E sid cid p g snap evs gov =
     (new_payload cid sid ''adaptive.policy'' (pdict [(''policy_hash'', PStr (policy_hash E p)), (''signals_hash'', PStr (signals_hash E g))]))\<lparr>
       pl_business := Some (''adaptive.policy:'' @ ps_policy_hash snap), pl_policy := Some snap, pl_stability := evs, pl_governance := gov\<rparr>"

definition recompute_policy ::
  "rt_env \<Rightarrow> registry \<Rightarrow> state_machine \<Rightarrow> string \<Rightarrow> string \<Rightarrow> bool \<Rightarrow> rat \<Rightarrow> telemetry list option \<Rightarrow> (adaptive_policy \<times> state_machine) rt" where
  "recompute_policy R reg sm sid cid force tool_failure telemetry =
     bnd (case telemetry of Some t \<Rightarrow> ret t | None \<Rightarrow> reads (\<lambda>s. query_cognitive_telemetry s sid (Some cid))) (\<lambda>tel.
     bnd (collect_adaptive_signals R sid cid (no_hints\<lparr>hi_tool_failure := tool_failure, hi_stability := 0\<rparr>)) (\<lambda>g0.
     bnd (replay_feedback R reg sid cid force g0) (\<lambda>(g1, gov, analytics).
     bnd (clock R) (\<lambda>now.
     let asm = assess_at_boundary (re_env R) (re_settings R) now sid cid tel (sm_tool_names sm) (sm_delegations sm) [];
         g = (if as_pressure asm > 0 then g1\<lparr>sg_stability_pressure := as_pressure asm\<rparr> else g1);
         p0 = derive (re_settings R) g;
         p = (case analytics of None \<Rightarrow> p0 | Some a \<Rightarrow> adjust_policy_cognition_only (re_settings R) p0 a)
     in seqc (set_bias sid (po_approval_bias p))
       (bnd (clock R) (\<lambda>now2.
        let snap = snapshot (re_env R) (re_settings R) now2 g (Some p);
            (evs, sm') = filter_new_stability_events (re_env R) (as_events asm) (sm\<lparr>sm_policy := Some p, sm_recompute := False\<rparr>)
        in bnd (persist_runtime_tx R (policy_payload (re_env R) sid cid p g snap evs (if force then gov else []))) (\<lambda>_.
           ret (p, sm'))))))))"

definition resolve_adaptive_policy ::
  "rt_env \<Rightarrow> registry \<Rightarrow> state_machine \<Rightarrow> string \<Rightarrow> string \<Rightarrow> bool \<Rightarrow> rat \<Rightarrow> telemetry list option \<Rightarrow> (adaptive_policy \<times> state_machine) rt" where
  "resolve_adaptive_policy R reg sm sid cid force tool_failure telemetry =
     (case sm_policy sm of
        Some p \<Rightarrow> if \<not> force \<and> \<not> sm_recompute sm then seqc (set_bias sid (po_approval_bias p)) (ret (p, sm))
          else recompute_policy R reg sm sid cid force tool_failure telemetry
      | None \<Rightarrow> recompute_policy R reg sm sid cid force tool_failure telemetry)"

definition needs_retry :: "retry_trace \<Rightarrow> bool" where
  "needs_retry tr \<longleftrightarrow> rt_repair_attempts tr \<noteq> 0 \<or> rt_llm_retry tr"

definition boundary_recompute_if_needed ::
  "rt_env \<Rightarrow> registry \<Rightarrow> state_machine \<Rightarrow> string \<Rightarrow> string \<Rightarrow> telemetry list option \<Rightarrow> retry_trace option \<Rightarrow> (adaptive_policy \<times> state_machine) rt" where
  "boundary_recompute_if_needed R reg sm sid cid telemetry trace =
     (let sm1 = (case trace of Some tr \<Rightarrow> if needs_retry tr then sm\<lparr>sm_recompute := True\<rparr> else sm | None \<Rightarrow> sm) in
      if sm_recompute sm1 then resolve_adaptive_policy R reg sm1 sid cid True 0 telemetry
      else case sm_policy sm1 of Some p \<Rightarrow> ret (p, sm1)
        | None \<Rightarrow> resolve_adaptive_policy R reg sm1 sid cid False 0 None)"

definition successes :: "tool_result list \<Rightarrow> nat" where
  "successes rs = length (filter tr_success rs)"

definition tool_failure_of :: "tool_result list \<Rightarrow> rat" where
  "tool_failure_of rs = (if rs = [] then 0 else fsub 1 (fdiv (of_nat (successes rs)) (of_nat (length rs))))"

text \<open>\<open>_finalize_session_payload\<close> and the payload that closes a session with it.\<close>

definition close_payload :: "string \<Rightarrow> string \<Rightarrow> pyval \<Rightarrow> telemetry list \<Rightarrow> tool_result list \<Rightarrow> payload" where
  "close_payload cid sid body telemetry results = (new_payload cid sid ''session.completed'' body)\<lparr>
     pl_business := Some ''session.completed'', pl_baseline := True, pl_telemetry := telemetry,
     pl_tool_failure := tool_failure_of results\<rparr>"

definition intent_payload :: "string \<Rightarrow> string \<Rightarrow> pyval \<Rightarrow> payload" where
  "intent_payload cid sid body = (new_payload cid sid ''founder.intent'' body)\<lparr>pl_business := Some ''founder.intent''\<rparr>"

section \<open>Deterministic tools\<close>

definition deterministic_intent :: "string \<Rightarrow> pyval" where
  "deterministic_intent tool = pdict [(''message'', PStr (''deterministic:'' @ tool)), (''tool'', PStr tool)]"

definition deterministic_close :: "string \<Rightarrow> string \<Rightarrow> string \<Rightarrow> tool_result \<Rightarrow> payload" where
  "deterministic_close cid sid tool r = close_payload cid sid (pdict [(''tool'', PStr tool), (''success'', PBool (tr_success r))]) [] [r]"

text \<open>What follows the start of the machine.\<close>

definition deterministic_steps ::
  "rt_env \<Rightarrow> registry \<Rightarrow> string \<Rightarrow> string \<Rightarrow> string \<Rightarrow> string \<Rightarrow> pyval option \<Rightarrow> string \<Rightarrow> state_machine \<Rightarrow> tool_result rt" where
  "deterministic_steps R reg tool agent cid sid params orch sm0 =
     bnd (record_transition R sm0 REASONING sid) (\<lambda>sm1.
     bnd (persist_runtime_tx R (intent_payload cid sid (deterministic_intent tool))) (\<lambda>_.
     bnd (record_transition R sm1 WAITING_TOOL sid) (\<lambda>sm2.
     bnd (execute_tool R reg tool agent cid params (Some sid) 0) (\<lambda>r.
     bnd (record_transition R sm2 OBSERVING sid) (\<lambda>sm3.
     bnd (sm_call_at R complete sm3) (\<lambda>sm4.
     seqc (span_end R orch SP_OK [])
     (bnd (persist_runtime_tx R (deterministic_close cid sid tool r)) (\<lambda>_. ret r))))))))"

definition run_deterministic_tool ::
  "rt_env \<Rightarrow> registry \<Rightarrow> string \<Rightarrow> string \<Rightarrow> string \<Rightarrow> string \<Rightarrow> pyval option \<Rightarrow> tool_result rt" where
  "run_deterministic_tool R reg tool agent cid sid params =
     seqc (span_begin sid cid)
     (bnd (span_start R ORCHESTRATION ''perceiving'' []) (\<lambda>orch.
      bnd (sm_call_at R start (new_sm cid sid)) (deterministic_steps R reg tool agent cid sid params orch)))"

section \<open>Context of a request\<close>

definition build_bundle :: "rt_env \<Rightarrow> string \<Rightarrow> string \<Rightarrow> string \<Rightarrow> context_layer list \<Rightarrow> context_bundle rt" where
  "build_bundle R sid task active extra = bnd (clock R) (\<lambda>t1. bnd (clock R) (\<lambda>t2.
     bnd (reads (\<lambda>s. build_context (re_env R) default_manager (seconds_of t1) (seconds_of t2) (sy_starts s) sid task active
       (re_ws_json R (db_world (sy_db s))) [] None None extra)) (\<lambda>(b, starts).
     seqc (mods (\<lambda>s. s\<lparr>sy_starts := starts\<rparr>)) (ret b))))"

definition spanned_bundle :: "rt_env \<Rightarrow> state_machine \<Rightarrow> string \<Rightarrow> string \<Rightarrow> string \<Rightarrow> context_layer list \<Rightarrow> context_bundle rt" where
  "spanned_bundle R sm sid task active extra = bnd (span_start R CONTEXT_BUILD (state_value (sm_state sm)) []) (\<lambda>cspan.
     bnd (build_bundle R sid task active extra) (\<lambda>b. seqc (span_end R cspan SP_OK []) (ret b)))"

text \<open>The scores of the layers, and the layers that fit the budget.\<close>

definition score_and_select :: "rt_env \<Rightarrow> string \<Rightarrow> cognitive_budget \<Rightarrow> context_bundle \<Rightarrow> (context_bundle \<times> priority_score list) rt" where
  "score_and_select R sid budget b = (case cx_fp b of None \<Rightarrow> ret (b, [])
   | Some fp \<Rightarrow> if cx_layers b = [] then ret (b, [])
       else bnd (collect (dict_keys (cx_layers b)) (\<lambda>k. bnd (session_age R sid) (\<lambda>age.
           ret (score_layer (layer_value k) (fp_utilization fp) age 1)))) (\<lambda>scores.
         bnd (session_age R sid) (\<lambda>age.
           ret (b\<lparr>cx_layers := map (\<lambda>(k, v). (layer_of_value k, v)) (select_layers (layer_names (cx_layers b)) (cb_memory_budget budget)
             (cx_tokens b) (fp_utilization fp) age)\<rparr>, scores))))"

text \<open>\<open>summarize_old_context\<close> on a dictionary keyed by the enumeration: its hash sees the names of the members.\<close>

definition summarize_layers :: "env \<Rightarrow> (context_layer, string) dict \<Rightarrow> (context_layer, string) dict \<times> string" where
  "summarize_layers E ls = (let summarized = map (\<lambda>(k, v). (k, summarize_layer E v)) ls
     in (summarized, ''summarize:'' @ stable_hash E (PDict (map (\<lambda>(k, v). (KOther (layer_enum_name k), PStr v)) summarized))))"

definition compress_bundle :: "rt_env \<Rightarrow> string \<Rightarrow> adaptive_policy \<Rightarrow> context_bundle \<Rightarrow> context_bundle rt" where
  "compress_bundle R sid p b = (case cx_fp b of None \<Rightarrow> ret b
   | Some fp \<Rightarrow> if fp_utilization fp > fl (9/10) \<or> po_context_ratio p < fl (6/10)
       then bnd (clock R) (\<lambda>t1. bnd (clock R) (\<lambda>t2. reads (\<lambda>s.
         let (ls, entry) = summarize_layers (re_env R) (cx_layers b)
         in b\<lparr>cx_layers := ls, cx_fp := Some (enrich_fingerprint (seconds_of t1) (seconds_of t2) (sy_starts s) fp sid ''aggressive'' (Some entry))\<rparr>)))
       else ret b)"

section \<open>The CEO\<close>

record ceo_result =
  cr_decision :: string
  cr_response :: response
  cr_delegations :: "string list"
  cr_telemetry :: telemetry

definition with_pressure :: "fingerprint option \<Rightarrow> telemetry \<Rightarrow> telemetry" where
  "with_pressure fp tel = (case fp of None \<Rightarrow> tel | Some f \<Rightarrow> tel\<lparr>te_context_pressure := fp_utilization f\<rparr>)"

definition data_repr :: "rt_env \<Rightarrow> pyval option \<Rightarrow> string" where
  "data_repr R v = re_repr R (case v of None \<Rightarrow> PNone | Some x \<Rightarrow> x)"

definition ceo_prompt :: "rt_env \<Rightarrow> string \<Rightarrow> context_bundle \<Rightarrow> tool_result \<Rightarrow> world_state \<Rightarrow> string" where
  "ceo_prompt R user_input b kpi w = ''Objective: '' @ user_input @ ''\<newline>'' @ to_prompt b @ ''\<newline>KPIs: '' @ data_repr R (tr_data kpi) @
     ''\<newline>Incidents: '' @ re_repr R (pstrs (map in_title (ws_incidents w)))"

definition no_delegations :: "response \<Rightarrow> response" where
  "no_delegations r = r\<lparr>rp_fields := dict_set ''delegations'' (PList []) (rp_fields r)\<rparr>"

definition ceo_decision :: "string \<Rightarrow> time \<Rightarrow> string \<Rightarrow> string \<Rightarrow> response \<Rightarrow> runtime_state \<Rightarrow> decision_record" where
  "ceo_decision uid now cid user_input r st = \<lparr>dr_id = uid, dr_correlation = cid, dr_causation = None, dr_objective = user_input,
     dr_context_used = [], dr_policies = [], dr_tools = [], dr_summary = text_field r ''summary'',
     dr_confidence = calibrate_confidence (fl (9/10)) 1 1 1 0, dr_final_action = ''ceo_analysis'', dr_outcome = Some ''success'',
     dr_agent = ''ceo'', dr_state = st, dr_created = now\<rparr>"

definition ceo_snapshot :: "rt_env \<Rightarrow> runtime_state \<Rightarrow> tool_result \<Rightarrow> string \<Rightarrow> response \<Rightarrow> int \<Rightarrow> fingerprint option \<Rightarrow> time \<Rightarrow> pyval" where
  "ceo_snapshot R st kpi prompt r wv fp now = pdict [(''runtime_state'', PStr (state_value st)), (''tool_results'', PList [result_dump kpi]),
     (''prompt'', PStr prompt), (''response'', response_dump r), (''world_state_version'', PInt wv),
     (''context_fingerprint'', opt_fingerprint_dump fp), (''timestamp'', PStr (re_iso R now))]"

definition run_ceo_analysis ::
  "rt_env \<Rightarrow> registry \<Rightarrow> string \<Rightarrow> string \<Rightarrow> string \<Rightarrow> state_machine \<Rightarrow> bool \<Rightarrow> adaptive_policy option \<Rightarrow> (ceo_result \<times> state_machine) rt" where
  "run_ceo_analysis R reg user_input cid sid sm degraded policy0 =
     bnd (reads (\<lambda>s. db_world (sy_db s))) (\<lambda>w.
     bnd (spanned_bundle R sm sid cid user_input []) (\<lambda>b0.
     bnd (case policy0 of Some p \<Rightarrow> ret (p, sm) | None \<Rightarrow> resolve_adaptive_policy R reg sm sid cid False 0 None) (\<lambda>(policy, sm1).
     let budget = cognitive_budget_for degraded (Some policy) in
     bnd (score_and_select R sid budget b0) (\<lambda>(b, scores).
     seqc (persist_context_priorities R sid cid scores ''ceo'')
     (bnd (execute_tool R reg ''read_kpi_dashboard'' ''ceo'' cid None (Some sid) 0) (\<lambda>kpi.
      let sm2 = sm1\<lparr>sm_tool_names := sm_tool_names sm1 @ [''read_kpi_dashboard'']\<rparr>; prompt = ceo_prompt R user_input b kpi w in
      bnd (build_lineage R prompt sid cid (cx_fp b) None) (\<lambda>lineage.
      bnd (run_structured R prompt CEOResponse cid sid ''ceo'' 0 (Some budget)) (\<lambda>(r0, trace, tel0).
      let r = (if \<not> delegation_allowed policy ''cto'' (texts_field r0 ''delegations'') then no_delegations r0 else r0);
          tel = with_pressure (cx_fp b) tel0 in
      bnd (if needs_retry trace then bnd (boundary_recompute_if_needed R reg sm2 sid cid None (Some trace)) (\<lambda>(p, sm'). ret sm') else ret sm2) (\<lambda>sm3.
      bnd (fresh_uuid R) (\<lambda>uid. bnd (clock R) (\<lambda>now. bnd (clock R) (\<lambda>stamp.
      let d = ceo_decision uid now cid user_input r (sm_state sm3) in
      bnd (persist_runtime_tx R ((new_payload cid sid ''decision.recorded'' (decision_json R d))\<lparr>
          pl_decision := Some d, pl_snapshot := Some (ceo_snapshot R (sm_state sm3) kpi prompt r (ws_version w) (cx_fp b) stamp),
          pl_step := Some 0, pl_retry := Some trace, pl_telemetry := [tel], pl_lineage := [lineage],
          pl_business := Some (''decision:'' @ dr_id d)\<rparr>)) (\<lambda>_.
      seqc (record_run R ''ceo'' True (te_latency_ms tel))
        (ret (\<lparr>cr_decision = uid, cr_response = r, cr_delegations = texts_field r ''delegations'', cr_telemetry = tel\<rparr>, sm3)))))))))))))))"

section \<open>The specialist\<close>

text \<open>The part of an \<open>AgentMessage\<close> that the delegation reads; the payload's objective is a string.\<close>

record message =
  mg_id :: string
  mg_receiver :: string
  mg_payload :: pyval
  mg_correlation :: string

definition objective_of :: "message \<Rightarrow> string" where
  "objective_of m = (case as_str (vgetd (mg_payload m) ''objective'' (PStr '''')) of None \<Rightarrow> '''' | Some s \<Rightarrow> s)"

definition specialist_of :: "message \<Rightarrow> string" where
  "specialist_of m = (if mg_receiver m \<noteq> ''human'' then mg_receiver m else ''cto'')"

record plan_state =
  pn_sm :: state_machine
  pn_results :: "tool_result list"
  pn_profiles :: "(string, tool_profile) dict"
  pn_updates :: "tool_profile list"
  pn_step :: nat

definition tool_plan :: "(string \<times> pyval) list" where
  "tool_plan = [(''get_repo_health'', PDict []), (''list_github_prs'', pdict [(''status'', PStr ''open'')]), (''analyze_incidents'', PDict [])]"

definition step_snapshot :: "rt_env \<Rightarrow> state_machine \<Rightarrow> tool_result list \<Rightarrow> string \<Rightarrow> int \<Rightarrow> fingerprint option \<Rightarrow> time \<Rightarrow> pyval" where
  "step_snapshot R sm rs objective wv fp now = pdict [(''runtime_state'', PStr (state_value (sm_state sm))),
     (''tool_results'', PList (map result_dump rs)), (''prompt'', PStr objective), (''response'', PDict []),
     (''world_state_version'', PInt wv), (''context_fingerprint'', opt_fingerprint_dump fp), (''timestamp'', PStr (re_iso R now))]"

definition step_payload :: "string \<Rightarrow> string \<Rightarrow> nat \<Rightarrow> pyval \<Rightarrow> payload" where
  "step_payload cid sid step snap = (new_payload cid sid ''replay.snapshot'' (pdict [(''step'', PInt (int step))]))\<lparr>
     pl_snapshot := Some snap, pl_step := Some step, pl_business := Some (''replay:'' @ show_nat step)\<rparr>"

definition use_tool ::
  "rt_env \<Rightarrow> registry \<Rightarrow> string \<Rightarrow> string \<Rightarrow> string \<Rightarrow> string \<Rightarrow> int \<Rightarrow> fingerprint option \<Rightarrow> string \<Rightarrow> pyval \<Rightarrow> rat \<Rightarrow> plan_state \<Rightarrow> plan_state rt" where
  "use_tool R reg sid cid agent objective wv fp tool params bias st =
     bnd (execute_tool R reg tool agent cid (Some params) (Some sid) bias) (\<lambda>r.
     bnd (clock R) (\<lambda>now.
     let rs = pn_results st @ [r];
         sm = (pn_sm st)\<lparr>sm_tool_names := sm_tool_names (pn_sm st) @ [tool]\<rparr>;
         updated = update_from_result (re_settings R) now (dict_get (pn_profiles st) tool) r 1 0
     in bnd (record_transition R sm OBSERVING sid) (\<lambda>sm'.
        bnd (clock R) (\<lambda>now2.
        bnd (persist_runtime_tx R (step_payload cid sid (pn_step st) (step_snapshot R sm' rs objective wv fp now2))) (\<lambda>_.
        ret \<lparr>pn_sm = sm', pn_results = rs, pn_profiles = dict_set tool updated (pn_profiles st),
          pn_updates = pn_updates st @ [updated], pn_step = pn_step st + 1\<rparr>)))))"

fun run_tool_plan ::
  "rt_env \<Rightarrow> registry \<Rightarrow> string \<Rightarrow> string \<Rightarrow> string \<Rightarrow> string \<Rightarrow> adaptive_policy \<Rightarrow> int \<Rightarrow> fingerprint option \<Rightarrow> (string \<times> pyval) list \<Rightarrow> plan_state \<Rightarrow> plan_state rt" where
  "run_tool_plan R reg sid cid agent objective policy wv fp [] st = ret st"
| "run_tool_plan R reg sid cid agent objective policy wv fp ((tool, params) # plan) st =
     bnd (if sm_state (pn_sm st) = OBSERVING then record_transition R (pn_sm st) REASONING sid else ret (pn_sm st)) (\<lambda>sm1.
     bnd (record_transition R sm1 WAITING_TOOL sid) (\<lambda>sm2.
     let rd = decide_routing (re_settings R) (dict_get (pn_profiles st) tool) policy in
     if rd_skip_optional rd \<and> tool \<noteq> ''get_repo_health''
     then run_tool_plan R reg sid cid agent objective policy wv fp plan (st\<lparr>pn_sm := sm2\<rparr>)
     else bnd (use_tool R reg sid cid agent objective wv fp tool params (if rd_require_escalation rd then 1 else 0) (st\<lparr>pn_sm := sm2\<rparr>))
       (run_tool_plan R reg sid cid agent objective policy wv fp plan)))"

definition enum_repr :: "context_layer \<Rightarrow> string" where
  "enum_repr l = ''<'' @ layer_enum_name l @ '': '' @ [CHR 39] @ layer_value l @ [CHR 39] @ ''>''"

definition build_cto_prompt :: "rt_env \<Rightarrow> string \<Rightarrow> tool_result list \<Rightarrow> context_bundle \<Rightarrow> string" where
  "build_cto_prompt R objective rs b = ''Objective: '' @ objective @ ''\<newline>Tool results: '' @
     re_repr R (PDict (fold (\<lambda>r. dict_set (KStr (tr_tool_name r)) (case tr_data r of None \<Rightarrow> PNone | Some v \<Rightarrow> v)) rs [])) @
     ''\<newline>Context layers: ['' @ join_lines '', '' (map enum_repr (dict_keys (cx_layers b))) @ '']''"

record cto_done =
  cd_decision :: string
  cd_summary :: string
  cd_results :: "tool_result list"
  cd_response :: "response option"
  cd_telemetry :: "telemetry option"

datatype cto_result = AgentDegraded string | ContextBudgetExceeded | Delegated cto_done

definition cto_snapshot :: "rt_env \<Rightarrow> state_machine \<Rightarrow> tool_result list \<Rightarrow> string \<Rightarrow> response \<Rightarrow> int \<Rightarrow> time \<Rightarrow> pyval" where
  "cto_snapshot R sm rs prompt r wv now = pdict [(''runtime_state'', PStr (state_value (sm_state sm))),
     (''tool_results'', PList (map result_dump rs)), (''prompt'', PStr prompt), (''response'', response_dump r),
     (''world_state_version'', PInt wv), (''timestamp'', PStr (re_iso R now))]"

text \<open>The tools of the CTO, the reliability of each, and the reasoning over their results.\<close>

definition cto_tools ::
  "rt_env \<Rightarrow> registry \<Rightarrow> string \<Rightarrow> message \<Rightarrow> state_machine \<Rightarrow> adaptive_policy \<Rightarrow> world_state \<Rightarrow> context_bundle \<Rightarrow> plan_state rt" where
  "cto_tools R reg sid m sm policy w b =
     bnd (reads (\<lambda>s. fold (\<lambda>p. dict_set (tp_name p) p) (query_tool_reliability_profiles s) [])) (\<lambda>profiles.
     let plan = (if \<not> rd_allow_parallel (decide_routing (re_settings R) None policy) then take 1 tool_plan else tool_plan) in
     bnd (run_tool_plan R reg sid (mg_correlation m) ''cto'' (objective_of m) policy (ws_version w) (cx_fp b) plan
       \<lparr>pn_sm = sm, pn_results = [], pn_profiles = profiles, pn_updates = [], pn_step = 0\<rparr>) (\<lambda>st.
     if pn_updates st = [] then ret st
     else bnd (persist_runtime_tx R ((new_payload (mg_correlation m) sid ''tool.reliability''
         (pdict [(''tools'', pstrs (map tp_name (pn_updates st)))]))\<lparr>
           pl_business := Some (''tool.reliability:'' @ show_nat (pn_step st)), pl_profiles := pn_updates st\<rparr>)) (\<lambda>_. ret st)))"

definition cto_payload :: "string \<Rightarrow> string \<Rightarrow> nat \<Rightarrow> pyval \<Rightarrow> retry_trace \<Rightarrow> telemetry \<Rightarrow> lineage \<Rightarrow> payload" where
  "cto_payload cid sid step snap trace tel lineage = (new_payload cid sid ''replay.snapshot'' (pdict [(''step'', PInt (int step))]))\<lparr>
     pl_snapshot := Some snap, pl_step := Some step, pl_retry := Some trace, pl_telemetry := [tel], pl_lineage := [lineage],
     pl_business := Some (''replay:'' @ show_nat step @ '':cto'')\<rparr>"

definition cto_reasoning ::
  "rt_env \<Rightarrow> registry \<Rightarrow> string \<Rightarrow> message \<Rightarrow> cognitive_budget \<Rightarrow> world_state \<Rightarrow> context_bundle \<Rightarrow> plan_state \<Rightarrow> (response \<times> telemetry \<times> state_machine) rt" where
  "cto_reasoning R reg sid m budget w b st =
     (let cid = mg_correlation m; sm = pn_sm st; rs = pn_results st; prompt = build_cto_prompt R (objective_of m) rs b in
      bnd (build_lineage R prompt sid cid (cx_fp b) None) (\<lambda>lineage.
      bnd (run_structured R prompt CTOResponse cid sid ''cto'' (pn_step st) (Some budget)) (\<lambda>(r, trace, tel0).
      let tel = with_pressure (cx_fp b) tel0 in
      bnd (clock R) (\<lambda>now.
      bnd (persist_runtime_tx R (cto_payload cid sid (pn_step st) (cto_snapshot R sm rs prompt r (ws_version w) now) trace tel lineage)) (\<lambda>_.
      if needs_retry trace
      then bnd (span_start R RETRY '''' [(''agent_id'', PStr ''cto'')]) (\<lambda>rspan. seqc (span_end R rspan SP_OK [])
        (bnd (boundary_recompute_if_needed R reg sm sid cid None (Some trace)) (\<lambda>(p, sm'). ret (r, tel, sm'))))
      else ret (r, tel, sm))))))"

definition delegate_decision ::
  "rt_env \<Rightarrow> message \<Rightarrow> string \<Rightarrow> crisis_type option \<Rightarrow> adaptive_policy \<Rightarrow> tool_result list \<Rightarrow> string \<Rightarrow> runtime_state \<Rightarrow> string \<Rightarrow> time \<Rightarrow> decision_record" where
  "delegate_decision R m agent crisis policy rs summary st uid now = \<lparr>dr_id = uid, dr_correlation = mg_correlation m,
     dr_causation = Some (mg_id m), dr_objective = objective_of m, dr_context_used = [mg_id m],
     dr_policies = (case crisis of None \<Rightarrow> [] | Some c \<Rightarrow> [crisis_value c]) @ [''adaptive_bias:'' @ re_float_str R (po_approval_bias policy)],
     dr_tools = map tr_tool_name rs, dr_summary = summary,
     dr_confidence = calibrate_confidence 1 1 1 (fdiv (of_nat (successes rs)) (of_nat (max (length rs) 1))) 0,
     dr_final_action = ''delegate:'' @ agent, dr_outcome = Some ''success'', dr_agent = agent, dr_state = st, dr_created = now\<rparr>"

definition delegate_effect :: "message \<Rightarrow> string \<Rightarrow> tool_result list \<Rightarrow> string \<Rightarrow> string \<Rightarrow> time \<Rightarrow> side_effect" where
  "delegate_effect m agent rs action uid now = \<lparr>se_id = uid, se_action_id = action, se_correlation = mg_correlation m,
     se_systems = (if agent = ''cto'' then [''github''] else []),
     se_status = (if \<forall>r \<in> set rs. tr_success r then MutComplete else MutPartial),
     se_rollback_available = False, se_rollback_executed = False, se_created = now\<rparr>"

definition record_delegation ::
  "rt_env \<Rightarrow> string \<Rightarrow> message \<Rightarrow> string \<Rightarrow> adaptive_policy \<Rightarrow> state_machine \<Rightarrow> tool_result list \<Rightarrow> string \<Rightarrow> string rt" where
  "record_delegation R sid m agent policy sm rs summary =
     bnd (fresh_uuid R) (\<lambda>uid. bnd (clock R) (\<lambda>now. bnd (reads sy_crisis) (\<lambda>crisis.
     let d = delegate_decision R m agent crisis policy rs summary (sm_state sm) uid now in
     bnd (fresh_uuid R) (\<lambda>uid2. bnd (clock R) (\<lambda>now2.
     let eff = delegate_effect m agent rs uid uid2 now2 in
     bnd (persist_runtime_tx R ((new_payload (mg_correlation m) sid ''decision.recorded'' (decision_json R d))\<lparr>
        pl_causation := Some (mg_id m), pl_decision := Some d, pl_effect := Some eff, pl_business := Some (''decision:'' @ uid)\<rparr>)) (\<lambda>_.
     seqc (record_run R agent (se_status eff = MutComplete) (sum_list (map tr_latency_ms rs))) (ret uid)))))))"

text \<open>The context of the delegation: built, scored, cut to the budget, and compressed under pressure.\<close>

definition delegate_context ::
  "rt_env \<Rightarrow> registry \<Rightarrow> string \<Rightarrow> message \<Rightarrow> state_machine \<Rightarrow> bool \<Rightarrow> adaptive_policy option \<Rightarrow> (context_bundle \<times> adaptive_policy \<times> state_machine) rt" where
  "delegate_context R reg sid m sm degraded policy0 =
     bnd (reads (\<lambda>s. case sy_crisis s of None \<Rightarrow> [] | Some c \<Rightarrow> cr_expansion (CRISIS_OVERRIDES c))) (\<lambda>extra.
     bnd (spanned_bundle R sm sid (mg_id m) (objective_of m) extra) (\<lambda>b0.
     bnd (case policy0 of Some p \<Rightarrow> ret (p, sm) | None \<Rightarrow> resolve_adaptive_policy R reg sm sid (mg_correlation m) False 0 None) (\<lambda>(policy, sm1).
     let budget = cognitive_budget_for degraded (Some policy) in
     if cx_fp b0 = None \<or> cx_layers b0 = [] then ret (b0, policy, sm1)
     else bnd (score_and_select R sid budget b0) (\<lambda>(b1, scores).
       bnd (compress_bundle R sid policy b1) (\<lambda>b.
       seqc (persist_context_priorities R sid (mg_correlation m) scores ''delegate'') (ret (b, policy, sm1)))))))"

definition over_budget :: "context_bundle \<Rightarrow> cognitive_budget \<Rightarrow> bool" where
  "over_budget b budget \<longleftrightarrow> (case cx_fp b of None \<Rightarrow> False
     | Some fp \<Rightarrow> \<not> enforce_budget (fp_utilization fp) (cb_memory_budget budget) (cx_tokens b)) \<or>
     \<not> within_budget b (cb_memory_budget budget)"

definition delegate_to_specialist ::
  "rt_env \<Rightarrow> registry \<Rightarrow> message \<Rightarrow> string \<Rightarrow> state_machine \<Rightarrow> bool \<Rightarrow> adaptive_policy option \<Rightarrow> (cto_result \<times> state_machine) rt" where
  "delegate_to_specialist R reg m sid sm degraded policy0 =
     (let agent = specialist_of m in
      bnd (lift_res (assert_agent_active agent)) (\<lambda>_.
      bnd (agent_degraded agent) (\<lambda>deg.
      if deg then bnd (record_transition R sm ESCALATED sid) (\<lambda>sm'. ret (AgentDegraded agent, sm'))
      else bnd (reads (\<lambda>s. db_world (sy_db s))) (\<lambda>w.
        bnd (delegate_context R reg sid m sm degraded policy0) (\<lambda>(b, policy, sm1).
        let budget = cognitive_budget_for degraded (Some policy) in
        if over_budget b budget then ret (ContextBudgetExceeded, sm1)
        else if agent = ''cto''
        then bnd (cto_tools R reg sid m sm1 policy w b) (\<lambda>st.
          bnd (cto_reasoning R reg sid m budget w b st) (\<lambda>(r, tel, sm2).
          bnd (record_delegation R sid m agent policy sm2 (pn_results st) (text_field r ''summary'')) (\<lambda>uid.
          ret (Delegated \<lparr>cd_decision = uid, cd_summary = text_field r ''summary'', cd_results = pn_results st,
            cd_response = Some r, cd_telemetry = Some tel\<rparr>, sm2))))
        else (let summary = ''Specialist '' @ agent @ '' processed: '' @ re_repr R (mg_payload m) in
          bnd (record_delegation R sid m agent policy sm1 [] summary) (\<lambda>uid.
          ret (Delegated \<lparr>cd_decision = uid, cd_summary = summary, cd_results = [], cd_response = None, cd_telemetry = None\<rparr>, sm1))))))))"

section \<open>Requests\<close>

definition escalated_close :: "string \<Rightarrow> string \<Rightarrow> string \<Rightarrow> tool_result \<Rightarrow> payload" where
  "escalated_close cid sid user_input r = close_payload cid sid (pdict [(''escalated'', PBool True),
     (''reason'', PStr ''Agent in degraded mode''), (''message'', PStr (take 200 user_input))]) [] [r]"

text \<open>\<open>sm.complete()\<close> is tried and its failure ignored.\<close>

definition escalate_degraded :: "rt_env \<Rightarrow> registry \<Rightarrow> string \<Rightarrow> string \<Rightarrow> string \<Rightarrow> state_machine \<Rightarrow> string option \<Rightarrow> tool_result rt" where
  "escalate_degraded R reg user_input cid sid sm orch =
     bnd (record_transition R sm ESCALATED sid) (\<lambda>sm1.
     bnd (execute_tool R reg ''escalate_to_human'' ''ceo'' cid (Some (pdict [(''reason'', PStr ''CEO agent degraded'')])) (Some sid) 0) (\<lambda>r.
     bnd (catch (bnd (sm_call_at R complete sm1) (\<lambda>_. ret ())) (\<lambda>e. True) (\<lambda>e. ret ())) (\<lambda>_.
     seqc (case orch of None \<Rightarrow> ret () | Some u \<Rightarrow> span_end R u SP_ERROR [])
     (bnd (persist_runtime_tx R (escalated_close cid sid user_input r)) (\<lambda>_. ret r)))))"

datatype request_result =
    Deterministic string string tool_result
  | Escalated string string tool_result
  | Completed string string runtime_state ceo_result "cto_result option"
  | Failed string string string
  | LockedSession string

text \<open>What the request does between the adaptive policy and the close: the CEO, and the CTO if it is asked and allowed.  The
  CTO is active in production, so that the check of its availability passes.\<close>

definition cto_part ::
  "rt_env \<Rightarrow> registry \<Rightarrow> string \<Rightarrow> string \<Rightarrow> string \<Rightarrow> adaptive_policy \<Rightarrow> ceo_result \<Rightarrow> state_machine \<Rightarrow> (cto_result option \<times> state_machine) rt" where
  "cto_part R reg user_input cid sid policy ceo sm =
     (if \<not> delegation_allowed policy ''cto'' (cr_delegations ceo) then ret (None, sm)
      else case assert_agent_active ''cto'' of Inl e \<Rightarrow> ret (None, sm)
        | Inr _ \<Rightarrow> bnd (fresh_uuid R) (\<lambda>uid.
            bnd (delegate_to_specialist R reg \<lparr>mg_id = uid, mg_receiver = ''cto'', mg_payload = pdict [(''objective'', PStr user_input)],
              mg_correlation = cid\<rparr> sid sm False (Some policy)) (\<lambda>(c, sm'). ret (Some c, sm'))))"

definition cto_telemetry :: "cto_result option \<Rightarrow> telemetry list" where
  "cto_telemetry c = (case c of Some (Delegated d) \<Rightarrow> (case cd_telemetry d of Some t \<Rightarrow> [t] | None \<Rightarrow> []) | _ \<Rightarrow> [])"

definition completed_close :: "string \<Rightarrow> string \<Rightarrow> ceo_result \<Rightarrow> telemetry list \<Rightarrow> payload" where
  "completed_close cid sid ceo tels = close_payload cid sid (pdict [(''session_id'', PStr sid),
     (''summary'', PStr (text_field (cr_response ceo) ''summary''))]) tels []"

definition reason_and_close :: "rt_env \<Rightarrow> registry \<Rightarrow> string \<Rightarrow> string \<Rightarrow> string \<Rightarrow> state_machine \<Rightarrow> string \<Rightarrow> request_result rt" where
  "reason_and_close R reg user_input cid sid sm0 orch =
     bnd (resolve_adaptive_policy R reg sm0 sid cid False 0 (Some [])) (\<lambda>(policy, sm1).
     bnd (record_transition R sm1 REASONING sid) (\<lambda>sm2.
     bnd (run_ceo_analysis R reg user_input cid sid sm2 False (Some policy)) (\<lambda>(ceo, sm3).
     bnd (cto_part R reg user_input cid sid policy ceo (sm3\<lparr>sm_delegations := sm_delegations sm3 @ cr_delegations ceo\<rparr>)) (\<lambda>(cto, sm4).
     let tels = cr_telemetry ceo # cto_telemetry cto in
     bnd (sm_call_at R complete sm4) (\<lambda>sm5.
     seqc (span_end R orch SP_OK [])
     (bnd (resolve_adaptive_policy R reg sm5 sid cid True (tool_failure_of []) (Some tels)) (\<lambda>_.
      bnd (persist_runtime_tx R (completed_close cid sid ceo tels)) (\<lambda>_.
      ret (Completed cid sid (sm_state sm5) ceo cto)))))))))"

text \<open>The \<open>try\<close> block of \<open>_run_locked\<close>.\<close>

definition run_request :: "rt_env \<Rightarrow> registry \<Rightarrow> string \<Rightarrow> string \<Rightarrow> string \<Rightarrow> string \<Rightarrow> request_result rt" where
  "run_request R reg user_input sid cid orch =
     bnd (sm_call_at R start (new_sm cid sid)) (\<lambda>sm0.
     seqc activate_crisis
     (bnd (persist_runtime_tx R (intent_payload cid sid (pdict [(''message'', PStr user_input)]))) (\<lambda>_.
      bnd (session_health_degraded sid) (\<lambda>d1.
      bnd (if d1 then ret True else agent_degraded ''ceo'') (\<lambda>degraded.
      if degraded then bnd (escalate_degraded R reg user_input cid sid sm0 (Some orch)) (\<lambda>r. ret (Escalated cid sid r))
      else reason_and_close R reg user_input cid sid sm0 orch)))))"

record hint =
  hn_tool :: string
  hn_agent :: "string option"
  hn_params :: "pyval option"

definition run_locked_tool :: "rt_env \<Rightarrow> registry \<Rightarrow> hint \<Rightarrow> string \<Rightarrow> string \<Rightarrow> request_result rt" where
  "run_locked_tool R reg h sid cid = bnd (run_deterministic_tool R reg (hn_tool h)
     (case hn_agent h of None \<Rightarrow> ''ceo'' | Some a \<Rightarrow> a) cid sid (hn_params h)) (\<lambda>r. ret (Deterministic cid sid r))"

text \<open>The path through the agents: whatever is raised inside becomes an error answer (\<open>sm.fail\<close> reads the clock once more), and
  the bias of the session is cleared on every way out.\<close>

definition run_locked_agents :: "rt_env \<Rightarrow> registry \<Rightarrow> string \<Rightarrow> string \<Rightarrow> string \<Rightarrow> request_result rt" where
  "run_locked_agents R reg user_input sid cid =
     seqc (span_begin sid cid)
     (bnd (clock R) (\<lambda>t. seqc (mods (\<lambda>s. s\<lparr>sy_starts := register_session (seconds_of t) sid (sy_starts s)\<rparr>))
     (seqc (reset_session_lineage sid)
     (bnd (span_start R ORCHESTRATION ''perceiving'' []) (\<lambda>orch.
      finally_do (catch (run_request R reg user_input sid cid orch) (\<lambda>e. True)
          (\<lambda>e. bnd (clock R) (\<lambda>now. ret (Failed sid cid (re_exn_str R e)))))
        (\<lambda>s. s\<lparr>sy_biases := clear_session_approval_bias sid (sy_biases s)\<rparr>))))))"

definition run_locked :: "rt_env \<Rightarrow> registry \<Rightarrow> string \<Rightarrow> string \<Rightarrow> string \<Rightarrow> hint option \<Rightarrow> request_result rt" where
  "run_locked R reg user_input sid cid h = (case h of
     Some x \<Rightarrow> if hn_tool x \<noteq> '''' then run_locked_tool R reg x sid cid else run_locked_agents R reg user_input sid cid
   | None \<Rightarrow> run_locked_agents R reg user_input sid cid)"

text \<open>\<open>core/runtime.py\<close>: the correlation id first.\<close>

definition new_session_ids :: "rt_env \<Rightarrow> (string \<times> string) rt" where
  "new_session_ids R = bnd (fresh_uuid R) (\<lambda>cid. bnd (fresh_uuid R) (\<lambda>sid. ret (cid, sid)))"

text \<open>The ids of a request (correlation, session): an empty text counts as absent.\<close>

definition request_ids :: "rt_env \<Rightarrow> string option \<Rightarrow> string option \<Rightarrow> (string \<times> string) rt" where
  "request_ids R sid0 cid0 = (case (str_or sid0 '''', str_or cid0 '''') of (sid, cid) \<Rightarrow>
     if sid = '''' \<and> cid = '''' then new_session_ids R
     else if sid = '''' then bnd (fresh_uuid R) (\<lambda>u. ret (cid, u))
     else if cid = '''' then bnd (fresh_uuid R) (\<lambda>u. ret (u, sid))
     else ret (cid, sid))"

definition is_lock_error :: "exn \<Rightarrow> bool" where
  "is_lock_error e = (case e of SessionLockError k \<Rightarrow> True | _ \<Rightarrow> False)"

definition run_founder_request ::
  "rt_env \<Rightarrow> registry \<Rightarrow> string \<Rightarrow> string option \<Rightarrow> string option \<Rightarrow> hint option \<Rightarrow> request_result rt" where
  "run_founder_request R reg user_input sid0 cid0 h = bnd (request_ids R sid0 cid0) (\<lambda>(cid, sid).
     catch (run_mutative_session sid (run_locked R reg user_input sid cid h)) is_lock_error (\<lambda>e. ret (LockedSession sid)))"

end
