(* ===== verification/Requests.thy ===== *)
theory Requests
  imports Orchestrator
begin

text \<open>
  What \<open>core/orchestrator.py\<close> guarantees: a request never leaves its session locked or raises, its persisted
  transitions are the journal of its state machine, a deterministic request closes with a session that
  replays, and no specialist works that the policy or the CEO did not ask for.
\<close>

section \<open>Computations that always return\<close>

definition always :: "('s, 'e, 'a) comp \<Rightarrow> bool" where
  "always m \<longleftrightarrow> (\<forall>s. \<exists>x t. m s = (Inr x, t))"

lemma alwaysE:
  assumes "always m"
  obtains x t where "m s = (Inr x, t)"
  using assms unfolding always_def by blast

lemma always_ret [simp]: "always (ret x)" and always_reads [simp]: "always (reads f)" and always_mods [simp]: "always (mods g)"
  by (simp_all add: always_def ret_def reads_def mods_def)

lemma always_bnd [intro]:
  assumes "always m" and "\<And>x. always (f x)"
  shows "always (bnd m f)"
  unfolding always_def
proof
  fix s
  obtain x t where m: "m s = (Inr x, t)" by (rule alwaysE [OF assms(1)])
  obtain y u where "f x t = (Inr y, u)" by (rule alwaysE [OF assms(2)])
  then show "\<exists>x t. bnd m f s = (Inr x, t)" using m by (simp add: bnd_def)
qed

lemma always_seqc [intro]: "always m \<Longrightarrow> always n \<Longrightarrow> always (seqc m n)"
  by (auto simp: seqc_def)

lemma always_outside [simp]: "always (clock R)" "always (fresh_uuid R)" "always (outside g)" "always (on_spans h)"
  by (simp_all add: always_def clock_def fresh_uuid_def outside_def on_spans_def mods_def)

lemma always_spans [simp]: "always (span_start R ty rs meta)" "always (span_end R u st meta)" "always (span_begin sid cid)"
  unfolding span_start_def span_end_def span_begin_def by (intro always_bnd always_seqc always_ret always_outside)+

text \<open>The tools of the registry return a result for whatever arguments; the answers of the GitHub server may
  not be JSON data, and then the write to the cache raises.\<close>

definition github_tools :: "string set" where
  "github_tools = {''list_github_prs'', ''get_repo_health''}"

lemma pure_handler_always: "always (pure_handler n rq op f kw)"
  by (simp add: pure_handler_def split: option.split)

lemma github_call_always: "always (github_mcp_call R verb params)"
  unfolding github_mcp_call_def by (auto split: sum.split intro!: always_bnd)

lemma handlers_always: "dict_get (TOOL_HANDLERS R) tool = Some fn \<Longrightarrow> always (fn kw)"
proof -
  have "always (list_github_prs R kw)" "always (get_repo_health R kw)" for kw
    unfolding list_github_prs_def get_repo_health_def Let_def
    by (auto split: option.split intro!: always_bnd github_call_always)
  then show "dict_get (TOOL_HANDLERS R) tool = Some fn \<Longrightarrow> always (fn kw)"
    by (drule_tac dict_get_SomeD) (auto simp: TOOL_HANDLERS_def pure_handler_always analyze_incidents_def
      prioritize_bugs_def read_kpi_dashboard_def get_cashflow_summary_def calculate_runway_def detect_blockers_def
      list_active_tasks_def get_analytics_summary_def propose_campaign_def create_initiative_def escalate_to_human_def)
qed

lemma cached_data_json:
  assumes "dict_get (TOOL_HANDLERS R) tool = Some fn" and "tool \<in> CACHEABLE - github_tools" and "fn kw s = (Inr (Inr v), t)"
  shows "json_rt v \<noteq> None" and "is_dict v"
proof -
  have "tool = ''read_kpi_dashboard'' \<or> tool = ''calculate_runway'' \<or> tool = ''get_cashflow_summary''"
    using assms(2) by (auto simp: CACHEABLE_def github_tools_def)
  then have "fn \<in> {read_kpi_dashboard, calculate_runway, get_cashflow_summary}"
    using assms(1) by (auto simp: TOOL_HANDLERS_def)
  then show "json_rt v \<noteq> None" "is_dict v"
    using assms(3) by (auto simp: read_kpi_dashboard_def calculate_runway_def get_cashflow_summary_def pure_handler_def
        ret_def reads_def Let_def all_some_def split: option.splits)
qed

lemma normalize_run:
  assumes "always (fn kw)"
  obtains r t where "normalize_tool_call R tool cid source fn kw s = (Inr r, t)"
    and "tr_success r \<Longrightarrow> \<exists>v u. fn kw (s\<lparr>sy_clock := sy_clock s + 1\<rparr>) = (Inr (Inr v), u) \<and> (is_dict v \<longrightarrow> tr_data r = Some v)"
proof -
  obtain x t where f: "fn kw (s\<lparr>sy_clock := sy_clock s + 1\<rparr>) = (Inr x, t)" by (rule alwaysE [OF assms])
  show thesis
    by (cases x) (use f in \<open>auto simp: normalize_tool_call_def clock_run bnd_def [of "fn kw"] ret_def intro!: that\<close>)
qed

lemma cache_set_always: "json_rt v \<noteq> None \<Longrightarrow> always (cache_set R tool params v ttl)"
  by (auto simp: cache_set_def intro!: always_bnd)

lemma run_handler_returns:
  assumes "tool \<notin> github_tools" and "bind_kwargs params = Inr (kwargs_of params)"
  shows "\<exists>r t. run_handler R spn tool cid params sid s = (Inr r, t)"
proof (cases "dict_get (TOOL_HANDLERS R) tool")
  case None
  have "always (seqc (span_end R spn SP_ERROR []) (ret (router_result tool cid ''router'' [''No handler for '' @ tool] None False)))"
    by auto
  then show ?thesis unfolding run_handler_def None always_def by auto
next
  case (Some fn)
  let ?src = "if tool \<in> {''list_github_prs'', ''get_repo_health''} then ''github_mcp'' else ''stub''"
  obtain r t where r: "normalize_tool_call R tool cid ?src fn (kwargs_of params) s = (Inr r, t)"
    "tr_success r \<Longrightarrow> \<exists>v u. fn (kwargs_of params) (s\<lparr>sy_clock := sy_clock s + 1\<rparr>) = (Inr (Inr v), u) \<and> (is_dict v \<longrightarrow> tr_data r = Some v)"
    using normalize_run [where fn = fn, OF handlers_always [OF Some]] by blast
  let ?store = "if tr_success r \<and> tool \<in> CACHEABLE \<and> opt_truthy (tr_data r) then cache_set R tool params (the (tr_data r)) 300 else ret ()"
  have st: "always ?store"
  proof (cases "tr_success r \<and> tool \<in> CACHEABLE")
    case True
    then obtain v u where v: "fn (kwargs_of params) (s\<lparr>sy_clock := sy_clock s + 1\<rparr>) = (Inr (Inr v), u)" "is_dict v \<longrightarrow> tr_data r = Some v"
      using r(2) by blast
    have c: "tool \<in> CACHEABLE - github_tools" using True assms by simp
    have "tr_data r = Some v" using v(2) cached_data_json(2) [OF Some c v(1)] by simp
    then show ?thesis using cache_set_always [OF cached_data_json(1) [OF Some c v(1)]] by simp
  qed auto
  have "always (seqc ?store (seqc (span_end R spn (if tr_success r then SP_OK else SP_ERROR)
      [(''latency_ms'', PInt (tr_latency_ms r)), (''session_id'', PStr (str_or sid ''''))]) (ret r)))"
    by (intro always_seqc st always_spans always_ret)
  then show ?thesis
    unfolding run_handler_def Some option.case Let_def bnd_lift_res assms(2) bnd_def [of "normalize_tool_call _ _ _ _ _ _"] r(1) always_def
      prod.case sum.case by blast
qed

lemma execute_tool_returns:
  assumes "tool \<notin> github_tools" and "binds raw"
  shows "always (execute_tool R reg tool agent cid raw sid xb)"
proof -
  have "always (run_handler R u tool cid (canonical_params raw) sid)" for u
    unfolding always_def using run_handler_returns [OF assms(1) binds_iff(1) [THEN iffD1, OF assms(2)]] by blast
  then show ?thesis
    unfolding execute_tool_def tool_gate_def Let_def by (auto intro!: always_bnd always_seqc split: option.split)
qed

section \<open>Transactions of a request\<close>

text \<open>What no transaction touches.\<close>

definition same_process :: "sys \<Rightarrow> sys \<Rightarrow> bool" where
  "same_process s t \<longleftrightarrow> sy_gov t = sy_gov s \<and> sy_biases t = sy_biases s \<and> sy_locks t = sy_locks s \<and> sy_crisis t = sy_crisis s \<and>
     sy_health t = sy_health s \<and> sy_starts t = sy_starts s \<and> sy_prompts t = sy_prompts s"

lemma same_process_refl [simp]: "same_process s s"
  by (simp add: same_process_def)

lemma same_process_trans: "same_process s t \<Longrightarrow> same_process t u \<Longrightarrow> same_process s u"
  by (simp add: same_process_def)

lemma same_process_upd [simp]:
  "same_process s (t\<lparr>sy_uuid := n\<rparr>) = same_process s t" "same_process s (t\<lparr>sy_clock := n\<rparr>) = same_process s t"
  "same_process s (t\<lparr>sy_spans := c\<rparr>) = same_process s t" "same_process s (t\<lparr>sy_db := d\<rparr>) = same_process s t"
  "same_process s (t\<lparr>sy_replay := r\<rparr>) = same_process s t" "same_process s (t\<lparr>sy_intel := i\<rparr>) = same_process s t"
  "same_process (s\<lparr>sy_uuid := n\<rparr>) t = same_process s t" "same_process (s\<lparr>sy_clock := n\<rparr>) t = same_process s t"
  "same_process (s\<lparr>sy_spans := c\<rparr>) t = same_process s t"
  by (simp_all add: same_process_def)

lemma merge_and_close_plain:
  assumes "\<not> is_session_close p"
  shows "\<exists>us c. merge_and_close R p s = (Inr (p\<lparr>pl_spans := us\<rparr>), s\<lparr>sy_spans := c\<rparr>)"
proof -
  have "merge_and_close R p s = (Inr (p\<lparr>pl_spans := pl_spans p @ (if pl_drain p then sc_pending (sy_spans s) else [])\<rparr>),
      s\<lparr>sy_spans := (if pl_drain p then (sy_spans s)\<lparr>sc_pending := []\<rparr> else sy_spans s)\<rparr>)"
    using assms unfolding merge_and_close_def bnd_def merge_run by (simp add: ret_def)
  then show ?thesis by blast
qed

text \<open>A transaction under a new key that only records something in the tables.\<close>

definition table_write :: "payload \<Rightarrow> bool" where
  "table_write p \<longleftrightarrow> \<not> is_session_close p \<and> \<not> pl_update_world p \<and> pl_snapshot p = None"

definition wrote :: "rt_env \<Rightarrow> payload \<Rightarrow> sys \<Rightarrow> sys \<Rightarrow> bool" where
  "wrote R p s t \<longleftrightarrow> same_process s t \<and> sy_replay t = sy_replay s \<and>
     (\<exists>e. sy_db t = write_db p e None (sy_db s) \<and> ev_key e = payload_key (re_env R) p \<and> ev_type e = pl_type p \<and>
        ev_correlation e = pl_correlation p \<and> ev_payload e = pl_body p)"

lemma persist_new:
  assumes "table_write p" and "payload_key (re_env R) p \<notin> set (outbox_keys s)"
  obtains r s' where "persist_runtime_tx R p s = (Inr r, s')" and "wrote R p s s'"
proof -
  have plain: "\<not> is_session_close p" "pl_snapshot p = None" "\<not> pl_update_world p" using assms(1) by (simp_all add: table_write_def)
  obtain e ins s' where r: "persist_runtime_tx R p s = (Inr (e, ins), s')" using persist_tx_total [OF plain(1)] by blast
  from r have "wrote R p s s'"
  proof (cases rule: persist_tx_cases)
    case (replayed p2 n m t)
    then have "payload_key (re_env R) p \<in> ev_key ` set (db_outbox (sy_db s))" using outbox_lookup_Some by (metis imageI)
    then show ?thesis using assms(2) by (simp add: outbox_keys_def)
  next
    case (inserted p2 n m t snap)
    obtain us c where "merge_and_close R p (s\<lparr>sy_uuid := n, sy_clock := m\<rparr>) = (Inr (p\<lparr>pl_spans := us\<rparr>), s\<lparr>sy_uuid := n, sy_clock := m, sy_spans := c\<rparr>)"
      using merge_and_close_plain [OF plain(1)] by blast
    then have t: "p2 = p\<lparr>pl_spans := us\<rparr>" "t = s\<lparr>sy_uuid := n, sy_clock := m, sy_spans := c\<rparr>" using inserted(3) by auto
    have w: "write_db (p\<lparr>pl_spans := us\<rparr>) e snap d = write_db p e snap d" for d by (simp add: write_db_def)
    have "snap = None" using inserted(6) plain(3) by (simp add: snap_ok_def)
    then show ?thesis
      unfolding wrote_def inserted(7)
      by (intro conjI exI [of _ e])
        (use t plain inserted(5) in \<open>simp_all add: w outbox_event_of_def write_snapshot_def same_process_def\<close>)
  qed
  then show thesis using r that by blast
qed

lemma wrote_tables:
  assumes "wrote R p s t"
  shows "outbox_keys t = outbox_keys s @ [payload_key (re_env R) p]"
    and "db_transitions (sy_db t) = db_transitions (sy_db s) @ (case pl_transition p of None \<Rightarrow> [] | Some x \<Rightarrow> [x])"
    and "sy_replay t = sy_replay s" and "same_process s t"
    and "pl_decision p = None \<Longrightarrow> db_decisions (sy_db t) = db_decisions (sy_db s)"
    and "pl_effect p = None \<Longrightarrow> db_effects (sy_db t) = db_effects (sy_db s)"
    and "db_world (sy_db t) = db_world (sy_db s)"
  using assms by (auto simp: wrote_def outbox_keys_def)

text \<open>Tool calls, spans and readings of the clock lie between the transactions.\<close>

lemma wrote_between: "same_stores s s1 \<Longrightarrow> wrote R p s1 t \<Longrightarrow> wrote R p s t" and wrote_then: "wrote R p s t \<Longrightarrow> same_stores t u \<Longrightarrow> wrote R p s u"
  by (auto simp: wrote_def same_stores_def same_process_def)

fun wrote_all :: "rt_env \<Rightarrow> payload list \<Rightarrow> sys \<Rightarrow> sys \<Rightarrow> bool" where
  "wrote_all R [] s t = same_stores s t"
| "wrote_all R (p # ps) s t = (\<exists>u. wrote R p s u \<and> wrote_all R ps u t)"

lemma wrote_all_tables:
  assumes "wrote_all R ps s t"
  shows "outbox_keys t = outbox_keys s @ map (payload_key (re_env R)) ps"
    and "db_transitions (sy_db t) = db_transitions (sy_db s) @ concat (map (\<lambda>p. case pl_transition p of None \<Rightarrow> [] | Some x \<Rightarrow> [x]) ps)"
    and "sy_replay t = sy_replay s" and "same_process s t"
  using assms
proof (induction ps arbitrary: s)
  case Nil
  {
    case 1
    then show ?case by (simp add: same_stores_def outbox_keys_def)
  next
    case 2
    then show ?case by (simp add: same_stores_def)
  next
    case 3
    then show ?case by (simp add: same_stores_def)
  next
    case 4
    then show ?case by (simp add: same_stores_def same_process_def)
  }
next
  case (Cons p ps)
  {
    case 1
    then show ?case using Cons.IH(1) wrote_tables(1) by force
  next
    case 2
    then show ?case using Cons.IH(2) wrote_tables(2) by force
  next
    case 3
    then show ?case using Cons.IH(3) wrote_tables(3) by force
  next
    case 4
    then show ?case using Cons.IH(4) wrote_tables(4) same_process_trans by (metis wrote_all.simps(2))
  }
qed

lemma wrote_all_outbox:
  assumes "wrote_all R ps s t"
  shows "\<exists>es. db_outbox (sy_db t) = db_outbox (sy_db s) @ es \<and>
    map (\<lambda>e. (ev_type e, ev_correlation e, ev_payload e)) es = map (\<lambda>p. (pl_type p, pl_correlation p, pl_body p)) ps"
  using assms
proof (induction ps arbitrary: s)
  case Nil
  then show ?case by (simp add: same_stores_def)
next
  case (Cons p ps)
  then obtain u where u: "wrote R p s u" "wrote_all R ps u t" by auto
  obtain e where e: "db_outbox (sy_db u) = db_outbox (sy_db s) @ [e]" "ev_type e = pl_type p" "ev_correlation e = pl_correlation p" "ev_payload e = pl_body p"
    using u(1) by (auto simp: wrote_def)
  from Cons.IH [OF u(2)] obtain es where "db_outbox (sy_db t) = db_outbox (sy_db u) @ es"
    "map (\<lambda>e. (ev_type e, ev_correlation e, ev_payload e)) es = map (\<lambda>p. (pl_type p, pl_correlation p, pl_body p)) ps" by blast
  then show ?case using e by (intro exI [of _ "e # es"]) simp
qed

section \<open>The journal of the state machine\<close>

definition move :: "state_machine \<Rightarrow> runtime_state \<Rightarrow> time \<Rightarrow> state_machine" where
  "move sm to t = sm\<lparr>sm_state := to, sm_history := sm_history sm @ [(to, t)]\<rparr>"

definition move_payload :: "state_machine \<Rightarrow> runtime_state \<Rightarrow> string \<Rightarrow> payload" where
  "move_payload sm to sid = transition_payload (move sm to 0) (state_value (sm_state sm)) (state_value to) sid"

lemma move_fields [simp]:
  "sm_state (move sm to t) = to" "sm_correlation (move sm to t) = sm_correlation sm"
  "history_states (move sm to t) = history_states sm @ [to]" "length (sm_history (move sm to t)) = Suc (length (sm_history sm))"
  by (simp_all add: move_def history_states_def)

lemma move_payload_at: "transition_payload (move sm to t) (state_value (sm_state sm)) (state_value to) sid = move_payload sm to sid"
  by (simp add: move_payload_def transition_payload_def)

lemma move_payload_fields [simp]:
  "table_write (move_payload sm to sid)" "pl_type (move_payload sm to sid) = ''runtime.transition''"
  "pl_transition (move_payload sm to sid) = Some \<lparr>pt_correlation = sm_correlation sm, pt_session = sid,
     pt_from = state_value (sm_state sm), pt_to = state_value to\<rparr>"
  "pl_decision (move_payload sm to sid) = None" "pl_effect (move_payload sm to sid) = None"
  "pl_correlation (move_payload sm to sid) = sm_correlation sm"
  by (simp_all add: move_payload_def transition_payload_def table_write_def new_payload_def is_session_close_def)

text \<open>A request for a transition: refused without a trace in the tables, or recorded.\<close>

lemma record_transition_started:
  obtains u c where "record_transition R sm to sid s =
    bnd (sm_call_at R (\<lambda>t. transition t to) sm) (\<lambda>sm'. seqc (span_end R u SP_OK [])
      (bnd (persist_runtime_tx R (transition_payload sm' (state_value (sm_state sm)) (state_value to) sid)) (\<lambda>_. ret sm')))
      (s\<lparr>sy_uuid := sy_uuid s + 1, sy_clock := sy_clock s + 1, sy_spans := c\<rparr>)"
  unfolding record_transition_def Let_def span_start_run by blast

lemma record_transition_refused:
  assumes "\<not> lc.step_ok (sm_state sm) to"
  obtains s' where "record_transition R sm to sid s = (Inl (InvalidStateTransition (sm_state sm) to), s')" and "same_stores s s'"
proof -
  obtain u c where r: "record_transition R sm to sid s =
    bnd (sm_call_at R (\<lambda>t. transition t to) sm) (\<lambda>sm'. seqc (span_end R u SP_OK [])
      (bnd (persist_runtime_tx R (transition_payload sm' (state_value (sm_state sm)) (state_value to) sid)) (\<lambda>_. ret sm')))
      (s\<lparr>sy_uuid := sy_uuid s + 1, sy_clock := sy_clock s + 1, sy_spans := c\<rparr>)" by (rule record_transition_started)
  have "transition t to sm = (Inl (InvalidStateTransition (sm_state sm) to), sm)" for t
    using assms by (auto simp: transition_def lc.step_ok_def)
  then have "record_transition R sm to sid s = (Inl (InvalidStateTransition (sm_state sm) to),
      s\<lparr>sy_uuid := sy_uuid s + 1, sy_clock := sy_clock s + 2, sy_spans := c\<rparr>)"
    unfolding r by (simp add: sm_call_at_def clock_run bnd_assoc bnd_raise) (simp add: raise_def)
  then show thesis by (rule that) simp
qed

lemma record_transition_allowed:
  assumes "lc.step_ok (sm_state sm) to"
  obtains n d where "record_transition R sm to sid s = bnd (persist_runtime_tx R (move_payload sm to sid)) (\<lambda>_. ret (move sm to (re_now R (Suc (sy_clock s)))))
      (s\<lparr>sy_uuid := sy_uuid s + 1, sy_clock := n, sy_spans := d\<rparr>)"
proof -
  obtain u c where r: "record_transition R sm to sid s =
    bnd (sm_call_at R (\<lambda>t. transition t to) sm) (\<lambda>sm'. seqc (span_end R u SP_OK [])
      (bnd (persist_runtime_tx R (transition_payload sm' (state_value (sm_state sm)) (state_value to) sid)) (\<lambda>_. ret sm')))
      (s\<lparr>sy_uuid := sy_uuid s + 1, sy_clock := sy_clock s + 1, sy_spans := c\<rparr>)" by (rule record_transition_started)
  have tr: "transition t to sm = (Inr to, move sm to t)" for t
    using assms by (auto simp: transition_def move_def lc.step_ok_def)
  show thesis
    by (rule that) (unfold r, simp add: sm_call_at_def clock_run bnd_assoc bnd_ret tr seqc_def span_end_run move_payload_at)
qed

lemma record_transition_done:
  assumes "lc.step_ok (sm_state sm) to" and "payload_key (re_env R) (move_payload sm to sid) \<notin> set (outbox_keys s)"
  obtains t s' where "record_transition R sm to sid s = (Inr (move sm to t), s')" and "wrote R (move_payload sm to sid) s s'"
proof -
  let ?t = "re_now R (Suc (sy_clock s))"
  obtain n d where e: "record_transition R sm to sid s = bnd (persist_runtime_tx R (move_payload sm to sid)) (\<lambda>_. ret (move sm to ?t))
      (s\<lparr>sy_uuid := sy_uuid s + 1, sy_clock := n, sy_spans := d\<rparr>)" by (rule record_transition_allowed [OF assms(1)])
  let ?s = "s\<lparr>sy_uuid := sy_uuid s + 1, sy_clock := n, sy_spans := d\<rparr>"
  have "payload_key (re_env R) (move_payload sm to sid) \<notin> set (outbox_keys ?s)" using assms(2) by (simp add: outbox_keys_def)
  then obtain x s' where p: "persist_runtime_tx R (move_payload sm to sid) ?s = (Inr x, s')" "wrote R (move_payload sm to sid) ?s s'"
    using persist_new [of "move_payload sm to sid" R ?s] by auto
  have "wrote R (move_payload sm to sid) s s'" using p(2) by (intro wrote_between [of s ?s]) simp_all
  moreover have "record_transition R sm to sid s = (Inr (move sm to ?t), s')"
    unfolding e unfolding bnd_def p(1) by (simp add: ret_def)
  ultimately show thesis using that by blast
qed

text \<open>The machine and the persisted transitions of its session say the same.\<close>

definition journal :: "state_machine \<Rightarrow> string \<Rightarrow> sys \<Rightarrow> bool" where
  "journal sm sid s \<longleftrightarrow> (\<exists>states. history_states sm = PERCEIVING # states \<and> lc.path_from PERCEIVING states \<and>
     sm_state sm = last (PERCEIVING # states) \<and> map edge (get_runtime_transitions (sy_db s) sid) = steps_of PERCEIVING states)"

lemma steps_of_snoc: "steps_of a (bs @ [c]) = steps_of a bs @ [(state_value (last (a # bs)), state_value c)]"
  by (induction bs arbitrary: a) auto

lemma journal_move:
  assumes "journal sm sid s" and "lc.step_ok (sm_state sm) to" and "wrote R (move_payload sm to sid) s s'"
  shows "journal (move sm to t) sid s'"
proof -
  obtain states where j: "history_states sm = PERCEIVING # states" "lc.path_from PERCEIVING states"
    "sm_state sm = last (PERCEIVING # states)" "map edge (get_runtime_transitions (sy_db s) sid) = steps_of PERCEIVING states"
    using assms(1) by (auto simp: journal_def)
  have "lc.path_from PERCEIVING (states @ [to])" using j assms(2) lc.path_snoc by simp
  moreover have "map edge (get_runtime_transitions (sy_db s') sid) = steps_of PERCEIVING (states @ [to])"
    using j(3,4) wrote_tables(2) [OF assms(3)] by (simp add: get_runtime_transitions_def steps_of_snoc)
  ultimately show ?thesis unfolding journal_def by (intro exI [of _ "states @ [to]"]) (simp add: j(1))
qed

lemma journal_same: "same_stores s t \<Longrightarrow> journal sm sid t = journal sm sid s"
  by (simp add: journal_def same_stores_def)

lemma journal_replays:
  assumes "journal sm sid s"
  shows "\<exists>sm'. replay_transitions (get_runtime_transitions (sy_db s) sid) (new_sm cid sid) = (Inr (), sm') \<and> sm_state sm' = sm_state sm"
proof -
  obtain states where "lc.path_from PERCEIVING states" "sm_state sm = last (PERCEIVING # states)"
    "map edge (get_runtime_transitions (sy_db s) sid) = steps_of PERCEIVING states"
    using assms by (auto simp: journal_def)
  then show ?thesis
    using replay_each_path [of "(new_sm cid sid)\<lparr>sm_state := PERCEIVING, sm_history := [(PERCEIVING, 0)]\<rparr>" states]
    by (simp add: replay_start)
qed

lemma start_run: "sm_call_at R start (new_sm cid sid) s = (Inr (move (new_sm cid sid) PERCEIVING (re_now R (sy_clock s))), s\<lparr>sy_clock := sy_clock s + 1\<rparr>)"
  by (simp add: sm_call_at_def clock_run start_def transition_def new_sm_def move_def ret_def)

lemma journal_start: "get_runtime_transitions (sy_db s) sid = [] \<Longrightarrow> journal (move (new_sm cid sid) PERCEIVING t) sid s"
  unfolding journal_def by (intro exI [of _ "[]"]) (simp add: new_sm_def history_states_def move_def)

text \<open>C12: the persisted transitions refine the state machine: while the transitions stored for a session are the steps of its machine's
  history (as they are when a machine starts on a session that has none), a step outside the table raises
  \<open>InvalidStateTransition\<close> and stores nothing, and an allowed step whose idempotency key is new returns the moved machine and
  stores exactly that step, so that the stored transitions are again the steps of its history; and such stored transitions
  always replay, to the state that the machine is in.\<close>

theorem transitions_refine_machine:
  assumes "journal sm sid s" and "payload_key (re_env R) (move_payload sm to sid) \<notin> set (outbox_keys s)"
  shows "(if lc.step_ok (sm_state sm) to
     then \<exists>t s'. record_transition R sm to sid s = (Inr (move sm to t), s') \<and> journal (move sm to t) sid s' \<and>
       db_transitions (sy_db s') = db_transitions (sy_db s) @ [\<lparr>pt_correlation = sm_correlation sm, pt_session = sid,
         pt_from = state_value (sm_state sm), pt_to = state_value to\<rparr>]
     else \<exists>s'. record_transition R sm to sid s = (Inl (InvalidStateTransition (sm_state sm) to), s') \<and> sy_db s' = sy_db s) \<and>
   (\<exists>sm'. replay_transitions (get_runtime_transitions (sy_db s) sid) (new_sm cid sid) = (Inr (), sm') \<and> sm_state sm' = sm_state sm)"
proof (cases "lc.step_ok (sm_state sm) to")
  case True
  obtain t s' where r: "record_transition R sm to sid s = (Inr (move sm to t), s')" "wrote R (move_payload sm to sid) s s'"
    by (rule record_transition_done [OF True assms(2)])
  then show ?thesis
    using journal_move [OF assms(1) True r(2), of t] wrote_tables(2) [OF r(2)] journal_replays [OF assms(1)] True
    by (simp only: if_True move_payload_fields option.case simp_thms) blast
next
  case False
  obtain s' where "record_transition R sm to sid s = (Inl (InvalidStateTransition (sm_state sm) to), s')" "same_stores s s'"
    by (rule record_transition_refused [OF False])
  then show ?thesis using journal_replays [OF assms(1)] False by (simp add: same_stores_def)
qed

theorem transitions_refine_machine_witness:
  "\<exists>t s'. record_transition demo_env (move (new_sm ''c'' ''s'') PERCEIVING 0) REASONING ''s'' init_sys =
     (Inr (move (move (new_sm ''c'' ''s'') PERCEIVING 0) REASONING t), s')"
proof -
  let ?sm = "move (new_sm ''c'' ''s'') PERCEIVING 0"
  have j: "journal ?sm ''s'' init_sys"
    by (rule journal_start) (simp add: init_sys_def reset_db_def get_runtime_transitions_def)
  have k: "payload_key (re_env demo_env) (move_payload ?sm REASONING ''s'') \<notin> set (outbox_keys init_sys)"
    by (simp add: outbox_keys_def init_sys_def reset_db_def)
  have "lc.step_ok (sm_state ?sm) REASONING" by (simp add: lc.step_ok_def)
  then show ?thesis using transitions_refine_machine [OF j k, of "''c''"] by auto
qed

section \<open>A deterministic request\<close>

text \<open>What a deterministic request writes before it closes the session.\<close>

definition deterministic_payloads :: "string \<Rightarrow> string \<Rightarrow> string \<Rightarrow> payload list" where
  "deterministic_payloads cid sid tool =
     (let m0 = move (new_sm cid sid) PERCEIVING 0; m1 = move m0 REASONING 0; m2 = move m1 WAITING_TOOL 0 in
      [move_payload m0 REASONING sid, intent_payload cid sid (deterministic_intent tool),
       move_payload m1 WAITING_TOOL sid, move_payload m2 OBSERVING sid])"

lemma move_payload_cong:
  "sm_correlation a = sm_correlation b \<Longrightarrow> sm_state a = sm_state b \<Longrightarrow> length (sm_history a) = length (sm_history b) \<Longrightarrow>
     move_payload a to sid = move_payload b to sid"
  by (simp add: move_payload_def transition_payload_def)

lemma intent_fields [simp]:
  "table_write (intent_payload cid sid body)" "pl_type (intent_payload cid sid body) = ''founder.intent''"
  "pl_transition (intent_payload cid sid body) = None" "pl_correlation (intent_payload cid sid body) = cid"
  "pl_body (intent_payload cid sid body) = body" "pl_decision (intent_payload cid sid body) = None" "pl_effect (intent_payload cid sid body) = None"
  by (simp_all add: intent_payload_def table_write_def new_payload_def is_session_close_def)

lemma new_sm_fields [simp]: "sm_correlation (new_sm cid sid) = cid" "sm_state (new_sm cid sid) = IDLE" "sm_history (new_sm cid sid) = []"
  by (simp_all add: new_sm_def)

lemma complete_run:
  assumes "lc.step_ok (sm_state sm) COMPLETED"
  shows "sm_call_at R complete sm s = (Inr (move sm COMPLETED (re_now R (sy_clock s))), s\<lparr>sy_clock := sy_clock s + 1\<rparr>)"
  using assms by (auto simp: sm_call_at_def clock_run complete_def transition_def move_def ret_def lc.step_ok_def)

lemma deterministic_started:
  obtains orch t0 s0 where "same_stores s s0"
    and "run_deterministic_tool R reg tool agent cid sid params s =
      deterministic_steps R reg tool agent cid sid params orch (move (new_sm cid sid) PERCEIVING t0) s0"
proof -
  have "\<exists>orch t0 n m c. run_deterministic_tool R reg tool agent cid sid params s =
      deterministic_steps R reg tool agent cid sid params orch (move (new_sm cid sid) PERCEIVING t0)
        (s\<lparr>sy_uuid := n, sy_spans := c, sy_clock := m\<rparr>)"
    unfolding run_deterministic_tool_def span_begin_def on_spans_def seqc_def bnd_mods span_start_run
      bnd_def [of "sm_call_at R start (new_sm cid sid)"] start_run prod.case sum.case
    by (intro exI) simp
  then obtain orch t0 n m c where "run_deterministic_tool R reg tool agent cid sid params s =
      deterministic_steps R reg tool agent cid sid params orch (move (new_sm cid sid) PERCEIVING t0)
        (s\<lparr>sy_uuid := n, sy_spans := c, sy_clock := m\<rparr>)" by blast
  then show thesis by (rule that [rotated]) simp
qed

lemma deterministic_steps_run:
  assumes "tool \<notin> github_tools" and "distinct (map (payload_key (re_env R)) (deterministic_payloads cid sid tool))"
    and "set (map (payload_key (re_env R)) (deterministic_payloads cid sid tool)) \<inter> set (outbox_keys s) = {}" and "binds params"
  obtains r u where "wrote_all R (deterministic_payloads cid sid tool) s u"
    and "deterministic_steps R reg tool agent cid sid params orch (move (new_sm cid sid) PERCEIVING t0) s =
      bnd (persist_runtime_tx R (deterministic_close cid sid tool r)) (\<lambda>_. ret r) u"
proof -
  let ?k = "payload_key (re_env R)" and ?m0 = "move (new_sm cid sid) PERCEIVING t0"
  let ?p1 = "move_payload ?m0 REASONING sid" and ?p2 = "intent_payload cid sid (deterministic_intent tool)"
  let ?p3 = "\<lambda>t1. move_payload (move ?m0 REASONING t1) WAITING_TOOL sid"
  let ?p4 = "\<lambda>t1 t2. move_payload (move (move ?m0 REASONING t1) WAITING_TOOL t2) OBSERVING sid"
  have ps: "deterministic_payloads cid sid tool = [?p1, ?p2, ?p3 t1, ?p4 t1 t2]" for t1 t2
    unfolding deterministic_payloads_def Let_def by (simp add: move_payload_cong)
  note fresh = assms(2,3) [unfolded ps [of 0 0]]
  have p34: "?p3 t1 = ?p3 0" "?p4 t1 t2 = ?p4 0 0" for t1 t2 by (rule move_payload_cong, simp_all)+
  obtain t1 s1 where r1: "record_transition R ?m0 REASONING sid s = (Inr (move ?m0 REASONING t1), s1)" "wrote R ?p1 s s1"
    by (rule record_transition_done [of ?m0 REASONING R sid s]) (use fresh in \<open>simp_all add: lc.step_ok_def\<close>)
  let ?m1 = "move ?m0 REASONING t1"
  obtain x2 s2 where r2: "persist_runtime_tx R ?p2 s1 = (Inr x2, s2)" "wrote R ?p2 s1 s2"
    by (rule persist_new [of ?p2 R s1]) (use fresh wrote_tables(1) [OF r1(2)] in auto)
  obtain t2 s3 where r3: "record_transition R ?m1 WAITING_TOOL sid s2 = (Inr (move ?m1 WAITING_TOOL t2), s3)" "wrote R (?p3 t1) s2 s3"
    by (rule record_transition_done [of ?m1 WAITING_TOOL R sid s2])
      (use fresh wrote_tables(1) [OF r1(2)] wrote_tables(1) [OF r2(2)] p34 [of t1] in \<open>auto simp: lc.step_ok_def\<close>)
  let ?m2 = "move ?m1 WAITING_TOOL t2"
  obtain r s4 where r4: "execute_tool R reg tool agent cid params (Some sid) 0 s3 = (Inr r, s4)"
    by (rule alwaysE [OF execute_tool_returns [OF assms(1,4)]])
  have "wrote R (?p3 t1) s2 s4"
    by (rule wrote_then [OF r3(2)]) (rule keepsD [OF execute_tool_keeps same_stores_refl r4])
  note w3 = this
  obtain t3 s5 where r5: "record_transition R ?m2 OBSERVING sid s4 = (Inr (move ?m2 OBSERVING t3), s5)" "wrote R (?p4 t1 t2) s4 s5"
    by (rule record_transition_done [of ?m2 OBSERVING R sid s4])
      (use fresh wrote_tables(1) [OF r1(2)] wrote_tables(1) [OF r2(2)] wrote_tables(1) [OF w3] p34 [of t1] p34(2) [of t1 t2] in
        \<open>auto simp: lc.step_ok_def\<close>)
  let ?m3 = "move ?m2 OBSERVING t3"
  have r6: "sm_call_at R complete ?m3 s5 = (Inr (move ?m3 COMPLETED (re_now R (sy_clock s5))), s5\<lparr>sy_clock := sy_clock s5 + 1\<rparr>)"
    by (rule complete_run) (simp add: lc.step_ok_def)
  have "wrote_all R (deterministic_payloads cid sid tool) s (s5\<lparr>sy_clock := c, sy_spans := d\<rparr>)" for c d
    unfolding ps [of t1 t2] wrote_all.simps
    by (intro exI conjI) (rule r1(2), rule r2(2), rule w3, rule r5(2), simp)
  moreover have "\<exists>c d. deterministic_steps R reg tool agent cid sid params orch ?m0 s =
      bnd (persist_runtime_tx R (deterministic_close cid sid tool r)) (\<lambda>_. ret r) (s5\<lparr>sy_clock := c, sy_spans := d\<rparr>)"
    unfolding deterministic_steps_def bnd_def [of "record_transition _ _ _ _"] bnd_def [of "execute_tool _ _ _ _ _ _ _ _"]
      bnd_def [of "persist_runtime_tx R (intent_payload _ _ _)"] bnd_def [of "sm_call_at _ _ _"] r1(1) r2(1) r3(1) r4 r5(1) r6 prod.case sum.case
      seqc_def span_end_run
    by (intro exI) simp
  ultimately show thesis using that by blast
qed

text \<open>A session without snapshots whose transitions replay and whose correlation has one intent naming a tool.\<close>

lemma run_of_journal:
  assumes "journal sm sid s" and "get_replay_snapshots s sid = []" and "get_replay_baseline_meta s sid = None"
    and "filter (\<lambda>e. ev_type e = ''founder.intent'') (get_events_by_correlation (sy_db s) cid) = [e]"
    and "ev_payload e = deterministic_intent tool" and "tool \<noteq> ''''" and "COMPLETED \<in> valid_targets (sm_state sm)"
  shows "\<exists>oc. run_from_session sid cid s = Inr oc \<and> oc_tools oc = [tool] \<and> oc_final_state oc = ''completed''"
proof -
  have intent: "intent_tool_of (get_events_by_correlation (sy_db s) cid) = Inr (Some tool)"
    using assms(4-6) by (simp add: intent_tool_of_def intent_of_payload_def deterministic_intent_def opt_truthy_def last_opt_def vgetd_def)
  let ?b = "\<lparr>bu_session = sid, bu_correlation = cid, bu_version = ''rrm15-legacy'', bu_world_version = 0,
     bu_policy_snapshot = policy_snapshot_of (get_events_by_correlation (sy_db s) cid), bu_steps = [],
     bu_transitions = get_runtime_transitions (sy_db s) sid, bu_intent_tool = Some tool\<rparr>"
  have b: "load_bundle sid cid s = Inr ?b" by (simp add: load_bundle_def assms(2,3) intent Let_def)
  obtain sm' where r: "replay_transitions (get_runtime_transitions (sy_db s) sid) (new_sm cid sid) = (Inr (), sm')" "sm_state sm' = sm_state sm"
    using journal_replays [OF assms(1)] by blast
  have t: "collect_tool_sequence ?b = [tool]" using assms(6) by (simp add: collect_tool_sequence_def)
  have "\<exists>oc. frozen_run ?b s = Inr oc \<and> oc_tools oc = [tool] \<and> oc_final_state oc = ''completed''"
    using assms(6,7) by (simp add: frozen_run_def str_or_def r t verify_delegation_routing_def verify_step_runtime_states_def
        finish_replay_def last_opt_def)
  then show ?thesis by (simp add: run_from_session_def b)
qed

lemma deterministic_close_plain: "plain_close (deterministic_close cid sid tool r)" "pl_session (deterministic_close cid sid tool r) = sid"
  "pl_correlation (deterministic_close cid sid tool r) = cid" "pl_transition (deterministic_close cid sid tool r) = None"
  by (simp_all add: deterministic_close_def close_payload_def plain_close_def is_session_close_def new_payload_def)

lemma deterministic_written:
  assumes "wrote_all R (deterministic_payloads cid sid tool) s u" and "get_runtime_transitions (sy_db s) sid = []"
    and "get_events_by_correlation (sy_db s) cid = []"
  shows "journal (move (move (move (move (new_sm cid sid) PERCEIVING 0) REASONING 0) WAITING_TOOL 0) OBSERVING 0) sid u"
    and "\<exists>e. filter (\<lambda>e. ev_type e = ''founder.intent'') (get_events_by_correlation (sy_db u) cid) = [e] \<and> ev_payload e = deterministic_intent tool"
proof -
  have ts: "map edge (get_runtime_transitions (sy_db u) sid) = steps_of PERCEIVING [REASONING, WAITING_TOOL, OBSERVING]"
    using assms(2) wrote_all_tables(2) [OF assms(1)] by (simp add: get_runtime_transitions_def deterministic_payloads_def Let_def)
  show "journal (move (move (move (move (new_sm cid sid) PERCEIVING 0) REASONING 0) WAITING_TOOL 0) OBSERVING 0) sid u"
    unfolding journal_def
    by (rule exI [of _ "[REASONING, WAITING_TOOL, OBSERVING]"]) (simp add: ts lc.step_ok_def history_states_def [of "new_sm _ _"])
  obtain es where es: "db_outbox (sy_db u) = db_outbox (sy_db s) @ es"
    "map (\<lambda>e. (ev_type e, ev_correlation e, ev_payload e)) es = map (\<lambda>p. (pl_type p, pl_correlation p, pl_body p)) (deterministic_payloads cid sid tool)"
    using wrote_all_outbox [OF assms(1)] by blast
  then obtain a b c d where l: "es = [a, b, c, d]" by (auto simp: deterministic_payloads_def Let_def)
  have old: "filter (\<lambda>e. ev_correlation e = cid) (db_outbox (sy_db s)) = []"
    using assms(3) by (simp add: get_events_by_correlation_def) (metis length_0_conv length_sort)
  have "filter (\<lambda>e. ev_type e = ''founder.intent'') (filter (\<lambda>e. ev_correlation e = cid) (db_outbox (sy_db u))) = [b] \<and> ev_payload b = deterministic_intent tool"
    using es(2) by (simp add: es(1) l old deterministic_payloads_def Let_def)
  then show "\<exists>e. filter (\<lambda>e. ev_type e = ''founder.intent'') (get_events_by_correlation (sy_db u) cid) = [e] \<and> ev_payload e = deterministic_intent tool"
    by (intro exI [of _ b]) (simp add: get_events_by_correlation_def filter_sort)
qed

lemma deterministic_closes:
  assumes "tool \<notin> github_tools" and "tool \<noteq> ''''"
    and "distinct (map (payload_key (re_env R)) (deterministic_payloads cid sid tool))"
    and "set (map (payload_key (re_env R)) (deterministic_payloads cid sid tool)) \<inter> set (outbox_keys s) = {}"
    and "get_runtime_transitions (sy_db s) sid = []" and "get_events_by_correlation (sy_db s) cid = []"
    and "get_replay_snapshots s sid = []" and "get_replay_baseline_meta s sid = None" and "binds params"
  shows "\<exists>r s' oc fp. run_deterministic_tool R reg tool agent cid sid params s = (Inr r, s') \<and>
    map edge (get_runtime_transitions (sy_db s') sid) = steps_of PERCEIVING [REASONING, WAITING_TOOL, OBSERVING] \<and>
    run_from_session sid cid s' = Inr oc \<and> oc_tools oc = [tool] \<and> oc_final_state oc = ''completed'' \<and>
    fp = outcome_fingerprint (re_env R) oc \<and> validate_frozen_replay (re_env R) sid cid s' = Inr (True, fp, Some fp)"
proof -
  obtain orch t0 s0 where start: "same_stores s s0" "run_deterministic_tool R reg tool agent cid sid params s =
      deterministic_steps R reg tool agent cid sid params orch (move (new_sm cid sid) PERCEIVING t0) s0" by (rule deterministic_started)
  have s0: "sy_db s0 = sy_db s" "sy_replay s0 = sy_replay s" "outbox_keys s0 = outbox_keys s" using start(1) by (simp_all add: same_stores_def outbox_keys_def)
  obtain r u where u: "wrote_all R (deterministic_payloads cid sid tool) s0 u"
    "run_deterministic_tool R reg tool agent cid sid params s = bnd (persist_runtime_tx R (deterministic_close cid sid tool r)) (\<lambda>_. ret r) u"
    using deterministic_steps_run [OF assms(1,3), of s0] assms(4,9) unfolding start(2) s0(3) by blast
  let ?p = "deterministic_close cid sid tool r"
  have ju: "journal (move (move (move (move (new_sm cid sid) PERCEIVING 0) REASONING 0) WAITING_TOOL 0) OBSERVING 0) sid u"
    using deterministic_written(1) [OF u(1)] assms(5,6) by (simp add: s0)
  obtain e where e: "filter (\<lambda>e. ev_type e = ''founder.intent'') (get_events_by_correlation (sy_db u) cid) = [e]" "ev_payload e = deterministic_intent tool"
    using deterministic_written(2) [OF u(1)] assms(5,6) unfolding s0 by blast
  have "sy_replay u = sy_replay s" using wrote_all_tables(3) [OF u(1)] s0 by simp
  then have rp: "get_replay_snapshots u sid = []" "get_replay_baseline_meta u sid = None"
    using assms(7,8) by (simp_all add: get_replay_snapshots_def get_replay_baseline_meta_def)
  obtain oc where oc: "run_from_session sid cid u = Inr oc" "oc_tools oc = [tool]" "oc_final_state oc = ''completed''"
    using run_of_journal [OF ju rp e assms(2)] by auto
  have "\<exists>oc. run_from_session sid cid t = Inr oc" if "same_ledger u t" "sy_replay t = sy_replay u" for t
  proof -
    have "run_from_session sid cid t = run_from_session sid cid u"
      by (rule run_from_session_cong)
        (use that in \<open>simp_all add: same_ledger_def get_replay_snapshots_def get_replay_baseline_meta_def\<close>)
    then show ?thesis using oc by simp
  qed
  then obtain x ins s' where p: "persist_runtime_tx R ?p u = (Inr (x, ins), s')"
    using persist_tx_returns [of R ?p u] by (auto simp: deterministic_close_plain)
  have tr: "get_runtime_transitions (sy_db s') sid = get_runtime_transitions (sy_db u) sid"
    by (rule close_tx [OF deterministic_close_plain(1) p]) (auto simp: get_runtime_transitions_def deterministic_close_plain)
  obtain oc' fp where v: "run_from_session sid cid u = Inr oc'" "run_from_session sid cid s' = Inr oc'" "fp = outcome_fingerprint (re_env R) oc'"
    "validate_frozen_replay (re_env R) sid cid s' = Inr (True, fp, Some fp)"
    using close_validates [OF deterministic_close_plain(1) p] unfolding deterministic_close_plain by blast
  have "map edge (get_runtime_transitions (sy_db s') sid) = steps_of PERCEIVING [REASONING, WAITING_TOOL, OBSERVING]"
    using ju unfolding tr by (auto simp: journal_def history_states_def [of "new_sm _ _"])
  moreover have "run_deterministic_tool R reg tool agent cid sid params s = (Inr r, s')"
    unfolding u(2) bnd_def p by (simp add: ret_def)
  moreover have same: "oc' = oc" using oc(1) v(1) by simp
  ultimately show ?thesis using v(2-4) oc(2,3) unfolding same by blast
qed

text \<open>C13: a deterministic request completes and leaves a session that replays: for every tool that does not call the GitHub server
  (registered or not, allowed or not) and all parameters that can be bound (a mapping without the keys \<open>tool_name\<close>, \<open>correlation_id\<close>,
  \<open>source\<close> and \<open>fn\<close>), on a session and a correlation that have nothing stored yet, if the idempotency keys of its
  four transactions are new and distinct, the request returns a result; the stored transitions of the session are then
  perceiving, reasoning, waiting for the tool, observing; its frozen replay completes with exactly this tool, and
  validating the session answers true with the fingerprint of that outcome.\<close>

theorem deterministic_request_closes:
  assumes "tool \<notin> github_tools" and "tool \<noteq> ''''"
    and "distinct (map (payload_key (re_env R)) (deterministic_payloads cid sid tool))"
    and "set (map (payload_key (re_env R)) (deterministic_payloads cid sid tool)) \<inter> set (outbox_keys s) = {}"
    and "get_runtime_transitions (sy_db s) sid = []" and "get_events_by_correlation (sy_db s) cid = []"
    and "get_replay_snapshots s sid = []" and "get_replay_baseline_meta s sid = None" and "binds params"
  shows "\<exists>r s' oc fp. run_deterministic_tool R reg tool agent cid sid params s = (Inr r, s') \<and>
    map edge (get_runtime_transitions (sy_db s') sid) = steps_of PERCEIVING [REASONING, WAITING_TOOL, OBSERVING] \<and>
    run_from_session sid cid s' = Inr oc \<and> oc_tools oc = [tool] \<and> oc_final_state oc = ''completed'' \<and>
    fp = outcome_fingerprint (re_env R) oc \<and> validate_frozen_replay (re_env R) sid cid s' = Inr (True, fp, Some fp)"
  using assms by (rule deterministic_closes)

text \<open>The witness: the digest is the business key.\<close>

definition business_env :: rt_env where
  "business_env = demo_env\<lparr>re_env := \<lparr>digest = (\<lambda>v. case vget v ''business_key'' of Some (PStr b) \<Rightarrow> b | _ \<Rightarrow> ''d''), sha256 = (\<lambda>_. ''s'')\<rparr>\<rparr>"

lemma business_key: "payload_key (re_env business_env) p = str_or (pl_business p) (pl_type p)"
  by (simp add: payload_key_def idempotency_key_def key_material_def stable_hash_def business_env_def build_dict_def VOLATILE_KEYS_def)

lemma business_keys: "map (payload_key (re_env business_env)) (deterministic_payloads ''c'' ''s'' ''detect_blockers'') =
    [''transition:perceiving:reasoning:2'', ''founder.intent'', ''transition:reasoning:waiting_tool:3'', ''transition:waiting_tool:observing:4'']"
proof -
  have n: "show_nat (Suc (Suc 0)) = ''2''" "show_nat (Suc (Suc (Suc 0))) = ''3''" "show_nat (Suc (Suc (Suc (Suc 0)))) = ''4''"
    by code_simp+
  show ?thesis
    by (simp add: business_key deterministic_payloads_def Let_def move_payload_def transition_payload_def intent_payload_def str_or_def n)
qed

text \<open>Nothing is stored at the start.\<close>

lemma fresh_init_sys: "outbox_keys init_sys = []" "get_runtime_transitions (sy_db init_sys) sid = []"
  "get_events_by_correlation (sy_db init_sys) cid = []" "get_replay_snapshots init_sys sid = []" "get_replay_baseline_meta init_sys sid = None"
  by (simp_all add: outbox_keys_def init_sys_def reset_db_def get_runtime_transitions_def get_events_by_correlation_def
    get_replay_snapshots_def get_replay_baseline_meta_def reset_replay_store_def get_replay_snapshots_memory_def
    get_baseline_record_memory_def dict_getd_def)

theorem deterministic_request_closes_witness:
  "\<exists>r s'. run_deterministic_tool business_env build_vs_registry ''detect_blockers'' ''coo'' ''c'' ''s'' None init_sys = (Inr r, s') \<and>
     map edge (get_runtime_transitions (sy_db s') ''s'') =
       [(''perceiving'', ''reasoning''), (''reasoning'', ''waiting_tool''), (''waiting_tool'', ''observing'')]"
proof -
  have "\<exists>r s' oc fp. run_deterministic_tool business_env build_vs_registry ''detect_blockers'' ''coo'' ''c'' ''s'' None init_sys = (Inr r, s') \<and>
    map edge (get_runtime_transitions (sy_db s') ''s'') = steps_of PERCEIVING [REASONING, WAITING_TOOL, OBSERVING] \<and>
    run_from_session ''s'' ''c'' s' = Inr oc \<and> oc_tools oc = [''detect_blockers''] \<and> oc_final_state oc = ''completed'' \<and>
    fp = outcome_fingerprint (re_env business_env) oc \<and> validate_frozen_replay (re_env business_env) ''s'' ''c'' s' = Inr (True, fp, Some fp)"
    by (rule deterministic_request_closes) (unfold business_keys, simp_all add: github_tools_def fresh_init_sys)
  then show ?thesis by auto
qed

section \<open>The lock of a request\<close>

text \<open>Nothing inside a request touches the lock table.\<close>

named_theorems lock_rules "operations that leave the lock table alone"

abbreviation locks_are :: "string list \<Rightarrow> sys \<Rightarrow> bool" where
  "locks_are L \<equiv> \<lambda>s. sy_locks s = L"

lemma locks_basic [lock_rules]:
  "keeps (locks_are L) (clock R)" "keeps (locks_are L) (fresh_uuid R)" "keeps (locks_are L) (outside f)"
  "keeps (locks_are L) (on_spans h)" "keeps (locks_are L) drain_spans" "keeps (locks_are L) (\<lambda>s. (g s, s))"
  by (simp_all add: keeps_def clock_def fresh_uuid_def outside_def on_spans_def mods_def drain_spans_def split: prod.split)

lemma locks_spans [lock_rules]:
  "keeps (locks_are L) (span_start R ty rs meta)" "keeps (locks_are L) (span_end R u st meta)" "keeps (locks_are L) (span_begin sid cid)"
  unfolding span_start_def span_end_def span_begin_def by (intro keeps_bnd keeps_seqc keeps_ret lock_rules)+

lemma keeps_same_locks: "(\<And>s0. keeps (same_stores s0) m) \<Longrightarrow> keeps (locks_are L) m"
  unfolding keeps_def same_stores_def by metis

lemma locks_tools [lock_rules]: "keeps (locks_are L) (execute_tool R reg tool agent cid raw sid xb)"
  by (rule keeps_same_locks) (rule execute_tool_keeps)

lemma locks_persist [lock_rules]: "keeps (locks_are L) (persist_runtime_tx R p)"
proof -
  have m: "keeps (locks_are L) (mods f)" if "\<And>s. sy_locks (f s) = sy_locks s" for f :: "sys \<Rightarrow> sys"
    using that by (intro keeps_mods) simp
  have n: "keeps (locks_are L) (next_world R p w)" for w
    unfolding next_world_def by (intro keeps_if keeps_bnd keeps_ret lock_rules)
  have c: "keeps (locks_are L) (merge_and_close R p)"
    unfolding merge_and_close_def merge_pending_spans_def complete_session_close_def compute_session_close_health_def
      build_session_diagnostics_only_def build_session_diagnostics_def persist_replay_baseline_def on_replay_def Let_def
    by (intro keeps_bnd keeps_seqc keeps_if keeps_ret keeps_reads lock_rules m) simp_all
  have a: "keeps (locks_are L) (persist_intelligence q)" "keeps (locks_are L) (apply_memory_runtime_persist q e snap)" for q e snap
    by (simp_all add: keeps_def persist_intelligence_run apply_memory_run)
  show ?thesis
    unfolding persist_runtime_tx_def Let_def
    by (auto split: option.split intro!: keeps_bnd keeps_seqc lock_rules n c a)
qed

lemma locks_sm_call [lock_rules]: "keeps (locks_are L) (sm_call_at R f sm)"
  unfolding sm_call_at_def by (auto split: prod.split sum.split intro!: keeps_bnd lock_rules)

lemma locks_transition [lock_rules]: "keeps (locks_are L) (record_transition R sm to sid)"
  unfolding record_transition_def Let_def by (intro keeps_bnd keeps_seqc keeps_ret lock_rules)

lemma locks_parts [lock_rules]:
  "keeps (locks_are L) (set_bias sid b)" "keeps (locks_are L) activate_crisis" "keeps (locks_are L) (record_run R aid ok lat)"
  "keeps (locks_are L) (agent_degraded aid)" "keeps (locks_are L) (reset_session_lineage sid)" "keeps (locks_are L) (set_counter cid n)"
  "keeps (locks_are L) (reset_retry_counter cid)" "keeps (locks_are L) (build_lineage R prompt sid cid fp strategy)"
  by (auto simp: keeps_def set_bias_def activate_crisis_def record_run_def agent_degraded_def reset_session_lineage_def set_counter_def
      reset_retry_counter_def build_lineage_def mods_def comp_simps Let_def bnd_def split: prod.split)

lemma keeps_case_option [lock_rules]:
  "keeps P m \<Longrightarrow> (\<And>x. keeps P (f x)) \<Longrightarrow> keeps P (case z of None \<Rightarrow> m | Some x \<Rightarrow> f x)"
  by (simp split: option.split)

lemma keeps_case_sum [lock_rules]:
  "(\<And>e. keeps P (g e)) \<Longrightarrow> (\<And>x. keeps P (f x)) \<Longrightarrow> keeps P (case z of Inl e \<Rightarrow> g e | Inr x \<Rightarrow> f x)"
  by (simp split: sum.split)

lemma keeps_case_prod [lock_rules]: "(\<And>x y. keeps P (f x y)) \<Longrightarrow> keeps P (case z of (x, y) \<Rightarrow> f x y)"
  by (simp split: prod.split)

lemmas frame_rules = keeps_bnd keeps_seqc keeps_if keeps_ret keeps_raise keeps_reads keeps_lift_res keeps_catch keeps_collect

lemma locks_analytics [lock_rules]: "keeps (locks_are L) (analyze_replay R reg sid cid mode)"
proof -
  have "keeps (locks_are L) (run_live_outcome R reg sid cid)" by (rule keeps_same_locks) (rule live_keeps)
  then show ?thesis unfolding analyze_replay_def Let_def by (auto intro!: frame_rules lock_rules)
qed

lemma locks_signals [lock_rules]: "keeps (locks_are L) (collect_adaptive_signals R sid cid hi)"
  unfolding collect_adaptive_signals_def by (intro frame_rules lock_rules)

lemma locks_policy [lock_rules]:
  "keeps (locks_are L) (resolve_adaptive_policy R reg sm sid cid force failure tel)"
  "keeps (locks_are L) (boundary_recompute_if_needed R reg sm sid cid tel trace)"
proof -
  have f: "keeps (locks_are L) (replay_feedback R reg sid cid force g)" for g force
    unfolding replay_feedback_def by (intro frame_rules lock_rules)
  have c: "keeps (locks_are L) (recompute_policy R reg sm sid cid force failure tel)" for sm force failure tel
    unfolding recompute_policy_def Let_def by (intro frame_rules lock_rules f)
  have r: "keeps (locks_are L) (resolve_adaptive_policy R reg sm sid cid force failure tel)" for sm force failure tel
    unfolding resolve_adaptive_policy_def by (intro frame_rules lock_rules c)
  show "keeps (locks_are L) (resolve_adaptive_policy R reg sm sid cid force failure tel)" by (rule r)
  show "keeps (locks_are L) (boundary_recompute_if_needed R reg sm sid cid tel trace)"
    unfolding boundary_recompute_if_needed_def Let_def by (intro frame_rules lock_rules r)
qed

lemma locks_context [lock_rules]:
  "keeps (locks_are L) (spanned_bundle R sm sid task active extra)" "keeps (locks_are L) (score_and_select R sid budget b)"
  "keeps (locks_are L) (compress_bundle R sid p b)" "keeps (locks_are L) (persist_context_priorities R sid cid scores suffix)"
proof -
  have m: "keeps (locks_are L) (mods (\<lambda>s. s\<lparr>sy_starts := x\<rparr>))" for x by (rule keeps_mods) simp
  show "keeps (locks_are L) (spanned_bundle R sm sid task active extra)"
    unfolding spanned_bundle_def build_bundle_def by (intro frame_rules lock_rules m)
  show "keeps (locks_are L) (score_and_select R sid budget b)"
    unfolding score_and_select_def session_age_def by (intro frame_rules lock_rules)
  show "keeps (locks_are L) (compress_bundle R sid p b)"
    unfolding compress_bundle_def by (intro frame_rules lock_rules)
  show "keeps (locks_are L) (persist_context_priorities R sid cid scores suffix)"
    unfolding persist_context_priorities_def by (intro frame_rules lock_rules)
qed

lemma locks_runner [lock_rules]: "keeps (locks_are L) (run_structured R prompt cls cid sid agent step budget)"
proof -
  have r: "keeps (locks_are L) (parse_rounds R cls raw cid k n a)" for raw k n a
    by (induction n arbitrary: k a) (auto intro!: frame_rules lock_rules)
  have p: "keeps (locks_are L) (try_parse R raw cls cid)" for raw
    unfolding try_parse_def parse_structured_response_def by (intro frame_rules lock_rules r)
  have c: "keeps (locks_are L) (close_run R u prompt cid sid agent st tr)" for u st tr
    unfolding close_run_def runner_telemetry_def by (intro frame_rules lock_rules)
  show ?thesis
    unfolding run_structured_def finish_run_def fallback_phase_def llm_phase_def Let_def by (intro frame_rules lock_rules p c)
qed

lemma locks_ceo [lock_rules]: "keeps (locks_are L) (run_ceo_analysis R reg input cid sid sm degraded policy)"
  unfolding run_ceo_analysis_def Let_def by (intro frame_rules lock_rules)

lemma locks_plan [lock_rules]: "keeps (locks_are L) (run_tool_plan R reg sid cid agent objective policy wv fp plan st)"
proof (induction plan arbitrary: st)
  case Nil
  then show ?case by simp
next
  case (Cons step plan)
  have u: "keeps (locks_are L) (use_tool R reg sid cid agent objective wv fp tool ps bias st)" for tool ps bias st
    unfolding use_tool_def Let_def by (intro frame_rules lock_rules)
  show ?case by (cases step) (simp only: run_tool_plan.simps Let_def, intro frame_rules lock_rules u Cons.IH)
qed

lemma locks_delegation [lock_rules]: "keeps (locks_are L) (delegate_to_specialist R reg m sid sm degraded policy)"
proof -
  have d: "keeps (locks_are L) (record_delegation R sid m agent policy sm rs summary)" for agent policy sm rs summary
    unfolding record_delegation_def Let_def by (intro frame_rules lock_rules)
  have c: "keeps (locks_are L) (delegate_context R reg sid m sm degraded policy)"
    unfolding delegate_context_def Let_def by (intro frame_rules lock_rules)
  have t: "keeps (locks_are L) (cto_tools R reg sid m sm policy w b)" for sm policy w b
    unfolding cto_tools_def Let_def by (intro frame_rules lock_rules)
  have r: "keeps (locks_are L) (cto_reasoning R reg sid m budget w b st)" for budget w b st
    unfolding cto_reasoning_def Let_def by (intro frame_rules lock_rules)
  show ?thesis unfolding delegate_to_specialist_def Let_def by (intro frame_rules lock_rules d c t r)
qed

lemma locks_request [lock_rules]: "keeps (locks_are L) (run_request R reg input sid cid orch)"
proof -
  have e: "keeps (locks_are L) (escalate_degraded R reg input cid sid sm u)" for sm u
    unfolding escalate_degraded_def by (intro frame_rules lock_rules)
  have c: "keeps (locks_are L) (cto_part R reg input cid sid policy ceo sm)" for policy ceo sm
    unfolding cto_part_def by (intro frame_rules lock_rules)
  have r: "keeps (locks_are L) (reason_and_close R reg input cid sid sm u)" for sm u
    unfolding reason_and_close_def Let_def by (intro frame_rules lock_rules c)
  show ?thesis unfolding run_request_def session_health_degraded_def by (intro frame_rules lock_rules e r)
qed

text \<open>Every result that a computation can return satisfies a predicate.\<close>

definition results :: "('a \<Rightarrow> bool) \<Rightarrow> ('s, 'e, 'a) comp \<Rightarrow> bool" where
  "results Q m \<longleftrightarrow> (\<forall>s x t. m s = (Inr x, t) \<longrightarrow> Q x)"

lemma results_ret: "Q x \<Longrightarrow> results Q (ret x)"
  by (simp add: results_def ret_def)

lemma results_bnd: "(\<And>x. results Q (f x)) \<Longrightarrow> results Q (bnd m f)"
  by (auto simp: results_def elim!: bnd_InrE)

lemma results_seqc: "results Q n \<Longrightarrow> results Q (seqc m n)"
  by (simp add: seqc_def results_bnd)

lemma results_if: "results Q m \<Longrightarrow> results Q n \<Longrightarrow> results Q (if b then m else n)"
  by simp

lemma results_case_prod: "(\<And>x y. results Q (f x y)) \<Longrightarrow> results Q (case z of (x, y) \<Rightarrow> f x y)"
  by (simp split: prod.split)

lemma request_unlocked: "results (\<lambda>r. \<forall>k. r \<noteq> LockedSession k) (run_request R reg input sid cid orch)"
  unfolding run_request_def reason_and_close_def Let_def
  by (intro results_bnd results_seqc results_if results_case_prod results_ret) simp_all

lemma agents_run:
  obtains r s' where "run_locked_agents R reg input sid cid s = (Inr r, s')" and "sy_locks s' = sy_locks s"
    and "\<And>k. r \<noteq> LockedSession k" and "get_session_approval_bias sid (sy_biases s') = 0"
proof -
  let ?req = "\<lambda>orch. catch (run_request R reg input sid cid orch) (\<lambda>e. True) (\<lambda>e. bnd (clock R) (\<lambda>now. ret (Failed sid cid (re_exn_str R e))))"
  have k: "keeps (locks_are L) (?req orch)" for orch L by (intro frame_rules lock_rules)
  have a: "\<exists>r t. ?req orch u = (Inr r, t) \<and> (\<forall>k. r \<noteq> LockedSession k)" for orch u
  proof -
    obtain x t where m: "run_request R reg input sid cid orch u = (x, t)" by (cases "run_request R reg input sid cid orch u")
    then show ?thesis
      using request_unlocked [of R reg input sid cid orch]
      by (cases x) (auto simp: catch_def clock_run ret_def results_def)
  qed
  have "\<exists>orch u. sy_locks u = sy_locks s \<and> run_locked_agents R reg input sid cid s =
      finally_do (?req orch) (\<lambda>s. s\<lparr>sy_biases := clear_session_approval_bias sid (sy_biases s)\<rparr>) u"
    unfolding run_locked_agents_def span_begin_def on_spans_def reset_session_lineage_def seqc_def bnd_mods clock_run span_start_run
    by (rule exI, rule exI, rule conjI [rotated], rule refl) simp
  then obtain orch u where u: "sy_locks u = sy_locks s" "run_locked_agents R reg input sid cid s =
      finally_do (?req orch) (\<lambda>s. s\<lparr>sy_biases := clear_session_approval_bias sid (sy_biases s)\<rparr>) u" by blast
  obtain r t where r: "?req orch u = (Inr r, t)" "\<And>k. r \<noteq> LockedSession k" using a by blast
  have "sy_locks t = sy_locks s" using keepsD [OF k [of "sy_locks s"] _ r(1)] u(1) by simp
  then show thesis
    by (intro that [of r "t\<lparr>sy_biases := clear_session_approval_bias sid (sy_biases t)\<rparr>"])
      (simp_all add: u(2) finally_do_def r get_session_approval_bias_def clear_session_approval_bias_def dict_getd_def)
qed

lemma request_ids_run:
  obtains cid sid n where "request_ids R sid0 cid0 s = (Inr (cid, sid), s\<lparr>sy_uuid := n\<rparr>)"
proof -
  let ?sid = "str_or sid0 []" and ?cid = "str_or cid0 []"
  consider "?sid = []" "?cid = []" | "?sid = []" "?cid \<noteq> []" | "?sid \<noteq> []" "?cid = []" | "?sid \<noteq> []" "?cid \<noteq> []" by blast
  then show thesis
  proof cases
    case 1
    then show ?thesis by (intro that) (simp add: request_ids_def new_session_ids_def fresh_uuid_run ret_def)
  next
    case 2
    then show ?thesis by (intro that) (simp add: request_ids_def fresh_uuid_run ret_def)
  next
    case 3
    then show ?thesis by (intro that) (simp add: request_ids_def fresh_uuid_run ret_def)
  next
    case 4
    then show ?thesis by (intro that [where n = "sy_uuid s"]) (simp add: request_ids_def ret_def)
  qed
qed

lemma run_without_tool:
  "(case h of None \<Rightarrow> True | Some x \<Rightarrow> hn_tool x = '''') \<Longrightarrow> run_locked R reg input sid cid h = run_locked_agents R reg input sid cid"
  by (cases h) (simp_all add: run_locked_def)

text \<open>C8: a founder request (without a tool hint) always returns and always leaves its session unlocked: it
  fixes its two ids; if the session is locked by another request it answers that, and nothing has changed but the uuid counter; otherwise, whatever is
  raised inside (by the language model, a tool, the state machine, the replay at the close), it returns an answer, the lock table is what it was
  before, and the approval bias that the adaptive layer set for the session is gone.\<close>

theorem founder_request_contained:
  assumes "case h of None \<Rightarrow> True | Some x \<Rightarrow> hn_tool x = ''''"
  shows "\<exists>cid sid s0 r s'. request_ids R sid0 cid0 s = (Inr (cid, sid), s0) \<and>
    run_founder_request R reg input sid0 cid0 h s = (Inr r, s') \<and> sy_locks s' = sy_locks s \<and>
    (if sid \<in> set (sy_locks s) then r = LockedSession sid \<and> s' = s0
     else (\<forall>k. r \<noteq> LockedSession k) \<and> get_session_approval_bias sid (sy_biases s') = 0)"
proof -
  obtain cid sid n where ids: "request_ids R sid0 cid0 s = (Inr (cid, sid), s\<lparr>sy_uuid := n\<rparr>)" by (rule request_ids_run)
  let ?s = "s\<lparr>sy_uuid := n\<rparr>"
  have run: "run_founder_request R reg input sid0 cid0 h s =
      catch (run_mutative_session sid (run_locked_agents R reg input sid cid)) is_lock_error (\<lambda>e. ret (LockedSession sid)) ?s"
    by (simp add: run_founder_request_def bnd_def ids run_without_tool [OF assms])
  show ?thesis
  proof (cases "sid \<in> set (sy_locks s)")
    case True
    then have "run_founder_request R reg input sid0 cid0 h s = (Inr (LockedSession sid), ?s)"
      using run_locked [of sid ?s "run_locked_agents R reg input sid cid"] by (simp add: run catch_def is_lock_error_def ret_def)
    then show ?thesis using ids True by (intro exI conjI) (assumption, assumption, simp_all)
  next
    case False
    obtain r t where a: "run_locked_agents R reg input sid cid (?s\<lparr>sy_locks := sid # sy_locks ?s\<rparr>) = (Inr r, t)"
      "sy_locks t = sid # sy_locks s" "\<And>k. r \<noteq> LockedSession k" "get_session_approval_bias sid (sy_biases t) = 0"
      using agents_run [of R reg input sid cid "?s\<lparr>sy_locks := sid # sy_locks ?s\<rparr>"] by auto
    have f: "filter (\<lambda>x. x \<noteq> sid) (sy_locks s) = sy_locks s" using False by (auto intro: filter_True)
    have "run_founder_request R reg input sid0 cid0 h s = (Inr r, t\<lparr>sy_locks := sy_locks s\<rparr>)"
      unfolding run using False a(1,2) by (simp add: catch_def run_free lock_leave_def f)
    then show ?thesis using ids False a(3,4) by (intro exI conjI) (assumption, assumption, simp_all)
  qed
qed

theorem founder_request_contained_witness:
  "\<exists>r s'. run_founder_request demo_env build_vs_registry ''hello'' (Some ''s'') (Some ''c'') None init_sys = (Inr r, s') \<and> sy_locks s' = []"
proof -
  have "case (None :: hint option) of None \<Rightarrow> True | Some x \<Rightarrow> hn_tool x = ''''" by simp
  from founder_request_contained [OF this, of demo_env "Some ''s''" "Some ''c''" init_sys build_vs_registry "''hello''"]
  show ?thesis by (auto simp: init_sys_def)
qed

section \<open>Delegation\<close>

lemma no_delegations_field: "texts_field (no_delegations r) ''delegations'' = []"
  by (simp add: texts_field_def no_delegations_def List.map_filter_def)

lemma ceo_results:
  "results (\<lambda>(ceo, sm'). cr_delegations ceo = texts_field (cr_response ceo) ''delegations'' \<and>
       (delegation_allowed p ''cto'' (cr_delegations ceo) \<or> cr_delegations ceo = []))
     (run_ceo_analysis R reg input cid sid sm degraded (Some p))"
  unfolding run_ceo_analysis_def option.case bnd_ret prod.case Let_def
  by (intro results_bnd results_case_prod results_seqc results_ret) (simp add: no_delegations_field)

text \<open>Without a language model the analysis is the deterministic fallback; its prompt always names incidents.\<close>

lemma substr_at: "substr q (a @ q @ b)"
  by (auto simp: substr_iff)

lemma ceo_prompt_incident: "substr ''incident'' (lower (ceo_prompt R input b kpi w))"
proof -
  let ?a = "''Objective: '' @ input @ ''\<newline>'' @ to_prompt b @ ''\<newline>KPIs: '' @ data_repr R (tr_data kpi) @ ''\<newline>''"
  let ?c = "''s: '' @ re_repr R (pstrs (map in_title (ws_incidents w)))"
  have l: "lower (x @ y) = lower x @ lower y" for x y by (simp add: lower_def)
  have "ceo_prompt R input b kpi w = ?a @ ''Incident'' @ ?c" by (simp add: ceo_prompt_def)
  moreover have "lower ''Incident'' = ''incident''" by code_simp
  ultimately have "lower (ceo_prompt R input b kpi w) = lower ?a @ ''incident'' @ lower ?c" by (simp only: l)
  then show ?thesis using substr_at by metis
qed

lemma ceo_fallback_delegates: "texts_field (ceo_fallback bu (ceo_prompt R input b kpi w)) ''delegations'' = [''cto'']"
  using ceo_prompt_incident [of R input b kpi w] by (auto simp: texts_field_def ceo_fallback_def List.map_filter_def)

text \<open>The steps of the analysis that always return.\<close>

lemma persist_always: "\<not> is_session_close p \<Longrightarrow> always (persist_runtime_tx R p)"
  unfolding always_def using persist_tx_total by fast

lemma always_if [intro]: "always m \<Longrightarrow> always n \<Longrightarrow> always (if b then m else n)"
  by simp

lemma always_collect: "(\<And>x. always (f x)) \<Longrightarrow> always (collect xs f)"
  by (induction xs) (auto intro!: always_bnd)

lemma always_case_option: "always m \<Longrightarrow> (\<And>x. always (f x)) \<Longrightarrow> always (case z of None \<Rightarrow> m | Some x \<Rightarrow> f x)"
  by (simp split: option.split)

lemma always_case_prod: "(\<And>x y. always (f x y)) \<Longrightarrow> always (case z of (x, y) \<Rightarrow> f x y)"
  by (simp split: prod.split)

lemmas always_rules = always_bnd always_seqc always_if always_collect always_case_option always_case_prod always_ret always_reads always_mods
  always_outside always_spans

lemma always_context:
  "always (spanned_bundle R sm sid task active extra)" "always (score_and_select R sid budget b)"
  "always (persist_context_priorities R sid cid scores suffix)"
proof -
  show "always (spanned_bundle R sm sid task active extra)"
    unfolding spanned_bundle_def build_bundle_def by (intro always_rules)
  show "always (score_and_select R sid budget b)"
    unfolding score_and_select_def session_age_def by (intro always_rules)
  show "always (persist_context_priorities R sid cid scores suffix)"
    unfolding persist_context_priorities_def
    by (intro always_rules persist_always) (simp add: is_session_close_def new_payload_def)
qed

lemma always_lineage: "always (build_lineage R prompt sid cid fp strategy)"
  unfolding build_lineage_def Let_def by (intro always_rules)

lemma always_record_run: "always (record_run R aid ok lat)"
  unfolding record_run_def by (rule always_mods)

text \<open>A run without a model is the fallback, at the first attempt.\<close>

lemma run_without_model:
  assumes "b = effective_budget (re_settings R) budget"
    and "re_json_loads R (deterministic_fallback R prompt cls b) = Some (response_dump (fallback_response cls b prompt))"
    and "\<not> re_has_model R"
  obtains tr tel t where "run_structured R prompt cls cid sid agent step budget s = (Inr (fallback_response cls b prompt, tr, tel), t)"
    and "\<not> needs_retry tr"
proof -
  let ?tr = "new_trace cid sid agent step"
  obtain spn c where run: "run_structured R prompt cls cid sid agent step budget s =
    bnd (if re_has_model R \<and> \<not> cb_force_deterministic b then llm_phase R prompt cls cid agent ?tr else ret (None, 0, ?tr))
      (finish_run R prompt cls cid sid agent b spn)
      (s\<lparr>sy_retries := dict_pop cid (sy_retries s), sy_uuid := Suc (sy_uuid s), sy_spans := c, sy_clock := Suc (Suc (sy_clock s))\<rparr>)"
    by (rule run_structured_open [OF assms(1)])
  let ?u = "s\<lparr>sy_retries := dict_pop cid (sy_retries s), sy_uuid := Suc (sy_uuid s), sy_spans := c, sy_clock := Suc (Suc (sy_clock s))\<rparr>"
  have z: "retries_of cid ?u = 0" by (simp add: retries_of_def dict_getd_def)
  have e: "run_structured R prompt cls cid sid agent step budget s = fallback_phase R spn prompt cls cid sid agent b 0 ?tr ?u"
    unfolding run using assms(3) by (simp add: bnd_ret finish_run_def)
  have z3: "retries_of cid ?u \<le> 3" using z by simp
  show thesis
    using fallback_phase_run [OF assms(2) z3, where spn = spn and sid = sid and agent = agent and n = 0 and tr = ?tr] z that
    unfolding e by (auto simp: needs_retry_def new_trace_def)
qed

text \<open>A computation that always returns, with a result of a given kind.\<close>

definition gives :: "('a \<Rightarrow> bool) \<Rightarrow> ('s, 'e, 'a) comp \<Rightarrow> bool" where
  "gives Q m \<longleftrightarrow> (\<forall>s. \<exists>x t. m s = (Inr x, t) \<and> Q x)"

lemma gives_ret: "Q x \<Longrightarrow> gives Q (ret x)"
  by (simp add: gives_def ret_def)

lemma gives_bnd:
  assumes "gives P m" and "\<And>x. P x \<Longrightarrow> gives Q (f x)"
  shows "gives Q (bnd m f)"
  unfolding gives_def
proof
  fix s
  obtain x t where m: "m s = (Inr x, t)" "P x" using assms(1) unfolding gives_def by blast
  obtain y u where "f x t = (Inr y, u)" "Q y" using assms(2) [OF m(2)] unfolding gives_def by blast
  then show "\<exists>x t. bnd m f s = (Inr x, t) \<and> Q x" using m(1) by (simp add: bnd_def)
qed

lemma gives_after: "always m \<Longrightarrow> (\<And>x. gives Q (f x)) \<Longrightarrow> gives Q (bnd m f)"
  using gives_bnd [of "\<lambda>_. True" m Q f] by (simp add: gives_def always_def)

lemma gives_seqc: "always m \<Longrightarrow> gives Q n \<Longrightarrow> gives Q (seqc m n)"
  unfolding seqc_def by (rule gives_after)

definition ceo_text_reads_back :: "rt_env \<Rightarrow> bool" where
  "ceo_text_reads_back R \<longleftrightarrow> (\<forall>input b kpi w bu. let prompt = ceo_prompt R input b kpi w in
     re_json_loads R (deterministic_fallback R prompt CEOResponse bu) = Some (response_dump (fallback_response CEOResponse bu prompt)))"

lemma ceo_without_model:
  assumes "\<not> re_has_model R" and "ceo_text_reads_back R"
  shows "gives (\<lambda>(ceo, sm'). response_ok CEOResponse (cr_response ceo) \<and> cr_delegations ceo = (if po_delegation p then [''cto''] else []) \<and>
     sm_state sm' = sm_state sm) (run_ceo_analysis R reg input cid sid sm degraded (Some p))"
proof -
  have kpi: "always (execute_tool R reg ''read_kpi_dashboard'' agent cid None sid' xb)" for agent sid' xb
    by (rule execute_tool_returns) (simp_all add: github_tools_def)
  have run: "gives (\<lambda>(r, tr, tel). r = ceo_fallback (effective_budget (re_settings R) (Some bu)) (ceo_prompt R input b kpi w) \<and> \<not> needs_retry tr)
      (run_structured R (ceo_prompt R input b kpi w) CEOResponse cid sid agent step (Some bu))" for b kpi w agent step bu
    unfolding gives_def
  proof
    fix s
    have "re_json_loads R (deterministic_fallback R (ceo_prompt R input b kpi w) CEOResponse (effective_budget (re_settings R) (Some bu))) =
        Some (response_dump (fallback_response CEOResponse (effective_budget (re_settings R) (Some bu)) (ceo_prompt R input b kpi w)))"
      using assms(2) by (simp add: ceo_text_reads_back_def Let_def)
    then obtain tr tel t where "run_structured R (ceo_prompt R input b kpi w) CEOResponse cid sid agent step (Some bu) s =
        (Inr (fallback_response CEOResponse (effective_budget (re_settings R) (Some bu)) (ceo_prompt R input b kpi w), tr, tel), t)" "\<not> needs_retry tr"
      using run_without_model [OF refl _ assms(1)] by blast
    then show "\<exists>x t. run_structured R (ceo_prompt R input b kpi w) CEOResponse cid sid agent step (Some bu) s = (Inr x, t) \<and>
        (case x of (r, tr, tel) \<Rightarrow> r = ceo_fallback (effective_budget (re_settings R) (Some bu)) (ceo_prompt R input b kpi w) \<and> \<not> needs_retry tr)"
      by (simp add: fallback_response_def)
  qed
  have ok: "response_ok CEOResponse (no_delegations (ceo_fallback bu prompt)) \<and> response_ok CEOResponse (ceo_fallback bu prompt)" for bu prompt
    by (simp add: no_delegations_def ceo_fallback_def response_ok_def response_fields_def)
  have pw: "always (persist_runtime_tx R ((new_payload cid sid ''decision.recorded'' body)\<lparr>pl_decision := d, pl_snapshot := sn, pl_step := st,
      pl_retry := rt, pl_telemetry := te, pl_lineage := li, pl_business := bk\<rparr>))" for body d sn st rt te li bk
    by (rule persist_always) (simp add: is_session_close_def new_payload_def)
  have fin: "texts_field (ceo_fallback bu (ceo_prompt R input b kpi w)) ''delegations'' = [''cto'']" for bu b kpi w by (rule ceo_fallback_delegates)
  show ?thesis
    unfolding run_ceo_analysis_def option.case bnd_ret prod.case Let_def
    by (rule gives_after, simp, rule gives_after, rule always_context, rule gives_after, rule always_context, clarify,
        rule gives_seqc, rule always_context, rule gives_after, rule kpi, rule gives_after, rule always_lineage, rule gives_bnd, rule run, clarify)
      (simp only: if_False bnd_ret, intro gives_after gives_seqc gives_ret always_outside pw always_record_run,
        simp add: fin ok no_delegations_field delegation_allowed_def)
qed

text \<open>C23: without a language model the CEO's analysis never fails: whatever the request, the session, the stores and
  the world are, if the JSON text of the fallback reads back, the analysis returns a well-typed response, leaves the state machine where it
  was, and delegates to the CTO exactly when the policy allows delegation: the keyword test of the fallback
  always succeeds, because the prompt that it searches contains the word \<open>Incidents\<close> itself.\<close>

theorem ceo_analysis_without_model:
  assumes "\<not> re_has_model R" and "ceo_text_reads_back R"
  shows "\<exists>ceo sm' s'. run_ceo_analysis R reg input cid sid sm degraded (Some p) s = (Inr (ceo, sm'), s') \<and>
    response_ok CEOResponse (cr_response ceo) \<and> cr_delegations ceo = (if po_delegation p then [''cto''] else []) \<and> sm_state sm' = sm_state sm"
  using ceo_without_model [OF assms, of p sm reg input cid sid degraded] unfolding gives_def by auto

text \<open>The message by which the CTO is asked.\<close>

lemma cto_part_asks:
  assumes "po_delegation p" and "''cto'' \<in> set (cr_delegations ceo)"
  shows "cto_part R reg input cid sid p ceo sm s =
    (case delegate_to_specialist R reg \<lparr>mg_id = re_uuid R (sy_uuid s), mg_receiver = ''cto'', mg_payload = pdict [(''objective'', PStr input)],
        mg_correlation = cid\<rparr> sid sm False (Some p) (s\<lparr>sy_uuid := sy_uuid s + 1\<rparr>) of
      (Inl e, t) \<Rightarrow> (Inl e, t) | (Inr (c, sm'), t) \<Rightarrow> (Inr (Some c, sm'), t))"
proof -
  have "delegation_allowed p ''cto'' (cr_delegations ceo)" "assert_agent_active ''cto'' = Inr ()"
    using assms by (simp_all add: delegation_allowed_def assert_agent_active_iff)
  then show ?thesis
    by (simp add: cto_part_def fresh_uuid_run bnd_def [of "delegate_to_specialist _ _ _ _ _ _ _"] ret_def split: prod.splits sum.splits)
qed

text \<open>C15: nobody delegates against the policy, and whoever may is heard: if the CEO's analysis under a policy returns, the delegations of
  its result are those that its response names, and the response names any only if the policy allows delegation and the CTO is among
  them; then the next part of the request asks the CTO, with the request as objective, and has the CTO's answer or
  exception as its own; otherwise that part returns nothing and changes nothing.\<close>

theorem delegation_needs_policy:
  assumes "run_ceo_analysis R reg input cid sid sm degraded (Some p) s = (Inr (ceo, sm'), s')"
  shows "cr_delegations ceo = texts_field (cr_response ceo) ''delegations'' \<and>
    (cr_delegations ceo \<noteq> [] \<longrightarrow> po_delegation p \<and> ''cto'' \<in> set (cr_delegations ceo)) \<and>
    cto_part R reg input cid sid p ceo sm2 u = (if cr_delegations ceo = [] then (Inr (None, sm2), u)
      else case delegate_to_specialist R reg \<lparr>mg_id = re_uuid R (sy_uuid u), mg_receiver = ''cto'', mg_payload = pdict [(''objective'', PStr input)],
          mg_correlation = cid\<rparr> sid sm2 False (Some p) (u\<lparr>sy_uuid := sy_uuid u + 1\<rparr>) of
        (Inl e, t) \<Rightarrow> (Inl e, t) | (Inr (c, sm3), t) \<Rightarrow> (Inr (Some c, sm3), t))"
proof -
  have d: "cr_delegations ceo = texts_field (cr_response ceo) ''delegations''"
    "delegation_allowed p ''cto'' (cr_delegations ceo) \<or> cr_delegations ceo = []"
    using ceo_results [of p R reg input cid sid sm degraded] assms unfolding results_def by fastforce+
  show ?thesis
  proof (cases "cr_delegations ceo = []")
    case True
    then show ?thesis using d(1) by (simp add: cto_part_def delegation_allowed_def ret_def)
  next
    case False
    then have "po_delegation p" "''cto'' \<in> set (cr_delegations ceo)" using d(2) by (simp_all add: delegation_allowed_def split: if_splits)
    then show ?thesis using d(1) False cto_part_asks by simp
  qed
qed

text \<open>An environment without a model whose JSON text keeps the summary, from which the fallback can be read back.\<close>

definition summary_env :: rt_env where
  "summary_env = demo_env\<lparr>re_json_dumps := (\<lambda>v. case vget v ''summary'' of Some (PStr t) \<Rightarrow> t | _ \<Rightarrow> ''''),
     re_json_loads := (\<lambda>t. Some (pdict [(''summary'', PStr t), (''priorities'', pstrs [''Resolve infrastructure incidents'', ''Protect runway'']),
       (''delegations'', pstrs [''cto'']), (''risks'', PList []), (''kpis_snapshot'', PDict []), (''escalations'', PList []),
       (''recommended_actions'', pstrs [''Delegate technical analysis to CTO''])]))\<rparr>"

lemma summary_env_ok: "\<not> re_has_model summary_env" "ceo_text_reads_back summary_env"
proof -
  show "\<not> re_has_model summary_env" by (simp add: summary_env_def demo_env_def)
  have "substr ''incident'' (lower (ceo_prompt summary_env input b kpi w))" for input b kpi w by (rule ceo_prompt_incident)
  then show "ceo_text_reads_back summary_env"
    by (simp add: ceo_text_reads_back_def Let_def deterministic_fallback_def fallback_response_def ceo_fallback_def response_dump_def)
      (simp add: summary_env_def)
qed

theorem ceo_analysis_without_model_witness:
  "\<exists>ceo sm' s'. run_ceo_analysis summary_env build_vs_registry ''hello'' ''c'' ''s'' (new_sm ''c'' ''s'') False (Some default_policy) init_sys = (Inr (ceo, sm'), s') \<and>
     cr_delegations ceo = [''cto'']"
  using ceo_analysis_without_model [OF summary_env_ok, of build_vs_registry "''hello''" "''c''" "''s''" "new_sm ''c'' ''s''" False default_policy init_sys]
  by (auto simp: default_policy_def)

theorem delegation_needs_policy_witness:
  "\<exists>ceo sm' s'. run_ceo_analysis summary_env build_vs_registry ''hello'' ''c'' ''s'' (new_sm ''c'' ''s'') False (Some (default_policy\<lparr>po_delegation := False\<rparr>)) init_sys = (Inr (ceo, sm'), s') \<and>
     cto_part summary_env build_vs_registry ''hello'' ''c'' ''s'' (default_policy\<lparr>po_delegation := False\<rparr>) ceo sm' s' = (Inr (None, sm'), s')"
proof -
  obtain x s' where r: "run_ceo_analysis summary_env build_vs_registry ''hello'' ''c'' ''s'' (new_sm ''c'' ''s'') False
      (Some (default_policy\<lparr>po_delegation := False\<rparr>)) init_sys = (Inr x, s')"
    using ceo_without_model [OF summary_env_ok] unfolding gives_def by blast
  obtain ceo sm' where "x = (ceo, sm')" by (cases x)
  with r have r: "run_ceo_analysis summary_env build_vs_registry ''hello'' ''c'' ''s'' (new_sm ''c'' ''s'') False
      (Some (default_policy\<lparr>po_delegation := False\<rparr>)) init_sys = (Inr (ceo, sm'), s')" by simp
  show ?thesis using delegation_needs_policy [OF r, of sm' s'] r by (cases "cr_delegations ceo = []") auto
qed

section \<open>Paths that the transition table does not have\<close>

text \<open>C32: a degraded specialist fails the request instead of escalating it: if the CTO is degraded when the CEO, in the state
  \<open>REASONING\<close>, delegates, the escalation that the code tries is not in the transition table: the delegation raises
  \<open>InvalidStateTransition\<close> and no table has changed.\<close>

theorem degraded_specialist_raises:
  assumes "mg_receiver m = ''cto''" and "sm_state sm = REASONING" and "fst (registry_is_degraded ''cto'' (sy_health s))"
  shows "\<exists>s'. delegate_to_specialist R reg m sid sm degraded policy s = (Inl (InvalidStateTransition REASONING ESCALATED), s') \<and> sy_db s' = sy_db s"
proof -
  obtain r where d: "registry_is_degraded ''cto'' (sy_health s) = (True, r)" using assms(3) by (cases "registry_is_degraded ''cto'' (sy_health s)") auto
  have a: "specialist_of m = ''cto''" "assert_agent_active ''cto'' = Inr ()"
    using assms(1) by (simp_all add: specialist_of_def assert_agent_active_iff)
  have "\<not> lc.step_ok (sm_state sm) ESCALATED" by (simp add: lc.step_ok_def assms(2))
  then obtain s' where s': "record_transition R sm ESCALATED sid (s\<lparr>sy_health := r\<rparr>) = (Inl (InvalidStateTransition REASONING ESCALATED), s')"
    "same_stores (s\<lparr>sy_health := r\<rparr>) s'"
    using record_transition_refused [of sm ESCALATED R sid "s\<lparr>sy_health := r\<rparr>"] assms(2) by metis
  have "delegate_to_specialist R reg m sid sm degraded policy s = (Inl (InvalidStateTransition REASONING ESCALATED), s')"
    unfolding delegate_to_specialist_def Let_def a bnd_lift_res sum.case
    by (simp add: bnd_def agent_degraded_def d s'(1))
  then show ?thesis using s'(2) by (simp add: same_stores_def)
qed

definition degraded_state :: sys where
  "degraded_state = init_sys\<lparr>sy_health := \<lparr>hr_cache = [(''cto'', (new_agent_health ''cto'')\<lparr>ah_degraded := True\<rparr>)], hr_stored = []\<rparr>\<rparr>"

theorem degraded_specialist_raises_witness:
  "\<exists>s'. delegate_to_specialist demo_env build_vs_registry \<lparr>mg_id = ''m'', mg_receiver = ''cto'', mg_payload = PDict [], mg_correlation = ''c''\<rparr> ''s''
     ((new_sm ''c'' ''s'')\<lparr>sm_state := REASONING\<rparr>) False (Some default_policy) degraded_state = (Inl (InvalidStateTransition REASONING ESCALATED), s')"
proof -
  have "fst (registry_is_degraded ''cto'' (sy_health degraded_state))"
    by (simp add: degraded_state_def registry_is_degraded_def registry_get_def)
  then have "\<exists>s'. delegate_to_specialist demo_env build_vs_registry \<lparr>mg_id = ''m'', mg_receiver = ''cto'', mg_payload = PDict [], mg_correlation = ''c''\<rparr> ''s''
     ((new_sm ''c'' ''s'')\<lparr>sm_state := REASONING\<rparr>) False (Some default_policy) degraded_state = (Inl (InvalidStateTransition REASONING ESCALATED), s') \<and> sy_db s' = sy_db degraded_state"
    by (intro degraded_specialist_raises) simp_all
  then show ?thesis by blast
qed

lemma record_transition_total:
  assumes "lc.step_ok (sm_state sm) to"
  obtains t s' where "record_transition R sm to sid s = (Inr (move sm to t), s')"
proof -
  obtain n d where e: "record_transition R sm to sid s = bnd (persist_runtime_tx R (move_payload sm to sid))
      (\<lambda>_. ret (move sm to (re_now R (Suc (sy_clock s))))) (s\<lparr>sy_uuid := sy_uuid s + 1, sy_clock := n, sy_spans := d\<rparr>)"
    by (rule record_transition_allowed [OF assms])
  have "always (persist_runtime_tx R (move_payload sm to sid))"
    by (rule persist_always) (use move_payload_fields(1) [of sm to sid] in \<open>simp add: table_write_def\<close>)
  then obtain x s' where "persist_runtime_tx R (move_payload sm to sid) (s\<lparr>sy_uuid := sy_uuid s + 1, sy_clock := n, sy_spans := d\<rparr>) = (Inr x, s')"
    by (rule alwaysE)
  then show thesis by (intro that) (unfold e bnd_def, simp add: ret_def)
qed

text \<open>skipping the last optional tool leaves the machine where it cannot complete: if the routing skips a tool other than
  \<open>get_repo_health\<close>, the step of the plan has already moved the machine to \<open>WAITING_TOOL\<close> and calls nothing; when no tool follows, completing the
  request raises \<open>InvalidStateTransition\<close>.\<close>

theorem skipped_tool_blocks_completion:
  assumes "sm_state (pn_sm st) = REASONING" and "tool \<noteq> ''get_repo_health''"
    and "rd_skip_optional (decide_routing (re_settings R) (dict_get (pn_profiles st) tool) policy)"
  shows "\<exists>st' s'. run_tool_plan R reg sid cid agent objective policy wv fp [(tool, params)] st s = (Inr st', s') \<and>
    pn_results st' = pn_results st \<and> sm_state (pn_sm st') = WAITING_TOOL \<and>
    (\<forall>u. fst (sm_call_at R complete (pn_sm st') u) = Inl (InvalidStateTransition WAITING_TOOL COMPLETED))"
proof -
  have "lc.step_ok (sm_state (pn_sm st)) WAITING_TOOL" by (simp add: lc.step_ok_def assms(1))
  then obtain t s' where r: "record_transition R (pn_sm st) WAITING_TOOL sid s = (Inr (move (pn_sm st) WAITING_TOOL t), s')"
    by (rule record_transition_total)
  have "run_tool_plan R reg sid cid agent objective policy wv fp [(tool, params)] st s = (Inr (st\<lparr>pn_sm := move (pn_sm st) WAITING_TOOL t\<rparr>), s')"
    using assms by (simp add: bnd_ret bnd_def [of "record_transition _ _ _ _"] r Let_def ret_def)
  moreover have "fst (sm_call_at R complete (move (pn_sm st) WAITING_TOOL t) u) = Inl (InvalidStateTransition WAITING_TOOL COMPLETED)" for u
    by (simp add: sm_call_at_def clock_run complete_def transition_def raise_def)
  ultimately show ?thesis by (intro exI conjI) (assumption, simp_all)
qed

definition poor_profile :: tool_profile where
  "poor_profile = (update_from_result default_settings 0 None demo_failure 1 0)\<lparr>tp_band := BAND_DEGRADED, tp_confidence := 0\<rparr>"

theorem skipped_tool_blocks_completion_witness:
  "\<exists>st' s'. run_tool_plan demo_env build_vs_registry ''s'' ''c'' ''cto'' ''x'' default_policy 0 None [(''analyze_incidents'', PDict [])]
     \<lparr>pn_sm = (new_sm ''c'' ''s'')\<lparr>sm_state := REASONING\<rparr>, pn_results = [], pn_profiles = [(''analyze_incidents'', poor_profile)], pn_updates = [], pn_step = 0\<rparr>
     init_sys = (Inr st', s') \<and> sm_state (pn_sm st') = WAITING_TOOL"
proof -
  let ?st = "\<lparr>pn_sm = (new_sm ''c'' ''s'')\<lparr>sm_state := REASONING\<rparr>, pn_results = [], pn_profiles = [(''analyze_incidents'', poor_profile)], pn_updates = [], pn_step = 0\<rparr>"
  have "rd_skip_optional (decide_routing (re_settings demo_env) (dict_get (pn_profiles ?st) ''analyze_incidents'') default_policy)"
    by (simp add: decide_routing_def poor_profile_def Let_def)
  with skipped_tool_blocks_completion [of ?st "''analyze_incidents''" demo_env default_policy build_vs_registry "''s''" "''c''" "''cto''" "''x''" 0 None "PDict []" init_sys]
  show ?thesis by auto
qed

end
