(* ===== verification/Rbac.thy ===== *)
theory Rbac
  imports Schemas
begin

text \<open>
  \<open>core/roles.py\<close>, \<open>core/permissions.py\<close>, \<open>core/rbac.py\<close> and \<open>api/auth.py\<close>: roles, permissions,
  scopes and the authentication dependencies.  The JWT library is a parameter: decoding a
  token yields its claims or fails.
\<close>

section \<open>Roles and permissions\<close>

datatype user_role = FOUNDER | ADMIN | REVIEWER | OPERATOR | READONLY

fun role_value :: "user_role \<Rightarrow> string" where
  "role_value FOUNDER = ''founder''"
| "role_value ADMIN = ''admin''"
| "role_value REVIEWER = ''reviewer''"
| "role_value OPERATOR = ''operator''"
| "role_value READONLY = ''readonly''"

definition all_roles :: "user_role list" where
  "all_roles = [FOUNDER, ADMIN, REVIEWER, OPERATOR, READONLY]"

definition role_of_value :: "string \<Rightarrow> user_role option" where
  "role_of_value s = List.find (\<lambda>r. role_value r = s) all_roles"

fun ROLE_HIERARCHY :: "user_role \<Rightarrow> nat" where
  "ROLE_HIERARCHY READONLY = 0"
| "ROLE_HIERARCHY OPERATOR = 1"
| "ROLE_HIERARCHY REVIEWER = 2"
| "ROLE_HIERARCHY ADMIN = 3"
| "ROLE_HIERARCHY FOUNDER = 4"

text \<open>The hierarchy orders the roles; \<open>require_role\<close> compares by it.\<close>

instantiation user_role :: linorder
begin

definition less_eq_user_role :: "user_role \<Rightarrow> user_role \<Rightarrow> bool" where
  "less_eq_user_role a b \<longleftrightarrow> ROLE_HIERARCHY a \<le> ROLE_HIERARCHY b"

definition less_user_role :: "user_role \<Rightarrow> user_role \<Rightarrow> bool" where
  "less_user_role a b \<longleftrightarrow> ROLE_HIERARCHY a < ROLE_HIERARCHY b"

instance
proof
  fix a b c :: user_role
  show "a \<le> b \<Longrightarrow> b \<le> a \<Longrightarrow> a = b"
    by (cases a; cases b) (simp_all add: less_eq_user_role_def)
qed (auto simp: less_eq_user_role_def less_user_role_def)

end

datatype permission = FOUNDER_REQUEST | ACTION_PREPARE | ACTION_APPROVE | TIMELINE_READ
  | APPROVALS_READ | REPLAY_EXECUTE | AGENTS_HEALTH | CRISIS_OVERRIDE | DIAGNOSTICS_READ | SESSION_READ

definition all_permissions :: "permission list" where
  "all_permissions = [FOUNDER_REQUEST, ACTION_PREPARE, ACTION_APPROVE, TIMELINE_READ, APPROVALS_READ,
     REPLAY_EXECUTE, AGENTS_HEALTH, CRISIS_OVERRIDE, DIAGNOSTICS_READ, SESSION_READ]"

fun perm_value :: "permission \<Rightarrow> string" where
  "perm_value FOUNDER_REQUEST = ''founder:request''"
| "perm_value ACTION_PREPARE = ''action:prepare''"
| "perm_value ACTION_APPROVE = ''action:approve''"
| "perm_value TIMELINE_READ = ''timeline:read''"
| "perm_value APPROVALS_READ = ''approvals:read''"
| "perm_value REPLAY_EXECUTE = ''replay:execute''"
| "perm_value AGENTS_HEALTH = ''agents:health''"
| "perm_value CRISIS_OVERRIDE = ''crisis:override''"
| "perm_value DIAGNOSTICS_READ = ''diagnostics:read''"
| "perm_value SESSION_READ = ''session:read''"

fun ROLE_PERMISSIONS :: "user_role \<Rightarrow> permission list" where
  "ROLE_PERMISSIONS READONLY = [SESSION_READ, TIMELINE_READ, APPROVALS_READ, DIAGNOSTICS_READ]"
| "ROLE_PERMISSIONS OPERATOR = [SESSION_READ, FOUNDER_REQUEST, ACTION_PREPARE, TIMELINE_READ,
     APPROVALS_READ, REPLAY_EXECUTE, DIAGNOSTICS_READ]"
| "ROLE_PERMISSIONS REVIEWER = [SESSION_READ, ACTION_APPROVE, TIMELINE_READ, APPROVALS_READ, DIAGNOSTICS_READ]"
| "ROLE_PERMISSIONS ADMIN = [SESSION_READ, FOUNDER_REQUEST, ACTION_PREPARE, ACTION_APPROVE, TIMELINE_READ,
     APPROVALS_READ, REPLAY_EXECUTE, AGENTS_HEALTH, DIAGNOSTICS_READ]"
| "ROLE_PERMISSIONS FOUNDER = all_permissions"

fun APPROVAL_LEVEL_BY_ROLE :: "user_role \<Rightarrow> int" where
  "APPROVAL_LEVEL_BY_ROLE READONLY = 0"
| "APPROVAL_LEVEL_BY_ROLE OPERATOR = 1"
| "APPROVAL_LEVEL_BY_ROLE REVIEWER = 2"
| "APPROVAL_LEVEL_BY_ROLE ADMIN = 2"
| "APPROVAL_LEVEL_BY_ROLE FOUNDER = 4"

section \<open>core/rbac.py\<close>

definition role_has_permission :: "user_role \<Rightarrow> permission \<Rightarrow> bool" where
  "role_has_permission r p \<longleftrightarrow> p \<in> set (ROLE_PERMISSIONS r)"

definition can_approve_level :: "user_role \<Rightarrow> int \<Rightarrow> bool" where
  "can_approve_level r required \<longleftrightarrow> APPROVAL_LEVEL_BY_ROLE r \<ge> required"

fun validate_scopes :: "user_role \<Rightarrow> string list \<Rightarrow> exn + unit" where
  "validate_scopes r [] = Inr ()"
| "validate_scopes r (s # ss) =
     (if s \<notin> perm_value ` set (ROLE_PERMISSIONS r) then Inl (HTTPException 403) else validate_scopes r ss)"

record auth_context =
  au_user :: string
  au_role :: user_role
  au_scopes :: "string list"

definition require_permission :: "permission \<Rightarrow> auth_context \<Rightarrow> exn + auth_context" where
  "require_permission p auth =
     (case (if au_scopes auth \<noteq> [] then validate_scopes (au_role auth) (au_scopes auth) else Inr ()) of
        Inl e \<Rightarrow> Inl e
      | Inr _ \<Rightarrow> if \<not> role_has_permission (au_role auth) p then Inl (HTTPException 403) else Inr auth)"

section \<open>api/auth.py\<close>

definition default_scopes :: "user_role \<Rightarrow> string list" where
  "default_scopes r = map perm_value (ROLE_PERMISSIONS r)"

record claims =
  cl_sub :: "string option"
  cl_role :: "string option"
  cl_scopes :: "string list option"
  cl_exp :: time

definition encode_claims :: "time \<Rightarrow> string \<Rightarrow> user_role \<Rightarrow> string list option \<Rightarrow> int \<Rightarrow> claims" where
  "encode_claims now user r scopes hours = \<lparr>cl_sub = Some user, cl_role = Some (role_value r),
     cl_scopes = Some (case scopes of Some s \<Rightarrow> s | None \<Rightarrow> default_scopes r),
     cl_exp = now + hours * 3600000000\<rparr>"

definition decode_token :: "(string \<Rightarrow> claims option) \<Rightarrow> string \<Rightarrow> exn + auth_context" where
  "decode_token jwt token =
     (case jwt token of
        None \<Rightarrow> Inl (HTTPException 401)
      | Some cl \<Rightarrow>
          (case role_of_value (case cl_role cl of None \<Rightarrow> ''readonly'' | Some s \<Rightarrow> s) of
             None \<Rightarrow> Inl (HTTPException 401)
           | Some r \<Rightarrow>
               let scopes = (case cl_scopes cl of Some (s # ss) \<Rightarrow> s # ss | _ \<Rightarrow> default_scopes r) in
               Inr \<lparr>au_user = (case cl_sub cl of None \<Rightarrow> ''unknown'' | Some u \<Rightarrow> u),
                    au_role = r, au_scopes = scopes\<rparr>))"

record credentials =
  cr_scheme :: string
  cr_token :: string

definition require_auth :: "bool \<Rightarrow> (string \<Rightarrow> claims option) \<Rightarrow> credentials option \<Rightarrow> exn + auth_context" where
  "require_auth auth_disabled jwt cred =
     (if auth_disabled then Inr \<lparr>au_user = ''dev-user'', au_role = FOUNDER, au_scopes = default_scopes FOUNDER\<rparr>
      else case cred of
        None \<Rightarrow> Inl (HTTPException 401)
      | Some c \<Rightarrow> if lower (cr_scheme c) \<noteq> ''bearer'' then Inl (HTTPException 401)
                  else decode_token jwt (cr_token c))"

definition require_role :: "user_role \<Rightarrow> auth_context \<Rightarrow> exn + auth_context" where
  "require_role min_role auth = (if au_role auth < min_role then Inl (HTTPException 403) else Inr auth)"

section \<open>Lemmas\<close>

lemma role_of_value_value [simp]: "role_of_value (role_value r) = Some r"
  by (cases r) (simp_all add: role_of_value_def all_roles_def)

lemma perm_value_inj [simp]: "perm_value p = perm_value q \<longleftrightarrow> p = q"
  by (cases p; cases q) simp_all

lemma validate_scopes_Inr: "validate_scopes r ss = Inr u \<longleftrightarrow> set ss \<subseteq> perm_value ` set (ROLE_PERMISSIONS r)"
  by (induction ss) (auto split: if_splits)

lemma validate_default_scopes: "validate_scopes r (default_scopes r) = Inr ()"
  using validate_scopes_Inr [of r "default_scopes r" "()"] by (simp add: default_scopes_def)

lemma default_scopes_nonempty [simp]: "default_scopes r \<noteq> []"
  by (cases r) (simp_all add: default_scopes_def all_permissions_def)

section \<open>Properties\<close>

text \<open>an endpoint guarded by \<open>require_permission\<close> lets a caller through exactly when
  every scope of the token belongs to the role and the role has the permission.  The scopes can
  only refuse a token, they never narrow what an accepted one may do: whether the permission itself is
  among them does not matter.\<close>

theorem require_permission_iff:
  "require_permission p auth = Inr a \<longleftrightarrow>
     a = auth \<and> role_has_permission (au_role auth) p \<and>
     set (au_scopes auth) \<subseteq> perm_value ` set (ROLE_PERMISSIONS (au_role auth))"
proof (cases "au_scopes auth = []")
  case True
  then show ?thesis by (auto simp: require_permission_def)
next
  case False
  then show ?thesis
    using validate_scopes_Inr [of "au_role auth" "au_scopes auth"]
    by (auto simp: require_permission_def split: sum.splits)
qed

text \<open>a token issued by \<open>_encode_token\<close> without explicit scopes, if the JWT library returns
  the claims it was given, authenticates as the same user and role, and passes exactly the
  guards of that role's permissions.\<close>

theorem issued_token_grants_role:
  assumes "jwt token = Some (encode_claims now user r None hours)"
  shows "\<exists>auth. require_auth False jwt (Some \<lparr>cr_scheme = ''Bearer'', cr_token = token\<rparr>) = Inr auth \<and>
    au_user auth = user \<and> au_role auth = r \<and>
    (\<forall>p. (require_permission p auth = Inr auth) = role_has_permission r p)"
proof -
  have bearer: "lower ''Bearer'' = ''bearer''" by code_simp
  obtain s ss where d: "default_scopes r = s # ss" by (metis default_scopes_nonempty neq_Nil_conv)
  let ?auth = "\<lparr>au_user = user, au_role = r, au_scopes = default_scopes r\<rparr>"
  have "require_auth False jwt (Some \<lparr>cr_scheme = ''Bearer'', cr_token = token\<rparr>) = Inr ?auth"
    using assms bearer by (simp add: require_auth_def decode_token_def encode_claims_def d)
  moreover have "(require_permission p ?auth = Inr ?auth) = role_has_permission r p" for p
    using validate_default_scopes [of r] by (simp add: require_permission_def)
  ultimately show ?thesis by force
qed

theorem issued_token_grants_role_witness:
  "\<exists>auth. require_auth False (\<lambda>t. if t = ''tok'' then Some (encode_claims 0 ''ana'' REVIEWER None 24) else None)
      (Some \<lparr>cr_scheme = ''Bearer'', cr_token = ''tok''\<rparr>) = Inr auth \<and> au_user auth = ''ana'' \<and>
      require_permission ACTION_APPROVE auth = Inr auth \<and> require_permission FOUNDER_REQUEST auth \<noteq> Inr auth"
proof -
  let ?jwt = "\<lambda>t. if t = ''tok'' then Some (encode_claims 0 ''ana'' REVIEWER None 24) else None"
  have "?jwt ''tok'' = Some (encode_claims 0 ''ana'' REVIEWER None 24)" by simp
  from issued_token_grants_role [where jwt = ?jwt, OF this]
  obtain auth where a: "require_auth False ?jwt (Some \<lparr>cr_scheme = ''Bearer'', cr_token = ''tok''\<rparr>) = Inr auth"
      "au_user auth = ''ana''" "\<And>p. (require_permission p auth = Inr auth) = role_has_permission REVIEWER p"
    by blast
  have "role_has_permission REVIEWER ACTION_APPROVE" "\<not> role_has_permission REVIEWER FOUNDER_REQUEST"
    by (simp_all add: role_has_permission_def)
  then show ?thesis using a by blast
qed

text \<open>separation of duties in the permission table: a role that may approve actions and is
  not an administrator or the founder may not prepare them, reading roles hold no acting
  permission, the crisis override is the founder's alone, and a higher approval level never
  belongs to a lower role.\<close>

theorem permission_table:
  "(role_has_permission r ACTION_APPROVE \<and> role_has_permission r ACTION_PREPARE \<longleftrightarrow> r \<in> {ADMIN, FOUNDER}) \<and>
   (role_has_permission READONLY p \<longrightarrow> p \<in> {SESSION_READ, TIMELINE_READ, APPROVALS_READ, DIAGNOSTICS_READ}) \<and>
   (role_has_permission r CRISIS_OVERRIDE \<longleftrightarrow> r = FOUNDER) \<and>
   (r \<le> r' \<longrightarrow> APPROVAL_LEVEL_BY_ROLE r \<le> APPROVAL_LEVEL_BY_ROLE r') \<and>
   (can_approve_level r n \<and> r \<le> r' \<longrightarrow> can_approve_level r' n)"
proof (intro conjI)
  show "role_has_permission r ACTION_APPROVE \<and> role_has_permission r ACTION_PREPARE \<longleftrightarrow> r \<in> {ADMIN, FOUNDER}"
    by (cases r) (simp_all add: role_has_permission_def all_permissions_def)
  show "role_has_permission READONLY p \<longrightarrow> p \<in> {SESSION_READ, TIMELINE_READ, APPROVALS_READ, DIAGNOSTICS_READ}"
    by (auto simp: role_has_permission_def)
  show "role_has_permission r CRISIS_OVERRIDE \<longleftrightarrow> r = FOUNDER"
    by (cases r) (simp_all add: role_has_permission_def all_permissions_def)
  show mono: "r \<le> r' \<longrightarrow> APPROVAL_LEVEL_BY_ROLE r \<le> APPROVAL_LEVEL_BY_ROLE r'"
    by (cases r; cases r') (simp_all add: less_eq_user_role_def)
  show "can_approve_level r n \<and> r \<le> r' \<longrightarrow> can_approve_level r' n"
    using mono by (auto simp: can_approve_level_def)
qed

theorem permission_table_witness:
  "APPROVAL_LEVEL_BY_ROLE OPERATOR \<le> APPROVAL_LEVEL_BY_ROLE ADMIN \<and> can_approve_level FOUNDER 4"
  using permission_table [of OPERATOR SESSION_READ ADMIN 2] permission_table [of FOUNDER SESSION_READ FOUNDER 4]
  by (simp add: less_eq_user_role_def can_approve_level_def)

end
