(* ===== verification/Reports.thy ===== *)
theory Reports
  imports Requests Rbac
begin

text \<open>
  The read side of the program: \<open>core/session_list.py\<close>, \<open>core/timeline.py\<close>, \<open>core/diagnostics.py\<close>,
  \<open>core/session_summary_builder.py\<close>, \<open>ui/services/human_labels.py\<close> and \<open>ui/services/query_facade.py\<close>.  A
  \<open>model_dump()\<close> that only feeds the JSON of a response is the record itself here.
\<close>

section \<open>Text\<close>

text \<open>\<open>str(v)\<close> of a payload value.\<close>

definition py_str :: "rt_env \<Rightarrow> pyval \<Rightarrow> string" where
  "py_str R v = (case v of PStr s \<Rightarrow> s | _ \<Rightarrow> re_repr R v)"

text \<open>\<open>f"{x:.2f}"\<close> and \<open>f"{x:.0%}"\<close>: the exact value rounded half to even; the percentage is multiplied out as a float first.\<close>

definition fixed2 :: "rat \<Rightarrow> string" where
  "fixed2 x = (let n = nat (rhe (\<bar>x\<bar> * 100)) in
     (if x < 0 then ''-'' else '''') @ show_nat (n div 100) @ ''.'' @ show_nat (n mod 100 div 10) @ show_nat (n mod 10))"

definition percent0 :: "rat \<Rightarrow> string" where
  "percent0 x = (if x < 0 then ''-'' else '''') @ show_nat (nat (rhe \<bar>fmul x 100\<bar>)) @ ''%''"

fun anomaly_severity_value :: "anomaly_severity \<Rightarrow> string" where
  "anomaly_severity_value LOW = ''low''"
| "anomaly_severity_value MEDIUM = ''medium''"
| "anomaly_severity_value HIGH = ''high''"
| "anomaly_severity_value ANOM_CRITICAL = ''critical''"

fun routing_band_value :: "routing_band \<Rightarrow> string" where
  "routing_band_value TRUSTED = ''trusted''"
| "routing_band_value BAND_DEGRADED = ''degraded''"

fun mutation_status_value :: "mutation_status \<Rightarrow> string" where
  "mutation_status_value MutPending = ''pending''"
| "mutation_status_value MutPartial = ''partial''"
| "mutation_status_value MutComplete = ''complete''"
| "mutation_status_value MutFailed = ''failed''"

fun approval_status_value :: "approval_status \<Rightarrow> string" where
  "approval_status_value APPENDING = ''pending''"
| "approval_status_value APPROVED = ''approved''"
| "approval_status_value REJECTED = ''rejected''"
| "approval_status_value EXPIRED = ''expired''"

text \<open>Since Python 3.11 an f-string shows an enumeration member by its qualified name, mixed with \<open>str\<close> or not.\<close>

fun span_type_text :: "span_type \<Rightarrow> string" where
  "span_type_text ORCHESTRATION = ''SpanType.ORCHESTRATION''"
| "span_type_text TRANSITION = ''SpanType.TRANSITION''"
| "span_type_text TOOL_EXECUTION = ''SpanType.TOOL_EXECUTION''"
| "span_type_text CONTEXT_BUILD = ''SpanType.CONTEXT_BUILD''"
| "span_type_text AGENT_REASONING = ''SpanType.AGENT_REASONING''"
| "span_type_text APPROVAL = ''SpanType.APPROVAL''"
| "span_type_text REPLAY = ''SpanType.REPLAY''"
| "span_type_text RETRY = ''SpanType.RETRY''"

fun governance_action_text :: "governance_action \<Rightarrow> string" where
  "governance_action_text ESCALATE_APPROVAL = ''GovernanceAction.ESCALATE_APPROVAL''"
| "governance_action_text DISABLE_DELEGATION = ''GovernanceAction.DISABLE_DELEGATION''"
| "governance_action_text FORCE_DETERMINISTIC = ''GovernanceAction.FORCE_DETERMINISTIC''"
| "governance_action_text REPLAY_DRIFT_DETECTED = ''GovernanceAction.REPLAY_DRIFT_DETECTED''"

section \<open>core/session_list.py\<close>

record session_summary =
  su_session :: string
  su_correlation :: string
  su_request :: "string option"
  su_state :: string
  su_health :: string
  su_degraded :: bool
  su_replay_confidence :: rat
  su_pending :: nat
  su_updated :: time

record list_filters =
  lf_limit :: int
  lf_offset :: int
  lf_status :: "string option"
  lf_health :: "string option"
  lf_pending :: "bool option"
  lf_search :: "string option"
  lf_degraded_only :: bool

definition default_filters :: list_filters where
  "default_filters = \<lparr>lf_limit = 50, lf_offset = 0, lf_status = None, lf_health = None, lf_pending = None,
     lf_search = None, lf_degraded_only = False\<rparr>"

text \<open>The message of the first founder intent; an empty one is no message.\<close>

definition founder_message :: "rt_env \<Rightarrow> db \<Rightarrow> string \<Rightarrow> string option" where
  "founder_message R d cid = (case List.find (\<lambda>e. ev_type e = ''founder.intent'') (get_events_by_correlation d cid) of
     None \<Rightarrow> None
   | Some e \<Rightarrow> (case vget (ev_payload e) ''message'' of None \<Rightarrow> None | Some v \<Rightarrow> if truthy v then Some (py_str R v) else None))"

definition session_runtime_state :: "db \<Rightarrow> string \<Rightarrow> string" where
  "session_runtime_state d sid = (case last_opt (get_runtime_transitions d sid) of
     None \<Rightarrow> ''unknown'' | Some t \<Rightarrow> if pt_to t \<noteq> '''' then pt_to t else ''unknown'')"

definition pending_count_by_correlation :: "gov_store \<Rightarrow> (string, nat) dict" where
  "pending_count_by_correlation g = fold (\<lambda>a d. dict_set (av_correlation a) (dict_getd d (av_correlation a) 0 + 1) d)
     (list_pending_approvals g) []"

definition summary_from_diagnostics ::
  "diagnostics \<Rightarrow> string option \<Rightarrow> string \<Rightarrow> nat \<Rightarrow> time \<Rightarrow> session_summary" where
  "summary_from_diagnostics dg request st pending ts = (case dg_health dg of
     None \<Rightarrow> \<lparr>su_session = dg_session dg, su_correlation = dg_correlation dg, su_request = request, su_state = st,
       su_health = ''healthy'', su_degraded = False, su_replay_confidence = 1, su_pending = pending, su_updated = ts\<rparr>
   | Some h \<Rightarrow> \<lparr>su_session = dg_session dg, su_correlation = dg_correlation dg, su_request = request, su_state = st,
       su_health = band_value (rh_band h), su_degraded = rh_degraded h, su_replay_confidence = rh_replay_confidence h,
       su_pending = pending, su_updated = ts\<rparr>)"

text \<open>The time of a row: that of its health, else the clock.\<close>

definition summary_time :: "rt_env \<Rightarrow> diagnostics \<Rightarrow> time rt" where
  "summary_time R dg = (case dg_health dg of Some h \<Rightarrow> ret (rh_generated h) | None \<Rightarrow> clock R)"

definition haystack :: "session_summary \<Rightarrow> string" where
  "haystack u = lower (join_lines '' '' (filter (\<lambda>x. x \<noteq> '''')
     [su_session u, su_correlation u, str_or (su_request u) '''', su_state u]))"

definition matches_filters :: "list_filters \<Rightarrow> session_summary \<Rightarrow> bool" where
  "matches_filters f u \<longleftrightarrow>
     (lf_degraded_only f \<longrightarrow> su_degraded u) \<and>
     (str_or (lf_status f) '''' \<noteq> '''' \<longrightarrow> substr (lower (str_or (lf_status f) '''')) (lower (su_state u))) \<and>
     (str_or (lf_health f) '''' \<noteq> '''' \<longrightarrow> lower (str_or (lf_health f) '''') = lower (su_health u)) \<and>
     (lf_pending f = Some True \<longrightarrow> su_pending u \<noteq> 0) \<and>
     (lf_pending f = Some False \<longrightarrow> su_pending u = 0) \<and>
     (str_or (lf_search f) '''' \<noteq> '''' \<longrightarrow> substr (lower (str_or (lf_search f) '''')) (haystack u))"

definition session_row :: "rt_env \<Rightarrow> sys \<Rightarrow> diagnostics \<Rightarrow> time \<Rightarrow> session_summary" where
  "session_row R s dg ts = summary_from_diagnostics dg (founder_message R (sy_db s) (dg_correlation dg))
     (session_runtime_state (sy_db s) (dg_session dg))
     (dict_getd (pending_count_by_correlation (sy_gov s)) (dg_correlation dg) 0) ts"

text \<open>\<open>sort(reverse=True)\<close> keeps the order of equal rows; the page is a Python slice.\<close>

definition page :: "list_filters \<Rightarrow> session_summary list \<Rightarrow> session_summary list" where
  "page f us = py_slice (lf_offset f) (lf_offset f + lf_limit f)
     (sort_key (\<lambda>u. - su_updated u) (filter (matches_filters f) us))"

definition list_session_summaries :: "rt_env \<Rightarrow> list_filters \<Rightarrow> session_summary list rt" where
  "list_session_summaries R f =
     bnd (reads (\<lambda>s. list_all_session_diagnostics (sy_intel s))) (\<lambda>rows.
     bnd (collect rows (\<lambda>dg. bnd (summary_time R dg) (\<lambda>ts. reads (\<lambda>s. session_row R s dg ts)))) (\<lambda>us.
     ret (page f us)))"

section \<open>core/timeline.py\<close>

record timeline_entry =
  tl_time :: datetime
  tl_message :: string
  tl_type :: string
  tl_metadata :: pyval
  tl_causation :: "string option"

definition arrow :: string where
  "arrow = [char_of (0xE2 :: nat), char_of (0x86 :: nat), char_of (0x92 :: nat)]"

definition or_none :: "pyval option \<Rightarrow> pyval" where
  "or_none v = (case v of None \<Rightarrow> PNone | Some x \<Rightarrow> x)"

definition event_entry :: "rt_env \<Rightarrow> outbox_event \<Rightarrow> timeline_entry" where
  "event_entry R e =
     (if ev_type e = ''founder.intent''
      then \<lparr>tl_time = Aware (ev_created e), tl_message = ''Founder intent: '' @ py_str R (vgetd (ev_payload e) ''message'' (PStr '''')),
        tl_type = ''founder_intent'', tl_metadata = pdict [(''event_type'', PStr (ev_type e))], tl_causation = ev_causation e\<rparr>
      else if ev_type e = ''runtime.transition''
      then \<lparr>tl_time = Aware (ev_created e), tl_message = ''Runtime '' @ py_str R (or_none (vget (ev_payload e) ''from'')) @ '' '' @ arrow @
          '' '' @ py_str R (or_none (vget (ev_payload e) ''to'')),
        tl_type = ''runtime_transition'', tl_metadata = ev_payload e, tl_causation = ev_causation e\<rparr>
      else \<lparr>tl_time = Aware (ev_created e), tl_message = ev_type e @ '': '' @ py_str R (vgetd (ev_payload e) ''summary'' (PStr (ev_type e))),
        tl_type = ''event'', tl_metadata = pdict [(''event_type'', PStr (ev_type e))], tl_causation = ev_causation e\<rparr>)"

definition decision_entry :: "decision_record \<Rightarrow> timeline_entry" where
  "decision_entry d = \<lparr>tl_time = Aware (dr_created d), tl_message = ''Reasoning ['' @ dr_agent d @ '']: '' @ dr_summary d,
     tl_type = ''reasoning'', tl_metadata = pdict [(''agent'', PStr (dr_agent d)), (''outcome'', popt (dr_outcome d)),
       (''tools_used'', pstrs (dr_tools d))], tl_causation = dr_causation d\<rparr>"

definition approval_entry :: "approval \<Rightarrow> timeline_entry" where
  "approval_entry a = \<lparr>tl_time = av_expires a, tl_message = ''Approval pending: '' @ ap_action (av_proposal a), tl_type = ''approval'',
     tl_metadata = pdict [(''approval_id'', PStr (av_id a)), (''status'', PStr (approval_status_value (av_status a)))],
     tl_causation = None\<rparr>"

definition effect_entry :: "side_effect \<Rightarrow> timeline_entry" where
  "effect_entry e = \<lparr>tl_time = Aware (se_created e), tl_message = ''Side effect '' @ mutation_status_value (se_status e) @ '' on '' @
       str_or (Some (join_lines '', '' (se_systems e))) ''N/A'', tl_type = ''side_effect'',
     tl_metadata = pdict [(''status'', PStr (mutation_status_value (se_status e))), (''action_id'', PStr (se_action_id e))],
     tl_causation = Some (se_correlation e)\<rparr>"

definition outcome_entry :: "rt_env \<Rightarrow> outbox_event \<Rightarrow> timeline_entry" where
  "outcome_entry R e = \<lparr>tl_time = Aware (ev_created e),
     tl_message = ''Outcome: '' @ py_str R (vgetd (ev_payload e) ''summary'' (PStr ''completed'')), tl_type = ''outcome'',
     tl_metadata = ev_payload e, tl_causation = ev_causation e\<rparr>"

fun time_of :: "datetime \<Rightarrow> time" where
  "time_of (Aware t) = t"
| "time_of (Naive t) = t"

fun is_aware :: "datetime \<Rightarrow> bool" where
  "is_aware (Aware t) = True"
| "is_aware (Naive t) = False"

text \<open>Python refuses to compare a naive time with an aware one, and a sort compares neighbours.\<close>

definition sort_times :: "('a \<Rightarrow> datetime) \<Rightarrow> 'a list \<Rightarrow> exn + 'a list" where
  "sort_times f xs = (if (\<exists>x \<in> set xs. is_aware (f x)) \<and> (\<exists>x \<in> set xs. \<not> is_aware (f x)) then Inl TypeError
     else Inr (sort_key (\<lambda>x. time_of (f x)) xs))"

definition timeline_entries :: "rt_env \<Rightarrow> sys \<Rightarrow> string \<Rightarrow> timeline_entry list" where
  "timeline_entries R s cid =
     (let events = get_events_by_correlation (sy_db s) cid in
      map (event_entry R) events @
      map decision_entry (get_decisions_by_correlation (sy_db s) cid) @
      map approval_entry (filter (\<lambda>a. av_correlation a = cid) (list_pending_approvals (sy_gov s))) @
      map effect_entry (get_effects_by_correlation (sy_db s) cid) @
      map (outcome_entry R) (filter (\<lambda>e. ev_type e = ''session.completed'') events))"

definition build_executive_timeline :: "rt_env \<Rightarrow> string \<Rightarrow> timeline_entry list rt" where
  "build_executive_timeline R cid = bnd (reads (\<lambda>s. sort_times tl_time (timeline_entries R s cid))) lift_res"

section \<open>core/diagnostics.py\<close>

record span_tree =
  tree_spans :: "span list"
  tree_roots :: "string list"
  tree_total :: nat

definition span_tree_of :: "span list \<Rightarrow> span_tree" where
  "span_tree_of spans = \<lparr>tree_spans = dict_values (fold (\<lambda>s. dict_set (sp_id s) s) spans []),
     tree_roots = map sp_id (filter (\<lambda>s. str_or (sp_parent s) '''' = '''' \<or> sp_type s = ORCHESTRATION) spans),
     tree_total = length spans\<rparr>"

definition get_health :: "sys \<Rightarrow> string \<Rightarrow> runtime_health option" where
  "get_health s sid = last_opt (query_runtime_health s sid)"

definition get_span_tree :: "sys \<Rightarrow> string \<Rightarrow> string option \<Rightarrow> span_tree" where
  "get_span_tree s sid cid = span_tree_of (query_execution_spans s sid cid)"

definition snapshot_fingerprints :: "sys \<Rightarrow> string \<Rightarrow> pyval list" where
  "snapshot_fingerprints s sid = map (\<lambda>v. vgetd v ''context_fingerprint'' PNone)
     (filter (\<lambda>v. opt_truthy (vget v ''context_fingerprint'')) (get_replay_snapshots s sid))"

record context_view =
  cv_session :: string
  cv_fingerprints :: "pyval list"
  cv_lineage :: "lineage list"

definition get_context :: "sys \<Rightarrow> string \<Rightarrow> context_view" where
  "get_context s sid = \<lparr>cv_session = sid, cv_fingerprints = snapshot_fingerprints s sid, cv_lineage = get_lineage (sy_intel s) sid\<rparr>"

text \<open>The stored row if there is one, else built from the stores.\<close>

definition get_diagnostics :: "string \<Rightarrow> string \<Rightarrow> diagnostics rt" where
  "get_diagnostics sid cid = bnd (reads (\<lambda>s. query_session_diagnostics_row s sid)) (\<lambda>d.
     case d of Some x \<Rightarrow> ret x | None \<Rightarrow> build_session_diagnostics sid cid None None)"

definition get_replay_analysis :: "rt_env \<Rightarrow> registry \<Rightarrow> string \<Rightarrow> string \<Rightarrow> replay_mode \<Rightarrow> replay_analytics rt" where
  "get_replay_analysis R reg sid cid mode = analyze_replay R reg sid cid mode"

section \<open>core/session_summary_builder.py\<close>

record summary_line =
  sl_severity :: string
  sl_headline :: string
  sl_detail :: "string option"
  sl_source :: string

definition line :: "string \<Rightarrow> string \<Rightarrow> string option \<Rightarrow> string \<Rightarrow> summary_line" where
  "line severity headline detail source = \<lparr>sl_severity = severity, sl_headline = headline, sl_detail = detail, sl_source = source\<rparr>"

definition when_line :: "bool \<Rightarrow> summary_line \<Rightarrow> summary_line list" where
  "when_line b l = (if b then [l] else [])"

definition degraded_line :: "diagnostics \<Rightarrow> summary_line list" where
  "degraded_line dg = (case dg_health dg of None \<Rightarrow> []
   | Some h \<Rightarrow> when_line (rh_degraded h) (line ''critical''
       (''Session entered degraded mode due to '' @ (if dg_tel_retries dg \<ge> 3 then ''retry storm''
          else if rh_retry_pressure h > 1/2 then ''retry pressure'' else ''runtime health degradation''))
       (Some (''Health band: '' @ band_value (rh_band h) @ '', replay confidence '' @ fixed2 (rh_replay_confidence h))) ''degraded_mode''))"

definition policy_lines :: "diagnostics \<Rightarrow> summary_line list" where
  "policy_lines dg = (case dg_policy dg of None \<Rightarrow> []
   | Some p \<Rightarrow> when_line (\<not> po_delegation p) (line ''warning'' ''Delegation frozen because adaptive policy restricted delegation''
         (Some ''delegation_enabled=false in current adaptive policy'') ''delegation_frozen'') @
       when_line (po_max_retry_depth p = 1 \<and> dg_tel_retries dg > 0) (line ''warning''
         ''Retry depth capped after retry storm detection'' (Some ''max_retry_depth=1'') ''retry_storm''))"

definition replay_line :: "diagnostics \<Rightarrow> replay_analytics option \<Rightarrow> summary_line list" where
  "replay_line dg ra =
     (let confidence = (case dg_health dg of None \<Rightarrow> [] | Some h \<Rightarrow> when_line (rh_replay_confidence h < fl (85/100)) (line ''warning''
          ''Replay confidence dropped below operational threshold''
          (Some (''Current replay confidence: '' @ fixed2 (rh_replay_confidence h))) ''replay_confidence''))
      in case ra of None \<Rightarrow> confidence
       | Some a \<Rightarrow> if ra_drift_severity a > 0
           then [line (if ra_drift_severity a < 1/2 then ''warning'' else ''critical'') ''Replay drift detected across runtime snapshots''
             (Some (''Drift severity '' @ fixed2 (ra_drift_severity a) @ '', fields: '' @
               str_or (Some (join_lines '', '' (ra_drift_fields a))) ''n/a'')) ''replay_drift'']
           else confidence)"

definition pressure_line :: "diagnostics \<Rightarrow> summary_line list" where
  "pressure_line dg = when_line (dg_tel_avg_pressure dg > fl (7/10)) (line ''warning'' ''Context compressed under high pressure''
     (Some (''Average context pressure: '' @ fixed2 (dg_tel_avg_pressure dg))) ''context_pressure'')"

definition anomaly_metadata :: "anomaly \<Rightarrow> pyval" where
  "anomaly_metadata a = pdict (map (\<lambda>p. (fst p, PFloat (snd p))) (an_metadata a))"

definition anomaly_line :: "rt_env \<Rightarrow> anomaly \<Rightarrow> summary_line" where
  "anomaly_line R a = line (if an_severity a = LOW \<or> an_severity a = MEDIUM then anomaly_severity_value (an_severity a) else ''critical'')
     (''Runtime anomaly: '' @ map (\<lambda>c. if c = CHR ''_'' then CHR '' '' else c) (an_type a))
     (if an_metadata a = [] then None else Some (re_repr R (anomaly_metadata a))) ''anomaly''"

definition stability_line :: "stability_event \<Rightarrow> summary_line list" where
  "stability_line e = when_line (substr ''retry'' (lower (sv_type e))) (line ''warning'' ''Stability event: retry storm pattern detected''
     (Some (sv_type e)) ''retry_storm'')"

text \<open>Only the drift events carry metadata.\<close>

definition governance_metadata :: "governance_event \<Rightarrow> pyval" where
  "governance_metadata e = (if gv_action e = REPLAY_DRIFT_DETECTED then pdict [(''drift_fields'', pstrs (gv_drift_fields e))] else PDict [])"

definition governance_line :: "rt_env \<Rightarrow> governance_event \<Rightarrow> summary_line list" where
  "governance_line R e = (case gv_action e of
     DISABLE_DELEGATION \<Rightarrow> [line ''warning'' ''Governance escalated: delegation disabled'' (Some (re_repr R (governance_metadata e))) ''governance'']
   | ESCALATE_APPROVAL \<Rightarrow> [line ''info'' ''Governance escalated approval requirements'' (Some (re_repr R (governance_metadata e))) ''governance'']
   | _ \<Rightarrow> [])"

definition tool_line :: "tool_profile \<Rightarrow> summary_line list" where
  "tool_line p = when_line (tp_band p = BAND_DEGRADED \<or> tp_success_rate p < fl (8/10)) (line ''warning''
     (''Tool '' @ tp_name p @ '' marked unstable'')
     (Some (''Success rate '' @ percent0 (tp_success_rate p) @ '', band '' @ routing_band_value (tp_band p))) ''tool_unstable'')"

definition raw_lines :: "rt_env \<Rightarrow> diagnostics \<Rightarrow> replay_analytics option \<Rightarrow> tool_profile list \<Rightarrow> summary_line list" where
  "raw_lines R dg ra tools = degraded_line dg @ policy_lines dg @ replay_line dg ra @ pressure_line dg @
     map (anomaly_line R) (dg_anomalies dg) @ concat (map stability_line (dg_stability_events dg)) @
     concat (map (governance_line R) (dg_governance_events dg)) @ concat (map tool_line tools)"

definition severity_rank :: "string \<Rightarrow> nat" where
  "severity_rank x = (if x = ''critical'' then 0 else if x = ''warning'' then 1 else if x = ''info'' then 2 else 3)"

definition build_human_summaries :: "rt_env \<Rightarrow> diagnostics \<Rightarrow> replay_analytics option \<Rightarrow> tool_profile list \<Rightarrow> summary_line list" where
  "build_human_summaries R dg ra tools =
     (let lines = raw_lines R dg ra tools;
          shown = (case dg_health dg of None \<Rightarrow> lines
            | Some h \<Rightarrow> if lines = [] then [line ''info'' ''Session operating within normal parameters''
                (Some (''Health band: '' @ band_value (rh_band h))) ''healthy''] else lines)
      in sort_key (\<lambda>l. severity_rank (sl_severity l)) shown)"

section \<open>ui/services/human_labels.py\<close>

definition BADGE_CLASS :: "(string, string) dict" where
  "BADGE_CLASS = [(''critical'', ''badge-error''), (''warning'', ''badge-warning''), (''info'', ''badge-info''),
     (''low'', ''badge-ghost''), (''medium'', ''badge-warning''), (''high'', ''badge-error'')]"

definition badge_class :: "summary_line \<Rightarrow> string" where
  "badge_class l = dict_getd BADGE_CLASS (sl_severity l) ''badge-ghost''"

text \<open>The icons are single characters, given by their code points.\<close>

definition ICONS :: "(string, nat) dict" where
  "ICONS = [(''degraded_mode'', 9888), (''retry_storm'', 8635), (''delegation_frozen'', 9208), (''replay_drift'', 8800),
     (''replay_confidence'', 9678), (''context_pressure'', 9636), (''tool_unstable'', 128295), (''governance'', 9878),
     (''anomaly'', 33), (''healthy'', 10003)]"

definition icon_char :: "summary_line \<Rightarrow> nat" where
  "icon_char l = dict_getd ICONS (sl_source l) 8226"

section \<open>ui/services/query_facade.py\<close>

definition facade_require :: "auth_context \<Rightarrow> permission \<Rightarrow> unit rt" where
  "facade_require auth p = (if role_has_permission (au_role auth) p then ret () else raise (HTTPException 403))"

definition ui_list_sessions :: "rt_env \<Rightarrow> auth_context \<Rightarrow> list_filters \<Rightarrow> session_summary list rt" where
  "ui_list_sessions R auth f = seqc (facade_require auth SESSION_READ) (list_session_summaries R f)"

definition unstable_tools :: "sys \<Rightarrow> tool_profile list" where
  "unstable_tools s = filter (\<lambda>p. tp_band p = BAND_DEGRADED \<or> tp_success_rate p < fl (85/100)) (query_tool_reliability_profiles s)"

record session_detail =
  sd_summary :: session_summary
  sd_diagnostics :: diagnostics
  sd_lines :: "summary_line list"
  sd_analytics :: replay_analytics

text \<open>The summary of a session that the index does not list; its time is the clock.\<close>

definition fallback_summary :: "string \<Rightarrow> string \<Rightarrow> diagnostics \<Rightarrow> replay_analytics \<Rightarrow> time \<Rightarrow> session_summary" where
  "fallback_summary sid cid dg ra now = (case dg_health dg of
     None \<Rightarrow> \<lparr>su_session = sid, su_correlation = cid, su_request = None, su_state = ''unknown'', su_health = ''healthy'',
       su_degraded = False, su_replay_confidence = ra_confidence ra, su_pending = 0, su_updated = now\<rparr>
   | Some h \<Rightarrow> \<lparr>su_session = sid, su_correlation = cid, su_request = None, su_state = ''unknown'', su_health = band_value (rh_band h),
       su_degraded = rh_degraded h, su_replay_confidence = rh_replay_confidence h, su_pending = 0, su_updated = now\<rparr>)"

definition get_session_detail :: "rt_env \<Rightarrow> registry \<Rightarrow> auth_context \<Rightarrow> string \<Rightarrow> string \<Rightarrow> session_detail rt" where
  "get_session_detail R reg auth sid cid =
     seqc (facade_require auth DIAGNOSTICS_READ)
     (bnd (get_diagnostics sid cid) (\<lambda>dg.
      bnd (get_replay_analysis R reg sid cid FROZEN) (\<lambda>ra.
      bnd (reads unstable_tools) (\<lambda>tools.
      bnd (list_session_summaries R (default_filters\<lparr>lf_limit := 500\<rparr>)) (\<lambda>us.
      bnd (case List.find (\<lambda>u. su_session u = sid) us of Some u \<Rightarrow> ret u
           | None \<Rightarrow> bnd (clock R) (\<lambda>now. ret (fallback_summary sid cid dg ra now))) (\<lambda>u.
      ret \<lparr>sd_summary = u, sd_diagnostics = dg, sd_lines = build_human_summaries R dg (Some ra) tools, sd_analytics = ra\<rparr>))))))"

record dashboard_state =
  ds_recent :: "session_summary list"
  ds_degraded :: "session_summary list"
  ds_pending :: "approval list"
  ds_tools :: "tool_profile list"
  ds_healthy :: bool
  ds_pending_count :: nat

definition get_dashboard_state :: "rt_env \<Rightarrow> auth_context \<Rightarrow> dashboard_state rt" where
  "get_dashboard_state R auth =
     seqc (facade_require auth SESSION_READ)
     (bnd (list_session_summaries R (default_filters\<lparr>lf_limit := 100\<rparr>)) (\<lambda>us.
      reads (\<lambda>s. let pending = list_pending_approvals (sy_gov s) in
        \<lparr>ds_recent = take 10 us, ds_degraded = take 10 (filter su_degraded us), ds_pending = pending,
         ds_tools = unstable_tools s, ds_healthy = True, ds_pending_count = length pending\<rparr>)))"

record unified_event =
  ue_time :: datetime
  ue_type :: string
  ue_headline :: string
  ue_detail :: "string option"
  ue_metadata :: pyval
  ue_severity :: string

definition severity_for_type :: "string \<Rightarrow> string" where
  "severity_for_type t = (if t = ''approval'' \<or> t = ''side_effect'' then ''warning'' else ''info'')"

definition entry_event :: "timeline_entry \<Rightarrow> unified_event" where
  "entry_event e = \<lparr>ue_time = tl_time e, ue_type = tl_type e, ue_headline = tl_message e, ue_detail = None,
     ue_metadata = tl_metadata e, ue_severity = severity_for_type (tl_type e)\<rparr>"

definition anomaly_event :: "anomaly \<Rightarrow> unified_event" where
  "anomaly_event a = \<lparr>ue_time = Aware (an_detected a), ue_type = ''anomaly'', ue_headline = ''Anomaly: '' @ an_type a,
     ue_detail = Some (''Severity '' @ anomaly_severity_value (an_severity a)), ue_metadata = anomaly_metadata a,
     ue_severity = (if an_severity a = LOW then ''warning'' else anomaly_severity_value (an_severity a))\<rparr>"

definition stability_dump :: "rt_env \<Rightarrow> stability_event \<Rightarrow> pyval" where
  "stability_dump R e = pdict [(''session_id'', PStr (sv_session e)), (''correlation_id'', PStr (sv_correlation e)),
     (''event_type'', PStr (sv_type e)), (''severity'', PStr (sv_severity e)), (''metadata'', sv_metadata e),
     (''created_at'', PDate (re_iso R (sv_created e)))]"

fun governance_action_value :: "governance_action \<Rightarrow> string" where
  "governance_action_value ESCALATE_APPROVAL = ''escalate_approval''"
| "governance_action_value DISABLE_DELEGATION = ''disable_delegation''"
| "governance_action_value FORCE_DETERMINISTIC = ''force_deterministic''"
| "governance_action_value REPLAY_DRIFT_DETECTED = ''replay_drift_detected''"

definition governance_dump :: "rt_env \<Rightarrow> governance_event \<Rightarrow> pyval" where
  "governance_dump R e = pdict [(''session_id'', PStr (gv_session e)), (''correlation_id'', PStr (gv_correlation e)),
     (''action'', PEnum (PStr (governance_action_value (gv_action e)))), (''approval_bias_delta'', PFloat (gv_bias_delta e)),
     (''metadata'', governance_metadata e), (''created_at'', PDate (re_iso R (gv_created e)))]"

text \<open>The summaries hold \<open>datetime\<close> objects in memory, which are not \<open>str\<close>, so that these three kinds of event get the time
  of the call.\<close>

definition stability_event_at :: "rt_env \<Rightarrow> stability_event \<Rightarrow> unified_event rt" where
  "stability_event_at R e = bnd (clock R) (\<lambda>now. ret \<lparr>ue_time = Aware now, ue_type = ''stability'',
     ue_headline = ''Stability: '' @ sv_type e, ue_detail = None, ue_metadata = stability_dump R e, ue_severity = sv_severity e\<rparr>)"

definition governance_event_at :: "rt_env \<Rightarrow> governance_event \<Rightarrow> unified_event rt" where
  "governance_event_at R e = bnd (clock R) (\<lambda>now. ret \<lparr>ue_time = Aware now, ue_type = ''governance'',
     ue_headline = ''Governance: '' @ governance_action_text (gv_action e), ue_detail = None, ue_metadata = governance_dump R e,
     ue_severity = ''warning''\<rparr>)"

fun span_status_value :: "span_status \<Rightarrow> string" where
  "span_status_value SP_STARTED = ''started''" | "span_status_value SP_OK = ''ok''" | "span_status_value SP_ERROR = ''error''"

definition span_event_at :: "rt_env \<Rightarrow> span \<Rightarrow> unified_event rt" where
  "span_event_at R x = bnd (clock R) (\<lambda>now. ret \<lparr>ue_time = Aware now, ue_type = ''span'',
     ue_headline = ''Span '' @ span_type_text (sp_type x) @ '': '' @ sp_runtime_state x, ue_detail = None,
     ue_metadata = pdict [(''span_id'', PStr (sp_id x)), (''status'', PEnum (PStr (span_status_value (sp_status x))))],
     ue_severity = ''info''\<rparr>)"

definition diagnostic_events :: "rt_env \<Rightarrow> string \<Rightarrow> string \<Rightarrow> unified_event list rt" where
  "diagnostic_events R sid cid =
     bnd (get_diagnostics sid cid) (\<lambda>dg.
     bnd (collect (dg_stability_events dg) (stability_event_at R)) (\<lambda>stab.
     bnd (collect (dg_governance_events dg) (governance_event_at R)) (\<lambda>gov.
     bnd (reads (\<lambda>s. tree_spans (get_span_tree s sid (Some cid)))) (\<lambda>spans.
     bnd (collect spans (span_event_at R)) (\<lambda>sps.
     ret (map anomaly_event (dg_anomalies dg) @ stab @ gov @ sps))))))"

definition get_timeline_events :: "rt_env \<Rightarrow> auth_context \<Rightarrow> string \<Rightarrow> string \<Rightarrow> unified_event list rt" where
  "get_timeline_events R auth sid cid =
     seqc (facade_require auth TIMELINE_READ)
     (bnd (build_executive_timeline R cid) (\<lambda>entries.
      bnd (if role_has_permission (au_role auth) DIAGNOSTICS_READ then diagnostic_events R sid cid else ret []) (\<lambda>extra.
      lift_res (sort_times ue_time (map entry_event entries @ extra)))))"

record replay_ui_state =
  ru_analytics :: replay_analytics
  ru_governance :: "governance_event list"
  ru_delta :: int
  ru_session :: "replay_session option"
  ru_mode :: string

definition current_policy :: "sys \<Rightarrow> string \<Rightarrow> adaptive_policy" where
  "current_policy s sid = (case query_adaptive_policy (sy_intel s) sid of None \<Rightarrow> default_policy | Some p \<Rightarrow> ps_policy p)"

definition get_replay_state :: "rt_env \<Rightarrow> registry \<Rightarrow> auth_context \<Rightarrow> string \<Rightarrow> string \<Rightarrow> replay_mode \<Rightarrow> replay_ui_state rt" where
  "get_replay_state R reg auth sid cid mode =
     seqc (facade_require auth DIAGNOSTICS_READ)
     (bnd (analyze_replay R reg sid cid mode) (\<lambda>ra.
      bnd (reads (\<lambda>s. (query_governance_events s sid, effective_approval_delta (current_policy s sid)))) (\<lambda>(events, delta).
      bnd (if role_has_permission (au_role auth) REPLAY_EXECUTE
           then bnd (Replay.replay_session R reg sid cid mode) (\<lambda>q. ret (Some q)) else ret None) (\<lambda>q.
      ret \<lparr>ru_analytics = ra, ru_governance = events, ru_delta = delta, ru_session = q, ru_mode = mode_value mode\<rparr>))))"

definition severity_weight :: "string \<Rightarrow> rat" where
  "severity_weight x = (if x = ''low'' then fl (1/10) else if x = ''medium'' then fl (2/10)
     else if x = ''high'' then fl (35/100) else if x = ''critical'' then 1/2 else fl (2/10))"

text \<open>\<open>sum\<close> starts from the integer 0.\<close>

definition stability_score :: "stability_event list \<Rightarrow> rat" where
  "stability_score evs = (if evs = [] then 1
     else round4 (max 0 (fsub 1 (min 1 (py_fsum (map (\<lambda>e. severity_weight (sv_severity e)) evs))))))"

record adaptive_state =
  as_policy :: "policy_snapshot option"
  as_score :: rat
  as_events :: "stability_event list"
  as_context :: "priority_row list \<times> rat"

definition get_adaptive_state :: "auth_context \<Rightarrow> string \<Rightarrow> adaptive_state rt" where
  "get_adaptive_state auth sid =
     seqc (facade_require auth DIAGNOSTICS_READ)
     (reads (\<lambda>s. let evs = query_stability_events s sid in
        \<lparr>as_policy = query_adaptive_policy (sy_intel s) sid, as_score = stability_score evs, as_events = evs,
         as_context = query_context_intelligence (sy_intel s) sid\<rparr>))"

record diagnostics_detail =
  dd_diagnostics :: diagnostics
  dd_lines :: "summary_line list"
  dd_spans :: span_tree
  dd_telemetry :: "telemetry list"
  dd_context :: context_view
  dd_health :: "runtime_health option"

definition get_diagnostics_detail :: "rt_env \<Rightarrow> registry \<Rightarrow> auth_context \<Rightarrow> string \<Rightarrow> string \<Rightarrow> diagnostics_detail rt" where
  "get_diagnostics_detail R reg auth sid cid =
     seqc (facade_require auth DIAGNOSTICS_READ)
     (bnd (get_session_detail R reg auth sid cid) (\<lambda>d.
      reads (\<lambda>s. \<lparr>dd_diagnostics = sd_diagnostics d, dd_lines = sd_lines d, dd_spans = get_span_tree s sid (Some cid),
        dd_telemetry = query_cognitive_telemetry s sid (Some cid), dd_context = get_context s sid, dd_health = get_health s sid\<rparr>)))"

record approval_card =
  ac_approval :: approval
  ac_session :: string
  ac_context :: "summary_line list"

text \<open>Whatever the detail of a session raises leaves its card without context.\<close>

definition card_context :: "rt_env \<Rightarrow> registry \<Rightarrow> auth_context \<Rightarrow> string \<Rightarrow> string \<Rightarrow> summary_line list rt" where
  "card_context R reg auth sid cid = catch (bnd (get_session_detail R reg auth sid cid) (\<lambda>d. ret (take 3 (sd_lines d))))
     (\<lambda>e. True) (\<lambda>e. ret [])"

definition get_approval_queue :: "rt_env \<Rightarrow> registry \<Rightarrow> auth_context \<Rightarrow> approval_card list rt" where
  "get_approval_queue R reg auth =
     seqc (facade_require auth APPROVALS_READ)
     (bnd (reads (\<lambda>s. list_pending_approvals (sy_gov s))) (\<lambda>pending.
      bnd (list_session_summaries R (default_filters\<lparr>lf_limit := 500\<rparr>)) (\<lambda>us.
      let corr_to_session = fold (\<lambda>u. dict_set (su_correlation u) (su_session u)) us [] in
      collect pending (\<lambda>a. let sid = dict_getd corr_to_session (av_correlation a) (av_correlation a) in
        bnd (card_context R reg auth sid (av_correlation a)) (\<lambda>lines.
        ret \<lparr>ac_approval = a, ac_session = sid, ac_context = lines\<rparr>)))))"

record session_bundle =
  sx_session :: string
  sx_correlation :: string
  sx_diagnostics :: diagnostics
  sx_replay :: replay_analytics
  sx_policy :: "policy_snapshot option"
  sx_timeline :: "unified_event list"
  sx_lines :: "summary_line list"
  sx_exported :: time

definition build_session_bundle :: "rt_env \<Rightarrow> registry \<Rightarrow> auth_context \<Rightarrow> string \<Rightarrow> string \<Rightarrow> session_bundle rt" where
  "build_session_bundle R reg auth sid cid =
     seqc (facade_require auth DIAGNOSTICS_READ)
     (bnd (get_session_detail R reg auth sid cid) (\<lambda>d.
      bnd (get_timeline_events R auth sid cid) (\<lambda>tl.
      bnd (get_replay_state R reg auth sid cid FROZEN) (\<lambda>ru.
      bnd (get_adaptive_state auth sid) (\<lambda>ad.
      bnd (clock R) (\<lambda>now.
      ret \<lparr>sx_session = sid, sx_correlation = cid, sx_diagnostics = sd_diagnostics d, sx_replay = ru_analytics ru,
        sx_policy = as_policy ad, sx_timeline = tl, sx_lines = sd_lines d, sx_exported = now\<rparr>))))))"

section \<open>Lemmas\<close>

lemma collect_reads: "collect xs (\<lambda>x. reads (f x)) s = (Inr (map (\<lambda>x. f x s) xs), s)"
  by (induction xs) (simp_all add: comp_simps)

text \<open>The first page is where the second one ends.\<close>

lemma slice_page: "py_slice (int a) (int a + int n) xs = take n (drop a xs)"
proof -
  have "nat (int a + int n) = a + n" by linarith
  then show ?thesis
    by (simp add: py_slice_def py_index_def drop_take min_def)
qed

text \<open>The rows that the index shows, newest first, when every stored session has a health.\<close>

definition all_have_health :: "sys \<Rightarrow> bool" where
  "all_have_health s \<longleftrightarrow> (\<forall>dg \<in> set (list_all_session_diagnostics (sy_intel s)). dg_health dg \<noteq> None)"

definition stored_rows :: "rt_env \<Rightarrow> sys \<Rightarrow> session_summary list" where
  "stored_rows R s = map (\<lambda>dg. session_row R s dg (case dg_health dg of Some h \<Rightarrow> rh_generated h | None \<Rightarrow> 0))
     (list_all_session_diagnostics (sy_intel s))"

lemma collect_cong: "(\<And>x. x \<in> set xs \<Longrightarrow> f x = g x) \<Longrightarrow> collect xs f = collect xs g"
  by (induction xs) auto

lemma list_session_summaries_run:
  assumes "all_have_health s"
  shows "list_session_summaries R f s = (Inr (page f (stored_rows R s)), s)"
proof -
  let ?ds = "list_all_session_diagnostics (sy_intel s)"
  have "collect ?ds (\<lambda>dg. bnd (summary_time R dg) (\<lambda>ts. reads (\<lambda>s. session_row R s dg ts))) =
      collect ?ds (\<lambda>dg. reads (\<lambda>s. session_row R s dg (case dg_health dg of Some h \<Rightarrow> rh_generated h | None \<Rightarrow> 0)))"
    using assms by (intro collect_cong) (auto simp: all_have_health_def summary_time_def bnd_ret)
  then show ?thesis
    by (simp add: list_session_summaries_def bnd_reads bnd_def [of "collect _ _"] collect_reads ret_def stored_rows_def)
qed

section \<open>Properties\<close>

text \<open>C35: the session index is a faithful pagination.  Where every stored session has a health (each close computes one), there is
  one listing of the rows that match the filters, each of them exactly once, newest first, such that every page (any offset,
  any limit) is the corresponding part of it; so consecutive pages neither repeat nor skip a session.  Reading changes nothing.\<close>

theorem session_listing_pages:
  assumes "all_have_health s"
  shows "\<exists>full. mset full = mset (filter (matches_filters f) (stored_rows R s)) \<and>
    sorted_wrt (\<lambda>a b. su_updated b \<le> su_updated a) full \<and>
    (\<forall>off lim. list_session_summaries R (f\<lparr>lf_offset := int off, lf_limit := int lim\<rparr>) s = (Inr (take lim (drop off full)), s))"
proof (intro exI conjI allI)
  let ?full = "sort_key (\<lambda>u. - su_updated u) (filter (matches_filters f) (stored_rows R s))"
  show "mset ?full = mset (filter (matches_filters f) (stored_rows R s))" by simp
  show "sorted_wrt (\<lambda>a b. su_updated b \<le> su_updated a) ?full"
    using sorted_sort_key [of "\<lambda>u. - su_updated u" "filter (matches_filters f) (stored_rows R s)"] by (simp add: sorted_map)
  fix off lim
  have "matches_filters (f\<lparr>lf_offset := int off, lf_limit := int lim\<rparr>) = matches_filters f"
    by (rule ext) (simp add: matches_filters_def)
  then show "list_session_summaries R (f\<lparr>lf_offset := int off, lf_limit := int lim\<rparr>) s = (Inr (take lim (drop off ?full)), s)"
    by (simp add: list_session_summaries_run [OF assms] page_def slice_page)
qed

text \<open>the summary of a session is complete and ordered by severity: it holds exactly the lines that the diagnostics, the replay
  analysis and the tool profiles give (or the one line that all is well), never nothing when the health is known, critical lines before
  warnings before informative ones; a line of an anomaly of severity low or medium is unknown to that order and
  comes after every other.\<close>

theorem human_summaries_ordered:
  "sorted_wrt (\<lambda>a b. severity_rank (sl_severity a) \<le> severity_rank (sl_severity b)) (build_human_summaries R dg ra tools) \<and>
   (raw_lines R dg ra tools \<noteq> [] \<longrightarrow> mset (build_human_summaries R dg ra tools) = mset (raw_lines R dg ra tools)) \<and>
   (dg_health dg \<noteq> None \<longrightarrow> build_human_summaries R dg ra tools \<noteq> []) \<and>
   (\<forall>a. an_severity a \<in> {LOW, MEDIUM} \<longrightarrow> (\<forall>x. severity_rank x \<le> severity_rank (sl_severity (anomaly_line R a))))"
proof (intro conjI impI allI)
  show "sorted_wrt (\<lambda>a b. severity_rank (sl_severity a) \<le> severity_rank (sl_severity b)) (build_human_summaries R dg ra tools)"
    unfolding build_human_summaries_def Let_def using sorted_sort_key [of "\<lambda>l. severity_rank (sl_severity l)"] unfolding sorted_map by blast
  show "mset (build_human_summaries R dg ra tools) = mset (raw_lines R dg ra tools)" if "raw_lines R dg ra tools \<noteq> []"
    using that by (simp add: build_human_summaries_def Let_def split: option.split)
  show "build_human_summaries R dg ra tools \<noteq> []" if known: "dg_health dg \<noteq> None"
  proof -
    obtain h where h: "dg_health dg = Some h" using known by auto
    have "length (build_human_summaries R dg ra tools) \<noteq> 0"
      unfolding build_human_summaries_def Let_def h length_sort option.case by (simp split: if_splits)
    then show ?thesis by auto
  qed
  show "severity_rank x \<le> severity_rank (sl_severity (anomaly_line R a))" if "an_severity a \<in> {LOW, MEDIUM}" for x a
    using that by (auto simp: anomaly_line_def line_def severity_rank_def)
qed

text \<open>the executive timeline loses nothing: it holds the entry of every event, decision, pending approval and effect of the
  correlation and an outcome for every completed session, in the order of time, and fails (with a comparison of naive and
  aware times) exactly when a pending approval of the correlation expires at a naive time while some entry is aware.\<close>

theorem timeline_complete:
  "case build_executive_timeline R cid s of
     (Inr es, t) \<Rightarrow> t = s \<and> mset es = mset (timeline_entries R s cid) \<and> sorted_wrt (\<lambda>a b. time_of (tl_time a) \<le> time_of (tl_time b)) es \<and>
       ((\<exists>x \<in> set (timeline_entries R s cid). is_aware (tl_time x)) \<longrightarrow>
         (\<forall>a \<in> set (list_pending_approvals (sy_gov s)). av_correlation a = cid \<longrightarrow> is_aware (av_expires a)))
   | (Inl e, t) \<Rightarrow> t = s \<and> e = TypeError \<and> (\<exists>x \<in> set (timeline_entries R s cid). is_aware (tl_time x)) \<and>
       (\<exists>a \<in> set (list_pending_approvals (sy_gov s)). av_correlation a = cid \<and> \<not> is_aware (av_expires a))"
proof -
  have naive: "\<exists>a \<in> set (list_pending_approvals (sy_gov s)). av_correlation a = cid \<and> \<not> is_aware (av_expires a)"
    if "x \<in> set (timeline_entries R s cid)" "\<not> is_aware (tl_time x)" for x
    using that by (auto simp: timeline_entries_def Let_def event_entry_def decision_entry_def approval_entry_def effect_entry_def
      outcome_entry_def split: if_splits)
  moreover have "\<exists>x \<in> set (timeline_entries R s cid). \<not> is_aware (tl_time x)"
    if "a \<in> set (list_pending_approvals (sy_gov s))" "av_correlation a = cid" "\<not> is_aware (av_expires a)" for a
    using that by (auto simp: timeline_entries_def Let_def approval_entry_def intro!: bexI [of _ "approval_entry a"])
  ultimately show ?thesis
    using sorted_sort_key [of "\<lambda>x. time_of (tl_time x)" "timeline_entries R s cid"]
    by (auto simp: build_executive_timeline_def bnd_reads lift_res_def sort_times_def sorted_map)
qed

text \<open>a request that completes is never listed as completed: the machine completes without a stored transition, so that after a
  deterministic request the frozen replay of the session ends in \<open>completed\<close> while the session index shows \<open>observing\<close> (under the
  hypotheses that make the request return: unused ids, new and distinct idempotency keys, a tool that does not call GitHub, parameters
  that can be bound).\<close>

theorem completed_session_listed_as_observing:
  assumes "tool \<notin> github_tools" and "tool \<noteq> ''''"
    and "distinct (map (payload_key (re_env R)) (deterministic_payloads cid sid tool))"
    and "set (map (payload_key (re_env R)) (deterministic_payloads cid sid tool)) \<inter> set (outbox_keys s) = {}"
    and "get_runtime_transitions (sy_db s) sid = []" and "get_events_by_correlation (sy_db s) cid = []"
    and "get_replay_snapshots s sid = []" and "get_replay_baseline_meta s sid = None" and "binds params"
  shows "\<exists>r t oc. run_deterministic_tool R reg tool agent cid sid params s = (Inr r, t) \<and>
    run_from_session sid cid t = Inr oc \<and> oc_final_state oc = ''completed'' \<and> session_runtime_state (sy_db t) sid = ''observing''"
proof -
  obtain r t oc where t: "run_deterministic_tool R reg tool agent cid sid params s = (Inr r, t)" "run_from_session sid cid t = Inr oc"
    "oc_final_state oc = ''completed''" "map edge (get_runtime_transitions (sy_db t) sid) = steps_of PERCEIVING [REASONING, WAITING_TOOL, OBSERVING]"
    using deterministic_closes [OF assms] by blast
  obtain a b c where "get_runtime_transitions (sy_db t) sid = [a, b, c]" "pt_to c = ''observing''"
    using t(4) by (auto simp: Cons_eq_map_conv)
  then have "session_runtime_state (sy_db t) sid = ''observing''" by (simp add: session_runtime_state_def last_opt_def)
  then show ?thesis using t by blast
qed

section \<open>Witnesses\<close>

definition demo_row :: "string \<Rightarrow> time \<Rightarrow> diagnostics" where
  "demo_row sid now = diagnostics_of sid ''c'' (Some (compute_health ''c'' sid now [] [] 0 1 0)) None init_sys"

definition listed_sys :: sys where
  "listed_sys = init_sys\<lparr>sy_intel := reset_intelligence_store\<lparr>is_diagnostics := [(''s1'', demo_row ''s1'' 1), (''s2'', demo_row ''s2'' 2)]\<rparr>\<rparr>"

lemma listed_rows: "list_all_session_diagnostics (sy_intel listed_sys) = [demo_row ''s1'' 1, demo_row ''s2'' 2]"
  by (simp add: listed_sys_def list_all_session_diagnostics_def)

lemma demo_row_health: "dg_health (demo_row sid now) = Some (compute_health ''c'' sid now [] [] 0 1 0)"
  by (simp add: demo_row_def diagnostics_of_def Let_def)

theorem session_listing_pages_witness:
  "\<exists>a b. su_updated b \<le> su_updated a \<and>
    list_session_summaries demo_env default_filters listed_sys = (Inr [a, b], listed_sys) \<and>
    list_session_summaries demo_env (default_filters\<lparr>lf_offset := 1, lf_limit := 1\<rparr>) listed_sys = (Inr [b], listed_sys)"
proof -
  have "all_have_health listed_sys" by (simp add: all_have_health_def listed_rows demo_row_health)
  then obtain full where full: "mset full = mset (filter (matches_filters default_filters) (stored_rows demo_env listed_sys))"
    "sorted_wrt (\<lambda>a b. su_updated b \<le> su_updated a) full"
    and pages: "\<And>off lim. list_session_summaries demo_env (default_filters\<lparr>lf_offset := int off, lf_limit := int lim\<rparr>) listed_sys =
      (Inr (take lim (drop off full)), listed_sys)"
    using session_listing_pages [of listed_sys default_filters demo_env] by blast
  have "matches_filters default_filters u" for u
    by (simp add: matches_filters_def default_filters_def str_or_def)
  then have "length full = 2"
    using arg_cong [OF full(1), of size] by (simp add: stored_rows_def listed_rows)
  then obtain a b where ab: "full = [a, b]" by (auto simp: numeral_2_eq_2 length_Suc_conv)
  have "su_updated b \<le> su_updated a" using full(2) by (simp add: ab)
  moreover have "list_session_summaries demo_env default_filters listed_sys = (Inr [a, b], listed_sys)"
    using pages [where off = 0 and lim = 50] by (simp add: ab default_filters_def)
  moreover have "list_session_summaries demo_env (default_filters\<lparr>lf_offset := 1, lf_limit := 1\<rparr>) listed_sys = (Inr [b], listed_sys)"
    using pages [where off = 1 and lim = 1] by (simp add: ab)
  ultimately show ?thesis by blast
qed

theorem human_summaries_ordered_witness:
  "build_human_summaries demo_env (demo_row ''s'' 0) None [] \<noteq> []"
  using human_summaries_ordered [of demo_env "demo_row ''s'' 0" None "[]"] by (simp add: demo_row_health)

theorem timeline_complete_witness:
  "case build_executive_timeline demo_env ''c'' init_sys of (Inr es, t) \<Rightarrow> es = [] | (Inl e, t) \<Rightarrow> False"
  using timeline_complete [where R = demo_env and cid = "''c''" and s = init_sys]
  by (auto simp: timeline_entries_def Let_def init_sys_def reset_db_def reset_governance_memory_def get_events_by_correlation_def
    get_decisions_by_correlation_def get_effects_by_correlation_def list_pending_approvals_def split: prod.splits sum.splits)

theorem completed_session_listed_as_observing_witness:
  "\<exists>r t. run_deterministic_tool business_env build_vs_registry ''detect_blockers'' ''coo'' ''c'' ''s'' None init_sys = (Inr r, t) \<and>
     session_runtime_state (sy_db t) ''s'' = ''observing''"
proof -
  have "\<exists>r t oc. run_deterministic_tool business_env build_vs_registry ''detect_blockers'' ''coo'' ''c'' ''s'' None init_sys = (Inr r, t) \<and>
    run_from_session ''s'' ''c'' t = Inr oc \<and> oc_final_state oc = ''completed'' \<and> session_runtime_state (sy_db t) ''s'' = ''observing''"
    by (rule completed_session_listed_as_observing) (unfold business_keys, simp_all add: github_tools_def fresh_init_sys)
  then show ?thesis by blast
qed

end
