(* ===== verification/Approval.thy ===== *)
theory Approval
  imports Session Transaction
begin

text \<open>
  \<open>core/approval_service.py\<close>: proposals with a checksum, approvals bound to them, and the execution of an
  approved action.  A refused execution raises before any tool runs.
\<close>

section \<open>Proposals and bindings\<close>

text \<open>\<open>model_dump(mode="json", exclude={"checksum"})\<close>.\<close>

definition proposal_json :: "rt_env \<Rightarrow> proposal \<Rightarrow> pyval" where
  "proposal_json R p = pdict [(''id'', PStr (pr_id p)), (''correlation_id'', PStr (pr_correlation p)),
     (''task_id'', PStr (pr_task_id p)), (''agent'', PStr (pr_agent p)), (''action'', PStr (pr_action p)),
     (''parameters'', pr_parameters p), (''side_effect_level'', PStr (level_value (pr_level p))),
     (''impact_summary'', PStr (pr_impact p)), (''proposed_by'', PStr (pr_proposed_by p)),
     (''approval_level'', PInt (pr_approval_level p)), (''expires_at'', PStr (re_dt_json R (pr_expires p)))]"

definition proposal_checksum :: "rt_env \<Rightarrow> proposal \<Rightarrow> string" where
  "proposal_checksum R p = stable_hash (re_env R) (proposal_json R p)"

definition action_form :: "string \<Rightarrow> string \<Rightarrow> pyval" where
  "action_form action agent = pdict [(''action'', PStr action), (''agent'', PStr agent)]"

definition action_hash :: "rt_env \<Rightarrow> string \<Rightarrow> string \<Rightarrow> string" where
  "action_hash R action agent = stable_hash (re_env R) (action_form action agent)"

definition build_approval_binding :: "rt_env \<Rightarrow> proposal \<Rightarrow> string \<Rightarrow> binding rt" where
  "build_approval_binding R p aid = bnd (reads (\<lambda>s. ws_version (db_world (sy_db s)))) (\<lambda>v. bnd (clock R) (\<lambda>now.
     ret \<lparr>bi_approval_id = aid, bi_correlation = pr_correlation p, bi_tool_name = pr_action p,
       bi_action_hash = action_hash R (pr_action p) (pr_agent p),
       bi_parameters_hash = stable_hash (re_env R) (pr_parameters p), bi_world_version = Some v,
       bi_created = now, bi_expires = pr_expires p\<rparr>))"

text \<open>The constructor validates \<open>approval_level\<close> against its bounds.\<close>

definition create_immutable_proposal ::
  "rt_env \<Rightarrow> string \<Rightarrow> string \<Rightarrow> pyval \<Rightarrow> string \<Rightarrow> side_effect_level \<Rightarrow> string \<Rightarrow> string \<Rightarrow> int \<Rightarrow> datetime \<Rightarrow> string option \<Rightarrow> proposal rt" where
  "create_immutable_proposal R cid action params agent level impact proposed_by approval_level expires task =
     bnd (fresh_uuid R) (\<lambda>uid.
     if approval_level < 0 \<or> 4 < approval_level then raise ValidationError
     else let p = \<lparr>pr_id = uid, pr_correlation = cid, pr_task_id = str_or task cid, pr_agent = agent, pr_action = action,
           pr_parameters = params, pr_level = level, pr_impact = impact, pr_proposed_by = proposed_by,
           pr_approval_level = approval_level, pr_checksum = '''', pr_expires = expires\<rparr>
       in ret (p\<lparr>pr_checksum := proposal_checksum R p\<rparr>))"

definition action_of :: "proposal \<Rightarrow> action_proposal" where
  "action_of p = \<lparr>ap_task_id = pr_task_id p, ap_agent = pr_agent p, ap_action = pr_action p,
     ap_level = pr_level p, ap_impact = pr_impact p\<rparr>"

section \<open>The stores of governance\<close>

definition audit :: "rt_env \<Rightarrow> string \<Rightarrow> string \<Rightarrow> string \<Rightarrow> pyval \<Rightarrow> unit rt" where
  "audit R ty actor cid body = bnd (fresh_uuid R) (\<lambda>uid. bnd (clock R) (\<lambda>now.
     on_gov (append_audit_event (re_env R) uid now ty actor cid body)))"

text \<open>The clock is read only when an approver is recorded.\<close>

definition set_approval_status :: "rt_env \<Rightarrow> string \<Rightarrow> approval_status \<Rightarrow> string option \<Rightarrow> unit rt" where
  "set_approval_status R aid st by =
     bnd (reads (\<lambda>s. load_approval (sy_gov s) aid)) (\<lambda>a.
     if a = None then ret ()
     else if str_or by '''' = '''' then on_gov (\<lambda>g. snd (update_approval_status 0 aid st by g))
     else bnd (clock R) (\<lambda>now. on_gov (\<lambda>g. snd (update_approval_status now aid st by g))))"

section \<open>Preparing\<close>

definition new_approval :: "proposal \<Rightarrow> string \<Rightarrow> string \<Rightarrow> binding \<Rightarrow> approval" where
  "new_approval p aid requester b = \<lparr>av_id = aid, av_task_id = pr_task_id p, av_proposal = action_of p,
     av_requester = requester, av_risk_level = pr_approval_level p, av_status = APPENDING,
     av_correlation = pr_correlation p, av_expires = pr_expires p, av_immutable = Some p,
     av_approved_by = None, av_approved_at = None, av_binding = Some b\<rparr>"

definition prepared_body :: "string \<Rightarrow> string \<Rightarrow> pyval" where
  "prepared_body aid action = pdict [(''approval_id'', PStr aid), (''action'', PStr action)]"

definition prepare_approval :: "rt_env \<Rightarrow> proposal \<Rightarrow> string \<Rightarrow> approval rt" where
  "prepare_approval R p requester =
     seqc (span_begin (pr_correlation p) (pr_correlation p))
     (bnd (span_start R APPROVAL '''' [(''phase'', PStr ''prepare''), (''action'', PStr (pr_action p))]) (\<lambda>asp.
      if pr_checksum p \<noteq> proposal_checksum R p then raise (ValueError ''Proposal checksum invalid'')
      else bnd (reads (\<lambda>s. evaluate (sy_crisis s) (sy_biases s) (action_of p) (Some (pr_correlation p)) 0)) (\<lambda>decision.
        if decision = DENY then raise (ValueError ''Policy denied action'')
        else bnd (fresh_uuid R) (\<lambda>aid. bnd (build_approval_binding R p aid) (\<lambda>b.
          let a = new_approval p aid requester b; body = prepared_body aid (pr_action p) in
          seqc (on_gov (save_approval a))
          (seqc (audit R ''approval.prepared'' (pr_proposed_by p) (pr_correlation p) body)
          (bnd (persist_runtime_tx R ((new_payload (pr_correlation p) (pr_correlation p) ''approval.prepared'' body)\<lparr>
             pl_business := Some (''approval:prepare:'' @ aid)\<rparr>)) (\<lambda>_.
           seqc (span_end R asp SP_OK []) (ret a)))))))))"

definition prepare_approval_in_session :: "rt_env \<Rightarrow> proposal \<Rightarrow> string \<Rightarrow> approval rt" where
  "prepare_approval_in_session R p requester = run_mutative_session (pr_correlation p) (prepare_approval R p requester)"

section \<open>Executing\<close>

definition validate_binding :: "rt_env \<Rightarrow> proposal \<Rightarrow> approval \<Rightarrow> exn + unit" where
  "validate_binding R p a = (case av_binding a of
     None \<Rightarrow> Inl (ValueError ''Missing approval binding'')
   | Some b \<Rightarrow>
       if bi_action_hash b \<noteq> action_hash R (pr_action p) (pr_agent p)
       then Inl (ValueError ''Action hash mismatch'')
       else if bi_parameters_hash b \<noteq> stable_hash (re_env R) (pr_parameters p)
       then Inl (ValueError ''Parameters hash mismatch'')
       else if bi_tool_name b \<noteq> pr_action p then Inl (ValueError ''Tool name mismatch in binding'')
       else Inr ())"

text \<open>A naive time is taken as UTC.\<close>

fun utc :: "datetime \<Rightarrow> time" where
  "utc (Aware t) = t"
| "utc (Naive t) = t"

record execution =
  ex_approval :: string
  ex_result :: tool_result
  ex_effect :: side_effect

definition effect_of :: "proposal \<Rightarrow> tool_result \<Rightarrow> string \<Rightarrow> time \<Rightarrow> side_effect" where
  "effect_of p r uid now = \<lparr>se_id = uid, se_action_id = pr_id p, se_correlation = pr_correlation p,
     se_systems = [pr_action p], se_status = (if tr_success r then MutComplete else MutFailed),
     se_rollback_available = False, se_rollback_executed = False, se_created = now\<rparr>"

definition executed_payload :: "approval \<Rightarrow> proposal \<Rightarrow> string \<Rightarrow> tool_result \<Rightarrow> side_effect \<Rightarrow> payload" where
  "executed_payload a p by r eff =
     (new_payload (pr_correlation p) (pr_correlation p) ''approval.executed'' (pdict [(''approval_id'', PStr (av_id a)),
        (''approved_by'', PStr by), (''action'', PStr (pr_action p)), (''success'', PBool (tr_success r))]))\<lparr>
       pl_effect := Some eff, pl_business := Some (''approval:'' @ av_id a @ '':executed'')\<rparr>"

text \<open>From the policy re-validation on: the tool call, its effect, the event, the status and the audit.\<close>

definition carry_out :: "rt_env \<Rightarrow> registry \<Rightarrow> approval \<Rightarrow> proposal \<Rightarrow> string \<Rightarrow> string \<Rightarrow> execution rt" where
  "carry_out R reg a p by asp =
     bnd (execute_tool R reg (pr_action p) (pr_agent p) (pr_correlation p) (Some (pr_parameters p)) (Some (av_correlation a)) 0) (\<lambda>r.
     bnd (fresh_uuid R) (\<lambda>uid. bnd (clock R) (\<lambda>now.
     let eff = effect_of p r uid now in
     bnd (persist_runtime_tx R (executed_payload a p by r eff)) (\<lambda>_.
     seqc (set_approval_status R (av_id a) APPROVED (Some by))
     (seqc (audit R ''approval.executed'' by (pr_correlation p)
        (pdict [(''approval_id'', PStr (av_id a)), (''success'', PBool (tr_success r))]))
     (seqc (span_end R asp (if tr_success r then SP_OK else SP_ERROR) [])
       (ret \<lparr>ex_approval = av_id a, ex_result = r, ex_effect = eff\<rparr>)))))))"

definition execute_approved_action :: "rt_env \<Rightarrow> registry \<Rightarrow> approval \<Rightarrow> string \<Rightarrow> execution rt" where
  "execute_approved_action R reg a by =
     seqc (span_begin (av_correlation a) (av_correlation a))
     (bnd (span_start R APPROVAL '''' [(''phase'', PStr ''execute''), (''approval_id'', PStr (av_id a))]) (\<lambda>asp.
      case av_immutable a of None \<Rightarrow> raise (ValueError ''Missing immutable proposal'')
      | Some p \<Rightarrow>
          if pr_checksum p \<noteq> proposal_checksum R p then raise (ValueError ''Checksum mismatch'')
          else bnd (lift_res (validate_binding R p a)) (\<lambda>_. bnd (clock R) (\<lambda>now.
            if now > utc (pr_expires p)
            then seqc (set_approval_status R (av_id a) EXPIRED None) (raise (ValueError ''Approval expired''))
            else bnd (reads (\<lambda>s. evaluate (sy_crisis s) (sy_biases s) (action_of p) (Some (av_correlation a)) 0)) (\<lambda>decision.
              if decision \<noteq> ALLOW \<and> decision \<noteq> ESCALATE then raise (ValueError ''Policy re-validation failed'')
              else carry_out R reg a p by asp)))))"

definition execute_approved_action_in_session ::
  "rt_env \<Rightarrow> registry \<Rightarrow> string \<Rightarrow> string \<Rightarrow> string option \<Rightarrow> execution rt" where
  "execute_approved_action_in_session R reg aid by sid =
     run_mutative_session (str_or sid aid) (bnd (reads (\<lambda>s. load_approval (sy_gov s) aid)) (\<lambda>ao.
       case ao of None \<Rightarrow> raise (ValueError ''Approval not found or already processed'')
       | Some a \<Rightarrow> if av_status a \<noteq> APPENDING then raise (ValueError ''Approval not found or already processed'')
           else execute_approved_action R reg a by))"

text \<open>\<open>core/policy.py\<close>, \<open>PolicyEngine.approve\<close>.\<close>

definition policy_approve :: "rt_env \<Rightarrow> string \<Rightarrow> string \<Rightarrow> approval option rt" where
  "policy_approve R aid by = bnd (reads (\<lambda>s. load_approval (sy_gov s) aid)) (\<lambda>ao. case ao of None \<Rightarrow> ret None
     | Some a \<Rightarrow> if av_status a \<noteq> APPENDING then ret None
         else seqc (set_approval_status R aid APPROVED (Some by)) (reads (\<lambda>s. load_approval (sy_gov s) aid)))"


section \<open>Lemmas\<close>

definition gov_ok :: "gov_store \<Rightarrow> bool" where
  "gov_ok g \<longleftrightarrow> (\<forall>k a. load_approval g k = Some a \<longrightarrow> av_id a = k)"

interpretation approvals: keyed_table "\<lambda>k a g. g\<lparr>go_approvals := dict_set k a (go_approvals g)\<rparr>" load_approval
  by unfold_locales (simp_all add: load_approval_def)

lemma load_save: "load_approval (save_approval a g) k = (if av_id a = k then Some a else load_approval g k)"
  using approvals.get_put [of "av_id a" a g k] by (simp add: save_approval_def)

lemma load_audit [simp]: "load_approval (append_audit_event E u t ty ac cid b g) k = load_approval g k"
  by (simp add: load_approval_def append_audit_event_def)

lemma audit_run: "bnd (audit R ty ac cid b) f s = f () (s\<lparr>sy_uuid := sy_uuid s + 1, sy_clock := sy_clock s + 1,
    sy_gov := append_audit_event (re_env R) (re_uuid R (sy_uuid s)) (re_now R (sy_clock s)) ty ac cid b (sy_gov s)\<rparr>)"
  by (simp add: audit_def bnd_assoc comp_simps)

lemma evaluate_not_deny: "evaluate c t ap sid x \<noteq> DENY" "evaluate c t ap sid x = ALLOW \<or> evaluate c t ap sid x = ESCALATE"
  by (auto simp: evaluate_def Let_def)

text \<open>A transaction leaves everything alone but the ledger, the intelligence and replay stores, spans and counters.\<close>

definition same_control :: "sys \<Rightarrow> sys \<Rightarrow> bool" where
  "same_control s t \<longleftrightarrow> sy_gov t = sy_gov s \<and> sy_biases t = sy_biases s \<and> sy_locks t = sy_locks s \<and>
     sy_crisis t = sy_crisis s \<and> sy_health t = sy_health s \<and> sy_cache t = sy_cache s \<and> sy_ext t = sy_ext s"

lemma same_control_refl [simp]: "same_control s s"
  by (simp add: same_control_def)

lemma same_control_trans: "same_control s t \<Longrightarrow> same_control t u \<Longrightarrow> same_control s u"
  by (simp add: same_control_def)

lemma persist_tx_control:
  assumes "persist_runtime_tx R p s = (r, t)"
  shows "same_control s t"
proof -
  have c: "keeps (same_control s) (clock R)" and u: "keeps (same_control s) (fresh_uuid R)" and d: "keeps (same_control s) drain_spans"
    by (rule rt_keeps, simp add: same_control_def)+
  have i: "keeps (same_control s) (on_intel f)" "keeps (same_control s) (on_db g)" "keeps (same_control s) (on_replay h)" for f g h
    unfolding part_defs by (rule keeps_mods, simp add: same_control_def)+
  have m: "keeps (same_control s) (merge_and_close R p)"
    unfolding merge_and_close_def merge_pending_spans_def complete_session_close_def compute_session_close_health_def
      build_session_diagnostics_only_def build_session_diagnostics_def Let_def persist_replay_baseline_def
    by (intro keeps_bnd keeps_seqc keeps_if keeps_ret keeps_reads keeps_reader c d i)
  have n: "keeps (same_control s) (next_world R p w)" for w
    unfolding next_world_def by (intro keeps_if keeps_bnd keeps_ret c)
  have "keeps (same_control s) (persist_runtime_tx R p)"
    unfolding persist_runtime_tx_def Let_def persist_intelligence_def persist_adaptive_def apply_memory_runtime_persist_def
    by (auto split: option.split intro!: keeps_bnd keeps_seqc keeps_if keeps_ret keeps_reads c u i m n)
  from keepsD [OF this same_control_refl assms] show ?thesis .
qed

lemma execute_tool_same: "execute_tool R reg tool agent cid raw sid xb s = (r, t) \<Longrightarrow> same_stores s t"
  by (rule keepsD [OF execute_tool_keeps same_stores_refl])

text \<open>Opening the span of an approval.\<close>

lemma approval_start: "\<exists>c. seqc (span_begin sid cid) (bnd (span_start R ty rs meta) f) s =
    f (re_uuid R (sy_uuid s)) (s\<lparr>sy_uuid := sy_uuid s + 1, sy_clock := sy_clock s + 1, sy_spans := c\<rparr>)"
  by (simp add: span_begin_def comp_simps) blast

lemma execute_guards:
  "\<exists>c. execute_approved_action R reg a by s =
     (case av_immutable a of None \<Rightarrow> raise (ValueError ''Missing immutable proposal'')
      | Some p \<Rightarrow>
          if pr_checksum p \<noteq> proposal_checksum R p then raise (ValueError ''Checksum mismatch'')
          else bnd (lift_res (validate_binding R p a)) (\<lambda>_. bnd (clock R) (\<lambda>now.
            if now > utc (pr_expires p)
            then seqc (set_approval_status R (av_id a) EXPIRED None) (raise (ValueError ''Approval expired''))
            else carry_out R reg a p by (re_uuid R (sy_uuid s)))))
     (s\<lparr>sy_uuid := sy_uuid s + 1, sy_clock := sy_clock s + 1, sy_spans := c\<rparr>)"
proof -
  have "bnd (reads (\<lambda>s. evaluate (sy_crisis s) (sy_biases s) ap sid x)) (\<lambda>decision.
      if decision \<noteq> ALLOW \<and> decision \<noteq> ESCALATE then m else n) = n" for ap sid x and m n :: "execution rt"
    by (rule ext) (use evaluate_not_deny(2) [of _ _ ap sid x] in \<open>simp add: bnd_reads; metis\<close>)
  note simp = this
  show ?thesis
    unfolding execute_approved_action_def simp by (rule approval_start)
qed

lemma set_status_run:
  assumes "load_approval (sy_gov s) aid = Some a" and "av_id a = aid"
  shows "\<exists>n g a'. set_approval_status R aid st by s = (Inr (), s\<lparr>sy_clock := n, sy_gov := g\<rparr>) \<and>
     load_approval g aid = Some a' \<and> av_status a' = st \<and> (\<forall>k. k \<noteq> aid \<longrightarrow> load_approval g k = load_approval (sy_gov s) k)"
proof -
  have u: "\<exists>a'. load_approval (snd (update_approval_status now aid st by (sy_gov s))) aid = Some a' \<and> av_status a' = st \<and>
      (\<forall>k. k \<noteq> aid \<longrightarrow> load_approval (snd (update_approval_status now aid st by (sy_gov s))) k = load_approval (sy_gov s) k)" for now
    using assms by (simp add: update_approval_status_def load_save Let_def)
  show ?thesis
  proof (cases "str_or by '''' = ''''")
    case True
    then have "set_approval_status R aid st by s = (Inr (), s\<lparr>sy_clock := sy_clock s,
        sy_gov := snd (update_approval_status 0 aid st by (sy_gov s))\<rparr>)"
      using assms(1) by (simp add: set_approval_status_def comp_simps)
    then show ?thesis using u [of 0] by blast
  next
    case False
    then have "set_approval_status R aid st by s = (Inr (), s\<lparr>sy_clock := sy_clock s + 1,
        sy_gov := snd (update_approval_status (re_now R (sy_clock s)) aid st by (sy_gov s))\<rparr>)"
      using assms(1) by (simp add: set_approval_status_def comp_simps)
    then show ?thesis using u by blast
  qed
qed

text \<open>Carrying out an approved action that is stored: if it returns, the approval is marked.\<close>

lemma carry_out_marks:
  assumes "carry_out R reg a p by asp s = (Inr x, t)" and "load_approval (sy_gov s) (av_id a) = Some a0" and "av_id a0 = av_id a"
  shows "\<exists>a'. load_approval (sy_gov t) (av_id a) = Some a' \<and> av_status a' = APPROVED"
proof -
  obtain r s1 where ex: "execute_tool R reg (pr_action p) (pr_agent p) (pr_correlation p) (Some (pr_parameters p)) (Some (av_correlation a)) 0 s = (Inr r, s1)"
    and rest: "bnd (fresh_uuid R) (\<lambda>uid. bnd (clock R) (\<lambda>now.
     let eff = effect_of p r uid now in
     bnd (persist_runtime_tx R (executed_payload a p by r eff)) (\<lambda>_.
     seqc (set_approval_status R (av_id a) APPROVED (Some by))
     (seqc (audit R ''approval.executed'' by (pr_correlation p)
        (pdict [(''approval_id'', PStr (av_id a)), (''success'', PBool (tr_success r))]))
     (seqc (span_end R asp (if tr_success r then SP_OK else SP_ERROR) [])
       (ret \<lparr>ex_approval = av_id a, ex_result = r, ex_effect = eff\<rparr>)))))) s1 = (Inr x, t)"
    using assms(1) unfolding carry_out_def by (rule bnd_InrE)
  define s2 where "s2 = s1\<lparr>sy_uuid := sy_uuid s1 + 1, sy_clock := sy_clock s1 + 1\<rparr>"
  define eff where "eff = effect_of p r (re_uuid R (sy_uuid s1)) (re_now R (sy_clock s1))"
  have "bnd (persist_runtime_tx R (executed_payload a p by r eff)) (\<lambda>_.
     seqc (set_approval_status R (av_id a) APPROVED (Some by))
     (seqc (audit R ''approval.executed'' by (pr_correlation p)
        (pdict [(''approval_id'', PStr (av_id a)), (''success'', PBool (tr_success r))]))
     (seqc (span_end R asp (if tr_success r then SP_OK else SP_ERROR) [])
       (ret \<lparr>ex_approval = av_id a, ex_result = r, ex_effect = eff\<rparr>)))) s2 = (Inr x, t)"
    using rest by (simp add: fresh_uuid_run clock_run Let_def s2_def eff_def)
  then obtain y s3 where tx: "persist_runtime_tx R (executed_payload a p by r eff) s2 = (Inr y, s3)"
    and tl: "seqc (set_approval_status R (av_id a) APPROVED (Some by))
     (seqc (audit R ''approval.executed'' by (pr_correlation p)
        (pdict [(''approval_id'', PStr (av_id a)), (''success'', PBool (tr_success r))]))
     (seqc (span_end R asp (if tr_success r then SP_OK else SP_ERROR) [])
       (ret \<lparr>ex_approval = av_id a, ex_result = r, ex_effect = eff\<rparr>))) s3 = (Inr x, t)"
    by (rule bnd_InrE)
  have gov: "sy_gov s3 = sy_gov s"
    using persist_tx_control [OF tx] execute_tool_same [OF ex] by (simp add: same_control_def same_stores_def s2_def)
  obtain n g a' where st: "set_approval_status R (av_id a) APPROVED (Some by) s3 = (Inr (), s3\<lparr>sy_clock := n, sy_gov := g\<rparr>)"
    "load_approval g (av_id a) = Some a'" "av_status a' = APPROVED"
    using set_status_run [of s3 "av_id a" a0 R APPROVED "Some by"] assms(2,3) gov by auto
  show ?thesis
    using tl st by (auto simp: seqc_def bnd_def [of "set_approval_status _ _ _ _"] audit_run span_end_run ret_def)
qed

lemma execute_marks:
  assumes "execute_approved_action R reg a by s = (Inr x, t)" and "load_approval (sy_gov s) (av_id a) = Some a0" and "av_id a0 = av_id a"
  shows "\<exists>a'. load_approval (sy_gov t) (av_id a) = Some a' \<and> av_status a' = APPROVED"
proof -
  obtain c where g: "execute_approved_action R reg a by s =
     (case av_immutable a of None \<Rightarrow> raise (ValueError ''Missing immutable proposal'')
      | Some p \<Rightarrow>
          if pr_checksum p \<noteq> proposal_checksum R p then raise (ValueError ''Checksum mismatch'')
          else bnd (lift_res (validate_binding R p a)) (\<lambda>_. bnd (clock R) (\<lambda>now.
            if now > utc (pr_expires p)
            then seqc (set_approval_status R (av_id a) EXPIRED None) (raise (ValueError ''Approval expired''))
            else carry_out R reg a p by (re_uuid R (sy_uuid s)))))
     (s\<lparr>sy_uuid := sy_uuid s + 1, sy_clock := sy_clock s + 1, sy_spans := c\<rparr>)"
    using execute_guards by blast
  obtain p s1 where "carry_out R reg a p by (re_uuid R (sy_uuid s)) s1 = (Inr x, t)" "sy_gov s1 = sy_gov s"
    using assms(1) unfolding g
    by (auto simp: raise_def bnd_lift_res clock_run seqc_def split: option.splits if_splits sum.splits elim!: bnd_InrE)
  then show ?thesis using carry_out_marks assms(2,3) by metis
qed


lemma set_status_total: "\<exists>t. set_approval_status R aid st by s = (Inr (), t)"
  by (cases "load_approval (sy_gov s) aid"; cases "str_or by '''' = ''''") (auto simp: set_approval_status_def comp_simps)

lemma executed_payload_open: "\<not> is_session_close (executed_payload a p by r eff)"
  by (simp add: executed_payload_def new_payload_def is_session_close_def)

text \<open>Nothing after the tool call raises.\<close>

lemma carry_out_returns:
  assumes "execute_tool R reg (pr_action p) (pr_agent p) (pr_correlation p) (Some (pr_parameters p)) (Some (av_correlation a)) 0 s = (Inr r, s1)"
  shows "\<exists>x t. carry_out R reg a p by asp s = (Inr x, t) \<and> ex_result x = r"
proof -
  let ?s2 = "s1\<lparr>sy_uuid := Suc (sy_uuid s1), sy_clock := Suc (sy_clock s1)\<rparr>"
  let ?eff = "effect_of p r (re_uuid R (sy_uuid s1)) (re_now R (sy_clock s1))"
  obtain e i s3 where tx: "persist_runtime_tx R (executed_payload a p by r ?eff) ?s2 = (Inr (e, i), s3)"
    using persist_tx_total [OF executed_payload_open] by blast
  obtain s4 where st: "set_approval_status R (av_id a) APPROVED (Some by) s3 = (Inr (), s4)"
    using set_status_total by blast
  show ?thesis
    by (simp add: carry_out_def bnd_def [of "execute_tool _ _ _ _ _ _ _ _"] assms fresh_uuid_run clock_run Let_def
        bnd_def [of "persist_runtime_tx _ _"] tx seqc_def bnd_def [of "set_approval_status _ _ _ _"] st audit_run span_end_run ret_def)
qed

lemma carry_out_result:
  assumes "carry_out R reg a p by asp s = (Inr x, t)"
  obtains s1 where "execute_tool R reg (pr_action p) (pr_agent p) (pr_correlation p) (Some (pr_parameters p)) (Some (av_correlation a)) 0 s = (Inr (ex_result x), s1)"
    and "sy_ext t = sy_ext s1"
proof -
  obtain r s1 where ex: "execute_tool R reg (pr_action p) (pr_agent p) (pr_correlation p) (Some (pr_parameters p)) (Some (av_correlation a)) 0 s = (Inr r, s1)"
    using assms unfolding carry_out_def by (rule bnd_InrE)
  let ?s2 = "s1\<lparr>sy_uuid := Suc (sy_uuid s1), sy_clock := Suc (sy_clock s1)\<rparr>"
  let ?eff = "effect_of p r (re_uuid R (sy_uuid s1)) (re_now R (sy_clock s1))"
  obtain e i s3 where tx: "persist_runtime_tx R (executed_payload a p by r ?eff) ?s2 = (Inr (e, i), s3)"
    using persist_tx_total [OF executed_payload_open] by blast
  have ext3: "sy_ext s3 = sy_ext s1" using persist_tx_control [OF tx] by (simp add: same_control_def)
  have k: "keeps (\<lambda>u. sy_ext u = sy_ext s1) (set_approval_status R aid st b)" for aid st b
    unfolding set_approval_status_def on_gov_def
    by (intro keeps_bnd keeps_if keeps_ret keeps_reads keeps_mods keeps_clock) simp_all
  obtain s4 where st: "set_approval_status R (av_id a) APPROVED (Some by) s3 = (Inr (), s4)"
    using set_status_total by blast
  have "sy_ext s4 = sy_ext s1" using keepsD [OF k ext3 st] .
  then show thesis
    using assms
    by (intro that [of s1]) (auto simp: carry_out_def bnd_def [of "execute_tool _ _ _ _ _ _ _ _"] ex fresh_uuid_run clock_run Let_def
        bnd_def [of "persist_runtime_tx _ _"] tx seqc_def bnd_def [of "set_approval_status _ _ _ _"] st audit_run span_end_run ret_def)
qed

lemma execute_open:
  assumes "av_immutable a = Some p" and "pr_checksum p = proposal_checksum R p" and "validate_binding R p a = Inr ()"
    and "re_now R (sy_clock s + 1) \<le> utc (pr_expires p)"
  shows "\<exists>c. execute_approved_action R reg a by s = carry_out R reg a p by (re_uuid R (sy_uuid s))
     (s\<lparr>sy_uuid := Suc (sy_uuid s), sy_spans := c, sy_clock := Suc (Suc (sy_clock s))\<rparr>)"
  using execute_guards [of R reg a "by" s] assms by (auto simp: bnd_lift_res clock_run intro: exI)

lemma bnd_raises: "bnd m (\<lambda>_. raise e) u \<noteq> (Inr x, t)"
  by (auto simp: bnd_def raise_def split: prod.split sum.split)

lemma execute_carried:
  assumes "execute_approved_action R reg a by s = (Inr x, t)"
  obtains p c where "av_immutable a = Some p" and "carry_out R reg a p by (re_uuid R (sy_uuid s))
     (s\<lparr>sy_uuid := Suc (sy_uuid s), sy_spans := c, sy_clock := Suc (Suc (sy_clock s))\<rparr>) = (Inr x, t)"
proof -
  note g = execute_guards [of R reg a "by" s]
  have ex: "\<not> (\<exists>c. execute_approved_action R reg a by s = (Inl e, c))" for e using assms by simp
  obtain p where p: "av_immutable a = Some p" using g ex by (cases "av_immutable a") (auto simp: raise_def)
  have ck: "pr_checksum p = proposal_checksum R p" using g ex p by (auto simp: raise_def split: if_splits)
  have vb: "validate_binding R p a = Inr ()"
    using g ex p ck by (cases "validate_binding R p a") (auto simp: bnd_lift_res)
  have "\<not> utc (pr_expires p) < re_now R (Suc (sy_clock s))"
    using g ex p ck vb bnd_raises assms by (fastforce simp: bnd_lift_res clock_run seqc_def split: if_splits)
  then have "re_now R (sy_clock s + 1) \<le> utc (pr_expires p)" by simp
  from execute_open [OF p ck vb this, of reg "by"] obtain c where "execute_approved_action R reg a by s = carry_out R reg a p by (re_uuid R (sy_uuid s))
     (s\<lparr>sy_uuid := Suc (sy_uuid s), sy_spans := c, sy_clock := Suc (Suc (sy_clock s))\<rparr>)" by blast
  with assms show thesis by (intro that [OF p]) simp
qed

lemma lock_roundtrip: "k \<notin> set (sy_locks s) \<Longrightarrow> s\<lparr>sy_locks := lock_leave k (k # sy_locks s)\<rparr> = s"
proof -
  assume "k \<notin> set (sy_locks s)"
  then have "lock_leave k (k # sy_locks s) = sy_locks s" by (auto simp: lock_leave_def intro: filter_True)
  then show ?thesis by simp
qed

lemma invalid_refused:
  assumes "av_immutable a = Some p" and "\<not> (pr_checksum p = proposal_checksum R p \<and> validate_binding R p a = Inr ())"
  shows "\<exists>msg t. execute_approved_action R reg a by s = (Inl (ValueError msg), t) \<and> refused s t"
proof -
  obtain c where g: "execute_approved_action R reg a by s = (if pr_checksum p \<noteq> proposal_checksum R p
      then raise (ValueError ''Checksum mismatch'')
      else bnd (lift_res (validate_binding R p a)) (\<lambda>_. bnd (clock R) (\<lambda>now.
        if now > utc (pr_expires p)
        then seqc (set_approval_status R (av_id a) EXPIRED None) (raise (ValueError ''Approval expired''))
        else carry_out R reg a p by (re_uuid R (sy_uuid s)))))
     (s\<lparr>sy_uuid := sy_uuid s + 1, sy_clock := sy_clock s + 1, sy_spans := c\<rparr>)"
    using execute_guards [of R reg a "by" s] unfolding assms(1) option.case by blast
  obtain msg where "validate_binding R p a = Inl (ValueError msg) \<or> pr_checksum p \<noteq> proposal_checksum R p"
    using assms(2) by (auto simp: validate_binding_def split: if_splits option.splits)
  then show ?thesis
  proof
    assume v: "validate_binding R p a = Inl (ValueError msg)"
    show ?thesis
      by (cases "pr_checksum p = proposal_checksum R p") (simp_all add: g v raise_def bnd_lift_res refused_def)
  qed (simp add: g raise_def refused_def)
qed

text \<open>Two values with different canonical forms and one hash.\<close>

definition hash_clash :: "env \<Rightarrow> pyval \<Rightarrow> pyval \<Rightarrow> bool" where
  "hash_clash E v w \<longleftrightarrow> normalize_val True v \<noteq> normalize_val True w \<and> stable_hash E v = stable_hash E w"

text \<open>A request under the lock that raises without a change.\<close>

lemma locked_raise:
  assumes "m (s\<lparr>sy_locks := k # sy_locks s\<rparr>) = (Inl e, s\<lparr>sy_locks := k # sy_locks s\<rparr>)"
  shows "\<exists>e. run_mutative_session k m s = (Inl e, s)"
proof (cases "k \<in> set (sy_locks s)")
  case True
  then show ?thesis by (simp add: run_locked)
next
  case False
  then show ?thesis using assms lock_roundtrip [OF False] by (simp add: run_free)
qed

lemma not_pending_refused:
  assumes "\<forall>a. load_approval (sy_gov s) aid = Some a \<longrightarrow> av_status a \<noteq> APPENDING"
  shows "\<exists>e. execute_approved_action_in_session R reg aid by sid s = (Inl e, s)"
  unfolding execute_approved_action_in_session_def
  by (rule locked_raise [where e = "ValueError ''Approval not found or already processed''"])
    (use assms in \<open>simp add: bnd_reads raise_def split: option.split\<close>)

text \<open>An approval that is approved through the policy engine is closed without having been carried out.\<close>

theorem approve_closes_without_executing:
  assumes "load_approval (sy_gov s) aid = Some a" and "av_id a = aid" and "av_status a = APPENDING"
  shows "\<exists>a' t. policy_approve R aid by s = (Inr (Some a'), t) \<and> av_status a' = APPROVED \<and> sy_ext t = sy_ext s \<and> sy_db t = sy_db s \<and>
    (\<forall>R2 reg by2 sid. \<exists>e. execute_approved_action_in_session R2 reg aid by2 sid t = (Inl e, t))"
proof -
  obtain n g a' where st: "set_approval_status R aid APPROVED (Some by) s = (Inr (), s\<lparr>sy_clock := n, sy_gov := g\<rparr>)"
    "load_approval g aid = Some a'" "av_status a' = APPROVED"
    using set_status_run [OF assms(1,2), of R APPROVED "Some by"] by blast
  let ?t = "s\<lparr>sy_clock := n, sy_gov := g\<rparr>"
  have "policy_approve R aid by s = (Inr (Some a'), ?t)"
    by (simp add: policy_approve_def bnd_reads assms(1,3) seqc_def bnd_def [of "set_approval_status _ _ _ _"] st reads_def)
  moreover have "\<exists>e. execute_approved_action_in_session R2 reg aid by2 sid ?t = (Inl e, ?t)" for R2 reg by2 sid
    by (rule not_pending_refused) (simp add: st)
  ultimately show ?thesis using st(3) by (intro exI [of _ a'] exI [of _ ?t]) simp
qed

lemma av_id_new: "av_id (new_approval p aid requester b) = aid"
  by (simp add: new_approval_def)

definition prepared_payload :: "proposal \<Rightarrow> string \<Rightarrow> payload" where
  "prepared_payload p aid = (new_payload (pr_correlation p) (pr_correlation p) ''approval.prepared'' (prepared_body aid (pr_action p)))\<lparr>
     pl_business := Some (''approval:prepare:'' @ aid)\<rparr>"

lemma prepare_open:
  obtains asp u where "prepare_approval R p requester s = (if pr_checksum p \<noteq> proposal_checksum R p then raise (ValueError ''Proposal checksum invalid'')
      else bnd (fresh_uuid R) (\<lambda>aid. bnd (build_approval_binding R p aid) (\<lambda>b.
          seqc (on_gov (save_approval (new_approval p aid requester b)))
          (seqc (audit R ''approval.prepared'' (pr_proposed_by p) (pr_correlation p) (prepared_body aid (pr_action p)))
          (bnd (persist_runtime_tx R (prepared_payload p aid)) (\<lambda>_. seqc (span_end R asp SP_OK []) (ret (new_approval p aid requester b)))))))) u"
proof -
  have nd: "bnd (reads (\<lambda>s. evaluate (sy_crisis s) (sy_biases s) ap sid x)) (\<lambda>decision.
      if decision = DENY then m else n) = n" for ap sid x and m n :: "approval rt"
    by (rule ext) (simp add: bnd_reads evaluate_not_deny(1))
  let ?go = "\<lambda>asp. if pr_checksum p \<noteq> proposal_checksum R p then raise (ValueError ''Proposal checksum invalid'')
      else bnd (fresh_uuid R) (\<lambda>aid. bnd (build_approval_binding R p aid) (\<lambda>b.
          seqc (on_gov (save_approval (new_approval p aid requester b)))
          (seqc (audit R ''approval.prepared'' (pr_proposed_by p) (pr_correlation p) (prepared_body aid (pr_action p)))
          (bnd (persist_runtime_tx R (prepared_payload p aid)) (\<lambda>_. seqc (span_end R asp SP_OK []) (ret (new_approval p aid requester b)))))))"
  show thesis
    using approval_start [of "pr_correlation p" "pr_correlation p" R APPROVAL "''''" "[(''phase'', PStr ''prepare''), (''action'', PStr (pr_action p))]"
      ?go s] that
    unfolding prepare_approval_def nd Let_def prepared_payload_def by blast
qed

text \<open>A proposal with a good checksum is always prepared.\<close>

lemma prepare_total:
  assumes "pr_checksum p = proposal_checksum R p"
  shows "\<exists>a t. prepare_approval R p requester s = (Inr a, t)"
proof -
  have tx: "\<exists>e i t. persist_runtime_tx R (prepared_payload p aid) u = (Inr (e, i), t)" for aid u
    by (rule persist_tx_total) (simp add: prepared_payload_def new_payload_def is_session_close_def)
  have step: "\<exists>a t. bnd (persist_runtime_tx R (prepared_payload p aid)) (\<lambda>_. bnd (span_end R asp SP_OK []) (\<lambda>_. ret x)) u = (Inr a, t)"
    for aid u asp and x :: approval
    using tx [of aid u] by (auto simp: bnd_Inr span_end_run ret_def)
  obtain asp u where go: "prepare_approval R p requester s = (if pr_checksum p \<noteq> proposal_checksum R p then raise (ValueError ''Proposal checksum invalid'')
      else bnd (fresh_uuid R) (\<lambda>aid. bnd (build_approval_binding R p aid) (\<lambda>b.
          seqc (on_gov (save_approval (new_approval p aid requester b)))
          (seqc (audit R ''approval.prepared'' (pr_proposed_by p) (pr_correlation p) (prepared_body aid (pr_action p)))
          (bnd (persist_runtime_tx R (prepared_payload p aid)) (\<lambda>_. seqc (span_end R asp SP_OK []) (ret (new_approval p aid requester b)))))))) u"
    by (rule prepare_open)
  show ?thesis
    using assms step
    by (simp add: go fresh_uuid_run build_approval_binding_def bnd_assoc bnd_reads clock_run bnd_ret seqc_def on_gov_def bnd_mods audit_run)
qed

lemma prepare_run:
  assumes "prepare_approval R p requester s = (Inr a, t)"
  shows "pr_checksum p = proposal_checksum R p \<and> load_approval (sy_gov t) (av_id a) = Some a \<and>
    (\<exists>aid b. a = new_approval p aid requester b \<and> bi_action_hash b = action_hash R (pr_action p) (pr_agent p) \<and>
      bi_parameters_hash b = stable_hash (re_env R) (pr_parameters p) \<and> bi_tool_name b = pr_action p)"
proof -
  obtain asp u where go: "prepare_approval R p requester s = (if pr_checksum p \<noteq> proposal_checksum R p then raise (ValueError ''Proposal checksum invalid'')
      else bnd (fresh_uuid R) (\<lambda>aid. bnd (build_approval_binding R p aid) (\<lambda>b.
          seqc (on_gov (save_approval (new_approval p aid requester b)))
          (seqc (audit R ''approval.prepared'' (pr_proposed_by p) (pr_correlation p) (prepared_body aid (pr_action p)))
          (bnd (persist_runtime_tx R (prepared_payload p aid)) (\<lambda>_. seqc (span_end R asp SP_OK []) (ret (new_approval p aid requester b)))))))) u"
    by (rule prepare_open)
  have ck: "pr_checksum p = proposal_checksum R p" using assms go by (auto simp: raise_def split: if_splits)
  let ?aid = "re_uuid R (sy_uuid u)"
  have "bnd (build_approval_binding R p ?aid) (\<lambda>b.
          seqc (on_gov (save_approval (new_approval p ?aid requester b)))
          (seqc (audit R ''approval.prepared'' (pr_proposed_by p) (pr_correlation p) (prepared_body ?aid (pr_action p)))
          (bnd (persist_runtime_tx R (prepared_payload p ?aid)) (\<lambda>_. seqc (span_end R asp SP_OK []) (ret (new_approval p ?aid requester b))))))
       (u\<lparr>sy_uuid := sy_uuid u + 1\<rparr>) = (Inr a, t)"
    using assms ck unfolding go fresh_uuid_run by simp
  then obtain b u2 where b: "build_approval_binding R p ?aid (u\<lparr>sy_uuid := sy_uuid u + 1\<rparr>) = (Inr b, u2)"
    and rest: "seqc (on_gov (save_approval (new_approval p ?aid requester b)))
          (seqc (audit R ''approval.prepared'' (pr_proposed_by p) (pr_correlation p) (prepared_body ?aid (pr_action p)))
          (bnd (persist_runtime_tx R (prepared_payload p ?aid)) (\<lambda>_. seqc (span_end R asp SP_OK []) (ret (new_approval p ?aid requester b))))) u2 = (Inr a, t)"
    by (rule bnd_InrE)
  have bb: "bi_action_hash b = action_hash R (pr_action p) (pr_agent p)"
      "bi_parameters_hash b = stable_hash (re_env R) (pr_parameters p)" "bi_tool_name b = pr_action p"
    using b by (auto simp: build_approval_binding_def bnd_reads clock_run ret_def)
  obtain v where "load_approval (sy_gov v) ?aid = Some (new_approval p ?aid requester b)"
    and "bnd (persist_runtime_tx R (prepared_payload p ?aid)) (\<lambda>_. bnd (span_end R asp SP_OK []) (\<lambda>_. ret (new_approval p ?aid requester b))) v = (Inr a, t)"
    using rest [unfolded seqc_def on_gov_def bnd_mods audit_run]
    by (rule that [rotated]) (simp add: load_save av_id_new)
  then have l: "load_approval (sy_gov t) ?aid = Some (new_approval p ?aid requester b)" and a: "a = new_approval p ?aid requester b"
    by (auto simp: span_end_run ret_def same_control_def elim!: bnd_InrE [of "persist_runtime_tx _ _"] dest!: persist_tx_control)
  show ?thesis
    unfolding a av_id_new using l ck bb by blast
qed

section \<open>Properties\<close>

text \<open>C5: an approved action is carried out at most once: after an execution that returned, the approval is stored with status
  APPROVED, and from then on every execution of it, by whomever and under whatever session id, raises and leaves
  the whole process state as it was, as long as the stored approval is not replaced.\<close>

theorem approval_executes_at_most_once:
  assumes "execute_approved_action_in_session R reg aid by sid s = (Inr x, t)" and "gov_ok (sy_gov s)"
    and "load_approval (sy_gov u) aid = load_approval (sy_gov t) aid"
  shows "(\<exists>a. load_approval (sy_gov t) aid = Some a \<and> av_status a = APPROVED) \<and>
    (\<exists>e. execute_approved_action_in_session R' reg' aid by' sid' u = (Inl e, u))"
proof -
  let ?k = "str_or sid aid"
  let ?s = "s\<lparr>sy_locks := ?k # sy_locks s\<rparr>"
  have free: "?k \<notin> set (sy_locks s)"
  proof
    assume "?k \<in> set (sy_locks s)"
    then show False using assms(1) by (simp add: execute_approved_action_in_session_def run_locked)
  qed
  obtain a t1 where a: "load_approval (sy_gov s) aid = Some a" and ex: "execute_approved_action R reg a by ?s = (Inr x, t1)"
    and t: "sy_gov t = sy_gov t1"
    using assms(1) unfolding execute_approved_action_in_session_def run_free [OF free]
    by (auto simp: bnd_reads raise_def split: option.splits if_splits prod.splits)
  have id: "av_id a = aid" using assms(2) a by (simp add: gov_ok_def)
  obtain a' where "load_approval (sy_gov t) aid = Some a'" "av_status a' = APPROVED"
    using execute_marks [OF ex, of a] a id t by auto
  then show ?thesis using not_pending_refused [of u aid R' reg' by' sid'] assms(3) by auto
qed

text \<open>C7: a tampered proposal is refused: if the binding was made for the proposal \<open>q\<close> and the stored proposal \<open>p\<close> differs from it in its action,
  its agent or the canonical form of its parameters, or carries the checksum of \<open>q\<close> over any other canonical
  content, then the execution raises before anything happens: no tool runs, no store, cache or outside
  call is touched.  The only way around is a collision of the digest on the two actions, parameters or proposals.\<close>

theorem tampered_proposal_refused:
  assumes "av_immutable a = Some p" and "av_binding a = Some b"
    and "bi_action_hash b = action_hash R (pr_action q) (pr_agent q)" and "bi_tool_name b = pr_action q"
    and "bi_parameters_hash b = stable_hash (re_env R) (pr_parameters q)"
    and "pr_action p \<noteq> pr_action q \<or> pr_agent p \<noteq> pr_agent q \<or>
      normalize_val True (pr_parameters p) \<noteq> normalize_val True (pr_parameters q) \<or>
      pr_checksum p = proposal_checksum R q \<and> normalize_val True (proposal_json R p) \<noteq> normalize_val True (proposal_json R q)"
  shows "(\<exists>msg t. execute_approved_action R reg a by s = (Inl (ValueError msg), t) \<and> refused s t) \<or>
    hash_clash (re_env R) (action_form (pr_action p) (pr_agent p)) (action_form (pr_action q) (pr_agent q)) \<or>
    hash_clash (re_env R) (pr_parameters p) (pr_parameters q) \<or>
    hash_clash (re_env R) (proposal_json R p) (proposal_json R q)"
proof (cases "pr_checksum p = proposal_checksum R p \<and> validate_binding R p a = Inr ()")
  case False
  then show ?thesis using invalid_refused [OF assms(1) False] by blast
next
  case True
  have act: "normalize_val True (action_form x y) = normalize_val True (action_form x' y') \<longleftrightarrow> x = x' \<and> y = y'" for x y x' y'
    by (simp add: action_form_def build_dict_def VOLATILE_KEYS_def)
  from True assms have eqs: "stable_hash (re_env R) (action_form (pr_action p) (pr_agent p)) = stable_hash (re_env R) (action_form (pr_action q) (pr_agent q))"
    "stable_hash (re_env R) (pr_parameters p) = stable_hash (re_env R) (pr_parameters q)"
    by (auto simp: validate_binding_def action_hash_def split: if_splits)
  consider "\<not> (pr_action p = pr_action q \<and> pr_agent p = pr_agent q)"
    | "normalize_val True (pr_parameters p) \<noteq> normalize_val True (pr_parameters q)"
    | "pr_checksum p = proposal_checksum R q" "normalize_val True (proposal_json R p) \<noteq> normalize_val True (proposal_json R q)"
    using assms(6) by blast
  then show ?thesis
  proof cases
    case 1
    then show ?thesis unfolding act [symmetric] using eqs(1) by (simp only: hash_clash_def) blast
  next
    case 2
    then show ?thesis using eqs(2) by (simp only: hash_clash_def) blast
  next
    case 3
    then show ?thesis using True by (simp only: hash_clash_def proposal_checksum_def) auto
  qed
qed

text \<open>parameters under a volatile name are not protected: replacing the value of such a parameter (for example
  \<open>exp\<close> or \<open>timestamp\<close>) in an approved proposal changes neither its checksum nor the outcome of
  the validation of its binding.\<close>

theorem volatile_parameters_unprotected:
  assumes "key_str k \<in> VOLATILE_KEYS" and "pr_parameters p = PDict (d1 @ [(k, v)] @ d2)"
  shows "proposal_checksum R (p\<lparr>pr_parameters := PDict (d1 @ [(k, w)] @ d2)\<rparr>) = proposal_checksum R p \<and>
    validate_binding R (p\<lparr>pr_parameters := PDict (d1 @ [(k, w)] @ d2)\<rparr>) a = validate_binding R p a"
proof -
  have n: "normalize_val True (PDict (d1 @ [(k, w)] @ d2)) = normalize_val True (pr_parameters p)"
    unfolding assms(2) normalize_volatile_key [OF assms(1)] by (rule refl)
  have "normalize_val True (proposal_json R (p\<lparr>pr_parameters := x\<rparr>)) = normalize_val True (proposal_json R p)"
    if "normalize_val True x = normalize_val True (pr_parameters p)" for x
    using that by (simp add: proposal_json_def)
  from this [OF n] show ?thesis
    using n by (simp add: proposal_checksum_def stable_hash_def validate_binding_def del: normalize_val.simps split: option.split)
qed

text \<open>an expired approval is closed: executing a stored, untampered approval after its expiry raises, sets its status to EXPIRED so
  that it is never pending again, and runs nothing: no table, no cache entry and no outside call changes.\<close>

theorem expired_approval_closed:
  assumes "load_approval (sy_gov s) (av_id a) = Some a" and "av_immutable a = Some p"
    and "pr_checksum p = proposal_checksum R p" and "validate_binding R p a = Inr ()"
    and "utc (pr_expires p) < re_now R (sy_clock s + 1)"
  shows "\<exists>t a'. execute_approved_action R reg a by s = (Inl (ValueError ''Approval expired''), t) \<and>
    load_approval (sy_gov t) (av_id a) = Some a' \<and> av_status a' = EXPIRED \<and>
    sy_db t = sy_db s \<and> sy_cache t = sy_cache s \<and> sy_ext t = sy_ext s"
proof -
  obtain c where g: "execute_approved_action R reg a by s =
      seqc (set_approval_status R (av_id a) EXPIRED None) (raise (ValueError ''Approval expired''))
       (s\<lparr>sy_uuid := Suc (sy_uuid s), sy_spans := c, sy_clock := Suc (Suc (sy_clock s))\<rparr>)"
    using execute_guards [of R reg a "by" s] assms by (auto simp: bnd_lift_res clock_run)
  let ?u = "s\<lparr>sy_uuid := Suc (sy_uuid s), sy_spans := c, sy_clock := Suc (Suc (sy_clock s))\<rparr>"
  obtain n gv a' where st: "set_approval_status R (av_id a) EXPIRED None ?u = (Inr (), ?u\<lparr>sy_clock := n, sy_gov := gv\<rparr>)"
    "load_approval gv (av_id a) = Some a'" "av_status a' = EXPIRED"
    using set_status_run [of ?u "av_id a" a R EXPIRED None] assms(1) by auto
  show ?thesis
    by (rule exI [of _ "?u\<lparr>sy_clock := n, sy_gov := gv\<rparr>"], rule exI [of _ a'])
      (simp add: g seqc_def bnd_def st raise_def)
qed


text \<open>C25: prepare and execute fit together: an approval that was prepared is stored as pending under its id, carries its proposal, and passes
  every guard of the execution in any later state up to its expiry, so that executing it is exactly the tool call, its transaction
  and the update of the approval.\<close>

theorem prepared_approval_passes_guards:
  assumes "prepare_approval R p requester s = (Inr a, t)" and "re_now R (sy_clock u + 1) \<le> utc (pr_expires p)"
  shows "load_approval (sy_gov t) (av_id a) = Some a \<and> av_status a = APPENDING \<and> av_immutable a = Some p \<and>
    (\<exists>c. execute_approved_action R reg a by u = carry_out R reg a p by (re_uuid R (sy_uuid u))
       (u\<lparr>sy_uuid := Suc (sy_uuid u), sy_spans := c, sy_clock := Suc (Suc (sy_clock u))\<rparr>))"
proof -
  note r = prepare_run [OF assms(1)]
  have i: "av_immutable a = Some p" "av_status a = APPENDING" using r by (auto simp: new_approval_def)
  have v: "validate_binding R p a = Inr ()" using r by (auto simp: new_approval_def validate_binding_def)
  show ?thesis using r i execute_open [OF i(1) _ v assms(2), of reg "by"] by simp
qed


section \<open>Witnesses\<close>

definition demo_immutable :: proposal where
  "demo_immutable = \<lparr>pr_id = ''p'', pr_correlation = ''c'', pr_task_id = ''c'', pr_agent = ''cto'', pr_action = ''deploy'',
     pr_parameters = pdict [(''n'', PInt 1), (''exp'', PInt 5)], pr_level = EXECUTE_CRITICAL, pr_impact = '''', pr_proposed_by = ''cto'',
     pr_approval_level = 3, pr_checksum = ''d'', pr_expires = Aware 1000\<rparr>"

definition demo_binding :: binding where
  "demo_binding = \<lparr>bi_approval_id = ''a'', bi_correlation = ''c'', bi_tool_name = ''deploy'', bi_action_hash = ''d'',
     bi_parameters_hash = ''d'', bi_world_version = Some 1, bi_created = 0, bi_expires = Aware 1000\<rparr>"

definition demo_approval :: approval where
  "demo_approval = new_approval demo_immutable ''a'' ''cto'' demo_binding"

definition demo_pending :: sys where
  "demo_pending = init_sys\<lparr>sy_gov := save_approval demo_approval reset_governance_memory\<rparr>"

lemma demo_pending_gov: "load_approval (sy_gov demo_pending) k = (if k = ''a'' then Some demo_approval else None)"
  by (simp add: demo_pending_def load_save demo_approval_def av_id_new reset_governance_memory_def) (simp add: load_approval_def)

lemma demo_pending_fields: "sy_locks demo_pending = []" "sy_crisis demo_pending = None" "sy_biases demo_pending = []"
    "sy_clock demo_pending = 0" "sy_ext demo_pending = 0"
  by (simp_all add: demo_pending_def init_sys_def)

lemma demo_approval_ok: "av_id demo_approval = ''a''" "av_status demo_approval = APPENDING" "av_immutable demo_approval = Some demo_immutable"
    "pr_checksum demo_immutable = proposal_checksum demo_env demo_immutable" "validate_binding demo_env demo_immutable demo_approval = Inr ()"
    "utc (pr_expires demo_immutable) = 1000" "pr_action demo_immutable = ''deploy''" "pr_agent demo_immutable = ''cto''"
  by (simp_all add: demo_approval_def new_approval_def demo_immutable_def demo_binding_def proposal_checksum_def stable_hash_def demo_env_def
      validate_binding_def action_hash_def)

lemma demo_now: "re_now demo_env n = int n"
  by (simp add: demo_env_def)

lemma demo_critical: "dict_get critical_registry ''deploy'' =
    Some \<lparr>ca_name = ''deploy'', ca_class = ''EXECUTE'', ca_agents = [''cto''], ca_level = 3\<rparr>"
  by (simp add: critical_registry_def register_capability_def)

lemma demo_execution:
  assumes "sy_clock u = 0" and "sy_crisis u = None" and "sy_biases u = []"
  shows "\<exists>x t. execute_approved_action demo_env critical_registry demo_approval ''me'' u = (Inr x, t)"
proof -
  obtain c where e: "execute_approved_action demo_env critical_registry demo_approval ''me'' u = carry_out demo_env critical_registry demo_approval demo_immutable ''me''
      (re_uuid demo_env (sy_uuid u)) (u\<lparr>sy_uuid := Suc (sy_uuid u), sy_spans := c, sy_clock := Suc (Suc (sy_clock u))\<rparr>)"
    using execute_open [OF demo_approval_ok(3,4,5), of u critical_registry "''me''"] assms(1) by (auto simp: demo_now demo_approval_ok)
  show ?thesis
    unfolding e using critical_tools_wait [OF demo_critical, where agent = "''cto''" and s = "u\<lparr>sy_uuid := Suc (sy_uuid u), sy_spans := c, sy_clock := Suc (Suc (sy_clock u))\<rparr>"]
      assms(2,3) carry_out_returns [where p = demo_immutable, unfolded demo_approval_ok]
    by (simp add: nonneg_biases_def) metis
qed

theorem approval_executes_at_most_once_witness:
  "\<exists>x t e. execute_approved_action_in_session demo_env critical_registry ''a'' ''me'' None demo_pending = (Inr x, t) \<and>
     execute_approved_action_in_session demo_env critical_registry ''a'' ''you'' (Some ''other'') t = (Inl e, t)"
proof -
  obtain x t1 where "execute_approved_action demo_env critical_registry demo_approval ''me'' (demo_pending\<lparr>sy_locks := [''a'']\<rparr>) = (Inr x, t1)"
    using demo_execution [of "demo_pending\<lparr>sy_locks := [''a'']\<rparr>"] by (auto simp: demo_pending_fields)
  then obtain t where r: "execute_approved_action_in_session demo_env critical_registry ''a'' ''me'' None demo_pending = (Inr x, t)"
    by (simp add: execute_approved_action_in_session_def str_or_def run_free demo_pending_fields bnd_reads demo_pending_gov demo_approval_ok)
  have "gov_ok (sy_gov demo_pending)" by (simp add: gov_ok_def demo_pending_gov demo_approval_ok)
  from approval_executes_at_most_once [OF r this refl, of demo_env critical_registry "''you''" "Some ''other''"] r show ?thesis by blast
qed

definition colliding_proposal :: proposal where
  "colliding_proposal = demo_immutable\<lparr>pr_action := ''prioritize_bugs'', pr_parameters := pdict [(''source'', PStr ''x'')]\<rparr>"


theorem volatile_parameters_unprotected_witness:
  "proposal_checksum demo_env (demo_immutable\<lparr>pr_parameters := PDict [(KStr ''n'', PInt 1), (KStr ''exp'', PInt 99)]\<rparr>) =
     proposal_checksum demo_env demo_immutable"
  using volatile_parameters_unprotected [of "KStr ''exp''" demo_immutable "[(KStr ''n'', PInt 1)]" "PInt 5" "[]" demo_env "PInt 99"]
  by (simp add: VOLATILE_KEYS_def demo_immutable_def)

theorem expired_approval_closed_witness:
  "\<exists>t. execute_approved_action demo_env critical_registry demo_approval ''me'' (demo_pending\<lparr>sy_clock := 5000\<rparr>) =
     (Inl (ValueError ''Approval expired''), t) \<and> sy_ext t = 0"
proof -
  have "\<exists>t a'. execute_approved_action demo_env critical_registry demo_approval ''me'' (demo_pending\<lparr>sy_clock := 5000\<rparr>) = (Inl (ValueError ''Approval expired''), t) \<and>
    load_approval (sy_gov t) (av_id demo_approval) = Some a' \<and> av_status a' = EXPIRED \<and>
    sy_db t = sy_db (demo_pending\<lparr>sy_clock := 5000\<rparr>) \<and> sy_cache t = sy_cache (demo_pending\<lparr>sy_clock := 5000\<rparr>) \<and> sy_ext t = sy_ext (demo_pending\<lparr>sy_clock := 5000\<rparr>)"
    by (rule expired_approval_closed [OF _ demo_approval_ok(3,4,5)]) (simp_all add: demo_pending_gov demo_approval_ok demo_now)
  then show ?thesis by (auto simp: demo_pending_fields)
qed

theorem prepared_approval_passes_guards_witness:
  "\<exists>a t c. prepare_approval demo_env demo_immutable ''cto'' init_sys = (Inr a, t) \<and> load_approval (sy_gov t) (av_id a) = Some a \<and>
     execute_approved_action demo_env build_vs_registry a ''me'' init_sys = carry_out demo_env build_vs_registry a demo_immutable ''me'' (re_uuid demo_env (sy_uuid init_sys))
       (init_sys\<lparr>sy_uuid := Suc (sy_uuid init_sys), sy_spans := c, sy_clock := Suc (Suc (sy_clock init_sys))\<rparr>)"
proof -
  obtain a t where r: "prepare_approval demo_env demo_immutable ''cto'' init_sys = (Inr a, t)"
    using prepare_total [OF demo_approval_ok(4)] by blast
  have "re_now demo_env (sy_clock init_sys + 1) \<le> utc (pr_expires demo_immutable)"
    by (simp add: demo_now init_sys_def demo_approval_ok)
  from prepared_approval_passes_guards [OF r this, of build_vs_registry "''me''"] r show ?thesis by blast
qed

definition tamper_env :: rt_env where
  "tamper_env = demo_env\<lparr>re_env := \<lparr>digest = (\<lambda>v. if v = PDict [(KStr ''n'', PInt 1)] \<or>
     vget v ''parameters'' = Some (PDict [(KStr ''n'', PInt 1)]) then ''q'' else ''d''), sha256 = (\<lambda>_. ''s'')\<rparr>\<rparr>"

definition tampered_proposal :: proposal where
  "tampered_proposal = demo_immutable\<lparr>pr_parameters := pdict [(''n'', PInt 2)]\<rparr>"

definition tampered_approval :: approval where
  "tampered_approval = demo_approval\<lparr>av_immutable := Some tampered_proposal, av_binding := Some (demo_binding\<lparr>bi_parameters_hash := ''q''\<rparr>)\<rparr>"

theorem tampered_proposal_refused_witness:
  "\<exists>msg t. execute_approved_action tamper_env critical_registry tampered_approval ''me'' init_sys = (Inl (ValueError msg), t) \<and> refused init_sys t"
proof -
  note defs = tampered_proposal_def demo_immutable_def tamper_env_def stable_hash_def build_dict_def VOLATILE_KEYS_def
  have par: "\<not> hash_clash (re_env tamper_env) (pr_parameters tampered_proposal) (pr_parameters demo_immutable)"
    by (simp add: hash_clash_def defs)
  have js: "\<not> hash_clash (re_env tamper_env) (proposal_json tamper_env tampered_proposal) (proposal_json tamper_env demo_immutable)"
    by (simp add: hash_clash_def defs proposal_json_def)
  have act: "\<not> hash_clash (re_env tamper_env) (action_form (pr_action tampered_proposal) (pr_agent tampered_proposal))
      (action_form (pr_action demo_immutable) (pr_agent demo_immutable))"
    by (simp add: hash_clash_def tampered_proposal_def)
  have "(\<exists>msg t. execute_approved_action tamper_env critical_registry tampered_approval ''me'' init_sys = (Inl (ValueError msg), t) \<and> refused init_sys t) \<or>
    hash_clash (re_env tamper_env) (action_form (pr_action tampered_proposal) (pr_agent tampered_proposal)) (action_form (pr_action demo_immutable) (pr_agent demo_immutable)) \<or>
    hash_clash (re_env tamper_env) (pr_parameters tampered_proposal) (pr_parameters demo_immutable) \<or>
    hash_clash (re_env tamper_env) (proposal_json tamper_env tampered_proposal) (proposal_json tamper_env demo_immutable)"
    by (rule tampered_proposal_refused [where b = "demo_binding\<lparr>bi_parameters_hash := ''q''\<rparr>"])
      (simp_all add: tampered_approval_def demo_binding_def action_hash_def action_form_def defs)
  with par js act show ?thesis by blast
qed

end
