(* ===== verification/Preprocessor.thy ===== *)
theory Preprocessor
  imports PyFloat Values
begin

text \<open>
  \<open>core/preprocessor.py\<close>: the four tiers that decide whether a founder message needs the agents at all.  The
  regular expressions of the first tier are kept as syntax with a matcher that returns every
  remainder of the text, which is what a backtracking search explores; texts are ASCII.
\<close>

section \<open>Regular expressions\<close>

datatype rx = Lit string | Spaces | Maybe rx | Cat "rx list" | Alt "rx list"

definition space_char :: "char \<Rightarrow> bool" where
  "space_char c = (let n = (of_char c :: nat) in 9 \<le> n \<and> n \<le> 13 \<or> 28 \<le> n \<and> n \<le> 32)"

text \<open>The remainders after zero or more spaces.\<close>

fun after_spaces :: "string \<Rightarrow> string list" where
  "after_spaces [] = [[]]"
| "after_spaces (c # cs) = (c # cs) # (if space_char c then after_spaces cs else [])"

function (sequential) rx_match :: "rx \<Rightarrow> string \<Rightarrow> string list" where
  "rx_match (Lit w) s = (if prefix_of w s then [drop (length w) s] else [])"
| "rx_match Spaces s = after_spaces s"
| "rx_match (Maybe r) s = rx_match r s @ [s]"
| "rx_match (Cat []) s = [s]"
| "rx_match (Cat (r # rs)) s = concat (map (rx_match (Cat rs)) (rx_match r s))"
| "rx_match (Alt []) s = []"
| "rx_match (Alt (r # rs)) s = rx_match r s @ rx_match (Alt rs) s"
  by pat_completeness auto
termination
  by (relation "measure (\<lambda>(r, s). size r)") auto

text \<open>\<open>pattern.search(text)\<close> under \<open>re.I\<close>: a match at some position of the lowered text.\<close>

fun rx_search :: "rx \<Rightarrow> string \<Rightarrow> bool" where
  "rx_search r [] = (rx_match r [] \<noteq> [])"
| "rx_search r (c # cs) = (rx_match r (c # cs) \<noteq> [] \<or> rx_search r cs)"

section \<open>The tables\<close>

datatype tier = REGEX | EMBEDDING | CLASSIFIER | COGNITION

fun tier_value :: "tier \<Rightarrow> string" where
  "tier_value REGEX = ''tier1_regex''"
| "tier_value EMBEDDING = ''tier2_embedding''"
| "tier_value CLASSIFIER = ''tier3_classifier''"
| "tier_value COGNITION = ''tier4_cognition''"

record pre_result =
  px_tier :: tier
  px_tool :: "string option"
  px_params :: "pyval option"
  px_confidence :: rat
  px_raw :: string

definition open_prs :: pyval where
  "open_prs = pdict [(''status'', PStr ''open'')]"

definition TIER1_PATTERNS :: "(rx \<times> string \<times> pyval) list" where
  "TIER1_PATTERNS =
    [(Cat [Lit ''how many pr'', Maybe (Lit ''s''), Spaces, Maybe (Cat [Lit ''are'', Spaces]), Alt [Lit ''open'', Lit ''blocked'']],
        ''list_github_prs'', open_prs),
     (Cat [Alt [Lit ''open'', Lit ''blocked''], Spaces, Lit ''pr'', Maybe (Lit ''s'')], ''list_github_prs'', open_prs),
     (Cat [Lit ''repo'', Spaces, Lit ''health''], ''get_repo_health'', PDict []),
     (Cat [Lit ''github'', Spaces, Lit ''status''], ''get_repo_health'', PDict []),
     (Lit ''runway'', ''calculate_runway'', PDict []),
     (Alt [Lit ''cashflow'', Lit ''cash flow''], ''get_cashflow_summary'', PDict []),
     (Alt [Lit ''kpi'', Lit ''dashboard''], ''read_kpi_dashboard'', PDict []),
     (Cat [Lit ''blocker'', Maybe (Lit ''s'')], ''detect_blockers'', PDict []),
     (Alt [Lit ''analytics'', Lit ''conversion''], ''get_analytics_summary'', PDict [])]"

definition TIER2_KEYWORDS :: "(string list \<times> string \<times> pyval) list" where
  "TIER2_KEYWORDS =
    [([''pull'', ''request'', ''github'', ''pr''], ''list_github_prs'', open_prs),
     ([''deployment'', ''repository'', ''health''], ''get_repo_health'', PDict []),
     ([''revenue'', ''financial'', ''burn''], ''get_cashflow_summary'', PDict []),
     ([''task'', ''operations'', ''bottleneck''], ''detect_blockers'', PDict []),
     ([''marketing'', ''campaign'', ''cac''], ''get_analytics_summary'', PDict [])]"

definition TIER3_KEYWORDS :: "(string list \<times> string) list" where
  "TIER3_KEYWORDS =
    [([''anomaly'', ''incident'', ''deployment'', ''outage''], ''delegate_cto''),
     ([''budget'', ''runway'', ''forecast''], ''delegate_cfo''),
     ([''blocker'', ''team'', ''sync''], ''delegate_coo''),
     ([''campaign'', ''funnel'', ''acquisition''], ''delegate_cmo'')]"

section \<open>The tiers\<close>

text \<open>\<open>re.findall(r"\w+", text.lower())\<close>: the maximal runs of word characters.\<close>

definition word_char :: "char \<Rightarrow> bool" where
  "word_char c = (let n = (of_char c :: nat) in 48 \<le> n \<and> n \<le> 57 \<or> 65 \<le> n \<and> n \<le> 90 \<or> n = 95 \<or> 97 \<le> n \<and> n \<le> 122)"

function (sequential) words_of :: "string \<Rightarrow> string list" where
  "words_of [] = []"
| "words_of (c # cs) = (if word_char c then (c # takeWhile word_char cs) # words_of (dropWhile word_char cs) else words_of cs)"
  by pat_completeness auto
termination
  by (relation "measure length") (auto simp: le_imp_less_Suc length_dropWhile_le)

definition strip_text :: "string \<Rightarrow> string" where
  "strip_text s = rev (dropWhile space_char (rev (dropWhile space_char s)))"

definition tier1_regex :: "string \<Rightarrow> pre_result option" where
  "tier1_regex text = (case List.find (\<lambda>(r, tool, ps). rx_search r (lower text)) TIER1_PATTERNS of
     None \<Rightarrow> None
   | Some (r, tool, ps) \<Rightarrow> Some \<lparr>px_tier = REGEX, px_tool = Some tool, px_params = Some ps, px_confidence = fl (95/100), px_raw = text\<rparr>)"

definition overlap :: "string list \<Rightarrow> string list \<Rightarrow> rat" where
  "overlap ws ks = fdiv (of_nat (card (set ws \<inter> set ks))) (of_nat (max (card (set ks)) 1))"

fun tier2_best :: "string \<Rightarrow> string list \<Rightarrow> (string list \<times> string \<times> pyval) list \<Rightarrow> rat \<Rightarrow> pre_result option \<Rightarrow> pre_result option" where
  "tier2_best text ws [] score best = best"
| "tier2_best text ws ((ks, tool, ps) # rest) score best =
     (let v = overlap ws ks in
      if v > score \<and> v \<ge> 1/2
      then tier2_best text ws rest v (Some \<lparr>px_tier = EMBEDDING, px_tool = Some tool, px_params = Some ps, px_confidence = v, px_raw = text\<rparr>)
      else tier2_best text ws rest score best)"

definition tier2_embedding :: "string \<Rightarrow> pre_result option" where
  "tier2_embedding text = tier2_best text (words_of (lower text)) TIER2_KEYWORDS 0 None"

definition tier3_classifier :: "string \<Rightarrow> pre_result option" where
  "tier3_classifier text = (case List.find (\<lambda>(ks, act). set (words_of (lower text)) \<inter> set ks \<noteq> {}) TIER3_KEYWORDS of
     None \<Rightarrow> None
   | Some (ks, act) \<Rightarrow> Some \<lparr>px_tier = CLASSIFIER, px_tool = Some act, px_params = Some (pdict [(''query'', PStr text)]),
       px_confidence = 3/4, px_raw = text\<rparr>)"

definition process :: "string \<Rightarrow> pre_result" where
  "process user_input = (let text = strip_text user_input in
     case tier1_regex text of Some r \<Rightarrow> r
   | None \<Rightarrow> (case tier2_embedding text of Some r \<Rightarrow> r
     | None \<Rightarrow> (case tier3_classifier text of Some r \<Rightarrow> r
       | None \<Rightarrow> \<lparr>px_tier = COGNITION, px_tool = None, px_params = None, px_confidence = 0, px_raw = text\<rparr>)))"

section \<open>Lemmas\<close>

text \<open>The language of an expression, as the reference for the matcher.\<close>

inductive rx_in :: "string \<Rightarrow> rx \<Rightarrow> bool" where
  lit: "rx_in w (Lit w)"
| spaces: "list_all space_char w \<Longrightarrow> rx_in w Spaces"
| maybe_some: "rx_in w r \<Longrightarrow> rx_in w (Maybe r)"
| maybe_none: "rx_in [] (Maybe r)"
| cat_none: "rx_in [] (Cat [])"
| cat_some: "rx_in u r \<Longrightarrow> rx_in v (Cat rs) \<Longrightarrow> rx_in (u @ v) (Cat (r # rs))"
| alt: "r \<in> set rs \<Longrightarrow> rx_in w r \<Longrightarrow> rx_in w (Alt rs)"

inductive_simps rx_in_simps: "rx_in w (Lit v)" "rx_in w Spaces" "rx_in w (Maybe r)" "rx_in w (Cat [])" "rx_in w (Cat (r # rs))" "rx_in w (Alt rs)"

lemma after_spaces_iff: "t \<in> set (after_spaces s) \<longleftrightarrow> (\<exists>w. s = w @ t \<and> list_all space_char w)"
proof (induction s)
  case (Cons c cs)
  have "(\<exists>w. c # cs = w @ t \<and> list_all space_char w) \<longleftrightarrow> t = c # cs \<or> space_char c \<and> (\<exists>w. cs = w @ t \<and> list_all space_char w)"
    by (auto simp: Cons_eq_append_conv)
  then show ?case using Cons by auto
qed simp

lemma rx_match_iff: "t \<in> set (rx_match r s) \<longleftrightarrow> (\<exists>w. s = w @ t \<and> rx_in w r)"
proof (induction r s arbitrary: t rule: rx_match.induct)
  case (1 v s)
  then show ?case by (auto simp: rx_in_simps prefix_of_iff)
next
  case (5 r rs s)
  then show ?case by (auto simp: rx_in_simps) (metis append_assoc)+
qed (auto simp: rx_in_simps after_spaces_iff)

lemma nonempty_iff: "xs \<noteq> [] \<longleftrightarrow> (\<exists>t. t \<in> set xs)"
  by (cases xs) auto

definition occurs_in :: "rx \<Rightarrow> string \<Rightarrow> bool" where
  "occurs_in r s \<longleftrightarrow> (\<exists>a w b. s = a @ w @ b \<and> rx_in w r)"

lemma match_at: "rx_match r s \<noteq> [] \<longleftrightarrow> (\<exists>w b. s = w @ b \<and> rx_in w r)"
  by (auto simp: nonempty_iff rx_match_iff)

lemma occurs_Cons: "occurs_in r (c # cs) \<longleftrightarrow> rx_match r (c # cs) \<noteq> [] \<or> occurs_in r cs"
proof
  assume "occurs_in r (c # cs)"
  then obtain a w b where "c # cs = a @ w @ b" "rx_in w r" by (auto simp: occurs_in_def)
  then show "rx_match r (c # cs) \<noteq> [] \<or> occurs_in r cs"
    by (cases a) (auto simp: match_at occurs_in_def)
next
  assume "rx_match r (c # cs) \<noteq> [] \<or> occurs_in r cs"
  then show "occurs_in r (c # cs)"
    unfolding match_at occurs_in_def by (metis append_Cons append_Nil)
qed

lemma rx_search_iff: "rx_search r s \<longleftrightarrow> occurs_in r s"
  by (induction s) (auto simp: occurs_Cons match_at, auto simp: occurs_in_def)

section \<open>Properties\<close>

text \<open>C36: the first tier decides by the first pattern of its table that occurs in the text, in any case of letters: the matcher
  agrees with the languages of the patterns, and the answer names the tool and the parameters of that pattern with confidence
  0.95; no answer means that no pattern occurs.\<close>

theorem tier1_first_pattern:
  "(tier1_regex text = None \<longleftrightarrow> (\<forall>p \<in> set TIER1_PATTERNS. \<not> occurs_in (fst p) (lower text))) \<and>
   (tier1_regex text = Some x \<longleftrightarrow> (\<exists>i < length TIER1_PATTERNS. occurs_in (fst (TIER1_PATTERNS ! i)) (lower text) \<and>
      (\<forall>j < i. \<not> occurs_in (fst (TIER1_PATTERNS ! j)) (lower text)) \<and>
      x = \<lparr>px_tier = REGEX, px_tool = Some (fst (snd (TIER1_PATTERNS ! i))), px_params = Some (snd (snd (TIER1_PATTERNS ! i))),
        px_confidence = fl (95/100), px_raw = text\<rparr>))"
proof
  let ?res = "\<lambda>p. \<lparr>px_tier = REGEX, px_tool = Some (fst (snd p)), px_params = Some (snd (snd p)), px_confidence = fl (95/100), px_raw = text\<rparr>"
  have f: "tier1_regex text = map_option ?res (List.find (\<lambda>p. occurs_in (fst p) (lower text)) TIER1_PATTERNS)"
    unfolding tier1_regex_def rx_search_iff case_prod_beta by (simp split: option.split)
  show "tier1_regex text = None \<longleftrightarrow> (\<forall>p \<in> set TIER1_PATTERNS. \<not> occurs_in (fst p) (lower text))"
    unfolding f option.map_disc_iff find_None_iff by blast
  show "tier1_regex text = Some x \<longleftrightarrow> (\<exists>i < length TIER1_PATTERNS. occurs_in (fst (TIER1_PATTERNS ! i)) (lower text) \<and>
      (\<forall>j < i. \<not> occurs_in (fst (TIER1_PATTERNS ! j)) (lower text)) \<and> x = ?res (TIER1_PATTERNS ! i))"
    unfolding f map_option_eq_Some find_Some_iff by blast
qed

theorem tier1_first_pattern_witness:
  "tier1_regex ''hello'' = None \<and> \<not> occurs_in (Lit ''runway'') (lower ''hello'')"
proof -
  have "tier1_regex ''hello'' = None" by code_simp
  moreover have "(Lit ''runway'', ''calculate_runway'', PDict []) \<in> set TIER1_PATTERNS" by (simp add: TIER1_PATTERNS_def)
  ultimately show ?thesis using tier1_first_pattern [of "''hello''"] by (metis fst_conv)
qed

end
