(* ===== verification/Api.thy ===== *)
theory Api
  imports Reports Approval Preprocessor
begin

text \<open>
  The HTTP handlers of \<open>api/main.py\<close>, \<open>api/sessions.py\<close>, \<open>api/diagnostics.py\<close> and \<open>api/adaptive.py\<close>, as
  computations of the authenticated caller (\<open>require_auth\<close> of theory Rbac gives it) and the parsed request.  The framework's
  part is its refusal of a request: an exception of a dependency comes first, a parameter out of its bounds is status 422; an
  exception of any other kind stays what it is (the server answers 500).
\<close>

section \<open>Founder requests\<close>

definition HINT_TOOLS :: "string list" where
  "HINT_TOOLS = [''list_github_prs'', ''get_repo_health'', ''calculate_runway'', ''get_cashflow_summary'',
     ''read_kpi_dashboard'', ''detect_blockers'', ''get_analytics_summary'']"

definition founder_hint :: "string \<Rightarrow> (hint \<times> tier) option" where
  "founder_hint msg = (let pre = process msg in
     case px_tool pre of None \<Rightarrow> None
     | Some tool \<Rightarrow>
         if tool \<noteq> '''' \<and> tier_value (px_tier pre) \<in> {''tier1_regex'', ''tier2_embedding''} \<and>
            \<not> prefix_of ''delegate_'' tool \<and> tool \<in> set HINT_TOOLS
         then Some (\<lparr>hn_tool = tool, hn_agent = Some (if substr ''github'' tool \<or> substr ''repo'' tool then ''cto'' else ''ceo''),
           hn_params = px_params pre\<rparr>, px_tier pre)
         else None)"

text \<open>\<open>mode\<close> and \<open>tier\<close> are added to the answer, whatever it is, when there was a hint.\<close>

record founder_response =
  fr_result :: request_result
  fr_tier :: "tier option"

definition founder_request ::
  "rt_env \<Rightarrow> registry \<Rightarrow> auth_context \<Rightarrow> string \<Rightarrow> string option \<Rightarrow> string option \<Rightarrow> founder_response rt" where
  "founder_request R reg auth msg sid cid =
     bnd (lift_res (require_permission FOUNDER_REQUEST auth)) (\<lambda>_.
     bnd (run_founder_request R reg msg sid cid (map_option fst (founder_hint msg))) (\<lambda>r.
     ret \<lparr>fr_result = r, fr_tier = map_option snd (founder_hint msg)\<rparr>))"

section \<open>Actions and approvals\<close>

record prepare_body =
  pb_correlation :: string
  pb_action :: string
  pb_parameters :: pyval
  pb_agent :: string
  pb_level :: string
  pb_impact :: string
  pb_approval_level :: int
  pb_task :: "string option"

definition level_of_value :: "string \<Rightarrow> side_effect_level option" where
  "level_of_value v = List.find (\<lambda>l. level_value l = v) [READ, PLAN, EXECUTE_SAFE, EXECUTE_CRITICAL]"

text \<open>The arguments are evaluated before the call: the clock for the expiry, then the id of the proposal.  A level that is
  none of the four fails the validation of the proposal.\<close>

definition requested_proposal :: "rt_env \<Rightarrow> auth_context \<Rightarrow> prepare_body \<Rightarrow> proposal rt" where
  "requested_proposal R auth b = bnd (clock R) (\<lambda>now.
     case level_of_value (pb_level b) of
       None \<Rightarrow> bnd (fresh_uuid R) (\<lambda>_. raise ValidationError)
     | Some l \<Rightarrow> create_immutable_proposal R (pb_correlation b) (pb_action b) (pb_parameters b) (pb_agent b) l (pb_impact b)
         (au_user auth) (pb_approval_level b) (Aware (now + 86400000000)) (pb_task b))"

definition prepare_action :: "rt_env \<Rightarrow> auth_context \<Rightarrow> prepare_body \<Rightarrow> approval rt" where
  "prepare_action R auth b =
     bnd (lift_res (require_permission ACTION_PREPARE auth)) (\<lambda>_.
     if \<not> can_approve_level (au_role auth) (pb_approval_level b) then raise (HTTPException 403)
     else bnd (requested_proposal R auth b) (\<lambda>p.
       catch (prepare_approval_in_session R p (pb_agent b)) is_value_error (\<lambda>e. raise (HTTPException 400))))"

definition approve_action :: "rt_env \<Rightarrow> registry \<Rightarrow> auth_context \<Rightarrow> string \<Rightarrow> string option \<Rightarrow> execution rt" where
  "approve_action R reg auth aid sid =
     bnd (lift_res (require_permission ACTION_APPROVE auth)) (\<lambda>_.
     bnd (reads (\<lambda>s. load_approval (sy_gov s) aid)) (\<lambda>ao. case ao of
       None \<Rightarrow> raise (HTTPException 404)
     | Some a \<Rightarrow>
         if \<not> can_approve_level (au_role auth) (av_risk_level a) then raise (HTTPException 403)
         else catch (execute_approved_action_in_session R reg aid (au_user auth) (Some (str_or sid (av_correlation a))))
           is_value_error (\<lambda>e. raise (HTTPException 400))))"

definition list_approvals :: "auth_context \<Rightarrow> approval list rt" where
  "list_approvals auth = bnd (lift_res (require_permission APPROVALS_READ auth)) (\<lambda>_. reads (\<lambda>s. list_pending_approvals (sy_gov s)))"

section \<open>Reading\<close>

definition api_replay_session :: "rt_env \<Rightarrow> registry \<Rightarrow> auth_context \<Rightarrow> string \<Rightarrow> string \<Rightarrow> replay_mode \<Rightarrow> replay_session rt" where
  "api_replay_session R reg auth sid cid mode =
     bnd (lift_res (require_permission REPLAY_EXECUTE auth)) (\<lambda>_. Replay.replay_session R reg sid cid mode)"

definition executive_timeline :: "rt_env \<Rightarrow> auth_context \<Rightarrow> string \<Rightarrow> timeline_entry list rt" where
  "executive_timeline R auth cid = bnd (lift_res (require_permission TIMELINE_READ auth)) (\<lambda>_. build_executive_timeline R cid)"

definition agents_health :: "auth_context \<Rightarrow> (string, agent_health) dict rt" where
  "agents_health auth = bnd (lift_res (require_permission AGENTS_HEALTH auth)) (\<lambda>_ s.
     (let (d, r) = all_agents (sy_health s) in (Inr d, s\<lparr>sy_health := r\<rparr>)))"

record context_metrics =
  cm_session :: string
  cm_correlation :: string
  cm_fingerprints :: "pyval list"

definition context_metrics_of :: "auth_context \<Rightarrow> string \<Rightarrow> string \<Rightarrow> context_metrics rt" where
  "context_metrics_of auth sid cid = bnd (lift_res (require_permission TIMELINE_READ auth)) (\<lambda>_. reads (\<lambda>s.
     \<lparr>cm_session = sid, cm_correlation = cid, cm_fingerprints = snapshot_fingerprints s sid\<rparr>))"

text \<open>\<open>/health\<close> asks nothing of the caller; in memory mode the store answers for the storage.\<close>

record server_health =
  sh_status :: string
  sh_database :: bool
  sh_storage :: bool

definition server_health_of :: "bool \<Rightarrow> bool \<Rightarrow> bool \<Rightarrow> server_health" where
  "server_health_of in_memory db_ok has_storage = \<lparr>sh_status = (if db_ok \<and> (has_storage \<or> in_memory) then ''healthy'' else ''degraded''),
     sh_database = db_ok, sh_storage = has_storage \<or> in_memory\<rparr>"

section \<open>api/sessions.py, api/diagnostics.py, api/adaptive.py\<close>

definition list_sessions :: "rt_env \<Rightarrow> auth_context \<Rightarrow> list_filters \<Rightarrow> session_summary list rt" where
  "list_sessions R auth f = bnd (lift_res (require_permission SESSION_READ auth)) (\<lambda>_.
     if lf_limit f < 1 \<or> 200 < lf_limit f \<or> lf_offset f < 0 then raise (HTTPException 422) else list_session_summaries R f)"

definition diagnostics_reader :: "auth_context \<Rightarrow> 'a rt \<Rightarrow> 'a rt" where
  "diagnostics_reader auth m = bnd (lift_res (require_permission DIAGNOSTICS_READ auth)) (\<lambda>_. m)"

definition session_health :: "auth_context \<Rightarrow> string \<Rightarrow> runtime_health option rt" where
  "session_health auth sid = diagnostics_reader auth (reads (\<lambda>s. get_health s sid))"

definition session_spans :: "auth_context \<Rightarrow> string \<Rightarrow> string option \<Rightarrow> span_tree rt" where
  "session_spans auth sid cid = diagnostics_reader auth (reads (\<lambda>s. get_span_tree s sid cid))"

definition session_telemetry :: "auth_context \<Rightarrow> string \<Rightarrow> string option \<Rightarrow> telemetry list rt" where
  "session_telemetry auth sid cid = diagnostics_reader auth (reads (\<lambda>s. query_cognitive_telemetry s sid cid))"

definition session_context :: "auth_context \<Rightarrow> string \<Rightarrow> context_view rt" where
  "session_context auth sid = diagnostics_reader auth (reads (\<lambda>s. get_context s sid))"

definition session_diagnostics :: "auth_context \<Rightarrow> string \<Rightarrow> string \<Rightarrow> diagnostics rt" where
  "session_diagnostics auth sid cid = diagnostics_reader auth (get_diagnostics sid cid)"

definition replay_analysis :: "rt_env \<Rightarrow> registry \<Rightarrow> auth_context \<Rightarrow> string \<Rightarrow> string \<Rightarrow> replay_mode \<Rightarrow> replay_analytics rt" where
  "replay_analysis R reg auth sid cid mode = diagnostics_reader auth (get_replay_analysis R reg sid cid mode)"

definition session_adaptive_policy :: "auth_context \<Rightarrow> string \<Rightarrow> policy_snapshot option rt" where
  "session_adaptive_policy auth sid = diagnostics_reader auth (reads (\<lambda>s. query_adaptive_policy (sy_intel s) sid))"

definition tools_reliability :: "auth_context \<Rightarrow> tool_profile list rt" where
  "tools_reliability auth = diagnostics_reader auth (reads query_tool_reliability_profiles)"

definition session_stability :: "auth_context \<Rightarrow> string \<Rightarrow> (string \<times> rat \<times> stability_event list) rt" where
  "session_stability auth sid = diagnostics_reader auth (reads (\<lambda>s.
     let evs = query_stability_events s sid in (sid, stability_score evs, evs)))"

definition session_context_intelligence :: "auth_context \<Rightarrow> string \<Rightarrow> (priority_row list \<times> rat) rt" where
  "session_context_intelligence auth sid = diagnostics_reader auth (reads (\<lambda>s. query_context_intelligence (sy_intel s) sid))"

record governance_view =
  gw_analytics :: replay_analytics
  gw_events :: "governance_event list"
  gw_delta :: int

definition replay_governance :: "rt_env \<Rightarrow> registry \<Rightarrow> auth_context \<Rightarrow> string \<Rightarrow> string \<Rightarrow> replay_mode \<Rightarrow> governance_view rt" where
  "replay_governance R reg auth sid cid mode = diagnostics_reader auth
     (bnd (analyze_replay R reg sid cid mode) (\<lambda>ra. reads (\<lambda>s.
       \<lparr>gw_analytics = ra, gw_events = query_governance_events s sid, gw_delta = effective_approval_delta (current_policy s sid)\<rparr>)))"

section \<open>Lemmas\<close>

lemma results_bnd_value: "results P m \<Longrightarrow> (\<And>x. P x \<Longrightarrow> results Q (f x)) \<Longrightarrow> results Q (bnd m f)"
  unfolding results_def by (metis bnd_InrE)

lemma results_catch: "results Q m \<Longrightarrow> (\<And>e. results Q (h e)) \<Longrightarrow> results Q (catch m p h)"
  by (fastforce simp: results_def catch_def split: prod.splits sum.splits if_splits)

lemma results_locked: "results Q m \<Longrightarrow> results Q (run_mutative_session k m)"
proof -
  have "results Q m \<Longrightarrow> results Q (finally_do m f)" for f
    by (fastforce simp: results_def finally_do_def split: prod.splits)
  then show "results Q m \<Longrightarrow> results Q (run_mutative_session k m)"
    unfolding run_mutative_session_def mutative_session_def by (intro results_seqc)
qed

lemma results_top: "results (\<lambda>x. True) m"
  by (simp add: results_def)

lemma disallowed_fails:
  assumes "\<not> is_allowed reg tool agent" and "agent \<noteq> ''system''"
  shows "results (\<lambda>r. \<not> tr_success r \<and> tr_source r = ''router'') (execute_tool R reg tool agent cid raw sid xb)"
  unfolding results_def using disallowed_refused [OF assms(1)] assms(2) by (metis Inr_inject prod.inject)

lemma disallowed_request:
  assumes "\<not> is_allowed reg tool agent" and "agent \<noteq> ''system''"
  shows "results (\<lambda>r. \<not> tr_success r \<and> tr_source r = ''router'') (run_deterministic_tool R reg tool agent cid sid params)"
  unfolding run_deterministic_tool_def deterministic_steps_def
  by (intro results_seqc results_bnd results_bnd_value [OF disallowed_fails [OF assms]] results_ret)

text \<open>What a hint is, and whether the registry of the program accepts it.\<close>

definition working_hints :: "string set" where
  "working_hints = {''list_github_prs'', ''get_repo_health'', ''read_kpi_dashboard''}"

lemma hint_accepted:
  assumes "tool \<in> set HINT_TOOLS"
  shows "is_allowed build_vs_registry tool (if substr ''github'' tool \<or> substr ''repo'' tool then ''cto'' else ''ceo'') \<longleftrightarrow> tool \<in> working_hints"
proof -
  have "list_all (\<lambda>tool. is_allowed build_vs_registry tool (if substr ''github'' tool \<or> substr ''repo'' tool then ''cto'' else ''ceo'')
      = (tool = ''list_github_prs'' \<or> tool = ''get_repo_health'' \<or> tool = ''read_kpi_dashboard'')) HINT_TOOLS"
    by code_simp
  then show ?thesis using assms by (auto simp: list_all_iff working_hints_def)
qed

lemma founder_hint_cases:
  assumes "founder_hint msg = Some (h, t)"
  shows "hn_tool h \<in> set HINT_TOOLS" and "hn_tool h \<noteq> ''''"
    and "hn_agent h = Some (if substr ''github'' (hn_tool h) \<or> substr ''repo'' (hn_tool h) then ''cto'' else ''ceo'')"
    and "t = px_tier (process msg)"
  using assms by (auto simp: founder_hint_def Let_def split: option.splits if_splits)

lemma tier1_result:
  assumes "tier1_regex text = Some r"
  shows "px_tier r = REGEX \<and> px_raw r = text \<and> (\<exists>t \<in> set HINT_TOOLS. px_tool r = Some t)"
proof -
  obtain p where p: "List.find (\<lambda>(r, tool, ps). rx_search r (lower text)) TIER1_PATTERNS = Some p"
    and r: "r = \<lparr>px_tier = REGEX, px_tool = Some (fst (snd p)), px_params = Some (snd (snd p)), px_confidence = fl (95/100), px_raw = text\<rparr>"
    using assms by (auto simp: tier1_regex_def split: option.splits)
  have "list_all (\<lambda>p. fst (snd p) \<in> set HINT_TOOLS) TIER1_PATTERNS" by (simp add: TIER1_PATTERNS_def HINT_TOOLS_def)
  then show ?thesis using find_SomeD [OF p] r by (auto simp: list_all_iff)
qed

lemma tier2_result:
  assumes "list_all (\<lambda>(ks, t, ps). t \<in> set HINT_TOOLS) tab"
    and "\<forall>r. best = Some r \<longrightarrow> px_tier r = EMBEDDING \<and> px_raw r = text \<and> (\<exists>t \<in> set HINT_TOOLS. px_tool r = Some t)"
    and "tier2_best text ws tab score best = Some r"
  shows "px_tier r = EMBEDDING \<and> px_raw r = text \<and> (\<exists>t \<in> set HINT_TOOLS. px_tool r = Some t)"
  using assms by (induction "text" ws tab score best rule: tier2_best.induct) (auto simp: Let_def split: if_splits)

lemma tier3_result:
  assumes "tier3_classifier text = Some r"
  shows "px_tier r = CLASSIFIER \<and> px_raw r = text \<and> (\<exists>t. px_tool r = Some t \<and> prefix_of ''delegate_'' t)"
proof -
  obtain p where p: "List.find (\<lambda>(ks, act). set (words_of (lower text)) \<inter> set ks \<noteq> {}) TIER3_KEYWORDS = Some p"
    and r: "r = \<lparr>px_tier = CLASSIFIER, px_tool = Some (snd p), px_params = Some (pdict [(''query'', PStr text)]), px_confidence = 3/4, px_raw = text\<rparr>"
    using assms by (auto simp: tier3_classifier_def split: option.splits)
  have "list_all (\<lambda>p. prefix_of ''delegate_'' (snd p)) TIER3_KEYWORDS" by (simp add: TIER3_KEYWORDS_def)
  then show ?thesis using find_SomeD [OF p] r by (auto simp: list_all_iff)
qed

lemma hint_tool_not_delegation: "t \<in> set HINT_TOOLS \<Longrightarrow> \<not> prefix_of ''delegate_'' t \<and> t \<noteq> ''''"
  by (auto simp: HINT_TOOLS_def)

lemma tier2_embedding_result:
  assumes "tier2_embedding text = Some r"
  shows "px_tier r = EMBEDDING \<and> px_raw r = text \<and> (\<exists>t \<in> set HINT_TOOLS. px_tool r = Some t)"
proof -
  have tab: "list_all (\<lambda>(ks, t, ps). t \<in> set HINT_TOOLS) TIER2_KEYWORDS" by (simp add: TIER2_KEYWORDS_def HINT_TOOLS_def)
  show ?thesis by (rule tier2_result [OF tab _ assms [unfolded tier2_embedding_def]]) simp
qed

lemma process_result:
  "px_tier (process msg) \<in> {REGEX, EMBEDDING} \<and> (\<exists>t \<in> set HINT_TOOLS. px_tool (process msg) = Some t) \<or>
   px_tier (process msg) = CLASSIFIER \<and> (\<exists>t. px_tool (process msg) = Some t \<and> prefix_of ''delegate_'' t) \<or>
   px_tier (process msg) = COGNITION \<and> px_tool (process msg) = None"
proof (cases "tier1_regex (strip_text msg)")
  case (Some r)
  then have "process msg = r" by (simp add: process_def Let_def)
  then show ?thesis using tier1_result [OF Some] by blast
next
  case None
  note t1 = None
  show ?thesis
  proof (cases "tier2_embedding (strip_text msg)")
    case (Some r)
    then have "process msg = r" using t1 by (simp add: process_def Let_def)
    then show ?thesis using tier2_embedding_result [OF Some] by blast
  next
    case None
    note t2 = None
    show ?thesis
    proof (cases "tier3_classifier (strip_text msg)")
      case (Some r)
      then have "process msg = r" using t1 t2 by (simp add: process_def Let_def)
      then show ?thesis using tier3_result [OF Some] by blast
    qed (simp add: process_def Let_def t1 t2)
  qed
qed

lemma process_cases:
  obtains (tool) t where "px_tier (process msg) \<in> {REGEX, EMBEDDING}" "px_tool (process msg) = Some t" "t \<in> set HINT_TOOLS"
  | (delegate) t where "px_tier (process msg) = CLASSIFIER" "px_tool (process msg) = Some t" "prefix_of ''delegate_'' t"
  | (reason) "px_tier (process msg) = COGNITION" "px_tool (process msg) = None"
  using process_result [of msg] by metis

section \<open>Properties\<close>

text \<open>the four tiers classify every founder message: the first two name one of the seven tools that a hint may carry, the third a
  delegation, the last no tool; and the request is answered without the agents exactly on the first two.\<close>

theorem process_tiers:
  "(px_tier (process msg) \<in> {REGEX, EMBEDDING} \<longleftrightarrow> (\<exists>t \<in> set HINT_TOOLS. px_tool (process msg) = Some t)) \<and>
   (px_tier (process msg) = CLASSIFIER \<longleftrightarrow> (\<exists>t. px_tool (process msg) = Some t \<and> prefix_of ''delegate_'' t)) \<and>
   (px_tier (process msg) = COGNITION \<longleftrightarrow> px_tool (process msg) = None) \<and>
   (founder_hint msg \<noteq> None \<longleftrightarrow> px_tier (process msg) \<in> {REGEX, EMBEDDING})"
  by (cases msg rule: process_cases) (auto simp: founder_hint_def Let_def dest: hint_tool_not_delegation)

lemma results_self: "results (\<lambda>r. \<exists>u v. m u = (Inr r, v)) m"
  unfolding results_def by blast

lemma results_both: "results P m \<Longrightarrow> results Q m \<Longrightarrow> results (\<lambda>x. P x \<and> Q x) m"
  unfolding results_def by blast

text \<open>C38: a message that the first two tiers answer never reaches the agents: unless the session is locked, the answer of the request is the
  result of a run of the hinted tool alone, with the parameters of the hint and as the agent that it names, which is \<open>cto\<close> for the GitHub
  tools and \<open>ceo\<close> for every other.  The registry of the program accepts this agent for exactly three of the seven tools, the two
  of GitHub and the KPI dashboard; for the other four (runway, cash flow, blockers, analytics) the answer is always a
  failed result of the router.\<close>

theorem hinted_tools_need_their_agent:
  assumes "founder_hint msg = Some (h, t)" and "founder_request R build_vs_registry auth msg sid cid s = (Inr x, s')"
  shows "\<exists>a. hn_agent h = Some a \<and> a = (if substr ''github'' (hn_tool h) \<or> substr ''repo'' (hn_tool h) then ''cto'' else ''ceo'') \<and>
    hn_tool h \<in> {''list_github_prs'', ''get_repo_health'', ''calculate_runway'', ''get_cashflow_summary'', ''read_kpi_dashboard'',
      ''detect_blockers'', ''get_analytics_summary''} \<and>
    (is_allowed build_vs_registry (hn_tool h) a \<longleftrightarrow> hn_tool h \<in> {''list_github_prs'', ''get_repo_health'', ''read_kpi_dashboard''}) \<and>
    fr_tier x = Some t \<and>
    ((\<exists>k. fr_result x = LockedSession k) \<or>
     (\<exists>c i r u v. fr_result x = Deterministic c i r \<and> run_deterministic_tool R build_vs_registry (hn_tool h) a c i (hn_params h) u = (Inr r, v) \<and>
       (\<not> is_allowed build_vs_registry (hn_tool h) a \<longrightarrow> \<not> tr_success r \<and> tr_source r = ''router'')))"
proof -
  obtain a where a: "hn_agent h = Some a" "a = (if substr ''github'' (hn_tool h) \<or> substr ''repo'' (hn_tool h) then ''cto'' else ''ceo'')"
    using founder_hint_cases(3) [OF assms(1)] by blast
  let ?Q = "\<lambda>y. (\<exists>k. y = LockedSession k) \<or> (\<exists>c i r u v. y = Deterministic c i r \<and>
      run_deterministic_tool R build_vs_registry (hn_tool h) a c i (hn_params h) u = (Inr r, v) \<and>
      (\<not> is_allowed build_vs_registry (hn_tool h) a \<longrightarrow> \<not> tr_success r \<and> tr_source r = ''router''))"
  have acc: "is_allowed build_vs_registry (hn_tool h) a \<longleftrightarrow> hn_tool h \<in> working_hints"
    using hint_accepted founder_hint_cases(1) [OF assms(1)] a by blast
  have ok: "results (\<lambda>r. \<not> is_allowed build_vs_registry (hn_tool h) a \<longrightarrow> \<not> tr_success r \<and> tr_source r = ''router'')
      (run_deterministic_tool R build_vs_registry (hn_tool h) a c i ps)" for c i ps
  proof (cases "is_allowed build_vs_registry (hn_tool h) a")
    case False
    then show ?thesis using disallowed_request [of build_vs_registry "hn_tool h" a] a False by simp
  qed (simp add: results_def)
  note d = results_both [OF results_self ok]
  have "results ?Q (run_locked R build_vs_registry msg i c (Some h))" for i c
    using founder_hint_cases(2) [OF assms(1)]
    by (auto simp: run_locked_def run_locked_tool_def a(1) intro!: results_bnd_value [OF d] results_ret)
  then have run: "results ?Q (run_founder_request R build_vs_registry msg sid cid (Some h))"
    unfolding run_founder_request_def by (intro results_bnd results_case_prod results_catch results_locked results_ret) auto
  have "results (\<lambda>x. fr_tier x = Some t \<and> ?Q (fr_result x)) (founder_request R build_vs_registry auth msg sid cid)"
    unfolding founder_request_def assms(1) option.map fst_conv snd_conv
    by (rule results_bnd, rule results_bnd_value [OF run], rule results_ret) simp
  then have "fr_tier x = Some t \<and> ?Q (fr_result x)" using assms(2) unfolding results_def by blast
  then show ?thesis using a acc founder_hint_cases(1) [OF assms(1)] unfolding HINT_TOOLS_def working_hints_def by auto
qed

text \<open>C37: no approval is executed without authority: unless the caller may approve, the approval exists and is pending, and the role
  reaches its level, the request is refused and nothing at all changes in the process.\<close>

theorem unauthorized_approval_changes_nothing:
  assumes "\<not> (\<exists>a. require_permission ACTION_APPROVE auth = Inr auth \<and> load_approval (sy_gov s) aid = Some a \<and>
    can_approve_level (au_role auth) (av_risk_level a) \<and> av_status a = APPENDING)"
  shows "\<exists>e. approve_action R reg auth aid sid s = (Inl e, s)"
proof (cases "require_permission ACTION_APPROVE auth")
  case (Inl e)
  then show ?thesis by (simp add: approve_action_def bnd_lift_res)
next
  case (Inr u)
  then have p: "require_permission ACTION_APPROVE auth = Inr auth" by (auto simp: require_permission_def split: if_splits sum.splits)
  show ?thesis
  proof (cases "load_approval (sy_gov s) aid")
    case (Some a)
    show ?thesis
    proof (cases "can_approve_level (au_role auth) (av_risk_level a)")
      case True
      then have "\<forall>b. load_approval (sy_gov s) aid = Some b \<longrightarrow> av_status b \<noteq> APPENDING" using assms p Some by auto
      from not_pending_refused [OF this] obtain e where
        "execute_approved_action_in_session R reg aid (au_user auth) (Some (str_or sid (av_correlation a))) s = (Inl e, s)" by blast
      then show ?thesis using True Some p by (simp add: approve_action_def bnd_lift_res bnd_reads catch_def raise_def)
    qed (simp add: approve_action_def bnd_lift_res bnd_reads raise_def p Some)
  qed (simp add: approve_action_def bnd_lift_res bnd_reads raise_def p)
qed

section \<open>Witnesses\<close>

definition ceo_user :: auth_context where
  "ceo_user = \<lparr>au_user = ''f'', au_role = FOUNDER, au_scopes = []\<rparr>"

lemma blockers_hint: "founder_hint ''blockers'' = Some (\<lparr>hn_tool = ''detect_blockers'', hn_agent = Some ''ceo'', hn_params = Some (PDict [])\<rparr>, REGEX)"
  by code_simp

theorem hinted_tools_need_their_agent_witness:
  "\<exists>x s' r. founder_request business_env build_vs_registry ceo_user ''blockers'' (Some ''s'') (Some ''c'') init_sys = (Inr x, s') \<and>
     fr_result x = Deterministic ''c'' ''s'' r \<and> \<not> tr_success r"
proof -
  let ?s = "init_sys\<lparr>sy_locks := [''s'']\<rparr>"
  obtain r t where run: "run_deterministic_tool business_env build_vs_registry ''detect_blockers'' ''ceo'' ''c'' ''s'' (Some (PDict [])) ?s = (Inr r, t)"
  proof -
    have "\<exists>r s' oc fp. run_deterministic_tool business_env build_vs_registry ''detect_blockers'' ''ceo'' ''c'' ''s'' (Some (PDict [])) ?s = (Inr r, s') \<and>
      map edge (get_runtime_transitions (sy_db s') ''s'') = steps_of PERCEIVING [REASONING, WAITING_TOOL, OBSERVING] \<and>
      run_from_session ''s'' ''c'' s' = Inr oc \<and> oc_tools oc = [''detect_blockers''] \<and> oc_final_state oc = ''completed'' \<and>
      fp = outcome_fingerprint (re_env business_env) oc \<and> validate_frozen_replay (re_env business_env) ''s'' ''c'' s' = Inr (True, fp, Some fp)"
      by (rule deterministic_closes)
        (unfold business_keys, use fresh_init_sys in \<open>simp_all add: github_tools_def outbox_keys_def get_replay_snapshots_def get_replay_baseline_meta_def\<close>)
    then show thesis using that by blast
  qed
  have "request_ids business_env (Some ''s'') (Some ''c'') = ret (''c'', ''s'')" by (simp add: request_ids_def str_or_def)
  moreover have "run_mutative_session ''s'' (run_locked business_env build_vs_registry ''blockers'' ''s'' ''c''
      (Some \<lparr>hn_tool = ''detect_blockers'', hn_agent = Some ''ceo'', hn_params = Some (PDict [])\<rparr>)) init_sys =
      (Inr (Deterministic ''c'' ''s'' r), t\<lparr>sy_locks := lock_leave ''s'' (sy_locks t)\<rparr>)"
    using run by (simp add: run_free run_locked_def run_locked_tool_def bnd_def ret_def init_sys_def)
  ultimately have g: "run_founder_request business_env build_vs_registry ''blockers'' (Some ''s'') (Some ''c'')
      (Some \<lparr>hn_tool = ''detect_blockers'', hn_agent = Some ''ceo'', hn_params = Some (PDict [])\<rparr>) init_sys =
      (Inr (Deterministic ''c'' ''s'' r), t\<lparr>sy_locks := lock_leave ''s'' (sy_locks t)\<rparr>)"
    by (simp add: run_founder_request_def bnd_ret catch_Inr)
  have f: "founder_request business_env build_vs_registry ceo_user ''blockers'' (Some ''s'') (Some ''c'') init_sys =
      (Inr \<lparr>fr_result = Deterministic ''c'' ''s'' r, fr_tier = Some REGEX\<rparr>, t\<lparr>sy_locks := lock_leave ''s'' (sy_locks t)\<rparr>)"
    by (simp add: founder_request_def blockers_hint bnd_lift_res require_permission_def ceo_user_def role_has_permission_def
      all_permissions_def bnd_def [of "run_founder_request _ _ _ _ _ _"] g ret_def)
  from hinted_tools_need_their_agent [OF blockers_hint f] have "\<not> tr_success r" by auto
  then show ?thesis using f by auto
qed

theorem unauthorized_approval_changes_nothing_witness:
  "\<exists>e. approve_action demo_env build_vs_registry \<lparr>au_user = ''u'', au_role = READONLY, au_scopes = []\<rparr> ''a1'' None demo_pending = (Inl e, demo_pending)"
  by (rule unauthorized_approval_changes_nothing) (simp add: require_permission_def role_has_permission_def)

end
