(* ===== verification/Ui.thy ===== *)
theory Ui
  imports Api
begin

text \<open>
  The web interface, \<open>ui/deps.py\<close> and \<open>ui/routes/\<close>: who is logged in, what each page is given, and the forms that change
  state.  A page is the data its template is rendered with; templates and request objects are not modelled.  The JWT
  library is a parameter, as in theory Rbac.
\<close>

section \<open>ui/deps.py\<close>

text \<open>The cookie first, then a bearer header; an empty cookie counts as none.\<close>

definition ui_token :: "string option \<Rightarrow> credentials option \<Rightarrow> string" where
  "ui_token cookie cred = (if str_or cookie '''' = ''''
     then (case cred of None \<Rightarrow> '''' | Some c \<Rightarrow> if lower (cr_scheme c) = ''bearer'' then cr_token c else '''')
     else str_or cookie '''')"

definition require_ui_auth :: "bool \<Rightarrow> (string \<Rightarrow> claims option) \<Rightarrow> string option \<Rightarrow> credentials option \<Rightarrow> exn + auth_context" where
  "require_ui_auth auth_disabled jwt cookie cred =
     (if auth_disabled then Inr \<lparr>au_user = ''dev-user'', au_role = FOUNDER, au_scopes = default_scopes FOUNDER\<rparr>
      else if ui_token cookie cred = '''' then Inl (HTTPException 401)
      else decode_token jwt (ui_token cookie cred))"

definition nav_items :: "auth_context \<Rightarrow> (string \<times> string) list" where
  "nav_items auth =
     (if role_has_permission (au_role auth) SESSION_READ then [(''/'', ''Dashboard''), (''/sessions'', ''Sessions'')] else []) @
     (if role_has_permission (au_role auth) FOUNDER_REQUEST then [(''/sessions/new'', ''Execute'')] else []) @
     (if role_has_permission (au_role auth) APPROVALS_READ then [(''/approvals'', ''Approvals'')] else [])"

section \<open>Answers\<close>

datatype ui_page =
    LoginPage "string list"
  | DashboardPage dashboard_state
  | SessionsPage "session_summary list" string bool
  | FounderForm
  | SessionPage session_detail "unified_event list" string bool
  | TimelinePart "unified_event list"
  | AdaptivePage session_detail adaptive_state
  | DiagnosticsPage session_detail diagnostics_detail
  | ReplayPage session_detail replay_ui_state string
  | ApprovalsPage "approval_card list" bool
  | ExportFile string session_bundle

datatype ui_response =
    Page ui_page
  | Redirect string
  | SetCookie string string
  | ClearCookie string

section \<open>ui/routes/auth.py\<close>

definition login_page :: "ui_response rt" where
  "login_page = ret (Page (LoginPage (map role_value all_roles)))"

text \<open>Any role of the form is granted, an unknown one becomes an operator; \<open>encode\<close> signs the claims.\<close>

definition login_role :: "string \<Rightarrow> user_role" where
  "login_role r = (case role_of_value r of Some x \<Rightarrow> x | None \<Rightarrow> OPERATOR)"

definition login_submit :: "rt_env \<Rightarrow> (claims \<Rightarrow> string) \<Rightarrow> string \<Rightarrow> string \<Rightarrow> ui_response rt" where
  "login_submit R encode user r = bnd (clock R) (\<lambda>now. bnd (clock R) (\<lambda>issued.
     ret (SetCookie ''/'' (encode (encode_claims now user (login_role r) None 24)))))"

definition logout :: "ui_response rt" where
  "logout = ret (ClearCookie ''/login'')"

section \<open>Pages\<close>

definition dashboard :: "rt_env \<Rightarrow> auth_context \<Rightarrow> ui_response rt" where
  "dashboard R auth = bnd (get_dashboard_state R auth) (\<lambda>d. ret (Page (DashboardPage d)))"

definition session_list :: "rt_env \<Rightarrow> auth_context \<Rightarrow> string option \<Rightarrow> bool \<Rightarrow> ui_response rt" where
  "session_list R auth search degraded_only =
     bnd (ui_list_sessions R auth (default_filters\<lparr>lf_search := search, lf_degraded_only := degraded_only, lf_limit := 100\<rparr>)) (\<lambda>us.
     ret (Page (SessionsPage us (str_or search '''') degraded_only)))"

definition founder_form :: "auth_context \<Rightarrow> ui_response rt" where
  "founder_form auth = ret (if role_has_permission (au_role auth) FOUNDER_REQUEST then Page FounderForm else Redirect ''/'')"

definition session_detail_page :: "rt_env \<Rightarrow> registry \<Rightarrow> auth_context \<Rightarrow> string \<Rightarrow> string \<Rightarrow> string \<Rightarrow> ui_response rt" where
  "session_detail_page R reg auth sid cid tab =
     bnd (get_session_detail R reg auth sid cid) (\<lambda>d.
     bnd (get_timeline_events R auth sid cid) (\<lambda>tl.
     ret (Page (SessionPage d tl tab (role_has_permission (au_role auth) DIAGNOSTICS_READ)))))"

definition session_timeline_partial :: "rt_env \<Rightarrow> auth_context \<Rightarrow> string \<Rightarrow> string \<Rightarrow> ui_response rt" where
  "session_timeline_partial R auth sid cid = bnd (get_timeline_events R auth sid cid) (\<lambda>tl. ret (Page (TimelinePart tl)))"

definition session_export :: "rt_env \<Rightarrow> registry \<Rightarrow> auth_context \<Rightarrow> string \<Rightarrow> string \<Rightarrow> ui_response rt" where
  "session_export R reg auth sid cid = bnd (build_session_bundle R reg auth sid cid) (\<lambda>b.
     ret (Page (ExportFile (''session-'' @ sid @ ''-bundle.json'') b)))"

definition adaptive_view :: "rt_env \<Rightarrow> registry \<Rightarrow> auth_context \<Rightarrow> string \<Rightarrow> string \<Rightarrow> ui_response rt" where
  "adaptive_view R reg auth sid cid =
     bnd (get_session_detail R reg auth sid cid) (\<lambda>d. bnd (get_adaptive_state auth sid) (\<lambda>a. ret (Page (AdaptivePage d a))))"

definition diagnostics_view :: "rt_env \<Rightarrow> registry \<Rightarrow> auth_context \<Rightarrow> string \<Rightarrow> string \<Rightarrow> ui_response rt" where
  "diagnostics_view R reg auth sid cid =
     bnd (get_session_detail R reg auth sid cid) (\<lambda>d.
     bnd (get_diagnostics_detail R reg auth sid cid) (\<lambda>x. ret (Page (DiagnosticsPage d x))))"

definition replay_view :: "rt_env \<Rightarrow> registry \<Rightarrow> auth_context \<Rightarrow> string \<Rightarrow> string \<Rightarrow> replay_mode \<Rightarrow> ui_response rt" where
  "replay_view R reg auth sid cid mode =
     bnd (get_session_detail R reg auth sid cid) (\<lambda>d.
     bnd (get_replay_state R reg auth sid cid mode) (\<lambda>x. ret (Page (ReplayPage d x (mode_value mode)))))"

definition approvals_page :: "rt_env \<Rightarrow> registry \<Rightarrow> auth_context \<Rightarrow> ui_response rt" where
  "approvals_page R reg auth = bnd (get_approval_queue R reg auth) (\<lambda>cards.
     ret (Page (ApprovalsPage cards (role_has_permission (au_role auth) ACTION_APPROVE))))"

section \<open>Forms\<close>

text \<open>The ids in the address of the session page; every answer of the orchestrator carries both, but that of a locked session
  only the session.\<close>

fun result_session :: "request_result \<Rightarrow> string" where
  "result_session (Deterministic c i r) = i"
| "result_session (Escalated c i r) = i"
| "result_session (Completed c i st ceo cto) = i"
| "result_session (Failed i c e) = i"
| "result_session (LockedSession i) = i"

fun result_correlation :: "request_result \<Rightarrow> string option" where
  "result_correlation (Deterministic c i r) = Some c"
| "result_correlation (Escalated c i r) = Some c"
| "result_correlation (Completed c i st ceo cto) = Some c"
| "result_correlation (Failed i c e) = Some c"
| "result_correlation (LockedSession i) = None"

text \<open>The form runs the preprocessor and throws its answer away: the request always goes to the agents.\<close>

definition founder_submit :: "rt_env \<Rightarrow> registry \<Rightarrow> auth_context \<Rightarrow> string \<Rightarrow> string option \<Rightarrow> string option \<Rightarrow> ui_response rt" where
  "founder_submit R reg auth msg sid cid =
     (if \<not> role_has_permission (au_role auth) FOUNDER_REQUEST then ret (Redirect ''/'')
      else bnd (run_founder_request R reg msg sid cid None) (\<lambda>r.
        ret (Redirect (''/sessions/'' @ result_session r @ ''?correlation_id='' @
          (case result_correlation r of Some c \<Rightarrow> c | None \<Rightarrow> (case cid of Some c \<Rightarrow> str_or (Some c) (result_session r) | None \<Rightarrow> result_session r))))))"

definition approve_htmx :: "rt_env \<Rightarrow> registry \<Rightarrow> auth_context \<Rightarrow> string \<Rightarrow> string option \<Rightarrow> ui_response rt" where
  "approve_htmx R reg auth aid sid =
     (if \<not> role_has_permission (au_role auth) ACTION_APPROVE then ret (Redirect ''/approvals'')
      else bnd (reads (\<lambda>s. load_approval (sy_gov s) aid)) (\<lambda>ao. case ao of
          None \<Rightarrow> ret (Redirect ''/approvals'')
        | Some a \<Rightarrow>
            if \<not> can_approve_level (au_role auth) (av_risk_level a) then ret (Redirect ''/approvals'')
            else bnd (execute_approved_action_in_session R reg aid (au_user auth) (Some (str_or sid (av_correlation a)))) (\<lambda>_.
              ret (Redirect ''/approvals''))))"

section \<open>Properties\<close>

lemma permission_of_default_scopes:
  "require_permission p \<lparr>au_user = u, au_role = r, au_scopes = default_scopes r\<rparr> =
     (if role_has_permission r p then Inr \<lparr>au_user = u, au_role = r, au_scopes = default_scopes r\<rparr> else Inl (HTTPException 403))"
  by (simp add: require_permission_def validate_default_scopes)

lemma bearer_scheme: "lower ''Bearer'' = ''bearer''"
  by code_simp

lemma results_finally: "results Q m \<Longrightarrow> results Q (finally_do m f)"
  by (fastforce simp: results_def finally_do_def split: prod.splits)

lemma agents_never_deterministic: "results (\<lambda>r. \<forall>c i tr. r \<noteq> Deterministic c i tr) (run_founder_request R reg msg sid cid None)"
  unfolding run_founder_request_def run_locked_def option.case run_locked_agents_def run_request_def reason_and_close_def Let_def
  by (intro results_bnd results_seqc results_case_prod results_catch results_locked results_ret results_if results_finally) auto

text \<open>the login form grants whatever role it is asked for: nothing is checked about the user, and the cookie it sets is accepted by
  every page and every endpoint with exactly the permissions of that role, all of them for \<open>founder\<close> (under the one thing assumed
  of the JWT library, that it reads back the claims it signed into a non-empty token).\<close>

theorem login_grants_posted_role:
  assumes "issued = encode_claims (re_now R (sy_clock s)) user r None 24" and "jwt (encode issued) = Some issued" and "encode issued \<noteq> ''''"
  shows "\<exists>t auth. login_submit R encode user (role_value r) s = (Inr (SetCookie ''/'' (encode issued)), t) \<and>
    require_ui_auth False jwt (Some (encode issued)) None = Inr auth \<and>
    require_auth False jwt (Some \<lparr>cr_scheme = ''Bearer'', cr_token = encode issued\<rparr>) = Inr auth \<and>
    au_user auth = user \<and> (\<forall>p. require_permission p auth = Inr auth \<longleftrightarrow> role_has_permission r p) \<and>
    (r = FOUNDER \<longrightarrow> (\<forall>p. require_permission p auth = Inr auth))"
proof (intro exI conjI)
  let ?auth = "\<lparr>au_user = user, au_role = r, au_scopes = default_scopes r\<rparr>"
  show "login_submit R encode user (role_value r) s = (Inr (SetCookie ''/'' (encode issued)), s\<lparr>sy_clock := sy_clock s + 2\<rparr>)"
    by (simp add: login_submit_def bnd_def clock_def ret_def login_role_def assms(1))
  have d: "decode_token jwt (encode issued) = Inr ?auth"
    using assms(2) by (auto simp: decode_token_def assms(1) encode_claims_def Let_def split: list.split)
  then show "require_ui_auth False jwt (Some (encode issued)) None = Inr ?auth"
    using assms(3) by (simp add: require_ui_auth_def ui_token_def str_or_def)
  show "require_auth False jwt (Some \<lparr>cr_scheme = ''Bearer'', cr_token = encode issued\<rparr>) = Inr ?auth"
    using d by (simp add: require_auth_def bearer_scheme)
  show "au_user ?auth = user" by simp
  show "\<forall>p. require_permission p ?auth = Inr ?auth \<longleftrightarrow> role_has_permission r p"
    by (simp add: permission_of_default_scopes)
  show "r = FOUNDER \<longrightarrow> (\<forall>p. require_permission p ?auth = Inr ?auth)"
  proof (intro impI allI)
    fix p assume "r = FOUNDER"
    then show "require_permission p ?auth = Inr ?auth"
      by (cases p) (simp_all add: permission_of_default_scopes role_has_permission_def all_permissions_def)
  qed
qed

theorem login_grants_posted_role_witness:
  "\<exists>t auth. login_submit demo_env (\<lambda>_. ''token'') ''anyone'' ''founder'' init_sys = (Inr (SetCookie ''/'' ''token''), t) \<and>
     require_permission ACTION_APPROVE auth = Inr auth"
proof -
  let ?c = "encode_claims (re_now demo_env (sy_clock init_sys)) ''anyone'' FOUNDER None 24"
  show ?thesis
    using login_grants_posted_role [where R = demo_env and s = init_sys and user = "''anyone''" and r = FOUNDER and issued = ?c and
        encode = "\<lambda>_. ''token''" and jwt = "\<lambda>_. Some ?c"]
    by auto
qed

lemma request_answers:
  obtains r t where "run_founder_request R reg input sid0 cid0 None s = (Inr r, t)"
proof -
  obtain cid sid n where ids: "request_ids R sid0 cid0 s = (Inr (cid, sid), s\<lparr>sy_uuid := n\<rparr>)" by (rule request_ids_run)
  let ?s = "s\<lparr>sy_uuid := n\<rparr>"
  obtain r t where a: "run_locked_agents R reg input sid cid (?s\<lparr>sy_locks := sid # sy_locks ?s\<rparr>) = (Inr r, t)"
    using agents_run [of R reg input sid cid "?s\<lparr>sy_locks := sid # sy_locks ?s\<rparr>"] by metis
  have run: "run_founder_request R reg input sid0 cid0 None s =
      catch (run_mutative_session sid (run_locked_agents R reg input sid cid)) is_lock_error (\<lambda>e. ret (LockedSession sid)) ?s"
    by (simp add: run_founder_request_def bnd_def ids run_without_tool)
  show thesis
  proof (cases "sid \<in> set (sy_locks s)")
    case True
    then show ?thesis
      using run_locked [of sid ?s "run_locked_agents R reg input sid cid"] by (intro that) (simp add: run catch_def is_lock_error_def ret_def)
  next
    case False
    then show ?thesis using a by (intro that) (simp add: run catch_def run_free)
  qed
qed

text \<open>the form for founder requests never takes the deterministic path: whatever the message, even one that the preprocessor would
  answer with a tool, submitting it always ends in a redirect to the page of a session, after a run of the agents without a hint, and the answer
  of that run is never a tool's.\<close>

theorem form_ignores_preprocessor:
  assumes "role_has_permission (au_role auth) FOUNDER_REQUEST"
  shows "\<exists>r q t. run_founder_request R reg msg sid cid None s = (Inr r, t) \<and>
    founder_submit R reg auth msg sid cid s = (Inr (Redirect (''/sessions/'' @ result_session r @ ''?correlation_id='' @ q)), t) \<and>
    (\<forall>c i tr. r \<noteq> Deterministic c i tr)"
proof -
  obtain r t where r: "run_founder_request R reg msg sid cid None s = (Inr r, t)" by (rule request_answers)
  have "\<exists>q. founder_submit R reg auth msg sid cid s = (Inr (Redirect (''/sessions/'' @ result_session r @ ''?correlation_id='' @ q)), t)"
    using assms by (simp add: founder_submit_def bnd_def r ret_def)
  moreover have "\<forall>c i tr. r \<noteq> Deterministic c i tr"
    using agents_never_deterministic [of R reg msg sid cid] r unfolding results_def by blast
  ultimately show ?thesis using r by blast
qed

theorem form_ignores_preprocessor_witness:
  "\<exists>x t. founder_submit demo_env build_vs_registry \<lparr>au_user = ''u'', au_role = FOUNDER, au_scopes = []\<rparr> ''what is the time'' None None init_sys =
     (Inr x, t)"
proof -
  have "role_has_permission (au_role \<lparr>au_user = ''u'', au_role = FOUNDER, au_scopes = []\<rparr>) FOUNDER_REQUEST"
    by (simp add: role_has_permission_def all_permissions_def)
  from form_ignores_preprocessor [OF this] show ?thesis by blast
qed

end
