(* ===== verification/ApprovalRace.thy ===== *)
theory ApprovalRace
  imports Approval Requests
begin

text \<open>
  \<open>core/approval_service.py\<close>, several executions of one approval at a time.  A coroutine is only
  interrupted where it waits, and the place where an execution can wait is its tool call.  An execution is therefore two
  steps here, up to the tool call and from it on, and others may move in between, also before a tool that in memory never waits: the
  interleavings are more than those of the program, and what holds in all of them holds in the program.  The two steps are shown to
  compose to \<open>execute_approved_action_in_session\<close>; executions that name one session are serialised by its lock.
\<close>

section \<open>An execution in two steps\<close>

text \<open>\<open>execute_approved_action\<close> up to the tool call: the guards, with the span that was opened.\<close>

definition open_execution :: "rt_env \<Rightarrow> approval \<Rightarrow> (proposal \<times> string) rt" where
  "open_execution R a =
     seqc (span_begin (av_correlation a) (av_correlation a))
     (bnd (span_start R APPROVAL '''' [(''phase'', PStr ''execute''), (''approval_id'', PStr (av_id a))]) (\<lambda>asp.
      case av_immutable a of None \<Rightarrow> raise (ValueError ''Missing immutable proposal'')
      | Some p \<Rightarrow>
          if pr_checksum p \<noteq> proposal_checksum R p then raise (ValueError ''Checksum mismatch'')
          else bnd (lift_res (validate_binding R p a)) (\<lambda>_. bnd (clock R) (\<lambda>now.
            if now > utc (pr_expires p)
            then seqc (set_approval_status R (av_id a) EXPIRED None) (raise (ValueError ''Approval expired''))
            else bnd (reads (\<lambda>s. evaluate (sy_crisis s) (sy_biases s) (action_of p) (Some (av_correlation a)) 0)) (\<lambda>decision.
              if decision \<noteq> ALLOW \<and> decision \<noteq> ESCALATE then raise (ValueError ''Policy re-validation failed'')
              else ret (p, asp))))))"

text \<open>The body of \<open>execute_approved_action_in_session\<close> up to the tool call.\<close>

definition open_pending :: "rt_env \<Rightarrow> string \<Rightarrow> (approval \<times> proposal \<times> string) rt" where
  "open_pending R aid = bnd (reads (\<lambda>s. load_approval (sy_gov s) aid)) (\<lambda>ao.
     case ao of None \<Rightarrow> raise (ValueError ''Approval not found or already processed'')
     | Some a \<Rightarrow> if av_status a \<noteq> APPENDING then raise (ValueError ''Approval not found or already processed'')
         else bnd (open_execution R a) (\<lambda>(p, asp). ret (a, p, asp)))"

text \<open>The lock is taken before the body and given back when the body raises, or else after the second step.\<close>

definition enter_execution :: "rt_env \<Rightarrow> string \<Rightarrow> string \<Rightarrow> (approval \<times> proposal \<times> string) rt" where
  "enter_execution R aid k = seqc (acquire_session_lock k) (\<lambda>s. case open_pending R aid s of
     (Inl e, t) \<Rightarrow> (Inl e, t\<lparr>sy_locks := lock_leave k (sy_locks t)\<rparr>)
   | (Inr x, t) \<Rightarrow> (Inr x, t))"

definition leave_execution :: "rt_env \<Rightarrow> registry \<Rightarrow> string \<Rightarrow> string \<Rightarrow> approval \<times> proposal \<times> string \<Rightarrow> execution rt" where
  "leave_execution R reg k by = (\<lambda>(a, p, asp). finally_do (carry_out R reg a p by asp) (\<lambda>s. s\<lparr>sy_locks := lock_leave k (sy_locks s)\<rparr>))"

lemma execution_split: "execute_approved_action R reg a by = bnd (open_execution R a) (\<lambda>(p, asp). carry_out R reg a p by asp)"
  unfolding execute_approved_action_def open_execution_def seqc_def
  by (cases "av_immutable a") (simp_all add: bnd_assoc bnd_raise bnd_ret if_distrib [of "\<lambda>m. bnd m f" for f] seqc_def cong: if_cong)

lemma body_split:
  "bnd (reads (\<lambda>s. load_approval (sy_gov s) aid)) (\<lambda>ao.
       case ao of None \<Rightarrow> raise (ValueError ''Approval not found or already processed'')
       | Some a \<Rightarrow> if av_status a \<noteq> APPENDING then raise (ValueError ''Approval not found or already processed'')
           else execute_approved_action R reg a by) =
   bnd (open_pending R aid) (\<lambda>(a, p, asp). carry_out R reg a p by asp)"
  unfolding open_pending_def execution_split bnd_assoc
  by (rule arg_cong [where f = "bnd _"], rule ext)
    (simp add: bnd_raise bnd_ret bnd_assoc case_prod_unfold split: option.split)

text \<open>Run one after the other, the two steps are the execution.\<close>

lemma session_split:
  "execute_approved_action_in_session R reg aid by sid =
     bnd (enter_execution R aid (str_or sid aid)) (leave_execution R reg (str_or sid aid) by)"
proof
  fix s
  let ?k = "str_or sid aid"
  show "execute_approved_action_in_session R reg aid by sid s = bnd (enter_execution R aid ?k) (leave_execution R reg ?k by) s"
  proof (cases "?k \<in> set (sy_locks s)")
    case True
    then show ?thesis
      by (simp add: execute_approved_action_in_session_def run_locked enter_execution_def acquire_session_lock_def lock_enter_def seqc_def comp_simps bnd_assoc)
  next
    case False
    obtain r t where "open_pending R aid (s\<lparr>sy_locks := ?k # sy_locks s\<rparr>) = (r, t)" by fastforce
    with False show ?thesis
      unfolding execute_approved_action_in_session_def body_split run_free [OF False]
      by (cases r) (auto simp: enter_execution_def acquire_session_lock_def lock_enter_def seqc_def comp_simps
          bnd_def leave_execution_def finally_do_def mods_def split: prod.split sum.split)
  qed
qed


section \<open>What the steps change\<close>

lemma open_guards:
  "\<exists>c. open_execution R a s =
     (case av_immutable a of None \<Rightarrow> raise (ValueError ''Missing immutable proposal'')
      | Some p \<Rightarrow>
          if pr_checksum p \<noteq> proposal_checksum R p then raise (ValueError ''Checksum mismatch'')
          else bnd (lift_res (validate_binding R p a)) (\<lambda>_. bnd (clock R) (\<lambda>now.
            if now > utc (pr_expires p)
            then seqc (set_approval_status R (av_id a) EXPIRED None) (raise (ValueError ''Approval expired''))
            else ret (p, re_uuid R (sy_uuid s)))))
     (s\<lparr>sy_uuid := sy_uuid s + 1, sy_clock := sy_clock s + 1, sy_spans := c\<rparr>)"
proof -
  have "bnd (reads (\<lambda>s. evaluate (sy_crisis s) (sy_biases s) ap sid x)) (\<lambda>decision.
      if decision \<noteq> ALLOW \<and> decision \<noteq> ESCALATE then m else n) = n" for ap sid x and m n :: "(proposal \<times> string) rt"
    by (rule ext) (use evaluate_not_deny(2) [of _ _ ap sid x] in \<open>simp add: bnd_reads; metis\<close>)
  note simp = this
  show ?thesis
    unfolding open_execution_def simp by (rule approval_start)
qed

text \<open>The guards touch no lock, and no approval but for the expiry of this one.\<close>

lemma set_status_keeps: "keeps (\<lambda>u. sy_locks u = l \<and> sy_ext u = x) (set_approval_status R aid st by)"
  unfolding set_approval_status_def on_gov_def
  by (intro keeps_bnd keeps_if keeps_ret keeps_reads keeps_mods keeps_clock) simp_all

lemma open_raises:
  assumes "open_execution R a s = (Inl e, t)" and "load_approval (sy_gov s) (av_id a) = Some a"
  shows "sy_locks t = sy_locks s \<and> sy_ext t = sy_ext s \<and> (sy_gov t = sy_gov s \<or> (\<exists>b. load_approval (sy_gov t) (av_id a) = Some b \<and> av_status b = EXPIRED))"
proof -
  obtain c where g: "open_execution R a s =
     (case av_immutable a of None \<Rightarrow> raise (ValueError ''Missing immutable proposal'')
      | Some p \<Rightarrow>
          if pr_checksum p \<noteq> proposal_checksum R p then raise (ValueError ''Checksum mismatch'')
          else bnd (lift_res (validate_binding R p a)) (\<lambda>_. bnd (clock R) (\<lambda>now.
            if now > utc (pr_expires p)
            then seqc (set_approval_status R (av_id a) EXPIRED None) (raise (ValueError ''Approval expired''))
            else ret (p, re_uuid R (sy_uuid s)))))
     (s\<lparr>sy_uuid := sy_uuid s + 1, sy_clock := sy_clock s + 1, sy_spans := c\<rparr>)"
    using open_guards by blast
  let ?u = "s\<lparr>sy_uuid := Suc (sy_uuid s), sy_spans := c, sy_clock := Suc (Suc (sy_clock s))\<rparr>"
  obtain n gv b where st: "set_approval_status R (av_id a) EXPIRED None ?u = (Inr (), ?u\<lparr>sy_clock := n, sy_gov := gv\<rparr>)"
    "load_approval gv (av_id a) = Some b" "av_status b = EXPIRED"
    using set_status_run [of ?u "av_id a" a R EXPIRED None] assms(2) by auto
  show ?thesis
    using assms(1) st unfolding g
    by (auto simp: raise_def ret_def bnd_lift_res clock_run seqc_def bnd_def [of "set_approval_status _ _ _ _"]
        split: option.splits if_splits sum.splits)
qed

lemma open_returns:
  assumes "open_execution R a s = (Inr (p, asp), t)"
  shows "sy_locks t = sy_locks s \<and> sy_ext t = sy_ext s \<and> sy_gov t = sy_gov s \<and> sy_clock t = sy_clock s + 2 \<and> av_immutable a = Some p"
proof -
  obtain c where g: "open_execution R a s =
     (case av_immutable a of None \<Rightarrow> raise (ValueError ''Missing immutable proposal'')
      | Some p \<Rightarrow>
          if pr_checksum p \<noteq> proposal_checksum R p then raise (ValueError ''Checksum mismatch'')
          else bnd (lift_res (validate_binding R p a)) (\<lambda>_. bnd (clock R) (\<lambda>now.
            if now > utc (pr_expires p)
            then seqc (set_approval_status R (av_id a) EXPIRED None) (raise (ValueError ''Approval expired''))
            else ret (p, re_uuid R (sy_uuid s)))))
     (s\<lparr>sy_uuid := sy_uuid s + 1, sy_clock := sy_clock s + 1, sy_spans := c\<rparr>)"
    using open_guards by blast
  have n: "(bnd m (\<lambda>_. raise e) u = (Inr x, v)) = False" for m :: "unit rt" and e u v and x :: "proposal \<times> string"
    using bnd_raises by metis
  show ?thesis
    using assms unfolding g
    by (auto simp: raise_def [of _ "s\<lparr>sy_uuid := _, sy_clock := _, sy_spans := _\<rparr>"] ret_def bnd_lift_res clock_run seqc_def n
        split: option.splits if_splits sum.splits)
qed

lemma enter_free:
  assumes "k \<notin> set (sy_locks s)"
  shows "enter_execution R aid k s = (case open_pending R aid (s\<lparr>sy_locks := k # sy_locks s\<rparr>) of
     (Inl e, t) \<Rightarrow> (Inl e, t\<lparr>sy_locks := lock_leave k (sy_locks t)\<rparr>) | (Inr x, t) \<Rightarrow> (Inr x, t))"
  using assms by (simp add: enter_execution_def acquire_session_lock_def lock_enter_def seqc_def comp_simps bnd_assoc)

lemma enter_locked: "k \<in> set (sy_locks s) \<Longrightarrow> enter_execution R aid k s = (Inl (SessionLockError k), s)"
  by (simp add: enter_execution_def acquire_session_lock_def lock_enter_def seqc_def comp_simps bnd_assoc)

lemma enter_returns:
  assumes "enter_execution R aid k s = (Inr (a, p, asp), t)"
  shows "k \<notin> set (sy_locks s) \<and> load_approval (sy_gov s) aid = Some a \<and> av_status a = APPENDING \<and> av_immutable a = Some p \<and>
    sy_gov t = sy_gov s \<and> sy_locks t = k # sy_locks s"
proof -
  have free: "k \<notin> set (sy_locks s)" using assms enter_locked [of k s R aid] by auto
  show ?thesis
    using assms free unfolding enter_free [OF free] open_pending_def
    by (auto simp: bnd_reads raise_def ret_def split: option.splits if_splits prod.splits sum.splits elim!: bnd_InrE dest!: open_returns)
qed

lemma lock_leave_fresh: "k \<notin> set ls \<Longrightarrow> lock_leave k (k # ls) = ls"
  by (auto simp: lock_leave_def intro: filter_True)

lemma open_pending_raises:
  assumes "open_pending R aid s = (Inl e, t)" and "\<forall>a. load_approval (sy_gov s) aid = Some a \<and> av_status a = APPENDING \<longrightarrow> av_id a = aid"
  shows "sy_locks t = sy_locks s \<and> sy_ext t = sy_ext s \<and>
    (sy_gov t = sy_gov s \<or> (\<exists>a. load_approval (sy_gov s) aid = Some a \<and> av_status a = APPENDING) \<and>
      (\<exists>b. load_approval (sy_gov t) aid = Some b \<and> av_status b = EXPIRED))"
proof (cases "\<exists>a. load_approval (sy_gov s) aid = Some a \<and> av_status a = APPENDING")
  case False
  then show ?thesis using assms(1) by (auto simp: open_pending_def bnd_reads raise_def split: option.splits)
next
  case True
  then obtain a where a: "load_approval (sy_gov s) aid = Some a" "av_status a = APPENDING" by blast
  then have "bnd (open_execution R a) (\<lambda>(p, asp). ret (a, p, asp)) s = (Inl e, t)"
    using assms(1) by (simp add: open_pending_def bnd_reads)
  then have "open_execution R a s = (Inl e, t)"
    by (auto simp: ret_def elim!: bnd_cases)
  from open_raises [OF this] show ?thesis using a assms(2) by auto
qed

lemma enter_raises:
  assumes "enter_execution R aid k s = (Inl e, t)" and "\<forall>a. load_approval (sy_gov s) aid = Some a \<and> av_status a = APPENDING \<longrightarrow> av_id a = aid"
  shows "sy_locks t = sy_locks s \<and> sy_ext t = sy_ext s \<and>
    (sy_gov t = sy_gov s \<or> k \<notin> set (sy_locks s) \<and> (\<exists>a. load_approval (sy_gov s) aid = Some a \<and> av_status a = APPENDING) \<and>
      (\<exists>b. load_approval (sy_gov t) aid = Some b \<and> av_status b = EXPIRED))"
proof (cases "k \<in> set (sy_locks s)")
  case True
  then show ?thesis using assms(1) enter_locked by auto
next
  case False
  then show ?thesis
    using assms(1) open_pending_raises [of R aid "s\<lparr>sy_locks := k # sy_locks s\<rparr>"] assms(2) lock_leave_fresh [OF False]
    unfolding enter_free [OF False] by (auto split: prod.splits sum.splits)
qed

lemma carry_out_locks: "carry_out R reg a p by asp s = (r, t) \<Longrightarrow> sy_locks t = sy_locks s"
proof -
  have c: "keeps (\<lambda>u. sy_locks u = l) (clock R)" "keeps (\<lambda>u. sy_locks u = l) (fresh_uuid R)" "keeps (\<lambda>u. sy_locks u = l) (on_spans f)" for l f
    by (rule rt_keeps, simp)+
  have x: "keeps (\<lambda>u. sy_locks u = l) (execute_tool R reg tool agent cid raw sid xb)" for l tool agent cid raw sid xb
    by (rule keepsI) (metis execute_tool_same same_stores_def prod.collapse)
  have p: "keeps (\<lambda>u. sy_locks u = l) (persist_runtime_tx R pl)" for l pl
    by (rule keepsI) (metis persist_tx_control same_control_def prod.collapse)
  have st: "keeps (\<lambda>u. sy_locks u = l) (set_approval_status R aid st b)" for l aid st b
    unfolding set_approval_status_def on_gov_def
    by (intro keeps_bnd keeps_if keeps_ret keeps_reads keeps_mods keeps_clock) simp_all
  have k: "keeps (\<lambda>u. sy_locks u = l) (carry_out R reg a p by asp)" for l
    unfolding carry_out_def audit_def on_gov_def span_end_def Let_def
    by (intro keeps_bnd keeps_seqc keeps_ret keeps_mods c x p st) simp
  assume "carry_out R reg a p by asp s = (r, t)"
  from keepsD [OF k refl this] show ?thesis .
qed

lemma carry_out_raises:
  assumes "carry_out R reg a p by asp s = (Inl e, t)"
  shows "same_stores s t"
proof -
  obtain r s1 where ex: "execute_tool R reg (pr_action p) (pr_agent p) (pr_correlation p) (Some (pr_parameters p)) (Some (av_correlation a)) 0 s = (r, s1)"
    by fastforce
  show ?thesis
  proof (cases r)
    case (Inl e')
    then have "t = s1" using assms ex by (simp add: carry_out_def bnd_def [of "execute_tool _ _ _ _ _ _ _ _"])
    then show ?thesis using execute_tool_same [OF ex] by simp
  next
    case (Inr y)
    from carry_out_returns [OF ex [unfolded Inr]] assms show ?thesis by (metis Inl_Inr_False prod.inject)
  qed
qed

lemma leave_effect:
  assumes "leave_execution R reg k by (a, p, asp) s = (r, t)" and "load_approval (sy_gov s) (av_id a) = Some a"
  shows "sy_locks t = lock_leave k (sy_locks s) \<and>
    (case r of Inl _ \<Rightarrow> sy_gov t = sy_gov s | Inr _ \<Rightarrow> \<exists>b. load_approval (sy_gov t) (av_id a) = Some b \<and> av_status b = APPROVED)"
proof -
  obtain t1 where c: "carry_out R reg a p by asp s = (r, t1)" and t: "t = t1\<lparr>sy_locks := lock_leave k (sy_locks t1)\<rparr>"
    using assms(1) by (auto simp: leave_execution_def finally_do_def split: prod.splits)
  show ?thesis
    using carry_out_locks [OF c] carry_out_raises [of R reg a p "by" asp s _ t1] carry_out_marks [of R reg a p "by" asp s _ t1 a] c assms(2) t
    by (auto simp: same_stores_def split: sum.split)
qed


section \<open>Interleaved executions\<close>

text \<open>
  Executions are numbered; each has an approver and the session id its request names.  Any other code may run
  between two steps as long as it leaves this approval and these locks alone.
\<close>

datatype execution_phase = Asked | Opened "approval \<times> proposal \<times> string" | Answered "exn + execution"

record race =
  rc_sys :: sys
  rc_phase :: "nat \<Rightarrow> execution_phase"

definition lock_key :: "string \<Rightarrow> string \<times> string option \<Rightarrow> string" where
  "lock_key aid x = str_or (snd x) aid"

inductive race_step :: "rt_env \<Rightarrow> registry \<Rightarrow> string \<Rightarrow> (nat \<Rightarrow> string \<times> string option) \<Rightarrow> race \<Rightarrow> race \<Rightarrow> bool"
  for R reg aid who where
  refused: "rc_phase c i = Asked \<Longrightarrow> enter_execution R aid (lock_key aid (who i)) (rc_sys c) = (Inl e, t) \<Longrightarrow>
     race_step R reg aid who c \<lparr>rc_sys = t, rc_phase = (rc_phase c)(i := Answered (Inl e))\<rparr>"
| opened: "rc_phase c i = Asked \<Longrightarrow> enter_execution R aid (lock_key aid (who i)) (rc_sys c) = (Inr x, t) \<Longrightarrow>
     race_step R reg aid who c \<lparr>rc_sys = t, rc_phase = (rc_phase c)(i := Opened x)\<rparr>"
| answered: "rc_phase c i = Opened x \<Longrightarrow> leave_execution R reg (lock_key aid (who i)) (fst (who i)) x (rc_sys c) = (r, t) \<Longrightarrow>
     race_step R reg aid who c \<lparr>rc_sys = t, rc_phase = (rc_phase c)(i := Answered r)\<rparr>"
| other: "load_approval (sy_gov t) aid = load_approval (sy_gov (rc_sys c)) aid \<Longrightarrow>
     (\<forall>i. lock_key aid (who i) \<in> set (sy_locks t) \<longleftrightarrow> lock_key aid (who i) \<in> set (sy_locks (rc_sys c))) \<Longrightarrow>
     race_step R reg aid who c (c\<lparr>rc_sys := t\<rparr>)"

inductive race_reachable :: "rt_env \<Rightarrow> registry \<Rightarrow> string \<Rightarrow> (nat \<Rightarrow> string \<times> string option) \<Rightarrow> sys \<Rightarrow> race \<Rightarrow> bool"
  for R reg aid who s where
  init: "race_reachable R reg aid who s \<lparr>rc_sys = s, rc_phase = (\<lambda>_. Asked)\<rparr>"
| step: "race_reachable R reg aid who s c \<Longrightarrow> race_step R reg aid who c c' \<Longrightarrow> race_reachable R reg aid who s c'"

inductive_cases race_stepE: "race_step R reg aid who c c'"

text \<open>With one lock key: the open execution holds the lock over the pending approval, and after one that returned
  the approval is not pending.\<close>

definition race_inv :: "string \<Rightarrow> string \<Rightarrow> race \<Rightarrow> bool" where
  "race_inv aid k c \<longleftrightarrow>
     (\<forall>i j x y. rc_phase c i = Opened x \<longrightarrow> rc_phase c j = Opened y \<longrightarrow> i = j) \<and>
     (\<forall>i a p asp. rc_phase c i = Opened (a, p, asp) \<longrightarrow> k \<in> set (sy_locks (rc_sys c)) \<and>
        load_approval (sy_gov (rc_sys c)) aid = Some a \<and> av_status a = APPENDING) \<and>
     (\<forall>i x. rc_phase c i = Answered (Inr x) \<longrightarrow> (\<exists>b. load_approval (sy_gov (rc_sys c)) aid = Some b \<and> av_status b = APPROVED)) \<and>
     (\<forall>i j x y. rc_phase c i = Answered (Inr x) \<longrightarrow> rc_phase c j = Answered (Inr y) \<longrightarrow> i = j) \<and>
     (\<forall>a. load_approval (sy_gov (rc_sys c)) aid = Some a \<and> av_status a = APPENDING \<longrightarrow> av_id a = aid)"

lemma race_invD:
  assumes "race_inv aid k c"
  shows "rc_phase c i = Opened x \<Longrightarrow> rc_phase c j = Opened y \<Longrightarrow> i = j"
    and "rc_phase c i = Opened (a, p, asp) \<Longrightarrow> k \<in> set (sy_locks (rc_sys c)) \<and>
      load_approval (sy_gov (rc_sys c)) aid = Some a \<and> av_status a = APPENDING \<and> av_id a = aid"
    and "rc_phase c i = Answered (Inr z) \<Longrightarrow> \<exists>b. load_approval (sy_gov (rc_sys c)) aid = Some b \<and> av_status b = APPROVED"
    and "rc_phase c i = Answered (Inr z) \<Longrightarrow> rc_phase c j = Answered (Inr w) \<Longrightarrow> i = j"
  using assms unfolding race_inv_def by blast+

lemma pending_not_returned:
  assumes "race_inv aid k c" and "load_approval (sy_gov (rc_sys c)) aid = Some a" and "av_status a = APPENDING"
  shows "rc_phase c i \<noteq> Answered (Inr z)"
  using race_invD(3) [OF assms(1), of i z] assms(2,3) by auto

lemma free_not_opened:
  assumes "race_inv aid k c" and "k \<notin> set (sy_locks (rc_sys c))"
  shows "rc_phase c i \<noteq> Opened x"
  using race_invD(2) [OF assms(1), of i "fst x" "fst (snd x)" "snd (snd x)"] assms(2) by auto

lemma race_inv_step:
  assumes "race_inv aid k c" and "race_step R reg aid who c c'" and key: "\<And>i. lock_key aid (who i) = k"
  shows "race_inv aid k c'"
  using assms(2)
proof (cases rule: race_step.cases)
  case (refused i e t)
  have r: "sy_locks t = sy_locks (rc_sys c) \<and> sy_ext t = sy_ext (rc_sys c) \<and> (sy_gov t = sy_gov (rc_sys c) \<or>
      k \<notin> set (sy_locks (rc_sys c)) \<and> (\<exists>a. load_approval (sy_gov (rc_sys c)) aid = Some a \<and> av_status a = APPENDING) \<and>
      (\<exists>b. load_approval (sy_gov t) aid = Some b \<and> av_status b = EXPIRED))"
    using enter_raises [OF refused(3) [unfolded key]] assms(1) by (simp add: race_inv_def)
  then show ?thesis
  proof (elim conjE disjE)
    assume "sy_gov t = sy_gov (rc_sys c)" "sy_locks t = sy_locks (rc_sys c)"
    then show ?thesis using assms(1) unfolding refused(1) race_inv_def by auto
  next
    assume free: "k \<notin> set (sy_locks (rc_sys c))" and p: "\<exists>a. load_approval (sy_gov (rc_sys c)) aid = Some a \<and> av_status a = APPENDING"
      and b: "\<exists>b. load_approval (sy_gov t) aid = Some b \<and> av_status b = EXPIRED"
    have "rc_phase c j \<noteq> Opened x" "rc_phase c j \<noteq> Answered (Inr y)" for j x y
      using free_not_opened [OF assms(1) free] pending_not_returned [OF assms(1)] p by blast+
    then show ?thesis using b unfolding refused(1) race_inv_def by auto
  qed
next
  case (opened i x t)
  obtain a p asp where x: "x = (a, p, asp)" by (rule prod_cases3)
  note r = enter_returns [OF opened(3) [unfolded key x]]
  have "rc_phase c j \<noteq> Opened x" "rc_phase c j \<noteq> Answered (Inr y)" for j x y
    using free_not_opened [OF assms(1)] pending_not_returned [OF assms(1)] r by blast+
  then show ?thesis using r assms(1) unfolding opened(1) race_inv_def x by auto
next
  case (answered i x r t)
  obtain a p asp where x: "x = (a, p, asp)" by (rule prod_cases3)
  have o: "load_approval (sy_gov (rc_sys c)) aid = Some a" "av_status a = APPENDING" "av_id a = aid"
    using race_invD(2) [OF assms(1) answered(2) [unfolded x]] by blast+
  have n: "rc_phase c j = Opened z \<Longrightarrow> j = i" "rc_phase c j \<noteq> Answered (Inr y)" for j z y
    using race_invD(1) [OF assms(1) _ answered(2)] pending_not_returned [OF assms(1) o(1,2)] by blast+
  have e: "case r of Inl _ \<Rightarrow> sy_gov t = sy_gov (rc_sys c) | Inr _ \<Rightarrow> \<exists>b. load_approval (sy_gov t) aid = Some b \<and> av_status b = APPROVED"
    using leave_effect [OF answered(3) [unfolded x]] o by (cases r) simp_all
  show ?thesis
    unfolding answered(1) race_inv_def using n e o by (cases r) auto
next
  case (other t)
  then show ?thesis using assms(1) key unfolding other(1) race_inv_def by auto
qed

lemma race_inv_reachable:
  assumes "race_reachable R reg aid who s c" and "\<And>i. lock_key aid (who i) = k"
    and "\<And>a. load_approval (sy_gov s) aid = Some a \<Longrightarrow> av_id a = aid"
  shows "race_inv aid k c"
  using assms(1)
proof (induction rule: race_reachable.induct)
  case init
  then show ?case using assms(3) by (simp add: race_inv_def)
next
  case (step c c')
  then show ?case using race_inv_step [OF step.IH step.hyps(2) assms(2)] by simp
qed


text \<open>What the execution needs in order to be opened.\<close>

definition executable :: "rt_env \<Rightarrow> string \<Rightarrow> approval \<Rightarrow> proposal \<Rightarrow> sys \<Rightarrow> bool" where
  "executable R aid a p s \<longleftrightarrow> load_approval (sy_gov s) aid = Some a \<and> av_id a = aid \<and> av_status a = APPENDING \<and>
     av_immutable a = Some p \<and> pr_checksum p = proposal_checksum R p \<and> validate_binding R p a = Inr () \<and>
     re_now R (sy_clock s + 1) \<le> utc (pr_expires p)"

lemma enter_ok:
  assumes "executable R aid a p s" and "k \<notin> set (sy_locks s)"
  obtains asp t where "enter_execution R aid k s = (Inr (a, p, asp), t)" and "sy_gov t = sy_gov s" and "sy_locks t = k # sy_locks s"
    and "sy_clock t = sy_clock s + 2"
proof -
  let ?u = "s\<lparr>sy_locks := k # sy_locks s\<rparr>"
  have "\<exists>c. open_execution R a ?u = (Inr (p, re_uuid R (sy_uuid s)), ?u\<lparr>sy_uuid := Suc (sy_uuid s), sy_spans := c, sy_clock := Suc (Suc (sy_clock s))\<rparr>)"
    using open_guards [of R a ?u] assms(1) by (auto simp: executable_def bnd_lift_res clock_run ret_def)
  then obtain c where "open_execution R a ?u = (Inr (p, re_uuid R (sy_uuid s)), ?u\<lparr>sy_uuid := Suc (sy_uuid s), sy_spans := c, sy_clock := Suc (Suc (sy_clock s))\<rparr>)" ..
  then have "enter_execution R aid k s = (Inr (a, p, re_uuid R (sy_uuid s)), ?u\<lparr>sy_uuid := Suc (sy_uuid s), sy_spans := c, sy_clock := Suc (Suc (sy_clock s))\<rparr>)"
    using assms by (simp add: enter_free open_pending_def executable_def bnd_reads bnd_def [of "open_execution _ _"] ret_def)
  then show thesis by (rule that) simp_all
qed

section \<open>Properties\<close>

definition took_effect :: "race \<Rightarrow> nat \<Rightarrow> bool" where
  "took_effect c i \<longleftrightarrow> (\<exists>x. rc_phase c i = Opened x) \<or> (\<exists>x. rc_phase c i = Answered (Inr x))"

text \<open>C6: executions of one approval that name one session are serialised, however they are interleaved with each other and with other
  code: at any time at most one of them is past the guards or has returned, so that the tool of an approval is never called
  by two of them at once, nor again after a call that was recorded; and when one has returned the stored approval is APPROVED.\<close>

theorem one_lock_one_execution:
  assumes "race_reachable R reg aid who s c" and "\<And>i. lock_key aid (who i) = k"
    and "\<And>a. load_approval (sy_gov s) aid = Some a \<Longrightarrow> av_id a = aid"
  shows "(\<forall>i j. took_effect c i \<and> took_effect c j \<longrightarrow> i = j) \<and>
    (\<forall>i x. rc_phase c i = Answered (Inr x) \<longrightarrow> (\<exists>b. load_approval (sy_gov (rc_sys c)) aid = Some b \<and> av_status b = APPROVED))"
proof -
  note inv = race_inv_reachable [OF assms]
  have n: "rc_phase c i \<noteq> Opened x \<or> rc_phase c j \<noteq> Answered (Inr z)" for i j x z
    using race_invD(2) [OF inv, of i "fst x" "fst (snd x)" "snd (snd x)"] pending_not_returned [OF inv] by force
  show ?thesis
    using race_invD(1,3,4) [OF inv] n unfolding took_effect_def by blast
qed

section \<open>Witnesses\<close>

text \<open>The approval of theory Approval is pending and executable until time 1000.\<close>

lemma demo_executable: "executable demo_env ''a'' demo_approval demo_immutable demo_pending"
  by (simp add: executable_def demo_pending_gov demo_approval_ok demo_now demo_pending_fields)

theorem one_lock_one_execution_witness:
  "\<exists>c x. race_reachable demo_env critical_registry ''a'' (\<lambda>_. (''me'', Some ''x'')) demo_pending c \<and>
     rc_phase c 0 = Opened x \<and> (\<forall>j. took_effect c j \<longrightarrow> j = 0)"
proof -
  let ?who = "\<lambda>_ :: nat. (''me'', Some ''x'')"
  have k: "lock_key ''a'' (?who i) = ''x''" for i by (simp add: lock_key_def str_or_def)
  obtain asp t where "enter_execution demo_env ''a'' ''x'' demo_pending = (Inr (demo_approval, demo_immutable, asp), t)"
    by (rule enter_ok [OF demo_executable, of "''x''"]) (simp add: demo_pending_fields)
  then have "race_step demo_env critical_registry ''a'' ?who \<lparr>rc_sys = demo_pending, rc_phase = (\<lambda>_. Asked)\<rparr>
      \<lparr>rc_sys = t, rc_phase = (\<lambda>_. Asked)(0 := Opened (demo_approval, demo_immutable, asp))\<rparr>"
    using race_step.opened [of "\<lparr>rc_sys = demo_pending, rc_phase = (\<lambda>_. Asked)\<rparr>" 0 demo_env "''a''" ?who] by (simp add: k)
  then have "race_reachable demo_env critical_registry ''a'' ?who demo_pending
      \<lparr>rc_sys = t, rc_phase = (\<lambda>_. Asked)(0 := Opened (demo_approval, demo_immutable, asp))\<rparr>"
    by (rule race_reachable.step [OF race_reachable.init])
  then obtain c where r: "race_reachable demo_env critical_registry ''a'' ?who demo_pending c"
    and o: "rc_phase c 0 = Opened (demo_approval, demo_immutable, asp)" by fastforce
  have id: "av_id b = ''a''" if "load_approval (sy_gov demo_pending) ''a'' = Some b" for b
    using that by (simp add: demo_pending_gov demo_approval_ok split: if_splits)
  have "took_effect c 0" using o by (simp add: took_effect_def)
  then show ?thesis using one_lock_one_execution [OF r k id, THEN conjunct1] r o by blast
qed

end
