(* ===== verification/Tables.thy ===== *)
theory Tables
  imports Transaction
begin

text \<open>
  The Postgres side of \<open>core/persistence.py\<close>: the schema of \<open>init_schema\<close> as a record of tables, every SQL statement that the
  runtime executes as a function on it (\<open>core/persistence.py\<close>, \<open>core/transaction.py\<close>, \<open>core/intelligence_persist.py\<close>,
  \<open>core/adaptive_persist.py\<close>, \<open>core/governance_store.py\<close>), and every query.  A row is the record that its columns are taken from;
  columns that no statement reads are left out.  A record that is written as JSON and read back through its own class is stored as
  itself; raw dictionaries (event payloads, replay snapshots, span metadata) go through the column type \<open>jsonb\<close>, a parameter, as are
  \<open>hashtext\<close> and the collation of the database.  Rows that \<open>ORDER BY\<close> does not tell apart come in the order of insertion.
\<close>

record pg_env =
  pe_jsonb :: "pyval \<Rightarrow> pyval"
  pe_hashtext :: "string \<Rightarrow> int"
  pe_collate :: "string \<Rightarrow> string"

section \<open>The schema\<close>

record pg_approval =
  pa_hash :: string
  pa_data :: approval
  pa_status :: approval_status
  pa_created :: time

record pg_baseline =
  bl_correlation :: string
  bl_fingerprint :: string
  bl_version :: "string option"

text \<open>\<open>CREATE TABLE IF NOT EXISTS\<close>: first the tables of the ledger, of replay and of governance.\<close>

record pg_ledger =
  pg_outbox :: "outbox_event list"
  pg_worlds :: "(int, world_snapshot) dict"
  pg_decisions :: "(string, decision_record) dict"
  pg_effects :: "(string, side_effect) dict"
  pg_replays :: "(string \<times> nat, pyval) dict"
  pg_agents :: "(string, agent_health) dict"
  pg_retries :: "(string \<times> string \<times> string \<times> nat, retry_trace) dict"
  pg_transitions :: "(persisted_transition \<times> time) list"
  pg_audit :: "audit_event list"
  pg_approvals :: "pg_approval list"
  pg_baselines :: "(string, pg_baseline) dict"
  pg_processed :: "string list"

text \<open>Then the tables of spans, telemetry, diagnostics and adaptation.  The last two fields are Postgres' own: the advisory locks and
  the row locks of open transactions, each with its connection.\<close>

record pg = pg_ledger +
  pg_spans :: "(string, span) dict"
  pg_telemetry :: "telemetry list"
  pg_health :: "runtime_health list"
  pg_lineage :: "(string \<times> string, lineage) dict"
  pg_anomalies :: "anomaly list"
  pg_diagnostics :: "(string, diagnostics \<times> time) dict"
  pg_policies :: "policy_snapshot list"
  pg_profiles :: "(string, tool_profile) dict"
  pg_priorities :: "(priority_row \<times> time) list"
  pg_stability :: "stability_event list"
  pg_governance :: "governance_event list"
  pg_locks :: "(nat \<times> int) list"
  pg_rowlocks :: "(nat \<times> string) list"

text \<open>A fresh database.\<close>

definition init_schema :: pg where
  "init_schema = \<lparr>pg_outbox = [], pg_worlds = [], pg_decisions = [], pg_effects = [], pg_replays = [], pg_agents = [], pg_retries = [],
     pg_transitions = [], pg_audit = [], pg_approvals = [], pg_baselines = [], pg_processed = [], pg_spans = [], pg_telemetry = [],
     pg_health = [], pg_lineage = [], pg_anomalies = [], pg_diagnostics = [], pg_policies = [], pg_profiles = [], pg_priorities = [],
     pg_stability = [], pg_governance = [], pg_locks = [], pg_rowlocks = []\<rparr>"

section \<open>Statements of the ledger (core/transaction.py)\<close>

text \<open>\<open>ON CONFLICT DO NOTHING\<close> and \<open>ON CONFLICT DO UPDATE SET\<close> on the key of a table.\<close>

definition insert_or_ignore :: "'k \<Rightarrow> 'v \<Rightarrow> ('k, 'v) dict \<Rightarrow> ('k, 'v) dict" where
  "insert_or_ignore k v d = (if dict_get d k = None then dict_set k v d else d)"

definition insert_or_update :: "'k \<Rightarrow> ('v \<Rightarrow> 'v) \<Rightarrow> 'v \<Rightarrow> ('k, 'v) dict \<Rightarrow> ('k, 'v) dict" where
  "insert_or_update k f v d = (case dict_get d k of None \<Rightarrow> dict_set k v d | Some old \<Rightarrow> dict_set k (f old) d)"

definition insert_world :: "world_snapshot \<Rightarrow> pg \<Rightarrow> pg" where
  "insert_world w d = d\<lparr>pg_worlds := insert_or_update (sn_version w) (\<lambda>old. old\<lparr>sn_state := sn_state w\<rparr>) w (pg_worlds d)\<rparr>"

definition insert_decision :: "decision_record \<Rightarrow> pg \<Rightarrow> pg" where
  "insert_decision r d = d\<lparr>pg_decisions := insert_or_ignore (dr_id r) r (pg_decisions d)\<rparr>"

definition insert_effect :: "side_effect \<Rightarrow> pg \<Rightarrow> pg" where
  "insert_effect r d = d\<lparr>pg_effects := insert_or_ignore (se_id r) r (pg_effects d)\<rparr>"

text \<open>The primary key and the unique key of the outbox; both raise.\<close>

definition insert_outbox :: "pg_env \<Rightarrow> outbox_event \<Rightarrow> pg \<Rightarrow> exn + pg" where
  "insert_outbox P e d = (if \<exists>r \<in> set (pg_outbox d). ev_id r = ev_id e \<or> ev_key r = ev_key e
     then Inl (UniqueViolationError ''outbox_events'')
     else Inr (d\<lparr>pg_outbox := pg_outbox d @ [e\<lparr>ev_payload := pe_jsonb P (ev_payload e), ev_processed := False\<rparr>]\<rparr>))"

definition insert_snapshot :: "pg_env \<Rightarrow> string \<Rightarrow> nat \<Rightarrow> pyval \<Rightarrow> pg \<Rightarrow> pg" where
  "insert_snapshot P sid step v d = d\<lparr>pg_replays := dict_set (sid, step) (pe_jsonb P v) (pg_replays d)\<rparr>"

definition insert_retry :: "retry_trace \<Rightarrow> pg \<Rightarrow> pg" where
  "insert_retry t d = d\<lparr>pg_retries := dict_set (rt_correlation t, rt_session t, rt_agent t, rt_step t) t (pg_retries d)\<rparr>"

definition insert_transition :: "time \<Rightarrow> persisted_transition \<Rightarrow> pg \<Rightarrow> pg" where
  "insert_transition now t d = d\<lparr>pg_transitions := pg_transitions d @ [(t, now)]\<rparr>"

definition insert_baseline :: "string \<Rightarrow> string \<Rightarrow> string \<Rightarrow> pg \<Rightarrow> pg" where
  "insert_baseline sid cid fp d = d\<lparr>pg_baselines := insert_or_update sid
     (\<lambda>old. old\<lparr>bl_fingerprint := fp, bl_version := Some ORCHESTRATOR_VERSION\<rparr>)
     \<lparr>bl_correlation = cid, bl_fingerprint = fp, bl_version = Some ORCHESTRATOR_VERSION\<rparr> (pg_baselines d)\<rparr>"

definition fetch_outbox_by_idempotency :: "string \<Rightarrow> pg \<Rightarrow> outbox_event option" where
  "fetch_outbox_by_idempotency key d = List.find (\<lambda>e. ev_key e = key) (pg_outbox d)"

section \<open>core/intelligence_persist.py and core/adaptive_persist.py\<close>

definition span_metadata_json :: "pg_env \<Rightarrow> (string \<times> pyval) list \<Rightarrow> (string \<times> pyval) list" where
  "span_metadata_json P m = (case pe_jsonb P (pdict m) of
     PDict d \<Rightarrow> List.map_filter (\<lambda>(k, v). case k of KStr s \<Rightarrow> Some (s, v) | _ \<Rightarrow> None) d | _ \<Rightarrow> [])"

definition insert_span :: "pg_env \<Rightarrow> span \<Rightarrow> pg \<Rightarrow> pg" where
  "insert_span P sp d = (let row = sp\<lparr>sp_metadata := span_metadata_json P (sp_metadata sp)\<rparr> in
     d\<lparr>pg_spans := insert_or_update (sp_id sp)
       (\<lambda>old. old\<lparr>sp_completed := sp_completed row, sp_status := sp_status row, sp_metadata := sp_metadata row\<rparr>) row (pg_spans d)\<rparr>)"

definition insert_telemetry :: "telemetry \<Rightarrow> pg \<Rightarrow> pg" where
  "insert_telemetry t d = d\<lparr>pg_telemetry := pg_telemetry d @ [t]\<rparr>"

definition delete_insert_health :: "runtime_health \<Rightarrow> pg \<Rightarrow> pg" where
  "delete_insert_health h d = d\<lparr>pg_health := filter (\<lambda>x. \<not> (rh_session x = rh_session h \<and> rh_correlation x = rh_correlation h))
     (pg_health d) @ [h]\<rparr>"

definition insert_lineage :: "lineage \<Rightarrow> pg \<Rightarrow> pg" where
  "insert_lineage l d = d\<lparr>pg_lineage := dict_set (li_prompt_hash l, li_session l) l (pg_lineage d)\<rparr>"

definition insert_anomaly :: "anomaly \<Rightarrow> pg \<Rightarrow> pg" where
  "insert_anomaly a d = d\<lparr>pg_anomalies := pg_anomalies d @ [a]\<rparr>"

text \<open>An update keeps the time of the first insertion.\<close>

definition insert_diagnostics :: "time \<Rightarrow> diagnostics \<Rightarrow> pg \<Rightarrow> pg" where
  "insert_diagnostics now x d = d\<lparr>pg_diagnostics := insert_or_update (dg_session x) (\<lambda>(_, t). (x, t)) (x, now) (pg_diagnostics d)\<rparr>"

text \<open>\<open>heap\<close> gives the span objects of the payload.\<close>

definition write_intelligence_postgres :: "pg_env \<Rightarrow> span_ctx \<Rightarrow> time \<Rightarrow> payload \<Rightarrow> pg \<Rightarrow> pg" where
  "write_intelligence_postgres P heap now p d =
     when_some (pl_diagnostics p) (insert_diagnostics now)
     (fold insert_anomaly (pl_anomalies p)
     (fold insert_lineage (pl_lineage p)
     (when_some (pl_health p) delete_insert_health
     (fold insert_telemetry (pl_telemetry p)
     (fold (insert_span P) (List.map_filter (span_of heap) (pl_spans p)) d)))))"

definition insert_policy :: "policy_snapshot \<Rightarrow> pg \<Rightarrow> pg" where
  "insert_policy x d = d\<lparr>pg_policies := pg_policies d @ [x]\<rparr>"

definition insert_profile :: "tool_profile \<Rightarrow> pg \<Rightarrow> pg" where
  "insert_profile x d = d\<lparr>pg_profiles := dict_set (tp_name x) x (pg_profiles d)\<rparr>"

definition insert_priorities :: "time \<Rightarrow> string \<Rightarrow> string \<Rightarrow> priority_score list \<Rightarrow> pg \<Rightarrow> pg" where
  "insert_priorities now sid cid scores d =
     d\<lparr>pg_priorities := pg_priorities d @ [(\<lparr>pw_session = sid, pw_correlation = cid, pw_scores = scores\<rparr>, now)]\<rparr>"

definition insert_stability :: "stability_event \<Rightarrow> pg \<Rightarrow> pg" where
  "insert_stability e d = d\<lparr>pg_stability := pg_stability d @ [e]\<rparr>"

definition insert_governance :: "governance_event \<Rightarrow> pg \<Rightarrow> pg" where
  "insert_governance e d = d\<lparr>pg_governance := pg_governance d @ [e]\<rparr>"

definition write_adaptive_postgres :: "time \<Rightarrow> payload \<Rightarrow> pg \<Rightarrow> pg" where
  "write_adaptive_postgres now p d =
     fold insert_governance (pl_governance p)
     (fold insert_stability (pl_stability p)
     (when_any (pl_priorities p) (insert_priorities now (pl_session p) (pl_correlation p))
     (fold insert_profile (pl_profiles p)
     (when_some (pl_policy p) insert_policy d))))"

section \<open>core/governance_store.py\<close>

definition insert_audit :: "audit_event \<Rightarrow> pg \<Rightarrow> pg" where
  "insert_audit e d = d\<lparr>pg_audit := pg_audit d @ [e]\<rparr>"

text \<open>The \<open>data\<close> column holds the whole approval; the parameters of its proposal are a raw dictionary.  \<open>ON CONFLICT (id)\<close> covers the
  primary key only: a new id with the action hash of another row violates the unique constraint.\<close>

definition approval_json :: "pg_env \<Rightarrow> approval \<Rightarrow> approval" where
  "approval_json P a = a\<lparr>av_immutable := map_option (\<lambda>p. p\<lparr>pr_parameters := pe_jsonb P (pr_parameters p)\<rparr>) (av_immutable a)\<rparr>"

fun update_approval_row :: "approval \<Rightarrow> pg_approval list \<Rightarrow> pg_approval list" where
  "update_approval_row a [] = []"
| "update_approval_row a (r # rs) = (if av_id (pa_data r) = av_id a then r\<lparr>pa_data := a, pa_status := av_status a\<rparr> # rs
     else r # update_approval_row a rs)"

definition insert_approval :: "pg_env \<Rightarrow> time \<Rightarrow> approval \<Rightarrow> pg \<Rightarrow> exn + pg" where
  "insert_approval P now a d = (let h = (case av_binding a of None \<Rightarrow> '''' | Some b \<Rightarrow> bi_action_hash b) in
     if av_id a \<in> set (map (av_id \<circ> pa_data) (pg_approvals d)) then Inr (d\<lparr>pg_approvals := update_approval_row (approval_json P a) (pg_approvals d)\<rparr>)
     else if h \<in> set (map pa_hash (pg_approvals d)) then Inl (UniqueViolationError ''approvals'')
     else Inr (d\<lparr>pg_approvals := pg_approvals d @ [\<lparr>pa_hash = h, pa_data = approval_json P a, pa_status = av_status a, pa_created = now\<rparr>]\<rparr>))"

definition select_approval :: "string \<Rightarrow> pg \<Rightarrow> approval option" where
  "select_approval aid d = map_option pa_data (List.find (\<lambda>r. av_id (pa_data r) = aid) (pg_approvals d))"

definition select_approvals_by_correlation :: "string \<Rightarrow> pg \<Rightarrow> approval list" where
  "select_approvals_by_correlation cid d =
     map pa_data (sort_key pa_created (filter (\<lambda>r. av_correlation (pa_data r) = cid) (pg_approvals d)))"

definition select_pending_approvals :: "pg \<Rightarrow> approval list" where
  "select_pending_approvals d = map pa_data (sort_key pa_created (filter (\<lambda>r. pa_status r = APPENDING) (pg_approvals d)))"

section \<open>Queries of core/persistence.py\<close>

definition select_unprocessed :: "nat \<Rightarrow> pg \<Rightarrow> outbox_event list" where
  "select_unprocessed limit d = take limit (sort_key ev_created (filter (\<lambda>e. \<not> ev_processed e) (pg_outbox d)))"

definition select_events :: "string \<Rightarrow> pg \<Rightarrow> outbox_event list" where
  "select_events cid d = sort_key ev_created (filter (\<lambda>e. ev_correlation e = cid) (pg_outbox d))"

definition select_decisions :: "string \<Rightarrow> pg \<Rightarrow> decision_record list" where
  "select_decisions cid d = sort_key dr_created (filter (\<lambda>r. dr_correlation r = cid) (dict_values (pg_decisions d)))"

definition select_effects :: "string \<Rightarrow> pg \<Rightarrow> side_effect list" where
  "select_effects cid d = sort_key se_created (filter (\<lambda>r. se_correlation r = cid) (dict_values (pg_effects d)))"

definition select_snapshots :: "string \<Rightarrow> pg \<Rightarrow> pyval list" where
  "select_snapshots sid d = map snd (sort_key (snd \<circ> fst) (filter (\<lambda>r. fst (fst r) = sid) (pg_replays d)))"

definition select_transitions :: "string \<Rightarrow> pg \<Rightarrow> persisted_transition list" where
  "select_transitions sid d = map fst (sort_key snd (filter (\<lambda>r. pt_session (fst r) = sid) (pg_transitions d)))"

definition select_baseline_meta :: "string \<Rightarrow> pg \<Rightarrow> baseline_meta option" where
  "select_baseline_meta sid d = map_option (\<lambda>b. \<lparr>bm_correlation = bl_correlation b, bm_fingerprint = bl_fingerprint b,
     bm_version = str_or (bl_version b) ''rrm15-legacy''\<rparr>) (dict_get (pg_baselines d) sid)"

definition select_baseline :: "string \<Rightarrow> pg \<Rightarrow> string option" where
  "select_baseline sid d = map_option bl_fingerprint (dict_get (pg_baselines d) sid)"

definition select_spans :: "string \<Rightarrow> string option \<Rightarrow> pg \<Rightarrow> span list" where
  "select_spans sid cid d = sort_key sp_started (by_correlation sp_correlation cid
     (filter (\<lambda>s. sp_session s = sid) (dict_values (pg_spans d))))"

definition select_telemetry :: "string \<Rightarrow> string option \<Rightarrow> pg \<Rightarrow> telemetry list" where
  "select_telemetry sid cid d = sort_key te_created (by_correlation te_correlation cid
     (filter (\<lambda>t. te_session t = sid) (pg_telemetry d)))"

text \<open>\<open>ORDER BY generated_at DESC\<close>: the newest first, unlike the in-memory query.\<close>

definition select_health :: "string \<Rightarrow> pg \<Rightarrow> runtime_health list" where
  "select_health sid d = sort_key (\<lambda>h. - rh_generated h) (filter (\<lambda>h. rh_session h = sid) (pg_health d))"

definition select_policy :: "string \<Rightarrow> pg \<Rightarrow> policy_snapshot option" where
  "select_policy sid d = (case sort_key (\<lambda>p. - ps_created p) (filter (\<lambda>p. ps_session p = sid) (pg_policies d)) of
     [] \<Rightarrow> None | p # _ \<Rightarrow> Some p)"

definition select_profiles :: "pg \<Rightarrow> tool_profile list" where
  "select_profiles d = sort_key (\<lambda>p. - tp_updated p) (dict_values (pg_profiles d))"

definition select_stability :: "string \<Rightarrow> pg \<Rightarrow> stability_event list" where
  "select_stability sid d = sort_key sv_created (filter (\<lambda>e. sv_session e = sid) (pg_stability d))"

definition select_governance :: "string \<Rightarrow> pg \<Rightarrow> governance_event list" where
  "select_governance sid d = sort_key gv_created (filter (\<lambda>e. gv_session e = sid) (pg_governance d))"

definition select_priorities :: "string \<Rightarrow> pg \<Rightarrow> priority_row list" where
  "select_priorities sid d = map fst (take 5 (sort_key (\<lambda>r. - snd r) (filter (\<lambda>r. pw_session (fst r) = sid) (pg_priorities d))))"

definition select_diagnostics :: "string \<Rightarrow> pg \<Rightarrow> diagnostics option" where
  "select_diagnostics sid d = map_option fst (dict_get (pg_diagnostics d) sid)"

definition select_all_diagnostics :: "pg \<Rightarrow> (diagnostics \<times> time) list" where
  "select_all_diagnostics d = sort_key (\<lambda>r. - snd r) (dict_values (pg_diagnostics d))"

definition select_anomalies :: "string \<Rightarrow> pg \<Rightarrow> anomaly list" where
  "select_anomalies sid d = sort_key an_detected (filter (\<lambda>a. an_session a = sid) (pg_anomalies d))"

definition select_lineage :: "string \<Rightarrow> pg \<Rightarrow> lineage list" where
  "select_lineage sid d = filter (\<lambda>l. li_session l = sid) (dict_values (pg_lineage d))"

text \<open>\<open>core/persistence.py\<close>, \<open>query_context_intelligence\<close>: the last five rows, newest first, and the ratio of the latest policy.\<close>

definition select_context_intelligence :: "string \<Rightarrow> pg \<Rightarrow> priority_row list \<times> rat" where
  "select_context_intelligence sid d = (select_priorities sid d,
     (case select_policy sid d of None \<Rightarrow> 1 | Some p \<Rightarrow> po_context_ratio (ps_policy p)))"

section \<open>Statements outside a transaction\<close>

definition update_event_processed :: "string \<Rightarrow> pg \<Rightarrow> nat \<times> pg" where
  "update_event_processed key d = (length (filter (\<lambda>e. ev_key e = key \<and> \<not> ev_processed e) (pg_outbox d)),
     d\<lparr>pg_outbox := map (\<lambda>e. if ev_key e = key \<and> \<not> ev_processed e then e\<lparr>ev_processed := True\<rparr> else e) (pg_outbox d)\<rparr>)"

text \<open>\<open>result.endswith("1")\<close> on the command tag \<open>UPDATE n\<close>.\<close>

definition ends_with_1 :: "nat \<Rightarrow> bool" where
  "ends_with_1 n \<longleftrightarrow> n mod 10 = 1"

text \<open>\<open>mark_event_processed\<close>; the set of keys of the process is \<open>keys\<close>.\<close>

definition mark_event_processed_postgres :: "string \<Rightarrow> string list \<times> pg \<Rightarrow> bool \<times> string list \<times> pg" where
  "mark_event_processed_postgres key = (\<lambda>(keys, d). if key \<in> set keys then (False, keys, d)
     else (case update_event_processed key d of (n, d') \<Rightarrow> (ends_with_1 n, keys @ [key], d')))"

definition upsert_agent_health :: "string \<Rightarrow> agent_health \<Rightarrow> pg \<Rightarrow> pg" where
  "upsert_agent_health aid h d = d\<lparr>pg_agents := dict_set aid h (pg_agents d)\<rparr>"

definition save_agent_health_postgres :: "string \<Rightarrow> agent_health \<Rightarrow> health_registry \<times> pg \<Rightarrow> health_registry \<times> pg" where
  "save_agent_health_postgres aid h = (\<lambda>(r, d). (save_agent_health aid h r, upsert_agent_health aid h d))"

definition load_agent_health_postgres :: "string \<Rightarrow> health_registry \<times> pg \<Rightarrow> agent_health option \<times> health_registry" where
  "load_agent_health_postgres aid = (\<lambda>(r, d). case load_agent_health aid r of Some h \<Rightarrow> (Some h, r)
     | None \<Rightarrow> (case dict_get (pg_agents d) aid of None \<Rightarrow> (None, r) | Some h \<Rightarrow> (Some h, save_agent_health aid h r)))"

definition load_all_agent_health_postgres :: "health_registry \<times> pg \<Rightarrow> (string, agent_health) dict" where
  "load_all_agent_health_postgres = (\<lambda>(r, d). fold (\<lambda>(k, v). dict_set k v) (pg_agents d) (hr_stored r))"

section \<open>The pool\<close>

text \<open>\<open>get_pool\<close>: the module's variable is the state; \<open>create\<close> makes the pool and \<open>schema\<close> runs \<open>init_schema\<close>; either may raise.\<close>

definition get_pool :: "bool \<Rightarrow> (exn + 'p) \<Rightarrow> ('p \<Rightarrow> exn + unit) \<Rightarrow> ('p option, exn, 'p option) comp" where
  "get_pool in_memory create schema = bnd (reads id) (\<lambda>st. case st of
       Some x \<Rightarrow> ret (Some x)
     | None \<Rightarrow> if in_memory then ret None
         else catch (bnd (lift_res create) (\<lambda>x. seqc (mods (\<lambda>_. Some x)) (seqc (lift_res (schema x)) (ret (Some x)))))
           (\<lambda>e. True) (\<lambda>e. ret None))"

text \<open>\<open>health_check_db\<close>: in memory always well; otherwise a pool must exist and answer \<open>SELECT 1\<close>.\<close>

definition health_check_db :: "bool \<Rightarrow> 'p option \<Rightarrow> ('p \<Rightarrow> exn + unit) \<Rightarrow> bool" where
  "health_check_db in_memory pool ping = (if in_memory then True
     else case pool of None \<Rightarrow> False | Some x \<Rightarrow> \<not> isl (ping x))"

end
