(* ===== verification/Postgres.thy ===== *)
theory Postgres
  imports Tables Approval
begin

text \<open>
  The runtime on Postgres: transactions and the advisory session lock (\<open>core/runtime_session.py\<close>), the Postgres branch of
  \<open>core/transaction.py\<close> and of the functions that it calls with its connection, the approvals of \<open>core/governance_store.py\<close> and
  \<open>core/approval_service.py\<close>.  The state is the process (theory System, whose in-memory tables are then unused) and the database
  (theory Tables).  A transaction runs alone but for the locks that other connections hold; it is rolled back when its body raises.
\<close>

section \<open>Computations over the process and the database\<close>

type_synonym 'a pgc = "(sys \<times> pg, exn, 'a) comp"

definition on_sys :: "'a rt \<Rightarrow> 'a pgc" where
  "on_sys m = (\<lambda>(s, d). case m s of (r, t) \<Rightarrow> (r, (t, d)))"

definition exec :: "(pg \<Rightarrow> pg) \<Rightarrow> unit pgc" where
  "exec f = (\<lambda>(s, d). (Inr (), (s, f d)))"

definition exec_checked :: "(pg \<Rightarrow> exn + pg) \<Rightarrow> unit pgc" where
  "exec_checked f = (\<lambda>(s, d). case f d of Inl e \<Rightarrow> (Inl e, (s, d)) | Inr d' \<Rightarrow> (Inr (), (s, d')))"

definition fetch :: "(pg \<Rightarrow> 'a) \<Rightarrow> 'a pgc" where
  "fetch q = (\<lambda>(s, d). (Inr (q d), (s, d)))"

definition exec_some :: "'a option \<Rightarrow> ('a \<Rightarrow> pg \<Rightarrow> pg) \<Rightarrow> unit pgc" where
  "exec_some v f = (case v of None \<Rightarrow> ret () | Some x \<Rightarrow> exec (f x))"

section \<open>core/runtime_session.py\<close>

definition advisory_enter :: "nat \<times> int \<Rightarrow> (nat \<times> int) list \<Rightarrow> (nat \<times> int) list option" where
  "advisory_enter r ls = (if \<exists>l \<in> set ls. snd l = snd r \<and> fst l \<noteq> fst r then None else Some (r # ls))"

definition release_connection :: "nat \<Rightarrow> pg \<Rightarrow> pg" where
  "release_connection c d = d\<lparr>pg_locks := filter (\<lambda>l. fst l \<noteq> c) (pg_locks d),
     pg_rowlocks := filter (\<lambda>l. fst l \<noteq> c) (pg_rowlocks d)\<rparr>"

text \<open>\<open>async with conn.transaction()\<close> on connection \<open>c\<close>: commit or roll back, and let go of the locks either way.\<close>

definition transaction :: "nat \<Rightarrow> 'a pgc \<Rightarrow> 'a pgc" where
  "transaction c m = (\<lambda>(s, d). case m (s, d) of
     (Inl e, (t, d')) \<Rightarrow> (Inl e, (t, release_connection c d))
   | (Inr x, (t, d')) \<Rightarrow> (Inr x, (t, release_connection c d')))"

definition acquire_session_lock_postgres :: "pg_env \<Rightarrow> nat \<Rightarrow> string \<Rightarrow> unit pgc" where
  "acquire_session_lock_postgres P c sid = bnd (fetch (\<lambda>d. advisory_enter (c, pe_hashtext P sid) (pg_locks d))) (\<lambda>r. case r of
     None \<Rightarrow> raise (SessionLockError sid) | Some ls \<Rightarrow> exec (\<lambda>d. d\<lparr>pg_locks := ls\<rparr>))"

definition mutative_session_postgres :: "pg_env \<Rightarrow> nat \<Rightarrow> string \<Rightarrow> 'a pgc \<Rightarrow> 'a pgc" where
  "mutative_session_postgres P c sid body = transaction c (seqc (acquire_session_lock_postgres P c sid) body)"

section \<open>Reading through a connection\<close>

text \<open>
  The frozen replay and the diagnostics are the same code over either backend; only the queries differ.  \<open>pg_view\<close> is the process
  state whose in-memory queries answer what the SQL queries answer (lemma \<open>view_queries\<close>); where they differ (the newest health row and
  the newest policy) the query is used as it is.
\<close>

definition pg_view :: "pg \<Rightarrow> sys \<Rightarrow> sys" where
  "pg_view d s = s\<lparr>
     sy_db := (sy_db s)\<lparr>db_outbox := pg_outbox d, db_decisions := sort_key dr_created (dict_values (pg_decisions d)),
       db_effects := sort_key se_created (dict_values (pg_effects d)), db_transitions := map fst (sort_key snd (pg_transitions d))\<rparr>,
     sy_gov := (sy_gov s)\<lparr>go_approvals := map (\<lambda>r. (av_id (pa_data r), pa_data r)) (sort_key pa_created (pg_approvals d))\<rparr>,
     sy_replay := \<lparr>rs_snaps = map (\<lambda>r. (fst (fst r), select_snapshots (fst (fst r)) d)) (pg_replays d),
       rs_fingerprints = map (\<lambda>(k, b). (k, bl_fingerprint b)) (pg_baselines d),
       rs_records = map (\<lambda>(k, b). (k, \<lparr>bm_correlation = bl_correlation b, bm_fingerprint = bl_fingerprint b,
         bm_version = str_or (bl_version b) ''rrm15-legacy''\<rparr>)) (pg_baselines d)\<rparr>,
     sy_spans := (sy_spans s)\<lparr>sc_heap := pg_spans d\<rparr>,
     sy_intel := (sy_intel s)\<lparr>is_spans := dict_keys (pg_spans d), is_telemetry := pg_telemetry d, is_anomalies := pg_anomalies d,
       is_stability := sort_key sv_created (pg_stability d), is_governance := sort_key gv_created (pg_governance d)\<rparr>\<rparr>"

definition validate_frozen_replay_postgres :: "env \<Rightarrow> string \<Rightarrow> string \<Rightarrow> sys \<times> pg \<Rightarrow> exn + bool \<times> string \<times> string option" where
  "validate_frozen_replay_postgres E sid cid = (\<lambda>(s, d). validate_frozen_replay E sid cid (pg_view d s))"

definition diagnostics_postgres :: "string \<Rightarrow> string \<Rightarrow> runtime_health option \<Rightarrow> anomaly list option \<Rightarrow> sys \<times> pg \<Rightarrow> diagnostics" where
  "diagnostics_postgres sid cid health anomalies = (\<lambda>(s, d). (diagnostics_of sid cid health anomalies (pg_view d s))\<lparr>
     dg_health := (case health of Some h \<Rightarrow> Some h | None \<Rightarrow> last_opt (select_health sid d)),
     dg_policy := map_option ps_policy (select_policy sid d)\<rparr>)"

text \<open>\<open>core/health.py\<close>: the registry in front of the table fills its cache.\<close>

definition agent_health_postgres :: "string \<Rightarrow> agent_health pgc" where
  "agent_health_postgres aid = (\<lambda>(s, d). case dict_get (hr_cache (sy_health s)) aid of
     Some h \<Rightarrow> (Inr h, s, d)
   | None \<Rightarrow> (case load_agent_health_postgres aid (sy_health s, d) of (stored, r) \<Rightarrow>
       let h = (case stored of Some h \<Rightarrow> h | None \<Rightarrow> new_agent_health aid)
       in (Inr h, s\<lparr>sy_health := r\<lparr>hr_cache := dict_set aid h (hr_cache r)\<rparr>\<rparr>, d)))"

definition agent_degraded_postgres :: "string \<Rightarrow> bool pgc" where
  "agent_degraded_postgres aid = bnd (agent_health_postgres aid) (\<lambda>h. ret (ah_degraded h))"

text \<open>\<open>core/orchestrator.py\<close>, \<open>_session_health_degraded\<close>: the last row that the query returns.\<close>

definition session_health_degraded_postgres :: "string \<Rightarrow> bool pgc" where
  "session_health_degraded_postgres sid = bnd (fetch (select_health sid)) (\<lambda>rows.
     if rows \<noteq> [] \<and> rh_degraded (last rows) then ret True else agent_degraded_postgres ''ceo'')"

section \<open>core/transaction.py on a connection\<close>

definition persist_adaptive_postgres :: "rt_env \<Rightarrow> payload \<Rightarrow> unit pgc" where
  "persist_adaptive_postgres R p = (if \<not> has_adaptive_data p then ret ()
     else bnd (on_sys (clock R)) (\<lambda>now. exec (write_adaptive_postgres now p)))"

definition persist_intelligence_postgres :: "pg_env \<Rightarrow> rt_env \<Rightarrow> payload \<Rightarrow> unit pgc" where
  "persist_intelligence_postgres P R p = (if \<not> has_intelligence_data p then ret ()
     else bnd (on_sys (clock R)) (\<lambda>now. bnd (on_sys (reads sy_spans)) (\<lambda>heap.
       seqc (exec (write_intelligence_postgres P heap now p)) (persist_adaptive_postgres R p))))"

definition compute_session_close_health_postgres :: "rt_env \<Rightarrow> payload \<Rightarrow> payload pgc" where
  "compute_session_close_health_postgres R p =
     bnd (fetch (select_baseline (pl_session p))) (\<lambda>baseline.
     bnd (\<lambda>(s, d). (build_canonical_outcome (pl_session p) (pl_correlation p) None (pg_view d s), (s, d))) (\<lambda>outcome.
     let fp = outcome_fingerprint (re_env R) outcome in
     seqc (bnd (on_sys (clock R)) (\<lambda>_. exec (insert_baseline (pl_session p) (pl_correlation p) fp)))
     (bnd (reads (\<lambda>(s, d). merge_spans_for_health (select_spans (pl_session p) (Some (pl_correlation p)) d)
         (List.map_filter (span_of (sy_spans s)) (pl_spans p)))) (\<lambda>spans.
      bnd (on_sys (clock R)) (\<lambda>t1. bnd (on_sys (clock R)) (\<lambda>t2.
      let health = compute_health (pl_correlation p) (pl_session p) t1 (pl_telemetry p) spans (pl_tool_failure p)
            (replay_confidence_from_baseline fp baseline) (pressure_of (pl_telemetry p))
      in ret (p\<lparr>pl_health := Some health, pl_anomalies := detect_anomalies health t2\<rparr>)))))))"

definition complete_session_close_postgres :: "rt_env \<Rightarrow> payload \<Rightarrow> payload pgc" where
  "complete_session_close_postgres R p = bnd (compute_session_close_health_postgres R p) (\<lambda>p1.
     if pl_diagnostics p1 \<noteq> None then ret p1
     else bnd (reads (diagnostics_postgres (pl_session p1) (pl_correlation p1) (pl_health p1)
         (if pl_anomalies p1 = [] then None else Some (pl_anomalies p1)))) (\<lambda>x. ret (p1\<lparr>pl_diagnostics := Some x\<rparr>)))"

definition close_postgres :: "rt_env \<Rightarrow> payload \<Rightarrow> payload pgc" where
  "close_postgres R p = (if is_session_close p then complete_session_close_postgres R p else ret p)"

definition write_snapshot_postgres :: "pg_env \<Rightarrow> payload \<Rightarrow> pg \<Rightarrow> pg" where
  "write_snapshot_postgres P p d = (case (pl_snapshot p, pl_step p) of
     (Some v, Some n) \<Rightarrow> insert_snapshot P (pl_session p) n v d | _ \<Rightarrow> d)"

text \<open>The statements of a new event, in order.\<close>

definition write_ledger :: "pg_env \<Rightarrow> rt_env \<Rightarrow> payload \<Rightarrow> outbox_event \<Rightarrow> world_snapshot option \<Rightarrow> unit pgc" where
  "write_ledger P R p event snap =
     seqc (exec_some snap insert_world)
     (seqc (exec_some (pl_decision p) insert_decision)
     (seqc (exec_some (pl_effect p) insert_effect)
     (seqc (exec_checked (insert_outbox P (case snap of None \<Rightarrow> event | Some w \<Rightarrow> event\<lparr>ev_world_version := sn_version w\<rparr>)))
     (seqc (exec (write_snapshot_postgres P p))
     (seqc (exec_some (pl_retry p) insert_retry)
       (case pl_transition p of None \<Rightarrow> ret ()
        | Some t \<Rightarrow> bnd (on_sys (clock R)) (\<lambda>now. exec (insert_transition now t))))))))"

definition persist_runtime_tx_postgres :: "pg_env \<Rightarrow> rt_env \<Rightarrow> payload \<Rightarrow> (outbox_event \<times> bool) pgc" where
  "persist_runtime_tx_postgres P R p =
     bnd (on_sys (reads (\<lambda>s. db_world (sy_db s)))) (\<lambda>world.
     bnd (on_sys (fresh_uuid R)) (\<lambda>uid. bnd (on_sys (clock R)) (\<lambda>now.
     let event = outbox_event_of (re_env R) p (ws_version world) uid now in
     bnd (on_sys (next_world R p world)) (\<lambda>snap.
     bnd (fetch (fetch_outbox_by_idempotency (ev_key event))) (\<lambda>existing.
     case existing of
       Some e \<Rightarrow> bnd (on_sys (merge_pending_spans p)) (\<lambda>p1. bnd (close_postgres R p1) (\<lambda>p2.
         seqc (persist_intelligence_postgres P R p2) (ret (e, False))))
     | None \<Rightarrow> bnd (on_sys (merge_pending_spans p)) (\<lambda>p1.
         seqc (write_ledger P R p1 event snap)
         (bnd (close_postgres R p1) (\<lambda>p2. seqc (persist_intelligence_postgres P R p2) (ret (event, True))))))))))"

section \<open>core/governance_store.py and core/approval_service.py on a connection\<close>

definition append_audit_event_postgres :: "rt_env \<Rightarrow> string \<Rightarrow> string \<Rightarrow> string \<Rightarrow> pyval \<Rightarrow> unit pgc" where
  "append_audit_event_postgres R ty actor cid body = bnd (on_sys (fresh_uuid R)) (\<lambda>uid. bnd (on_sys (clock R)) (\<lambda>now.
     exec (insert_audit \<lparr>ae_id = uid, ae_type = ty, ae_actor = actor, ae_correlation = cid,
       ae_payload_hash = stable_hash (re_env R) body, ae_created = now\<rparr>)))"

definition save_approval_postgres :: "pg_env \<Rightarrow> rt_env \<Rightarrow> approval \<Rightarrow> unit pgc" where
  "save_approval_postgres P R a = bnd (on_sys (clock R)) (\<lambda>now. exec_checked (insert_approval P now a))"

definition update_approval_status_postgres :: "pg_env \<Rightarrow> rt_env \<Rightarrow> string \<Rightarrow> approval_status \<Rightarrow> string option \<Rightarrow> approval option pgc" where
  "update_approval_status_postgres P R aid st by = bnd (fetch (select_approval aid)) (\<lambda>ao. case ao of None \<Rightarrow> ret None
     | Some a \<Rightarrow> if str_or by '''' = '''' then seqc (save_approval_postgres P R (a\<lparr>av_status := st\<rparr>)) (ret (Some (a\<lparr>av_status := st\<rparr>)))
         else bnd (on_sys (clock R)) (\<lambda>now. let a' = a\<lparr>av_status := st, av_approved_by := by, av_approved_at := Some now\<rparr> in
           seqc (save_approval_postgres P R a') (ret (Some a'))))"

definition prepare_approval_postgres :: "pg_env \<Rightarrow> rt_env \<Rightarrow> proposal \<Rightarrow> string \<Rightarrow> approval pgc" where
  "prepare_approval_postgres P R p requester =
     seqc (on_sys (span_begin (pr_correlation p) (pr_correlation p)))
     (bnd (on_sys (span_start R APPROVAL '''' [(''phase'', PStr ''prepare''), (''action'', PStr (pr_action p))])) (\<lambda>asp.
      if pr_checksum p \<noteq> proposal_checksum R p then raise (ValueError ''Proposal checksum invalid'')
      else bnd (on_sys (reads (\<lambda>s. evaluate (sy_crisis s) (sy_biases s) (action_of p) (Some (pr_correlation p)) 0))) (\<lambda>decision.
        if decision = DENY then raise (ValueError ''Policy denied action'')
        else bnd (on_sys (fresh_uuid R)) (\<lambda>aid. bnd (on_sys (build_approval_binding R p aid)) (\<lambda>b.
          let a = new_approval p aid requester b; body = prepared_body aid (pr_action p) in
          seqc (save_approval_postgres P R a)
          (seqc (append_audit_event_postgres R ''approval.prepared'' (pr_proposed_by p) (pr_correlation p) body)
          (bnd (persist_runtime_tx_postgres P R ((new_payload (pr_correlation p) (pr_correlation p) ''approval.prepared'' body)\<lparr>
             pl_business := Some (''approval:prepare:'' @ aid)\<rparr>)) (\<lambda>_.
           seqc (on_sys (span_end R asp SP_OK [])) (ret a)))))))))"

definition prepare_approval_in_session_postgres :: "pg_env \<Rightarrow> nat \<Rightarrow> rt_env \<Rightarrow> proposal \<Rightarrow> string \<Rightarrow> approval pgc" where
  "prepare_approval_in_session_postgres P c R p requester =
     mutative_session_postgres P c (pr_correlation p) (prepare_approval_postgres P R p requester)"

definition carry_out_postgres :: "pg_env \<Rightarrow> rt_env \<Rightarrow> registry \<Rightarrow> approval \<Rightarrow> proposal \<Rightarrow> string \<Rightarrow> string \<Rightarrow> execution pgc" where
  "carry_out_postgres P R reg a p by asp =
     bnd (on_sys (execute_tool R reg (pr_action p) (pr_agent p) (pr_correlation p) (Some (pr_parameters p)) (Some (av_correlation a)) 0)) (\<lambda>r.
     bnd (on_sys (fresh_uuid R)) (\<lambda>uid. bnd (on_sys (clock R)) (\<lambda>now.
     let eff = effect_of p r uid now in
     bnd (persist_runtime_tx_postgres P R (executed_payload a p by r eff)) (\<lambda>_.
     bnd (update_approval_status_postgres P R (av_id a) APPROVED (Some by)) (\<lambda>_.
     seqc (append_audit_event_postgres R ''approval.executed'' by (pr_correlation p)
        (pdict [(''approval_id'', PStr (av_id a)), (''success'', PBool (tr_success r))]))
     (seqc (on_sys (span_end R asp (if tr_success r then SP_OK else SP_ERROR) []))
       (ret \<lparr>ex_approval = av_id a, ex_result = r, ex_effect = eff\<rparr>)))))))"

definition execute_approved_action_postgres :: "pg_env \<Rightarrow> rt_env \<Rightarrow> registry \<Rightarrow> approval \<Rightarrow> string \<Rightarrow> execution pgc" where
  "execute_approved_action_postgres P R reg a by =
     seqc (on_sys (span_begin (av_correlation a) (av_correlation a)))
     (bnd (on_sys (span_start R APPROVAL '''' [(''phase'', PStr ''execute''), (''approval_id'', PStr (av_id a))])) (\<lambda>asp.
      case av_immutable a of None \<Rightarrow> raise (ValueError ''Missing immutable proposal'')
      | Some p \<Rightarrow>
          if pr_checksum p \<noteq> proposal_checksum R p then raise (ValueError ''Checksum mismatch'')
          else bnd (lift_res (validate_binding R p a)) (\<lambda>_. bnd (on_sys (clock R)) (\<lambda>now.
            if now > utc (pr_expires p)
            then bnd (update_approval_status_postgres P R (av_id a) EXPIRED None) (\<lambda>_. raise (ValueError ''Approval expired''))
            else bnd (on_sys (reads (\<lambda>s. evaluate (sy_crisis s) (sy_biases s) (action_of p) (Some (av_correlation a)) 0))) (\<lambda>decision.
              if decision \<noteq> ALLOW \<and> decision \<noteq> ESCALATE then raise (ValueError ''Policy re-validation failed'')
              else carry_out_postgres P R reg a p by asp)))))"

definition execute_approved_action_in_session_postgres ::
  "pg_env \<Rightarrow> nat \<Rightarrow> rt_env \<Rightarrow> registry \<Rightarrow> string \<Rightarrow> string \<Rightarrow> string option \<Rightarrow> execution pgc" where
  "execute_approved_action_in_session_postgres P c R reg aid by sid =
     mutative_session_postgres P c (str_or sid aid) (bnd (fetch (select_approval aid)) (\<lambda>ao.
       case ao of None \<Rightarrow> raise (ValueError ''Approval not found or already processed'')
       | Some a \<Rightarrow> if av_status a \<noteq> APPENDING then raise (ValueError ''Approval not found or already processed'')
           else execute_approved_action_postgres P R reg a by))"

text \<open>\<open>core/policy.py\<close>, \<open>PolicyEngine.approve\<close>.\<close>

definition policy_approve_postgres :: "pg_env \<Rightarrow> rt_env \<Rightarrow> string \<Rightarrow> string \<Rightarrow> approval option pgc" where
  "policy_approve_postgres P R aid by = bnd (fetch (select_approval aid)) (\<lambda>ao. case ao of None \<Rightarrow> ret None
     | Some a \<Rightarrow> if av_status a \<noteq> APPENDING then ret None else update_approval_status_postgres P R aid APPROVED (Some by))"

section \<open>Lemmas: queries through the view\<close>

lemma dict_get_map_values: "dict_get (map (\<lambda>(k, v). (k, f v)) d) k = map_option f (dict_get d k)"
  by (induction d) auto

lemma dict_getd_keyed: "dict_getd (map (\<lambda>r. (k r, f (k r))) rs) i x = (if i \<in> k ` set rs then f i else x)"
  by (induction rs) (auto simp: dict_getd_def)

lemma map_filter_entries: "(\<And>k v. (k, v) \<in> set xs \<Longrightarrow> g k = Some v) \<Longrightarrow> List.map_filter g (map fst xs) = map snd xs"
proof (induction xs)
  case (Cons x xs)
  have g: "g (fst x) = Some (snd x)" using Cons.prems [of "fst x" "snd x"] by simp
  have "List.map_filter g (map fst xs) = map snd xs" using Cons by simp
  then show ?case by (simp add: List.map_filter_simps g)
qed (simp add: List.map_filter_simps)

text \<open>The in-memory queries on the view answer what the SQL queries answer.\<close>

lemma view_queries:
  "get_events_by_correlation (sy_db (pg_view d s)) cid = select_events cid d"
  "get_decisions_by_correlation (sy_db (pg_view d s)) cid = select_decisions cid d"
  "get_effects_by_correlation (sy_db (pg_view d s)) cid = select_effects cid d"
  "get_runtime_transitions (sy_db (pg_view d s)) sid = select_transitions sid d"
  "list_approvals_by_correlation (sy_gov (pg_view d s)) cid = select_approvals_by_correlation cid d"
  "get_replay_snapshots (pg_view d s) sid = select_snapshots sid d"
  "get_replay_baseline (pg_view d s) sid = select_baseline sid d"
  "get_replay_baseline_meta (pg_view d s) sid = select_baseline_meta sid d"
proof -
  show "get_events_by_correlation (sy_db (pg_view d s)) cid = select_events cid d"
    by (simp add: pg_view_def get_events_by_correlation_def select_events_def)
  show "get_decisions_by_correlation (sy_db (pg_view d s)) cid = select_decisions cid d"
    by (simp add: pg_view_def get_decisions_by_correlation_def select_decisions_def filter_sort)
  show "get_effects_by_correlation (sy_db (pg_view d s)) cid = select_effects cid d"
    by (simp add: pg_view_def get_effects_by_correlation_def select_effects_def filter_sort)
  show "get_runtime_transitions (sy_db (pg_view d s)) sid = select_transitions sid d"
    by (simp add: pg_view_def get_runtime_transitions_def select_transitions_def filter_sort [symmetric] filter_map comp_def)
  show "list_approvals_by_correlation (sy_gov (pg_view d s)) cid = select_approvals_by_correlation cid d"
    by (simp add: pg_view_def list_approvals_by_correlation_def select_approvals_by_correlation_def filter_map filter_sort [symmetric] comp_def)
  have "get_replay_snapshots (pg_view d s) sid =
      dict_getd (map (\<lambda>r. (fst (fst r), select_snapshots (fst (fst r)) d)) (pg_replays d)) sid []"
    by (simp add: pg_view_def get_replay_snapshots_def get_replay_snapshots_memory_def)
  also have "\<dots> = (if sid \<in> (\<lambda>r. fst (fst r)) ` set (pg_replays d) then select_snapshots sid d else [])"
    by (rule dict_getd_keyed)
  also have "\<dots> = select_snapshots sid d"
  proof -
    have "sid \<notin> (\<lambda>r. fst (fst r)) ` set (pg_replays d) \<Longrightarrow> filter (\<lambda>r. fst (fst r) = sid) (pg_replays d) = []"
      by (auto simp: filter_empty_conv)
    then show ?thesis by (simp add: select_snapshots_def)
  qed
  finally show "get_replay_snapshots (pg_view d s) sid = select_snapshots sid d" .
  show "get_replay_baseline (pg_view d s) sid = select_baseline sid d"
    by (simp add: pg_view_def get_replay_baseline_def get_baseline_fingerprint_memory_def dict_get_map_values select_baseline_def)
  show "get_replay_baseline_meta (pg_view d s) sid = select_baseline_meta sid d"
    by (simp add: pg_view_def get_replay_baseline_meta_def get_baseline_record_memory_def dict_get_map_values select_baseline_meta_def)
qed

lemma view_diagnostic_queries:
  assumes "wf_dict (pg_spans d)"
  shows "query_execution_spans (pg_view d s) sid cid = select_spans sid cid d"
    and "query_cognitive_telemetry (pg_view d s) sid cid = select_telemetry sid cid d"
    and "query_stability_events (pg_view d s) sid = select_stability sid d"
    and "query_governance_events (pg_view d s) sid = select_governance sid d"
    and "get_anomalies (sy_intel (pg_view d s)) sid = select_anomalies sid d"
proof -
  have "List.map_filter (dict_get (pg_spans d)) (dict_keys (pg_spans d)) = dict_values (pg_spans d)"
    by (rule map_filter_entries) (simp add: assms dict_get_Some_iff)
  then show "query_execution_spans (pg_view d s) sid cid = select_spans sid cid d"
    by (simp add: pg_view_def query_execution_spans_def get_spans_def span_of_def [abs_def] select_spans_def)
  show "query_cognitive_telemetry (pg_view d s) sid cid = select_telemetry sid cid d"
    by (simp add: pg_view_def query_cognitive_telemetry_def get_telemetry_def select_telemetry_def)
  show "query_stability_events (pg_view d s) sid = select_stability sid d"
    by (simp add: pg_view_def query_stability_events_def get_stability_events_def select_stability_def filter_sort)
  show "query_governance_events (pg_view d s) sid = select_governance sid d"
    by (simp add: pg_view_def query_governance_events_def get_governance_events_def select_governance_def filter_sort)
  show "get_anomalies (sy_intel (pg_view d s)) sid = select_anomalies sid d"
    by (simp add: pg_view_def get_anomalies_def select_anomalies_def)
qed

section \<open>Lemmas: computations\<close>

named_theorems pg_run "running computations over the process and the database"

lemma on_sys_run [pg_run]: "m s = (r, t) \<Longrightarrow> on_sys m (s, d) = (r, (t, d))"
  by (simp add: on_sys_def)

lemma keeps_on_sys: "(\<And>d. keeps (\<lambda>s. Q (s, d)) m) \<Longrightarrow> keeps Q (on_sys m)"
  by (auto simp: keeps_def on_sys_def split: prod.splits) (metis snd_conv)

lemma keeps_exec: "(\<And>s d. Q (s, d) \<Longrightarrow> Q (s, f d)) \<Longrightarrow> keeps Q (exec f)"
  by (auto simp: keeps_def exec_def)

lemma keeps_exec_checked: "(\<And>s d d'. Q (s, d) \<Longrightarrow> f d = Inr d' \<Longrightarrow> Q (s, d')) \<Longrightarrow> keeps Q (exec_checked f)"
  by (auto simp: keeps_def exec_checked_def split: sum.splits)

lemma keeps_fetch: "keeps Q (fetch q)"
  by (auto simp: keeps_def fetch_def)

lemma pg_keeps_reader: "keeps Q (\<lambda>(s, d). (f s d, (s, d)))"
  by (auto simp: keeps_def)

lemma keeps_exec_some: "(\<And>x s d. Q (s, d) \<Longrightarrow> Q (s, f x d)) \<Longrightarrow> keeps Q (exec_some v f)"
  by (auto simp: exec_some_def keeps_exec split: option.split)

lemma pg_keeps_case: "keeps Q m \<Longrightarrow> (\<And>x. keeps Q (f x)) \<Longrightarrow> keeps Q (case v of None \<Rightarrow> m | Some x \<Rightarrow> f x)"
  by (cases v) simp_all

lemmas pg_keeps = keeps_bnd keeps_seqc keeps_ret keeps_raise keeps_if keeps_reads keeps_lift_res keeps_fetch pg_keeps_reader pg_keeps_case

lemma bnd_exec [pg_run]: "bnd (exec f) g (s, d) = g () (s, f d)"
  by (simp add: bnd_def exec_def)

lemma bnd_fetch [pg_run]: "bnd (fetch q) g (s, d) = g (q d) (s, d)"
  by (simp add: bnd_def fetch_def)

lemma bnd_exec_some [pg_run]: "bnd (exec_some v f) g (s, d) = g () (s, when_some v f d)"
  by (cases v) (simp_all add: exec_some_def bnd_ret bnd_exec when_some_def)

lemma bnd_exec_checked [pg_run]:
  "bnd (exec_checked f) g (s, d) = (case f d of Inl e \<Rightarrow> (Inl e, (s, d)) | Inr d' \<Rightarrow> g () (s, d'))"
  by (simp add: bnd_def exec_checked_def split: sum.split)

lemma bnd_on_sys [pg_run]: "m s = (Inr x, t) \<Longrightarrow> bnd (on_sys m) g (s, d) = g x (t, d)"
  by (simp add: bnd_def on_sys_def)

lemma on_sys_clock [pg_run]: "bnd (on_sys (clock R)) g (s, d) = g (re_now R (sy_clock s)) (s\<lparr>sy_clock := sy_clock s + 1\<rparr>, d)"
  by (rule bnd_on_sys) (simp add: clock_def)

lemma on_sys_uuid [pg_run]: "bnd (on_sys (fresh_uuid R)) g (s, d) = g (re_uuid R (sy_uuid s)) (s\<lparr>sy_uuid := sy_uuid s + 1\<rparr>, d)"
  by (rule bnd_on_sys) (simp add: fresh_uuid_def)

lemma on_sys_reads [pg_run]: "bnd (on_sys (reads f)) g (s, d) = g (f s) (s, d)"
  by (rule bnd_on_sys) (simp add: reads_def)

lemma exec_run [pg_run]: "exec f (s, d) = (Inr (), (s, f d))"
  by (simp add: exec_def)

section \<open>Lemmas: which tables a step writes\<close>

text \<open>The tables of the ledger, of the approvals and of the baselines, and the locks.\<close>

definition same_tables :: "pg \<Rightarrow> pg \<Rightarrow> bool" where
  "same_tables d d' \<longleftrightarrow> pg_outbox d' = pg_outbox d \<and> pg_decisions d' = pg_decisions d \<and> pg_effects d' = pg_effects d \<and>
     pg_replays d' = pg_replays d \<and> pg_transitions d' = pg_transitions d \<and> pg_worlds d' = pg_worlds d \<and>
     pg_audit d' = pg_audit d \<and> pg_approvals d' = pg_approvals d \<and> pg_baselines d' = pg_baselines d \<and> pg_locks d' = pg_locks d \<and> pg_rowlocks d' = pg_rowlocks d"

lemma same_tables_refl [simp]: "same_tables d d"
  by (simp add: same_tables_def)

lemma same_tables_fold: "(\<And>x d. same_tables d0 d \<Longrightarrow> same_tables d0 (f x d)) \<Longrightarrow> same_tables d0 d \<Longrightarrow> same_tables d0 (fold f xs d)"
  by (induction xs arbitrary: d) simp_all

lemma same_tables_some: "(\<And>x d. same_tables d0 d \<Longrightarrow> same_tables d0 (f x d)) \<Longrightarrow> same_tables d0 d \<Longrightarrow> same_tables d0 (when_some v f d)"
  by (cases v) (simp_all add: when_some_def)

lemma same_tables_any: "(\<And>x d. same_tables d0 d \<Longrightarrow> same_tables d0 (f x d)) \<Longrightarrow> same_tables d0 d \<Longrightarrow> same_tables d0 (when_any v f d)"
  by (cases v) (simp_all add: when_any_def)

lemma write_intelligence_tables: "same_tables d (write_intelligence_postgres P heap now p d)"
  unfolding write_intelligence_postgres_def
  by (intro same_tables_fold same_tables_some)
    (simp_all add: same_tables_def insert_diagnostics_def insert_anomaly_def insert_lineage_def delete_insert_health_def
      insert_telemetry_def insert_span_def Let_def)

lemma write_adaptive_tables: "same_tables d (write_adaptive_postgres now p d)"
  unfolding write_adaptive_postgres_def
  by (intro same_tables_fold same_tables_some same_tables_any)
    (simp_all add: same_tables_def insert_governance_def insert_stability_def insert_priorities_def insert_profile_def insert_policy_def)

lemma same_tables_trans: "same_tables d d' \<Longrightarrow> same_tables d' d'' \<Longrightarrow> same_tables d d''"
  by (simp add: same_tables_def)

lemma persist_intelligence_postgres_run:
  "\<exists>n d'. persist_intelligence_postgres P R p (s, d) = (Inr (), (s\<lparr>sy_clock := n\<rparr>, d')) \<and> same_tables d d'"
proof -
  have a: "\<exists>n d'. persist_adaptive_postgres R p (t, e) = (Inr (), (t\<lparr>sy_clock := n\<rparr>, d')) \<and> same_tables e d'" for t e
  proof (cases "has_adaptive_data p")
    case True
    then show ?thesis using write_adaptive_tables by (auto simp: persist_adaptive_postgres_def pg_run)
  next
    case False
    then have "persist_adaptive_postgres R p (t, e) = (Inr (), (t\<lparr>sy_clock := sy_clock t\<rparr>, e))"
      by (simp add: persist_adaptive_postgres_def ret_def)
    then show ?thesis using same_tables_refl by blast
  qed
  show ?thesis
  proof (cases "has_intelligence_data p")
    case True
    let ?d = "write_intelligence_postgres P (sy_spans s) (re_now R (sy_clock s)) p d"
    obtain n d' where "persist_adaptive_postgres R p (s\<lparr>sy_clock := sy_clock s + 1\<rparr>, ?d) = (Inr (), (s\<lparr>sy_clock := n\<rparr>, d'))" "same_tables ?d d'"
      using a [of "s\<lparr>sy_clock := sy_clock s + 1\<rparr>" ?d] by auto
    then show ?thesis
      using True same_tables_trans [OF write_intelligence_tables] by (auto simp: persist_intelligence_postgres_def seqc_def pg_run)
  next
    case False
    then have "persist_intelligence_postgres P R p (s, d) = (Inr (), (s\<lparr>sy_clock := sy_clock s\<rparr>, d))"
      by (simp add: persist_intelligence_postgres_def ret_def)
    then show ?thesis using same_tables_refl by blast
  qed
qed

text \<open>The statements of a new event.\<close>

definition outbox_conflict :: "outbox_event \<Rightarrow> pg \<Rightarrow> bool" where
  "outbox_conflict e d \<longleftrightarrow> (\<exists>r \<in> set (pg_outbox d). ev_id r = ev_id e \<or> ev_key r = ev_key e)"

text \<open>The row of an event, and what the statements of a new event do to the tables.\<close>

definition event_row :: "pg_env \<Rightarrow> outbox_event \<Rightarrow> world_snapshot option \<Rightarrow> outbox_event" where
  "event_row P e snap = e\<lparr>ev_payload := pe_jsonb P (ev_payload e), ev_processed := False,
     ev_world_version := (case snap of None \<Rightarrow> ev_world_version e | Some w \<Rightarrow> sn_version w)\<rparr>"

definition ledger_written :: "pg_env \<Rightarrow> payload \<Rightarrow> outbox_event \<Rightarrow> world_snapshot option \<Rightarrow> pg \<Rightarrow> pg \<Rightarrow> bool" where
  "ledger_written P p e snap d d' \<longleftrightarrow> pg_outbox d' = pg_outbox d @ [event_row P e snap] \<and>
     pg_decisions d' = (case pl_decision p of None \<Rightarrow> pg_decisions d | Some r \<Rightarrow> insert_or_ignore (dr_id r) r (pg_decisions d)) \<and>
     pg_effects d' = (case pl_effect p of None \<Rightarrow> pg_effects d | Some r \<Rightarrow> insert_or_ignore (se_id r) r (pg_effects d)) \<and>
     map fst (pg_transitions d') = map fst (pg_transitions d) @ (case pl_transition p of None \<Rightarrow> [] | Some t \<Rightarrow> [t]) \<and>
     pg_audit d' = pg_audit d \<and> pg_approvals d' = pg_approvals d \<and> pg_locks d' = pg_locks d \<and> pg_rowlocks d' = pg_rowlocks d"

lemma ledger_written_spans: "ledger_written P (p\<lparr>pl_spans := us\<rparr>) e snap = ledger_written P p e snap"
  by (intro ext) (simp add: ledger_written_def)

lemma ledger_written_same: "ledger_written P p e snap d d1 \<Longrightarrow> same_tables d1 d' \<Longrightarrow> ledger_written P p e snap d d'"
  by (simp add: ledger_written_def same_tables_def)

lemma write_ledger_run:
  assumes "\<not> outbox_conflict e d"
  shows "\<exists>n d'. write_ledger P R p e snap (s, d) = (Inr (), (s\<lparr>sy_clock := n\<rparr>, d')) \<and> ledger_written P p e snap d d'"
proof -
  let ?e = "case snap of None \<Rightarrow> e | Some w \<Rightarrow> e\<lparr>ev_world_version := sn_version w\<rparr>"
  let ?d1 = "when_some (pl_effect p) insert_effect (when_some (pl_decision p) insert_decision (when_some snap insert_world d))"
  have f1: "pg_outbox ?d1 = pg_outbox d"
    "pg_decisions ?d1 = (case pl_decision p of None \<Rightarrow> pg_decisions d | Some r \<Rightarrow> insert_or_ignore (dr_id r) r (pg_decisions d))"
    "pg_effects ?d1 = (case pl_effect p of None \<Rightarrow> pg_effects d | Some r \<Rightarrow> insert_or_ignore (se_id r) r (pg_effects d))"
    "pg_transitions ?d1 = pg_transitions d" "pg_audit ?d1 = pg_audit d" "pg_approvals ?d1 = pg_approvals d" "pg_locks ?d1 = pg_locks d"
    "pg_rowlocks ?d1 = pg_rowlocks d"
    by (simp_all add: when_some_def insert_effect_def insert_decision_def insert_world_def split: option.split)
  let ?d2 = "?d1\<lparr>pg_outbox := pg_outbox d @ [?e\<lparr>ev_payload := pe_jsonb P (ev_payload ?e), ev_processed := False\<rparr>]\<rparr>"
  let ?d3 = "when_some (pl_retry p) insert_retry (write_snapshot_postgres P p ?d2)"
  have ins: "insert_outbox P ?e ?d1 = Inr ?d2"
    using assms by (auto simp: insert_outbox_def outbox_conflict_def f1 split: option.splits)
  have f3: "pg_outbox ?d3 = pg_outbox ?d2" "pg_decisions ?d3 = pg_decisions ?d2" "pg_effects ?d3 = pg_effects ?d2"
    "pg_transitions ?d3 = pg_transitions ?d2" "pg_audit ?d3 = pg_audit ?d2" "pg_approvals ?d3 = pg_approvals ?d2" "pg_locks ?d3 = pg_locks ?d2"
    "pg_rowlocks ?d3 = pg_rowlocks ?d2"
    by (simp_all add: when_some_def insert_retry_def write_snapshot_postgres_def insert_snapshot_def split: option.split)
  have run: "write_ledger P R p e snap (s, d) = (case pl_transition p of None \<Rightarrow> ret ()
      | Some t \<Rightarrow> bnd (on_sys (clock R)) (\<lambda>now. exec (insert_transition now t))) (s, ?d3)"
    unfolding write_ledger_def seqc_def pg_run ins by simp
  have out: "pg_outbox ?d3 = pg_outbox d @ [event_row P e snap]"
    unfolding f3 event_row_def by (cases snap) simp_all
  show ?thesis
  proof (cases "pl_transition p")
    case None
    then have "write_ledger P R p e snap (s, d) = (Inr (), (s\<lparr>sy_clock := sy_clock s\<rparr>, ?d3))" by (simp add: run ret_def)
    moreover have "ledger_written P p e snap d ?d3" using None by (simp add: ledger_written_def out f3(2-) f1)
    ultimately show ?thesis by blast
  next
    case (Some t)
    let ?d4 = "insert_transition (re_now R (sy_clock s)) t ?d3"
    have "write_ledger P R p e snap (s, d) = (Inr (), (s\<lparr>sy_clock := sy_clock s + 1\<rparr>, ?d4))" using Some by (simp add: run pg_run)
    moreover have "ledger_written P p e snap d ?d4" using Some by (simp add: ledger_written_def insert_transition_def out f3(2-) f1)
    ultimately show ?thesis by blast
  qed
qed

lemma write_ledger_conflict:
  assumes "outbox_conflict e d"
  shows "\<exists>t. write_ledger P R p e snap (s, d) = (Inl (UniqueViolationError ''outbox_events''), t)"
proof -
  let ?e = "case snap of None \<Rightarrow> e | Some w \<Rightarrow> e\<lparr>ev_world_version := sn_version w\<rparr>"
  let ?d1 = "when_some (pl_effect p) insert_effect (when_some (pl_decision p) insert_decision (when_some snap insert_world d))"
  have "pg_outbox ?d1 = pg_outbox d"
    by (simp add: when_some_def insert_effect_def insert_decision_def insert_world_def split: option.split)
  then have "insert_outbox P ?e ?d1 = Inl (UniqueViolationError ''outbox_events'')"
    using assms by (auto simp: insert_outbox_def outbox_conflict_def split: option.splits)
  then show ?thesis unfolding write_ledger_def seqc_def pg_run by simp
qed

lemma fetch_None: "fetch_outbox_by_idempotency k d = None \<longleftrightarrow> k \<notin> set (map ev_key (pg_outbox d))"
  by (auto simp: fetch_outbox_by_idempotency_def find_None_iff)

lemma fetch_Some: "fetch_outbox_by_idempotency k d = Some e \<Longrightarrow> e \<in> set (pg_outbox d) \<and> ev_key e = k"
  by (auto simp: fetch_outbox_by_idempotency_def find_Some_iff)

text \<open>The event that a transaction would insert.\<close>

definition next_event :: "rt_env \<Rightarrow> payload \<Rightarrow> sys \<Rightarrow> outbox_event" where
  "next_event R p s = outbox_event_of (re_env R) p (ws_version (db_world (sy_db s))) (re_uuid R (sy_uuid s)) (re_now R (sy_clock s))"

lemma persist_postgres_run:
  obtains snap k m where "snap_ok p (db_world (sy_db s)) snap"
    and "persist_runtime_tx_postgres P R p (s, d) = (case fetch_outbox_by_idempotency (payload_key (re_env R) p) d of
       Some e \<Rightarrow> bnd (on_sys (merge_pending_spans p)) (\<lambda>p1. bnd (close_postgres R p1) (\<lambda>p2.
         seqc (persist_intelligence_postgres P R p2) (ret (e, False))))
     | None \<Rightarrow> bnd (on_sys (merge_pending_spans p)) (\<lambda>p1. seqc (write_ledger P R p1 (next_event R p s) snap)
         (bnd (close_postgres R p1) (\<lambda>p2. seqc (persist_intelligence_postgres P R p2) (ret (next_event R p s, True))))))
       (s\<lparr>sy_uuid := k, sy_clock := m\<rparr>, d)"
proof -
  let ?s1 = "s\<lparr>sy_uuid := sy_uuid s + 1, sy_clock := sy_clock s + 1\<rparr>"
  obtain snap m where nw: "next_world R p (db_world (sy_db s)) ?s1 = (Inr snap, ?s1\<lparr>sy_clock := m\<rparr>)" "snap_ok p (db_world (sy_db s)) snap"
    using next_world_run by metis
  have key: "ev_key (next_event R p s) = payload_key (re_env R) p" by (simp add: next_event_def outbox_event_of_def)
  show thesis
    by (rule that [OF nw(2), where k = "sy_uuid s + 1" and m = m])
      (use nw(1) key in \<open>simp add: persist_runtime_tx_postgres_def Let_def pg_run bnd_on_sys [where m = "next_world R p (db_world (sy_db s))" and s = ?s1, OF nw(1)] next_event_def [symmetric]\<close>)
qed

lemma persist_postgres_cases:
  assumes "\<not> is_session_close p"
  obtains (replayed) e s' d' where "fetch_outbox_by_idempotency (payload_key (re_env R) p) d = Some e"
      and "persist_runtime_tx_postgres P R p (s, d) = (Inr (e, False), (s', d'))" and "same_tables d d'"
    | (inserted) s' d' snap where "fetch_outbox_by_idempotency (payload_key (re_env R) p) d = None"
      and "persist_runtime_tx_postgres P R p (s, d) = (Inr (next_event R p s, True), (s', d'))"
      and "snap_ok p (db_world (sy_db s)) snap" and "ledger_written P p (next_event R p s) snap d d'"
    | (clash) e t where "fetch_outbox_by_idempotency (payload_key (re_env R) p) d = None"
      and "re_uuid R (sy_uuid s) \<in> set (map ev_id (pg_outbox d))" and "persist_runtime_tx_postgres P R p (s, d) = (Inl e, t)"
proof -
  obtain snap k0 m where sn: "snap_ok p (db_world (sy_db s)) snap" and
    run: "persist_runtime_tx_postgres P R p (s, d) = (case fetch_outbox_by_idempotency (payload_key (re_env R) p) d of
       Some e \<Rightarrow> bnd (on_sys (merge_pending_spans p)) (\<lambda>p1. bnd (close_postgres R p1) (\<lambda>p2.
         seqc (persist_intelligence_postgres P R p2) (ret (e, False))))
     | None \<Rightarrow> bnd (on_sys (merge_pending_spans p)) (\<lambda>p1. seqc (write_ledger P R p1 (next_event R p s) snap)
         (bnd (close_postgres R p1) (\<lambda>p2. seqc (persist_intelligence_postgres P R p2) (ret (next_event R p s, True))))))
       (s\<lparr>sy_uuid := k0, sy_clock := m\<rparr>, d)"
    by (rule persist_postgres_run)
  let ?s = "s\<lparr>sy_uuid := k0, sy_clock := m\<rparr>"
  obtain us c where mr: "merge_pending_spans p ?s = (Inr (p\<lparr>pl_spans := us\<rparr>), ?s\<lparr>sy_spans := c\<rparr>)"
    using merge_run [of p ?s] by blast
  have nc: "close_postgres R (p\<lparr>pl_spans := us\<rparr>) = ret (p\<lparr>pl_spans := us\<rparr>)"
    using assms by (auto simp: close_postgres_def is_session_close_def)
  let ?e = "next_event R p s"
  have ek: "ev_key ?e = payload_key (re_env R) p" "ev_id ?e = re_uuid R (sy_uuid s)" "ev_payload ?e = pl_body p"
    "ev_world_version ?e = ws_version (db_world (sy_db s))"
    by (simp_all add: next_event_def outbox_event_of_def)
  have fin: "\<exists>n d'. seqc (persist_intelligence_postgres P R q) (ret x) (t, d0) = (Inr x, (t\<lparr>sy_clock := n\<rparr>, d')) \<and> same_tables d0 d'" for q x t d0
    using persist_intelligence_postgres_run [of P R q t d0] by (auto simp: seqc_def bnd_def ret_def)
  show thesis
  proof (cases "fetch_outbox_by_idempotency (payload_key (re_env R) p) d")
    case (Some e)
    then show ?thesis
      using fin [of "p\<lparr>pl_spans := us\<rparr>" "(e, False)" "?s\<lparr>sy_spans := c\<rparr>" d] replayed [OF Some]
      by (auto simp: run bnd_on_sys [where m = "merge_pending_spans p" and s = ?s, OF mr] nc bnd_ret)
  next
    case None
    have tail: "persist_runtime_tx_postgres P R p (s, d) = seqc (write_ledger P R (p\<lparr>pl_spans := us\<rparr>) ?e snap)
        (seqc (persist_intelligence_postgres P R (p\<lparr>pl_spans := us\<rparr>)) (ret (?e, True))) (?s\<lparr>sy_spans := c\<rparr>, d)"
      by (simp add: run None bnd_on_sys [where m = "merge_pending_spans p" and s = ?s, OF mr] nc bnd_ret)
    show ?thesis
    proof (cases "outbox_conflict ?e d")
      case False
      obtain n d1 where w: "write_ledger P R (p\<lparr>pl_spans := us\<rparr>) ?e snap (?s\<lparr>sy_spans := c\<rparr>, d) = (Inr (), (?s\<lparr>sy_spans := c\<rparr>\<lparr>sy_clock := n\<rparr>, d1))"
        "ledger_written P p ?e snap d d1"
        using write_ledger_run [OF False, of P R "p\<lparr>pl_spans := us\<rparr>" snap "?s\<lparr>sy_spans := c\<rparr>"] unfolding ledger_written_spans by blast
      obtain s' d' where f: "seqc (persist_intelligence_postgres P R (p\<lparr>pl_spans := us\<rparr>)) (ret (?e, True)) (?s\<lparr>sy_spans := c\<rparr>\<lparr>sy_clock := n\<rparr>, d1) =
          (Inr (?e, True), (s', d'))" "same_tables d1 d'"
        using fin [of "p\<lparr>pl_spans := us\<rparr>" "(?e, True)" "?s\<lparr>sy_spans := c\<rparr>\<lparr>sy_clock := n\<rparr>" d1] by blast
      have r: "persist_runtime_tx_postgres P R p (s, d) = (Inr (?e, True), (s', d'))"
        unfolding tail seqc_def [of "write_ledger P R (p\<lparr>pl_spans := us\<rparr>) ?e snap"] using f(1) by (simp add: bnd_Inr [where m = "write_ledger P R (p\<lparr>pl_spans := us\<rparr>) ?e snap", OF w(1)])
      show ?thesis
        by (rule inserted [OF None r sn ledger_written_same [OF w(2) f(2)]])
    next
      case True
      then have ids: "re_uuid R (sy_uuid s) \<in> set (map ev_id (pg_outbox d))"
        using None by (auto simp: outbox_conflict_def fetch_None ek) (metis image_eqI)+
      obtain t where "write_ledger P R (p\<lparr>pl_spans := us\<rparr>) ?e snap (?s\<lparr>sy_spans := c\<rparr>, d) = (Inl (UniqueViolationError ''outbox_events''), t)"
        using write_ledger_conflict [OF True] by blast
      then have "persist_runtime_tx_postgres P R p (s, d) = (Inl (UniqueViolationError ''outbox_events''), t)"
        unfolding tail seqc_def [of "write_ledger P R (p\<lparr>pl_spans := us\<rparr>) ?e snap"] by (simp add: bnd_Inl)
      then show ?thesis using clash [OF None ids] by blast
    qed
  qed
qed

section \<open>One ledger behind both backends\<close>

text \<open>The abstract ledger: what an event says (not its id, its time or its flag), and the records that were written with the events.\<close>

record ledger_entry =
  le_key :: string
  le_correlation :: string
  le_causation :: "string option"
  le_type :: string
  le_body :: pyval
  le_version :: int

record ledger =
  lg_entries :: "ledger_entry list"
  lg_decisions :: "decision_record list"
  lg_effects :: "side_effect list"
  lg_transitions :: "persisted_transition list"

definition ledger_append :: "payload \<Rightarrow> ledger_entry \<Rightarrow> ledger \<Rightarrow> bool \<times> ledger" where
  "ledger_append p x L = (if le_key x \<in> set (map le_key (lg_entries L)) then (False, L)
     else (True, \<lparr>lg_entries = lg_entries L @ [x],
       lg_decisions = lg_decisions L @ (case pl_decision p of None \<Rightarrow> [] | Some r \<Rightarrow> [r]),
       lg_effects = lg_effects L @ (case pl_effect p of None \<Rightarrow> [] | Some r \<Rightarrow> [r]),
       lg_transitions = lg_transitions L @ (case pl_transition p of None \<Rightarrow> [] | Some t \<Rightarrow> [t])\<rparr>))"

definition entry_of :: "outbox_event \<Rightarrow> ledger_entry" where
  "entry_of e = \<lparr>le_key = ev_key e, le_correlation = ev_correlation e, le_causation = ev_causation e, le_type = ev_type e,
     le_body = ev_payload e, le_version = ev_world_version e\<rparr>"

definition memory_ledger :: "pg_env \<Rightarrow> sys \<Rightarrow> ledger" where
  "memory_ledger P s = \<lparr>lg_entries = map (\<lambda>e. entry_of (e\<lparr>ev_payload := pe_jsonb P (ev_payload e)\<rparr>)) (db_outbox (sy_db s)),
     lg_decisions = db_decisions (sy_db s), lg_effects = db_effects (sy_db s), lg_transitions = db_transitions (sy_db s)\<rparr>"

definition postgres_ledger :: "pg \<Rightarrow> ledger" where
  "postgres_ledger d = \<lparr>lg_entries = map entry_of (pg_outbox d), lg_decisions = dict_values (pg_decisions d),
     lg_effects = dict_values (pg_effects d), lg_transitions = map fst (pg_transitions d)\<rparr>"

definition payload_entry :: "pg_env \<Rightarrow> rt_env \<Rightarrow> payload \<Rightarrow> int \<Rightarrow> ledger_entry" where
  "payload_entry P R p v = \<lparr>le_key = payload_key (re_env R) p, le_correlation = pl_correlation p, le_causation = pl_causation p,
     le_type = pl_type p, le_body = pe_jsonb P (pl_body p), le_version = v\<rparr>"

lemma ledger_keys:
  "map le_key (lg_entries (memory_ledger P s)) = outbox_keys s"
  "map le_key (lg_entries (postgres_ledger d)) = map ev_key (pg_outbox d)"
  by (simp_all add: memory_ledger_def postgres_ledger_def entry_of_def outbox_keys_def comp_def)

lemma insert_or_ignore_values: "k \<notin> set (dict_keys d) \<Longrightarrow> dict_values (insert_or_ignore k v d) = dict_values d @ [v]"
proof -
  assume k: "k \<notin> set (dict_keys d)"
  then have "dict_set k v d = d @ [(k, v)]" by (induction d) auto
  then show ?thesis using k by (simp add: insert_or_ignore_def dict_get_None_iff)
qed

lemma memory_refines:
  assumes "\<not> is_session_close p" and "\<not> pl_update_world p"
  shows "\<exists>e ins s'. persist_runtime_tx R p s = (Inr (e, ins), s') \<and>
    (ins, memory_ledger P s') = ledger_append p (payload_entry P R p (ws_version (db_world (sy_db s)))) (memory_ledger P s)"
proof -
  obtain e ins s' where r: "persist_runtime_tx R p s = (Inr (e, ins), s')" using persist_tx_total [OF assms(1)] by blast
  from r have "(ins, memory_ledger P s') = ledger_append p (payload_entry P R p (ws_version (db_world (sy_db s)))) (memory_ledger P s)"
  proof (cases rule: persist_tx_cases)
    case (replayed p2 n m t)
    have "payload_key (re_env R) p \<in> set (outbox_keys s)"
      using outbox_lookup_Some [OF replayed(2)] by (force simp: outbox_keys_def)
    then show ?thesis
      using replayed same_ledger_parts [OF replayed(4)] unfolding ledger_append_def ledger_keys
      by (simp add: payload_entry_def memory_ledger_def)
  next
    case (inserted p2 n m t snap)
    obtain us h an dg where p2: "p2 = p\<lparr>pl_spans := us, pl_health := h, pl_anomalies := an, pl_diagnostics := dg\<rparr>"
      using merge_and_close_payload [OF inserted(3)] by blast
    have "payload_key (re_env R) p \<notin> set (outbox_keys s)" using inserted(2) by (simp add: outbox_lookup_None outbox_keys_def)
    then show ?thesis
      using inserted same_ledger_parts [OF inserted(4)] assms(2) unfolding ledger_append_def ledger_keys
      by (simp add: payload_entry_def memory_ledger_def p2 write_db_prepared entry_of_def outbox_event_of_def)
  qed
  then show ?thesis using r by blast
qed

lemma postgres_refines:
  assumes "\<not> is_session_close p" and "\<not> pl_update_world p"
    and "re_uuid R (sy_uuid s) \<notin> set (map ev_id (pg_outbox d))"
    and "\<forall>r. pl_decision p = Some r \<longrightarrow> dr_id r \<notin> set (dict_keys (pg_decisions d))"
    and "\<forall>r. pl_effect p = Some r \<longrightarrow> se_id r \<notin> set (dict_keys (pg_effects d))"
  shows "\<exists>e ins s' d'. persist_runtime_tx_postgres P R p (s, d) = (Inr (e, ins), (s', d')) \<and>
    (ins, postgres_ledger d') = ledger_append p (payload_entry P R p (ws_version (db_world (sy_db s)))) (postgres_ledger d)"
  using assms(1)
proof (cases rule: persist_postgres_cases [where P = P and R = R and s = s and d = d])
  case (replayed e s' d')
  have "payload_key (re_env R) p \<in> set (map ev_key (pg_outbox d))" using fetch_Some [OF replayed(1)] by (metis imageI list.set_map)
  moreover have "postgres_ledger d' = postgres_ledger d" using replayed(3) by (simp add: postgres_ledger_def same_tables_def)
  ultimately have "(False, postgres_ledger d') = ledger_append p (payload_entry P R p (ws_version (db_world (sy_db s)))) (postgres_ledger d)"
    unfolding ledger_append_def ledger_keys by (simp add: payload_entry_def)
  then show ?thesis using replayed(2) by blast
next
  case (inserted s' d' snap)
  have k: "payload_key (re_env R) p \<notin> set (map ev_key (pg_outbox d))" by (rule fetch_None [THEN iffD1, OF inserted(1)])
  have "snap = None" using inserted(3) assms(2) by (simp add: snap_ok_def)
  then have "entry_of (event_row P (next_event R p s) snap) = payload_entry P R p (ws_version (db_world (sy_db s)))"
    by (simp add: entry_of_def event_row_def next_event_def outbox_event_of_def payload_entry_def)
  then have "(True, postgres_ledger d') = ledger_append p (payload_entry P R p (ws_version (db_world (sy_db s)))) (postgres_ledger d)"
    using k inserted(4) assms(4,5) unfolding ledger_append_def ledger_keys
    by (auto simp add: payload_entry_def postgres_ledger_def ledger_written_def insert_or_ignore_values split: option.split)
  then show ?thesis using inserted(2) by blast
qed (use assms(3) in blast)

text \<open>C9: memory and Postgres are two implementations of one ledger: from states with the same abstract ledger and the same world
  version, a transaction that neither closes a session nor updates the world returns on both backends, reports the same about insertion, and
  leaves both with the ledger that results from appending the entry of the payload once per key together with its decision, side
  effect and transition (on Postgres when the ids it writes are new to their tables, which is what uuid4 promises).\<close>

theorem backends_refine_one_ledger:
  assumes "memory_ledger P s = L" and "postgres_ledger d = L" and "ws_version (db_world (sy_db t)) = ws_version (db_world (sy_db s))"
    and "\<not> is_session_close p" and "\<not> pl_update_world p"
    and "re_uuid R (sy_uuid t) \<notin> set (map ev_id (pg_outbox d))"
    and "\<forall>r. pl_decision p = Some r \<longrightarrow> dr_id r \<notin> set (dict_keys (pg_decisions d))"
    and "\<forall>r. pl_effect p = Some r \<longrightarrow> se_id r \<notin> set (dict_keys (pg_effects d))"
  shows "\<exists>e1 e2 ins s' t' d' L'. persist_runtime_tx R p s = (Inr (e1, ins), s') \<and>
    persist_runtime_tx_postgres P R p (t, d) = (Inr (e2, ins), (t', d')) \<and>
    (ins, L') = ledger_append p (payload_entry P R p (ws_version (db_world (sy_db s)))) L \<and>
    memory_ledger P s' = L' \<and> postgres_ledger d' = L'"
proof -
  obtain e1 ins s' where m: "persist_runtime_tx R p s = (Inr (e1, ins), s')"
    "(ins, memory_ledger P s') = ledger_append p (payload_entry P R p (ws_version (db_world (sy_db s)))) L"
    using memory_refines [OF assms(4,5), of R s P] unfolding assms(1) by blast
  obtain e2 ins2 t' d' where q: "persist_runtime_tx_postgres P R p (t, d) = (Inr (e2, ins2), (t', d'))"
    "(ins2, postgres_ledger d') = ledger_append p (payload_entry P R p (ws_version (db_world (sy_db s)))) L"
    using postgres_refines [OF assms(4-8), of P] unfolding assms(2,3) by blast
  have "ins2 = ins \<and> postgres_ledger d' = memory_ledger P s'" using m(2) q(2) by (metis prod.inject)
  then show ?thesis using m q(1) by blast
qed

definition demo_pg :: pg_env where
  "demo_pg = \<lparr>pe_jsonb = id, pe_hashtext = (\<lambda>s. int (length s)), pe_collate = id\<rparr>"

theorem backends_refine_one_ledger_witness:
  "\<exists>e1 e2 ins s' t' d'. persist_runtime_tx demo_env demo_payload init_sys = (Inr (e1, ins), s') \<and>
    persist_runtime_tx_postgres demo_pg demo_env demo_payload (init_sys, init_schema) = (Inr (e2, ins), (t', d')) \<and>
    memory_ledger demo_pg s' = postgres_ledger d'"
proof -
  have l: "memory_ledger demo_pg init_sys = postgres_ledger init_schema"
    by (simp add: memory_ledger_def postgres_ledger_def init_sys_def reset_db_def init_schema_def)
  have p: "\<not> is_session_close demo_payload" "\<not> pl_update_world demo_payload" "pl_decision demo_payload = None" "pl_effect demo_payload = None"
    by (simp_all add: demo_payload_def new_payload_def is_session_close_def)
  show ?thesis
    using backends_refine_one_ledger [OF l refl refl p(1,2), of demo_env] by (auto simp: p init_schema_def)
qed

section \<open>Sessions on Postgres\<close>

text \<open>A connection without an open transaction holds no locks.\<close>

definition idle :: "nat \<Rightarrow> pg \<Rightarrow> bool" where
  "idle c d \<longleftrightarrow> (\<forall>l \<in> set (pg_locks d). fst l \<noteq> c) \<and> (\<forall>l \<in> set (pg_rowlocks d). fst l \<noteq> c)"

definition lock_free :: "pg_env \<Rightarrow> nat \<Rightarrow> string \<Rightarrow> pg \<Rightarrow> bool" where
  "lock_free P c sid d \<longleftrightarrow> (\<forall>l \<in> set (pg_locks d). snd l = pe_hashtext P sid \<longrightarrow> fst l = c)"

lemma idle_release: "idle c d \<Longrightarrow> release_connection c d = d"
proof -
  assume "idle c d"
  then have "filter (\<lambda>l. fst l \<noteq> c) (pg_locks d) = pg_locks d" "filter (\<lambda>l. fst l \<noteq> c) (pg_rowlocks d) = pg_rowlocks d"
    by (auto simp: idle_def filter_id_conv)
  then show ?thesis by (simp add: release_connection_def)
qed

lemma released_idle: "idle c (release_connection c d)"
  by (simp add: idle_def release_connection_def)

lemma release_tables [simp]:
  "pg_approvals (release_connection c d) = pg_approvals d" "pg_outbox (release_connection c d) = pg_outbox d"
  "select_approval aid (release_connection c d) = select_approval aid d"
  by (simp_all add: release_connection_def select_approval_def)

definition with_lock :: "pg_env \<Rightarrow> nat \<Rightarrow> string \<Rightarrow> pg \<Rightarrow> pg" where
  "with_lock P c sid d = d\<lparr>pg_locks := (c, pe_hashtext P sid) # pg_locks d\<rparr>"

lemma with_lock_tables [simp]:
  "pg_approvals (with_lock P c sid d) = pg_approvals d" "pg_outbox (with_lock P c sid d) = pg_outbox d"
  "select_approval aid (with_lock P c sid d) = select_approval aid d"
  by (simp_all add: with_lock_def select_approval_def)

lemma session_blocked:
  "idle c d \<Longrightarrow> \<not> lock_free P c sid d \<Longrightarrow> mutative_session_postgres P c sid body (s, d) = (Inl (SessionLockError sid), (s, d))"
  by (auto simp: mutative_session_postgres_def transaction_def acquire_session_lock_postgres_def advisory_enter_def lock_free_def seqc_def
      bnd_assoc bnd_fetch bnd_raise raise_def idle_release)

lemma session_free:
  assumes "idle c d" and "lock_free P c sid d"
  shows "mutative_session_postgres P c sid body (s, d) = (case body (s, with_lock P c sid d) of
     (Inl e, (t, d')) \<Rightarrow> (Inl e, (t, d)) | (Inr x, (t, d')) \<Rightarrow> (Inr x, (t, release_connection c d')))"
proof -
  have "advisory_enter (c, pe_hashtext P sid) (pg_locks d) = Some ((c, pe_hashtext P sid) # pg_locks d)"
    using assms(2) by (auto simp: advisory_enter_def lock_free_def)
  then show ?thesis
    by (simp add: mutative_session_postgres_def transaction_def acquire_session_lock_postgres_def seqc_def bnd_assoc bnd_fetch bnd_exec
        with_lock_def idle_release [OF assms(1)] split: prod.split sum.split)
qed

lemma session_error:
  assumes "idle c d" and "mutative_session_postgres P c sid body (s, d) = (Inl e, (t, d'))"
  shows "d' = d"
proof (cases "lock_free P c sid d")
  case True
  then show ?thesis using assms(2) unfolding session_free [OF assms(1) True] by (auto split: prod.splits sum.splits)
next
  case False
  then show ?thesis using assms(2) unfolding session_blocked [OF assms(1) False] by simp
qed

lemma session_ok:
  assumes "idle c d" and "mutative_session_postgres P c sid body (s, d) = (Inr x, (t, d'))"
  obtains d1 where "lock_free P c sid d" and "body (s, with_lock P c sid d) = (Inr x, (t, d1))" and "d' = release_connection c d1"
proof -
  have lf: "lock_free P c sid d" using assms(2) session_blocked [OF assms(1), of P sid body s] by (cases "lock_free P c sid d") simp_all
  then show thesis
    using assms(2) that unfolding session_free [OF assms(1) lf] by (auto split: prod.splits sum.splits)
qed

text \<open>C16: a session on Postgres is all or nothing: whatever its body does, if it raises (or the lock of the session, or of one with the
  same \<open>hashtext\<close>, is held by another connection) the database is exactly what it was, while the body's changes of the process stay; if
  it returns, its tables are the body's; and either way the connection holds no lock afterwards.\<close>

theorem postgres_session_atomic:
  assumes "idle c d"
  shows "case mutative_session_postgres P c sid body (s, d) of
     (Inl e, (t, d')) \<Rightarrow> d' = d \<and> (if lock_free P c sid d then \<exists>d1. body (s, with_lock P c sid d) = (Inl e, (t, d1))
       else e = SessionLockError sid \<and> t = s)
   | (Inr x, (t, d')) \<Rightarrow> lock_free P c sid d \<and> idle c d' \<and>
       (\<exists>d1. body (s, with_lock P c sid d) = (Inr x, (t, d1)) \<and> d' = release_connection c d1)"
proof (cases "lock_free P c sid d")
  case True
  show ?thesis
    unfolding session_free [OF assms True] using True released_idle by (auto split: prod.split sum.split)
next
  case False
  then show ?thesis by (simp add: session_blocked [OF assms False])
qed

theorem postgres_session_atomic_witness:
  "\<exists>t. mutative_session_postgres demo_pg 0 ''s'' (seqc (exec (insert_baseline ''s'' ''c'' ''f'')) (raise AttributeError) :: unit pgc) (init_sys, init_schema) =
     (Inl AttributeError, (t, init_schema))"
proof -
  have i: "idle 0 init_schema" and f: "lock_free demo_pg 0 ''s'' init_schema" by (simp_all add: idle_def lock_free_def init_schema_def)
  let ?b = "seqc (exec (insert_baseline ''s'' ''c'' ''f'')) (raise AttributeError) :: unit pgc"
  have "fst (mutative_session_postgres demo_pg 0 ''s'' ?b (init_sys, init_schema)) = Inl AttributeError"
    unfolding session_free [OF i f] by (simp add: seqc_def bnd_exec raise_def)
  then obtain t d where r: "mutative_session_postgres demo_pg 0 ''s'' ?b (init_sys, init_schema) = (Inl AttributeError, (t, d))"
    by (metis prod.collapse)
  then show ?thesis using postgres_session_atomic [OF i, of demo_pg "''s''" ?b init_sys] by simp
qed

section \<open>Approvals on Postgres\<close>

lemma pg_approval_start: "\<exists>c. seqc (on_sys (span_begin sid cid)) (bnd (on_sys (span_start R ty rs meta)) f) (s, d) =
    f (re_uuid R (sy_uuid s)) (s\<lparr>sy_uuid := sy_uuid s + 1, sy_clock := sy_clock s + 1, sy_spans := c\<rparr>, d)"
proof -
  have b: "span_begin sid cid s = (Inr (), s\<lparr>sy_spans := begin_session sid cid (sy_spans s)\<rparr>)"
    by (simp add: span_begin_def on_spans_def mods_def)
  have st: "span_start R ty rs meta u = (Inr (re_uuid R (sy_uuid u)), u\<lparr>sy_uuid := sy_uuid u + 1, sy_clock := sy_clock u + 1, sy_spans :=
       snd (start_span (re_env R) (re_uuid R (sy_uuid u)) (re_now R (sy_clock u)) ty rs None meta (sy_spans u))\<rparr>)" for u
    using span_start_run [of R ty rs meta ret u] by (simp add: bnd_def ret_def split: prod.splits sum.splits)
  show ?thesis
    unfolding seqc_def bnd_on_sys [where m = "span_begin sid cid", OF b] bnd_on_sys [where m = "span_start R ty rs meta", OF st]
    by (rule exI) simp
qed

lemma find_update: "List.find (\<lambda>r. av_id (pa_data r) = k) (update_approval_row a rs) =
   (case List.find (\<lambda>r. av_id (pa_data r) = k) rs of None \<Rightarrow> None
    | Some r \<Rightarrow> Some (if av_id a = k then r\<lparr>pa_data := a, pa_status := av_status a\<rparr> else r))"
  by (induction rs) (auto split: option.splits)

lemma approval_json_fields [simp]:
  "av_id (approval_json P a) = av_id a" "av_status (approval_json P a) = av_status a" "av_binding (approval_json P a) = av_binding a"
  by (simp_all add: approval_json_def)

lemma select_id: "select_approval aid d = Some a \<Longrightarrow> av_id a = aid \<and> av_id a \<in> set (map (av_id \<circ> pa_data) (pg_approvals d))"
  by (force simp: select_approval_def find_Some_iff)

text \<open>Setting the status of a stored approval.\<close>

lemma update_status_run:
  assumes "select_approval aid d = Some a"
  obtains n d' a' where "update_approval_status_postgres P R aid st by (s, d) = (Inr (Some a'), (s\<lparr>sy_clock := n\<rparr>, d'))"
    and "select_approval aid d' = Some (approval_json P a')" and "av_status a' = st"
proof -
  have mem: "aid \<in> set (map (av_id \<circ> pa_data) (pg_approvals d))" using select_id [OF assms] by metis
  have ins: "insert_approval P now b d = Inr (d\<lparr>pg_approvals := update_approval_row (approval_json P b) (pg_approvals d)\<rparr>)" if "av_id b = aid" for now b
    using mem that unfolding insert_approval_def Let_def by (simp only: if_True)
  have sel: "select_approval aid (d\<lparr>pg_approvals := update_approval_row (approval_json P b) (pg_approvals d)\<rparr>) = Some (approval_json P b)" if "av_id b = aid" for b
    using assms that by (auto simp: select_approval_def find_update split: option.split)
  have id: "av_id a = aid" using select_id [OF assms] by blast
  show thesis
  proof (cases "str_or by '''' = ''''")
    case True
    let ?b = "a\<lparr>av_status := st\<rparr>"
    have i: "av_id ?b = aid" using id by simp
    show ?thesis
      by (rule that [OF _ sel [OF i], where n = "sy_clock s + 1"])
        (simp_all add: update_approval_status_postgres_def save_approval_postgres_def bnd_fetch assms True seqc_def bnd_assoc on_sys_clock
          bnd_exec_checked ins i ret_def)
  next
    case False
    let ?b = "a\<lparr>av_status := st, av_approved_by := by, av_approved_at := Some (re_now R (sy_clock s))\<rparr>"
    have i: "av_id ?b = aid" using id by simp
    show ?thesis
      by (rule that [OF _ sel [OF i], where n = "sy_clock s + 2"])
        (simp_all add: update_approval_status_postgres_def save_approval_postgres_def bnd_fetch assms False seqc_def bnd_assoc on_sys_clock
          bnd_exec_checked ins i ret_def Let_def)
  qed
qed

lemma pg_execute_guards:
  "\<exists>c. execute_approved_action_postgres P R reg a by (s, d) =
     (case av_immutable a of None \<Rightarrow> raise (ValueError ''Missing immutable proposal'')
      | Some p \<Rightarrow>
          if pr_checksum p \<noteq> proposal_checksum R p then raise (ValueError ''Checksum mismatch'')
          else bnd (lift_res (validate_binding R p a)) (\<lambda>_. bnd (on_sys (clock R)) (\<lambda>now.
            if now > utc (pr_expires p)
            then bnd (update_approval_status_postgres P R (av_id a) EXPIRED None) (\<lambda>_. raise (ValueError ''Approval expired''))
            else carry_out_postgres P R reg a p by (re_uuid R (sy_uuid s)))))
     (s\<lparr>sy_uuid := sy_uuid s + 1, sy_clock := sy_clock s + 1, sy_spans := c\<rparr>, d)"
proof -
  have "bnd (on_sys (reads (\<lambda>s. evaluate (sy_crisis s) (sy_biases s) ap sid x))) (\<lambda>decision.
      if decision \<noteq> ALLOW \<and> decision \<noteq> ESCALATE then m else n) = n" for ap sid x and m n :: "execution pgc"
    by (rule ext) (use evaluate_not_deny(2) [of _ _ ap sid x] in \<open>clarsimp simp: on_sys_reads; metis\<close>)
  note simp = this
  show ?thesis
    unfolding execute_approved_action_postgres_def simp by (rule pg_approval_start)
qed

text \<open>C39: what becomes of an approval that has expired depends on the backend: executing it raises on both, but in memory it is then
  stored with status EXPIRED, while on Postgres the transaction that set the status is rolled back with the exception, so that the approval
  stays pending and the database is as it was, every time.\<close>

theorem expiry_is_rolled_back:
  assumes "av_status a = APPENDING" and "av_id a = aid" and "av_immutable a = Some p" and "pr_checksum p = proposal_checksum R p"
    and "validate_binding R p a = Inr ()" and "utc (pr_expires p) < re_now R (sy_clock s + 1)"
    and "idle c d" and "lock_free P c (str_or sid aid) d" and "select_approval aid d = Some a"
    and "str_or sid aid \<notin> set (sy_locks s)" and "load_approval (sy_gov s) aid = Some a"
  shows "(\<exists>t. execute_approved_action_in_session_postgres P c R reg aid by sid (s, d) = (Inl (ValueError ''Approval expired''), (t, d))) \<and>
    (\<exists>t a'. execute_approved_action_in_session R reg aid by sid s = (Inl (ValueError ''Approval expired''), t) \<and>
       load_approval (sy_gov t) aid = Some a' \<and> av_status a' = EXPIRED)"
proof
  let ?d = "with_lock P c (str_or sid aid) d"
  obtain u where g: "execute_approved_action_postgres P R reg a by (s, ?d) =
      bnd (update_approval_status_postgres P R aid EXPIRED None) (\<lambda>_. raise (ValueError ''Approval expired'')) (u, ?d)"
    using pg_execute_guards [of P R reg a "by" s ?d] assms(2-6) by (auto simp: bnd_lift_res on_sys_clock)
  obtain n d' a' where "update_approval_status_postgres P R aid EXPIRED None (u, ?d) = (Inr (Some a'), (u\<lparr>sy_clock := n\<rparr>, d'))"
    by (rule update_status_run [of aid ?d a]) (use assms(9) in simp_all)
  then have e: "fst (execute_approved_action_postgres P R reg a by (s, ?d)) = Inl (ValueError ''Approval expired'')"
    unfolding g by (simp add: bnd_def [of "update_approval_status_postgres _ _ _ _ _"] raise_def)
  then obtain t d1 where "execute_approved_action_postgres P R reg a by (s, ?d) = (Inl (ValueError ''Approval expired''), (t, d1))"
    by (metis prod.collapse)
  then show "\<exists>t. execute_approved_action_in_session_postgres P c R reg aid by sid (s, d) = (Inl (ValueError ''Approval expired''), (t, d))"
    unfolding execute_approved_action_in_session_postgres_def session_free [OF assms(7,8)]
    using assms(1,9) by (simp add: bnd_fetch)
next
  let ?s = "s\<lparr>sy_locks := str_or sid aid # sy_locks s\<rparr>"
  obtain u where g: "execute_approved_action R reg a by ?s =
      seqc (set_approval_status R aid EXPIRED None) (raise (ValueError ''Approval expired'')) u" "sy_gov u = sy_gov s"
    using execute_guards [of R reg a "by" ?s] assms(2-6) by (auto simp: bnd_lift_res clock_run)
  obtain n g' a' where st: "set_approval_status R aid EXPIRED None u = (Inr (), u\<lparr>sy_clock := n, sy_gov := g'\<rparr>)"
    "load_approval g' aid = Some a'" "av_status a' = EXPIRED"
    using set_status_run [of u aid a R EXPIRED None] assms(2,11) g(2) by auto
  have "execute_approved_action R reg a by ?s = (Inl (ValueError ''Approval expired''), u\<lparr>sy_clock := n, sy_gov := g'\<rparr>)"
    unfolding g(1) seqc_def by (simp add: bnd_def [of "set_approval_status _ _ _ _"] st(1) raise_def)
  then have "execute_approved_action_in_session R reg aid by sid s = (Inl (ValueError ''Approval expired''),
      u\<lparr>sy_clock := n, sy_gov := g', sy_locks := lock_leave (str_or sid aid) (sy_locks u)\<rparr>)"
    unfolding execute_approved_action_in_session_def run_free [OF assms(10)]
    using assms(1,11) by (simp add: bnd_reads)
  then show "\<exists>t a'. execute_approved_action_in_session R reg aid by sid s = (Inl (ValueError ''Approval expired''), t) \<and>
       load_approval (sy_gov t) aid = Some a' \<and> av_status a' = EXPIRED"
    using st(2,3) by auto
qed
theorem expiry_is_rolled_back_witness:
  "\<exists>t. execute_approved_action_in_session_postgres demo_pg 0 demo_env critical_registry ''a'' ''me'' None
      (demo_pending\<lparr>sy_clock := 5000\<rparr>, init_schema\<lparr>pg_approvals := [\<lparr>pa_hash = ''d'', pa_data = demo_approval, pa_status = APPENDING, pa_created = 0\<rparr>]\<rparr>) =
     (Inl (ValueError ''Approval expired''), (t, init_schema\<lparr>pg_approvals := [\<lparr>pa_hash = ''d'', pa_data = demo_approval, pa_status = APPENDING, pa_created = 0\<rparr>]\<rparr>))"
proof -
  let ?d = "init_schema\<lparr>pg_approvals := [\<lparr>pa_hash = ''d'', pa_data = demo_approval, pa_status = APPENDING, pa_created = 0\<rparr>]\<rparr>"
  have e: "utc (pr_expires demo_immutable) < re_now demo_env (sy_clock (demo_pending\<lparr>sy_clock := 5000\<rparr>) + 1)"
    by (simp add: demo_now demo_approval_ok)
  have d: "idle 0 ?d" "lock_free demo_pg 0 (str_or None ''a'') ?d" "select_approval ''a'' ?d = Some demo_approval"
    by (simp_all add: idle_def lock_free_def init_schema_def select_approval_def demo_approval_ok)
  have m: "str_or None ''a'' \<notin> set (sy_locks (demo_pending\<lparr>sy_clock := 5000\<rparr>))" "load_approval (sy_gov (demo_pending\<lparr>sy_clock := 5000\<rparr>)) ''a'' = Some demo_approval"
    by (simp_all add: demo_pending_fields demo_pending_gov)
  show ?thesis
    using expiry_is_rolled_back [OF demo_approval_ok(2,1,3,4,5) e d m, of critical_registry "''me''"] by blast
qed

text \<open>Opening a preparation.\<close>

lemma pg_prepare_open:
  obtains asp c where "prepare_approval_postgres P R p requester (s, d) = (if pr_checksum p \<noteq> proposal_checksum R p then raise (ValueError ''Proposal checksum invalid'')
      else bnd (on_sys (fresh_uuid R)) (\<lambda>aid. bnd (on_sys (build_approval_binding R p aid)) (\<lambda>b.
          seqc (save_approval_postgres P R (new_approval p aid requester b))
          (seqc (append_audit_event_postgres R ''approval.prepared'' (pr_proposed_by p) (pr_correlation p) (prepared_body aid (pr_action p)))
          (bnd (persist_runtime_tx_postgres P R (prepared_payload p aid)) (\<lambda>_. seqc (on_sys (span_end R asp SP_OK [])) (ret (new_approval p aid requester b))))))))
      (s\<lparr>sy_uuid := sy_uuid s + 1, sy_clock := sy_clock s + 1, sy_spans := c\<rparr>, d)"
proof -
  have nd: "bnd (on_sys (reads (\<lambda>s. evaluate (sy_crisis s) (sy_biases s) ap sid x))) (\<lambda>decision.
      if decision = DENY then m else n) = n" for ap sid x and m n :: "approval pgc"
    by (rule ext) (clarsimp simp: on_sys_reads evaluate_not_deny(1))
  let ?go = "\<lambda>asp. if pr_checksum p \<noteq> proposal_checksum R p then raise (ValueError ''Proposal checksum invalid'')
      else bnd (on_sys (fresh_uuid R)) (\<lambda>aid. bnd (on_sys (build_approval_binding R p aid)) (\<lambda>b.
          seqc (save_approval_postgres P R (new_approval p aid requester b))
          (seqc (append_audit_event_postgres R ''approval.prepared'' (pr_proposed_by p) (pr_correlation p) (prepared_body aid (pr_action p)))
          (bnd (persist_runtime_tx_postgres P R (prepared_payload p aid)) (\<lambda>_. seqc (on_sys (span_end R asp SP_OK [])) (ret (new_approval p aid requester b)))))))"
  show thesis
    using pg_approval_start [of "pr_correlation p" "pr_correlation p" R APPROVAL "''''" "[(''phase'', PStr ''prepare''), (''action'', PStr (pr_action p))]"
      ?go s d] that
    unfolding prepare_approval_postgres_def nd Let_def prepared_payload_def by blast
qed

lemma binding_run: "\<exists>b n. build_approval_binding R p aid s = (Inr b, s\<lparr>sy_clock := n\<rparr>) \<and> bi_action_hash b = action_hash R (pr_action p) (pr_agent p)"
  by (simp add: build_approval_binding_def bnd_reads clock_run ret_def) (metis)

lemma av_binding_new: "av_binding (new_approval p aid requester b) = Some b"
  by (simp add: new_approval_def)

lemma insert_approval_hash:
  "insert_approval P now (new_approval p aid requester b) d = Inr d' \<Longrightarrow> aid \<notin> set (map (av_id \<circ> pa_data) (pg_approvals d)) \<Longrightarrow>
     bi_action_hash b \<in> set (map pa_hash (pg_approvals d')) \<and> map (av_id \<circ> pa_data) (pg_approvals d') = map (av_id \<circ> pa_data) (pg_approvals d) @ [aid]"
  by (auto simp: insert_approval_def Let_def av_id_new av_binding_new split: if_splits)

text \<open>The statements after the insertion of an approval keep the approvals.\<close>

lemma audit_postgres_run: "\<exists>t d'. append_audit_event_postgres R ty ac cid b (s, d) = (Inr (), (t, d')) \<and> pg_approvals d' = pg_approvals d \<and>
    pg_outbox d' = pg_outbox d"
  by (simp add: append_audit_event_postgres_def pg_run insert_audit_def)

lemma persist_postgres_approvals:
  "persist_runtime_tx_postgres P R p (s, d) = (Inr r, (t, d')) \<Longrightarrow> \<not> is_session_close p \<Longrightarrow> pg_approvals d' = pg_approvals d"
  by (erule persist_postgres_cases [where P = P and R = R and s = s and d = d]) (auto simp: same_tables_def ledger_written_def)

lemma prepared_payload_open: "\<not> is_session_close (prepared_payload p aid)"
  by (simp add: prepared_payload_def new_payload_def is_session_close_def)
lemma pg_prepare_steps:
  assumes "pr_checksum p = proposal_checksum R p" and "re_uuid R (sy_uuid s + 1) = aid"
  obtains asp v b where "bi_action_hash b = action_hash R (pr_action p) (pr_agent p)"
    and "prepare_approval_postgres P R p requester (s, d) = seqc (save_approval_postgres P R (new_approval p aid requester b))
          (seqc (append_audit_event_postgres R ''approval.prepared'' (pr_proposed_by p) (pr_correlation p) (prepared_body aid (pr_action p)))
          (bnd (persist_runtime_tx_postgres P R (prepared_payload p aid)) (\<lambda>_. seqc (on_sys (span_end R asp SP_OK [])) (ret (new_approval p aid requester b))))) (v, d)"
proof -
  let ?go = "\<lambda>asp aid. bnd (on_sys (build_approval_binding R p aid)) (\<lambda>b.
          seqc (save_approval_postgres P R (new_approval p aid requester b))
          (seqc (append_audit_event_postgres R ''approval.prepared'' (pr_proposed_by p) (pr_correlation p) (prepared_body aid (pr_action p)))
          (bnd (persist_runtime_tx_postgres P R (prepared_payload p aid)) (\<lambda>_. seqc (on_sys (span_end R asp SP_OK [])) (ret (new_approval p aid requester b))))))"
  obtain asp c where "prepare_approval_postgres P R p requester (s, d) = bnd (on_sys (fresh_uuid R)) (?go asp)
      (s\<lparr>sy_uuid := sy_uuid s + 1, sy_clock := sy_clock s + 1, sy_spans := c\<rparr>, d)"
    using assms(1) by (rule_tac pg_prepare_open [of P R p requester s d]) simp
  then obtain u where u: "prepare_approval_postgres P R p requester (s, d) = bnd (on_sys (fresh_uuid R)) (?go asp) (u, d)" "sy_uuid u = sy_uuid s + 1"
    by (rule that) simp
  have u2: "bnd (on_sys (fresh_uuid R)) (?go asp) (u, d) = ?go asp aid (u\<lparr>sy_uuid := sy_uuid u + 1\<rparr>, d)"
    unfolding on_sys_uuid u(2) assms(2) ..
  obtain b v where b: "build_approval_binding R p aid (u\<lparr>sy_uuid := sy_uuid u + 1\<rparr>) = (Inr b, v)" "bi_action_hash b = action_hash R (pr_action p) (pr_agent p)"
    using binding_run by metis
  show thesis
    by (rule that [OF b(2)]) (simp only: u(1) u2 bnd_on_sys [where m = "build_approval_binding R p aid", OF b(1)])
qed

lemma pg_prepare_checked:
  assumes "prepare_approval_postgres P R p requester (s, d) = (Inr a, t)"
  shows "pr_checksum p = proposal_checksum R p"
proof (rule ccontr)
  assume "pr_checksum p \<noteq> proposal_checksum R p"
  then show False using assms pg_prepare_open [of P R p requester s d] by (auto simp: raise_def)
qed

lemma pg_prepare_hash:
  assumes "prepare_approval_postgres P R p requester (s, d) = (Inr a, (t, d'))"
    and "re_uuid R (sy_uuid s + 1) \<notin> set (map (av_id \<circ> pa_data) (pg_approvals d))"
  shows "action_hash R (pr_action p) (pr_agent p) \<in> set (map pa_hash (pg_approvals d')) \<and>
    map (av_id \<circ> pa_data) (pg_approvals d') = map (av_id \<circ> pa_data) (pg_approvals d) @ [re_uuid R (sy_uuid s + 1)]"
proof -
  obtain aid where aid: "re_uuid R (sy_uuid s + 1) = aid" by blast
  obtain asp v b where b: "bi_action_hash b = action_hash R (pr_action p) (pr_agent p)"
    and go: "prepare_approval_postgres P R p requester (s, d) = seqc (save_approval_postgres P R (new_approval p aid requester b))
          (seqc (append_audit_event_postgres R ''approval.prepared'' (pr_proposed_by p) (pr_correlation p) (prepared_body aid (pr_action p)))
          (bnd (persist_runtime_tx_postgres P R (prepared_payload p aid)) (\<lambda>_. seqc (on_sys (span_end R asp SP_OK [])) (ret (new_approval p aid requester b))))) (v, d)"
    by (rule pg_prepare_steps [OF pg_prepare_checked [OF assms(1)] aid])
  let ?new = "new_approval p aid requester b"
  obtain v1 d1 where s1: "save_approval_postgres P R ?new (v, d) = (Inr (), (v1, d1))"
    and r1: "seqc (append_audit_event_postgres R ''approval.prepared'' (pr_proposed_by p) (pr_correlation p) (prepared_body aid (pr_action p)))
          (bnd (persist_runtime_tx_postgres P R (prepared_payload p aid)) (\<lambda>_. seqc (on_sys (span_end R asp SP_OK [])) (ret ?new))) (v1, d1) = (Inr a, (t, d'))"
    using assms(1) go by (auto simp: seqc_def [of "save_approval_postgres _ _ _"] elim!: bnd_InrE)
  have h1: "bi_action_hash b \<in> set (map pa_hash (pg_approvals d1)) \<and>
      map (av_id \<circ> pa_data) (pg_approvals d1) = map (av_id \<circ> pa_data) (pg_approvals d) @ [aid]"
  proof -
    have "insert_approval P (re_now R (sy_clock v)) ?new d = Inr d1"
      using s1 by (auto simp: save_approval_postgres_def on_sys_clock exec_checked_def split: sum.splits)
    then show ?thesis using insert_approval_hash assms(2) aid by metis
  qed
  obtain v2 d2 where k: "pg_approvals d2 = pg_approvals d1"
    and r2: "bnd (persist_runtime_tx_postgres P R (prepared_payload p aid)) (\<lambda>_. seqc (on_sys (span_end R asp SP_OK [])) (ret ?new)) (v2, d2) = (Inr a, (t, d'))"
    using audit_postgres_run [of R "''approval.prepared''" "pr_proposed_by p" "pr_correlation p" "prepared_body aid (pr_action p)" v1 d1] r1
    by (auto simp: seqc_def [of "append_audit_event_postgres _ _ _ _ _"] bnd_Inr)
  obtain r v3 d3 where r3: "persist_runtime_tx_postgres P R (prepared_payload p aid) (v2, d2) = (Inr r, (v3, d3))"
    and e: "seqc (on_sys (span_end R asp SP_OK [])) (ret ?new) (v3, d3) = (Inr a, (t, d'))"
    using r2 by (auto elim!: bnd_InrE [of "persist_runtime_tx_postgres _ _ _"])
  have "d' = d3" using e by (auto simp: seqc_def bnd_def on_sys_def ret_def split: prod.splits sum.splits)
  then have "pg_approvals d' = pg_approvals d1"
    using persist_postgres_approvals [OF r3 prepared_payload_open] k by simp
  then show ?thesis using h1 b aid by simp
qed

text \<open>A first preparation of an action succeeds.\<close>

lemma pg_prepare_total:
  assumes "pr_checksum p = proposal_checksum R p" and "action_hash R (pr_action p) (pr_agent p) \<notin> set (map pa_hash (pg_approvals d))"
    and "re_uuid R (sy_uuid s + 1) \<notin> set (map (av_id \<circ> pa_data) (pg_approvals d))" and "\<And>n. re_uuid R n \<notin> set (map ev_id (pg_outbox d))"
  shows "\<exists>a t d'. prepare_approval_postgres P R p requester (s, d) = (Inr a, (t, d'))"
proof -
  obtain aid where aid: "re_uuid R (sy_uuid s + 1) = aid" by blast
  obtain asp v b where b: "bi_action_hash b = action_hash R (pr_action p) (pr_agent p)"
    and go: "prepare_approval_postgres P R p requester (s, d) = seqc (save_approval_postgres P R (new_approval p aid requester b))
          (seqc (append_audit_event_postgres R ''approval.prepared'' (pr_proposed_by p) (pr_correlation p) (prepared_body aid (pr_action p)))
          (bnd (persist_runtime_tx_postgres P R (prepared_payload p aid)) (\<lambda>_. seqc (on_sys (span_end R asp SP_OK [])) (ret (new_approval p aid requester b))))) (v, d)"
    by (rule pg_prepare_steps [OF assms(1) aid])
  let ?new = "new_approval p aid requester b"
  have i: "\<exists>d1. insert_approval P now ?new d = Inr d1 \<and> pg_outbox d1 = pg_outbox d" for now
    using assms(2,3) b aid by (simp add: insert_approval_def av_id_new av_binding_new)
  obtain d1 where d1: "insert_approval P (re_now R (sy_clock v)) ?new d = Inr d1" "pg_outbox d1 = pg_outbox d" using i by blast
  obtain v1 where s1: "save_approval_postgres P R ?new (v, d) = (Inr (), (v1, d1))"
    by (simp add: save_approval_postgres_def on_sys_clock exec_checked_def d1)
  obtain v2 d2 where s2: "append_audit_event_postgres R ''approval.prepared'' (pr_proposed_by p) (pr_correlation p) (prepared_body aid (pr_action p)) (v1, d1) = (Inr (), (v2, d2))"
    "pg_outbox d2 = pg_outbox d1"
    using audit_postgres_run by metis
  obtain r v3 d3 where s3: "persist_runtime_tx_postgres P R (prepared_payload p aid) (v2, d2) = (Inr r, (v3, d3))"
    by (rule persist_postgres_cases [OF prepared_payload_open, of R p aid d2 P v2]) (use assms(4) d1(2) s2(2) in auto)
  have e: "\<exists>t. seqc (on_sys (span_end R asp SP_OK [])) (ret ?new) (v3, d3) = (Inr ?new, (t, d3))"
    using span_end_run [of R asp SP_OK "[]" ret v3] by (simp add: seqc_def bnd_def on_sys_def ret_def split: prod.splits sum.splits)
  show ?thesis
    unfolding go seqc_def [of "save_approval_postgres _ _ _"] seqc_def [of "append_audit_event_postgres _ _ _ _ _"]  bnd_Inr [where m = "save_approval_postgres _ _ _", OF s1]
      bnd_Inr [where m = "append_audit_event_postgres _ _ _ _ _", OF s2(1)] bnd_Inr [where m = "persist_runtime_tx_postgres _ _ _", OF s3]
    using e by blast
qed

lemma pg_prepare_refused:
  assumes "pr_checksum q = proposal_checksum R q" and "action_hash R (pr_action q) (pr_agent q) \<in> set (map pa_hash (pg_approvals d))"
    and "re_uuid R (sy_uuid s + 1) \<notin> set (map (av_id \<circ> pa_data) (pg_approvals d))"
  shows "\<exists>t. prepare_approval_postgres P R q requester (s, d) = (Inl (UniqueViolationError ''approvals''), t)"
proof -
  obtain aid where aid: "re_uuid R (sy_uuid s + 1) = aid" by blast
  obtain asp v b where b: "bi_action_hash b = action_hash R (pr_action q) (pr_agent q)"
    and go: "prepare_approval_postgres P R q requester (s, d) = seqc (save_approval_postgres P R (new_approval q aid requester b))
          (seqc (append_audit_event_postgres R ''approval.prepared'' (pr_proposed_by q) (pr_correlation q) (prepared_body aid (pr_action q)))
          (bnd (persist_runtime_tx_postgres P R (prepared_payload q aid)) (\<lambda>_. seqc (on_sys (span_end R asp SP_OK [])) (ret (new_approval q aid requester b))))) (v, d)"
    by (rule pg_prepare_steps [OF assms(1) aid])
  have i: "insert_approval P now (new_approval q aid requester b) d = Inl (UniqueViolationError ''approvals'')" for now
    using assms(2,3) b aid by (simp add: insert_approval_def av_id_new av_binding_new)
  have s1: "save_approval_postgres P R (new_approval q aid requester b) (v, d) =
      (Inl (UniqueViolationError ''approvals''), (v\<lparr>sy_clock := sy_clock v + 1\<rparr>, d))"
    by (simp add: save_approval_postgres_def on_sys_clock exec_checked_def i)
  show ?thesis
    by (simp add: go seqc_def [of "save_approval_postgres _ _ _"] bnd_def [of "save_approval_postgres _ _ _"] s1)
qed

text \<open>C40: on Postgres an action can be prepared for approval once: the approvals have a unique hash of the action and the agent, so
  after a prepared approval every other proposal of the same action by the same agent, whatever its parameters and however the first
  approval ended, is refused (with a unique violation, when its session is not locked) and leaves the database as it was, while the in-memory backend prepares it.\<close>

theorem second_approval_of_an_action_fails:
  assumes "prepare_approval_in_session_postgres P c R p requester (s, d) = (Inr a, (s1, d1))" and "idle c d"
    and "re_uuid R (sy_uuid s + 1) \<notin> set (map (av_id \<circ> pa_data) (pg_approvals d))"
    and "set (map pa_hash (pg_approvals d1)) \<subseteq> set (map pa_hash (pg_approvals d2))"
    and "pr_action q = pr_action p" and "pr_agent q = pr_agent p" and "pr_checksum q = proposal_checksum R q"
    and "idle c' d2"
    and "re_uuid R (sy_uuid s2 + 1) \<notin> set (map (av_id \<circ> pa_data) (pg_approvals d2))"
  shows "(\<exists>t. prepare_approval_in_session_postgres P c' R q requester' (s2, d2) =
      (Inl (if lock_free P c' (pr_correlation q) d2 then UniqueViolationError ''approvals'' else SessionLockError (pr_correlation q)), (t, d2))) \<and>
    (\<exists>a' t. prepare_approval R q requester' s2 = (Inr a', t))"
proof
  obtain d0 where b: "prepare_approval_postgres P R p requester (s, with_lock P c (pr_correlation p) d) = (Inr a, (s1, d0))" "d1 = release_connection c d0"
    using session_ok [OF assms(2) assms(1) [unfolded prepare_approval_in_session_postgres_def]] by metis
  have "action_hash R (pr_action p) (pr_agent p) \<in> set (map pa_hash (pg_approvals d0))"
    using pg_prepare_hash [OF b(1)] assms(3) by simp
  then have h: "action_hash R (pr_action q) (pr_agent q) \<in> set (map pa_hash (pg_approvals (with_lock P c' (pr_correlation q) d2)))"
    using assms(4-6) b(2) by auto
  obtain t e where "prepare_approval_postgres P R q requester' (s2, with_lock P c' (pr_correlation q) d2) = (Inl (UniqueViolationError ''approvals''), (t, e))"
    using pg_prepare_refused [OF assms(7) h, of s2 P requester'] assms(9) by auto
  then show "\<exists>t. prepare_approval_in_session_postgres P c' R q requester' (s2, d2) =
      (Inl (if lock_free P c' (pr_correlation q) d2 then UniqueViolationError ''approvals'' else SessionLockError (pr_correlation q)), (t, d2))"
    unfolding prepare_approval_in_session_postgres_def
    by (cases "lock_free P c' (pr_correlation q) d2") (simp_all add: session_free [OF assms(8)] session_blocked [OF assms(8)])
next
  show "\<exists>a' t. prepare_approval R q requester' s2 = (Inr a', t)" using prepare_total [OF assms(7)] .
qed

theorem second_approval_of_an_action_fails_witness:
  "\<exists>s a t d e. prepare_approval_in_session_postgres demo_pg 0 demo_env demo_immutable ''cto'' (init_sys, init_schema) = (Inr a, (s, d)) \<and>
     prepare_approval_in_session_postgres demo_pg 0 demo_env demo_immutable ''ceo'' (s\<lparr>sy_uuid := 5\<rparr>, d) = (Inl e, (t, d))"
proof -
  have i: "idle 0 init_schema" "lock_free demo_pg 0 (pr_correlation demo_immutable) init_schema"
    by (simp_all add: idle_def lock_free_def init_schema_def)
  obtain a s d0 where r: "prepare_approval_postgres demo_pg demo_env demo_immutable ''cto'' (init_sys, with_lock demo_pg 0 (pr_correlation demo_immutable) init_schema) = (Inr a, (s, d0))"
    using pg_prepare_total [OF demo_approval_ok(4), of "with_lock demo_pg 0 (pr_correlation demo_immutable) init_schema" init_sys demo_pg "''cto''"]
    by (auto simp: init_schema_def)
  let ?d = "release_connection 0 d0"
  have p: "prepare_approval_in_session_postgres demo_pg 0 demo_env demo_immutable ''cto'' (init_sys, init_schema) = (Inr a, (s, ?d))"
    unfolding prepare_approval_in_session_postgres_def session_free [OF i] by (simp add: r)
  have ids: "map (av_id \<circ> pa_data) (pg_approvals ?d) = [re_uuid demo_env 1]"
    using pg_prepare_hash [OF r] by (simp add: init_schema_def init_sys_def)
  have "show_nat 6 \<noteq> show_nat 1" by code_simp
  then have f: "re_uuid demo_env (sy_uuid (s\<lparr>sy_uuid := 5\<rparr>) + 1) \<notin> set (map (av_id \<circ> pa_data) (pg_approvals ?d))"
    unfolding ids by (simp add: demo_env_def)
  have e: "re_uuid demo_env (sy_uuid init_sys + 1) \<notin> set (map (av_id \<circ> pa_data) (pg_approvals init_schema))" by (simp add: init_schema_def)
  show ?thesis
    using second_approval_of_an_action_fails [OF p i(1) e subset_refl refl refl demo_approval_ok(4) released_idle f, of "''ceo''"] p by blast
qed
lemma pg_bnd_raises: "bnd m (\<lambda>_. raise e) u \<noteq> (Inr x, y)" for m :: "'a pgc"
  by (auto simp: bnd_def raise_def split: prod.splits sum.splits)

text \<open>Carrying out an approved action that is stored: if it returns, the approval is marked.\<close>

lemma select_approvals: "pg_approvals d' = pg_approvals d \<Longrightarrow> select_approval aid d' = select_approval aid d"
  by (simp add: select_approval_def)

lemma on_sys_InrE: "bnd (on_sys m) f (s, d) = (Inr x, y) \<Longrightarrow> \<exists>r u. m s = (Inr r, u) \<and> f r (u, d) = (Inr x, y)"
  by (auto simp: bnd_def on_sys_def split: prod.splits sum.splits)

lemma span_tail: "seqc (on_sys m) (ret y) (v, e) = (Inr x, (t, d')) \<Longrightarrow> d' = e"
  by (auto simp: seqc_def bnd_def on_sys_def ret_def split: prod.splits sum.splits)

lemma pg_carry_out_marks:
  assumes "carry_out_postgres P R reg a p by asp (s, d) = (Inr x, (t, d'))" and "select_approval (av_id a) d = Some a0"
  shows "\<exists>a'. select_approval (av_id a) d' = Some a' \<and> av_status a' = APPROVED"
proof -
  obtain r u where r: "execute_tool R reg (pr_action p) (pr_agent p) (pr_correlation p) (Some (pr_parameters p)) (Some (av_correlation a)) 0 s = (Inr r, u)"
    and s1: "bnd (on_sys (fresh_uuid R)) (\<lambda>uid. bnd (on_sys (clock R)) (\<lambda>now.
       bnd (persist_runtime_tx_postgres P R (executed_payload a p by r (effect_of p r uid now))) (\<lambda>_.
       bnd (update_approval_status_postgres P R (av_id a) APPROVED (Some by)) (\<lambda>_.
       seqc (append_audit_event_postgres R ''approval.executed'' by (pr_correlation p)
          (pdict [(''approval_id'', PStr (av_id a)), (''success'', PBool (tr_success r))]))
       (seqc (on_sys (span_end R asp (if tr_success r then SP_OK else SP_ERROR) []))
         (ret \<lparr>ex_approval = av_id a, ex_result = r, ex_effect = effect_of p r uid now\<rparr>)))))) (u, d) = (Inr x, (t, d'))"
    using assms(1) unfolding carry_out_postgres_def Let_def by (blast dest: on_sys_InrE)
  let ?tail = "\<lambda>eff. bnd (update_approval_status_postgres P R (av_id a) APPROVED (Some by)) (\<lambda>_.
       seqc (append_audit_event_postgres R ''approval.executed'' by (pr_correlation p)
          (pdict [(''approval_id'', PStr (av_id a)), (''success'', PBool (tr_success r))]))
       (seqc (on_sys (span_end R asp (if tr_success r then SP_OK else SP_ERROR) []))
         (ret \<lparr>ex_approval = av_id a, ex_result = r, ex_effect = eff\<rparr>)))"
  obtain eff v where "bnd (persist_runtime_tx_postgres P R (executed_payload a p by r eff)) (\<lambda>_. ?tail eff) (v, d) = (Inr x, (t, d'))"
    using s1 unfolding on_sys_uuid on_sys_clock by blast
  then obtain q v1 d1 where "persist_runtime_tx_postgres P R (executed_payload a p by r eff) (v, d) = (Inr q, (v1, d1))"
    and s2: "?tail eff (v1, d1) = (Inr x, (t, d'))"
    by (auto elim!: bnd_InrE [of "persist_runtime_tx_postgres _ _ _"])
  then have "select_approval (av_id a) d1 = Some a0"
    using persist_postgres_approvals [OF _ executed_payload_open] assms(2) select_approvals by metis
  then obtain n d2 a' where "update_approval_status_postgres P R (av_id a) APPROVED (Some by) (v1, d1) = (Inr (Some a'), (v1\<lparr>sy_clock := n\<rparr>, d2))"
    and sel: "select_approval (av_id a) d2 = Some (approval_json P a')" "av_status a' = APPROVED"
    by (rule update_status_run)
  then have "seqc (append_audit_event_postgres R ''approval.executed'' by (pr_correlation p)
          (pdict [(''approval_id'', PStr (av_id a)), (''success'', PBool (tr_success r))]))
       (seqc (on_sys (span_end R asp (if tr_success r then SP_OK else SP_ERROR) []))
         (ret \<lparr>ex_approval = av_id a, ex_result = r, ex_effect = eff\<rparr>)) (v1\<lparr>sy_clock := n\<rparr>, d2) = (Inr x, (t, d'))"
    using s2 by (simp add: bnd_Inr [where m = "update_approval_status_postgres _ _ _ _ _"])
  moreover obtain v3 d3 where "append_audit_event_postgres R ''approval.executed'' by (pr_correlation p)
      (pdict [(''approval_id'', PStr (av_id a)), (''success'', PBool (tr_success r))]) (v1\<lparr>sy_clock := n\<rparr>, d2) = (Inr (), (v3, d3))"
    and d3: "pg_approvals d3 = pg_approvals d2"
    using audit_postgres_run [of R "''approval.executed''" "by" "pr_correlation p" _ "v1\<lparr>sy_clock := n\<rparr>" d2] by blast
  ultimately have "seqc (on_sys (span_end R asp (if tr_success r then SP_OK else SP_ERROR) []))
         (ret \<lparr>ex_approval = av_id a, ex_result = r, ex_effect = eff\<rparr>) (v3, d3) = (Inr x, (t, d'))"
    by (simp only: seqc_def [of "append_audit_event_postgres _ _ _ _ _"] bnd_Inr [where m = "append_audit_event_postgres _ _ _ _ _"])
  from span_tail [OF this] have "pg_approvals d' = pg_approvals d2" using d3 by simp
  from select_approvals [OF this] show ?thesis using sel by simp
qed

lemma pg_carry_out_result:
  assumes "carry_out_postgres P R reg a p by asp (s, d) = (Inr x, y)"
  shows "\<exists>u. execute_tool R reg (pr_action p) (pr_agent p) (pr_correlation p) (Some (pr_parameters p)) (Some (av_correlation a)) 0 s = (Inr (ex_result x), u)"
  using assms unfolding carry_out_postgres_def Let_def seqc_def on_sys_def
  by (auto elim!: bnd_InrE simp: ret_def split: prod.splits)

lemma pg_execute_carried:
  assumes "execute_approved_action_postgres P R reg a by (s, d) = (Inr x, y)"
  shows "\<exists>p asp u. av_immutable a = Some p \<and> carry_out_postgres P R reg a p by asp (u, d) = (Inr x, y)"
proof -
  let ?go = "\<lambda>p. bnd (on_sys (clock R)) (\<lambda>now.
            if now > utc (pr_expires p)
            then bnd (update_approval_status_postgres P R (av_id a) EXPIRED None) (\<lambda>_. raise (ValueError ''Approval expired''))
            else carry_out_postgres P R reg a p by (re_uuid R (sy_uuid s)))"
  obtain u where g: "execute_approved_action_postgres P R reg a by (s, d) =
     (case av_immutable a of None \<Rightarrow> raise (ValueError ''Missing immutable proposal'')
      | Some p \<Rightarrow> if pr_checksum p \<noteq> proposal_checksum R p then raise (ValueError ''Checksum mismatch'')
          else bnd (lift_res (validate_binding R p a)) (\<lambda>_. ?go p)) (u, d)"
    using pg_execute_guards [of P R reg a "by" s d] by blast
  obtain p where p: "av_immutable a = Some p" using assms g by (cases "av_immutable a") (simp_all add: raise_def)
  have ck: "pr_checksum p = proposal_checksum R p" using assms g p by (simp add: raise_def split: if_splits)
  obtain q where v: "validate_binding R p a = Inr q"
    using assms g p ck by (cases "validate_binding R p a") (simp_all add: bnd_lift_res)
  have "?go p (u, d) = (Inr x, y)" using assms g p ck v by (simp add: bnd_lift_res)
  then have "carry_out_postgres P R reg a p by (re_uuid R (sy_uuid s)) (u\<lparr>sy_clock := sy_clock u + 1\<rparr>, d) = (Inr x, y)"
    by (simp add: on_sys_clock pg_bnd_raises split: if_splits)
  then show ?thesis using p by blast
qed


text \<open>Nothing after the tool call raises, when the new ids are new.\<close>

lemma pg_carry_out_returns:
  assumes "execute_tool R reg (pr_action p) (pr_agent p) (pr_correlation p) (Some (pr_parameters p)) (Some (av_correlation a)) 0 s = (Inr r, s1)"
    and "select_approval (av_id a) d = Some a0" and "pg_outbox d = []"
  shows "\<exists>x t d'. carry_out_postgres P R reg a p by asp (s, d) = (Inr x, (t, d'))"
proof -
  let ?s2 = "s1\<lparr>sy_uuid := sy_uuid s1 + 1\<rparr>\<lparr>sy_clock := sy_clock (s1\<lparr>sy_uuid := sy_uuid s1 + 1\<rparr>) + 1\<rparr>"
  let ?eff = "effect_of p r (re_uuid R (sy_uuid s1)) (re_now R (sy_clock (s1\<lparr>sy_uuid := sy_uuid s1 + 1\<rparr>)))"
  obtain q s3 d3 where tx: "persist_runtime_tx_postgres P R (executed_payload a p by r ?eff) (?s2, d) = (Inr q, (s3, d3))"
    by (rule persist_postgres_cases [OF executed_payload_open, of R a p "by" r ?eff d P ?s2]) (use assms(3) in auto)
  from select_approvals [OF persist_postgres_approvals [OF this executed_payload_open]] have "select_approval (av_id a) d3 = Some a0"
    using assms(2) by simp
  then obtain n d4 a' where st: "update_approval_status_postgres P R (av_id a) APPROVED (Some by) (s3, d3) = (Inr (Some a'), (s3\<lparr>sy_clock := n\<rparr>, d4))"
    by (rule update_status_run)
  let ?body = "pdict [(''approval_id'', PStr (av_id a)), (''success'', PBool (tr_success r))]"
  obtain s5 d5 where au: "append_audit_event_postgres R ''approval.executed'' by (pr_correlation p) ?body (s3\<lparr>sy_clock := n\<rparr>, d4) = (Inr (), (s5, d5))"
    using audit_postgres_run by blast
  obtain s6 where sp: "span_end R asp (if tr_success r then SP_OK else SP_ERROR) [] s5 = (Inr (), s6)"
    using span_end_run [of R asp "if tr_success r then SP_OK else SP_ERROR" "[]" ret s5] by (simp add: bnd_def ret_def split: prod.splits sum.splits)
  show ?thesis
    unfolding carry_out_postgres_def Let_def seqc_def bnd_on_sys [where m = "execute_tool _ _ _ _ _ _ _ _", OF assms(1)] on_sys_uuid on_sys_clock
      bnd_Inr [where m = "persist_runtime_tx_postgres _ _ _", OF tx] bnd_Inr [where m = "update_approval_status_postgres _ _ _ _ _", OF st]
      bnd_Inr [where m = "append_audit_event_postgres _ _ _ _ _", OF au] bnd_on_sys [where m = "span_end _ _ _ _", OF sp] ret_def
    by blast
qed

definition demo_rows :: pg where
  "demo_rows = init_schema\<lparr>pg_approvals := [\<lparr>pa_hash = ''d'', pa_data = demo_approval, pa_status = APPENDING, pa_created = 0\<rparr>]\<rparr>"

lemma demo_rows_ok: "idle c demo_rows" "lock_free P c sid demo_rows" "pg_outbox demo_rows = []"
    "select_approval ''a'' demo_rows = Some demo_approval"
  by (simp_all add: demo_rows_def idle_def lock_free_def init_schema_def select_approval_def demo_approval_ok)


end
