(* ===== verification/Outbox.thy ===== *)
theory Outbox
  imports Transaction "HOL-Library.Product_Lexorder"
begin

text \<open>
  \<open>workers/outbox_processor.py\<close>: the worker that hands the events of the outbox to their consumer, in memory
  mode.  The events of a batch are ordered by correlation and creation, and each is flagged after it was handled.
\<close>

section \<open>The worker\<close>

text \<open>The consumer of one event; what raises inside it makes it \<open>False\<close>.\<close>

definition event_health :: "settings \<Rightarrow> outbox_event \<Rightarrow> health_registry \<Rightarrow> health_registry" where
  "event_health S e r = (if ev_type e = ''decision.recorded''
     then (case as_str (vgetd (ev_payload e) ''agent'' (PStr ''unknown'')) of None \<Rightarrow> r
       | Some agent \<Rightarrow> record_run_sync S agent True 0 r)
     else r)"

definition handle_event :: "rt_env \<Rightarrow> outbox_event \<Rightarrow> bool rt" where
  "handle_event R e = (if ev_type e = ''decision.recorded'' \<and> \<not> is_dict (ev_payload e) then ret False
     else seqc (mods (\<lambda>s. s\<lparr>sy_health := event_health (re_settings R) e (sy_health s)\<rparr>)) (ret True))"

text \<open>The events of a batch, by their position in the outbox.\<close>

definition outbox_batch :: "int \<Rightarrow> db \<Rightarrow> nat list" where
  "outbox_batch limit d = map fst (py_take limit (sort_key (\<lambda>p. (ev_correlation (snd p), ev_created (snd p)))
     (filter (\<lambda>p. \<not> ev_processed (snd p)) (enumerate 0 (db_outbox d)))))"

definition mark_done :: "nat \<Rightarrow> db \<Rightarrow> db" where
  "mark_done i d = d\<lparr>db_outbox := (db_outbox d)[i := (db_outbox d ! i)\<lparr>ev_processed := True\<rparr>],
     db_processed := db_processed d @ [ev_key (db_outbox d ! i)]\<rparr>"

fun outbox_each :: "rt_env \<Rightarrow> nat list \<Rightarrow> nat \<Rightarrow> nat rt" where
  "outbox_each R [] n = ret n"
| "outbox_each R (i # is) n = bnd (reads (\<lambda>s. db_outbox (sy_db s) ! i)) (\<lambda>e.
     bnd (reads (\<lambda>s. ev_key e \<in> set (db_processed (sy_db s)))) (\<lambda>seen.
     if seen then outbox_each R is n
     else bnd (handle_event R e) (\<lambda>ok. if \<not> ok then outbox_each R is n
       else seqc (on_db (mark_done i)) (outbox_each R is (n + 1)))))"

definition process_outbox_batch_memory :: "rt_env \<Rightarrow> int \<Rightarrow> nat rt" where
  "process_outbox_batch_memory R limit = bnd (reads (\<lambda>s. outbox_batch limit (sy_db s))) (\<lambda>is. outbox_each R is 0)"

definition process_outbox_batch_auto :: "rt_env \<Rightarrow> int \<Rightarrow> nat rt" where
  "process_outbox_batch_auto = process_outbox_batch_memory"

text \<open>\<open>run_outbox_worker\<close>, the first \<open>n\<close> rounds of its endless loop, with the default batch size.\<close>

fun run_outbox_worker :: "rt_env \<Rightarrow> nat \<Rightarrow> unit rt" where
  "run_outbox_worker R 0 = ret ()"
| "run_outbox_worker R (Suc n) = bnd (process_outbox_batch_auto R 50) (\<lambda>_. run_outbox_worker R n)"

section \<open>Lemmas\<close>

text \<open>The flag of an event and the set of processed keys agree, keys are unique and payloads are dictionaries.\<close>

definition outbox_ok :: "db \<Rightarrow> bool" where
  "outbox_ok d \<longleftrightarrow> distinct (map ev_key (db_outbox d)) \<and>
     (\<forall>e \<in> set (db_outbox d). is_dict (ev_payload e) \<and> (ev_processed e \<longleftrightarrow> ev_key e \<in> set (db_processed d)))"

definition backlog :: "db \<Rightarrow> nat" where
  "backlog d = length (filter (\<lambda>e. \<not> ev_processed e) (db_outbox d))"

definition flagged :: "nat set \<Rightarrow> db \<Rightarrow> outbox_event list" where
  "flagged I d = map (\<lambda>i. if i \<in> I then (db_outbox d ! i)\<lparr>ev_processed := True\<rparr> else db_outbox d ! i) [0..<length (db_outbox d)]"

lemma mark_done_fields [simp]:
  "length (db_outbox (mark_done i d)) = length (db_outbox d)"
  "j < length (db_outbox d) \<Longrightarrow> db_outbox (mark_done i d) ! j = (if j = i then (db_outbox d ! i)\<lparr>ev_processed := True\<rparr> else db_outbox d ! j)"
  "db_processed (mark_done i d) = db_processed d @ [ev_key (db_outbox d ! i)]"
  by (simp_all add: mark_done_def nth_list_update)

lemma fold_mark_fields:
  "length (db_outbox (fold mark_done is d)) = length (db_outbox d)"
  "j < length (db_outbox d) \<Longrightarrow> db_outbox (fold mark_done is d) ! j = (if j \<in> set is then (db_outbox d ! j)\<lparr>ev_processed := True\<rparr> else db_outbox d ! j)"
  "set is \<subseteq> {..<length (db_outbox d)} \<Longrightarrow> set (db_processed (fold mark_done is d)) = set (db_processed d) \<union> (\<lambda>i. ev_key (db_outbox d ! i)) ` set is"
proof -
  show len: "length (db_outbox (fold mark_done is d)) = length (db_outbox d)" for "is" d
    by (induction "is" arbitrary: d) simp_all
  show nth: "j < length (db_outbox d) \<Longrightarrow> db_outbox (fold mark_done is d) ! j = (if j \<in> set is then (db_outbox d ! j)\<lparr>ev_processed := True\<rparr> else db_outbox d ! j)"
    for "is" d by (induction "is" arbitrary: d) auto
  show "set is \<subseteq> {..<length (db_outbox d)} \<Longrightarrow> set (db_processed (fold mark_done is d)) = set (db_processed d) \<union> (\<lambda>i. ev_key (db_outbox d ! i)) ` set is"
  proof (induction "is" arbitrary: d)
    case Nil
    then show ?case by simp
  next
    case (Cons i "is")
    have "(\<lambda>j. ev_key (db_outbox (mark_done i d) ! j)) ` set is = (\<lambda>j. ev_key (db_outbox d ! j)) ` set is"
      using Cons.prems by (intro image_cong) auto
    then show ?case using Cons.IH [of "mark_done i d"] Cons.prems by auto
  qed
qed

lemma fold_mark_outbox: "db_outbox (fold mark_done is d) = flagged (set is) d"
  by (rule nth_equalityI) (simp_all add: fold_mark_fields flagged_def)

lemma key_inj: "distinct (map f xs) \<Longrightarrow> i < length xs \<Longrightarrow> j < length xs \<Longrightarrow> f (xs ! i) = f (xs ! j) \<longleftrightarrow> i = j"
  by (metis length_map nth_eq_iff_index_eq nth_map)

lemma each_run:
  assumes "distinct is" and "\<forall>i \<in> set is. i < length (db_outbox (sy_db s)) \<and> is_dict (ev_payload (db_outbox (sy_db s) ! i)) \<and>
      ev_key (db_outbox (sy_db s) ! i) \<notin> set (db_processed (sy_db s))"
    and "distinct (map ev_key (db_outbox (sy_db s)))"
  shows "outbox_each R is n s = (Inr (n + length is), s\<lparr>sy_db := fold mark_done is (sy_db s),
      sy_health := fold (\<lambda>i. event_health (re_settings R) (db_outbox (sy_db s) ! i)) is (sy_health s)\<rparr>)"
  using assms
proof (induction "is" arbitrary: n s)
  case Nil
  then show ?case by (simp add: ret_def)
next
  case (Cons i "is")
  let ?d = "sy_db s"
  let ?t = "s\<lparr>sy_health := event_health (re_settings R) (db_outbox ?d ! i) (sy_health s), sy_db := mark_done i ?d\<rparr>"
  have i: "i < length (db_outbox ?d)" "is_dict (ev_payload (db_outbox ?d ! i))" "ev_key (db_outbox ?d ! i) \<notin> set (db_processed ?d)" "i \<notin> set is"
    using Cons.prems by auto
  have step: "outbox_each R (i # is) n s = outbox_each R is (n + 1) ?t"
    using i by (simp add: bnd_reads handle_event_def seqc_def bnd_assoc bnd_mods bnd_ret on_db_def)
  have keys: "map ev_key (db_outbox (mark_done i ?d)) = map ev_key (db_outbox ?d)"
    by (rule nth_equalityI) auto
  have other: "db_outbox (mark_done i ?d) ! j = db_outbox ?d ! j" if "j \<in> set is" for j
  proof -
    have "j \<noteq> i" "j < length (db_outbox ?d)" using that i(4) Cons.prems(2) by auto
    then show ?thesis by simp
  qed
  have "\<forall>j \<in> set is. j < length (db_outbox (sy_db ?t)) \<and> is_dict (ev_payload (db_outbox (sy_db ?t) ! j)) \<and>
      ev_key (db_outbox (sy_db ?t) ! j) \<notin> set (db_processed (sy_db ?t))"
    using Cons.prems i other key_inj [OF Cons.prems(3)] by auto
  note IH = Cons.IH [OF _ this, of "n + 1"]
  have "fold (\<lambda>j. event_health (re_settings R) (db_outbox (mark_done i ?d) ! j)) is h =
      fold (\<lambda>j. event_health (re_settings R) (db_outbox ?d ! j)) is h" for h
    by (rule fold_cong) (simp_all add: other)
  then show ?case
    unfolding step using IH Cons.prems(1,3) keys by simp
qed

lemma batch_props:
  shows "distinct (outbox_batch limit d)"
    and "i \<in> set (outbox_batch limit d) \<Longrightarrow> i < length (db_outbox d) \<and> \<not> ev_processed (db_outbox d ! i)"
    and "0 \<le> limit \<Longrightarrow> length (outbox_batch limit d) = min (nat limit) (backlog d)"
proof -
  let ?f = "filter (\<lambda>p. \<not> ev_processed (snd p)) (enumerate 0 (db_outbox d))"
  let ?k = "\<lambda>p. (ev_correlation (snd p), ev_created (snd p))"
  have e: "distinct (map fst (enumerate 0 (db_outbox d)))" by simp
  then have "distinct (map fst ?f)" by (rule distinct_map_filter)
  moreover have "mset (map fst (sort_key ?k ?f)) = mset (map fst ?f)" by simp
  ultimately have "distinct (map fst (sort_key ?k ?f))" using mset_eq_imp_distinct_iff by blast
  then show "distinct (outbox_batch limit d)"
    unfolding outbox_batch_def py_take_def take_map [symmetric] by (rule distinct_take)
  show "i \<in> set (outbox_batch limit d) \<Longrightarrow> i < length (db_outbox d) \<and> \<not> ev_processed (db_outbox d ! i)"
    by (auto simp: outbox_batch_def py_take_def in_set_enumerate_eq dest!: in_set_takeD)
  have "length ?f = backlog d"
  proof -
    have "map snd (filter (\<lambda>p. P (snd p)) (enumerate n xs)) = filter P xs" for P n and xs :: "outbox_event list"
      by (induction xs arbitrary: n) simp_all
    then have "length (map snd ?f) = backlog d" unfolding backlog_def by (rule arg_cong)
    then show ?thesis by simp
  qed
  then show "0 \<le> limit \<Longrightarrow> length (outbox_batch limit d) = min (nat limit) (backlog d)"
    by (simp add: outbox_batch_def length_py_take_nonneg min.commute)
qed

lemma backlog_flagged:
  assumes "I \<subseteq> {i. i < length (db_outbox d) \<and> \<not> ev_processed (db_outbox d ! i)}"
  shows "length (filter (\<lambda>e. \<not> ev_processed e) (flagged I d)) = backlog d - card I"
proof -
  have "{i. i < length (flagged I d) \<and> \<not> ev_processed (flagged I d ! i)} =
      {i. i < length (db_outbox d) \<and> \<not> ev_processed (db_outbox d ! i)} - I"
    by (auto simp: flagged_def split: if_splits)
  moreover have "finite I" using assms by (rule finite_subset) simp
  ultimately show ?thesis
    using assms by (simp add: length_filter_conv_card backlog_def card_Diff_subset)
qed

lemma batch_run:
  assumes "outbox_ok (sy_db s)" and "is = outbox_batch limit (sy_db s)"
  shows "process_outbox_batch_memory R limit s = (Inr (length is), s\<lparr>sy_db := fold mark_done is (sy_db s),
      sy_health := fold (\<lambda>i. event_health (re_settings R) (db_outbox (sy_db s) ! i)) is (sy_health s)\<rparr>)"
proof -
  have "\<forall>i \<in> set is. i < length (db_outbox (sy_db s)) \<and> is_dict (ev_payload (db_outbox (sy_db s) ! i)) \<and>
      ev_key (db_outbox (sy_db s) ! i) \<notin> set (db_processed (sy_db s))"
  proof (intro ballI)
    fix i assume "i \<in> set is"
    then have i: "i < length (db_outbox (sy_db s))" "\<not> ev_processed (db_outbox (sy_db s) ! i)"
      using batch_props(2) [of i limit "sy_db s"] assms(2) by simp_all
    then show "i < length (db_outbox (sy_db s)) \<and> is_dict (ev_payload (db_outbox (sy_db s) ! i)) \<and>
        ev_key (db_outbox (sy_db s) ! i) \<notin> set (db_processed (sy_db s))"
      using assms(1) nth_mem [OF i(1)] by (auto simp: outbox_ok_def)
  qed
  from each_run [OF _ this, of R 0] show ?thesis
    using assms batch_props(1) by (simp add: process_outbox_batch_memory_def bnd_reads outbox_ok_def)
qed

lemma fold_mark_ok:
  assumes "outbox_ok d" and "set is \<subseteq> {..<length (db_outbox d)}"
  shows "outbox_ok (fold mark_done is d)"
proof -
  have keys: "map ev_key (flagged (set is) d) = map ev_key (db_outbox d)"
    by (rule nth_equalityI) (simp_all add: flagged_def)
  have "is_dict (ev_payload e) \<and> (ev_processed e \<longleftrightarrow> ev_key e \<in> set (db_processed (fold mark_done is d)))"
    if "e \<in> set (flagged (set is) d)" for e
  proof -
    obtain j where j: "j < length (db_outbox d)" "e = (if j \<in> set is then (db_outbox d ! j)\<lparr>ev_processed := True\<rparr> else db_outbox d ! j)"
      using \<open>e \<in> set (flagged (set is) d)\<close> by (auto simp: flagged_def)
    have "ev_key (db_outbox d ! j) \<in> (\<lambda>i. ev_key (db_outbox d ! i)) ` set is \<longleftrightarrow> j \<in> set is"
      using assms j(1) key_inj [of ev_key "db_outbox d"] by (auto simp: outbox_ok_def)
    then show ?thesis
      using assms j nth_mem [OF j(1)] by (auto simp: outbox_ok_def fold_mark_fields(3))
  qed
  then show ?thesis using assms(1) keys by (simp add: outbox_ok_def fold_mark_outbox)
qed

lemma batch_ok:
  assumes "outbox_ok (sy_db s)" and "process_outbox_batch_memory R limit s = (r, t)" and "0 \<le> limit"
  shows "outbox_ok (sy_db t) \<and> backlog (sy_db t) = backlog (sy_db s) - nat limit"
proof -
  let ?is = "outbox_batch limit (sy_db s)"
  have t: "sy_db t = fold mark_done ?is (sy_db s)" using batch_run [OF assms(1) refl, of R limit] assms(2) by auto
  have sub: "set ?is \<subseteq> {i. i < length (db_outbox (sy_db s)) \<and> \<not> ev_processed (db_outbox (sy_db s) ! i)}"
    using batch_props(2) by blast
  have "card (set ?is) = min (nat limit) (backlog (sy_db s))"
    using batch_props(1,3) [of limit "sy_db s"] assms(3) by (simp add: distinct_card)
  then have "backlog (sy_db t) = backlog (sy_db s) - nat limit"
    using backlog_flagged [OF sub] unfolding t backlog_def [of "fold _ _ _"] fold_mark_outbox by (simp add: min_def)
  moreover have "outbox_ok (sy_db t)" unfolding t using sub by (intro fold_mark_ok assms(1)) auto
  ultimately show ?thesis by blast
qed

section \<open>Reachable outboxes\<close>

text \<open>The steps of the program that touch the outbox or the processed keys, and any others.\<close>

inductive outbox_reachable :: "rt_env \<Rightarrow> sys \<Rightarrow> bool" for R where
  init: "outbox_reachable R init_sys"
| transact: "outbox_reachable R s \<Longrightarrow> is_dict (pl_body p) \<Longrightarrow> outbox_reachable R (snd (persist_runtime_tx R p s))"
| batch: "outbox_reachable R s \<Longrightarrow> 0 \<le> limit \<Longrightarrow> outbox_reachable R (snd (process_outbox_batch_memory R limit s))"
| other: "outbox_reachable R s \<Longrightarrow> db_outbox (sy_db t) = db_outbox (sy_db s) \<Longrightarrow> db_processed (sy_db t) = db_processed (sy_db s) \<Longrightarrow>
    outbox_reachable R t"

text \<open>What all of them keep: the agreement of flags and processed keys, which needs that every processed key is the key of an event.\<close>

definition outbox_closed :: "db \<Rightarrow> bool" where
  "outbox_closed d \<longleftrightarrow> outbox_ok d \<and> set (db_processed d) \<subseteq> ev_key ` set (db_outbox d)"

lemma transact_closed:
  assumes "outbox_closed (sy_db s)" and "is_dict (pl_body p)"
  shows "outbox_closed (sy_db (snd (persist_runtime_tx R p s)))"
proof -
  obtain r t where run: "persist_runtime_tx R p s = (r, t)" by (cases "persist_runtime_tx R p s")
  show ?thesis
  proof (cases r)
    case (Inl e)
    then show ?thesis using persist_tx_error_db [OF run [unfolded Inl]] assms(1) run by simp
  next
    case (Inr x)
    obtain e ins where x: "x = (e, ins)" by (cases x)
    from run [unfolded Inr x] show ?thesis
    proof (cases rule: persist_tx_cases)
      case (replayed p2 n m u)
      then show ?thesis using assms(1) run by (simp add: same_ledger_parts)
    next
      case (inserted p2 n m u snap)
      have e: "ev_key e = payload_key (re_env R) p" "ev_payload e = pl_body p" "\<not> ev_processed e"
        using inserted(5) by (simp_all add: outbox_event_of_def)
      have new: "ev_key e \<notin> ev_key ` set (db_outbox (sy_db s))"
        using inserted(2) unfolding e(1) by (auto simp: get_memory_outbox_by_idempotency_def find_None_iff)
      have "db_outbox (sy_db t) = db_outbox (sy_db s) @ [e]" "db_processed (sy_db t) = db_processed (sy_db s)"
        using inserted(4,7) by (simp_all add: same_ledger_parts)
      then show ?thesis using assms new e(2,3) run by (auto simp: outbox_closed_def outbox_ok_def)
    qed
  qed
qed

lemma batch_closed:
  assumes "outbox_closed (sy_db s)" and "0 \<le> limit"
  shows "outbox_closed (sy_db (snd (process_outbox_batch_memory R limit s)))"
proof -
  let ?is = "outbox_batch limit (sy_db s)" and ?d = "sy_db s"
  have ok: "outbox_ok ?d" using assms(1) by (simp add: outbox_closed_def)
  have t: "sy_db (snd (process_outbox_batch_memory R limit s)) = fold mark_done ?is ?d" using batch_run [OF ok refl, of R limit] by simp
  have "outbox_ok (sy_db (snd (process_outbox_batch_memory R limit s)))" using batch_ok [OF ok prod.collapse [symmetric] assms(2), of R] by blast
  moreover have sub: "set ?is \<subseteq> {..<length (db_outbox ?d)}" using batch_props(2) by blast
  moreover have keys: "map ev_key (flagged (set ?is) ?d) = map ev_key (db_outbox ?d)"
    by (rule nth_equalityI) (simp_all add: flagged_def)
  have "ev_key ` set (flagged (set ?is) ?d) = ev_key ` set (db_outbox ?d)" using arg_cong [OF keys, of set] by simp
  ultimately show ?thesis
    using assms(1) fold_mark_fields(3) [OF sub] unfolding outbox_closed_def t fold_mark_outbox by auto
qed

lemma outbox_reachable_closed: "outbox_reachable R s \<Longrightarrow> outbox_closed (sy_db s)"
proof (induction rule: outbox_reachable.induct)
  case init
  then show ?case by (simp add: outbox_closed_def outbox_ok_def init_sys_def reset_db_def)
next
  case (other s t)
  then show ?case by (simp add: outbox_closed_def outbox_ok_def)
qed (simp_all add: transact_closed batch_closed)

section \<open>Properties\<close>

text \<open>C19: a batch handles each pending event exactly once: when flags and processed keys agree, a batch takes the first \<open>limit\<close> unprocessed
  events in the order of correlation and creation, hands exactly these to the consumer once each and in this order, flags exactly
  them, returns their number and keeps the agreement, so that no later batch takes one of them again.\<close>

theorem outbox_batch_exactly_once:
  assumes "outbox_ok (sy_db s)" and "0 \<le> limit" and "is = outbox_batch limit (sy_db s)"
  shows "\<exists>t. process_outbox_batch_memory R limit s = (Inr (length is), t) \<and>
    length is = min (nat limit) (backlog (sy_db s)) \<and> distinct is \<and>
    sorted (map (\<lambda>i. (ev_correlation (db_outbox (sy_db s) ! i), ev_created (db_outbox (sy_db s) ! i))) is) \<and>
    sy_health t = fold (\<lambda>i. event_health (re_settings R) (db_outbox (sy_db s) ! i)) is (sy_health s) \<and>
    (\<forall>i < length (db_outbox (sy_db s)). db_outbox (sy_db t) ! i =
       (if i \<in> set is then (db_outbox (sy_db s) ! i)\<lparr>ev_processed := True\<rparr> else db_outbox (sy_db s) ! i)) \<and>
    outbox_ok (sy_db t) \<and> set (outbox_batch limit' (sy_db t)) \<inter> set is = {}"
proof -
  let ?t = "s\<lparr>sy_db := fold mark_done is (sy_db s),
      sy_health := fold (\<lambda>i. event_health (re_settings R) (db_outbox (sy_db s) ! i)) is (sy_health s)\<rparr>"
  have run: "process_outbox_batch_memory R limit s = (Inr (length is), ?t)"
    using batch_run [OF assms(1) refl] by (simp add: assms(3))
  have lim: "i < length (db_outbox (sy_db s))" if "i \<in> set is" for i
    using that batch_props(2) [of i limit "sy_db s"] by (simp add: assms(3))
  have "sorted (map (\<lambda>i. (ev_correlation (db_outbox (sy_db s) ! i), ev_created (db_outbox (sy_db s) ! i))) is)"
  proof -
    let ?k = "\<lambda>p. (ev_correlation (snd p), ev_created (snd p))"
    let ?x = "sort_key ?k (filter (\<lambda>p. \<not> ev_processed (snd p)) (enumerate 0 (db_outbox (sy_db s))))"
    have "map (\<lambda>i. (ev_correlation (db_outbox (sy_db s) ! i), ev_created (db_outbox (sy_db s) ! i))) is = map ?k (py_take limit ?x)"
      unfolding assms(3) outbox_batch_def map_map py_take_def
      by (rule map_cong [OF refl]) (auto simp: in_set_enumerate_eq dest!: in_set_takeD)
    moreover have "sorted (map ?k (py_take limit ?x))"
      unfolding py_take_def take_map [symmetric] by (intro sorted_wrt_take) simp
    ultimately show ?thesis by simp
  qed
  moreover have "set (outbox_batch limit' (sy_db ?t)) \<inter> set is = {}"
    using batch_props(2) [of _ limit' "sy_db ?t"] lim by (fastforce simp: fold_mark_fields)
  ultimately show ?thesis
    using run batch_props(1,3) [of limit "sy_db s"] assms(2) batch_ok [OF assms(1) run assms(2)]
    by (intro exI [of _ ?t]) (simp add: assms(3) fold_mark_fields)
qed

text \<open>C24: the worker drains every outbox that the program builds: in every state reached from the empty store by transactions (failing
  or not, with dictionaries as bodies), by batches of the worker and by steps that leave events and processed keys alone, the flags agree with the
  processed keys; from such a state \<open>n\<close> rounds of the worker return, reduce the backlog by 50 each, reach a state of the same kind, and after
  enough of them every event is processed.  (\<open>mark_event_processed\<close>, which nothing in the program calls, is not among the steps; theorem
  \<open>outbox_poisoned_keys_block\<close> shows what it could do.)\<close>

theorem outbox_worker_drains:
  assumes "outbox_reachable R s"
  shows "\<exists>t. run_outbox_worker R n s = (Inr (), t) \<and> outbox_reachable R t \<and>
    outbox_ok (sy_db s) \<and> backlog (sy_db t) = backlog (sy_db s) - 50 * n \<and>
    (backlog (sy_db s) \<le> 50 * n \<longrightarrow> (\<forall>e \<in> set (db_outbox (sy_db t)). ev_processed e))"
proof -
  have ok: "outbox_ok (sy_db s)" using outbox_reachable_closed [OF assms] by (simp add: outbox_closed_def)
  have "\<exists>t. run_outbox_worker R n s = (Inr (), t) \<and> outbox_reachable R t \<and> backlog (sy_db t) = backlog (sy_db s) - 50 * n"
    using assms ok
  proof (induction n arbitrary: s)
    case 0
    then show ?case by (simp add: ret_def)
  next
    case (Suc n)
    obtain k u where b: "process_outbox_batch_memory R 50 s = (Inr k, u)" using batch_run [OF Suc.prems(2) refl] by blast
    have u: "outbox_ok (sy_db u)" "backlog (sy_db u) = backlog (sy_db s) - 50"
      using batch_ok [OF Suc.prems(2) b] by simp_all
    have "outbox_reachable R u" using outbox_reachable.batch [OF Suc.prems(1), of 50] by (simp add: b)
    from Suc.IH [OF this u(1)] show ?case
      by (auto simp: process_outbox_batch_auto_def bnd_def b u(2))
  qed
  then show ?thesis using ok by (auto simp: backlog_def filter_empty_conv)
qed

text \<open>a poisoned key blocks the worker for good: if the first events in the order of a batch are unflagged but their keys count as processed
  (\<open>mark_event_processed\<close> records any key, also one that no event has yet), a batch changes nothing and returns 0, and so
  does every later round, whatever else waits behind them.\<close>

theorem outbox_poisoned_keys_block:
  assumes "\<forall>i \<in> set (outbox_batch 50 (sy_db s)). ev_key (db_outbox (sy_db s) ! i) \<in> set (db_processed (sy_db s))"
  shows "process_outbox_batch_memory R 50 s = (Inr 0, s) \<and> run_outbox_worker R n s = (Inr (), s)"
proof -
  have "outbox_each R is k s = (Inr k, s)"
    if "\<forall>i \<in> set is. ev_key (db_outbox (sy_db s) ! i) \<in> set (db_processed (sy_db s))" for "is" k
    using that by (induction "is") (simp_all add: ret_def bnd_reads)
  from this [OF assms] have b: "process_outbox_batch_memory R 50 s = (Inr 0, s)"
    by (simp add: process_outbox_batch_memory_def bnd_reads)
  have "run_outbox_worker R n s = (Inr (), s)"
    by (induction n) (simp_all add: ret_def process_outbox_batch_auto_def bnd_def b)
  with b show ?thesis by blast
qed

section \<open>Witnesses\<close>

definition demo_outbox :: sys where
  "demo_outbox = init_sys\<lparr>sy_db := (reset_db 0)\<lparr>db_outbox := [demo_event]\<rparr>\<rparr>"

lemma demo_outbox_ok: "outbox_ok (sy_db demo_outbox)"
  by (simp add: demo_outbox_def outbox_ok_def demo_event_def reset_db_def)

theorem outbox_batch_exactly_once_witness:
  "\<exists>t. process_outbox_batch_memory demo_env 50 demo_outbox = (Inr 1, t) \<and> outbox_ok (sy_db t)"
proof -
  have "backlog (sy_db demo_outbox) = 1" by (simp add: backlog_def demo_outbox_def demo_event_def)
  then show ?thesis using outbox_batch_exactly_once [OF demo_outbox_ok _ refl, of 50 demo_env 50] by auto
qed

theorem outbox_worker_drains_witness:
  "\<exists>s t. persist_runtime_tx demo_env demo_payload init_sys = (Inr (hd (db_outbox (sy_db s)), True), s) \<and>
     run_outbox_worker demo_env 1 s = (Inr (), t) \<and> (\<forall>e \<in> set (db_outbox (sy_db t)). ev_processed e)"
proof -
  obtain e s where run: "persist_runtime_tx demo_env demo_payload init_sys = (Inr (e, True), s)" by (rule demo_persist)
  have box: "db_outbox (sy_db s) = [e]" "\<not> ev_processed e" using run
  proof (atomize (full), cases rule: persist_tx_cases)
    case (inserted p2 n m u snap)
    then show "db_outbox (sy_db s) = [e] \<and> \<not> ev_processed e"
      by (simp add: same_ledger_parts outbox_event_of_def init_sys_def reset_db_def)
  qed simp
  have "outbox_reachable demo_env (snd (persist_runtime_tx demo_env demo_payload init_sys))"
    by (intro outbox_reachable.intros) (simp add: demo_payload_def new_payload_def)
  then have "outbox_reachable demo_env s" by (simp add: run)
  from outbox_worker_drains [OF this, of 1] show ?thesis using box run by (auto simp: backlog_def)
qed

theorem outbox_poisoned_keys_block_witness:
  "let s = demo_outbox\<lparr>sy_db := (snd (mark_event_processed ''k'' (reset_db 0)))\<lparr>db_outbox := [demo_event]\<rparr>\<rparr>
   in process_outbox_batch_memory demo_env 50 s = (Inr 0, s) \<and> \<not> ev_processed demo_event"
proof -
  let ?s = "demo_outbox\<lparr>sy_db := (snd (mark_event_processed ''k'' (reset_db 0)))\<lparr>db_outbox := [demo_event]\<rparr>\<rparr>"
  have m: "db_processed (snd (mark_event_processed ''k'' (reset_db 0))) = [''k'']"
    by (simp add: mark_event_processed_def reset_db_def)
  have "\<forall>i \<in> set (outbox_batch 50 (sy_db ?s)). ev_key (db_outbox (sy_db ?s) ! i) \<in> set (db_processed (sy_db ?s))"
  proof
    fix i assume "i \<in> set (outbox_batch 50 (sy_db ?s))"
    then have "i = 0" using batch_props(2) [of i 50 "sy_db ?s"] by simp
    then show "ev_key (db_outbox (sy_db ?s) ! i) \<in> set (db_processed (sy_db ?s))" by (simp add: m demo_event_def)
  qed
  from outbox_poisoned_keys_block [OF this, of demo_env 0] show ?thesis by (simp add: Let_def demo_event_def)
qed

end
