(* ===== verification/PgOutbox.thy ===== *)
theory PgOutbox
  imports Postgres Outbox
begin

text \<open>
  \<open>workers/outbox_processor.py\<close> on Postgres: \<open>process_outbox_batch\<close> on a connection (\<open>FOR UPDATE SKIP LOCKED\<close>), and any number of
  workers running at once as a step relation: a worker claims a batch, and later commits or loses its connection, while other
  transactions insert events.
\<close>

section \<open>One batch\<close>

text \<open>The rows that the \<open>SELECT\<close> returns and locks: those of the outbox that are not flagged and that no other connection has locked,
  in the order of the collation.\<close>

definition lock_batch :: "pg_env \<Rightarrow> nat \<Rightarrow> nat \<Rightarrow> pg \<Rightarrow> outbox_event list \<times> pg" where
  "lock_batch P c limit d = (let rows = take limit (sort_key (\<lambda>e. (pe_collate P (ev_correlation e), ev_created e))
       (filter (\<lambda>e. \<not> ev_processed e \<and> (\<forall>l \<in> set (pg_rowlocks d). snd l = ev_id e \<longrightarrow> fst l = c)) (pg_outbox d)))
     in (rows, d\<lparr>pg_rowlocks := map (\<lambda>e. (c, ev_id e)) rows @ pg_rowlocks d\<rparr>))"

definition insert_processed :: "string \<Rightarrow> pg \<Rightarrow> pg" where
  "insert_processed k d = (if k \<in> set (pg_processed d) then d else d\<lparr>pg_processed := pg_processed d @ [k]\<rparr>)"

text \<open>A statement that returns something: rows, or the number in its command tag.\<close>

definition exec_returning :: "(pg \<Rightarrow> 'a \<times> pg) \<Rightarrow> 'a pgc" where
  "exec_returning f = (\<lambda>(s, d). case f d of (x, d') \<Rightarrow> (Inr x, (s, d')))"

fun consume_rows :: "rt_env \<Rightarrow> outbox_event list \<Rightarrow> nat \<Rightarrow> nat pgc" where
  "consume_rows R [] n = ret n"
| "consume_rows R (e # es) n = bnd (on_sys (handle_event R e)) (\<lambda>ok. if \<not> ok then consume_rows R es n
     else bnd (exec_returning (update_event_processed (ev_key e))) (\<lambda>k.
       if ends_with_1 k then bnd (on_sys (clock R)) (\<lambda>_. seqc (exec (insert_processed (ev_key e))) (consume_rows R es (n + 1)))
       else consume_rows R es n))"

definition process_outbox_batch :: "pg_env \<Rightarrow> rt_env \<Rightarrow> nat \<Rightarrow> nat \<Rightarrow> nat pgc" where
  "process_outbox_batch P R c limit = bnd (exec_returning (lock_batch P c limit)) (\<lambda>rows. consume_rows R rows 0)"

definition process_outbox_batch_auto_postgres :: "pg_env \<Rightarrow> rt_env \<Rightarrow> nat \<Rightarrow> nat \<Rightarrow> nat pgc" where
  "process_outbox_batch_auto_postgres P R c limit = transaction c (process_outbox_batch P R c limit)"

section \<open>Workers at once\<close>

text \<open>The process state that the workers share, the database, what each connection works on, and how many events the workers have
  counted.  The writes of a batch become visible when it commits, together.\<close>

record workers =
  wk_sys :: sys
  wk_db :: pg
  wk_busy :: "nat \<Rightarrow> outbox_event list option"
  wk_count :: nat

inductive worker_step :: "pg_env \<Rightarrow> rt_env \<Rightarrow> workers \<Rightarrow> workers \<Rightarrow> bool" for P R where
  claim: "wk_busy w c = None \<Longrightarrow> lock_batch P c limit (wk_db w) = (rows, d) \<Longrightarrow>
     worker_step P R w (w\<lparr>wk_db := d, wk_busy := (wk_busy w)(c := Some rows)\<rparr>)"
| commit: "wk_busy w c = Some rows \<Longrightarrow> consume_rows R rows 0 (wk_sys w, wk_db w) = (Inr n, (s, d)) \<Longrightarrow>
     worker_step P R w \<lparr>wk_sys = s, wk_db = release_connection c d, wk_busy = (wk_busy w)(c := None), wk_count = wk_count w + n\<rparr>"
| abort: "wk_busy w c = Some rows \<Longrightarrow> consume_rows R (take k rows) 0 (wk_sys w, wk_db w) = (r, (s, d)) \<Longrightarrow>
     worker_step P R w (w\<lparr>wk_sys := s, wk_db := release_connection c (wk_db w), wk_busy := (wk_busy w)(c := None)\<rparr>)"
| produce: "insert_outbox P e (wk_db w) = Inr d \<Longrightarrow> worker_step P R w (w\<lparr>wk_db := d\<rparr>)"

definition workers_start :: "sys \<Rightarrow> workers" where
  "workers_start s = \<lparr>wk_sys = s, wk_db = init_schema, wk_busy = (\<lambda>_. None), wk_count = 0\<rparr>"

inductive worker_reachable :: "pg_env \<Rightarrow> rt_env \<Rightarrow> workers \<Rightarrow> bool" for P R where
  start: "worker_reachable P R (workers_start s)"
| step: "worker_reachable P R w \<Longrightarrow> worker_step P R w w' \<Longrightarrow> worker_reachable P R w'"

section \<open>Lemmas\<close>

definition rows_ok :: "pg \<Rightarrow> bool" where
  "rows_ok d \<longleftrightarrow> distinct (map ev_id (pg_outbox d)) \<and> distinct (map ev_key (pg_outbox d)) \<and> distinct (pg_processed d) \<and>
     set (pg_processed d) = ev_key ` {e \<in> set (pg_outbox d). ev_processed e}"

definition consumable :: "outbox_event \<Rightarrow> bool" where
  "consumable e \<longleftrightarrow> \<not> (ev_type e = ''decision.recorded'' \<and> \<not> is_dict (ev_payload e))"

definition finish :: "string set \<Rightarrow> outbox_event \<Rightarrow> outbox_event" where
  "finish K e = (if ev_key e \<in> K then e\<lparr>ev_processed := True\<rparr> else e)"

lemma flag_fields [simp]: "ev_id (finish K e) = ev_id e" "ev_key (finish K e) = ev_key e" "ev_processed (finish K e) \<longleftrightarrow> ev_processed e \<or> ev_key e \<in> K"
  by (simp_all add: finish_def)

lemma finish_comp [simp]: "ev_id \<circ> finish K = ev_id" "ev_key \<circ> finish K = ev_key"
  by (simp_all add: comp_def)

lemma filter_single: "distinct xs \<Longrightarrow> x \<in> set xs \<Longrightarrow> filter (\<lambda>y. y = x) xs = [x]"
proof (induction xs)
  case (Cons y ys)
  then have "y = x \<Longrightarrow> filter (\<lambda>y. y = x) ys = []" by (auto simp: filter_empty_conv)
  then show ?case using Cons by auto
qed simp

lemma finish_finish [simp]: "finish K (finish L e) = finish (K \<union> L) e"
  by (simp add: finish_def)

lemma finish_none [simp]: "finish {} e = e"
  by (simp add: finish_def)

lemma bnd_returning: "bnd (exec_returning f) g (s, d) = g (fst (f d)) (s, snd (f d))"
  by (simp add: exec_returning_def bnd_def split: prod.split)

lemma handle_event_run: "\<exists>t. handle_event R e s = (Inr (consumable e), t)"
  by (auto simp: handle_event_def consumable_def ret_def seqc_def bnd_mods)

lemma update_event_one:
  assumes "distinct (map ev_key (pg_outbox d))" and "e \<in> set (pg_outbox d)" and "\<not> ev_processed e"
  shows "update_event_processed (ev_key e) d = (1, d\<lparr>pg_outbox := map (finish {ev_key e}) (pg_outbox d)\<rparr>)"
proof -
  have u: "x = e" if "x \<in> set (pg_outbox d)" "ev_key x = ev_key e" for x
    using assms(1,2) that by (auto simp: distinct_map inj_on_def)
  have "filter (\<lambda>x. ev_key x = ev_key e \<and> \<not> ev_processed x) (pg_outbox d) = filter (\<lambda>x. x = e) (pg_outbox d)"
    using u assms(3) by (intro filter_cong) auto
  also have "\<dots> = [e]" using assms(1,2) by (simp add: distinct_map filter_single)
  finally show ?thesis
    using u assms(3) by (auto simp: update_event_processed_def finish_def)
qed

text \<open>Consuming rows that are in the outbox, not flagged and distinct: all that can be handled are flagged, recorded and counted.\<close>

lemma consume_run:
  assumes "distinct (map ev_key (pg_outbox d))" and "distinct rows" and "\<forall>e \<in> set rows. e \<in> set (pg_outbox d) \<and> \<not> ev_processed e \<and> ev_key e \<notin> set (pg_processed d)"
  shows "\<exists>t. consume_rows R rows n (s, d) = (Inr (n + length (filter consumable rows)),
    (t, d\<lparr>pg_outbox := map (finish (ev_key ` {e \<in> set rows. consumable e})) (pg_outbox d),
      pg_processed := pg_processed d @ map ev_key (filter consumable rows)\<rparr>))"
  using assms
proof (induction rows arbitrary: n s d)
  case Nil
  then show ?case by (simp add: ret_def)
next
  case (Cons e es)
  obtain t where h: "handle_event R e s = (Inr (consumable e), t)" using handle_event_run by metis
  show ?case
  proof (cases "consumable e")
    case False
    then show ?thesis using Cons.IH [of d n t] Cons.prems
      by (simp add: bnd_on_sys [where m = "handle_event R e" and s = s, OF h] conj_disj_distribR Collect_disj_eq cong: conj_cong)
  next
    case True
    let ?d1 = "d\<lparr>pg_outbox := map (finish {ev_key e}) (pg_outbox d)\<rparr>"
    let ?d2 = "?d1\<lparr>pg_processed := pg_processed d @ [ev_key e]\<rparr>"
    have up: "update_event_processed (ev_key e) d = (1, ?d1)"
      using Cons.prems by (intro update_event_one) simp_all
    have keys: "map ev_key (map (finish {ev_key e}) (pg_outbox d)) = map ev_key (pg_outbox d)" by simp
    have other: "x \<in> set (pg_outbox ?d2) \<and> \<not> ev_processed x \<and> ev_key x \<notin> set (pg_processed ?d2)" if x: "x \<in> set es" for x
    proof -
      have "x \<noteq> e" using Cons.prems(2) x by auto
      then have "ev_key x \<noteq> ev_key e" using Cons.prems(1,3) x by (auto simp: distinct_map inj_on_def)
      then have "finish {ev_key e} x = x" by (simp add: finish_def)
      then show ?thesis using Cons.prems(3) x \<open>ev_key x \<noteq> ev_key e\<close> by (auto intro: rev_image_eqI)
    qed
    have "\<exists>t'. consume_rows R es (n + 1) (t\<lparr>sy_clock := sy_clock t + 1\<rparr>, ?d2) = (Inr (n + 1 + length (filter consumable es)),
        (t', ?d2\<lparr>pg_outbox := map (finish (ev_key ` {e \<in> set es. consumable e})) (pg_outbox ?d2),
          pg_processed := pg_processed ?d2 @ map ev_key (filter consumable es)\<rparr>))"
      using Cons.IH [of ?d2 "n + 1"] Cons.prems(1,2) other keys by simp
    moreover have "ev_key ` {x \<in> set (e # es). consumable x} = insert (ev_key e) (ev_key ` {x \<in> set es. consumable x})" using True by auto
    moreover have "insert_processed (ev_key e) ?d1 = ?d2" using Cons.prems(3) by (simp add: insert_processed_def)
    ultimately show ?thesis
      using True by (simp add: bnd_on_sys [where m = "handle_event R e" and s = s, OF h] bnd_returning
          up ends_with_1_def on_sys_clock seqc_def bnd_exec comp_def)
  qed
qed
text \<open>Flags and the table of processed keys agree before and after a batch.\<close>

lemma rows_ok_unprocessed: "rows_ok d \<Longrightarrow> e \<in> set (pg_outbox d) \<Longrightarrow> \<not> ev_processed e \<Longrightarrow> ev_key e \<notin> set (pg_processed d)"
  by (auto simp: rows_ok_def distinct_map inj_on_def)

lemma finish_image: "ev_key ` {e \<in> finish K ` A. ev_processed e} = ev_key ` {e \<in> A. ev_processed e} \<union> (K \<inter> ev_key ` A)"
proof -
  have "{e \<in> finish K ` A. ev_processed e} = finish K ` {e \<in> A. ev_processed e \<or> ev_key e \<in> K}" by auto
  then show ?thesis by (auto simp: image_image)
qed

lemma rows_ok_finish:
  assumes "rows_ok d" and "distinct rows" and "\<forall>e \<in> set rows. e \<in> set (pg_outbox d) \<and> \<not> ev_processed e"
  shows "rows_ok (d\<lparr>pg_outbox := map (finish (ev_key ` {e \<in> set rows. consumable e})) (pg_outbox d),
      pg_processed := pg_processed d @ map ev_key (filter consumable rows)\<rparr>)"
proof -
  let ?K = "ev_key ` {e \<in> set rows. consumable e}"
  have keys: "distinct (map ev_key (pg_outbox d))" using assms(1) by (simp add: rows_ok_def)
  have sub: "set rows \<subseteq> set (pg_outbox d)" using assms(3) by blast
  have "inj_on ev_key (set rows)" using keys sub by (auto simp: distinct_map intro: inj_on_subset)
  then have d1: "distinct (map ev_key (filter consumable rows))" using assms(2) by (auto simp: distinct_map intro: inj_on_subset)
  have d2: "set (pg_processed d) \<inter> ?K = {}" using assms(3) rows_ok_unprocessed [OF assms(1)] by blast
  have "?K \<subseteq> ev_key ` set (pg_outbox d)" using sub by blast
  then have "set (pg_processed d) \<union> ?K = ev_key ` {e \<in> finish ?K ` set (pg_outbox d). ev_processed e}"
    using assms(1) unfolding finish_image rows_ok_def by blast
  moreover have "set (map ev_key (filter consumable rows)) = ?K" by auto
  ultimately show ?thesis using assms(1) d1 d2 unfolding rows_ok_def by simp
qed

text \<open>What holds whenever workers run at once.\<close>

definition workers_ok :: "workers \<Rightarrow> bool" where
  "workers_ok w \<longleftrightarrow> rows_ok (wk_db w) \<and> wk_count w = length (pg_processed (wk_db w)) \<and>
     (\<forall>c rows. wk_busy w c = Some rows \<longrightarrow> distinct rows \<and>
       (\<forall>e \<in> set rows. e \<in> set (pg_outbox (wk_db w)) \<and> \<not> ev_processed e \<and> (c, ev_id e) \<in> set (pg_rowlocks (wk_db w)))) \<and>
     (\<forall>c c' i. (c, i) \<in> set (pg_rowlocks (wk_db w)) \<longrightarrow> (c', i) \<in> set (pg_rowlocks (wk_db w)) \<longrightarrow> c = c')"

lemma lock_batch_rows:
  assumes "lock_batch P c limit d = (rows, d')" and "rows_ok d"
  shows "distinct rows \<and> (\<forall>e \<in> set rows. e \<in> set (pg_outbox d) \<and> \<not> ev_processed e \<and> (\<forall>l \<in> set (pg_rowlocks d). snd l = ev_id e \<longrightarrow> fst l = c)) \<and>
    d' = d\<lparr>pg_rowlocks := map (\<lambda>e. (c, ev_id e)) rows @ pg_rowlocks d\<rparr>"
proof -
  let ?xs = "filter (\<lambda>e. \<not> ev_processed e \<and> (\<forall>l \<in> set (pg_rowlocks d). snd l = ev_id e \<longrightarrow> fst l = c)) (pg_outbox d)"
  have r: "rows = take limit (sort_key (\<lambda>e. (pe_collate P (ev_correlation e), ev_created e)) ?xs)"
    "d' = d\<lparr>pg_rowlocks := map (\<lambda>e. (c, ev_id e)) rows @ pg_rowlocks d\<rparr>"
    using assms(1) by (auto simp: lock_batch_def Let_def)
  have "distinct (pg_outbox d)" using assms(2) by (simp add: rows_ok_def distinct_map)
  then have "distinct rows" unfolding r by simp
  moreover have "set rows \<subseteq> set ?xs" unfolding r using set_take_subset by fastforce
  ultimately show ?thesis using r(2) by auto
qed

lemma ok_claim:
  assumes "workers_ok w" and "wk_busy w c = None" and "lock_batch P c limit (wk_db w) = (rows, d)"
  shows "workers_ok (w\<lparr>wk_db := d, wk_busy := (wk_busy w)(c := Some rows)\<rparr>)"
proof -
  have r: "rows_ok (wk_db w)" using assms(1) by (simp add: workers_ok_def)
  note b = lock_batch_rows [OF assms(3) r]
  have l: "c1 = c2" if "(c1, i) \<in> set (pg_rowlocks d)" "(c2, i) \<in> set (pg_rowlocks d)" for c1 c2 i
  proof -
    have new: "c' = c" if "(c', i) \<in> set (pg_rowlocks (wk_db w))" "e \<in> set rows" "i = ev_id e" for c' e
      using b that by fastforce
    have "(c', i) \<in> set (pg_rowlocks (wk_db w)) \<or> c' = c \<and> (\<exists>e \<in> set rows. i = ev_id e)" if "(c', i) \<in> set (pg_rowlocks d)" for c'
      using b that by auto
    then show ?thesis using that new assms(1) unfolding workers_ok_def by metis
  qed
  show ?thesis
    using assms(1) b l unfolding workers_ok_def rows_ok_def by auto
qed

lemma ok_release:
  assumes "workers_ok w" and "wk_busy w c = Some rows"
  shows "workers_ok (w\<lparr>wk_sys := s, wk_db := release_connection c (wk_db w), wk_busy := (wk_busy w)(c := None)\<rparr>)"
  using assms(1) by (auto simp: workers_ok_def rows_ok_def release_connection_def)

lemma ok_produce:
  assumes "workers_ok w" and "insert_outbox P e (wk_db w) = Inr d"
  shows "workers_ok (w\<lparr>wk_db := d\<rparr>)"
  using assms by (fastforce simp: workers_ok_def rows_ok_def insert_outbox_def split: if_splits)

lemma ok_commit:
  assumes "workers_ok w" and "wk_busy w c = Some rows" and "consume_rows R rows 0 (wk_sys w, wk_db w) = (Inr n, (s, d))"
  shows "workers_ok \<lparr>wk_sys = s, wk_db = release_connection c d, wk_busy = (wk_busy w)(c := None), wk_count = wk_count w + n\<rparr>"
proof -
  let ?d = "wk_db w"
  let ?K = "ev_key ` {e \<in> set rows. consumable e}"
  have r: "rows_ok ?d" and dr: "distinct rows" and rw: "\<forall>e \<in> set rows. e \<in> set (pg_outbox ?d) \<and> \<not> ev_processed e \<and> (c, ev_id e) \<in> set (pg_rowlocks ?d)"
    and un: "\<And>c c' i. (c, i) \<in> set (pg_rowlocks ?d) \<Longrightarrow> (c', i) \<in> set (pg_rowlocks ?d) \<Longrightarrow> c = c'"
    using assms(1,2) by (auto simp: workers_ok_def)
  have keys: "distinct (map ev_key (pg_outbox ?d))" using r by (simp add: rows_ok_def)
  obtain t where "consume_rows R rows 0 (wk_sys w, ?d) = (Inr (0 + length (filter consumable rows)),
      (t, ?d\<lparr>pg_outbox := map (finish ?K) (pg_outbox ?d), pg_processed := pg_processed ?d @ map ev_key (filter consumable rows)\<rparr>))"
    using consume_run [OF keys dr, of R 0 "wk_sys w"] rw rows_ok_unprocessed [OF r] by auto
  then have n: "n = length (filter consumable rows)"
    and d: "d = ?d\<lparr>pg_outbox := map (finish ?K) (pg_outbox ?d), pg_processed := pg_processed ?d @ map ev_key (filter consumable rows)\<rparr>"
    using assms(3) by simp_all
  have ok: "rows_ok d" unfolding d using rows_ok_finish [OF r dr] rw by blast
  have keep: "e \<in> set (pg_outbox d)" if e: "wk_busy w c' = Some es" "c' \<noteq> c" "e \<in> set es" for c' es e
  proof -
    have e': "e \<in> set (pg_outbox ?d)" "(c', ev_id e) \<in> set (pg_rowlocks ?d)" using assms(1) e by (auto simp: workers_ok_def)
    have "ev_key e \<notin> ?K"
    proof
      assume "ev_key e \<in> ?K"
      then obtain x where "x \<in> set rows" "ev_key x = ev_key e" by auto
      then have "x = e" using keys e'(1) rw by (auto simp: distinct_map inj_on_def)
      then show False using un [of c "ev_id e" c'] e'(2) e(2) rw \<open>x \<in> set rows\<close> by blast
    qed
    then have "finish ?K e = e" by (simp add: finish_def)
    then show ?thesis using e'(1) unfolding d by (auto intro: rev_image_eqI)
  qed
  show ?thesis
    using ok keep assms(1) n unfolding workers_ok_def
    by (auto simp: rows_ok_def release_connection_def d)
qed

lemma workers_reachable_ok: "worker_reachable P R w \<Longrightarrow> workers_ok w"
proof (induction rule: worker_reachable.induct)
  case (start s)
  then show ?case by (simp add: workers_ok_def workers_start_def rows_ok_def init_schema_def)
next
  case (step w w')
  from step.hyps(2) step.IH show ?case
    by cases (auto intro: ok_claim ok_release ok_produce ok_commit)
qed

section \<open>Properties\<close>

text \<open>C11: any number of outbox workers on one database count every event exactly once: however their claims, commits, lost connections
  and the insertions of new events interleave, what the workers have counted together is the number of processed keys, which are
  distinct and are exactly the keys of the flagged events; batches that are worked on at the same time have no event in common; and no
  event of a batch is flagged before the batch commits.\<close>

theorem outbox_workers_exactly_once:
  assumes "worker_reachable P R w"
  shows "wk_count w = length (pg_processed (wk_db w)) \<and> distinct (pg_processed (wk_db w)) \<and>
    set (pg_processed (wk_db w)) = ev_key ` {e \<in> set (pg_outbox (wk_db w)). ev_processed e} \<and>
    (\<forall>c c' es es'. wk_busy w c = Some es \<longrightarrow> wk_busy w c' = Some es' \<longrightarrow> c \<noteq> c' \<longrightarrow> set es \<inter> set es' = {}) \<and>
    (\<forall>c es. wk_busy w c = Some es \<longrightarrow> (\<forall>e \<in> set es. e \<in> set (pg_outbox (wk_db w)) \<and> \<not> ev_processed e))"
proof -
  have ok: "workers_ok w" using workers_reachable_ok [OF assms] .
  have "set es \<inter> set es' = {}" if "wk_busy w c = Some es" "wk_busy w c' = Some es'" "c \<noteq> c'" for c c' es es'
    using ok that unfolding workers_ok_def by blast
  then show ?thesis using ok unfolding workers_ok_def rows_ok_def by blast
qed

definition demo_event :: outbox_event where
  "demo_event = \<lparr>ev_id = ''e'', ev_key = ''k'', ev_correlation = ''c'', ev_causation = None, ev_type = ''note'', ev_payload = PDict [],
     ev_world_version = 1, ev_processed = False, ev_created = 0\<rparr>"

theorem outbox_workers_exactly_once_witness:
  "\<exists>w. worker_reachable demo_pg demo_env w \<and> wk_count w = 1 \<and> length (pg_processed (wk_db w)) = 1 \<and> wk_busy w 7 = None"
proof -
  let ?d1 = "init_schema\<lparr>pg_outbox := [demo_event]\<rparr>"
  let ?w1 = "(workers_start init_sys)\<lparr>wk_db := ?d1\<rparr>"
  have "insert_outbox demo_pg demo_event (wk_db (workers_start init_sys)) = Inr ?d1"
    by (simp add: insert_outbox_def workers_start_def init_schema_def demo_pg_def demo_event_def)
  from worker_step.produce [OF this] have w1: "worker_reachable demo_pg demo_env ?w1"
    by (rule worker_reachable.step [OF worker_reachable.start])
  let ?d2 = "?d1\<lparr>pg_rowlocks := [(7, ''e'')]\<rparr>"
  let ?w2 = "?w1\<lparr>wk_db := ?d2, wk_busy := (wk_busy ?w1)(7 := Some [demo_event])\<rparr>"
  have "lock_batch demo_pg 7 50 (wk_db ?w1) = ([demo_event], ?d2)"
    by (simp add: lock_batch_def Let_def init_schema_def demo_event_def)
  then have w2: "worker_reachable demo_pg demo_env ?w2"
    by (intro worker_reachable.step [OF w1] worker_step.claim [where limit = 50]) (simp_all add: workers_start_def)
  obtain t d where c: "consume_rows demo_env [demo_event] 0 (wk_sys ?w2, wk_db ?w2) = (Inr 1, (t, d))"
    using consume_run [of ?d2 "[demo_event]" demo_env 0 "wk_sys ?w2"] by (auto simp: init_schema_def demo_event_def consumable_def)
  let ?w3 = "\<lparr>wk_sys = t, wk_db = release_connection 7 d, wk_busy = (wk_busy ?w2)(7 := None), wk_count = wk_count ?w2 + 1\<rparr>"
  have w3: "worker_reachable demo_pg demo_env ?w3"
    by (rule worker_reachable.step [OF w2 worker_step.commit [OF _ c]]) simp
  show ?thesis
    using w3 outbox_workers_exactly_once [OF w3] by (intro exI [of _ ?w3]) (simp add: workers_start_def)
qed

end
