(* ===== verification/PgClose.thy ===== *)
theory PgClose
  imports Postgres
begin

text \<open>
  Closing a session on Postgres: what the transaction with event \<open>session.completed\<close> leaves behind, the outbox as a keyed log over any
  sequence of Postgres transactions, and the health row by which a later request decides whether it is degraded.
\<close>

section \<open>Lemmas\<close>

lemma bnd_reader: "bnd (\<lambda>(s, d). (f s d, (s, d))) g (s, d) = (case f s d of Inl e \<Rightarrow> (Inl e, (s, d)) | Inr x \<Rightarrow> g x (s, d))"
  by (simp add: bnd_def split: sum.split)

lemma bnd_reads_pair: "bnd (reads f) g (s, d) = g (f (s, d)) (s, d)"
  by (simp add: bnd_reads)

text \<open>The replay of a session depends on a few tables only.\<close>

lemma view_replay:
  assumes "same_tables d d'" and "sy_gov t = sy_gov s"
  shows "run_from_session sid cid (pg_view d' t) = run_from_session sid cid (pg_view d s)"
proof (rule run_from_session_cong)
  show "get_replay_snapshots (pg_view d' t) sid = get_replay_snapshots (pg_view d s) sid"
    using assms(1) by (simp add: view_queries select_snapshots_def same_tables_def)
  show "get_replay_baseline_meta (pg_view d' t) sid = get_replay_baseline_meta (pg_view d s) sid"
    using assms(1) by (simp add: view_queries select_baseline_meta_def same_tables_def)
  show "filter (\<lambda>e. ev_type e = ty) (get_events_by_correlation (sy_db (pg_view d' t)) cid) =
      filter (\<lambda>e. ev_type e = ty) (get_events_by_correlation (sy_db (pg_view d s)) cid)" for ty
    using assms(1) by (simp add: view_queries select_events_def same_tables_def)
qed (use assms in \<open>simp_all add: pg_view_def same_tables_def\<close>)

text \<open>The baseline row that a close leaves: the correlation of the first close, the fingerprint and version of this one.\<close>

lemma insert_baseline_select:
  "select_baseline sid (insert_baseline sid cid fp d) = Some fp"
  "\<exists>c0. select_baseline_meta sid (insert_baseline sid cid fp d) = Some \<lparr>bm_correlation = c0, bm_fingerprint = fp, bm_version = ORCHESTRATOR_VERSION\<rparr>"
  by (auto simp: select_baseline_def select_baseline_meta_def insert_baseline_def insert_or_update_def str_or_def ORCHESTRATOR_VERSION_def
      dict_get_set split: option.splits)

lemma view_replay_baseline:
  assumes "run_from_session sid cid (pg_view d s) = Inr oc"
  shows "run_from_session sid cid (pg_view (insert_baseline sid cid' fp d) s) = Inr oc"
proof -
  let ?d = "insert_baseline sid cid' fp d"
  obtain c0 where c0: "select_baseline_meta sid ?d = Some \<lparr>bm_correlation = c0, bm_fingerprint = fp, bm_version = ORCHESTRATOR_VERSION\<rparr>"
    using insert_baseline_select by blast
  let ?u = "(pg_view d s)\<lparr>sy_replay := save_baseline_record_memory sid c0 fp ORCHESTRATOR_VERSION (sy_replay (pg_view d s))\<rparr>"
  have "run_from_session sid cid (pg_view ?d s) = run_from_session sid cid ?u"
  proof (rule run_from_session_cong)
    have "get_replay_snapshots ?u sid = get_replay_snapshots (pg_view d s) sid"
      by (simp add: get_replay_snapshots_def get_replay_snapshots_memory_def save_baseline_record_memory_def)
    then show "get_replay_snapshots (pg_view ?d s) sid = get_replay_snapshots ?u sid"
      by (simp add: view_queries select_snapshots_def insert_baseline_def)
    show "get_replay_baseline_meta (pg_view ?d s) sid = get_replay_baseline_meta ?u sid"
      unfolding view_queries c0 by (simp add: get_replay_baseline_meta_def get_baseline_record_memory_def save_baseline_record_memory_def dict_get_set)
  qed (simp_all add: pg_view_def insert_baseline_def get_events_by_correlation_def)
  then show ?thesis using run_after_baseline [OF assms] by simp
qed

text \<open>Completing the close: the outcome is computed on the tables as they are, then the baseline row is written.\<close>

lemma complete_close_run:
  assumes "complete_session_close_postgres R p (s, d) = (Inr p2, (t, d'))"
  shows "\<exists>oc c. run_from_session (pl_session p) (pl_correlation p) (pg_view d s) = Inr oc \<and> t = s\<lparr>sy_clock := c\<rparr> \<and>
    d' = insert_baseline (pl_session p) (pl_correlation p) (outcome_fingerprint (re_env R) oc) d"
proof -
  obtain p1 v where c0: "compute_session_close_health_postgres R p (s, d) = (Inr p1, v)"
    and dg0: "(if pl_diagnostics p1 \<noteq> None then ret p1
       else bnd (reads (diagnostics_postgres (pl_session p1) (pl_correlation p1) (pl_health p1)
         (if pl_anomalies p1 = [] then None else Some (pl_anomalies p1)))) (\<lambda>x. ret (p1\<lparr>pl_diagnostics := Some x\<rparr>))) v = (Inr p2 :: exn + payload, (t, d'))"
    by (rule bnd_InrE [OF assms [unfolded complete_session_close_postgres_def]])
  obtain u d1 where v: "v = (u, d1)" by (cases v)
  note c = c0 [unfolded v] and dg = dg0 [unfolded v]
  have k: "t = u" "d' = d1" using dg by (auto simp: ret_def bnd_reads_pair split: if_splits)
  obtain oc where oc: "run_from_session (pl_session p) (pl_correlation p) (pg_view d s) = Inr oc"
    using c by (cases "run_from_session (pl_session p) (pl_correlation p) (pg_view d s)")
      (simp_all add: compute_session_close_health_postgres_def bnd_fetch bnd_reader build_canonical_outcome_def rbind_simps)
  have "\<exists>c. u = s\<lparr>sy_clock := c\<rparr> \<and> d1 = insert_baseline (pl_session p) (pl_correlation p) (outcome_fingerprint (re_env R) oc) d"
    using c by (auto simp: compute_session_close_health_postgres_def bnd_fetch bnd_reader build_canonical_outcome_def oc rbind_simps Let_def
        seqc_def bnd_assoc on_sys_clock bnd_exec bnd_reads_pair ret_def)
  then show ?thesis using oc k by blast
qed
lemma close_reached:
  assumes "is_session_close p" and "persist_runtime_tx_postgres P R p (s, d) = (Inr r, td)"
  shows "\<exists>p1 u d1 x. pl_session p1 = pl_session p \<and> pl_correlation p1 = pl_correlation p \<and> is_session_close p1 \<and>
    bnd (close_postgres R p1) (\<lambda>p2. seqc (persist_intelligence_postgres P R p2) (ret x)) (u, d1) = (Inr r, td)"
proof -
  obtain snap k m where run: "persist_runtime_tx_postgres P R p (s, d) = (case fetch_outbox_by_idempotency (payload_key (re_env R) p) d of
       Some e \<Rightarrow> bnd (on_sys (merge_pending_spans p)) (\<lambda>p1. bnd (close_postgres R p1) (\<lambda>p2.
         seqc (persist_intelligence_postgres P R p2) (ret (e, False))))
     | None \<Rightarrow> bnd (on_sys (merge_pending_spans p)) (\<lambda>p1. seqc (write_ledger P R p1 (next_event R p s) snap)
         (bnd (close_postgres R p1) (\<lambda>p2. seqc (persist_intelligence_postgres P R p2) (ret (next_event R p s, True))))))
       (s\<lparr>sy_uuid := k, sy_clock := m\<rparr>, d)"
    by (rule persist_postgres_run)
  let ?s = "s\<lparr>sy_uuid := k, sy_clock := m\<rparr>"
  obtain us c where mr: "merge_pending_spans p ?s = (Inr (p\<lparr>pl_spans := us\<rparr>), ?s\<lparr>sy_spans := c\<rparr>)"
    using merge_run [of p ?s] by blast
  let ?p = "p\<lparr>pl_spans := us\<rparr>"
  have keep: "pl_session ?p = pl_session p" "pl_correlation ?p = pl_correlation p" "is_session_close ?p"
    using assms(1) by (simp_all add: is_session_close_def)
  show ?thesis
  proof (cases "fetch_outbox_by_idempotency (payload_key (re_env R) p) d")
    case (Some e)
    then have "bnd (close_postgres R ?p) (\<lambda>p2. seqc (persist_intelligence_postgres P R p2) (ret (e, False))) (?s\<lparr>sy_spans := c\<rparr>, d) = (Inr r, td)"
      using assms(2) by (simp add: run bnd_on_sys [where m = "merge_pending_spans p" and s = ?s, OF mr])
    then show ?thesis using keep by blast
  next
    case None
    then have "seqc (write_ledger P R ?p (next_event R p s) snap) (bnd (close_postgres R ?p) (\<lambda>p2.
        seqc (persist_intelligence_postgres P R p2) (ret (next_event R p s, True)))) (?s\<lparr>sy_spans := c\<rparr>, d) = (Inr r, td)"
      using assms(2) by (simp add: run bnd_on_sys [where m = "merge_pending_spans p" and s = ?s, OF mr])
    then obtain w where "bnd (close_postgres R ?p) (\<lambda>p2. seqc (persist_intelligence_postgres P R p2) (ret (next_event R p s, True))) w = (Inr r, td)"
      unfolding seqc_def [of "write_ledger _ _ _ _ _"] by (rule bnd_InrE)
    then show ?thesis using keep by (cases w) blast
  qed
qed

lemma close_leaves_baseline_postgres:
  assumes "is_session_close p" and "persist_runtime_tx_postgres P R p (s, d) = (Inr r, (t, d'))"
  shows "\<exists>oc fp. run_from_session (pl_session p) (pl_correlation p) (pg_view d' t) = Inr oc \<and> oc_final_state oc = ''completed'' \<and>
    fp = outcome_fingerprint (re_env R) oc \<and> select_baseline (pl_session p) d' = Some fp \<and>
    validate_frozen_replay_postgres (re_env R) (pl_session p) (pl_correlation p) (t, d') = Inr (True, fp, Some fp)"
proof -
  obtain p1 u d1 x where keep: "pl_session p1 = pl_session p" "pl_correlation p1 = pl_correlation p" "is_session_close p1"
    and tail: "bnd (close_postgres R p1) (\<lambda>p2. seqc (persist_intelligence_postgres P R p2) (ret x)) (u, d1) = (Inr r, (t, d'))"
    using close_reached [OF assms] by blast
  obtain p2 t1 d2 where c: "complete_session_close_postgres R p1 (u, d1) = (Inr p2, (t1, d2))"
    and i: "seqc (persist_intelligence_postgres P R p2) (ret x) (t1, d2) = (Inr r, (t, d'))"
    using tail keep(3) by (auto simp: close_postgres_def elim!: bnd_InrE)
  obtain oc where run: "run_from_session (pl_session p) (pl_correlation p) (pg_view d1 u) = Inr oc" and t1: "sy_gov t1 = sy_gov u"
    and d2: "d2 = insert_baseline (pl_session p) (pl_correlation p) (outcome_fingerprint (re_env R) oc) d1"
    using complete_close_run [OF c] keep by auto
  obtain n d3 where "persist_intelligence_postgres P R p2 (t1, d2) = (Inr (), (t1\<lparr>sy_clock := n\<rparr>, d3))" "same_tables d2 d3"
    using persist_intelligence_postgres_run by blast
  then have k: "sy_gov t = sy_gov u" "same_tables d2 d'" using i t1 by (auto simp: seqc_def bnd_Inr ret_def)
  have replays: "run_from_session (pl_session p) (pl_correlation p) (pg_view d' t) = Inr oc"
    using view_replay [OF k(2,1)] view_replay_baseline [OF run] unfolding d2 by simp
  have base: "select_baseline (pl_session p) d' = select_baseline (pl_session p) d2" "select_baseline_meta (pl_session p) d' = select_baseline_meta (pl_session p) d2"
    using k(2) by (simp_all add: select_baseline_def select_baseline_meta_def same_tables_def)
  obtain c0 where meta: "select_baseline_meta (pl_session p) d2 = Some \<lparr>bm_correlation = c0, bm_fingerprint = outcome_fingerprint (re_env R) oc, bm_version = ORCHESTRATOR_VERSION\<rparr>"
    and fp: "select_baseline (pl_session p) d2 = Some (outcome_fingerprint (re_env R) oc)"
    using insert_baseline_select unfolding d2 by blast
  have "validate_frozen_replay_postgres (re_env R) (pl_session p) (pl_correlation p) (t, d') =
      Inr (True, outcome_fingerprint (re_env R) oc, Some (outcome_fingerprint (re_env R) oc))"
    by (simp add: validate_frozen_replay_postgres_def validate_frozen_replay_def view_queries base meta fp replays Let_def)
  moreover have "oc_final_state oc = ''completed''"
    using run frozen_run_final by (auto simp: run_from_session_def rbind_Inr_iff)
  ultimately show ?thesis using replays fp base by auto
qed

text \<open>C10: closing a session on Postgres leaves a baseline that validates: if the transaction of a \<open>session.completed\<close> event returns
  (whether the event was new or a retry), the frozen replay of the session over the database completes, the baseline row of the
  session holds the fingerprint of that outcome, and validating the session answers true with it.\<close>

theorem postgres_close_validates:
  assumes "is_session_close p" and "persist_runtime_tx_postgres P R p (s, d) = (Inr r, (t, d'))"
  shows "\<exists>oc fp. run_from_session (pl_session p) (pl_correlation p) (pg_view d' t) = Inr oc \<and> oc_final_state oc = ''completed'' \<and>
    fp = outcome_fingerprint (re_env R) oc \<and> select_baseline (pl_session p) d' = Some fp \<and>
    validate_frozen_replay_postgres (re_env R) (pl_session p) (pl_correlation p) (t, d') = Inr (True, fp, Some fp)"
  using assms by (rule close_leaves_baseline_postgres)

text \<open>A close returns when the frozen replay does.\<close>

lemma complete_close_returns:
  assumes "run_from_session (pl_session p) (pl_correlation p) (pg_view d s) = Inr oc"
  shows "\<exists>p2 t d'. complete_session_close_postgres R p (s, d) = (Inr p2, (t, d'))"
proof -
  have "\<exists>p1 v. compute_session_close_health_postgres R p (s, d) = (Inr p1, v)"
    by (simp add: compute_session_close_health_postgres_def bnd_fetch bnd_reader build_canonical_outcome_def assms rbind_simps Let_def
        seqc_def bnd_assoc on_sys_clock bnd_exec bnd_reads_pair ret_def)
  then obtain p1 u d1 where c: "compute_session_close_health_postgres R p (s, d) = (Inr p1, (u, d1))" by auto
  show ?thesis
    unfolding complete_session_close_postgres_def bnd_Inr [where m = "compute_session_close_health_postgres R p", OF c] by (simp add: bnd_reads_pair ret_def)
qed

definition demo_tables :: pg where
  "demo_tables = init_schema\<lparr>pg_outbox := [intent_event\<lparr>ev_key := ''d''\<rparr>], pg_transitions :=
     [(\<lparr>pt_correlation = ''c'', pt_session = ''s'', pt_from = ''perceiving'', pt_to = ''reasoning''\<rparr>, 0)]\<rparr>"

lemma demo_tables_run: "run_from_session ''s'' ''c'' (pg_view demo_tables init_sys) = Inr \<lparr>oc_final_state = ''completed'',
   oc_tools = [''detect_blockers''], oc_decisions = [], oc_effects = [], oc_approvals = []\<rparr>"
  by code_simp

theorem postgres_close_validates_witness:
  "\<exists>r t d fp. persist_runtime_tx_postgres demo_pg demo_env demo_close (init_sys, demo_tables) = (Inr r, (t, d)) \<and>
     validate_frozen_replay_postgres (re_env demo_env) ''s'' ''c'' (t, d) = Inr (True, fp, Some fp)"
proof -
  have sc: "is_session_close demo_close" "pl_session demo_close = ''s''" "pl_correlation demo_close = ''c''"
    by (simp_all add: is_session_close_def demo_close_def new_payload_def)
  have key: "fetch_outbox_by_idempotency (payload_key (re_env demo_env) demo_close) demo_tables = Some (intent_event\<lparr>ev_key := ''d''\<rparr>)"
    by (simp add: payload_key_def idempotency_key_def stable_hash_def demo_env_def fetch_outbox_by_idempotency_def demo_tables_def)
  obtain k m where run: "persist_runtime_tx_postgres demo_pg demo_env demo_close (init_sys, demo_tables) =
      bnd (on_sys (merge_pending_spans demo_close)) (\<lambda>p1. bnd (close_postgres demo_env p1) (\<lambda>p2.
         seqc (persist_intelligence_postgres demo_pg demo_env p2) (ret (intent_event\<lparr>ev_key := ''d''\<rparr>, False)))) (init_sys\<lparr>sy_uuid := k, sy_clock := m\<rparr>, demo_tables)"
    by (rule persist_postgres_run [of demo_close init_sys demo_pg demo_env demo_tables]) (simp add: key)
  let ?s = "init_sys\<lparr>sy_uuid := k, sy_clock := m\<rparr>"
  obtain us c where mr: "merge_pending_spans demo_close ?s = (Inr (demo_close\<lparr>pl_spans := us\<rparr>), ?s\<lparr>sy_spans := c\<rparr>)"
    using merge_run by blast
  let ?p = "demo_close\<lparr>pl_spans := us\<rparr>"
  have "run_from_session (pl_session ?p) (pl_correlation ?p) (pg_view demo_tables (?s\<lparr>sy_spans := c\<rparr>)) = run_from_session ''s'' ''c'' (pg_view demo_tables init_sys)"
    using view_replay [OF same_tables_refl, of "?s\<lparr>sy_spans := c\<rparr>" init_sys "''s''" "''c''" demo_tables] sc by simp
  then obtain p2 t1 d1 where cl: "complete_session_close_postgres demo_env ?p (?s\<lparr>sy_spans := c\<rparr>, demo_tables) = (Inr p2, (t1, d1))"
    using complete_close_returns [of ?p demo_tables "?s\<lparr>sy_spans := c\<rparr>" _ demo_env] demo_tables_run by metis
  have cp: "close_postgres demo_env ?p = complete_session_close_postgres demo_env ?p"
    using sc(1) by (simp add: close_postgres_def is_session_close_def)
  obtain n d2 where "persist_intelligence_postgres demo_pg demo_env p2 (t1, d1) = (Inr (), (t1\<lparr>sy_clock := n\<rparr>, d2))"
    using persist_intelligence_postgres_run by blast
  then obtain r t d where r: "persist_runtime_tx_postgres demo_pg demo_env demo_close (init_sys, demo_tables) = (Inr r, (t, d))"
    unfolding run bnd_on_sys [where m = "merge_pending_spans demo_close", OF mr] cp bnd_Inr [where m = "complete_session_close_postgres demo_env ?p", OF cl]
    by (simp add: seqc_def bnd_Inr [where m = "persist_intelligence_postgres demo_pg demo_env p2"] ret_def)
  show ?thesis using postgres_close_validates [OF sc(1) r] r unfolding sc by blast
qed

section \<open>The outbox as a keyed log\<close>

text \<open>Transactions on Postgres never put two events with one key into the outbox, whatever they write and however they end.\<close>

definition postgres_keys :: "sys \<times> pg \<Rightarrow> string list" where
  "postgres_keys x = map ev_key (pg_outbox (snd x))"

lemma close_postgres_outbox: "keeps (\<lambda>(s, d). pg_outbox d = X) (close_postgres R p)"
  unfolding close_postgres_def complete_session_close_postgres_def compute_session_close_health_postgres_def Let_def
  by (intro pg_keeps keeps_on_sys keeps_exec) (simp_all add: insert_baseline_def keeps_def)

lemma tail_outbox: "keeps (\<lambda>(s, d). pg_outbox d = X) (bnd (close_postgres R p) (\<lambda>p2. seqc (persist_intelligence_postgres P R p2) (ret x)))"
proof -
  have "keeps (\<lambda>(s, d). pg_outbox d = X) (persist_intelligence_postgres P R q)" for q
  proof (rule keepsI)
    fix u :: "sys \<times> pg" assume a: "case u of (s, d) \<Rightarrow> pg_outbox d = X"
    obtain s d where u: "u = (s, d)" by (cases u)
    obtain n d' where "persist_intelligence_postgres P R q (s, d) = (Inr (), (s\<lparr>sy_clock := n\<rparr>, d'))" "same_tables d d'"
      using persist_intelligence_postgres_run by blast
    then show "case snd (persist_intelligence_postgres P R q u) of (s, d) \<Rightarrow> pg_outbox d = X" using a u by (auto simp: same_tables_def)
  qed
  then show ?thesis by (intro keeps_bnd keeps_seqc keeps_ret close_postgres_outbox)
qed
lemma persist_postgres_outbox:
  assumes "persist_runtime_tx_postgres P R p (s, d) = (Inr r, (t, d'))"
  shows "pg_outbox d' = pg_outbox d \<or> payload_key (re_env R) p \<notin> set (map ev_key (pg_outbox d)) \<and>
     map ev_key (pg_outbox d') = map ev_key (pg_outbox d) @ [payload_key (re_env R) p]"
proof -
  obtain snap k m where run: "persist_runtime_tx_postgres P R p (s, d) = (case fetch_outbox_by_idempotency (payload_key (re_env R) p) d of
       Some e \<Rightarrow> bnd (on_sys (merge_pending_spans p)) (\<lambda>p1. bnd (close_postgres R p1) (\<lambda>p2.
         seqc (persist_intelligence_postgres P R p2) (ret (e, False))))
     | None \<Rightarrow> bnd (on_sys (merge_pending_spans p)) (\<lambda>p1. seqc (write_ledger P R p1 (next_event R p s) snap)
         (bnd (close_postgres R p1) (\<lambda>p2. seqc (persist_intelligence_postgres P R p2) (ret (next_event R p s, True))))))
       (s\<lparr>sy_uuid := k, sy_clock := m\<rparr>, d)"
    by (rule persist_postgres_run)
  let ?s = "s\<lparr>sy_uuid := k, sy_clock := m\<rparr>"
  obtain us c where mr: "merge_pending_spans p ?s = (Inr (p\<lparr>pl_spans := us\<rparr>), ?s\<lparr>sy_spans := c\<rparr>)"
    using merge_run [of p ?s] by blast
  let ?p = "p\<lparr>pl_spans := us\<rparr>" and ?e = "next_event R p s"
  have tail: "pg_outbox d2 = pg_outbox d1"
    if "bnd (close_postgres R ?p) (\<lambda>p2. seqc (persist_intelligence_postgres P R p2) (ret x)) (u, d1) = (Inr r, (t, d2))" for x u d1 d2
    using keepsD [OF tail_outbox, of "pg_outbox d1" "(u, d1)"] that by fastforce
  show ?thesis
  proof (cases "fetch_outbox_by_idempotency (payload_key (re_env R) p) d")
    case (Some e)
    then show ?thesis using assms tail by (simp add: run bnd_on_sys [where m = "merge_pending_spans p" and s = ?s, OF mr])
  next
    case None
    then have w: "seqc (write_ledger P R ?p ?e snap) (bnd (close_postgres R ?p) (\<lambda>p2.
        seqc (persist_intelligence_postgres P R p2) (ret (?e, True)))) (?s\<lparr>sy_spans := c\<rparr>, d) = (Inr r, (t, d'))"
      using assms by (simp add: run bnd_on_sys [where m = "merge_pending_spans p" and s = ?s, OF mr])
    have nc: "\<not> outbox_conflict ?e d"
    proof
      assume "outbox_conflict ?e d"
      from write_ledger_conflict [OF this] obtain v where "write_ledger P R ?p ?e snap (?s\<lparr>sy_spans := c\<rparr>, d) = (Inl (UniqueViolationError ''outbox_events''), v)"
        by blast
      then show False using w by (simp add: seqc_def [of "write_ledger _ _ _ _ _"] bnd_Inl)
    qed
    obtain n d1 where l: "write_ledger P R ?p ?e snap (?s\<lparr>sy_spans := c\<rparr>, d) = (Inr (), (?s\<lparr>sy_spans := c\<rparr>\<lparr>sy_clock := n\<rparr>, d1))" "ledger_written P ?p ?e snap d d1"
      using write_ledger_run [OF nc] by blast
    have "pg_outbox d' = pg_outbox d1"
      using w tail unfolding seqc_def [of "write_ledger _ _ _ _ _"] bnd_Inr [where m = "write_ledger _ _ _ _ _", OF l(1)] by blast
    then show ?thesis using l(2) None by (simp add: ledger_written_def event_row_def next_event_def outbox_event_of_def fetch_None)
  qed
qed

lemma transaction_outbox:
  "postgres_keys (snd (transaction c (persist_runtime_tx_postgres P R p) x)) = postgres_keys x \<or>
    payload_key (re_env R) p \<notin> set (postgres_keys x) \<and>
    postgres_keys (snd (transaction c (persist_runtime_tx_postgres P R p) x)) = postgres_keys x @ [payload_key (re_env R) p]"
proof -
  obtain s d where x: "x = (s, d)" by (cases x)
  show ?thesis
  proof (cases "persist_runtime_tx_postgres P R p (s, d)" rule: prod_cases3)
    case (fields r t d')
    then show ?thesis using persist_postgres_outbox [of P R p s d _ t d']
      by (cases r) (auto simp: x transaction_def postgres_keys_def)
  qed
qed

interpretation pgtx: keyed_log postgres_keys "\<lambda>p x. snd (transaction c (persist_runtime_tx_postgres P R p) x)" "payload_key (re_env R)" for P R c
  by unfold_locales (rule transaction_outbox)
section \<open>Which health counts\<close>

lemma last_sort_key: "xs \<noteq> [] \<Longrightarrow> last (sort_key k xs) \<in> set xs \<and> (\<forall>x \<in> set xs. k x \<le> k (last (sort_key k xs)))"
  for k :: "'a \<Rightarrow> 'b::linorder"
proof -
  assume ne: "xs \<noteq> []"
  have s: "sorted (map k (sort_key k xs))" by simp
  have "sort_key k xs \<noteq> []" using ne by (metis length_0_conv length_sort)
  then have l: "last (sort_key k xs) \<in> set xs" and b: "sort_key k xs = butlast (sort_key k xs) @ [last (sort_key k xs)]"
    using last_in_set by fastforce+
  have "k x \<le> k (last (sort_key k xs))" if "x \<in> set xs" for x
  proof -
    have "x \<in> set (butlast (sort_key k xs) @ [last (sort_key k xs)])" using that b by (metis set_sort)
    moreover have "sorted (map k (butlast (sort_key k xs) @ [last (sort_key k xs)]))" using s b by simp
    ultimately show ?thesis by (auto simp: sorted_append)
  qed
  then show ?thesis using l by blast
qed

text \<open>On Postgres the rows come newest first, and the orchestrator looks at the last one: whether a request of the session is run in
  degraded mode is decided by the oldest health of the session (and the agent's own), however good or bad the later ones are.\<close>

theorem degraded_mode_looks_at_oldest_health:
  assumes "h \<in> set (pg_health d)" and "rh_session h = sid"
    and "\<forall>x \<in> set (pg_health d). rh_session x = sid \<longrightarrow> x = h \<or> rh_generated h < rh_generated x"
  shows "session_health_degraded_postgres sid (s, d) =
    (if rh_degraded h then (Inr True, s, d) else agent_degraded_postgres ''ceo'' (s, d))"
proof -
  let ?hs = "filter (\<lambda>x. rh_session x = sid) (pg_health d)"
  have ne: "?hs \<noteq> []" and hin: "h \<in> set ?hs" using assms(1,2) by (auto simp: filter_empty_conv)
  have l: "last (select_health sid d) \<in> set ?hs" "- rh_generated h \<le> - rh_generated (last (select_health sid d))"
    using last_sort_key [OF ne, of "\<lambda>x. - rh_generated x"] hin unfolding select_health_def by blast+
  then have "last (select_health sid d) = h" using assms(3) by force
  moreover have "select_health sid d \<noteq> []" using ne unfolding select_health_def by (metis length_0_conv length_sort)
  ultimately show ?thesis by (simp add: session_health_degraded_postgres_def bnd_def fetch_def ret_def)
qed

end
