(* ===== verification/PgRequests.thy ===== *)
theory PgRequests
  imports PgClose Requests
begin

text \<open>
  A request that the preprocessor answers with one tool, on Postgres: \<open>run_deterministic_tool\<close> of \<open>core/orchestrator.py\<close>
  on the connection of a session transaction, what its statements leave in the tables, and the outcome of the request as a whole.
\<close>

section \<open>The request\<close>

definition record_transition_postgres :: "pg_env \<Rightarrow> rt_env \<Rightarrow> state_machine \<Rightarrow> runtime_state \<Rightarrow> string \<Rightarrow> state_machine pgc" where
  "record_transition_postgres P R sm to sid =
     (let from = state_value (sm_state sm) in
      bnd (on_sys (span_start R TRANSITION from [(''to'', PStr (state_value to))])) (\<lambda>tspan.
      bnd (on_sys (sm_call_at R (\<lambda>t. transition t to) sm)) (\<lambda>sm'.
      seqc (on_sys (span_end R tspan SP_OK []))
      (bnd (persist_runtime_tx_postgres P R (transition_payload sm' from (state_value to) sid)) (\<lambda>_. ret sm')))))"

definition deterministic_steps_postgres ::
  "pg_env \<Rightarrow> rt_env \<Rightarrow> registry \<Rightarrow> string \<Rightarrow> string \<Rightarrow> string \<Rightarrow> string \<Rightarrow> pyval option \<Rightarrow> string \<Rightarrow> state_machine \<Rightarrow> tool_result pgc" where
  "deterministic_steps_postgres P R reg tool agent cid sid params orch sm0 =
     bnd (record_transition_postgres P R sm0 REASONING sid) (\<lambda>sm1.
     bnd (persist_runtime_tx_postgres P R (intent_payload cid sid (deterministic_intent tool))) (\<lambda>_.
     bnd (record_transition_postgres P R sm1 WAITING_TOOL sid) (\<lambda>sm2.
     bnd (on_sys (execute_tool R reg tool agent cid params (Some sid) 0)) (\<lambda>r.
     bnd (record_transition_postgres P R sm2 OBSERVING sid) (\<lambda>sm3.
     bnd (on_sys (sm_call_at R complete sm3)) (\<lambda>sm4.
     seqc (on_sys (span_end R orch SP_OK []))
     (bnd (persist_runtime_tx_postgres P R (deterministic_close cid sid tool r)) (\<lambda>_. ret r))))))))"

definition run_deterministic_tool_postgres ::
  "pg_env \<Rightarrow> rt_env \<Rightarrow> registry \<Rightarrow> string \<Rightarrow> string \<Rightarrow> string \<Rightarrow> string \<Rightarrow> pyval option \<Rightarrow> tool_result pgc" where
  "run_deterministic_tool_postgres P R reg tool agent cid sid params =
     seqc (on_sys (span_begin sid cid))
     (bnd (on_sys (span_start R ORCHESTRATION ''perceiving'' [])) (\<lambda>orch.
      bnd (on_sys (sm_call_at R start (new_sm cid sid))) (deterministic_steps_postgres P R reg tool agent cid sid params orch)))"

definition run_locked_tool_postgres :: "pg_env \<Rightarrow> rt_env \<Rightarrow> registry \<Rightarrow> hint \<Rightarrow> string \<Rightarrow> string \<Rightarrow> request_result pgc" where
  "run_locked_tool_postgres P R reg h sid cid = bnd (run_deterministic_tool_postgres P R reg (hn_tool h)
     (case hn_agent h of None \<Rightarrow> ''ceo'' | Some a \<Rightarrow> a) cid sid (hn_params h)) (\<lambda>r. ret (Deterministic cid sid r))"

text \<open>\<open>run_founder_request\<close> with a hint that names a tool, on connection \<open>c\<close>.\<close>

definition run_tool_request_postgres ::
  "pg_env \<Rightarrow> nat \<Rightarrow> rt_env \<Rightarrow> registry \<Rightarrow> string option \<Rightarrow> string option \<Rightarrow> hint \<Rightarrow> request_result pgc" where
  "run_tool_request_postgres P c R reg sid0 cid0 h = bnd (on_sys (request_ids R sid0 cid0)) (\<lambda>(cid, sid).
     catch (mutative_session_postgres P c sid (run_locked_tool_postgres P R reg h sid cid)) is_lock_error (\<lambda>e. ret (LockedSession sid)))"

section \<open>Time passes\<close>

text \<open>No computation turns the clock or the counter of the identifiers back.\<close>

definition later :: "nat \<Rightarrow> nat \<Rightarrow> sys \<Rightarrow> bool" where
  "later c u s \<longleftrightarrow> c \<le> sy_clock s \<and> u \<le> sy_uuid s"

lemma later_now [simp]: "later (sy_clock s) (sy_uuid s) s"
  by (simp add: later_def)

lemma later_upd [simp]:
  "later c u (s\<lparr>sy_spans := x\<rparr>) = later c u s" "later c u (s\<lparr>sy_ext := n\<rparr>) = later c u s" "later c u (s\<lparr>sy_cache := k\<rparr>) = later c u s"
  by (simp_all add: later_def)

lemma later_trans: "later (sy_clock s) (sy_uuid s) t \<Longrightarrow> later (sy_clock t) (sy_uuid t) v \<Longrightarrow> later (sy_clock s) (sy_uuid s) v"
  by (simp add: later_def)

lemma keeps_later:
  "keeps (later c u) (clock R)" "keeps (later c u) (fresh_uuid R)" "keeps (later c u) (outside f)" "keeps (later c u) (on_spans h)"
  "keeps (later c u) (span_start R ty rs meta)" "keeps (later c u) (span_end R spn st meta)" "keeps (later c u) (span_begin sid cid)"
proof -
  show c: "keeps (later c u) (clock R)" by (simp add: keeps_def clock_def later_def)
  show i: "keeps (later c u) (fresh_uuid R)" by (simp add: keeps_def fresh_uuid_def later_def)
  show "keeps (later c u) (outside f)" by (simp add: keeps_def outside_def later_def)
  have o: "keeps (later c u) (on_spans g)" for g by (rule rt_keeps) simp
  show "keeps (later c u) (on_spans h)" by (rule o)
  show "keeps (later c u) (span_start R ty rs meta)" "keeps (later c u) (span_end R spn st meta)" "keeps (later c u) (span_begin sid cid)"
    unfolding span_start_def span_end_def span_begin_def by (intro keeps_bnd keeps_seqc keeps_ret c i o)+
qed

lemma pure_handler_later: "keeps (later c u) (pure_handler n rq op f kw)"
  by (auto simp: pure_handler_def split: option.split)

lemma github_later: "keeps (later c u) (github_mcp_call R verb params)"
  unfolding github_mcp_call_def by (auto split: sum.split simp: keeps_later intro!: keeps_bnd)

lemma handlers_later: "dict_get (TOOL_HANDLERS R) tool = Some fn \<Longrightarrow> keeps (later c u) (fn kw)"
proof -
  have "keeps (later c u) (list_github_prs R kw)" "keeps (later c u) (get_repo_health R kw)"
    unfolding list_github_prs_def get_repo_health_def Let_def by (auto split: option.split intro!: keeps_bnd github_later)
  then show "dict_get (TOOL_HANDLERS R) tool = Some fn \<Longrightarrow> keeps (later c u) (fn kw)"
    by (drule_tac dict_get_SomeD) (auto simp: TOOL_HANDLERS_def pure_handler_later analyze_incidents_def
      prioritize_bugs_def read_kpi_dashboard_def get_cashflow_summary_def calculate_runway_def detect_blockers_def
      list_active_tasks_def get_analytics_summary_def propose_campaign_def create_initiative_def escalate_to_human_def)
qed

lemma run_handler_later: "keeps (later c u) (run_handler R spn tool cid params sid)"
proof (cases "dict_get (TOOL_HANDLERS R) tool")
  case None
  then show ?thesis by (auto simp: run_handler_def keeps_later intro!: keeps_seqc)
next
  case (Some fn)
  have "keeps (later c u) (cache_set R t ps v ttl)" for t ps v ttl
    unfolding cache_set_def by (auto split: option.split simp: keeps_later intro!: keeps_bnd keeps_mods)
  then show ?thesis
    unfolding run_handler_def Some option.case Let_def normalize_tool_call_def
    by (auto simp: keeps_later handlers_later [OF Some] intro!: keeps_bnd keeps_seqc)
qed

lemma execute_tool_later: "keeps (later c u) (execute_tool R reg tool agent cid raw sid xb)"
  unfolding execute_tool_def tool_gate_def Let_def
  by (auto simp: keeps_later run_handler_later intro!: keeps_bnd keeps_seqc split: option.split)

lemma persist_intelligence_later: "keeps (\<lambda>(s, d). later c u s) (persist_intelligence_postgres P R p)"
  unfolding persist_intelligence_postgres_def persist_adaptive_postgres_def
  by (intro pg_keeps keeps_on_sys keeps_exec) (simp_all add: keeps_later keeps_reads)


section \<open>What a transaction of the request leaves\<close>

text \<open>A payload whose only row is its event and perhaps a transition.\<close>

definition row_write :: "payload \<Rightarrow> bool" where
  "row_write p \<longleftrightarrow> \<not> pl_update_world p \<and> pl_snapshot p = None \<and> pl_decision p = None \<and> pl_effect p = None \<and> pl_retry p = None"

definition ids_free :: "rt_env \<Rightarrow> sys \<Rightarrow> pg \<Rightarrow> bool" where
  "ids_free R s d \<longleftrightarrow> (\<forall>n \<ge> sy_uuid s. re_uuid R n \<notin> ev_id ` set (pg_outbox d))"

text \<open>The tables that a replay reads, before and after: one event more, and the transition with a reading of the clock.\<close>

definition rows_added :: "pg_env \<Rightarrow> rt_env \<Rightarrow> payload \<Rightarrow> sys \<Rightarrow> pg \<Rightarrow> sys \<Rightarrow> pg \<Rightarrow> bool" where
  "rows_added P R p s d t d' \<longleftrightarrow> sy_gov t = sy_gov s \<and> later (sy_clock s) (sy_uuid s) t \<and>
     (\<exists>e. pg_outbox d' = pg_outbox d @ [e] \<and> ev_key e = payload_key (re_env R) p \<and> ev_type e = pl_type p \<and>
        ev_correlation e = pl_correlation p \<and> ev_payload e = pe_jsonb P (pl_body p) \<and> (\<exists>n. sy_uuid s \<le> n \<and> n < sy_uuid t \<and> ev_id e = re_uuid R n)) \<and>
     (\<exists>n. sy_clock s \<le> n \<and> n < sy_clock t \<and>
        pg_transitions d' = pg_transitions d @ (case pl_transition p of None \<Rightarrow> [] | Some x \<Rightarrow> [(x, re_now R n)])) \<and>
     pg_replays d' = pg_replays d \<and> pg_baselines d' = pg_baselines d \<and> pg_decisions d' = pg_decisions d \<and> pg_effects d' = pg_effects d \<and>
     pg_approvals d' = pg_approvals d \<and> pg_locks d' = pg_locks d \<and> pg_rowlocks d' = pg_rowlocks d"

lemma rows_added_between:
  assumes "same_stores s s1" and "later (sy_clock s) (sy_uuid s) s1" and "rows_added P R p s1 d t d'"
  shows "rows_added P R p s d t d'"
proof -
  have o: "sy_gov s1 = sy_gov s" "sy_clock s \<le> sy_clock s1" "sy_uuid s \<le> sy_uuid s1"
    using assms(1,2) by (simp_all add: same_stores_def later_def)
  note a = assms(3) [unfolded rows_added_def later_def]
  obtain e n where e: "pg_outbox d' = pg_outbox d @ [e]" "ev_key e = payload_key (re_env R) p" "ev_type e = pl_type p"
    "ev_correlation e = pl_correlation p" "ev_payload e = pe_jsonb P (pl_body p)" "sy_uuid s1 \<le> n" "n < sy_uuid t" "ev_id e = re_uuid R n"
    using a by blast
  obtain m where m: "sy_clock s1 \<le> m" "m < sy_clock t"
    "pg_transitions d' = pg_transitions d @ (case pl_transition p of None \<Rightarrow> [] | Some x \<Rightarrow> [(x, re_now R m)])"
    using a by blast
  have "\<exists>n. sy_uuid s \<le> n \<and> n < sy_uuid t \<and> ev_id e = re_uuid R n" using e o by (intro exI [of _ n]) simp
  moreover have "\<exists>n. sy_clock s \<le> n \<and> n < sy_clock t \<and>
      pg_transitions d' = pg_transitions d @ (case pl_transition p of None \<Rightarrow> [] | Some x \<Rightarrow> [(x, re_now R n)])"
    using m o by (intro exI [of _ m]) simp
  moreover have "sy_clock s \<le> sy_clock t" "sy_uuid s \<le> sy_uuid t" "sy_gov t = sy_gov s" using a o by simp_all
  ultimately show ?thesis using a e unfolding rows_added_def later_def by blast
qed

lemma ids_free_later: "ids_free R s d \<Longrightarrow> later (sy_clock s) (sy_uuid s) t \<Longrightarrow> ids_free R t d"
  by (auto simp: ids_free_def later_def)

lemma rows_added_ids:
  assumes "rows_added P R p s d t d'" and "ids_free R s d" and "inj (re_uuid R)"
  shows "ids_free R t d'"
proof -
  obtain e n where e: "pg_outbox d' = pg_outbox d @ [e]" "n < sy_uuid t" "ev_id e = re_uuid R n" and l: "sy_uuid s \<le> sy_uuid t"
    using assms(1) by (auto simp: rows_added_def later_def)
  have "re_uuid R m \<noteq> re_uuid R n" if "sy_uuid t \<le> m" for m
    using that e(2) assms(3) by (auto dest: injD)
  then show ?thesis using e l assms(2) by (auto simp: ids_free_def)
qed

lemma write_rows:
  assumes "row_write p" and "\<not> outbox_conflict e d"
  shows "write_ledger P R p e None (s, d) = (case pl_transition p of
     None \<Rightarrow> (Inr (), (s, d\<lparr>pg_outbox := pg_outbox d @ [event_row P e None]\<rparr>))
   | Some x \<Rightarrow> (Inr (), (s\<lparr>sy_clock := sy_clock s + 1\<rparr>,
       insert_transition (re_now R (sy_clock s)) x (d\<lparr>pg_outbox := pg_outbox d @ [event_row P e None]\<rparr>))))"
proof -
  have "insert_outbox P e d = Inr (d\<lparr>pg_outbox := pg_outbox d @ [event_row P e None]\<rparr>)"
    using assms(2) by (auto simp: insert_outbox_def outbox_conflict_def event_row_def)
  note ins = this
  have p: "pl_snapshot p = None" "pl_decision p = None" "pl_effect p = None" "pl_retry p = None"
    using assms(1) by (simp_all add: row_write_def)
  have "write_ledger P R p e None (s, d) = (case pl_transition p of None \<Rightarrow> ret ()
      | Some t \<Rightarrow> bnd (on_sys (clock R)) (\<lambda>now. exec (insert_transition now t))) (s, d\<lparr>pg_outbox := pg_outbox d @ [event_row P e None]\<rparr>)"
    unfolding write_ledger_def seqc_def pg_run by (simp add: p ins when_some_def write_snapshot_postgres_def)
  then show ?thesis by (simp add: ret_def pg_run split: option.split)
qed

text \<open>The first part of such a transaction, exactly.\<close>

lemma persist_rows_run:
  assumes "\<not> pl_update_world p"
  shows "persist_runtime_tx_postgres P R p (s, d) = (case fetch_outbox_by_idempotency (payload_key (re_env R) p) d of
       Some e \<Rightarrow> bnd (on_sys (merge_pending_spans p)) (\<lambda>p1. bnd (close_postgres R p1) (\<lambda>p2.
         seqc (persist_intelligence_postgres P R p2) (ret (e, False))))
     | None \<Rightarrow> bnd (on_sys (merge_pending_spans p)) (\<lambda>p1. seqc (write_ledger P R p1 (next_event R p s) None)
         (bnd (close_postgres R p1) (\<lambda>p2. seqc (persist_intelligence_postgres P R p2) (ret (next_event R p s, True))))))
       (s\<lparr>sy_uuid := sy_uuid s + 1, sy_clock := sy_clock s + 1\<rparr>, d)"
proof -
  have nw: "next_world R p w = ret None" for w using assms by (simp add: next_world_def)
  have key: "ev_key (next_event R p s) = payload_key (re_env R) p" by (simp add: next_event_def outbox_event_of_def)
  have "on_sys (ret x :: world_snapshot option rt) = ret x" for x
    by (rule ext) (simp add: on_sys_def ret_def split: prod.split)
  then show ?thesis
    using key by (simp add: persist_runtime_tx_postgres_def Let_def pg_run nw bnd_ret next_event_def [symmetric])
qed

lemma persist_rows:
  assumes "row_write p" and "\<not> is_session_close p" and "ids_free R s d" and "payload_key (re_env R) p \<notin> ev_key ` set (pg_outbox d)"
  obtains r t d' where "persist_runtime_tx_postgres P R p (s, d) = (Inr r, (t, d'))" and "rows_added P R p s d t d'"
proof -
  have nu: "\<not> pl_update_world p" using assms(1) by (simp add: row_write_def)
  let ?e = "next_event R p s" and ?s = "s\<lparr>sy_uuid := sy_uuid s + 1, sy_clock := sy_clock s + 1\<rparr>"
  have e: "ev_key ?e = payload_key (re_env R) p" "ev_id ?e = re_uuid R (sy_uuid s)" "ev_type ?e = pl_type p"
    "ev_correlation ?e = pl_correlation p" "ev_payload ?e = pl_body p"
    by (simp_all add: next_event_def outbox_event_of_def)
  have nc: "\<not> outbox_conflict ?e d"
    using assms(3,4) unfolding outbox_conflict_def e ids_free_def by (metis imageI order_refl)
  have nf: "fetch_outbox_by_idempotency (payload_key (re_env R) p) d = None"
    using assms(4) unfolding fetch_outbox_by_idempotency_def find_None_iff by (metis imageI)
  obtain us c where mr: "merge_pending_spans p ?s = (Inr (p\<lparr>pl_spans := us\<rparr>), ?s\<lparr>sy_spans := c\<rparr>)"
    using merge_run [of p ?s] by blast
  let ?p = "p\<lparr>pl_spans := us\<rparr>" and ?u = "?s\<lparr>sy_spans := c\<rparr>"
  have cl: "close_postgres R ?p = ret ?p" using assms(2) by (auto simp: close_postgres_def is_session_close_def)
  have rw: "row_write ?p" "pl_transition ?p = pl_transition p" using assms(1) by (simp_all add: row_write_def)
  obtain v d1 where w: "write_ledger P R ?p ?e None (?u, d) = (Inr (), (v, d1))"
    and v: "v = ?u \<or> v = ?u\<lparr>sy_clock := sy_clock ?u + 1\<rparr>"
    and d1: "\<exists>n. sy_clock s \<le> n \<and> n \<le> sy_clock s + 1 \<and> n < sy_clock v \<and> d1 = d\<lparr>pg_outbox := pg_outbox d @ [event_row P ?e None],
       pg_transitions := pg_transitions d @ (case pl_transition p of None \<Rightarrow> [] | Some x \<Rightarrow> [(x, re_now R n)])\<rparr>"
  proof (cases "pl_transition p")
    case None
    then show ?thesis
      using write_rows [OF rw(1) nc, of P R ?u] by (intro that [of ?u]) (auto simp: rw(2) intro!: exI [of _ "sy_clock s"])
  next
    case (Some x)
    then show ?thesis
      using write_rows [OF rw(1) nc, of P R ?u]
      by (intro that [of "?u\<lparr>sy_clock := sy_clock ?u + 1\<rparr>"]) (auto simp: rw(2) insert_transition_def intro!: exI [of _ "sy_clock s + 1"])
  qed
  obtain n d2 where i: "persist_intelligence_postgres P R ?p (v, d1) = (Inr (), (v\<lparr>sy_clock := n\<rparr>, d2))" "same_tables d1 d2"
    using persist_intelligence_postgres_run by blast
  have "later (sy_clock v) (sy_uuid v) (v\<lparr>sy_clock := n\<rparr>)"
    using keepsD [OF persist_intelligence_later [of "sy_clock v" "sy_uuid v" P R ?p], of "(v, d1)"] i(1) by auto
  then have n: "sy_clock v \<le> n" by (simp add: later_def)
  have "persist_runtime_tx_postgres P R p (s, d) = (Inr (?e, True), (v\<lparr>sy_clock := n\<rparr>, d2))"
    unfolding persist_rows_run [OF nu] nf option.case bnd_on_sys [where m = "merge_pending_spans p" and s = ?s, OF mr] seqc_def
      bnd_Inr [where m = "write_ledger P R ?p ?e None", OF w] cl bnd_ret bnd_Inr [where m = "persist_intelligence_postgres P R ?p", OF i(1)]
    by (simp add: ret_def)
  moreover have "rows_added P R p s d (v\<lparr>sy_clock := n\<rparr>) d2"
  proof -
    have "\<exists>m. sy_clock s \<le> m \<and> m < n \<and> pg_transitions d2 = pg_transitions d @ (case pl_transition p of None \<Rightarrow> [] | Some x \<Rightarrow> [(x, re_now R m)])"
      using d1 n i(2) by (auto simp: same_tables_def)
    moreover have "pg_outbox d2 = pg_outbox d @ [event_row P ?e None]" using d1 i(2) by (auto simp: same_tables_def)
    moreover have "pg_replays d2 = pg_replays d" "pg_baselines d2 = pg_baselines d" "pg_decisions d2 = pg_decisions d" "pg_effects d2 = pg_effects d"
      "pg_approvals d2 = pg_approvals d" "pg_locks d2 = pg_locks d" "pg_rowlocks d2 = pg_rowlocks d"
      using d1 i(2) by (auto simp: same_tables_def)
    moreover have "sy_gov v = sy_gov s" "sy_uuid v = sy_uuid s + 1" "sy_clock s \<le> sy_clock v" using v by auto
    ultimately show ?thesis
      using n e by (auto simp: rows_added_def later_def event_row_def)
  qed
  ultimately show thesis by (rule that)
qed


section \<open>The steps of the request\<close>

text \<open>A step that only reads, counts or opens a span.\<close>

lemma quiet:
  assumes "always m" and "keeps (same_stores s) m" and "keeps (later (sy_clock s) (sy_uuid s)) m"
  obtains x t where "m s = (Inr x, t)" and "same_stores s t" and "later (sy_clock s) (sy_uuid s) t"
proof -
  obtain x t where m: "m s = (Inr x, t)" using assms(1) unfolding always_def by blast
  show thesis using that [OF m] keepsD [OF assms(2) same_stores_refl m] keepsD [OF assms(3) later_now m] by blast
qed

lemma sm_call_moves: "lc.step_ok (sm_state sm) to \<Longrightarrow>
    sm_call_at R (\<lambda>t. transition t to) sm s = (Inr (move sm to (re_now R (sy_clock s))), s\<lparr>sy_clock := sy_clock s + 1\<rparr>)"
  by (auto simp: sm_call_at_def clock_run transition_def move_def ret_def lc.step_ok_def)

lemma later_Suc: "later c u s \<Longrightarrow> later c u (s\<lparr>sy_clock := Suc (sy_clock s)\<rparr>)"
  by (simp add: later_def)

lemma move_rows: "row_write (move_payload sm to sid)" "\<not> is_session_close (move_payload sm to sid)"
  by (simp_all add: row_write_def move_payload_def transition_payload_def new_payload_def is_session_close_def)

lemma record_transition_rows:
  assumes "lc.step_ok (sm_state sm) to" and "ids_free R s d" and "payload_key (re_env R) (move_payload sm to sid) \<notin> ev_key ` set (pg_outbox d)"
  obtains n s' d' where "record_transition_postgres P R sm to sid (s, d) = (Inr (move sm to n), (s', d'))"
    and "rows_added P R (move_payload sm to sid) s d s' d'"
proof -
  let ?from = "state_value (sm_state sm)"
  obtain u s1 where a: "span_start R TRANSITION ?from [(''to'', PStr (state_value to))] s = (Inr u, s1)" "same_stores s s1" "later (sy_clock s) (sy_uuid s) s1"
    by (rule quiet [OF always_spans(1) keeps_same(1) keeps_later(5)])
  let ?s2 = "s1\<lparr>sy_clock := Suc (sy_clock s1)\<rparr>" and ?n = "re_now R (sy_clock s1)"
  have b: "sm_call_at R (\<lambda>t. transition t to) sm s1 = (Inr (move sm to ?n), ?s2)" using sm_call_moves [OF assms(1)] by simp
  obtain x s3 where c: "span_end R u SP_OK [] ?s2 = (Inr x, s3)" "same_stores ?s2 s3" "later (sy_clock ?s2) (sy_uuid ?s2) s3"
    by (rule quiet [OF always_spans(2) keeps_same(2) keeps_later(6)])
  have q: "same_stores s s3" "later (sy_clock s) (sy_uuid s) s3"
    using a(2,3) c(2,3) by (auto simp: same_stores_def later_def)
  obtain r t d' where p: "persist_runtime_tx_postgres P R (move_payload sm to sid) (s3, d) = (Inr r, (t, d'))"
    "rows_added P R (move_payload sm to sid) s3 d t d'"
    by (rule persist_rows [OF move_rows ids_free_later [OF assms(2) q(2)] assms(3)])
  have "record_transition_postgres P R sm to sid (s, d) = (Inr (move sm to ?n), (t, d'))"
    unfolding record_transition_postgres_def Let_def seqc_def bnd_on_sys [where m = "span_start _ _ _ _", OF a(1)]
      bnd_on_sys [where m = "sm_call_at _ _ _", OF b] bnd_on_sys [where m = "span_end _ _ _ _", OF c(1)] move_payload_at
      bnd_Inr [where m = "persist_runtime_tx_postgres _ _ _", OF p(1)] by (simp add: ret_def)
  then show thesis using rows_added_between [OF q p(2)] by (rule that)
qed

fun rows_all :: "pg_env \<Rightarrow> rt_env \<Rightarrow> payload list \<Rightarrow> sys \<Rightarrow> pg \<Rightarrow> sys \<Rightarrow> pg \<Rightarrow> bool" where
  "rows_all P R [] s d t d' \<longleftrightarrow> same_stores s t \<and> later (sy_clock s) (sy_uuid s) t \<and> d' = d"
| "rows_all P R (p # ps) s d t d' \<longleftrightarrow> (\<exists>u e. rows_added P R p s d u e \<and> rows_all P R ps u e t d')"

lemma rows_all_later: "rows_all P R ps s d t d' \<Longrightarrow> later (sy_clock s) (sy_uuid s) t"
proof (induction ps arbitrary: s d)
  case (Cons p ps)
  then obtain u e where "rows_added P R p s d u e" "rows_all P R ps u e t d'" by auto
  then show ?case using Cons.IH by (auto simp: rows_added_def intro: later_trans)
qed simp

lemma rows_all_same:
  assumes "rows_all P R ps s d t d'"
  shows "sy_gov t = sy_gov s" and "pg_replays d' = pg_replays d" and "pg_baselines d' = pg_baselines d"
    and "pg_locks d' = pg_locks d" and "pg_rowlocks d' = pg_rowlocks d"
  using assms by (induction ps arbitrary: s d) (auto simp: same_stores_def rows_added_def)

lemma rows_all_outbox:
  assumes "rows_all P R ps s d t d'"
  shows "\<exists>es. pg_outbox d' = pg_outbox d @ es \<and> map ev_key es = map (payload_key (re_env R)) ps \<and>
    map (\<lambda>e. (ev_type e, ev_correlation e, ev_payload e)) es = map (\<lambda>p. (pl_type p, pl_correlation p, pe_jsonb P (pl_body p))) ps"
  using assms
proof (induction ps arbitrary: s d)
  case (Cons p ps)
  then obtain u e x where u: "rows_all P R ps u e t d'" and x: "pg_outbox e = pg_outbox d @ [x]" "ev_key x = payload_key (re_env R) p"
    "ev_type x = pl_type p" "ev_correlation x = pl_correlation p" "ev_payload x = pe_jsonb P (pl_body p)"
    by (auto simp: rows_added_def)
  from Cons.IH [OF u] obtain es where "pg_outbox d' = pg_outbox e @ es" "map ev_key es = map (payload_key (re_env R)) ps"
    "map (\<lambda>e. (ev_type e, ev_correlation e, ev_payload e)) es = map (\<lambda>p. (pl_type p, pl_correlation p, pe_jsonb P (pl_body p))) ps" by blast
  then show ?case using x by (intro exI [of _ "x # es"]) simp
qed simp

lemma rows_all_ids:
  assumes "rows_all P R ps s d t d'" and "ids_free R s d" and "inj (re_uuid R)"
  shows "ids_free R t d'"
  using assms(1,2)
proof (induction ps arbitrary: s d)
  case (Cons p ps)
  then obtain u e where "rows_added P R p s d u e" "rows_all P R ps u e t d'" by auto
  then show ?case using Cons.IH rows_added_ids assms(3) Cons.prems(2) by blast
qed (auto intro: ids_free_later)

text \<open>The transitions come with readings of the clock in order.\<close>

lemma rows_all_transitions:
  assumes "rows_all P R ps s d t d'"
  shows "\<exists>ts ns. pg_transitions d' = pg_transitions d @ ts \<and> map snd ts = map (re_now R) ns \<and> sorted ns \<and> (\<forall>n \<in> set ns. sy_clock s \<le> n) \<and>
    map fst ts = concat (map (\<lambda>p. case pl_transition p of None \<Rightarrow> [] | Some x \<Rightarrow> [x]) ps)"
  using assms
proof (induction ps arbitrary: s d)
  case Nil
  then show ?case by (intro exI [of _ "[]"]) simp
next
  case (Cons p ps)
  then obtain u e n where u: "rows_all P R ps u e t d'" and n: "sy_clock s \<le> n" "n < sy_clock u"
    "pg_transitions e = pg_transitions d @ (case pl_transition p of None \<Rightarrow> [] | Some x \<Rightarrow> [(x, re_now R n)])"
    by (auto simp: rows_added_def)
  from Cons.IH [OF u] obtain ts ns where i: "pg_transitions d' = pg_transitions e @ ts" "map snd ts = map (re_now R) ns" "sorted ns"
    "\<forall>n \<in> set ns. sy_clock u \<le> n" "map fst ts = concat (map (\<lambda>p. case pl_transition p of None \<Rightarrow> [] | Some x \<Rightarrow> [x]) ps)" by blast
  show ?case
  proof (cases "pl_transition p")
    case None
    then show ?thesis using i n by (intro exI [of _ ts] exI [of _ ns]) force
  next
    case (Some x)
    then show ?thesis using i n by (intro exI [of _ "(x, re_now R n) # ts"] exI [of _ "n # ns"]) force
  qed
qed


lemma intent_rows: "row_write (intent_payload cid sid body)" "\<not> is_session_close (intent_payload cid sid body)"
  by (simp_all add: row_write_def intent_payload_def new_payload_def is_session_close_def)

lemma rows_added_keys: "rows_added P R p s d t d' \<Longrightarrow> ev_key ` set (pg_outbox d') = insert (payload_key (re_env R) p) (ev_key ` set (pg_outbox d))"
  by (auto simp: rows_added_def)

lemma rows_added_gov: "rows_added P R p s d t d' \<Longrightarrow> later (sy_clock s) (sy_uuid s) t"
  by (simp add: rows_added_def)

lemma steps_rows:
  assumes "tool \<notin> github_tools" and "distinct (map (payload_key (re_env R)) (deterministic_payloads cid sid tool))"
    and "set (map (payload_key (re_env R)) (deterministic_payloads cid sid tool)) \<inter> ev_key ` set (pg_outbox d) = {}"
    and "ids_free R s d" and "inj (re_uuid R)" and "binds params"
  obtains r u e where "rows_all P R (deterministic_payloads cid sid tool) s d u e"
    and "deterministic_steps_postgres P R reg tool agent cid sid params orch (move (new_sm cid sid) PERCEIVING t0) (s, d) =
      bnd (persist_runtime_tx_postgres P R (deterministic_close cid sid tool r)) (\<lambda>_. ret r) (u, e)"
proof -
  let ?k = "payload_key (re_env R)" and ?m0 = "move (new_sm cid sid) PERCEIVING t0"
  let ?p1 = "move_payload ?m0 REASONING sid" and ?p2 = "intent_payload cid sid (deterministic_intent tool)"
  let ?p3 = "\<lambda>t1. move_payload (move ?m0 REASONING t1) WAITING_TOOL sid"
  let ?p4 = "\<lambda>t1 t2. move_payload (move (move ?m0 REASONING t1) WAITING_TOOL t2) OBSERVING sid"
  have ps: "deterministic_payloads cid sid tool = [?p1, ?p2, ?p3 t1, ?p4 t1 t2]" for t1 t2
    unfolding deterministic_payloads_def Let_def by (simp add: move_payload_cong)
  note fresh = assms(2,3) [unfolded ps [of 0 0]]
  have p34: "?p3 t1 = ?p3 0" "?p4 t1 t2 = ?p4 0 0" for t1 t2 by (rule move_payload_cong, simp_all)+
  obtain t1 s1 d1 where r1: "record_transition_postgres P R ?m0 REASONING sid (s, d) = (Inr (move ?m0 REASONING t1), (s1, d1))" "rows_added P R ?p1 s d s1 d1"
    by (rule record_transition_rows [of ?m0 REASONING R s d sid P]) (use fresh assms(4) in \<open>simp_all add: lc.step_ok_def\<close>)
  note k1 = rows_added_keys [OF r1(2)] and i1 = rows_added_ids [OF r1(2) assms(4,5)]
  let ?m1 = "move ?m0 REASONING t1"
  obtain x2 s2 d2 where r2: "persist_runtime_tx_postgres P R ?p2 (s1, d1) = (Inr x2, (s2, d2))" "rows_added P R ?p2 s1 d1 s2 d2"
    by (rule persist_rows [OF intent_rows i1]) (use fresh k1 in auto)
  note k2 = rows_added_keys [OF r2(2)] and i2 = rows_added_ids [OF r2(2) i1 assms(5)]
  obtain t2 s3 d3 where r3: "record_transition_postgres P R ?m1 WAITING_TOOL sid (s2, d2) = (Inr (move ?m1 WAITING_TOOL t2), (s3, d3))" "rows_added P R (?p3 t1) s2 d2 s3 d3"
    by (rule record_transition_rows [of ?m1 WAITING_TOOL R s2 d2 sid P]) (use fresh k1 k2 i2 p34 [of t1] in \<open>auto simp: lc.step_ok_def\<close>)
  note k3 = rows_added_keys [OF r3(2)] and i3 = rows_added_ids [OF r3(2) i2 assms(5)]
  let ?m2 = "move ?m1 WAITING_TOOL t2"
  obtain r s4 where r4: "execute_tool R reg tool agent cid params (Some sid) 0 s3 = (Inr r, s4)" "same_stores s3 s4" "later (sy_clock s3) (sy_uuid s3) s4"
    by (rule quiet [OF execute_tool_returns [OF assms(1,6)] execute_tool_keeps execute_tool_later])
  obtain t3 s5 d5 where r5: "record_transition_postgres P R ?m2 OBSERVING sid (s4, d3) = (Inr (move ?m2 OBSERVING t3), (s5, d5))" "rows_added P R (?p4 t1 t2) s4 d3 s5 d5"
    by (rule record_transition_rows [of ?m2 OBSERVING R s4 d3 sid P])
      (use fresh k1 k2 k3 ids_free_later [OF i3 r4(3)] p34 [of t1] p34(2) [of t1 t2] in \<open>auto simp: lc.step_ok_def\<close>)
  let ?m3 = "move ?m2 OBSERVING t3"
  have r6: "sm_call_at R complete ?m3 s5 = (Inr (move ?m3 COMPLETED (re_now R (sy_clock s5))), s5\<lparr>sy_clock := sy_clock s5 + 1\<rparr>)"
    by (rule complete_run) (simp add: lc.step_ok_def)
  let ?s6 = "s5\<lparr>sy_clock := sy_clock s5 + 1\<rparr>"
  obtain y s7 where r7: "span_end R orch SP_OK [] ?s6 = (Inr y, s7)" "same_stores ?s6 s7" "later (sy_clock ?s6) (sy_uuid ?s6) s7"
    by (rule quiet [OF always_spans(2) keeps_same(2) keeps_later(6)])
  have "same_stores s5 s7" "later (sy_clock s5) (sy_uuid s5) s7" using r7(2,3) by (simp_all add: same_stores_def later_def)
  then have "rows_all P R (deterministic_payloads cid sid tool) s d s7 d5"
    unfolding ps [of t1 t2] rows_all.simps using r1(2) r2(2) r3(2) rows_added_between [OF r4(2,3) r5(2)] by blast
  moreover have "deterministic_steps_postgres P R reg tool agent cid sid params orch ?m0 (s, d) =
      bnd (persist_runtime_tx_postgres P R (deterministic_close cid sid tool r)) (\<lambda>_. ret r) (s7, d5)"
    unfolding deterministic_steps_postgres_def seqc_def bnd_Inr [where m = "record_transition_postgres _ _ _ _ _", OF r1(1)]
      bnd_Inr [where m = "persist_runtime_tx_postgres _ _ _", OF r2(1)] bnd_Inr [where m = "record_transition_postgres _ _ _ _ _", OF r3(1)]
      bnd_on_sys [where m = "execute_tool _ _ _ _ _ _ _ _", OF r4(1)] bnd_Inr [where m = "record_transition_postgres _ _ _ _ _", OF r5(1)]
      bnd_on_sys [where m = "sm_call_at _ _ _", OF r6] bnd_on_sys [where m = "span_end _ _ _ _", OF r7(1)] by (rule refl)
  ultimately show thesis by (rule that)
qed

lemma tool_request_started:
  obtains orch t0 s0 where "same_stores s s0" and "later (sy_clock s) (sy_uuid s) s0"
    and "run_deterministic_tool_postgres P R reg tool agent cid sid params (s, d) =
      deterministic_steps_postgres P R reg tool agent cid sid params orch (move (new_sm cid sid) PERCEIVING t0) (s0, d)"
proof -
  have b: "always (span_begin sid cid)" "keeps (same_stores s) (span_begin sid cid)"
    unfolding span_begin_def by (auto intro!: rt_keeps)
  obtain x s1 where a: "span_begin sid cid s = (Inr x, s1)" "same_stores s s1" "later (sy_clock s) (sy_uuid s) s1"
    by (rule quiet [OF b keeps_later(7)])
  obtain o' s2 where c: "span_start R ORCHESTRATION ''perceiving'' [] s1 = (Inr o', s2)" "same_stores s1 s2" "later (sy_clock s1) (sy_uuid s1) s2"
    by (rule quiet [OF always_spans(1) keeps_same(1) keeps_later(5)])
  let ?s3 = "s2\<lparr>sy_clock := sy_clock s2 + 1\<rparr>"
  have "run_deterministic_tool_postgres P R reg tool agent cid sid params (s, d) =
      deterministic_steps_postgres P R reg tool agent cid sid params o' (move (new_sm cid sid) PERCEIVING (re_now R (sy_clock s2))) (?s3, d)"
    unfolding run_deterministic_tool_postgres_def seqc_def bnd_on_sys [where m = "span_begin _ _", OF a(1)]
      bnd_on_sys [where m = "span_start _ _ _ _", OF c(1)] bnd_on_sys [where m = "sm_call_at _ _ _", OF start_run] by (rule refl)
  moreover have "same_stores s ?s3" "later (sy_clock s) (sy_uuid s) ?s3"
    using a c by (auto simp: same_stores_def later_def)
  ultimately show thesis by (intro that)
qed

section \<open>The tables before the close\<close>

lemma rows_journal:
  assumes "rows_all P R (deterministic_payloads cid sid tool) s d t d'" and "select_transitions sid d = []" and "mono (re_now R)"
  shows "journal (move (move (move (move (new_sm cid sid) PERCEIVING 0) REASONING 0) WAITING_TOOL 0) OBSERVING 0) sid (pg_view d' t)"
proof -
  obtain ts ns where ts: "pg_transitions d' = pg_transitions d @ ts" "map snd ts = map (re_now R) ns" "sorted ns"
    "map fst ts = concat (map (\<lambda>p. case pl_transition p of None \<Rightarrow> [] | Some x \<Rightarrow> [x]) (deterministic_payloads cid sid tool))"
    using rows_all_transitions [OF assms(1)] by blast
  have "sorted (map (re_now R) ns)"
    using ts(3) assms(3) by (simp add: sorted_iff_nth_mono mono_def)
  then have "sort_key snd ts = ts" unfolding ts(2) [symmetric] by (rule sort_key_id_if_sorted)
  moreover have "filter (\<lambda>r. pt_session (fst r) = sid) (pg_transitions d) = []"
    using assms(2) by (simp add: select_transitions_def) (metis length_0_conv length_sort)
  moreover have "\<forall>r \<in> set ts. pt_session (fst r) = sid"
  proof -
    have "\<forall>x \<in> set (map fst ts). pt_session x = sid" unfolding ts(4) by (simp add: deterministic_payloads_def Let_def)
    then show ?thesis by simp
  qed
  ultimately have "select_transitions sid d' = map fst ts"
    by (simp add: select_transitions_def ts(1) filter_id_conv)
  then have "map edge (get_runtime_transitions (sy_db (pg_view d' t)) sid) = steps_of PERCEIVING [REASONING, WAITING_TOOL, OBSERVING]"
    unfolding view_queries by (simp add: ts(4) deterministic_payloads_def Let_def)
  note tr = this
  show ?thesis
    unfolding journal_def
    by (rule exI [of _ "[REASONING, WAITING_TOOL, OBSERVING]"]) (simp add: tr lc.step_ok_def history_states_def [of "new_sm _ _"])
qed

lemma rows_intent:
  assumes "rows_all P R (deterministic_payloads cid sid tool) s d t d'" and "select_events cid d = []"
    and "pe_jsonb P (deterministic_intent tool) = deterministic_intent tool"
  shows "\<exists>e. filter (\<lambda>e. ev_type e = ''founder.intent'') (get_events_by_correlation (sy_db (pg_view d' t)) cid) = [e] \<and> ev_payload e = deterministic_intent tool"
proof -
  obtain es where es: "pg_outbox d' = pg_outbox d @ es"
    "map (\<lambda>e. (ev_type e, ev_correlation e, ev_payload e)) es =
      map (\<lambda>p. (pl_type p, pl_correlation p, pe_jsonb P (pl_body p))) (deterministic_payloads cid sid tool)"
    using rows_all_outbox [OF assms(1)] by blast
  then obtain a b c x where l: "es = [a, b, c, x]" by (auto simp: deterministic_payloads_def Let_def)
  have old: "filter (\<lambda>e. ev_correlation e = cid) (pg_outbox d) = []"
    using assms(2) by (simp add: select_events_def) (metis length_0_conv length_sort)
  have "filter (\<lambda>e. ev_type e = ''founder.intent'') (filter (\<lambda>e. ev_correlation e = cid) (pg_outbox d')) = [b] \<and> ev_payload b = deterministic_intent tool"
    using es(2) assms(3) by (simp add: es(1) l old deterministic_payloads_def Let_def)
  then show ?thesis unfolding view_queries by (intro exI [of _ b]) (simp add: select_events_def filter_sort)
qed

lemma rows_replay:
  assumes "rows_all P R (deterministic_payloads cid sid tool) s d t d'" and "select_transitions sid d = []" and "mono (re_now R)"
    and "select_events cid d = []" and "pe_jsonb P (deterministic_intent tool) = deterministic_intent tool"
    and "select_snapshots sid d = []" and "select_baseline_meta sid d = None" and "tool \<noteq> ''''"
  shows "\<exists>oc. run_from_session sid cid (pg_view d' t) = Inr oc \<and> oc_tools oc = [tool] \<and> oc_final_state oc = ''completed''"
proof -
  obtain e where e: "filter (\<lambda>e. ev_type e = ''founder.intent'') (get_events_by_correlation (sy_db (pg_view d' t)) cid) = [e]"
    "ev_payload e = deterministic_intent tool" using rows_intent [OF assms(1,4,5)] by blast
  have "get_replay_snapshots (pg_view d' t) sid = []" "get_replay_baseline_meta (pg_view d' t) sid = None"
    unfolding view_queries using assms(6,7) rows_all_same(2,3) [OF assms(1)] by (simp_all add: select_snapshots_def select_baseline_meta_def)
  then show ?thesis by (intro run_of_journal [OF rows_journal [OF assms(1-3)] _ _ e assms(8)]) simp_all
qed


section \<open>The close\<close>

lemma close_tail:
  assumes "is_session_close p" and "run_from_session (pl_session p) (pl_correlation p) (pg_view d u) = Inr oc"
  shows "\<exists>t d'. bnd (close_postgres R p) (\<lambda>p2. seqc (persist_intelligence_postgres P R p2) (ret x)) (u, d) = (Inr x, (t, d')) \<and>
    run_from_session (pl_session p) (pl_correlation p) (pg_view d' t) = Inr oc \<and>
    pg_transitions d' = pg_transitions d \<and> pg_locks d' = pg_locks d \<and> pg_rowlocks d' = pg_rowlocks d"
proof -
  obtain p2 t1 d1 where c: "complete_session_close_postgres R p (u, d) = (Inr p2, (t1, d1))"
    using complete_close_returns [OF assms(2)] by blast
  obtain oc' c' where o: "run_from_session (pl_session p) (pl_correlation p) (pg_view d u) = Inr oc'" "t1 = u\<lparr>sy_clock := c'\<rparr>"
    "d1 = insert_baseline (pl_session p) (pl_correlation p) (outcome_fingerprint (re_env R) oc') d"
    using complete_close_run [OF c] by blast
  have cp: "close_postgres R p = complete_session_close_postgres R p" using assms(1) by (simp add: close_postgres_def)
  obtain n d2 where i: "persist_intelligence_postgres P R p2 (t1, d1) = (Inr (), (t1\<lparr>sy_clock := n\<rparr>, d2))" "same_tables d1 d2"
    using persist_intelligence_postgres_run by blast
  have "run_from_session (pl_session p) (pl_correlation p) (pg_view d2 (t1\<lparr>sy_clock := n\<rparr>)) = run_from_session (pl_session p) (pl_correlation p) (pg_view d1 u)"
    by (rule view_replay [OF i(2)]) (simp add: o(2))
  then have "run_from_session (pl_session p) (pl_correlation p) (pg_view d2 (t1\<lparr>sy_clock := n\<rparr>)) = Inr oc"
    using view_replay_baseline [OF assms(2)] unfolding o(3) by simp
  moreover have "bnd (close_postgres R p) (\<lambda>p2. seqc (persist_intelligence_postgres P R p2) (ret x)) (u, d) = (Inr x, (t1\<lparr>sy_clock := n\<rparr>, d2))"
    unfolding cp bnd_Inr [where m = "complete_session_close_postgres R p", OF c] seqc_def
      bnd_Inr [where m = "persist_intelligence_postgres P R p2", OF i(1)] by (simp add: ret_def)
  ultimately show ?thesis using i(2) by (auto simp: same_tables_def o(3) insert_baseline_def)
qed

lemma view_replay_event:
  assumes "ev_type e \<notin> {''founder.intent'', ''decision.recorded''}" and "sy_gov t = sy_gov s"
  shows "run_from_session sid cid (pg_view (d\<lparr>pg_outbox := pg_outbox d @ [e]\<rparr>) t) = run_from_session sid cid (pg_view d s)"
proof (rule run_from_session_cong)
  let ?d = "d\<lparr>pg_outbox := pg_outbox d @ [e]\<rparr>"
  show "get_replay_snapshots (pg_view ?d t) sid = get_replay_snapshots (pg_view d s) sid"
    unfolding view_queries by (simp add: select_snapshots_def)
  show "get_replay_baseline_meta (pg_view ?d t) sid = get_replay_baseline_meta (pg_view d s) sid"
    unfolding view_queries by (simp add: select_baseline_meta_def)
  show "filter (\<lambda>e. ev_type e = ty) (get_events_by_correlation (sy_db (pg_view ?d t)) cid) =
      filter (\<lambda>e. ev_type e = ty) (get_events_by_correlation (sy_db (pg_view d s)) cid)" if "ty \<in> {''founder.intent'', ''decision.recorded''}" for ty
    unfolding view_queries using that assms(1) by (auto simp: select_events_def filter_sort)
qed (use assms in \<open>simp_all add: pg_view_def\<close>)

lemma close_rows:
  assumes "row_write p" and "pl_transition p = None" and "is_session_close p" and "ids_free R s d"
    and "run_from_session (pl_session p) (pl_correlation p) (pg_view d s) = Inr oc"
  shows "\<exists>r t d'. persist_runtime_tx_postgres P R p (s, d) = (Inr r, (t, d')) \<and>
    run_from_session (pl_session p) (pl_correlation p) (pg_view d' t) = Inr oc \<and>
    pg_transitions d' = pg_transitions d \<and> pg_locks d' = pg_locks d \<and> pg_rowlocks d' = pg_rowlocks d"
proof -
  have nu: "\<not> pl_update_world p" using assms(1) by (simp add: row_write_def)
  let ?e = "next_event R p s" and ?s = "s\<lparr>sy_uuid := sy_uuid s + 1, sy_clock := sy_clock s + 1\<rparr>"
  obtain us c where mr: "merge_pending_spans p ?s = (Inr (p\<lparr>pl_spans := us\<rparr>), ?s\<lparr>sy_spans := c\<rparr>)"
    using merge_run [of p ?s] by blast
  let ?p = "p\<lparr>pl_spans := us\<rparr>" and ?u = "?s\<lparr>sy_spans := c\<rparr>"
  have p: "is_session_close ?p" "pl_session ?p = pl_session p" "pl_correlation ?p = pl_correlation p"
    using assms(3) by (simp_all add: is_session_close_def)
  have gov: "sy_gov ?u = sy_gov s" by simp
  show ?thesis
  proof (cases "fetch_outbox_by_idempotency (payload_key (re_env R) p) d")
    case (Some x)
    have "run_from_session (pl_session ?p) (pl_correlation ?p) (pg_view d ?u) = Inr oc"
      unfolding p view_replay [OF same_tables_refl gov] by (rule assms(5))
    from close_tail [OF p(1) this, of R P "(x, False)"]
    show ?thesis unfolding p persist_rows_run [OF nu] Some option.case bnd_on_sys [where m = "merge_pending_spans p" and s = ?s, OF mr] by blast
  next
    case None
    have "\<not> outbox_conflict ?e d"
      using None assms(4) by (auto simp: outbox_conflict_def next_event_def outbox_event_of_def ids_free_def fetch_outbox_by_idempotency_def find_None_iff)
        (metis imageI order_refl)
    moreover have "row_write ?p" "pl_transition ?p = None" using assms(1,2) by (simp_all add: row_write_def)
    ultimately have w: "write_ledger P R ?p ?e None (?u, d) = (Inr (), (?u, d\<lparr>pg_outbox := pg_outbox d @ [event_row P ?e None]\<rparr>))"
      using write_rows [of ?p ?e d P R ?u] by simp
    let ?d = "d\<lparr>pg_outbox := pg_outbox d @ [event_row P ?e None]\<rparr>"
    have "ev_type (event_row P ?e None) \<notin> {''founder.intent'', ''decision.recorded''}"
      using assms(3) by (simp add: event_row_def next_event_def outbox_event_of_def is_session_close_def)
    then have "run_from_session (pl_session ?p) (pl_correlation ?p) (pg_view ?d ?u) = Inr oc"
      unfolding p using view_replay_event [OF _ gov] assms(5) by metis
    from close_tail [OF p(1) this, of R P "(?e, True)"]
    show ?thesis
      unfolding p persist_rows_run [OF nu] None option.case bnd_on_sys [where m = "merge_pending_spans p" and s = ?s, OF mr]
        seqc_def [of "write_ledger _ _ _ _ _"] bnd_Inr [where m = "write_ledger P R ?p ?e None", OF w] by simp blast
  qed
qed

lemma deterministic_close_rows: "row_write (deterministic_close cid sid tool r)" "is_session_close (deterministic_close cid sid tool r)"
  by (simp_all add: row_write_def deterministic_close_def close_payload_def new_payload_def is_session_close_def)

lemma tool_request_closes:
  assumes "tool \<notin> github_tools" and "tool \<noteq> ''''"
    and "distinct (map (payload_key (re_env R)) (deterministic_payloads cid sid tool))"
    and "set (map (payload_key (re_env R)) (deterministic_payloads cid sid tool)) \<inter> ev_key ` set (pg_outbox d) = {}"
    and "ids_free R s d" and "inj (re_uuid R)" and "mono (re_now R)"
    and "pe_jsonb P (deterministic_intent tool) = deterministic_intent tool"
    and "select_transitions sid d = []" and "select_events cid d = []" and "select_snapshots sid d = []" and "select_baseline_meta sid d = None"
    and "binds params"
  shows "\<exists>r t d' oc fp. run_deterministic_tool_postgres P R reg tool agent cid sid params (s, d) = (Inr r, (t, d')) \<and>
    map edge (select_transitions sid d') = steps_of PERCEIVING [REASONING, WAITING_TOOL, OBSERVING] \<and>
    run_from_session sid cid (pg_view d' t) = Inr oc \<and> oc_tools oc = [tool] \<and> oc_final_state oc = ''completed'' \<and>
    fp = outcome_fingerprint (re_env R) oc \<and> validate_frozen_replay_postgres (re_env R) sid cid (t, d') = Inr (True, fp, Some fp) \<and>
    pg_locks d' = pg_locks d \<and> pg_rowlocks d' = pg_rowlocks d"
proof -
  obtain orch t0 s0 where start: "same_stores s s0" "later (sy_clock s) (sy_uuid s) s0"
    "run_deterministic_tool_postgres P R reg tool agent cid sid params (s, d) =
      deterministic_steps_postgres P R reg tool agent cid sid params orch (move (new_sm cid sid) PERCEIVING t0) (s0, d)"
    by (rule tool_request_started)
  note ids = ids_free_later [OF assms(5) start(2)]
  obtain r u e where u: "rows_all P R (deterministic_payloads cid sid tool) s0 d u e"
    "run_deterministic_tool_postgres P R reg tool agent cid sid params (s, d) =
      bnd (persist_runtime_tx_postgres P R (deterministic_close cid sid tool r)) (\<lambda>_. ret r) (u, e)"
    using steps_rows [OF assms(1,3,4) ids assms(6,13)] unfolding start(3) by metis
  obtain oc where oc: "run_from_session sid cid (pg_view e u) = Inr oc" "oc_tools oc = [tool]" "oc_final_state oc = ''completed''"
    using rows_replay [OF u(1) assms(9,7,10,8,11,12,2)] by blast
  let ?p = "deterministic_close cid sid tool r"
  have "\<exists>x t d'. persist_runtime_tx_postgres P R ?p (u, e) = (Inr x, (t, d')) \<and>
      run_from_session (pl_session ?p) (pl_correlation ?p) (pg_view d' t) = Inr oc \<and>
      pg_transitions d' = pg_transitions e \<and> pg_locks d' = pg_locks e \<and> pg_rowlocks d' = pg_rowlocks e"
    by (rule close_rows [OF deterministic_close_rows(1) _ deterministic_close_rows(2) rows_all_ids [OF u(1) ids assms(6)]])
      (simp_all add: deterministic_close_plain oc(1))
  then obtain x t d' where p: "persist_runtime_tx_postgres P R ?p (u, e) = (Inr x, (t, d'))" "run_from_session sid cid (pg_view d' t) = Inr oc"
    "pg_transitions d' = pg_transitions e" "pg_locks d' = pg_locks e" "pg_rowlocks d' = pg_rowlocks e"
    unfolding deterministic_close_plain by blast
  have "run_deterministic_tool_postgres P R reg tool agent cid sid params (s, d) = (Inr r, (t, d'))"
    unfolding u(2) bnd_Inr [where m = "persist_runtime_tx_postgres P R ?p", OF p(1)] by (simp add: ret_def)
  moreover have "map edge (select_transitions sid d') = steps_of PERCEIVING [REASONING, WAITING_TOOL, OBSERVING]"
  proof -
    have "select_transitions sid d' = get_runtime_transitions (sy_db (pg_view e u)) sid"
      unfolding view_queries by (simp add: select_transitions_def p(3))
    then show ?thesis using rows_journal [OF u(1) assms(9,7)] by (auto simp: journal_def history_states_def [of "new_sm _ _"])
  qed
  moreover have "validate_frozen_replay_postgres (re_env R) sid cid (t, d') = Inr (True, outcome_fingerprint (re_env R) oc, Some (outcome_fingerprint (re_env R) oc))"
    using close_leaves_baseline_postgres [OF deterministic_close_rows(2) p(1)] p(2) unfolding deterministic_close_plain by auto
  ultimately show ?thesis using p oc rows_all_same(4,5) [OF u(1)] by auto
qed


section \<open>The request in its transaction\<close>

lemma view_release: "pg_view (release_connection c d) s = pg_view d s"
  by (simp add: pg_view_def release_connection_def select_snapshots_def [abs_def])

lemma release_queries:
  "select_transitions sid (release_connection c d) = select_transitions sid d"
  "validate_frozen_replay_postgres E sid cid (t, release_connection c d) = validate_frozen_replay_postgres E sid cid (t, d)"
  by (simp_all add: select_transitions_def release_connection_def [of c d] validate_frozen_replay_postgres_def view_release [unfolded release_connection_def])

lemma with_lock_queries:
  "pg_outbox (with_lock P c sid d) = pg_outbox d" "select_transitions s (with_lock P c sid d) = select_transitions s d"
  "select_events s (with_lock P c sid d) = select_events s d" "select_snapshots s (with_lock P c sid d) = select_snapshots s d"
  "select_baseline_meta s (with_lock P c sid d) = select_baseline_meta s d" "ids_free R u (with_lock P c sid d) = ids_free R u d"
  by (simp_all add: with_lock_def select_transitions_def select_events_def select_snapshots_def select_baseline_meta_def ids_free_def)

lemma request_ids_given: "sid \<noteq> '''' \<Longrightarrow> cid \<noteq> '''' \<Longrightarrow> request_ids R (Some sid) (Some cid) = ret (cid, sid)"
  by (simp add: request_ids_def str_or_def)

text \<open>Whatever happens, the request is all or nothing: it answers with the result of the tool, or the tables are what they were.\<close>

lemma tool_request_all_or_nothing:
  assumes "idle c d" and "run_tool_request_postgres P c R reg sid0 cid0 h (s, d) = (r, (t, d'))"
  shows "(\<exists>cid sid x. r = Inr (Deterministic cid sid x)) \<or> d' = d"
proof -
  obtain cid sid s1 where ids: "request_ids R sid0 cid0 s = (Inr (cid, sid), s1)"
    by (cases "str_or sid0 '''' = ''''"; cases "str_or cid0 '''' = ''''")
      (auto simp: request_ids_def new_session_ids_def fresh_uuid_run ret_def split: prod.splits)
  let ?body = "run_locked_tool_postgres P R reg h sid cid"
  obtain q u e where m: "mutative_session_postgres P c sid ?body (s1, d) = (q, (u, e))" by (metis prod.exhaust)
  have run: "catch (mutative_session_postgres P c sid ?body) is_lock_error (\<lambda>e. ret (LockedSession sid)) (s1, d) = (r, (t, d'))"
    using assms(2) unfolding run_tool_request_postgres_def bnd_on_sys [where m = "request_ids R sid0 cid0", OF ids] by simp
  show ?thesis
  proof (cases q)
    case (Inl x)
    then have "e = d" using session_error [OF assms(1)] m by blast
    then show ?thesis using run m Inl by (auto simp: catch_def ret_def split: if_splits)
  next
    case (Inr x)
    obtain d1 where "?body (s1, with_lock P c sid d) = (Inr x, (u, d1))"
      using session_ok [OF assms(1) m [unfolded Inr]] by metis
    then have "\<exists>y. x = Deterministic cid sid y"
      by (auto simp: run_locked_tool_postgres_def ret_def elim!: bnd_InrE)
    then show ?thesis using run m Inr by (auto simp: catch_def)
  qed
qed

section \<open>Properties\<close>

text \<open>C14: a request for one tool completes on Postgres as it does in memory: in a free session that has nothing stored, for every tool that
  does not call the GitHub server and parameters that can be bound, if the keys of its four transactions are new and distinct, identifiers are not repeated, the clock
  does not go back (the transitions are read back by their time) and the JSON column returns the intent as it was written, then the
  request answers with the result of the tool and is committed: the transition rows are perceiving, reasoning, waiting for the
  tool, observing; the frozen replay over the tables completes with exactly this tool and validates against the stored
  baseline; and no lock is left.\<close>

theorem postgres_tool_request_closes:
  assumes "hn_tool h \<notin> github_tools" and "hn_tool h \<noteq> ''''" and "sid \<noteq> ''''" and "cid \<noteq> ''''"
    and "distinct (map (payload_key (re_env R)) (deterministic_payloads cid sid (hn_tool h)))"
    and "set (map (payload_key (re_env R)) (deterministic_payloads cid sid (hn_tool h))) \<inter> ev_key ` set (pg_outbox d) = {}"
    and "ids_free R s d" and "inj (re_uuid R)" and "mono (re_now R)"
    and "pe_jsonb P (deterministic_intent (hn_tool h)) = deterministic_intent (hn_tool h)"
    and "select_transitions sid d = []" and "select_events cid d = []" and "select_snapshots sid d = []" and "select_baseline_meta sid d = None"
    and "idle c d" and "lock_free P c sid d" and "binds (hn_params h)"
  shows "\<exists>r t d' oc fp. run_tool_request_postgres P c R reg (Some sid) (Some cid) h (s, d) = (Inr (Deterministic cid sid r), (t, d')) \<and>
    map edge (select_transitions sid d') = steps_of PERCEIVING [REASONING, WAITING_TOOL, OBSERVING] \<and>
    run_from_session sid cid (pg_view d' t) = Inr oc \<and> oc_tools oc = [hn_tool h] \<and> oc_final_state oc = ''completed'' \<and>
    fp = outcome_fingerprint (re_env R) oc \<and> validate_frozen_replay_postgres (re_env R) sid cid (t, d') = Inr (True, fp, Some fp) \<and>
    pg_locks d' = pg_locks d \<and> pg_rowlocks d' = pg_rowlocks d"
proof -
  let ?d = "with_lock P c sid d" and ?agent = "case hn_agent h of None \<Rightarrow> ''ceo'' | Some a \<Rightarrow> a"
  have "\<exists>r t d' oc fp. run_deterministic_tool_postgres P R reg (hn_tool h) ?agent cid sid (hn_params h) (s, ?d) = (Inr r, (t, d')) \<and>
    map edge (select_transitions sid d') = steps_of PERCEIVING [REASONING, WAITING_TOOL, OBSERVING] \<and>
    run_from_session sid cid (pg_view d' t) = Inr oc \<and> oc_tools oc = [hn_tool h] \<and> oc_final_state oc = ''completed'' \<and>
    fp = outcome_fingerprint (re_env R) oc \<and> validate_frozen_replay_postgres (re_env R) sid cid (t, d') = Inr (True, fp, Some fp) \<and>
    pg_locks d' = pg_locks ?d \<and> pg_rowlocks d' = pg_rowlocks ?d"
    by (rule tool_request_closes) (simp_all add: assms with_lock_queries del: set_map)
  then obtain r t d1 oc fp where run: "run_deterministic_tool_postgres P R reg (hn_tool h) ?agent cid sid (hn_params h) (s, ?d) = (Inr r, (t, d1))"
    and fin: "map edge (select_transitions sid d1) = steps_of PERCEIVING [REASONING, WAITING_TOOL, OBSERVING]"
    "run_from_session sid cid (pg_view d1 t) = Inr oc" "oc_tools oc = [hn_tool h]" "oc_final_state oc = ''completed''"
    "fp = outcome_fingerprint (re_env R) oc" "validate_frozen_replay_postgres (re_env R) sid cid (t, d1) = Inr (True, fp, Some fp)"
    and locks: "pg_locks d1 = pg_locks ?d" "pg_rowlocks d1 = pg_rowlocks ?d" by blast
  have "run_locked_tool_postgres P R reg h sid cid (s, ?d) = (Inr (Deterministic cid sid r), (t, d1))"
    unfolding run_locked_tool_postgres_def bnd_Inr [where m = "run_deterministic_tool_postgres _ _ _ _ _ _ _ _", OF run] by (simp add: ret_def)
  then have "mutative_session_postgres P c sid (run_locked_tool_postgres P R reg h sid cid) (s, d) = (Inr (Deterministic cid sid r), (t, release_connection c d1))"
    by (simp add: session_free [OF assms(15,16)])
  then have "run_tool_request_postgres P c R reg (Some sid) (Some cid) h (s, d) = (Inr (Deterministic cid sid r), (t, release_connection c d1))"
    by (simp add: run_tool_request_postgres_def request_ids_given [OF assms(3,4)] bnd_on_sys [where m = "ret (cid, sid)" and s = s, OF ret_def]
        catch_Inr)
  moreover have "pg_locks (release_connection c d1) = pg_locks d" "pg_rowlocks (release_connection c d1) = pg_rowlocks d"
    using assms(15) locks by (auto simp: release_connection_def with_lock_def idle_def filter_id_conv)
  moreover have "map edge (select_transitions sid (release_connection c d1)) = steps_of PERCEIVING [REASONING, WAITING_TOOL, OBSERVING]"
    "run_from_session sid cid (pg_view (release_connection c d1) t) = Inr oc"
    "validate_frozen_replay_postgres (re_env R) sid cid (t, release_connection c d1) = Inr (True, fp, Some fp)"
    using fin unfolding release_queries view_release by blast+
  ultimately show ?thesis using fin(3-5) by blast
qed

section \<open>Witness\<close>

definition counting_env :: rt_env where
  "counting_env = business_env\<lparr>re_uuid := (\<lambda>n. replicate n (CHR ''u''))\<rparr>"

lemma counting_env_fields: "re_env counting_env = re_env business_env" "inj (re_uuid counting_env)" "mono (re_now counting_env)"
  by (auto simp: counting_env_def business_env_def demo_env_def inj_def mono_def dest: arg_cong [where f = length])

theorem postgres_tool_request_closes_witness:
  "\<exists>r t d' fp. run_tool_request_postgres demo_pg 0 counting_env build_vs_registry (Some ''s'') (Some ''c'')
       \<lparr>hn_tool = ''detect_blockers'', hn_agent = Some ''coo'', hn_params = None\<rparr> (init_sys, init_schema) = (Inr (Deterministic ''c'' ''s'' r), (t, d')) \<and>
     validate_frozen_replay_postgres (re_env counting_env) ''s'' ''c'' (t, d') = Inr (True, fp, Some fp) \<and> pg_locks d' = []"
proof -
  let ?h = "\<lparr>hn_tool = ''detect_blockers'', hn_agent = Some ''coo'', hn_params = None\<rparr>"
  have e: "pg_outbox init_schema = []" "pg_locks init_schema = []" "pg_rowlocks init_schema = []" "select_transitions ''s'' init_schema = []"
    "select_events ''c'' init_schema = []" "select_snapshots ''s'' init_schema = []" "select_baseline_meta ''s'' init_schema = None"
    by (simp_all add: init_schema_def select_transitions_def select_events_def select_snapshots_def select_baseline_meta_def)
  have "\<exists>r t d' oc fp. run_tool_request_postgres demo_pg 0 counting_env build_vs_registry (Some ''s'') (Some ''c'') ?h (init_sys, init_schema) = (Inr (Deterministic ''c'' ''s'' r), (t, d')) \<and>
    map edge (select_transitions ''s'' d') = steps_of PERCEIVING [REASONING, WAITING_TOOL, OBSERVING] \<and>
    run_from_session ''s'' ''c'' (pg_view d' t) = Inr oc \<and> oc_tools oc = [hn_tool ?h] \<and> oc_final_state oc = ''completed'' \<and>
    fp = outcome_fingerprint (re_env counting_env) oc \<and> validate_frozen_replay_postgres (re_env counting_env) ''s'' ''c'' (t, d') = Inr (True, fp, Some fp) \<and>
    pg_locks d' = pg_locks init_schema \<and> pg_rowlocks d' = pg_rowlocks init_schema"
    by (rule postgres_tool_request_closes)
      (simp_all add: counting_env_fields business_keys github_tools_def e ids_free_def idle_def lock_free_def demo_pg_def del: set_map list.map)
  then show ?thesis unfolding e by blast
qed

end
