(* ===== verification/RedisCache.thy ===== *)
theory RedisCache
  imports Tools
begin

text \<open>
  \<open>core/cache.py\<close> with its Redis branch.  The cache of theory Tools is the same code with no Redis; here the module variables are a
  record, the server is a parameter (\<open>redis.asyncio\<close>: connecting and pinging, \<open>get\<close> and \<open>setex\<close>, each of which may raise) with a state
  of its own, and JSON text is a parameter as elsewhere.
\<close>

section \<open>The client and the module variables\<close>

record 'r redis =
  rd_ping :: "'r \<Rightarrow> bool"
  rd_get :: "string \<Rightarrow> 'r \<Rightarrow> string option option"
  rd_setex :: "string \<Rightarrow> nat \<Rightarrow> string \<Rightarrow> 'r \<Rightarrow> 'r option"

record json =
  js_loads :: "string \<Rightarrow> pyval option"
  js_dumps :: "pyval \<Rightarrow> string option"

record cache_vars =
  cv_memory :: "(string, string \<times> rat) dict"
  cv_client :: bool
  cv_available :: "bool option"

type_synonym ('r, 'a) redis_comp = "(cache_vars \<times> 'r, exn, 'a) comp"

section \<open>Operations\<close>

definition get_redis :: "'r redis \<Rightarrow> ('r, bool) redis_comp" where
  "get_redis C = (\<lambda>(c, r). if cv_available c = Some False then (Inr False, (c, r))
     else if cv_client c then (Inr True, (c, r))
     else if rd_ping C r then (Inr True, (c\<lparr>cv_client := True, cv_available := Some True\<rparr>, r))
     else (Inr False, (c\<lparr>cv_client := False, cv_available := Some False\<rparr>, r)))"

definition toolcache :: "string \<Rightarrow> string" where
  "toolcache key = ''toolcache:'' @ key"

definition memory_get :: "json \<Rightarrow> string \<Rightarrow> ('r, pyval option) redis_comp" where
  "memory_get J key = (\<lambda>(c, r). case dict_get (cv_memory c) key of None \<Rightarrow> (Inr None, (c, r))
     | Some (text, _) \<Rightarrow> (case js_loads J text of None \<Rightarrow> (Inl (ValueError ''JSON''), (c, r)) | Some v \<Rightarrow> (Inr (Some v), (c, r))))"

text \<open>What Redis raises, and text that it holds but that is not JSON, falls through to the memory.\<close>

definition redis_cache_get :: "'r redis \<Rightarrow> json \<Rightarrow> string \<Rightarrow> ('r, pyval option) redis_comp" where
  "redis_cache_get C J key = bnd (get_redis C) (\<lambda>on.
     if \<not> on then memory_get J key
     else bnd (reads (\<lambda>(c, r). rd_get C (toolcache key) r)) (\<lambda>answer. case answer of
       Some (Some raw) \<Rightarrow> if raw = '''' then memory_get J key
         else (case js_loads J raw of None \<Rightarrow> memory_get J key | Some v \<Rightarrow> ret (Some v))
     | _ \<Rightarrow> memory_get J key))"

definition memory_set :: "string \<Rightarrow> string \<Rightarrow> rat \<Rightarrow> ('r, unit) redis_comp" where
  "memory_set key payload expiry = mods (\<lambda>(c, r). (c\<lparr>cv_memory := dict_set key (payload, expiry) (cv_memory c)\<rparr>, r))"

definition redis_cache_set :: "'r redis \<Rightarrow> json \<Rightarrow> time \<Rightarrow> string \<Rightarrow> pyval \<Rightarrow> nat \<Rightarrow> ('r, unit) redis_comp" where
  "redis_cache_set C J now key data ttl = (case js_dumps J data of None \<Rightarrow> raise TypeError
     | Some payload \<Rightarrow> bnd (get_redis C) (\<lambda>on.
         if \<not> on then memory_set key payload (fadd (seconds_of now) (of_nat ttl))
         else bnd (reads (\<lambda>(c, r). rd_setex C (toolcache key) ttl payload r)) (\<lambda>stored. case stored of
           Some r' \<Rightarrow> mods (\<lambda>(c, r). (c, r'))
         | None \<Rightarrow> memory_set key payload (fadd (seconds_of now) (of_nat ttl)))))"

definition redis_reset_cache :: "cache_vars" where
  "redis_reset_cache = \<lparr>cv_memory = [], cv_client = False, cv_available = None\<rparr>"

section \<open>Lemmas\<close>

text \<open>Module variables that \<open>get_redis\<close> leaves: a client is kept exactly while Redis counts as available.\<close>

definition vars_ok :: "cache_vars \<Rightarrow> bool" where
  "vars_ok c \<longleftrightarrow> (cv_client c \<longleftrightarrow> cv_available c = Some True)"

lemma get_redis_run:
  assumes "vars_ok c"
  obtains on c' where "get_redis C (c, r) = (Inr on, (c', r))" and "vars_ok c'" and "cv_memory c' = cv_memory c"
    and "cv_available c' = Some on" and "cv_available c \<noteq> None \<Longrightarrow> c' = c" and "cv_available c = None \<Longrightarrow> on = rd_ping C r"
proof -
  consider "cv_available c = Some False" | "cv_available c = Some True" | "cv_available c = None" "rd_ping C r" | "cv_available c = None" "\<not> rd_ping C r"
    by (cases "cv_available c") auto
  then show thesis
  proof cases
    case 1
    then show ?thesis by (intro that [of False c]) (use assms in \<open>simp_all add: get_redis_def\<close>)
  next
    case 2
    then show ?thesis by (intro that [of True c]) (use assms in \<open>simp_all add: get_redis_def vars_ok_def\<close>)
  next
    case 3
    then show ?thesis by (intro that [of True "c\<lparr>cv_client := True, cv_available := Some True\<rparr>"])
        (use assms in \<open>simp_all add: get_redis_def vars_ok_def\<close>)
  next
    case 4
    then show ?thesis by (intro that [of False "c\<lparr>cv_client := False, cv_available := Some False\<rparr>"])
        (use assms in \<open>simp_all add: get_redis_def vars_ok_def\<close>)
  qed
qed

lemma get_redis_again: "vars_ok c \<Longrightarrow> cv_available c = Some on \<Longrightarrow> get_redis C (c, r) = (Inr on, (c, r))"
  by (cases on) (auto simp: get_redis_def vars_ok_def)

section \<open>Properties\<close>

text \<open>What is set is read back: from Redis if it took the value and answers with it, from the memory if Redis is not used.\<close>

theorem cache_reads_back:
  assumes "vars_ok c" and "redis_cache_set C J now key v ttl (c, r) = (Inr (), (c1, r1))" and "js_dumps J v = Some text"
    and "js_loads J text = Some v" and "text \<noteq> ''''"
    and "cv_available c1 = Some True \<Longrightarrow> rd_setex C (toolcache key) ttl text r = Some r1 \<and> rd_get C (toolcache key) r1 = Some (Some text)"
  shows "redis_cache_get C J key (c1, r1) = (Inr (Some v), (c1, r1))"
proof -
  obtain on c' where g: "get_redis C (c, r) = (Inr on, (c', r))" "vars_ok c'" "cv_available c' = Some on"
    by (rule get_redis_run [OF assms(1)]) (rule that)
  show ?thesis
  proof (cases on)
    case True
    have c1: "c1 = c'"
      using assms(2,3,6) g True by (auto simp: redis_cache_set_def bnd_def [of "get_redis C"] g(1) bnd_reads memory_set_def mods_def split: option.splits)
    have "get_redis C (c1, r1) = (Inr True, (c1, r1))" using get_redis_again g(2,3) True c1 by metis
    then show ?thesis
      using assms(4-6) g(3) True c1 by (simp add: redis_cache_get_def bnd_def [of "get_redis C"] bnd_reads ret_def)
  next
    case False
    then have c1: "c1 = c'\<lparr>cv_memory := dict_set key (text, fadd (seconds_of now) (of_nat ttl)) (cv_memory c')\<rparr>" "r1 = r"
      using assms(2,3) by (auto simp: redis_cache_set_def bnd_def [of "get_redis C"] g(1) memory_set_def mods_def)
    have "get_redis C (c1, r1) = (Inr False, (c1, r1))"
      by (rule get_redis_again) (use g(2,3) False c1 in \<open>simp_all add: vars_ok_def\<close>)
    then show ?thesis using assms(4) c1 by (simp add: redis_cache_get_def bnd_def [of "get_redis C"] memory_get_def dict_get_set)
  qed
qed

text \<open>After the first failed ping Redis is never asked again until the cache is reset: reads and writes leave the server and the
  availability as they are, and depend on the memory only.\<close>

theorem redis_never_retried:
  assumes "cv_available c = Some False"
  shows "redis_cache_get C J key (c, r) = memory_get J key (c, r)"
    and "js_dumps J v = Some text \<Longrightarrow> redis_cache_set C J now key v ttl (c, r) = memory_set key text (fadd (seconds_of now) (of_nat ttl)) (c, r)"
proof -
  have g: "get_redis C (c, r) = (Inr False, (c, r))" using assms by (simp add: get_redis_def)
  then show "redis_cache_get C J key (c, r) = memory_get J key (c, r)" by (simp add: redis_cache_get_def bnd_def [of "get_redis C"])
  show "js_dumps J v = Some text \<Longrightarrow> redis_cache_set C J now key v ttl (c, r) = memory_set key text (fadd (seconds_of now) (of_nat ttl)) (c, r)"
    by (simp add: redis_cache_set_def bnd_def [of "get_redis C"] g)
qed

text \<open>A write that Redis refuses is lost behind the old value: the new text goes to the memory, but as long as Redis answers with what it
  held before, reading the key gives the old value.\<close>

theorem refused_write_hidden_by_old_value:
  assumes "vars_ok c" and "cv_available c = Some True" and "js_dumps J v = Some text" and "rd_setex C (toolcache key) ttl text r = None"
    and "rd_get C (toolcache key) r = Some (Some old)" and "old \<noteq> ''''" and "js_loads J old = Some w"
  shows "\<exists>c1. redis_cache_set C J now key v ttl (c, r) = (Inr (), (c1, r)) \<and> dict_get (cv_memory c1) key = Some (text, fadd (seconds_of now) (of_nat ttl)) \<and>
    redis_cache_get C J key (c1, r) = (Inr (Some w), (c1, r))"
proof -
  let ?c = "c\<lparr>cv_memory := dict_set key (text, fadd (seconds_of now) (of_nat ttl)) (cv_memory c)\<rparr>"
  have g: "get_redis C (c, r) = (Inr True, (c, r))" by (rule get_redis_again [OF assms(1,2)])
  have g1: "get_redis C (?c, r) = (Inr True, (?c, r))" by (rule get_redis_again) (use assms(1,2) in \<open>simp_all add: vars_ok_def\<close>)
  have "redis_cache_set C J now key v ttl (c, r) = (Inr (), (?c, r))"
    by (simp add: redis_cache_set_def assms(3,4) bnd_def [of "get_redis C"] g bnd_reads memory_set_def mods_def)
  moreover have "redis_cache_get C J key (?c, r) = (Inr (Some w), (?c, r))"
    using assms(6) by (simp add: redis_cache_get_def bnd_def [of "get_redis C"] g1 bnd_reads assms(5,7) ret_def)
  ultimately show ?thesis by (auto simp: dict_get_set)
qed

text \<open>An entry that expired in Redis is served from the memory if an earlier write ended there.\<close>

theorem expired_entry_served_from_memory:
  assumes "vars_ok c" and "cv_available c = Some True" and "rd_get C (toolcache key) r = Some None"
    and "dict_get (cv_memory c) key = Some (text, expiry)" and "js_loads J text = Some v"
  shows "redis_cache_get C J key (c, r) = (Inr (Some v), (c, r))"
  using get_redis_again [OF assms(1,2), of C r] assms(3-5)
  by (simp add: redis_cache_get_def bnd_def [of "get_redis C"] bnd_reads memory_get_def)

end
