(* ===== verification/Agents.thy ===== *)
theory Agents
  imports System Replay
begin

text \<open>
  Construction of the agents and their surroundings: \<open>agents/factory.py\<close> (which language model is used, and what an agent is built
  with) and \<open>core/storage.py\<close> (the session storage of the agno library).  The model classes, the agent class and the storage class of the library are parameters, as are the prompt files.
\<close>

section \<open>agents/factory.py: language models\<close>

text \<open>What the code reads of its settings; an empty key counts as none.\<close>

record llm_settings =
  ls_provider :: string
  ls_anthropic_key :: string
  ls_openai_key :: string
  ls_google_key :: string
  ls_gemini_model :: string

text \<open>The constructor calls, all with temperature 0; \<open>sdk\<close> imports the class and makes the object, and may raise.\<close>

datatype model_args = Claude string | OpenAIChat string | Gemini string string

type_synonym 'm sdk = "model_args \<Rightarrow> exn + 'm"

definition anthropic_model :: "llm_settings \<Rightarrow> 'm sdk \<Rightarrow> exn + 'm option" where
  "anthropic_model L sdk = (if ls_anthropic_key L = '''' then Inr None
     else map_sum id Some (sdk (Claude ''claude-sonnet-4-20250514'')))"

definition openai_model :: "llm_settings \<Rightarrow> 'm sdk \<Rightarrow> exn + 'm option" where
  "openai_model L sdk = (if ls_openai_key L = '''' then Inr None else map_sum id Some (sdk (OpenAIChat ''gpt-4o-mini'')))"

definition google_model :: "llm_settings \<Rightarrow> 'm sdk \<Rightarrow> exn + 'm option" where
  "google_model L sdk = (if ls_google_key L = '''' then Inr None
     else map_sum id Some (sdk (Gemini (ls_gemini_model L) (ls_google_key L))))"

definition PROVIDERS :: "(string, llm_settings \<Rightarrow> 'm sdk \<Rightarrow> exn + 'm option) dict" where
  "PROVIDERS = [(''anthropic'', anthropic_model), (''openai'', openai_model), (''google'', google_model)]"

fun first_model :: "(llm_settings \<Rightarrow> 'm sdk \<Rightarrow> exn + 'm option) list \<Rightarrow> llm_settings \<Rightarrow> 'm sdk \<Rightarrow> 'm option" where
  "first_model [] L sdk = None"
| "first_model (b # bs) L sdk = (case b L sdk of Inr (Some m) \<Rightarrow> Some m | _ \<Rightarrow> first_model bs L sdk)"

definition get_resilient_model :: "llm_settings \<Rightarrow> 'm sdk \<Rightarrow> 'm option" where
  "get_resilient_model L sdk =
     (if ls_provider L \<noteq> ''auto''
      then (case dict_get PROVIDERS (ls_provider L) of None \<Rightarrow> None
            | Some b \<Rightarrow> (case b L sdk of Inl e \<Rightarrow> None | Inr m \<Rightarrow> m))
      else first_model [google_model, anthropic_model, openai_model] L sdk)"

section \<open>agents/factory.py: agents\<close>

definition AGNO_ADAPTER_RETRIES :: int where "AGNO_ADAPTER_RETRIES = 0"

definition load_prompt :: "(string \<Rightarrow> string option) \<Rightarrow> string \<Rightarrow> string" where
  "load_prompt files n = (case files n of None \<Rightarrow> '''' | Some t \<Rightarrow> t)"

text \<open>The keyword arguments of the agent class; one that is not passed is \<open>None\<close>.\<close>

record 'm agent_args =
  ag_name :: string
  ag_instructions :: string
  ag_tools :: "string list option"
  ag_schema :: string
  ag_tool_call_limit :: int
  ag_retries :: int
  ag_model :: "'m option"

definition create_ceo_agent :: "llm_settings \<Rightarrow> 'm sdk \<Rightarrow> (string \<Rightarrow> string option) \<Rightarrow> 'm agent_args" where
  "create_ceo_agent L sdk files = \<lparr>ag_name = ''CEO Agent'', ag_instructions = load_prompt files ''ceo_agent_v1.md'', ag_tools = None,
     ag_schema = ''CEOResponse'', ag_tool_call_limit = 0, ag_retries = AGNO_ADAPTER_RETRIES, ag_model = get_resilient_model L sdk\<rparr>"

definition create_cto_agent :: "llm_settings \<Rightarrow> 'm sdk \<Rightarrow> (string \<Rightarrow> string option) \<Rightarrow> 'm agent_args" where
  "create_cto_agent L sdk files = \<lparr>ag_name = ''CTO Agent'', ag_instructions = load_prompt files ''cto_agent_v1.md'', ag_tools = Some [],
     ag_schema = ''CTOResponse'', ag_tool_call_limit = 0, ag_retries = AGNO_ADAPTER_RETRIES, ag_model = get_resilient_model L sdk\<rparr>"

definition create_cfo_agent :: "llm_settings \<Rightarrow> 'm sdk \<Rightarrow> (string \<Rightarrow> string option) \<Rightarrow> 'm agent_args" where
  "create_cfo_agent L sdk files = \<lparr>ag_name = ''CFO Agent'', ag_instructions = load_prompt files ''cfo_agent_v1.md'', ag_tools = Some [],
     ag_schema = ''CFOResponse'', ag_tool_call_limit = 0, ag_retries = AGNO_ADAPTER_RETRIES, ag_model = get_resilient_model L sdk\<rparr>"

definition create_coo_agent :: "llm_settings \<Rightarrow> 'm sdk \<Rightarrow> (string \<Rightarrow> string option) \<Rightarrow> 'm agent_args" where
  "create_coo_agent L sdk files = \<lparr>ag_name = ''COO Agent'', ag_instructions = load_prompt files ''coo_agent_v1.md'', ag_tools = Some [],
     ag_schema = ''COOResponse'', ag_tool_call_limit = 0, ag_retries = AGNO_ADAPTER_RETRIES, ag_model = get_resilient_model L sdk\<rparr>"

definition create_cmo_agent :: "llm_settings \<Rightarrow> 'm sdk \<Rightarrow> (string \<Rightarrow> string option) \<Rightarrow> 'm agent_args" where
  "create_cmo_agent L sdk files = \<lparr>ag_name = ''CMO Agent'', ag_instructions = load_prompt files ''cmo_agent_v1.md'', ag_tools = Some [],
     ag_schema = ''CMOResponse'', ag_tool_call_limit = 0, ag_retries = AGNO_ADAPTER_RETRIES, ag_model = get_resilient_model L sdk\<rparr>"

section \<open>core/storage.py\<close>

text \<open>The module's variable is the state; \<open>connect\<close> makes the storage object and \<open>create\<close> its table, and both may raise.\<close>

definition get_agent_storage ::
  "bool \<Rightarrow> (exn + 'st) \<Rightarrow> ('st \<Rightarrow> exn + unit) \<Rightarrow> ('st option, exn, 'st option) comp" where
  "get_agent_storage in_memory connect create = bnd (reads id) (\<lambda>st. case st of
       Some x \<Rightarrow> ret (Some x)
     | None \<Rightarrow> if in_memory then ret None
         else catch (bnd (lift_res connect) (\<lambda>x. seqc (mods (\<lambda>_. Some x)) (seqc (lift_res (create x)) (ret (Some x)))))
           (\<lambda>e. True) (\<lambda>e. ret None))"

section \<open>Properties\<close>

datatype provider = Google | Anthropic | OpenAI

fun provider_key :: "llm_settings \<Rightarrow> provider \<Rightarrow> string" where
  "provider_key L Google = ls_google_key L"
| "provider_key L Anthropic = ls_anthropic_key L"
| "provider_key L OpenAI = ls_openai_key L"

fun provider_args :: "llm_settings \<Rightarrow> provider \<Rightarrow> model_args" where
  "provider_args L Google = Gemini (ls_gemini_model L) (ls_google_key L)"
| "provider_args L Anthropic = Claude ''claude-sonnet-4-20250514''"
| "provider_args L OpenAI = OpenAIChat ''gpt-4o-mini''"

text \<open>The providers that may be asked, in order.\<close>

definition candidates :: "llm_settings \<Rightarrow> provider list" where
  "candidates L = (if ls_provider L = ''auto'' then [Google, Anthropic, OpenAI] else if ls_provider L = ''google'' then [Google]
     else if ls_provider L = ''anthropic'' then [Anthropic] else if ls_provider L = ''openai'' then [OpenAI] else [])"

fun first_working :: "provider list \<Rightarrow> llm_settings \<Rightarrow> 'm sdk \<Rightarrow> 'm option" where
  "first_working [] L sdk = None"
| "first_working (p # ps) L sdk = (if provider_key L p = '''' then first_working ps L sdk
     else (case sdk (provider_args L p) of Inl e \<Rightarrow> first_working ps L sdk | Inr m \<Rightarrow> Some m))"

lemma get_resilient_model_first: "get_resilient_model L sdk = first_working (candidates L) L sdk"
  by (auto simp: get_resilient_model_def candidates_def PROVIDERS_def google_model_def anthropic_model_def openai_model_def split: sum.split)

lemma first_working_iff:
  "first_working ps L sdk = Some m \<longleftrightarrow> (\<exists>a p b. ps = a @ p # b \<and> provider_key L p \<noteq> '''' \<and> sdk (provider_args L p) = Inr m \<and>
     (\<forall>q \<in> set a. provider_key L q = '''' \<or> isl (sdk (provider_args L q))))"
  (is "_ \<longleftrightarrow> (\<exists>a p b. ?P ps a p b)")
proof (induction ps)
  case (Cons x ps)
  show ?case
  proof (cases "provider_key L x \<noteq> '''' \<and> \<not> isl (sdk (provider_args L x))")
    case True
    then obtain m' where m: "sdk (provider_args L x) = Inr m'" by (cases "sdk (provider_args L x)") auto
    have "(\<exists>a p b. ?P (x # ps) a p b) \<longleftrightarrow> m' = m"
    proof
      assume "m' = m"
      then have "?P (x # ps) [] x ps" using True m by simp
      then show "\<exists>a p b. ?P (x # ps) a p b" by blast
    qed (use True m in \<open>auto simp: Cons_eq_append_conv\<close>)
    then show ?thesis using True m by simp
  next
    case False
    then have s: "first_working (x # ps) L sdk = first_working ps L sdk" by (auto split: sum.split)
    have "?P (x # ps) a p b \<longleftrightarrow> (\<exists>a'. a = x # a' \<and> ?P ps a' p b)" for a p b
      using False by (cases a) auto
    then show ?thesis unfolding s Cons.IH by auto
  qed
qed simp

text \<open>which language model an agent gets: under \<open>auto\<close> the first of Google, Anthropic and OpenAI whose key is set and whose library
  makes the model (an exception of one just moves on to the next), under a named provider only that one; the selection never raises, and an
  agent without any model is still built, without a model argument.\<close>

theorem model_selection_order:
  "get_resilient_model L sdk = Some m \<longleftrightarrow> (\<exists>a p b. candidates L = a @ p # b \<and> provider_key L p \<noteq> '''' \<and>
     sdk (provider_args L p) = Inr m \<and> (\<forall>q \<in> set a. provider_key L q = '''' \<or> isl (sdk (provider_args L q))))"
  unfolding get_resilient_model_first by (rule first_working_iff)

theorem model_selection_order_witness:
  "get_resilient_model \<lparr>ls_provider = ''auto'', ls_anthropic_key = ''k'', ls_openai_key = ''k'', ls_google_key = '''', ls_gemini_model = ''g''\<rparr>
     (\<lambda>x. case x of OpenAIChat i \<Rightarrow> Inr i | _ \<Rightarrow> Inl AttributeError) = Some ''gpt-4o-mini''"
  by (rule model_selection_order [THEN iffD2], rule exI [of _ "[Google, Anthropic]"], rule exI [of _ OpenAI], rule exI [of _ "[]"])
    (simp add: candidates_def)

text \<open>No agent holds a tool or retries on its own, whatever model it runs on.\<close>

lemma agents_hold_no_tools:
  assumes "a \<in> {create_ceo_agent L sdk files, create_cto_agent L sdk files, create_cfo_agent L sdk files, create_coo_agent L sdk files,
    create_cmo_agent L sdk files}"
  shows "ag_tools a \<in> {None, Some []} \<and> ag_tool_call_limit a = 0 \<and> ag_retries a = 0"
  using assms by (auto simp: create_ceo_agent_def create_cto_agent_def create_cfo_agent_def create_coo_agent_def create_cmo_agent_def
    AGNO_ADAPTER_RETRIES_def)

text \<open>A storage whose table could not be created is refused once and then handed out: the variable is assigned before the table exists.\<close>

lemma half_made_storage_is_reused:
  assumes "connect = Inr x" and "create x = Inl e"
  shows "get_agent_storage False connect create None = (Inr None, Some x)"
    and "get_agent_storage False connect create (Some x) = (Inr (Some x), Some x)"
  using assms by (simp_all add: get_agent_storage_def bnd_def reads_def catch_def lift_res_def seqc_def mods_def ret_def)

end
