(* ===== verification/Specialists.thy ===== *)
theory Specialists
  imports Requests
begin

text \<open>
  Code around the orchestrator that its requests do not use: \<open>experimental/agents/expanded.py\<close> (the specialists that are switched off) and
  \<open>scripts/seed_demo.py\<close> (demo sessions, one founder request per fixture file).
\<close>

section \<open>experimental/agents/expanded.py\<close>

text \<open>
  The specialists ask the orchestrator for \<open>_make_state_machine\<close>, which it does not have: the parameter \<open>mk\<close> is that
  attribute, \<open>None\<close> in this repository.
\<close>

definition make_state_machine :: "(string \<Rightarrow> string \<Rightarrow> state_machine) option \<Rightarrow> string \<Rightarrow> string \<Rightarrow> state_machine rt" where
  "make_state_machine mk cid sid = (case mk of None \<Rightarrow> raise AttributeError | Some f \<Rightarrow> ret (f cid sid))"

record specialist_result =
  sp_decision :: string
  sp_summary :: string
  sp_response :: pyval

definition specialist_decision :: "message \<Rightarrow> string \<Rightarrow> string \<Rightarrow> runtime_state \<Rightarrow> string \<Rightarrow> time \<Rightarrow> decision_record" where
  "specialist_decision m agent summary st uid now = \<lparr>dr_id = uid, dr_correlation = mg_correlation m, dr_causation = Some (mg_id m),
     dr_objective = objective_of m, dr_context_used = [], dr_policies = [], dr_tools = [], dr_summary = summary,
     dr_confidence = calibrate_confidence 1 1 1 1 0, dr_final_action = ''delegate:'' @ agent, dr_outcome = Some ''success'',
     dr_agent = agent, dr_state = st, dr_created = now\<rparr>"

definition specialist_payload :: "rt_env \<Rightarrow> message \<Rightarrow> string \<Rightarrow> decision_record \<Rightarrow> payload" where
  "specialist_payload R m sid d = (new_payload (mg_correlation m) sid ''decision.recorded'' (decision_json R d))\<lparr>
     pl_causation := Some (mg_id m), pl_decision := Some d, pl_business := Some (''decision:'' @ dr_id d)\<rparr>"

definition save_specialist_result ::
  "rt_env \<Rightarrow> message \<Rightarrow> string \<Rightarrow> state_machine \<Rightarrow> string \<Rightarrow> string \<Rightarrow> pyval \<Rightarrow> specialist_result rt" where
  "save_specialist_result R m sid sm agent summary structured =
     bnd (fresh_uuid R) (\<lambda>uid. bnd (clock R) (\<lambda>now.
     let d = specialist_decision m agent summary (sm_state sm) uid now in
     seqc (run_mutative_session sid (bnd (persist_runtime_tx R (specialist_payload R m sid d)) (\<lambda>_. ret ())))
     (bnd (sm_call_at R (\<lambda>t. transition t COMPLETED) sm) (\<lambda>_.
      ret \<lparr>sp_decision = uid, sp_summary = summary, sp_response = structured\<rparr>))))"

text \<open>\<open>(result.data or {}).get(k, d)\<close>; the data of a result is a dictionary or absent.\<close>

definition data_get :: "tool_result \<Rightarrow> string \<Rightarrow> pyval \<Rightarrow> pyval" where
  "data_get r k v = (case tr_data r of None \<Rightarrow> v | Some x \<Rightarrow> if truthy x then vgetd x k v else v)"

text \<open>\<open>v < 0\<close>, \<open>len(v)\<close>, and the validation of a float field (a text that spells a number is not modelled: the tools give numbers).\<close>

fun negative :: "pyval \<Rightarrow> exn + bool" where
  "negative (PInt i) = Inr (i < 0)"
| "negative (PFloat x) = Inr (x < 0)"
| "negative (PBool b) = Inr False"
| "negative _ = Inl TypeError"

fun py_len :: "pyval \<Rightarrow> exn + nat" where
  "py_len (PList xs) = Inr (length xs)"
| "py_len (PTuple xs) = Inr (length xs)"
| "py_len (PStr s) = Inr (length s)"
| "py_len (PDict d) = Inr (length d)"
| "py_len _ = Inl TypeError"

fun float_field :: "pyval \<Rightarrow> exn + rat" where
  "float_field (PFloat x) = Inr x"
| "float_field (PInt i) = Inr (fl (of_int i))"
| "float_field (PBool b) = Inr (if b then 1 else 0)"
| "float_field _ = Inl ValidationError"

definition texts_checked :: "pyval \<Rightarrow> exn + pyval" where
  "texts_checked v = (case check_field FTexts v of None \<Rightarrow> Inl ValidationError | Some x \<Rightarrow> Inr x)"

definition delegate_to_cfo ::
  "rt_env \<Rightarrow> registry \<Rightarrow> (string \<Rightarrow> string \<Rightarrow> state_machine) option \<Rightarrow> message \<Rightarrow> string \<Rightarrow> specialist_result rt" where
  "delegate_to_cfo R reg mk m sid =
     seqc (lift_res (assert_agent_active ''cfo''))
     (bnd (make_state_machine mk (mg_correlation m) sid) (\<lambda>sm.
      bnd (execute_tool R reg ''get_cashflow_summary'' ''cfo'' (mg_correlation m) None None 0) (\<lambda>cashflow.
      bnd (execute_tool R reg ''calculate_runway'' ''cfo'' (mg_correlation m) None None 0) (\<lambda>runway.
      bnd (lift_res (negative (data_get cashflow ''net_cashflow'' (PInt 0)))) (\<lambda>neg.
      bnd (lift_res (float_field (data_get runway ''runway_months'' (PInt 0)))) (\<lambda>months.
      let summary = ''Financial analysis: '' @ objective_of m in
      save_specialist_result R m sid sm ''cfo'' summary (pdict [(''summary'', PStr summary),
        (''cashflow_status'', PStr (if neg then ''negative'' else ''positive'')), (''runway_months'', PFloat months), (''anomalies'', PList []),
        (''recommendations'', pstrs [''Reduce burn rate'', ''Review subscription pricing''])])))))))"

definition delegate_to_coo ::
  "rt_env \<Rightarrow> registry \<Rightarrow> (string \<Rightarrow> string \<Rightarrow> state_machine) option \<Rightarrow> message \<Rightarrow> string \<Rightarrow> specialist_result rt" where
  "delegate_to_coo R reg mk m sid =
     seqc (lift_res (assert_agent_active ''coo''))
     (bnd (make_state_machine mk (mg_correlation m) sid) (\<lambda>sm.
      bnd (execute_tool R reg ''detect_blockers'' ''coo'' (mg_correlation m) None None 0) (\<lambda>blockers.
      bnd (execute_tool R reg ''list_active_tasks'' ''coo'' (mg_correlation m) None None 0) (\<lambda>tasks.
      bnd (lift_res (py_len (data_get tasks ''tasks'' (PList [])))) (\<lambda>n.
      bnd (lift_res (texts_checked (data_get blockers ''blockers'' (PList [])))) (\<lambda>bs.
      let summary = ''Operations review: '' @ objective_of m in
      save_specialist_result R m sid sm ''coo'' summary (pdict [(''summary'', PStr summary), (''blockers'', bs),
        (''task_status'', PStr (show_nat n @ '' active tasks'')), (''bottlenecks'', bs), (''follow_ups'', PList [])])))))))"

definition delegate_to_cmo ::
  "rt_env \<Rightarrow> registry \<Rightarrow> (string \<Rightarrow> string \<Rightarrow> state_machine) option \<Rightarrow> message \<Rightarrow> string \<Rightarrow> specialist_result rt" where
  "delegate_to_cmo R reg mk m sid =
     seqc (lift_res (assert_agent_active ''cmo''))
     (bnd (make_state_machine mk (mg_correlation m) sid) (\<lambda>sm.
      bnd (execute_tool R reg ''get_analytics_summary'' ''cmo'' (mg_correlation m) None None 0) (\<lambda>analytics.
      let summary = ''Growth analysis: '' @ objective_of m in
      save_specialist_result R m sid sm ''cmo'' summary (pdict [(''summary'', PStr summary), (''campaign_status'', PStr ''2 active campaigns''),
        (''cac_analysis'', pdict [(''cac_usd'', data_get analytics ''cac_usd'' (PInt 0))]),
        (''conversion_funnel'', pdict [(''rate'', data_get analytics ''conversion_rate'' (PInt 0))]),
        (''recommendations'', pstrs [''Optimize landing page conversion''])]))))"

section \<open>scripts/seed_demo.py\<close>

text \<open>The fixtures are files with a name and a text; \<open>spec[k]\<close> of a fixture is a text.\<close>

definition spec_item :: "pyval \<Rightarrow> string \<Rightarrow> exn + string" where
  "spec_item spec k = (case vget spec k of None \<Rightarrow> Inl (KeyError k)
     | Some v \<Rightarrow> (case as_str v of None \<Rightarrow> Inl TypeError | Some s \<Rightarrow> Inr s))"

definition is_json :: "string \<Rightarrow> bool" where
  "is_json n \<longleftrightarrow> lastn 5 n = ''.json''"

definition stem :: "string \<Rightarrow> string" where
  "stem n = take (length n - 5) n"

definition demo_paths :: "string list \<Rightarrow> string list option \<Rightarrow> string list" where
  "demo_paths files fixtures = (case fixtures of
     None \<Rightarrow> sort_key id (filter is_json files)
   | Some fs \<Rightarrow> if fs = [] then sort_key id (filter is_json files) else map (\<lambda>n. if is_json n then n else n @ ''.json'') fs)"

fun answer_session :: "request_result \<Rightarrow> string" where
  "answer_session (Deterministic cid sid r) = sid"
| "answer_session (Escalated cid sid r) = sid"
| "answer_session (Completed cid sid st ceo cto) = sid"
| "answer_session (Failed sid cid e) = sid"
| "answer_session (LockedSession sid) = sid"

fun answer_correlation :: "request_result \<Rightarrow> string option" where
  "answer_correlation (Deterministic cid sid r) = Some cid"
| "answer_correlation (Escalated cid sid r) = Some cid"
| "answer_correlation (Completed cid sid st ceo cto) = Some cid"
| "answer_correlation (Failed sid cid e) = Some cid"
| "answer_correlation (LockedSession sid) = None"

record seeded =
  sd_demo :: pyval
  sd_title :: pyval
  sd_session_id :: string
  sd_correlation_id :: string
  sd_url :: string

definition seed_one :: "rt_env \<Rightarrow> registry \<Rightarrow> string \<Rightarrow> string \<Rightarrow> seeded rt" where
  "seed_one R reg path txt = (case re_json_loads R txt of None \<Rightarrow> raise JSONDecodeError
   | Some spec \<Rightarrow>
       bnd (lift_res (spec_item spec ''message'')) (\<lambda>msg. bnd (lift_res (spec_item spec ''session_id'')) (\<lambda>sid.
       bnd (lift_res (spec_item spec ''correlation_id'')) (\<lambda>cid.
       bnd (run_founder_request R reg msg (Some sid) (Some cid) None) (\<lambda>r.
       ret \<lparr>sd_demo = vgetd spec ''demo_id'' (PStr (stem path)), sd_title = vgetd spec ''title'' (PStr (stem path)),
         sd_session_id = answer_session r, sd_correlation_id = (case answer_correlation r of Some c \<Rightarrow> c | None \<Rightarrow> cid),
         sd_url = ''/sessions/'' @ sid @ ''?correlation_id='' @ cid\<rparr>)))))"

definition seed_demo :: "rt_env \<Rightarrow> registry \<Rightarrow> (string, string) dict \<Rightarrow> string list option \<Rightarrow> seeded list rt" where
  "seed_demo R reg files fixtures =
     bnd (clock R) (\<lambda>now. seqc (mods (reset_in_memory_store now))
     (collect (filter (\<lambda>p. dict_get files p \<noteq> None) (demo_paths (dict_keys files) fixtures))
        (\<lambda>p. seed_one R reg p (the (dict_get files p)))))"


section \<open>Lemmas\<close>

lemma specialists_refuse:
  "delegate_to_cfo R reg mk m sid s = (Inl (AgentDisabledError ''cfo''), s)"
  "delegate_to_coo R reg mk m sid s = (Inl (AgentDisabledError ''coo''), s)"
  "delegate_to_cmo R reg mk m sid s = (Inl (AgentDisabledError ''cmo''), s)"
  by (simp_all add: delegate_to_cfo_def delegate_to_coo_def delegate_to_cmo_def assert_agent_active_def AGENT_RUNTIME_STATUS_def
    dict_getd_def seqc_def bnd_lift_res)

lemma specialist_payload_write: "table_write (specialist_payload R m sid d)" "pl_decision (specialist_payload R m sid d) = Some d"
  by (simp_all add: specialist_payload_def table_write_def new_payload_def is_session_close_def)

text \<open>Were the specialists switched on: the result is saved before the machine is moved, so that from a state that cannot complete (as a
  new machine's) the call raises and leaves the decision of a specialist that has not answered.\<close>

theorem specialist_result_saved_then_raises:
  assumes "d = specialist_decision m agent summary (sm_state sm) (re_uuid R (sy_uuid s)) (re_now R (sy_clock s))"
    and "sid \<notin> set (sy_locks s)" and "\<not> lc.step_ok (sm_state sm) COMPLETED"
    and "payload_key (re_env R) (specialist_payload R m sid d) \<notin> set (outbox_keys s)"
  shows "\<exists>t. save_specialist_result R m sid sm agent summary structured s = (Inl (InvalidStateTransition (sm_state sm) COMPLETED), t) \<and>
    db_decisions (sy_db t) = db_decisions (sy_db s) @ [d]"
proof -
  let ?s = "s\<lparr>sy_uuid := sy_uuid s + 1, sy_clock := sy_clock s + 1, sy_locks := sid # sy_locks s\<rparr>"
  have "payload_key (re_env R) (specialist_payload R m sid d) \<notin> set (outbox_keys ?s)" using assms(4) by (simp add: outbox_keys_def)
  then obtain x t where p: "persist_runtime_tx R (specialist_payload R m sid d) ?s = (Inr x, t)" "wrote R (specialist_payload R m sid d) ?s t"
    by (rule persist_new [OF specialist_payload_write(1)])
  have "db_decisions (sy_db t) = db_decisions (sy_db s) @ [d]"
    using p(2) by (auto simp: wrote_def specialist_payload_write)
  moreover have "transition n COMPLETED sm = (Inl (InvalidStateTransition (sm_state sm) COMPLETED), sm)" for n
    using assms(3) by (auto simp: transition_def lc.step_ok_def)
  moreover have "run_mutative_session sid (bnd (persist_runtime_tx R (specialist_payload R m sid d)) (\<lambda>_. ret ()))
      (s\<lparr>sy_uuid := sy_uuid s + 1, sy_clock := sy_clock s + 1\<rparr>) = (Inr (), t\<lparr>sy_locks := lock_leave sid (sy_locks t)\<rparr>)"
    using assms(2) p(1) by (simp add: run_free bnd_Inr ret_def)
  ultimately show ?thesis
    by (simp add: save_specialist_result_def fresh_uuid_run clock_run Let_def assms(1) [symmetric] seqc_def bnd_Inr
        sm_call_at_def bnd_assoc bnd_raise) (simp add: raise_def)
qed

text \<open>Seeding returns when every fixture has its three texts, with one entry per fixture in order, and leaves no lock.\<close>

definition spec_complete :: "rt_env \<Rightarrow> string \<Rightarrow> bool" where
  "spec_complete R txt \<longleftrightarrow> (\<exists>spec. re_json_loads R txt = Some spec \<and>
     (\<forall>k \<in> {''message'', ''session_id'', ''correlation_id''}. \<exists>v. spec_item spec k = Inr v))"

lemma founder_request_returns:
  "\<exists>r t. run_founder_request R reg input sid0 cid0 None s = (Inr r, t) \<and> sy_locks t = sy_locks s"
proof -
  obtain cid sid n where ids: "request_ids R sid0 cid0 s = (Inr (cid, sid), s\<lparr>sy_uuid := n\<rparr>)" by (rule request_ids_run)
  let ?s = "s\<lparr>sy_uuid := n\<rparr>"
  have run: "run_founder_request R reg input sid0 cid0 None s =
      catch (run_mutative_session sid (run_locked_agents R reg input sid cid)) is_lock_error (\<lambda>e. ret (LockedSession sid)) ?s"
    using run_without_tool [of None] by (simp add: run_founder_request_def bnd_def ids)
  show ?thesis
  proof (cases "sid \<in> set (sy_locks s)")
    case True
    then show ?thesis
      using run_locked [of sid ?s "run_locked_agents R reg input sid cid"] by (simp add: run catch_def is_lock_error_def ret_def)
  next
    case False
    obtain r t where a: "run_locked_agents R reg input sid cid (?s\<lparr>sy_locks := sid # sy_locks ?s\<rparr>) = (Inr r, t)"
      "sy_locks t = sid # sy_locks s"
      by (rule agents_run [of R reg input sid cid "?s\<lparr>sy_locks := sid # sy_locks ?s\<rparr>"]) simp
    have "filter (\<lambda>x. x \<noteq> sid) (sy_locks s) = sy_locks s" using False by (auto intro: filter_True)
    then show ?thesis using False a by (simp add: run catch_def run_free lock_leave_def)
  qed
qed

lemma seed_one_returns:
  assumes "spec_complete R txt"
  shows "\<exists>x t. seed_one R reg path txt s = (Inr x, t) \<and> sy_locks t = sy_locks s"
proof -
  obtain spec msg sid cid where spec: "re_json_loads R txt = Some spec" "spec_item spec ''message'' = Inr msg"
    "spec_item spec ''session_id'' = Inr sid" "spec_item spec ''correlation_id'' = Inr cid"
    using assms by (auto simp: spec_complete_def)
  obtain r t where "run_founder_request R reg msg (Some sid) (Some cid) None s = (Inr r, t)" "sy_locks t = sy_locks s"
    using founder_request_returns by blast
  then show ?thesis by (simp add: seed_one_def spec bnd_lift_res bnd_Inr ret_def)
qed

lemma collect_returns:
  assumes "\<And>x s. x \<in> set xs \<Longrightarrow> \<exists>y t. f x s = (Inr y, t) \<and> sy_locks t = sy_locks s"
  shows "\<exists>ys t. collect xs f s = (Inr ys, t) \<and> length ys = length xs \<and> sy_locks t = sy_locks s"
  using assms
proof (induction xs arbitrary: s)
  case (Cons x xs)
  obtain y t where y: "f x s = (Inr y, t)" "sy_locks t = sy_locks s" using Cons.prems [of x s] by auto
  obtain ys u where "collect xs f t = (Inr ys, u)" "length ys = length xs" "sy_locks u = sy_locks t"
    using Cons.IH [of t] Cons.prems by auto
  then show ?case using y by (simp add: bnd_Inr ret_def)
qed (simp add: ret_def)

theorem seed_demo_returns:
  assumes "\<And>p txt. p \<in> set (demo_paths (dict_keys files) fixtures) \<Longrightarrow> dict_get files p = Some txt \<Longrightarrow> spec_complete R txt"
  shows "\<exists>xs t. seed_demo R reg files fixtures s = (Inr xs, t) \<and> sy_locks t = sy_locks s \<and>
    length xs = length (filter (\<lambda>p. dict_get files p \<noteq> None) (demo_paths (dict_keys files) fixtures))"
proof -
  let ?ps = "filter (\<lambda>p. dict_get files p \<noteq> None) (demo_paths (dict_keys files) fixtures)"
  let ?s = "reset_in_memory_store (re_now R (sy_clock s)) (s\<lparr>sy_clock := sy_clock s + 1\<rparr>)"
  have "\<exists>ys t. collect ?ps (\<lambda>p. seed_one R reg p (the (dict_get files p))) ?s = (Inr ys, t) \<and> length ys = length ?ps \<and> sy_locks t = sy_locks ?s"
    by (rule collect_returns, rule seed_one_returns) (use assms in auto)
  then show ?thesis
    by (auto simp: seed_demo_def clock_run seqc_def bnd_mods reset_in_memory_store_def)
qed

end
