(* ===== verification/Telemetry.thy ===== *)
theory Telemetry
  imports Replay
begin

text \<open>
  The export of telemetry, \<open>core/telemetry/otel.py\<close>: the module's instruments and their life cycle, what each \<open>record_\<close> function adds
  to them, and the spans.  The OpenTelemetry library is known by its documented behaviour only: a counter is the sum of what was added to it
  under a set of labels, a histogram collects what was recorded, and the tracer of an uninitialised process does nothing.
\<close>

section \<open>Settings and instruments\<close>

record otel_settings =
  os_sdk_disabled :: bool
  os_enabled :: bool
  os_env_disabled :: string
  os_service_name :: string
  os_env_service :: "string option"
  os_endpoint :: string
  os_env_endpoint :: string

datatype instrument = Cognitive_tokens | Reasoning_latency | Retry_count | Runtime_health_score | Adaptive_policy_changes |
  Tool_confidence | Context_budget_ratio | Retry_storm_events | Delegation_disable_events | Session_stability_score

datatype instrument_kind = Counter | UpDownCounter | Histogram

fun kind_of :: "instrument \<Rightarrow> instrument_kind" where
  "kind_of Cognitive_tokens = Counter"
| "kind_of Reasoning_latency = Histogram"
| "kind_of Retry_count = Counter"
| "kind_of Runtime_health_score = UpDownCounter"
| "kind_of Adaptive_policy_changes = Counter"
| "kind_of Tool_confidence = UpDownCounter"
| "kind_of Context_budget_ratio = UpDownCounter"
| "kind_of Retry_storm_events = Counter"
| "kind_of Delegation_disable_events = Counter"
| "kind_of Session_stability_score = Histogram"

text \<open>The provider that \<open>init_telemetry\<close> builds: the service's name, where spans are sent, and what was handed to the instruments so far.\<close>

type_synonym labels = "(string \<times> string) list"

record provider_state =
  pv_service :: string
  pv_endpoint :: string
  pv_points :: "(instrument \<times> rat \<times> labels) list"

text \<open>The module's variables: \<open>_initialized\<close>, and the tracer, meter and instruments, which are all set or all absent.\<close>

record otel_state =
  ot_initialized :: bool
  ot_provider :: "provider_state option"

definition otel_start :: otel_state where
  "otel_start = \<lparr>ot_initialized = False, ot_provider = None\<rparr>"

type_synonym 'a otel = "(otel_state, exn, 'a) comp"

section \<open>Life cycle\<close>

definition otel_disabled :: "otel_settings \<Rightarrow> bool" where
  "otel_disabled G \<longleftrightarrow> os_sdk_disabled G \<or> lower (os_env_disabled G) = ''true'' \<or> \<not> os_enabled G"

definition new_provider :: "otel_settings \<Rightarrow> provider_state" where
  "new_provider G = \<lparr>pv_service = (if os_service_name G = '''' then (case os_env_service G of None \<Rightarrow> ''ceo-agent'' | Some n \<Rightarrow> n) else os_service_name G),
     pv_endpoint = (if os_endpoint G = '''' then os_env_endpoint G else os_endpoint G), pv_points = []\<rparr>"

definition init_telemetry :: "otel_settings \<Rightarrow> unit otel" where
  "init_telemetry G = bnd (reads ot_initialized) (\<lambda>i.
     if i then ret ()
     else if otel_disabled G then mods (\<lambda>t. t\<lparr>ot_initialized := True\<rparr>)
     else mods (\<lambda>t. t\<lparr>ot_initialized := True, ot_provider := Some (new_provider G)\<rparr>))"

definition shutdown_telemetry :: "unit otel" where
  "shutdown_telemetry = bnd (reads ot_initialized) (\<lambda>i. if \<not> i then ret () else mods (\<lambda>_. otel_start))"

definition add_point :: "instrument \<Rightarrow> rat \<Rightarrow> labels \<Rightarrow> unit otel" where
  "add_point i v ls = mods (\<lambda>t. t\<lparr>ot_provider := map_option (\<lambda>p. p\<lparr>pv_points := pv_points p @ [(i, v, ls)]\<rparr>) (ot_provider t)\<rparr>)"

section \<open>Recording\<close>

definition percent_of :: "rat \<Rightarrow> rat" where
  "percent_of x = of_int (trunc (fmul x 100))"

definition record_cognitive_metrics :: "otel_settings \<Rightarrow> string \<Rightarrow> string \<Rightarrow> int \<Rightarrow> int \<Rightarrow> int \<Rightarrow> unit otel" where
  "record_cognitive_metrics G aid sid tokens latency retries = seqc (init_telemetry G)
     (seqc (add_point Cognitive_tokens (of_int tokens) [(''agent_id'', aid), (''session_id'', sid)])
     (seqc (add_point Reasoning_latency (of_int latency) [(''agent_id'', aid), (''session_id'', sid)])
       (add_point Retry_count (of_int retries) [(''agent_id'', aid), (''session_id'', sid)])))"

definition record_health_score :: "otel_settings \<Rightarrow> rat \<Rightarrow> string \<Rightarrow> unit otel" where
  "record_health_score G x sid = seqc (init_telemetry G) (add_point Runtime_health_score (percent_of x) [(''session_id'', sid)])"

definition record_adaptive_policy_change :: "otel_settings \<Rightarrow> string \<Rightarrow> unit otel" where
  "record_adaptive_policy_change G sid = seqc (init_telemetry G) (add_point Adaptive_policy_changes 1 [(''session_id'', sid)])"

definition record_context_budget_ratio :: "otel_settings \<Rightarrow> rat \<Rightarrow> string \<Rightarrow> unit otel" where
  "record_context_budget_ratio G x sid = seqc (init_telemetry G) (add_point Context_budget_ratio (percent_of x) [(''session_id'', sid)])"

definition record_tool_confidence :: "otel_settings \<Rightarrow> string \<Rightarrow> rat \<Rightarrow> unit otel" where
  "record_tool_confidence G tool x = seqc (init_telemetry G) (add_point Tool_confidence (percent_of x) [(''tool_name'', tool)])"

definition record_retry_storm :: "otel_settings \<Rightarrow> string \<Rightarrow> unit otel" where
  "record_retry_storm G sid = seqc (init_telemetry G) (add_point Retry_storm_events 1 [(''session_id'', sid)])"

definition record_delegation_disable :: "otel_settings \<Rightarrow> string \<Rightarrow> unit otel" where
  "record_delegation_disable G sid = seqc (init_telemetry G) (add_point Delegation_disable_events 1 [(''session_id'', sid)])"

definition record_session_stability_score :: "otel_settings \<Rightarrow> rat \<Rightarrow> string \<Rightarrow> unit otel" where
  "record_session_stability_score G x sid = seqc (init_telemetry G) (add_point Session_stability_score x [(''session_id'', sid)])"

text \<open>What a counter exports under a set of labels.\<close>

definition points_of :: "instrument \<Rightarrow> labels \<Rightarrow> otel_state \<Rightarrow> rat list" where
  "points_of i ls t = (case ot_provider t of None \<Rightarrow> []
     | Some p \<Rightarrow> map (\<lambda>(j, v, l). v) (filter (\<lambda>(j, v, l). j = i \<and> l = ls) (pv_points p)))"

definition exported :: "instrument \<Rightarrow> labels \<Rightarrow> otel_state \<Rightarrow> rat" where
  "exported i ls t = sum_list (points_of i ls t)"

section \<open>Spans\<close>

text \<open>A span of the library: whether its tracer is the real one, its attributes, and whether it has ended and how.\<close>

record otel_span =
  ox_name :: string
  ox_real :: bool
  ox_attributes :: "(string, pyval) dict"
  ox_error :: bool
  ox_ended :: bool

definition start_otel_span :: "otel_settings \<Rightarrow> string \<Rightarrow> string \<Rightarrow> (string, pyval) dict \<Rightarrow> otel_span option otel" where
  "start_otel_span G nm trace attrs = (if os_sdk_disabled G \<or> \<not> os_enabled G then ret None
     else seqc (init_telemetry G) (bnd (reads (\<lambda>t. ot_provider t \<noteq> None)) (\<lambda>real.
       ret (Some \<lparr>ox_name = nm, ox_real = real,
         ox_attributes = dict_set ''trace_id'' (PStr trace) (fold (\<lambda>(k, v). dict_set k v) attrs []), ox_error = False, ox_ended = False\<rparr>))))"

definition end_otel_span :: "otel_span option \<Rightarrow> bool \<Rightarrow> otel_span option" where
  "end_otel_span sp ok = map_option (\<lambda>x. x\<lparr>ox_error := (if ok then ox_error x else True), ox_ended := True\<rparr>) sp"

section \<open>Properties\<close>

lemmas otel_defs = record_cognitive_metrics_def record_health_score_def record_adaptive_policy_change_def record_context_budget_ratio_def
  record_tool_confidence_def record_retry_storm_def record_delegation_disable_def record_session_stability_score_def

lemma init_run: "init_telemetry G t = (Inr (), if ot_initialized t then t
     else t\<lparr>ot_initialized := True, ot_provider := if otel_disabled G then ot_provider t else Some (new_provider G)\<rparr>)"
  by (simp add: init_telemetry_def bnd_def reads_def mods_def ret_def)

lemma init_idempotent: "seqc (init_telemetry G) (init_telemetry G) t = init_telemetry G t"
  by (simp add: seqc_def bnd_def init_run)

lemma add_point_run: "add_point i v ls t =
   (Inr (), t\<lparr>ot_provider := map_option (\<lambda>p. p\<lparr>pv_points := pv_points p @ [(i, v, ls)]\<rparr>) (ot_provider t)\<rparr>)"
  by (simp add: add_point_def mods_def)

text \<open>A recorded point is added to its instrument under its labels and to nothing else.\<close>

definition live :: "otel_state \<Rightarrow> bool" where
  "live t \<longleftrightarrow> ot_initialized t \<and> ot_provider t \<noteq> None"

lemma exported_add:
  assumes "live t" and "add_point i v ls t = (r, t')"
  shows "live t'" and "exported j ls' t' = exported j ls' t + (if j = i \<and> ls' = ls then v else 0)"
  using assms by (auto simp: live_def add_point_run exported_def points_of_def)

lemma live_seqc_init: "live t \<Longrightarrow> seqc (init_telemetry G) m t = m t"
  by (simp add: live_def seqc_def bnd_def init_run)

text \<open>Nothing is recorded when the export is switched off.\<close>

lemma nothing_when_disabled:
  assumes "otel_disabled G" and "ot_provider t = None"
  shows "\<exists>t'. record_health_score G x sid t = (Inr (), t') \<and> ot_provider t' = None"
  using assms by (simp add: record_health_score_def seqc_def bnd_def init_run add_point_run)

text \<open>what the health metric of a session exports: an up-down counter sums what it is given, so after a series of scores the exported
  value is the sum of all of them, not the last: two healthy measurements of a session show as a health of 200.\<close>

theorem health_metric_accumulates:
  assumes "live t" and "for_each xs (\<lambda>x. record_health_score G x sid) t = (r, t')"
  shows "exported Runtime_health_score [(''session_id'', sid)] t' =
    exported Runtime_health_score [(''session_id'', sid)] t + (\<Sum>x\<leftarrow>xs. percent_of x)"
  using assms
proof (induction xs arbitrary: t)
  case Nil
  then show ?case by (simp add: ret_def)
next
  case (Cons x xs)
  obtain r1 t1 where r1: "add_point Runtime_health_score (percent_of x) [(''session_id'', sid)] t = (r1, t1)" by force
  moreover have "r1 = Inr ()" using r1 by (simp add: add_point_run)
  ultimately have "for_each xs (\<lambda>x. record_health_score G x sid) t1 = (r, t')"
    using Cons.prems(2) unfolding for_each.simps seqc_def [of "record_health_score G x sid"]
    by (simp add: record_health_score_def live_seqc_init [OF Cons.prems(1)] bnd_Inr)
  from Cons.IH [OF exported_add(1) [OF Cons.prems(1) r1] this] show ?case
    by (simp add: exported_add(2) [OF Cons.prems(1) r1])
qed

theorem health_metric_accumulates_witness:
  "exported Runtime_health_score [(''session_id'', ''s'')] (snd (for_each [1, 1] (\<lambda>x. record_health_score
     \<lparr>os_sdk_disabled = False, os_enabled = True, os_env_disabled = '''', os_service_name = ''ceo-agent'', os_env_service = None,
       os_endpoint = '''', os_env_endpoint = ''''\<rparr> x ''s'')
     \<lparr>ot_initialized = True, ot_provider = Some \<lparr>pv_service = ''x'', pv_endpoint = '''', pv_points = []\<rparr>\<rparr>)) = 200"
proof -
  let ?G = "\<lparr>os_sdk_disabled = False, os_enabled = True, os_env_disabled = '''', os_service_name = ''ceo-agent'', os_env_service = None,
       os_endpoint = '''', os_env_endpoint = ''''\<rparr>"
  let ?t = "\<lparr>ot_initialized = True, ot_provider = Some \<lparr>pv_service = ''x'', pv_endpoint = '''', pv_points = []\<rparr>\<rparr>"
  obtain r t' where m: "for_each [1, 1] (\<lambda>x. record_health_score ?G x ''s'') ?t = (r, t')" by force
  have "fl 100 = 100" using fl_of_int [of 100] by simp
  then have "percent_of 1 = 100" by (simp add: percent_of_def fmul_def trunc_def)
  then have "exported Runtime_health_score [(''session_id'', ''s'')] t' = 200"
    using health_metric_accumulates [OF _ m] by (simp add: live_def exported_def points_of_def)
  then show ?thesis using m by simp
qed

end
