(* ===== verification/Spec2Isabelle.thy ===== *)
theory Spec2Isabelle
  imports Ui ApprovalRace PgOutbox PgRequests RedisCache Agents Specialists Telemetry
begin

text \<open>
  A verification development for CEO-Agent, a Python service in which language-model agents of a company (CEO, CTO, ...) work for a
  founder under one deterministic orchestrator.  The model follows the source: records for its classes, one definition per function
  or method, exceptions as values, module globals as fields of one process state.

  \<^bold>\<open>The program.\<close>  A founder message arrives by HTTP (\<open>api/main.py\<close>) or through a form (\<open>ui/routes\<close>).  The preprocessor may answer it
  with one tool; otherwise \<open>core/orchestrator.py\<close> runs a request: it takes the lock of the session, derives an adaptive policy from
  the session's history, moves a state machine through its states (each move is persisted), fills a context window, asks the CEO agent (\<open>core/agent_runner.py\<close>
  parses and retries), perhaps delegates to the CTO, who runs tools through \<open>tools/router.py\<close>, and closes the session.  Whatever is
  written goes through \<open>persist_runtime_tx\<close> in \<open>core/transaction.py\<close>: one outbox event under an idempotency key with its records, and at a close
  health, diagnostics and a replay baseline.  Frozen replay re-derives the outcome of a session from what was stored and compares
  fingerprints.  Actions above the approval level are prepared as approvals bound to the hash of the action, and executed after a human
  approved.  Workers hand outbox events on.  Everything runs on an in-memory backend or on Postgres.

  \<^bold>\<open>Theories, from the bottom.\<close>
  \<^item> Prelude: dictionaries in insertion order, slices, stable sorting, the monad \<open>comp\<close> of computations that thread a state and may
    raise (\<open>ret\<close>, \<open>bnd\<close>, \<open>raise\<close>, \<open>catch\<close>, \<open>finally_do\<close>), \<open>keeps\<close> for invariants of a computation, the interface \<open>keyed_table\<close>.
    PyFloat: Python's \<open>float\<close> as rationals rounded to binary64 (\<open>fl\<close>, \<open>fround\<close>), interface \<open>rounding\<close>.  Values: dynamically typed data and
    \<open>core/canonical.py\<close>.
  \<^item> Schemas: the classes of \<open>schemas/\<close>.  RuntimeSM: \<open>core/runtime.py\<close>, interface \<open>lifecycle\<close>.  Rbac: roles, permissions, tokens.
    Policy: \<open>core/policy.py\<close>, \<open>core/adaptive_context.py\<close>.  Adaptive: policy derivation and governance, interface \<open>thresholds\<close>.  Stability:
    loops and retry storms.  Health: runtime health, tool and agent reliability.  Context: the context window.  Spans: \<open>core/spans.py\<close>.
  \<^item> Stores: the in-memory stores and \<open>core/persistence.py\<close> in memory.  System: the process state \<open>sys\<close> and what comes from outside
    (\<open>rt_env\<close>).  Tools: registry, handlers, router, retries, in-memory cache.  RedisCache: \<open>core/cache.py\<close> with Redis.  Replay: frozen and
    live replay, diff and analytics.
  \<^item> Transaction: \<open>core/transaction.py\<close> and what it writes, interface \<open>keyed_log\<close>.  Session: the session lock, interface \<open>lock_table\<close>, and requests
    that interleave.  Approval: \<open>core/approval_service.py\<close>; ApprovalRace: executions of one
    approval that interleave at their tool calls.  AgentRunner: structured output, retries, fallbacks.  Orchestrator:
    \<open>core/orchestrator.py\<close>; Requests: its properties.  Outbox: the worker in memory.
  \<^item> Tables: the Postgres schema as a record of tables and every SQL statement and query as a function on it.  Postgres: computations
    over \<open>sys \<times> pg\<close>, transactions with rollback, the advisory lock, and the Postgres branch of the transaction, the governance store and the
    approval service.  PgClose: closing a session there, and the outbox as a \<open>keyed_log\<close> again.  PgRequests: a request for one
    tool.  PgOutbox: \<open>SKIP LOCKED\<close> batches and any number of workers at once.
  \<^item> Preprocessor, Reports (listing, timeline, diagnostics, summaries, query facade), Api, Ui, Agents (\<open>agents/\<close>, \<open>core/storage.py\<close>),
    Specialists (\<open>experimental/\<close>, \<open>scripts/seed_demo.py\<close>), Telemetry (\<open>core/telemetry/otel.py\<close>).

  \<^bold>\<open>State and operations.\<close>  A global variable of a module is a field of \<open>sys\<close> (\<open>sy_db\<close> for \<open>core/persistence.py\<close>, \<open>sy_gov\<close> for
  \<open>core/governance_store.py\<close>, \<open>sy_replay\<close> for \<open>core/replay_store.py\<close>, \<open>sy_intel\<close> for \<open>core/intelligence_store.py\<close>, \<open>sy_locks\<close> for
  \<open>core/runtime_session.py\<close>, and so on).  A coroutine is a computation on it; the code between two awaits of the in-memory backend runs alone,
  so a request is one computation, and interleaving is stated where requests meet: \<open>lock_step\<close> for session locks, \<open>race_step\<close> for executions of one approval,
  \<open>worker_step\<close> for outbox workers.  An
  object that Python shares (a span) lives in a heap by its id.  The clock and \<open>uuid4\<close> are streams indexed by counters of the state, so every read is
  visible; times are integers of microseconds, and a \<open>datetime\<close> is aware or naive.  On Postgres an SQL statement is a function on tables;
  a record that is written as JSON and read back through its class is stored as itself, raw dictionaries pass through the parameter \<open>pe_jsonb\<close>; rows that an
  \<open>ORDER BY\<close> does not tell apart come in the order of insertion; a transaction runs alone but for the locks that other connections hold.

  \<^bold>\<open>What is shown.\<close>
  \<^item> The ledger: an event and its records are written exactly once per idempotency key and never twice (Transaction, PgClose);
    both backends implement one abstract ledger (\<open>backends_refine_one_ledger\<close>); closing a session leaves a baseline that validates, on both.
  \<^item> Sessions: mutual exclusion, no leaked lock, all or nothing on Postgres.  Requests: a founder request always returns and unlocks; persisted
    transitions refine the state machine and replay; a deterministic tool request whose parameters can be bound closes and replays, on both
    backends; nobody delegates against the policy.
  \<^item> Approvals: executed at most once in memory and committed at most once on Postgres, one at a time however executions interleave
    as long as they name one session, tampered proposals refused, prepared ones pass the guards (but cannot be executed if their parameters
    collide with the tool layer's own); and where the backends differ (expiry, a second approval of one action).
  \<^item> Workers: a batch handles each event once, and the backlog of every outbox that transactions and batches can build is drained; workers
    at once on Postgres count every event once.
  \<^item> Agents: the parser equals a reference, answers are well typed, a run always gives a valid response.  Components: bounds of policies,
    scores and context, span trees, router permissions and its idle approval gate, retry counts, listing pages, the tiers of the preprocessor, login and approval rights.
  \<^item> The other theorems of the theories state smaller facts of the same kind; several state a defect of the program exactly.

  \<^bold>\<open>Bounds and fuel.\<close>  Loops of the source are recursions on their data.  \<open>parse_rounds\<close> counts down the rounds of the source's \<open>for\<close>; \<open>with_retry\<close> counts
  down its attempts, \<open>run_outbox_worker\<close> takes the number of rounds of an endless loop, and its liveness theorem says how many are enough.  No
  other definition has fuel.  \<open>stable_hash\<close> and SHA-256 are parameters: a conclusion that needs different values to have different hashes says so, as a
  disjunct that names the collision or as a hypothesis on the keys concerned.  Concrete environments for witnesses are at the end of the theories.

  \<^bold>\<open>Not modelled.\<close>  The libraries (language models and the \<open>agno\<close> agent class, HTTP, JWT, JSON text, Redis, OpenTelemetry's exporters, asyncpg's wire protocol) are
  parameters with the behaviour that the code relies on.  HTML templates, request objects and the wiring of the web framework are
  left out, as are suffixes of error messages, the reading of the configuration from the environment, \<open>scripts/rrm1_gate_report.py\<close> (it
  runs pytest), and the re-exports of \<open>schemas/__init__.py\<close>.  Two requests of different sessions that interleave inside
  their tools are not modelled but for the executions of one approval, nor are Postgres transactions that overlap at \<open>READ COMMITTED\<close>
  (two executions of one approval under two session ids) apart from the advisory locks and the row locks of the workers.  The orchestrator is modelled on the in-memory backend; of
  its Postgres run the requests for one tool, the transactions, approvals, the degraded-mode test and the replay are modelled.
\<close>

end
